(* ===== verification/Prelude.thy ===== *)
theory Prelude
  imports
    Complex_Main
    "HOL-Library.AList"
    "HOL-Library.Char_ord"
    "HOL-Library.List_Lexorder"
    "HOL-Library.Product_Lexorder"
begin

text \<open>
  What the components share. Python's dictionaries keep insertion order and are association
  lists here, read with \<open>map_of\<close> and written with the library's \<open>AList.update\<close> (replace in
  place or append), which is \<open>d[k] = v\<close>. Python text is a list of characters, one character
  per code point below 256. Exceptions are values of sum types. The theory also holds the
  generic lemmas on dictionaries, counting, least elements under a sort key and text, and the
  locale \<open>transition_system\<close> in which reachability and invariants of every stateful
  component are proved once.
\<close>

named_theorems dict_simps \<open>reading and counting a dictionary after an update\<close>
named_theorems text_simps \<open>facts about stripping and splitting text\<close>

section \<open>Dictionaries\<close>

type_synonym ('k, 'v) dict = "('k \<times> 'v) list"

abbreviation dict_set :: "'k \<Rightarrow> 'v \<Rightarrow> ('k, 'v) dict \<Rightarrow> ('k, 'v) dict" where
  "dict_set k v d \<equiv> AList.update k v d"

abbreviation dict_get :: "('k, 'v) dict \<Rightarrow> 'k \<Rightarrow> 'v option" where
  "dict_get d k \<equiv> map_of d k"

abbreviation dict_values :: "('k, 'v) dict \<Rightarrow> 'v list" where
  "dict_values d \<equiv> map snd d"

abbreviation dict_ok :: "('k, 'v) dict \<Rightarrow> bool" where
  "dict_ok d \<equiv> distinct (map fst d)"

text \<open>\<open>{**a, **b}\<close>: the entries of \<open>b\<close> written over \<open>a\<close>, in order.\<close>

fun dict_merge :: "('k, 'v) dict \<Rightarrow> ('k, 'v) dict \<Rightarrow> ('k, 'v) dict" where
  "dict_merge a [] = a"
| "dict_merge a ((k, v) # b) = dict_merge (dict_set k v a) b"

text \<open>\<open>a == b\<close> on dictionaries: the same keys with equal values, in any order.\<close>

definition dict_eq :: "('k, 'v) dict \<Rightarrow> ('k, 'v) dict \<Rightarrow> bool" where
  "dict_eq a b \<longleftrightarrow> length a = length b \<and> list_all (\<lambda>(k, v). dict_get b k = Some v) a"

text \<open>\<open>sum(1 for x in d.values() if p(x))\<close>\<close>

definition count_values :: "('v \<Rightarrow> bool) \<Rightarrow> ('k, 'v) dict \<Rightarrow> int" where
  "count_values p d = int (length (filter p (dict_values d)))"

text \<open>\<open>sorted(xs, key=f)[0]\<close> for a non-empty list: the stable sort's first element.\<close>

definition first_by :: "('a \<Rightarrow> 'b::linorder) \<Rightarrow> 'a list \<Rightarrow> 'a option" where
  "first_by f xs = (case sort_key f xs of [] \<Rightarrow> None | x # _ \<Rightarrow> Some x)"

section \<open>Text\<close>

text \<open>
  \<open>str.isspace\<close> for code points below 256: the separators and controls Python's
  \<open>str.strip\<close> removes.
\<close>

definition is_space :: "char \<Rightarrow> bool" where
  "is_space c \<longleftrightarrow> (let n = (of_char c :: nat) in
     (9 \<le> n \<and> n \<le> 13) \<or> (28 \<le> n \<and> n \<le> 32) \<or> n = 133 \<or> n = 160)"

definition py_strip :: "string \<Rightarrow> string" where
  "py_strip s = rev (dropWhile is_space (rev (dropWhile is_space s)))"

section \<open>Dictionary lemmas\<close>

lemma dict_get_set [dict_simps]: "dict_get (dict_set k v d) = (dict_get d)(k \<mapsto> v)"
  by (rule update_conv')

lemma dict_ok_set [intro, simp]: "dict_ok d \<Longrightarrow> dict_ok (dict_set k v d)"
  by (rule distinct_update)

lemma dict_keys_set: "fst ` set (dict_set k v d) = insert k (fst ` set d)"
  by (simp add: dom_update)

lemma dict_get_merge: "dict_get (dict_merge a b) k = (case dict_get (rev b) k of None \<Rightarrow> dict_get a k | Some v \<Rightarrow> Some v)"
proof (induction a b rule: dict_merge.induct)
  case (1 a)
  then show ?case by simp
next
  case (2 a k' v b)
  then show ?case by (auto simp: update_conv' map_add_def split: option.splits)
qed

lemma dict_eq_refl [simp]: "dict_ok a \<Longrightarrow> dict_eq a a"
  by (auto simp: dict_eq_def list_all_iff)

lemma dict_eq_map_of:
  assumes "dict_ok a" "dict_ok b"
  shows "dict_eq a b \<longleftrightarrow> dict_get a = dict_get b"
proof
  assume eq: "dict_eq a b"
  then have sub: "set a \<subseteq> set b" and len: "length a = length b"
    by (auto simp: dict_eq_def list_all_iff dest: map_of_SomeD)
  have "card (set a) = card (set b)"
    using assms len by (simp add: distinct_card distinct_map)
  with sub have "set a = set b" by (simp add: card_subset_eq)
  with assms show "dict_get a = dict_get b" by (simp add: map_of_inject_set)
next
  assume eq: "dict_get a = dict_get b"
  with assms have "set a = set b" by (simp add: map_of_inject_set)
  moreover from this assms have "length a = length b"
    by (metis distinct_card distinct_map)
  ultimately show "dict_eq a b" using assms by (auto simp: dict_eq_def list_all_iff)
qed

lemma count_values_nonneg [simp]: "0 \<le> count_values p d"
  by (simp add: count_values_def)

lemma count_values_Nil [simp]: "count_values p [] = 0"
  by (simp add: count_values_def)

lemma count_values_Cons:
  "count_values p ((k, v) # d) = (if p v then 1 else 0) + count_values p d"
  by (simp add: count_values_def)

lemma count_values_set_new [dict_simps]:
  "dict_get d k = None \<Longrightarrow>
    count_values p (dict_set k v d) = count_values p d + (if p v then 1 else 0)"
  by (induction d) (auto simp: count_values_Cons split: if_splits)

lemma count_values_set_old [dict_simps]:
  "dict_get d k = Some u \<Longrightarrow>
    count_values p (dict_set k v d) =
      count_values p d - (if p u then 1 else 0) + (if p v then 1 else 0)"
  by (induction d) (auto simp: count_values_Cons split: if_splits)

lemma count_values_pos:
  "dict_get d k = Some v \<Longrightarrow> p v \<Longrightarrow> 0 < count_values p d"
  by (induction d) (auto simp: count_values_Cons add_pos_nonneg split: if_splits)

lemma count_values_zero:
  "(\<And>k v. dict_get d k = Some v \<Longrightarrow> \<not> p v) \<Longrightarrow> dict_ok d \<Longrightarrow> count_values p d = 0"
  by (auto simp: count_values_def filter_empty_conv)

lemma dict_value_get: "dict_ok d \<Longrightarrow> v \<in> set (dict_values d) \<Longrightarrow> \<exists>k. dict_get d k = Some v"
  by auto

lemma dict_get_value: "dict_get d k = Some v \<Longrightarrow> v \<in> set (dict_values d)"
  by (force dest: map_of_SomeD)

lemma dict_get_item: "dict_get d k = Some v \<Longrightarrow> (k, v) \<in> set d"
  by (rule map_of_SomeD)

text \<open>From here on a dictionary is read through \<open>dict_get\<close> only.\<close>

declare map_of_eq_Some_iff [simp del] Some_eq_map_of_iff [simp del]

section \<open>Least elements under a sort key\<close>

lemma first_by_None [simp]: "first_by f xs = None \<longleftrightarrow> xs = []"
  by (auto simp: first_by_def split: list.splits)
    (metis length_0_conv length_sort)

lemma first_by_Some:
  assumes "first_by f xs = Some x"
  shows "x \<in> set xs" and "\<And>y. y \<in> set xs \<Longrightarrow> f x \<le> f y"
proof -
  from assms obtain ys where ys: "sort_key f xs = x # ys"
    by (auto simp: first_by_def split: list.splits)
  have set: "set xs = insert x (set ys)"
    by (metis list.simps(15) set_sort ys)
  then show "x \<in> set xs" by simp
  have "sorted (map f (x # ys))"
    by (metis sorted_sort_key ys)
  then show "\<And>y. y \<in> set xs \<Longrightarrow> f x \<le> f y"
    using set by auto
qed

section \<open>Text lemmas\<close>

lemma dropWhile_dropWhile_same [simp]: "dropWhile p (dropWhile p xs) = dropWhile p xs"
  by (induction xs) auto

lemma hd_dropWhile_rev:
  "dropWhile p xs = xs \<Longrightarrow> dropWhile p (rev (dropWhile p (rev xs))) = rev (dropWhile p (rev xs))"
proof (cases xs)
  case Nil
  then show ?thesis by simp
next
  case (Cons x ys)
  assume "dropWhile p xs = xs"
  with Cons have x: "\<not> p x"
    by (metis dropWhile_eq_Cons_conv dropWhile_eq_self_iff list.sel(1) list.simps(3))
  then have "rev (dropWhile p (rev xs)) = x # rev (dropWhile p (rev ys))"
    using Cons by (auto simp: dropWhile_append)
  with x show ?thesis by auto
qed

lemma py_strip_idem [simp, text_simps]: "py_strip (py_strip s) = py_strip s"
  unfolding py_strip_def
  by (simp add: hd_dropWhile_rev)

lemma py_strip_Nil [simp]: "py_strip [] = []"
  by (simp add: py_strip_def)

section \<open>Transition systems\<close>

text \<open>
  A stateful component is a step function on its state and the operations its environment calls.
  \<open>run\<close> performs a list of operations; \<open>admissible\<close> says that each is allowed where it happens.
\<close>

primrec run :: "('s \<Rightarrow> 'o \<Rightarrow> 's) \<Rightarrow> 's \<Rightarrow> 'o list \<Rightarrow> 's" where
  "run step s [] = s"
| "run step s (x # xs) = run step (step s x) xs"

primrec admissible :: "('s \<Rightarrow> 'o \<Rightarrow> bool) \<Rightarrow> ('s \<Rightarrow> 'o \<Rightarrow> 's) \<Rightarrow> 's \<Rightarrow> 'o list \<Rightarrow> bool" where
  "admissible allowed step s [] = True"
| "admissible allowed step s (x # xs) = (allowed s x \<and> admissible allowed step (step s x) xs)"

lemma run_append: "run step s (xs @ ys) = run step (run step s xs) ys"
  by (induction xs arbitrary: s) auto

lemma admissible_append:
  "admissible allowed step s (xs @ ys) \<longleftrightarrow>
     admissible allowed step s xs \<and> admissible allowed step (run step s xs) ys"
  by (induction xs arbitrary: s) auto

text \<open>The contract of a component with an invariant, and what it gives for whole runs.\<close>

locale transition_system =
  fixes step :: "'s \<Rightarrow> 'o \<Rightarrow> 's"
    and allowed :: "'s \<Rightarrow> 'o \<Rightarrow> bool"
    and inv :: "'s \<Rightarrow> bool"
  assumes step_inv: "inv s \<Longrightarrow> allowed s x \<Longrightarrow> inv (step s x)"
begin

lemma run_inv: "inv s \<Longrightarrow> admissible allowed step s xs \<Longrightarrow> inv (run step s xs)"
  by (induction xs arbitrary: s) (auto intro: step_inv)

end

text \<open>A relation between the states before and after that every step respects, on runs.\<close>

locale monotone_system = transition_system +
  fixes rel :: "'a \<Rightarrow> 'a \<Rightarrow> bool"
  assumes rel_refl: "inv s \<Longrightarrow> rel s s"
    and rel_trans: "rel s t \<Longrightarrow> rel t u \<Longrightarrow> rel s u"
    and step_rel: "inv s \<Longrightarrow> allowed s x \<Longrightarrow> rel s (step s x)"
begin

lemma run_rel: "inv s \<Longrightarrow> admissible allowed step s xs \<Longrightarrow> rel s (run step s xs)"
proof (induction xs arbitrary: s)
  case Nil
  then show ?case by (simp add: rel_refl)
next
  case (Cons x xs)
  then have "rel s (step s x)" "rel (step s x) (run step (step s x) xs)"
    by (auto intro: step_rel step_inv)
  then show ?case by (auto intro: rel_trans)
qed

end

end
