(* ===== verification/Py_Values.thy ===== *)
theory Py_Values
  imports Prelude
begin

text \<open>
  The Python values the components exchange: the exceptions the code raises, decimal text
  (\<open>int(text)\<close>, \<open>str(n)\<close>, \<open>str.partition\<close>, \<open>str.splitlines\<close>, \<open>str.split\<close>) and the JSON
  values that cross the transport, with Python's truth value, equality and \<open>int()\<close> on them.
\<close>

section \<open>Exceptions\<close>

text \<open>
  What a check complains about; the text is the field or the name the message carries.
\<close>

datatype issue =
    Must_not_be_blank string
  | Contains_blank string
  | Contains_duplicates string
  | Must_not_be_negative string
  | Must_be_positive string
  | Inconsistent string
  | Malformed string
  | Wrong_type string
  | Required string

text \<open>
  The exception classes of the validators. \<open>Unmodelled\<close> is not an exception of the code: it
  marks a conversion this development does not model (the text of a float or of a container),
  so that nothing is claimed about it.
\<close>

datatype py_exc =
    ValueError issue
  | TypeError issue
  | KeyError string
  | OverflowError
  | AttributeError
  | RuntimeError issue
  | Unmodelled

type_synonym 'a res = "py_exc + 'a"

text \<open>Sequencing: the first exception ends the computation.\<close>

definition rbind :: "'e + 'a \<Rightarrow> ('a \<Rightarrow> 'e + 'b) \<Rightarrow> 'e + 'b" where
  "rbind m f = (case m of Inl e \<Rightarrow> Inl e | Inr x \<Rightarrow> f x)"

text \<open>\<open>[f(x) for x in xs]\<close> where \<open>f\<close> may raise.\<close>

fun rmap :: "('a \<Rightarrow> 'e + 'b) \<Rightarrow> 'a list \<Rightarrow> 'e + 'b list" where
  "rmap f [] = Inr []"
| "rmap f (x # xs) = (case f x of Inl e \<Rightarrow> Inl e
     | Inr y \<Rightarrow> (case rmap f xs of Inl e \<Rightarrow> Inl e | Inr ys \<Rightarrow> Inr (y # ys)))"

section \<open>Decimal text\<close>

definition is_digit :: "char \<Rightarrow> bool" where
  "is_digit c \<longleftrightarrow> (let n = (of_char c :: nat) in 48 \<le> n \<and> n \<le> 57)"

definition digit_value :: "char \<Rightarrow> nat" where
  "digit_value c = of_char c - 48"

definition digit_char :: "nat \<Rightarrow> char" where
  "digit_char n = char_of (48 + n)"

fun show_nat :: "nat \<Rightarrow> string" where
  "show_nat n = (if n < 10 then [digit_char n] else show_nat (n div 10) @ [digit_char (n mod 10)])"

declare show_nat.simps [simp del]

definition read_nat :: "string \<Rightarrow> nat" where
  "read_nat s = foldl (\<lambda>a c. 10 * a + digit_value c) 0 s"

text \<open>
  \<open>int(text)\<close>: surrounding white space, an optional sign, then digits; Python also takes single
  underscores between digits.
\<close>

fun digits_ok :: "string \<Rightarrow> bool" where
  "digits_ok [] = False"
| "digits_ok [c] = is_digit c"
| "digits_ok (c # d # s) =
     (if is_digit c then (if d = CHR ''_'' then digits_ok s else digits_ok (d # s)) else False)"

definition parse_int :: "string \<Rightarrow> int option" where
  "parse_int s = (let t = py_strip s;
     neg = (t \<noteq> [] \<and> hd t = CHR ''-'');
     body = (if t \<noteq> [] \<and> (hd t = CHR ''-'' \<or> hd t = CHR ''+'') then tl t else t)
     in if digits_ok body
        then Some ((if neg then -1 else 1) * int (read_nat (filter is_digit body)))
        else None)"

text \<open>\<open>s.partition(c)\<close> for a one-character separator.\<close>

definition py_partition :: "char \<Rightarrow> string \<Rightarrow> string \<times> bool \<times> string" where
  "py_partition c s =
     (takeWhile (\<lambda>x. x \<noteq> c) s, c \<in> set s, drop 1 (dropWhile (\<lambda>x. x \<noteq> c) s))"

text \<open>\<open>s.split(c)\<close> for a one-character separator: all the pieces, empty ones included.\<close>

fun py_split :: "char \<Rightarrow> string \<Rightarrow> string list" where
  "py_split c [] = [[]]"
| "py_split c (x # s) = (if x = c then [] # py_split c s
     else (case py_split c s of [] \<Rightarrow> [[x]] | p # ps \<Rightarrow> (x # p) # ps))"

text \<open>
  \<open>s.splitlines()\<close>: line feed, carriage return (with a following line feed), vertical tab, form
  feed, the file/group/record separators and next-line end a line; a final end is not followed by
  an empty line.
\<close>

definition is_line_end :: "char \<Rightarrow> bool" where
  "is_line_end c \<longleftrightarrow> (let n = (of_char c :: nat) in
     (10 \<le> n \<and> n \<le> 13) \<or> (28 \<le> n \<and> n \<le> 30) \<or> n = 133)"

fun splitlines_acc :: "string \<Rightarrow> string \<Rightarrow> string list" where
  "splitlines_acc acc [] = (if acc = [] then [] else [rev acc])"
| "splitlines_acc acc [c] = (if is_line_end c then [rev acc] else [rev (c # acc)])"
| "splitlines_acc acc (c # d # s) =
     (if of_char c = (13::nat) \<and> of_char d = (10::nat) then rev acc # splitlines_acc [] s
      else if is_line_end c then rev acc # splitlines_acc [] (d # s)
      else splitlines_acc (c # acc) (d # s))"

definition py_splitlines :: "string \<Rightarrow> string list" where
  "py_splitlines s = splitlines_acc [] s"

text \<open>\<open>s.split()\<close>: the maximal runs of non-space characters.\<close>

fun words_acc :: "string \<Rightarrow> string \<Rightarrow> string list" where
  "words_acc acc [] = (if acc = [] then [] else [rev acc])"
| "words_acc acc (c # s) =
     (if is_space c then (if acc = [] then words_acc [] s else rev acc # words_acc [] s)
      else words_acc (c # acc) s)"

definition py_words :: "string \<Rightarrow> string list" where
  "py_words s = words_acc [] s"

section \<open>Dates\<close>

text \<open>
  A \<open>datetime\<close> is its wall-clock reading in microseconds, with the offset from UTC when it is
  timezone-aware. An \<open>instant\<close> is a UTC reading; \<open>timedelta(seconds=n)\<close> is \<open>n * 1000000\<close>.
\<close>

type_synonym instant = int

datatype py_datetime = Naive int | Aware int int

definition seconds :: "int \<Rightarrow> int" where
  "seconds n = n * 1000000"

section \<open>JSON values\<close>

datatype py_float = Finite rat | Pos_Inf | Neg_Inf | Not_A_Number

datatype json =
    JNull
  | JBool bool
  | JInt int
  | JFloat py_float
  | JStr string
  | JList "json list"
  | JObj "(string \<times> json) list"

type_synonym obj = "(string, json) dict"

text \<open>\<open>bool(x)\<close>\<close>

fun py_truthy :: "json \<Rightarrow> bool" where
  "py_truthy JNull = False"
| "py_truthy (JBool b) = b"
| "py_truthy (JInt n) = (n \<noteq> 0)"
| "py_truthy (JFloat x) = (x \<noteq> Finite 0)"
| "py_truthy (JStr s) = (s \<noteq> [])"
| "py_truthy (JList xs) = (xs \<noteq> [])"
| "py_truthy (JObj d) = (d \<noteq> [])"

text \<open>The number a value is, for \<open>==\<close>: booleans are 0 and 1, not-a-number equals nothing.\<close>

fun py_num :: "json \<Rightarrow> py_float option" where
  "py_num (JBool b) = Some (Finite (if b then 1 else 0))"
| "py_num (JInt n) = Some (Finite (of_int n))"
| "py_num (JFloat x) = (if x = Not_A_Number then None else Some x)"
| "py_num _ = None"

text \<open>
  \<open>a == b\<close>. Dictionaries are equal when they have the same keys with equal values; the order of
  the entries does not matter.
\<close>

fun py_eq :: "json \<Rightarrow> json \<Rightarrow> bool"
  and py_eq_list :: "json list \<Rightarrow> json list \<Rightarrow> bool"
  and py_eq_items :: "(string \<times> json) list \<Rightarrow> (string \<times> json) list \<Rightarrow> bool" where
  "py_eq JNull y = (y = JNull)"
| "py_eq (JBool b) y = (py_num y = py_num (JBool b))"
| "py_eq (JInt n) y = (py_num y = py_num (JInt n))"
| "py_eq (JFloat f) y = (f \<noteq> Not_A_Number \<and> py_num y = Some f)"
| "py_eq (JStr s) y = (y = JStr s)"
| "py_eq (JList xs) y = (case y of JList ys \<Rightarrow> py_eq_list xs ys | _ \<Rightarrow> False)"
| "py_eq (JObj a) y = (case y of JObj b \<Rightarrow> length a = length b \<and> py_eq_items a b | _ \<Rightarrow> False)"
| "py_eq_list [] ys = (ys = [])"
| "py_eq_list (x # xs) ys = (case ys of [] \<Rightarrow> False | y # ys' \<Rightarrow> py_eq x y \<and> py_eq_list xs ys')"
| "py_eq_items [] b = True"
| "py_eq_items ((k, v) # a) b =
     ((case map_of b k of None \<Rightarrow> False | Some w \<Rightarrow> py_eq v w) \<and> py_eq_items a b)"

text \<open>\<open>dict(a) == dict(b)\<close>\<close>

definition obj_eq :: "obj \<Rightarrow> obj \<Rightarrow> bool" where
  "obj_eq a b = py_eq (JObj a) (JObj b)"

text \<open>Values that compare equal to themselves: no not-a-number, distinct keys.\<close>

fun json_ok :: "json \<Rightarrow> bool" where
  "json_ok (JFloat f) = (f \<noteq> Not_A_Number)"
| "json_ok (JList xs) = list_all json_ok xs"
| "json_ok (JObj d) = (dict_ok d \<and> list_all (\<lambda>p. json_ok (snd p)) d)"
| "json_ok _ = True"

definition obj_ok :: "obj \<Rightarrow> bool" where
  "obj_ok d = json_ok (JObj d)"

text \<open>\<open>int(x)\<close>\<close>

fun py_int :: "json \<Rightarrow> int res" where
  "py_int (JInt n) = Inr n"
| "py_int (JBool b) = Inr (if b then 1 else 0)"
| "py_int (JFloat f) = (case f of
     Finite q \<Rightarrow> Inr (if q < 0 then \<lceil>q\<rceil> else \<lfloor>q\<rfloor>)
   | Not_A_Number \<Rightarrow> Inl (ValueError (Malformed ''int''))
   | _ \<Rightarrow> Inl OverflowError)"
| "py_int (JStr s) = (case parse_int s of None \<Rightarrow> Inl (ValueError (Malformed ''int'')) | Some n \<Rightarrow> Inr n)"
| "py_int _ = Inl (TypeError (Wrong_type ''int''))"

text \<open>\<open>str(x)\<close>; the text of a float or a container is not modelled.\<close>

fun py_str :: "json \<Rightarrow> string res" where
  "py_str (JStr s) = Inr s"
| "py_str JNull = Inr ''None''"
| "py_str (JBool b) = Inr (if b then ''True'' else ''False'')"
| "py_str (JInt n) = Inr (if n < 0 then CHR ''-'' # show_nat (nat (- n)) else show_nat (nat n))"
| "py_str _ = Inl Unmodelled"

text \<open>\<open>x < 0\<close>\<close>

fun py_negative :: "json \<Rightarrow> bool res" where
  "py_negative (JInt n) = Inr (n < 0)"
| "py_negative (JBool b) = Inr False"
| "py_negative (JFloat f) = Inr (case f of Finite q \<Rightarrow> q < 0 | Neg_Inf \<Rightarrow> True | _ \<Rightarrow> False)"
| "py_negative _ = Inl (TypeError (Wrong_type ''<''))"

text \<open>
  \<open>dict(value or {})\<close>: a false value is the empty dictionary; a text is no sequence of pairs and a
  number no iterable; a non-empty list may or may not be a list of pairs, which is not modelled.
\<close>

fun as_mapping :: "json \<Rightarrow> obj res" where
  "as_mapping (JObj d) = Inr d"
| "as_mapping (JList xs) = (if xs = [] then Inr [] else Inl Unmodelled)"
| "as_mapping (JStr s) = (if s = [] then Inr [] else Inl (ValueError (Malformed ''dict'')))"
| "as_mapping v = (if py_truthy v then Inl (TypeError (Wrong_type ''dict'')) else Inr [])"

section \<open>Lemmas\<close>

lemma rbind_Inr [simp]: "rbind (Inr x) f = f x"
  by (simp add: rbind_def)

lemma rbind_Inl [simp]: "rbind (Inl e) f = Inl e"
  by (simp add: rbind_def)

lemma rbind_eq_Inr: "rbind m f = Inr y \<longleftrightarrow> (\<exists>x. m = Inr x \<and> f x = Inr y)"
  by (cases m) auto

lemma rmap_Inr:
  "rmap f xs = Inr ys \<longleftrightarrow> list_all2 (\<lambda>x y. f x = Inr y) xs ys"
  by (induction xs arbitrary: ys)
    (auto simp: list_all2_Cons1 split: sum.splits, metis sum.inject(2))

lemma rmap_id: "(\<And>x. x \<in> set xs \<Longrightarrow> f x = Inr x) \<Longrightarrow> rmap f xs = Inr xs"
  by (induction xs) auto

lemma digit_value_char: "n < 10 \<Longrightarrow> digit_value (digit_char n) = n"
  by (simp add: digit_value_def digit_char_def)

lemma is_digit_char: "n < 10 \<Longrightarrow> is_digit (digit_char n)"
  by (simp add: is_digit_def digit_char_def Let_def)

lemma show_nat_digits: "list_all is_digit (show_nat n)"
proof (induction n rule: show_nat.induct)
  case (1 n)
  then show ?case
    by (cases "n < 10") (auto simp: show_nat.simps [of n] is_digit_char)
qed

lemma show_nat_nonempty [simp]: "show_nat n \<noteq> []"
  by (subst show_nat.simps) simp

lemma read_nat_snoc: "read_nat (s @ [c]) = 10 * read_nat s + digit_value c"
  by (simp add: read_nat_def)

lemma read_show_nat [simp]: "read_nat (show_nat n) = n"
proof (induction n rule: show_nat.induct)
  case (1 n)
  show ?case
  proof (cases "n < 10")
    case True
    then show ?thesis
      by (simp add: show_nat.simps [of n] read_nat_def digit_value_char)
  next
    case False
    with 1 have "read_nat (show_nat (n div 10)) = n div 10" by simp
    with False show ?thesis
      by (simp add: show_nat.simps [of n] read_nat_snoc digit_value_char)
  qed
qed

lemma digit_not_space: "is_digit c \<Longrightarrow> \<not> is_space c"
  by (simp add: is_digit_def is_space_def Let_def)

lemma py_strip_no_space: "list_all (\<lambda>c. \<not> is_space c) s \<Longrightarrow> py_strip s = s"
  by (simp add: py_strip_def list_all_iff dropWhile_eq_self_iff)
    (metis dropWhile_eq_self_iff hd_in_set rev_is_Nil_conv rev_rev_ident set_rev)

lemma py_split_no_sep: "c \<notin> set s \<Longrightarrow> py_split c s = [s]"
  by (induction s) auto

lemma py_split_nonempty [simp]: "py_split c s \<noteq> []"
  by (cases s) (auto split: list.splits)

lemma py_split_append:
  "c \<notin> set s \<Longrightarrow> py_split c (s @ c # t) = s # py_split c t"
  by (induction s) auto

lemma line_end_space: "is_line_end c \<Longrightarrow> is_space c"
  by (auto simp: is_line_end_def is_space_def Let_def)

text \<open>Lines that hold no line end, each ended by a line feed, are read back.\<close>

lemma splitlines_acc_line:
  "list_all (\<lambda>c. \<not> is_line_end c) l \<Longrightarrow>
    splitlines_acc acc (l @ CHR 0x0A # rest) = (rev acc @ l) # splitlines_acc [] rest"
proof (induction l arbitrary: acc)
  case Nil
  then show ?case by (cases rest) (simp_all add: is_line_end_def)
next
  case (Cons c l)
  have "of_char c \<noteq> (13::nat)" using Cons.prems by (auto simp: is_line_end_def Let_def)
  with Cons show ?case by (cases "l @ CHR 0x0A # rest") auto
qed

lemma py_splitlines_lines:
  "list_all (list_all (\<lambda>c. \<not> is_line_end c)) ls \<Longrightarrow> py_splitlines (concat (map (\<lambda>l. l @ [CHR 0x0A]) ls)) = ls"
  by (induction ls) (simp_all add: py_splitlines_def splitlines_acc_line)

lemma py_eq_list_refl: "(\<And>x. x \<in> set xs \<Longrightarrow> py_eq x x) \<Longrightarrow> py_eq_list xs xs"
  by (induction xs) auto

lemma py_eq_items_all:
  "py_eq_items a b \<longleftrightarrow> (\<forall>(k, v) \<in> set a. \<exists>w. map_of b k = Some w \<and> py_eq v w)"
  by (induction a) (auto split: option.splits)

lemma py_eq_refl: "json_ok x \<Longrightarrow> py_eq x x"
proof (induction x)
  case (JFloat f)
  then show ?case by (cases f) auto
next
  case (JList xs)
  then show ?case by (auto simp: list_all_iff intro: py_eq_list_refl)
next
  case (JObj d)
  then show ?case by (fastforce simp: py_eq_items_all list_all_iff)
qed auto

lemma obj_eq_refl: "obj_ok d \<Longrightarrow> obj_eq d d"
  by (simp add: obj_ok_def obj_eq_def py_eq_refl del: json_ok.simps py_eq.simps)

end
