(* ===== verification/Contracts.thy ===== *)
theory Contracts
  imports Py_Values
begin

text \<open>
  \<open>src/src/astrumweaver/contracts.py\<close>: the worker and job resource contracts. A frozen
  dataclass is a record, and its \<open>__post_init__\<close> a function from the raw field values to the
  validated record or the exception it raises, checks in the order of the source. A frozenset is
  a set, a mapping of labels a dictionary. The lemmas show that a constructed value satisfies its
  type invariant and that constructing it again from its own fields changes nothing.
\<close>

section \<open>Normalisation helpers\<close>

definition require_nonblank :: "string \<Rightarrow> string \<Rightarrow> string res" where
  "require_nonblank value field_name = (let normalized = py_strip value in
     if normalized = [] then Inl (ValueError (Must_not_be_blank field_name)) else Inr normalized)"

text \<open>The \<open>values\<close> argument of \<open>_unique_strings\<close>: one string, an iterable, or nothing.\<close>

datatype str_values = Single string | Many "string list" | Missing

fun raw_values :: "str_values \<Rightarrow> string list" where
  "raw_values (Single s) = [s]"
| "raw_values (Many xs) = xs"
| "raw_values Missing = []"

text \<open>The loop: \<open>normalized\<close> holds the items so far, and the same items are the set \<open>seen\<close>.\<close>

fun unique_strings_loop :: "string \<Rightarrow> string list \<Rightarrow> string list \<Rightarrow> string list res" where
  "unique_strings_loop field_name normalized [] = Inr normalized"
| "unique_strings_loop field_name normalized (value # rest) = (let item = py_strip value in
     if item = [] then Inl (ValueError (Contains_blank field_name))
     else if item \<in> set normalized then Inl (ValueError (Contains_duplicates field_name))
     else unique_strings_loop field_name (normalized @ [item]) rest)"

definition unique_strings :: "str_values \<Rightarrow> string \<Rightarrow> string list res" where
  "unique_strings values field_name = unique_strings_loop field_name [] (raw_values values)"

text \<open>The pattern \<open>^[0-9]+(?:\.[0-9]+)?$\<close> on the whole text.\<close>

definition compute_capability_re :: "string \<Rightarrow> bool" where
  "compute_capability_re s = (case py_partition (CHR ''.'') s of (a, sep, b) \<Rightarrow>
     a \<noteq> [] \<and> list_all is_digit a \<and> (sep \<longrightarrow> b \<noteq> [] \<and> list_all is_digit b))"

definition normalize_compute_capability :: "string \<Rightarrow> string res" where
  "normalize_compute_capability value = (let s = py_strip value in
     if s = [] \<or> \<not> compute_capability_re s then Inl (ValueError (Malformed ''compute capability''))
     else (case py_partition (CHR ''.'') s of (major_text, separator, minor_text) \<Rightarrow>
       Inr (show_nat (read_nat major_text) @ [CHR ''.''] @
            show_nat (if separator then read_nat minor_text else 0))))"

definition compute_capability_key :: "string \<Rightarrow> (nat \<times> nat) res" where
  "compute_capability_key value = rbind (normalize_compute_capability value) (\<lambda>normalized.
     (case py_partition (CHR ''.'') normalized of (major_text, _, minor_text) \<Rightarrow>
       Inr (read_nat major_text, read_nat minor_text)))"

fun normalize_labels_loop :: "(string, string) dict \<Rightarrow> (string, string) dict \<Rightarrow> (string, string) dict res" where
  "normalize_labels_loop normalized [] = Inr normalized"
| "normalize_labels_loop normalized ((raw_key, raw_value) # rest) =
     (let key = py_strip raw_key; value = py_strip raw_value in
      if key = [] \<or> value = [] then Inl (ValueError (Must_not_be_blank ''labels''))
      else normalize_labels_loop (dict_set key value normalized) rest)"

definition normalize_labels :: "(string, string) dict \<Rightarrow> (string, string) dict res" where
  "normalize_labels labels = normalize_labels_loop [] labels"

section \<open>AcceleratorDevice\<close>

record accelerator_device =
  ad_uuid :: string
  ad_memory_mb :: int
  ad_compute_capability :: "string option"
  ad_device_class :: "string option"

text \<open>The memory argument is any value: a boolean or a non-integer is refused.\<close>

definition mk_accelerator_device ::
  "string \<Rightarrow> json \<Rightarrow> string option \<Rightarrow> string option \<Rightarrow> accelerator_device res" where
  "mk_accelerator_device uuid memory_mb compute_capability device_class =
     rbind (require_nonblank uuid ''accelerator uuid'') (\<lambda>uuid'.
     (case memory_mb of
        JInt m \<Rightarrow>
          if m \<le> 0 then Inl (ValueError (Must_be_positive ''accelerator memory_mb''))
          else rbind (case compute_capability of None \<Rightarrow> Inr None
               | Some c \<Rightarrow> rbind (normalize_compute_capability c) (\<lambda>n. Inr (Some n))) (\<lambda>cc.
            Inr \<lparr>ad_uuid = uuid', ad_memory_mb = m, ad_compute_capability = cc,
                 ad_device_class = (case device_class of None \<Rightarrow> None
                   | Some d \<Rightarrow> let value = py_strip d in if value = [] then None else Some value)\<rparr>)
      | _ \<Rightarrow> Inl (TypeError (Wrong_type ''accelerator memory_mb''))))"

section \<open>ResourceShape\<close>

record resource_shape =
  gpu_count :: int
  total_vram_mb :: int
  max_single_gpu_vram_mb :: int

definition mk_resource_shape :: "int \<Rightarrow> int \<Rightarrow> int \<Rightarrow> resource_shape res" where
  "mk_resource_shape count tot single =
     (if count < 0 then Inl (ValueError (Must_not_be_negative ''gpu_count''))
      else if tot < 0 then Inl (ValueError (Must_not_be_negative ''total_vram_mb''))
      else if single < 0 then Inl (ValueError (Must_not_be_negative ''max_single_gpu_vram_mb''))
      else if count = 0 then
        (if tot \<noteq> 0 \<or> single \<noteq> 0 then Inl (ValueError (Inconsistent ''gpu_count''))
         else Inr \<lparr>gpu_count = count, total_vram_mb = tot, max_single_gpu_vram_mb = single\<rparr>)
      else if tot \<le> 0 then Inl (ValueError (Must_be_positive ''total_vram_mb''))
      else if single \<le> 0 then Inl (ValueError (Must_be_positive ''max_single_gpu_vram_mb''))
      else if single > tot then Inl (ValueError (Inconsistent ''max_single_gpu_vram_mb''))
      else Inr \<lparr>gpu_count = count, total_vram_mb = tot, max_single_gpu_vram_mb = single\<rparr>)"

section \<open>WorkerSpec\<close>

record worker_spec =
  ws_worker_id :: string
  ws_worker_class :: string
  ws_resources :: resource_shape
  ws_gpu_uuids :: "string list"
  ws_accelerators :: "accelerator_device list"
  ws_capabilities :: "string set"
  ws_labels :: "(string, string) dict"

definition mk_worker_spec ::
  "string \<Rightarrow> string \<Rightarrow> resource_shape \<Rightarrow> str_values \<Rightarrow> accelerator_device list \<Rightarrow> str_values
    \<Rightarrow> (string, string) dict \<Rightarrow> worker_spec res" where
  "mk_worker_spec worker_id worker_class resources gpu_uuids accelerators capabilities labels =
     rbind (require_nonblank worker_id ''worker_id'') (\<lambda>wid.
     rbind (require_nonblank worker_class ''worker_class'') (\<lambda>wclass.
     rbind (unique_strings gpu_uuids ''gpu_uuids'') (\<lambda>gpus.
     rbind (unique_strings capabilities ''capabilities'') (\<lambda>caps.
     rbind (normalize_labels labels) (\<lambda>labs.
     if int (length gpus) \<noteq> gpu_count resources
     then Inl (ValueError (Inconsistent ''gpu_uuids''))
     else if accelerators \<noteq> [] \<and> int (length accelerators) \<noteq> gpu_count resources
     then Inl (ValueError (Inconsistent ''accelerators''))
     else if accelerators \<noteq> [] \<and> map ad_uuid accelerators \<noteq> gpus
     then Inl (ValueError (Inconsistent ''accelerator UUID order''))
     else if accelerators \<noteq> [] \<and> sum_list (map ad_memory_mb accelerators) \<noteq> total_vram_mb resources
     then Inl (ValueError (Inconsistent ''accelerator memory sum''))
     else if accelerators \<noteq> [] \<and> Max (set (map ad_memory_mb accelerators)) \<noteq> max_single_gpu_vram_mb resources
     then Inl (ValueError (Inconsistent ''accelerator max memory''))
     else Inr \<lparr>ws_worker_id = wid, ws_worker_class = wclass, ws_resources = resources,
               ws_gpu_uuids = gpus, ws_accelerators = accelerators,
               ws_capabilities = set caps, ws_labels = labs\<rparr>)))))"

text \<open>
  \<open>==\<close> on worker specifications, field by field; the labels compare as dictionaries.
\<close>

definition worker_spec_eq :: "worker_spec \<Rightarrow> worker_spec \<Rightarrow> bool" where
  "worker_spec_eq a b \<longleftrightarrow>
     ws_worker_id a = ws_worker_id b \<and> ws_worker_class a = ws_worker_class b \<and>
     ws_resources a = ws_resources b \<and> ws_gpu_uuids a = ws_gpu_uuids b \<and>
     ws_accelerators a = ws_accelerators b \<and> ws_capabilities a = ws_capabilities b \<and>
     dict_eq (ws_labels a) (ws_labels b)"

section \<open>JobRequirements\<close>

record job_requirements =
  jr_worker_class :: "string option"
  jr_required_capabilities :: "string set"
  jr_required_labels :: "(string, string) dict"
  jr_required_gpu_uuids :: "string set"
  jr_min_gpu_count :: int
  jr_min_total_vram_mb :: int
  jr_min_single_gpu_vram_mb :: int

definition mk_job_requirements ::
  "string option \<Rightarrow> str_values \<Rightarrow> (string, string) dict \<Rightarrow> str_values \<Rightarrow> int \<Rightarrow> int \<Rightarrow> int
    \<Rightarrow> job_requirements res" where
  "mk_job_requirements worker_class capabilities labels gpu_uuids count tot single =
     rbind (case worker_class of None \<Rightarrow> Inr None
            | Some c \<Rightarrow> rbind (require_nonblank c ''worker_class'') (\<lambda>n. Inr (Some n))) (\<lambda>wclass.
     rbind (unique_strings capabilities ''required_capabilities'') (\<lambda>caps.
     rbind (unique_strings gpu_uuids ''required_gpu_uuids'') (\<lambda>gpus.
     rbind (normalize_labels labels) (\<lambda>labs.
     if count < 0 then Inl (ValueError (Must_not_be_negative ''min_gpu_count''))
     else if tot < 0 then Inl (ValueError (Must_not_be_negative ''min_total_vram_mb''))
     else if single < 0 then Inl (ValueError (Must_not_be_negative ''min_single_gpu_vram_mb''))
     else Inr \<lparr>jr_worker_class = wclass, jr_required_capabilities = set caps,
               jr_required_labels = labs, jr_required_gpu_uuids = set gpus,
               jr_min_gpu_count = count, jr_min_total_vram_mb = tot,
               jr_min_single_gpu_vram_mb = single\<rparr>))))"

definition job_requirements_eq :: "job_requirements \<Rightarrow> job_requirements \<Rightarrow> bool" where
  "job_requirements_eq a b \<longleftrightarrow>
     jr_worker_class a = jr_worker_class b \<and>
     jr_required_capabilities a = jr_required_capabilities b \<and>
     dict_eq (jr_required_labels a) (jr_required_labels b) \<and>
     jr_required_gpu_uuids a = jr_required_gpu_uuids b \<and>
     jr_min_gpu_count a = jr_min_gpu_count b \<and>
     jr_min_total_vram_mb a = jr_min_total_vram_mb b \<and>
     jr_min_single_gpu_vram_mb a = jr_min_single_gpu_vram_mb b"

section \<open>Type invariants\<close>

text \<open>A normalised text: not blank, with no surrounding white space.\<close>

definition norm_text :: "string \<Rightarrow> bool" where
  "norm_text s \<longleftrightarrow> s \<noteq> [] \<and> py_strip s = s"

definition labels_ok :: "(string, string) dict \<Rightarrow> bool" where
  "labels_ok d \<longleftrightarrow> dict_ok d \<and> (\<forall>(k, v) \<in> set d. norm_text k \<and> norm_text v)"

definition resource_shape_ok :: "resource_shape \<Rightarrow> bool" where
  "resource_shape_ok r \<longleftrightarrow>
     (gpu_count r = 0 \<and> total_vram_mb r = 0 \<and> max_single_gpu_vram_mb r = 0) \<or>
     (0 < gpu_count r \<and> 0 < max_single_gpu_vram_mb r \<and> max_single_gpu_vram_mb r \<le> total_vram_mb r)"

definition worker_spec_ok :: "worker_spec \<Rightarrow> bool" where
  "worker_spec_ok s \<longleftrightarrow>
     norm_text (ws_worker_id s) \<and> norm_text (ws_worker_class s) \<and>
     distinct (ws_gpu_uuids s) \<and> (\<forall>u \<in> set (ws_gpu_uuids s). norm_text u) \<and>
     finite (ws_capabilities s) \<and> (\<forall>c \<in> ws_capabilities s. norm_text c) \<and>
     labels_ok (ws_labels s) \<and>
     int (length (ws_gpu_uuids s)) = gpu_count (ws_resources s) \<and>
     (ws_accelerators s \<noteq> [] \<longrightarrow>
        map ad_uuid (ws_accelerators s) = ws_gpu_uuids s \<and>
        sum_list (map ad_memory_mb (ws_accelerators s)) = total_vram_mb (ws_resources s) \<and>
        Max (set (map ad_memory_mb (ws_accelerators s))) = max_single_gpu_vram_mb (ws_resources s))"

definition job_requirements_ok :: "job_requirements \<Rightarrow> bool" where
  "job_requirements_ok r \<longleftrightarrow>
     (\<forall>c. jr_worker_class r = Some c \<longrightarrow> norm_text c) \<and>
     finite (jr_required_capabilities r) \<and> (\<forall>c \<in> jr_required_capabilities r. norm_text c) \<and>
     finite (jr_required_gpu_uuids r) \<and> (\<forall>u \<in> jr_required_gpu_uuids r. norm_text u) \<and>
     labels_ok (jr_required_labels r) \<and>
     0 \<le> jr_min_gpu_count r \<and> 0 \<le> jr_min_total_vram_mb r \<and> 0 \<le> jr_min_single_gpu_vram_mb r"

section \<open>Lemmas\<close>

lemma require_nonblank_Inr: "require_nonblank v f = Inr n \<longleftrightarrow> n = py_strip v \<and> norm_text n"
  by (auto simp: require_nonblank_def norm_text_def Let_def)

lemma require_nonblank_norm [simp]: "norm_text v \<Longrightarrow> require_nonblank v f = Inr v"
  by (auto simp: require_nonblank_Inr norm_text_def)

lemma unique_strings_loop_Inr:
  "unique_strings_loop f acc xs = Inr ys \<longleftrightarrow>
     ys = acc @ map py_strip xs \<and> (\<forall>x \<in> set xs. py_strip x \<noteq> []) \<and>
     distinct (map py_strip xs) \<and> set acc \<inter> set (map py_strip xs) = {}"
  by (induction xs arbitrary: acc) (auto simp: Let_def)

lemma unique_strings_Inr:
  "unique_strings v f = Inr ys \<longleftrightarrow>
     ys = map py_strip (raw_values v) \<and> distinct ys \<and> (\<forall>y \<in> set ys. norm_text y)"
  unfolding unique_strings_def unique_strings_loop_Inr norm_text_def
  by (auto, metis)

lemma unique_strings_norm:
  assumes "distinct xs" "\<forall>x \<in> set xs. norm_text x"
  shows "unique_strings (Many xs) f = Inr xs"
proof -
  have "map py_strip xs = xs" using assms by (auto simp: norm_text_def intro: map_idI)
  with assms show ?thesis by (simp add: unique_strings_Inr)
qed

lemma dict_set_items: "set (dict_set k v d) \<subseteq> insert (k, v) (set d)"
  by (induction d) auto

lemma normalize_labels_loop_ok:
  "normalize_labels_loop acc xs = Inr ys \<Longrightarrow> labels_ok acc \<Longrightarrow> labels_ok ys"
proof (induction acc xs arbitrary: ys rule: normalize_labels_loop.induct)
  case (1 acc)
  then show ?case by simp
next
  case (2 acc k v rest)
  from "2.prems"(1) have ne: "py_strip k \<noteq> []" "py_strip v \<noteq> []"
    and loop: "normalize_labels_loop (dict_set (py_strip k) (py_strip v) acc) rest = Inr ys"
    by (auto simp: Let_def split: if_splits)
  have "labels_ok (dict_set (py_strip k) (py_strip v) acc)"
    using "2.prems"(2) ne dict_set_items [of "py_strip k" "py_strip v" acc]
    by (fastforce simp: labels_ok_def norm_text_def)
  with "2.IH" [OF refl refl] ne loop show ?case by simp
qed

lemma normalize_labels_ok: "normalize_labels xs = Inr ys \<Longrightarrow> labels_ok ys"
  unfolding normalize_labels_def
  by (erule normalize_labels_loop_ok) (simp add: labels_ok_def)

lemma dict_set_append_new: "k \<notin> fst ` set d \<Longrightarrow> dict_set k v d = d @ [(k, v)]"
  by (induction d) auto

lemma normalize_labels_loop_norm:
  "labels_ok (acc @ xs) \<Longrightarrow> normalize_labels_loop acc xs = Inr (acc @ xs)"
proof (induction xs arbitrary: acc)
  case Nil
  then show ?case by simp
next
  case (Cons p xs)
  obtain k v where p: "p = (k, v)" by (cases p)
  with Cons.prems have "norm_text k" "norm_text v" and "k \<notin> fst ` set acc"
    by (auto simp: labels_ok_def)
  with Cons p show ?case
    by (simp add: norm_text_def dict_set_append_new)
qed

lemma normalize_labels_norm [simp]: "labels_ok xs \<Longrightarrow> normalize_labels xs = Inr xs"
  using normalize_labels_loop_norm [of "[]" xs] by (simp add: normalize_labels_def)

lemma mk_resource_shape_Inr:
  "mk_resource_shape c t s = Inr r \<longleftrightarrow>
     r = \<lparr>gpu_count = c, total_vram_mb = t, max_single_gpu_vram_mb = s\<rparr> \<and> resource_shape_ok r"
  by (auto simp: mk_resource_shape_def resource_shape_ok_def)

lemma mk_worker_spec_ok:
  assumes "mk_worker_spec i c r g a caps l = Inr s"
  shows "worker_spec_ok s"
  using assms
  by (auto simp: mk_worker_spec_def rbind_eq_Inr require_nonblank_Inr unique_strings_Inr
      worker_spec_ok_def split: if_splits dest: normalize_labels_ok)

lemma mk_job_requirements_ok:
  assumes "mk_job_requirements c caps l g n t v = Inr r"
  shows "job_requirements_ok r"
  using assms
  by (auto simp: mk_job_requirements_def rbind_eq_Inr require_nonblank_Inr unique_strings_Inr
      job_requirements_ok_def split: if_splits option.splits dest: normalize_labels_ok)

lemma mk_worker_spec_again:
  assumes ok: "worker_spec_ok s" and caps: "set cs = ws_capabilities s" "distinct cs"
  shows "mk_worker_spec (ws_worker_id s) (ws_worker_class s) (ws_resources s)
           (Many (ws_gpu_uuids s)) (ws_accelerators s) (Many cs) (ws_labels s) = Inr s"
proof -
  have "unique_strings (Many cs) ''capabilities'' = Inr cs"
    using ok caps by (intro unique_strings_norm) (auto simp: worker_spec_ok_def)
  moreover have "unique_strings (Many (ws_gpu_uuids s)) ''gpu_uuids'' = Inr (ws_gpu_uuids s)"
    using ok by (intro unique_strings_norm) (auto simp: worker_spec_ok_def)
  moreover have "ws_accelerators s \<noteq> [] \<longrightarrow>
      int (length (ws_accelerators s)) = gpu_count (ws_resources s)"
    using ok by (metis length_map worker_spec_ok_def)
  ultimately show ?thesis
    using ok caps by (auto simp: mk_worker_spec_def worker_spec_ok_def)
qed

lemma mk_job_requirements_again:
  assumes ok: "job_requirements_ok r"
    and caps: "set cs = jr_required_capabilities r" "distinct cs"
    and gpus: "set gs = jr_required_gpu_uuids r" "distinct gs"
  shows "mk_job_requirements (jr_worker_class r) (Many cs) (jr_required_labels r) (Many gs)
           (jr_min_gpu_count r) (jr_min_total_vram_mb r) (jr_min_single_gpu_vram_mb r) = Inr r"
proof -
  have "unique_strings (Many cs) ''required_capabilities'' = Inr cs"
    using ok caps by (intro unique_strings_norm) (auto simp: job_requirements_ok_def)
  moreover have "unique_strings (Many gs) ''required_gpu_uuids'' = Inr gs"
    using ok gpus by (intro unique_strings_norm) (auto simp: job_requirements_ok_def)
  ultimately show ?thesis
    using ok caps gpus
    by (auto simp: mk_job_requirements_def job_requirements_ok_def split: option.splits)
qed

lemma worker_spec_eq_refl: "worker_spec_ok s \<Longrightarrow> worker_spec_eq s s"
  by (simp add: worker_spec_eq_def worker_spec_ok_def labels_ok_def)

lemma worker_spec_eq_gpus: "worker_spec_eq a b \<Longrightarrow> ws_gpu_uuids a = ws_gpu_uuids b"
  by (simp add: worker_spec_eq_def)

lemma job_requirements_eq_refl: "job_requirements_ok r \<Longrightarrow> job_requirements_eq r r"
  by (simp add: job_requirements_eq_def job_requirements_ok_def labels_ok_def)

lemma digits_no_dot: "list_all is_digit s \<Longrightarrow> CHR ''.'' \<notin> set s"
  by (auto simp: list_all_iff is_digit_def)

lemma py_partition_dot:
  "c \<notin> set a \<Longrightarrow> py_partition c (a @ c # b) = (a, True, b)"
  by (simp add: py_partition_def takeWhile_append dropWhile_append)

lemma normalize_compute_capability_shape:
  assumes "normalize_compute_capability v = Inr n"
  obtains major minor where "n = show_nat major @ [CHR ''.''] @ show_nat minor"
  using assms by (auto simp: normalize_compute_capability_def Let_def split: if_splits prod.splits)

lemma normalize_compute_capability_canonical:
  "normalize_compute_capability (show_nat a @ [CHR ''.''] @ show_nat b) =
     Inr (show_nat a @ [CHR ''.''] @ show_nat b)"
proof -
  let ?s = "show_nat a @ CHR ''.'' # show_nat b"
  have part: "py_partition (CHR ''.'') ?s = (show_nat a, True, show_nat b)"
    using show_nat_digits by (intro py_partition_dot digits_no_dot)
  have "list_all (\<lambda>c. \<not> is_space c) ?s"
    using show_nat_digits [of a] show_nat_digits [of b]
    by (auto simp: list_all_iff dest: digit_not_space) (simp add: is_space_def)
  then have "py_strip ?s = ?s" by (rule py_strip_no_space)
  with part show ?thesis
    using show_nat_digits [of a] show_nat_digits [of b]
    by (simp add: normalize_compute_capability_def compute_capability_re_def)
qed

lemma compute_capability_key_canonical:
  "compute_capability_key (show_nat a @ [CHR ''.''] @ show_nat b) = Inr (a, b)"
proof -
  have "py_partition (CHR ''.'') (show_nat a @ CHR ''.'' # show_nat b) = (show_nat a, True, show_nat b)"
    using show_nat_digits by (intro py_partition_dot digits_no_dot)
  then show ?thesis
    using normalize_compute_capability_canonical [of a b]
    by (simp add: compute_capability_key_def)
qed

end
