(* ===== verification/Execution.thy ===== *)
theory Execution
  imports Py_Values
begin

text \<open>
  \<open>src/src/astrumweaver/execution.py\<close>: the executor-facing values. The optional fields of an
  artifact arrive from JSON unchecked, so their raw values are JSON values, with \<open>JNull\<close> for
  \<open>None\<close>; calling \<open>strip\<close> on a value that is no text raises \<open>AttributeError\<close>.
\<close>

definition nonblank :: "string \<Rightarrow> string \<Rightarrow> string res" where
  "nonblank value field_name = (let normalized = py_strip value in
     if normalized = [] then Inl (ValueError (Must_not_be_blank field_name)) else Inr normalized)"

text \<open>\<open>if v is not None: v = _nonblank(v, field)\<close>\<close>

fun optional_nonblank :: "json \<Rightarrow> string \<Rightarrow> string option res" where
  "optional_nonblank JNull field_name = Inr None"
| "optional_nonblank (JStr s) field_name = rbind (nonblank s field_name) (\<lambda>n. Inr (Some n))"
| "optional_nonblank _ field_name = Inl AttributeError"

section \<open>ArtifactRef\<close>

record artifact_ref =
  ar_uri :: string
  ar_media_type :: "string option"
  ar_digest :: "string option"
  ar_size_bytes :: json
  ar_name :: "string option"
  ar_metadata :: obj

definition mk_artifact_ref :: "string \<Rightarrow> json \<Rightarrow> json \<Rightarrow> json \<Rightarrow> json \<Rightarrow> json \<Rightarrow> artifact_ref res" where
  "mk_artifact_ref uri media_type digest size_bytes name metadata =
     rbind (nonblank uri ''uri'') (\<lambda>u.
     rbind (optional_nonblank media_type ''media_type'') (\<lambda>mt.
     rbind (optional_nonblank digest ''digest'') (\<lambda>dg.
     rbind (optional_nonblank name ''name'') (\<lambda>nm.
     rbind (if size_bytes = JNull then Inr False else py_negative size_bytes) (\<lambda>neg.
     if neg then Inl (ValueError (Must_not_be_negative ''size_bytes''))
     else rbind (as_mapping metadata) (\<lambda>md.
       Inr \<lparr>ar_uri = u, ar_media_type = mt, ar_digest = dg, ar_size_bytes = size_bytes,
            ar_name = nm, ar_metadata = md\<rparr>))))))"

section \<open>JobRequest\<close>

record job_request =
  rq_job_id :: string
  rq_capability :: string
  rq_payload :: obj
  rq_metadata :: obj

definition mk_job_request :: "string \<Rightarrow> string \<Rightarrow> obj \<Rightarrow> obj \<Rightarrow> job_request res" where
  "mk_job_request job_id capability payload metadata =
     rbind (nonblank job_id ''job_id'') (\<lambda>jid.
     rbind (nonblank capability ''capability'') (\<lambda>cap.
     Inr \<lparr>rq_job_id = jid, rq_capability = cap, rq_payload = payload, rq_metadata = metadata\<rparr>))"

section \<open>JobResult\<close>

record job_result =
  re_outputs :: obj
  re_artifacts :: "artifact_ref list"
  re_metrics :: obj
  re_text :: "string option"
  re_metadata :: obj

text \<open>The loop over the metrics: keys are non-blank, values numbers and not booleans.\<close>

fun check_metrics :: "obj \<Rightarrow> unit res" where
  "check_metrics [] = Inr ()"
| "check_metrics ((key, value) # rest) =
     (if py_strip key = [] then Inl (ValueError (Must_not_be_blank ''metrics''))
      else case value of
        JInt _ \<Rightarrow> check_metrics rest
      | JFloat _ \<Rightarrow> check_metrics rest
      | _ \<Rightarrow> Inl (TypeError (Wrong_type ''metric values'')))"

definition mk_job_result ::
  "json \<Rightarrow> artifact_ref list \<Rightarrow> json \<Rightarrow> json \<Rightarrow> json \<Rightarrow> job_result res" where
  "mk_job_result outputs artifacts metrics txt metadata =
     rbind (as_mapping outputs) (\<lambda>outs.
     rbind (as_mapping metrics) (\<lambda>mets.
     rbind (as_mapping metadata) (\<lambda>md.
     rbind (case txt of JNull \<Rightarrow> Inr None | JStr s \<Rightarrow> Inr (Some s)
            | _ \<Rightarrow> Inl (TypeError (Wrong_type ''text''))) (\<lambda>t.
     rbind (check_metrics mets) (\<lambda>_.
       Inr \<lparr>re_outputs = outs, re_artifacts = artifacts, re_metrics = mets, re_text = t,
            re_metadata = md\<rparr>)))))"

section \<open>ResidencyItem and ResidencyReport\<close>

record residency_item =
  ri_name :: string
  ri_kind :: string
  ri_accelerator_memory_bytes :: "int option"
  ri_metadata :: obj

definition mk_residency_item :: "string \<Rightarrow> string \<Rightarrow> int option \<Rightarrow> obj \<Rightarrow> residency_item res" where
  "mk_residency_item name kind memory metadata =
     rbind (nonblank name ''name'') (\<lambda>n.
     rbind (nonblank kind ''kind'') (\<lambda>k.
     if (case memory of Some b \<Rightarrow> b < 0 | None \<Rightarrow> False)
     then Inl (ValueError (Must_not_be_negative ''accelerator_memory_bytes''))
     else Inr \<lparr>ri_name = n, ri_kind = k, ri_accelerator_memory_bytes = memory, ri_metadata = metadata\<rparr>))"

record residency_report =
  rr_items :: "residency_item list"
  rr_observed_at :: instant
  rr_metadata :: obj

definition mk_residency_report :: "residency_item list \<Rightarrow> py_datetime \<Rightarrow> obj \<Rightarrow> residency_report res" where
  "mk_residency_report items observed_at metadata = (case observed_at of
     Naive _ \<Rightarrow> Inl (ValueError (Malformed ''observed_at''))
   | Aware reading offset \<Rightarrow>
       Inr \<lparr>rr_items = items, rr_observed_at = reading - offset, rr_metadata = metadata\<rparr>)"

text \<open>The property \<open>accelerator_memory_bytes\<close>: \<open>None\<close> and 0 both count as 0.\<close>

definition accelerator_memory_bytes :: "residency_report \<Rightarrow> int" where
  "accelerator_memory_bytes r =
     sum_list (map (\<lambda>i. case ri_accelerator_memory_bytes i of None \<Rightarrow> 0 | Some b \<Rightarrow> b) (rr_items r))"

section \<open>Lemmas\<close>

fun is_number :: "json \<Rightarrow> bool" where
  "is_number (JInt _) = True"
| "is_number (JFloat _) = True"
| "is_number _ = False"

definition job_result_ok :: "job_result \<Rightarrow> bool" where
  "job_result_ok r \<longleftrightarrow> (\<forall>(k, v) \<in> set (re_metrics r). py_strip k \<noteq> [] \<and> is_number v)"

definition residency_item_ok :: "residency_item \<Rightarrow> bool" where
  "residency_item_ok i \<longleftrightarrow> (case ri_accelerator_memory_bytes i of None \<Rightarrow> True | Some b \<Rightarrow> 0 \<le> b)"

lemma check_metrics_Inr:
  "check_metrics d = Inr () \<longleftrightarrow> (\<forall>(k, v) \<in> set d. py_strip k \<noteq> [] \<and> is_number v)"
proof (induction d)
  case Nil
  then show ?case by simp
next
  case (Cons p d)
  obtain k v where "p = (k, v)" by (cases p)
  with Cons show ?case by (cases v) auto
qed

lemma mk_job_result_ok: "mk_job_result outs arts mets t md = Inr r \<Longrightarrow> job_result_ok r"
  by (auto simp: mk_job_result_def rbind_eq_Inr job_result_ok_def check_metrics_Inr)

lemma mk_residency_item_ok: "mk_residency_item n k m md = Inr i \<Longrightarrow> residency_item_ok i"
  by (auto simp: mk_residency_item_def rbind_eq_Inr residency_item_ok_def split: option.splits if_splits)

lemma accelerator_memory_bytes_nonneg:
  "list_all residency_item_ok (rr_items r) \<Longrightarrow> 0 \<le> accelerator_memory_bytes r"
  unfolding accelerator_memory_bytes_def
  by (rule sum_list_nonneg) (auto simp: list_all_iff residency_item_ok_def split: option.splits)

end
