(* ===== verification/Models.thy ===== *)
theory Models
  imports Contracts Execution
begin

text \<open>
  \<open>src/src/astrumweaver/control/models.py\<close>: the durable domain records of the control plane, with
  the checks of their constructors. Times are instants (UTC microseconds).
\<close>

datatype job_status = QUEUED | RUNNING | SUCCEEDED | FAILED | CANCELLED

datatype worker_state = ONLINE | DRAINING | OFFLINE

fun job_status_value :: "job_status \<Rightarrow> string" where
  "job_status_value QUEUED = ''queued''"
| "job_status_value RUNNING = ''running''"
| "job_status_value SUCCEEDED = ''succeeded''"
| "job_status_value FAILED = ''failed''"
| "job_status_value CANCELLED = ''cancelled''"

fun worker_state_value :: "worker_state \<Rightarrow> string" where
  "worker_state_value ONLINE = ''online''"
| "worker_state_value DRAINING = ''draining''"
| "worker_state_value OFFLINE = ''offline''"

text \<open>\<open>JobStatus(text)\<close> and \<open>WorkerState(text)\<close>\<close>

definition job_status_of :: "string \<Rightarrow> job_status res" where
  "job_status_of s =
     (if s = ''queued'' then Inr QUEUED else if s = ''running'' then Inr RUNNING
      else if s = ''succeeded'' then Inr SUCCEEDED else if s = ''failed'' then Inr FAILED
      else if s = ''cancelled'' then Inr CANCELLED else Inl (ValueError (Malformed ''JobStatus'')))"

definition worker_state_of :: "string \<Rightarrow> worker_state res" where
  "worker_state_of s =
     (if s = ''online'' then Inr ONLINE else if s = ''draining'' then Inr DRAINING
      else if s = ''offline'' then Inr OFFLINE else Inl (ValueError (Malformed ''WorkerState'')))"

definition terminal :: "job_status \<Rightarrow> bool" where
  "terminal s \<longleftrightarrow> s = SUCCEEDED \<or> s = FAILED \<or> s = CANCELLED"

record worker_registration =
  reg_spec :: worker_spec
  reg_max_concurrency :: int
  reg_metadata :: obj

definition mk_worker_registration :: "worker_spec \<Rightarrow> int \<Rightarrow> obj \<Rightarrow> worker_registration res" where
  "mk_worker_registration spec max_concurrency metadata =
     (if max_concurrency < 1 then Inl (ValueError (Must_be_positive ''max_concurrency''))
      else Inr \<lparr>reg_spec = spec, reg_max_concurrency = max_concurrency, reg_metadata = metadata\<rparr>)"

record worker_heartbeat =
  hb_state :: "worker_state option"
  hb_active_job_id :: "string option"
  hb_lease_token :: "string option"
  hb_metadata :: obj

record worker_record =
  wr_spec :: worker_spec
  wr_max_concurrency :: int
  wr_state :: worker_state
  wr_active_jobs :: int
  wr_registered_at :: instant
  wr_last_seen_at :: instant
  wr_metadata :: obj

abbreviation wr_worker_id :: "worker_record \<Rightarrow> string" where
  "wr_worker_id w \<equiv> ws_worker_id (wr_spec w)"

record job_submission =
  sub_capability :: string
  sub_payload :: obj
  sub_requirements :: job_requirements
  sub_priority :: int
  sub_max_attempts :: int
  sub_idempotency_key :: "string option"
  sub_available_at :: "instant option"

definition mk_job_submission ::
  "string \<Rightarrow> obj \<Rightarrow> job_requirements \<Rightarrow> int \<Rightarrow> int \<Rightarrow> string option \<Rightarrow> py_datetime option
    \<Rightarrow> job_submission res" where
  "mk_job_submission capability payload req priority max_attempts key available_at =
     (let cap = py_strip capability in
      if cap = [] then Inl (ValueError (Must_not_be_blank ''capability''))
      else if max_attempts < 1 then Inl (ValueError (Must_be_positive ''max_attempts''))
      else if (case key of Some k \<Rightarrow> py_strip k = [] | None \<Rightarrow> False)
      then Inl (ValueError (Must_not_be_blank ''idempotency_key''))
      else (case available_at of
          Some (Naive _) \<Rightarrow> Inl (ValueError (Malformed ''available_at''))
        | _ \<Rightarrow> Inr \<lparr>sub_capability = cap, sub_payload = payload, sub_requirements = req,
             sub_priority = priority, sub_max_attempts = max_attempts, sub_idempotency_key = key,
             sub_available_at = (case available_at of Some (Aware t off) \<Rightarrow> Some (t - off) | _ \<Rightarrow> None)\<rparr>))"

record job_record =
  jb_job_id :: string
  jb_capability :: string
  jb_payload :: obj
  jb_requirements :: job_requirements
  jb_priority :: int
  jb_sequence :: int
  jb_status :: job_status
  jb_attempts :: int
  jb_max_attempts :: int
  jb_idempotency_key :: "string option"
  jb_created_at :: instant
  jb_available_at :: instant
  jb_updated_at :: instant
  jb_assigned_worker_id :: "string option"
  jb_lease_token :: "string option"
  jb_lease_expires_at :: "instant option"
  jb_started_at :: "instant option"
  jb_finished_at :: "instant option"
  jb_result :: "job_result option"
  jb_error :: "obj option"

section \<open>Validity of the values the constructors let through\<close>

definition registration_ok :: "worker_registration \<Rightarrow> bool" where
  "registration_ok g \<longleftrightarrow> worker_spec_ok (reg_spec g) \<and> 1 \<le> reg_max_concurrency g"

definition submission_ok :: "job_submission \<Rightarrow> bool" where
  "submission_ok s \<longleftrightarrow> norm_text (sub_capability s) \<and> 1 \<le> sub_max_attempts s \<and>
     sub_idempotency_key s \<noteq> Some []"

lemma mk_worker_registration_ok:
  "mk_worker_registration spec m md = Inr g \<Longrightarrow> worker_spec_ok spec \<Longrightarrow> registration_ok g"
  by (auto simp: mk_worker_registration_def registration_ok_def split: if_splits)

lemma mk_job_submission_ok: "mk_job_submission c p r pr m k a = Inr s \<Longrightarrow> submission_ok s"
  by (auto simp: mk_job_submission_def submission_ok_def norm_text_def Let_def
      split: if_splits option.splits py_datetime.splits)

lemma job_status_of_value [simp]: "job_status_of (job_status_value s) = Inr s"
  by (cases s) (simp_all add: job_status_of_def)

lemma worker_state_of_value [simp]: "worker_state_of (worker_state_value s) = Inr s"
  by (cases s) (simp_all add: worker_state_of_def)

lemma not_terminal_cases: "\<not> terminal s \<Longrightarrow> s = QUEUED \<or> s = RUNNING"
  by (cases s) (auto simp: terminal_def)

end
