(* ===== verification/Scheduling.thy ===== *)
theory Scheduling
  imports Contracts
begin

text \<open>
  \<open>src/src/astrumweaver/scheduling.py\<close>: the pure matcher of a worker against the requirements of
  a job. It collects one reason for every requirement that fails, in the order of the source; a
  worker matches when there is none.
\<close>

record match_result =
  matched :: bool
  reasons :: "string list"

definition label_reasons :: "worker_spec \<Rightarrow> (string, string) dict \<Rightarrow> string list" where
  "label_reasons worker labels =
     map (\<lambda>(key, value). ''label:'' @ key)
       (filter (\<lambda>(key, value). dict_get (ws_labels worker) key \<noteq> Some value) labels)"

definition match_worker :: "worker_spec \<Rightarrow> job_requirements \<Rightarrow> match_result" where
  "match_worker worker req = (let
     resources = ws_resources worker;
     found =
       (case jr_worker_class req of
          None \<Rightarrow> []
        | Some c \<Rightarrow> if c \<noteq> [] \<and> ws_worker_class worker \<noteq> c then [''worker_class''] else []) @
       (if \<not> jr_required_capabilities req \<subseteq> ws_capabilities worker then [''capabilities''] else []) @
       label_reasons worker (jr_required_labels req) @
       (if \<not> jr_required_gpu_uuids req \<subseteq> set (ws_gpu_uuids worker) then [''gpu_uuids''] else []) @
       (if gpu_count resources < jr_min_gpu_count req then [''gpu_count''] else []) @
       (if total_vram_mb resources < jr_min_total_vram_mb req then [''total_vram_mb''] else []) @
       (if max_single_gpu_vram_mb resources < jr_min_single_gpu_vram_mb req
        then [''max_single_gpu_vram_mb''] else [])
     in \<lparr>matched = (found = []), reasons = found\<rparr>)"

definition worker_matches :: "worker_spec \<Rightarrow> job_requirements \<Rightarrow> bool" where
  "worker_matches worker req = matched (match_worker worker req)"

section \<open>The contract: every requirement, conjunctively\<close>

definition satisfies :: "worker_spec \<Rightarrow> job_requirements \<Rightarrow> bool" where
  "satisfies w r \<longleftrightarrow>
     (\<forall>c. jr_worker_class r = Some c \<longrightarrow> c = [] \<or> ws_worker_class w = c) \<and>
     jr_required_capabilities r \<subseteq> ws_capabilities w \<and>
     (\<forall>(k, v) \<in> set (jr_required_labels r). dict_get (ws_labels w) k = Some v) \<and>
     jr_required_gpu_uuids r \<subseteq> set (ws_gpu_uuids w) \<and>
     jr_min_gpu_count r \<le> gpu_count (ws_resources w) \<and>
     jr_min_total_vram_mb r \<le> total_vram_mb (ws_resources w) \<and>
     jr_min_single_gpu_vram_mb r \<le> max_single_gpu_vram_mb (ws_resources w)"

lemma label_reasons_Nil:
  "label_reasons w ls = [] \<longleftrightarrow> (\<forall>(k, v) \<in> set ls. dict_get (ws_labels w) k = Some v)"
  by (auto simp: label_reasons_def filter_empty_conv)

lemma worker_matches_satisfies: "worker_matches w r \<longleftrightarrow> satisfies w r"
  by (auto simp: worker_matches_def match_worker_def satisfies_def label_reasons_Nil Let_def
      split: option.splits)

lemma matched_iff_no_reasons: "matched (match_worker w r) \<longleftrightarrow> reasons (match_worker w r) = []"
  by (simp add: match_worker_def Let_def)

text \<open>
  A worker is matched exactly when it satisfies every requirement of the job: class,
  capabilities, each label, pinned GPUs and the three resource minima; the verdict is positive
  exactly when no reason is reported, and a failing label is reported under its own key.
\<close>

theorem match_worker_conjunctive:
  "(matched (match_worker w r) \<longleftrightarrow> satisfies w r) \<and>
   (matched (match_worker w r) \<longleftrightarrow> reasons (match_worker w r) = []) \<and>
   (\<forall>(k, v) \<in> set (jr_required_labels r).
      dict_get (ws_labels w) k \<noteq> Some v \<longrightarrow> ''label:'' @ k \<in> set (reasons (match_worker w r)))"
proof -
  have "''label:'' @ k \<in> set (reasons (match_worker w r))"
    if "(k, v) \<in> set (jr_required_labels r)" "dict_get (ws_labels w) k \<noteq> Some v" for k v
  proof -
    have "''label:'' @ k \<in> set (label_reasons w (jr_required_labels r))"
      using that unfolding label_reasons_def set_map set_filter by force
    then show ?thesis unfolding match_worker_def Let_def by auto
  qed
  then show ?thesis
    using worker_matches_satisfies [of w r] matched_iff_no_reasons [of w r]
    by (auto simp: worker_matches_def)
qed

definition ex_matched_worker :: worker_spec where
  "ex_matched_worker = \<lparr>ws_worker_id = ''w'', ws_worker_class = ''c'',
     ws_resources = \<lparr>gpu_count = 1, total_vram_mb = 24, max_single_gpu_vram_mb = 24\<rparr>,
     ws_gpu_uuids = [''A''], ws_accelerators = [], ws_capabilities = {''x''}, ws_labels = [(''zone'', ''a'')]\<rparr>"

definition ex_label_req :: job_requirements where
  "ex_label_req = \<lparr>jr_worker_class = None, jr_required_capabilities = {''x''},
     jr_required_labels = [(''zone'', ''b'')], jr_required_gpu_uuids = {}, jr_min_gpu_count = 1,
     jr_min_total_vram_mb = 20, jr_min_single_gpu_vram_mb = 20\<rparr>"

theorem match_worker_conjunctive_witness:
  "''label:zone'' \<in> set (reasons (match_worker ex_matched_worker ex_label_req)) \<and>
   \<not> matched (match_worker ex_matched_worker ex_label_req)"
proof -
  have "(''zone'', ''b'') \<in> set (jr_required_labels ex_label_req)"
    "dict_get (ws_labels ex_matched_worker) ''zone'' \<noteq> Some ''b''"
    by (simp_all add: ex_label_req_def ex_matched_worker_def)
  then show ?thesis
    using match_worker_conjunctive [of ex_matched_worker ex_label_req] by force
qed

end
