(* ===== verification/Repository.thy ===== *)
theory Repository
  imports Models Scheduling
begin

text \<open>
  \<open>src/src/astrumweaver/control/repository.py\<close>: the in-memory control repository, the reference of
  the control-plane semantics. The object is a record, an operation a function from the
  repository and its arguments to its outcome: the returned record or the exception, and the
  repository it leaves behind. The reentrant lock makes every operation one step. The instant an
  operation uses is \<open>aware\<close> of its \<open>now\<close> argument; the two identifiers \<open>uuid4\<close> draws (a job id,
  a lease token) are arguments.
\<close>

section \<open>Errors and state\<close>

datatype conflict =
    Topology_change
  | Concurrency_below_active
  | Gpu_overlap string
  | Offline_reacquire
  | Half_lease
  | Not_running string
  | Other_worker string
  | Stale_token string
  | Lease_expired string
  | Idempotency_mismatch

text \<open>
  The errors an operation ends with: the three kinds of \<open>RepositoryError\<close>, an index entry without
  its job (a \<open>KeyError\<close>) and, on the PostgreSQL backend, a stored row that its record class refuses.
\<close>

datatype repo_error =
    Worker_not_found string
  | Job_not_found string
  | Conflict conflict
  | Storage_unavailable
  | Job_index_error string
  | Row_error string

record repo =
  worker_ttl_seconds :: int
  lease_seconds :: int
  r_workers :: "(string, worker_record) dict"
  r_jobs :: "(string, job_record) dict"
  r_idempotency :: "(string, string) dict"
  r_sequence :: int

type_synonym 'a outcome = "(repo_error + 'a) \<times> repo"

definition init_repository :: "int \<Rightarrow> int \<Rightarrow> repo res" where
  "init_repository ttl lease =
     (if ttl < 1 then Inl (ValueError (Must_be_positive ''worker_ttl_seconds''))
      else if lease < 1 then Inl (ValueError (Must_be_positive ''lease_seconds''))
      else Inr \<lparr>worker_ttl_seconds = ttl, lease_seconds = lease, r_workers = [], r_jobs = [],
                r_idempotency = [], r_sequence = 0\<rparr>)"

section \<open>Helpers\<close>

text \<open>\<open>_aware\<close>: the clock stands in for a missing \<open>now\<close>; a naive reading is taken as UTC.\<close>

fun aware :: "instant \<Rightarrow> py_datetime option \<Rightarrow> instant" where
  "aware clock None = clock"
| "aware clock (Some (Naive t)) = t"
| "aware clock (Some (Aware t off)) = t - off"

datatype failure = Message string | Details obj

fun failure_payload :: "failure \<Rightarrow> bool \<Rightarrow> obj" where
  "failure_payload (Message m) retryable = [(''message'', JStr m), (''retryable'', JBool retryable)]"
| "failure_payload (Details d) retryable = dict_set ''retryable'' (JBool retryable) d"

definition submission_matches :: "job_record \<Rightarrow> job_submission \<Rightarrow> bool" where
  "submission_matches record sub =
     (if jb_capability record \<noteq> sub_capability sub then False
      else if \<not> obj_eq (jb_payload record) (sub_payload sub) then False
      else if \<not> job_requirements_eq (jb_requirements record) (sub_requirements sub) then False
      else if jb_priority record \<noteq> sub_priority sub then False
      else if jb_max_attempts record \<noteq> sub_max_attempts sub then False
      else (case sub_available_at sub of
              Some t \<Rightarrow> jb_available_at record = t
            | None \<Rightarrow> True))"

definition runs_on :: "string \<Rightarrow> job_record \<Rightarrow> bool" where
  "runs_on worker_id job \<longleftrightarrow>
     jb_status job = RUNNING \<and> jb_assigned_worker_id job = Some worker_id"

definition active_job_count :: "repo \<Rightarrow> string \<Rightarrow> int" where
  "active_job_count r worker_id = count_values (runs_on worker_id) (r_jobs r)"

definition owns_resources :: "worker_record \<Rightarrow> bool" where
  "owns_resources w \<longleftrightarrow> wr_state w \<noteq> OFFLINE \<or> wr_active_jobs w > 0"

text \<open>\<open>_assert_gpu_ownership_available\<close>: the first other owner of a requested GPU is the error.\<close>

fun gpu_conflict_loop :: "string \<Rightarrow> string list \<Rightarrow> worker_record list \<Rightarrow> repo_error option" where
  "gpu_conflict_loop ignored requested [] = None"
| "gpu_conflict_loop ignored requested (w # ws) =
     (if wr_worker_id w = ignored then gpu_conflict_loop ignored requested ws
      else if owns_resources w \<and> set requested \<inter> set (ws_gpu_uuids (wr_spec w)) \<noteq> {}
      then Some (Conflict (Gpu_overlap (wr_worker_id w)))
      else gpu_conflict_loop ignored requested ws)"

definition assert_gpu_ownership_available ::
  "repo \<Rightarrow> worker_registration \<Rightarrow> string \<Rightarrow> repo_error option" where
  "assert_gpu_ownership_available r registration ignored =
     (let requested = ws_gpu_uuids (reg_spec registration) in
      if requested = [] then None
      else gpu_conflict_loop ignored requested (dict_values (r_workers r)))"

section \<open>Workers\<close>

definition register_worker :: "worker_registration \<Rightarrow> instant \<Rightarrow> repo \<Rightarrow> worker_record outcome" where
  "register_worker registration timestamp r =
     (let wid = ws_worker_id (reg_spec registration);
          existing = dict_get (r_workers r) wid;
          busy = (case existing of None \<Rightarrow> False | Some w \<Rightarrow> wr_active_jobs w > 0) in
      if busy \<and> \<not> worker_spec_eq (reg_spec registration) (wr_spec (the existing))
      then (Inl (Conflict Topology_change), r)
      else if busy \<and> reg_max_concurrency registration < wr_active_jobs (the existing)
      then (Inl (Conflict Concurrency_below_active), r)
      else case assert_gpu_ownership_available r registration wid of
        Some e \<Rightarrow> (Inl e, r)
      | None \<Rightarrow>
          (let record = \<lparr>wr_spec = reg_spec registration,
                 wr_max_concurrency = reg_max_concurrency registration,
                 wr_state = ONLINE, wr_active_jobs = active_job_count r wid,
                 wr_registered_at = (case existing of None \<Rightarrow> timestamp | Some w \<Rightarrow> wr_registered_at w),
                 wr_last_seen_at = timestamp, wr_metadata = reg_metadata registration\<rparr>
           in (Inr record, r\<lparr>r_workers := dict_set (wr_worker_id record) record (r_workers r)\<rparr>)))"

definition get_worker :: "string \<Rightarrow> repo \<Rightarrow> repo_error + worker_record" where
  "get_worker worker_id r = (case dict_get (r_workers r) worker_id of
     None \<Rightarrow> Inl (Worker_not_found worker_id) | Some w \<Rightarrow> Inr w)"

definition set_worker_state :: "string \<Rightarrow> worker_state \<Rightarrow> instant \<Rightarrow> repo \<Rightarrow> worker_record outcome" where
  "set_worker_state worker_id state timestamp r = (case get_worker worker_id r of
     Inl e \<Rightarrow> (Inl e, r)
   | Inr current \<Rightarrow>
      (case (if state \<noteq> OFFLINE
             then assert_gpu_ownership_available r
                    \<lparr>reg_spec = wr_spec current, reg_max_concurrency = wr_max_concurrency current,
                     reg_metadata = wr_metadata current\<rparr> worker_id
             else None) of
        Some e \<Rightarrow> (Inl e, r)
      | None \<Rightarrow>
          (let updated = current\<lparr>wr_state := state, wr_last_seen_at := timestamp\<rparr>
           in (Inr updated, r\<lparr>r_workers := dict_set worker_id updated (r_workers r)\<rparr>))))"

definition get_job :: "string \<Rightarrow> repo \<Rightarrow> repo_error + job_record" where
  "get_job job_id r = (case dict_get (r_jobs r) job_id of
     None \<Rightarrow> Inl (Job_not_found job_id) | Some j \<Rightarrow> Inr j)"

definition assert_running :: "job_record \<Rightarrow> string \<Rightarrow> string \<Rightarrow> instant \<Rightarrow> repo_error option" where
  "assert_running job worker_id lease_token now =
     (if jb_status job \<noteq> RUNNING then Some (Conflict (Not_running (jb_job_id job)))
      else if jb_assigned_worker_id job \<noteq> Some worker_id
      then Some (Conflict (Other_worker (jb_job_id job)))
      else if lease_token = [] \<or> jb_lease_token job \<noteq> Some lease_token
      then Some (Conflict (Stale_token (jb_job_id job)))
      else (case jb_lease_expires_at job of
              None \<Rightarrow> Some (Conflict (Lease_expired (jb_job_id job)))
            | Some t \<Rightarrow> if t \<le> now then Some (Conflict (Lease_expired (jb_job_id job))) else None))"

text \<open>
  The end of \<open>heartbeat_worker\<close>, after the lease has been renewed where one was named.
\<close>

definition heartbeat_finish ::
  "string \<Rightarrow> worker_record \<Rightarrow> worker_heartbeat \<Rightarrow> instant \<Rightarrow> repo \<Rightarrow> worker_record outcome" where
  "heartbeat_finish worker_id current hb timestamp r =
     (let updated = current\<lparr>
            wr_state := (case hb_state hb of None \<Rightarrow> wr_state current | Some s \<Rightarrow> s),
            wr_active_jobs := active_job_count r worker_id,
            wr_last_seen_at := timestamp,
            wr_metadata := dict_merge (wr_metadata current) (hb_metadata hb)\<rparr>
      in (Inr updated, r\<lparr>r_workers := dict_set worker_id updated (r_workers r)\<rparr>))"

definition heartbeat_worker ::
  "string \<Rightarrow> worker_heartbeat \<Rightarrow> instant \<Rightarrow> repo \<Rightarrow> worker_record outcome" where
  "heartbeat_worker worker_id hb timestamp r = (case get_worker worker_id r of
     Inl e \<Rightarrow> (Inl e, r)
   | Inr current \<Rightarrow>
      if wr_state current = OFFLINE \<and> (hb_state hb = Some ONLINE \<or> hb_state hb = Some DRAINING)
      then (Inl (Conflict Offline_reacquire), r)
      else if hb_active_job_id hb = None \<and> hb_lease_token hb = None
      then heartbeat_finish worker_id current hb timestamp r
      else if hb_active_job_id hb \<in> {None, Some []} \<or> hb_lease_token hb \<in> {None, Some []}
      then (Inl (Conflict Half_lease), r)
      else (case get_job (the (hb_active_job_id hb)) r of
          Inl e \<Rightarrow> (Inl e, r)
        | Inr job \<Rightarrow>
           (case assert_running job worker_id (the (hb_lease_token hb)) timestamp of
              Some e \<Rightarrow> (Inl e, r)
            | None \<Rightarrow>
               (let renewed = job\<lparr>
                      jb_lease_expires_at := Some (timestamp + seconds (lease_seconds r)),
                      jb_updated_at := timestamp\<rparr>
                in heartbeat_finish worker_id current hb timestamp
                     (r\<lparr>r_jobs := dict_set (jb_job_id job) renewed (r_jobs r)\<rparr>)))))"

text \<open>The loop of \<open>expire_stale_workers\<close> over a snapshot of the workers.\<close>

fun expire_loop :: "instant \<Rightarrow> (string \<times> worker_record) list \<Rightarrow> repo \<Rightarrow> worker_record list \<times> repo" where
  "expire_loop cutoff [] r = ([], r)"
| "expire_loop cutoff ((worker_id, worker) # rest) r =
     (if wr_state worker = OFFLINE \<or> wr_last_seen_at worker \<ge> cutoff
      then expire_loop cutoff rest r
      else (let updated = worker\<lparr>wr_state := OFFLINE\<rparr>;
                (expired, r') = expire_loop cutoff rest
                   (r\<lparr>r_workers := dict_set worker_id updated (r_workers r)\<rparr>)
            in (updated # expired, r')))"

definition expire_stale_workers :: "instant \<Rightarrow> repo \<Rightarrow> worker_record list \<times> repo" where
  "expire_stale_workers timestamp r =
     expire_loop (timestamp - seconds (worker_ttl_seconds r)) (r_workers r) r"

section \<open>Jobs\<close>

text \<open>The part of \<open>submit_job\<close> that creates a new record.\<close>

definition new_job :: "job_submission \<Rightarrow> instant \<Rightarrow> string \<Rightarrow> repo \<Rightarrow> job_record outcome" where
  "new_job sub timestamp new_id r =
     (let record = \<lparr>jb_job_id = new_id, jb_capability = sub_capability sub,
            jb_payload = sub_payload sub, jb_requirements = sub_requirements sub,
            jb_priority = sub_priority sub, jb_sequence = r_sequence r + 1,
            jb_status = QUEUED, jb_attempts = 0, jb_max_attempts = sub_max_attempts sub,
            jb_idempotency_key = sub_idempotency_key sub, jb_created_at = timestamp,
            jb_available_at = (case sub_available_at sub of Some t \<Rightarrow> t | None \<Rightarrow> timestamp),
            jb_updated_at = timestamp, jb_assigned_worker_id = None, jb_lease_token = None,
            jb_lease_expires_at = None, jb_started_at = None, jb_finished_at = None,
            jb_result = None, jb_error = None\<rparr>
      in (Inr record,
          r\<lparr>r_sequence := r_sequence r + 1,
            r_jobs := dict_set new_id record (r_jobs r),
            r_idempotency := (case sub_idempotency_key sub of
               Some k \<Rightarrow> if k = [] then r_idempotency r else dict_set k new_id (r_idempotency r)
             | None \<Rightarrow> r_idempotency r)\<rparr>))"

definition submit_job :: "job_submission \<Rightarrow> instant \<Rightarrow> string \<Rightarrow> repo \<Rightarrow> job_record outcome" where
  "submit_job sub timestamp new_id r =
     (case (case sub_idempotency_key sub of
              Some k \<Rightarrow> if k = [] then None else dict_get (r_idempotency r) k
            | None \<Rightarrow> None) of
        Some existing_id \<Rightarrow>
          (case dict_get (r_jobs r) existing_id of
             None \<Rightarrow> (Inl (Job_index_error existing_id), r)
           | Some existing \<Rightarrow>
               if submission_matches existing sub then (Inr existing, r)
               else (Inl (Conflict Idempotency_mismatch), r))
      | None \<Rightarrow> new_job sub timestamp new_id r)"

definition list_jobs :: "repo \<Rightarrow> job_record list" where
  "list_jobs r = sort_key jb_sequence (dict_values (r_jobs r))"

definition eligible :: "worker_record \<Rightarrow> instant \<Rightarrow> job_record \<Rightarrow> bool" where
  "eligible worker timestamp job \<longleftrightarrow>
     jb_status job = QUEUED \<and> jb_available_at job \<le> timestamp \<and>
     jb_attempts job < jb_max_attempts job \<and>
     jb_capability job \<in> ws_capabilities (wr_spec worker) \<and>
     worker_matches (wr_spec worker) (jb_requirements job)"

text \<open>The sort key of \<open>claim_next_job\<close>: higher priority first, then the older submission.\<close>

definition claim_key :: "job_record \<Rightarrow> int \<times> int" where
  "claim_key job = (- jb_priority job, jb_sequence job)"

definition claimed_record :: "string \<Rightarrow> string \<Rightarrow> instant \<Rightarrow> int \<Rightarrow> job_record \<Rightarrow> job_record" where
  "claimed_record worker_id token timestamp lease selected = selected\<lparr>
     jb_status := RUNNING, jb_attempts := jb_attempts selected + 1,
     jb_assigned_worker_id := Some worker_id, jb_lease_token := Some token,
     jb_lease_expires_at := Some (timestamp + seconds lease),
     jb_started_at := Some timestamp, jb_finished_at := None, jb_updated_at := timestamp,
     jb_error := None\<rparr>"

definition claim_next_job :: "string \<Rightarrow> instant \<Rightarrow> string \<Rightarrow> repo \<Rightarrow> job_record option outcome" where
  "claim_next_job worker_id timestamp token r = (case get_worker worker_id r of
     Inl e \<Rightarrow> (Inl e, r)
   | Inr worker \<Rightarrow>
      if timestamp - wr_last_seen_at worker > seconds (worker_ttl_seconds r)
      then (Inr None, r\<lparr>r_workers := dict_set worker_id (worker\<lparr>wr_state := OFFLINE\<rparr>) (r_workers r)\<rparr>)
      else if wr_state worker \<noteq> ONLINE then (Inr None, r)
      else if wr_active_jobs worker \<ge> wr_max_concurrency worker then (Inr None, r)
      else (case first_by claim_key (filter (eligible worker timestamp) (dict_values (r_jobs r))) of
          None \<Rightarrow> (Inr None, r)
        | Some selected \<Rightarrow>
           (let claimed = claimed_record worker_id token timestamp (lease_seconds r) selected
            in (Inr (Some claimed),
                r\<lparr>r_jobs := dict_set (jb_job_id claimed) claimed (r_jobs r),
                  r_workers := dict_set worker_id
                    (worker\<lparr>wr_active_jobs := wr_active_jobs worker + 1\<rparr>) (r_workers r)\<rparr>))))"

definition release_worker_capacity :: "string option \<Rightarrow> repo \<Rightarrow> repo" where
  "release_worker_capacity worker_id r = (case worker_id of
     None \<Rightarrow> r
   | Some wid \<Rightarrow> (case dict_get (r_workers r) wid of
       None \<Rightarrow> r
     | Some worker \<Rightarrow> r\<lparr>r_workers := dict_set wid
         (worker\<lparr>wr_active_jobs := max (wr_active_jobs worker - 1) 0\<rparr>) (r_workers r)\<rparr>))"

definition completed_record :: "job_result \<Rightarrow> instant \<Rightarrow> job_record \<Rightarrow> job_record" where
  "completed_record result timestamp job = job\<lparr>
     jb_status := SUCCEEDED, jb_result := Some result, jb_error := None,
     jb_assigned_worker_id := None, jb_lease_token := None, jb_lease_expires_at := None,
     jb_finished_at := Some timestamp, jb_updated_at := timestamp\<rparr>"

definition complete_job ::
  "string \<Rightarrow> job_result \<Rightarrow> string \<Rightarrow> string \<Rightarrow> instant \<Rightarrow> repo \<Rightarrow> job_record outcome" where
  "complete_job job_id result worker_id lease_token timestamp r = (case get_job job_id r of
     Inl e \<Rightarrow> (Inl e, r)
   | Inr job \<Rightarrow> (case assert_running job worker_id lease_token timestamp of
       Some e \<Rightarrow> (Inl e, r)
     | None \<Rightarrow> (let completed = completed_record result timestamp job
         in (Inr completed, release_worker_capacity (Some worker_id)
               (r\<lparr>r_jobs := dict_set job_id completed (r_jobs r)\<rparr>)))))"

text \<open>The record after a failed or expired attempt: back to the queue, or failed for good.\<close>

definition failed_record :: "bool \<Rightarrow> obj \<Rightarrow> instant \<Rightarrow> job_record \<Rightarrow> job_record" where
  "failed_record should_retry err timestamp job = job\<lparr>
     jb_status := (if should_retry then QUEUED else FAILED), jb_error := Some err,
     jb_assigned_worker_id := None, jb_lease_token := None, jb_lease_expires_at := None,
     jb_started_at := (if should_retry then None else jb_started_at job),
     jb_finished_at := (if should_retry then None else Some timestamp),
     jb_available_at := (if should_retry then timestamp else jb_available_at job),
     jb_updated_at := timestamp\<rparr>"

definition fail_job ::
  "string \<Rightarrow> failure \<Rightarrow> bool \<Rightarrow> string \<Rightarrow> string \<Rightarrow> instant \<Rightarrow> repo \<Rightarrow> job_record outcome" where
  "fail_job job_id err retryable worker_id lease_token timestamp r = (case get_job job_id r of
     Inl e \<Rightarrow> (Inl e, r)
   | Inr job \<Rightarrow> (case assert_running job worker_id lease_token timestamp of
       Some e \<Rightarrow> (Inl e, r)
     | None \<Rightarrow> (let should_retry = (retryable \<and> jb_attempts job < jb_max_attempts job);
           failed = failed_record should_retry (failure_payload err should_retry) timestamp job
         in (Inr failed, release_worker_capacity (Some worker_id)
               (r\<lparr>r_jobs := dict_set job_id failed (r_jobs r)\<rparr>)))))"

definition cancelled_record :: "instant \<Rightarrow> job_record \<Rightarrow> job_record" where
  "cancelled_record timestamp job = job\<lparr>
     jb_status := CANCELLED, jb_assigned_worker_id := None, jb_lease_token := None,
     jb_lease_expires_at := None, jb_finished_at := Some timestamp, jb_updated_at := timestamp\<rparr>"

definition cancel_job :: "string \<Rightarrow> instant \<Rightarrow> repo \<Rightarrow> job_record outcome" where
  "cancel_job job_id timestamp r = (case get_job job_id r of
     Inl e \<Rightarrow> (Inl e, r)
   | Inr job \<Rightarrow>
      if jb_status job \<in> {SUCCEEDED, FAILED, CANCELLED} then (Inr job, r)
      else (let r' = (if jb_status job = RUNNING
                      then release_worker_capacity (jb_assigned_worker_id job) r else r);
                cancelled = cancelled_record timestamp job
            in (Inr cancelled, r'\<lparr>r_jobs := dict_set job_id cancelled (r_jobs r')\<rparr>)))"

definition lease_lapsed :: "instant \<Rightarrow> job_record \<Rightarrow> bool" where
  "lease_lapsed timestamp job \<longleftrightarrow> jb_status job = RUNNING \<and>
     (case jb_lease_expires_at job of None \<Rightarrow> False | Some t \<Rightarrow> t \<le> timestamp)"

definition expired_error :: "bool \<Rightarrow> obj" where
  "expired_error should_retry =
     [(''message'', JStr ''worker lease expired''), (''retryable'', JBool should_retry)]"

text \<open>The body of the recovery loop for one lapsed job.\<close>

definition recover_one :: "instant \<Rightarrow> string \<Rightarrow> job_record \<Rightarrow> repo \<Rightarrow> job_record \<times> repo" where
  "recover_one timestamp job_id job r =
     (let r' = release_worker_capacity (jb_assigned_worker_id job) r;
          should_retry = jb_attempts job < jb_max_attempts job;
          updated = failed_record should_retry (expired_error should_retry) timestamp job
      in (updated, r'\<lparr>r_jobs := dict_set job_id updated (r_jobs r')\<rparr>))"

fun recover_loop :: "instant \<Rightarrow> (string \<times> job_record) list \<Rightarrow> repo \<Rightarrow> job_record list \<times> repo" where
  "recover_loop timestamp [] r = ([], r)"
| "recover_loop timestamp ((job_id, job) # rest) r =
     (if \<not> lease_lapsed timestamp job then recover_loop timestamp rest r
      else (let (updated, r') = recover_one timestamp job_id job r;
                (recovered, r'') = recover_loop timestamp rest r'
            in (updated # recovered, r'')))"

definition recover_expired_jobs :: "instant \<Rightarrow> repo \<Rightarrow> job_record list \<times> repo" where
  "recover_expired_jobs timestamp r = recover_loop timestamp (r_jobs r) r"

section \<open>The repository as a machine\<close>

text \<open>
  One call of a client or of the maintenance loop, with the identifier \<open>uuid4\<close> would draw.
\<close>

datatype repo_op =
    Register worker_registration
  | Set_State string worker_state
  | Heartbeat string worker_heartbeat
  | Expire_Stale
  | Submit job_submission string
  | Claim string string
  | Complete string job_result string string
  | Fail string failure bool string string
  | Cancel string
  | Recover

fun repo_step :: "repo \<Rightarrow> repo_op \<times> instant \<Rightarrow> repo" where
  "repo_step r (Register g, t) = snd (register_worker g t r)"
| "repo_step r (Set_State w s, t) = snd (set_worker_state w s t r)"
| "repo_step r (Heartbeat w h, t) = snd (heartbeat_worker w h t r)"
| "repo_step r (Expire_Stale, t) = snd (expire_stale_workers t r)"
| "repo_step r (Submit s i, t) = snd (submit_job s t i r)"
| "repo_step r (Claim w k, t) = snd (claim_next_job w t k r)"
| "repo_step r (Complete j x w k, t) = snd (complete_job j x w k t r)"
| "repo_step r (Fail j e b w k, t) = snd (fail_job j e b w k t r)"
| "repo_step r (Cancel j, t) = snd (cancel_job j t r)"
| "repo_step r (Recover, t) = snd (recover_expired_jobs t r)"

text \<open>
  What a call may carry: values the dataclass constructors accept, a job id no stored job has
  and a non-empty lease token (both are version-4 UUIDs).
\<close>

fun op_ok :: "repo \<Rightarrow> repo_op \<times> instant \<Rightarrow> bool" where
  "op_ok r (Register g, t) = registration_ok g"
| "op_ok r (Submit s i, t) = (submission_ok s \<and> dict_get (r_jobs r) i = None)"
| "op_ok r (Claim w k, t) = (k \<noteq> [])"
| "op_ok r _ = True"

end
