(* ===== verification/Repository_Inv.thy ===== *)
theory Repository_Inv
  imports Repository
begin

text \<open>
  The invariant of the in-memory repository and its preservation. \<open>repo_inv\<close> says that every
  stored job and worker is well formed, that sequence numbers are distinct, that jobs refer to
  known workers, that the idempotency index is exact, that each worker's count of active jobs is
  the number of jobs running on it, and that no GPU has two owners. Every part has its own lemma
  on how it reacts to an update; four lemmas (\<open>inv_renew_job\<close>, \<open>inv_update_worker\<close>,
  \<open>inv_start_attempt\<close>, \<open>inv_end_attempt\<close>) carry the ten operations. The interpretation
  \<open>mem\<close> of \<open>transition_system\<close> lifts the invariant to every run.
\<close>

section \<open>The invariant\<close>

text \<open>A job record on its own.\<close>

definition job_wf :: "string \<Rightarrow> job_record \<Rightarrow> bool" where
  "job_wf k j \<longleftrightarrow> jb_job_id j = k \<and> 1 \<le> jb_sequence j \<and> 0 \<le> jb_attempts j \<and>
     jb_attempts j \<le> jb_max_attempts j \<and>
     (jb_status j = QUEUED \<longrightarrow> jb_attempts j < jb_max_attempts j) \<and>
     (jb_status j = RUNNING \<longrightarrow> 1 \<le> jb_attempts j \<and> jb_assigned_worker_id j \<noteq> None \<and>
        jb_lease_token j \<notin> {None, Some []} \<and> jb_lease_expires_at j \<noteq> None) \<and>
     (jb_status j \<noteq> RUNNING \<longrightarrow> jb_assigned_worker_id j = None \<and> jb_lease_token j = None \<and>
        jb_lease_expires_at j = None) \<and>
     (terminal (jb_status j) \<longleftrightarrow> jb_finished_at j \<noteq> None) \<and>
     (jb_result j \<noteq> None \<longleftrightarrow> jb_status j = SUCCEEDED)"

text \<open>A worker record on its own.\<close>

definition worker_wf :: "string \<Rightarrow> worker_record \<Rightarrow> bool" where
  "worker_wf k w \<longleftrightarrow> wr_worker_id w = k \<and> worker_spec_ok (wr_spec w) \<and>
     1 \<le> wr_max_concurrency w \<and> wr_active_jobs w \<le> wr_max_concurrency w"

text \<open>The stored jobs, the sequence numbers, the references from jobs to workers.\<close>

definition jobs_wf :: "(string \<rightharpoonup> job_record) \<Rightarrow> int \<Rightarrow> bool" where
  "jobs_wf J n \<longleftrightarrow> (\<forall>k j. J k = Some j \<longrightarrow> job_wf k j \<and> jb_sequence j \<le> n)"

definition seq_inj :: "(string \<rightharpoonup> job_record) \<Rightarrow> bool" where
  "seq_inj J \<longleftrightarrow> (\<forall>k1 k2 j1 j2. J k1 = Some j1 \<longrightarrow> J k2 = Some j2 \<longrightarrow>
     jb_sequence j1 = jb_sequence j2 \<longrightarrow> k1 = k2)"

definition assigned_ok :: "(string \<rightharpoonup> job_record) \<Rightarrow> (string \<rightharpoonup> worker_record) \<Rightarrow> bool" where
  "assigned_ok J W \<longleftrightarrow> (\<forall>k j w. J k = Some j \<longrightarrow> jb_assigned_worker_id j = Some w \<longrightarrow> w \<in> dom W)"

text \<open>The idempotency index lists exactly the jobs that carry a key.\<close>

definition idem_ok :: "(string \<rightharpoonup> string) \<Rightarrow> (string \<rightharpoonup> job_record) \<Rightarrow> bool" where
  "idem_ok I J \<longleftrightarrow>
     (\<forall>key i. I key = Some i \<longrightarrow> (\<exists>j. J i = Some j \<and> jb_idempotency_key j = Some key)) \<and>
     (\<forall>i j key. J i = Some j \<longrightarrow> jb_idempotency_key j = Some key \<longrightarrow> key \<noteq> [] \<longrightarrow> I key = Some i)"

definition workers_wf :: "(string \<rightharpoonup> worker_record) \<Rightarrow> bool" where
  "workers_wf W \<longleftrightarrow> (\<forall>k w. W k = Some w \<longrightarrow> worker_wf k w)"

text \<open>No GPU belongs to two workers that own their resources.\<close>

definition gpu_exclusive :: "(string \<rightharpoonup> worker_record) \<Rightarrow> bool" where
  "gpu_exclusive W \<longleftrightarrow> (\<forall>k1 k2 w1 w2. k1 \<noteq> k2 \<longrightarrow> W k1 = Some w1 \<longrightarrow> W k2 = Some w2 \<longrightarrow>
     owns_resources w1 \<longrightarrow> owns_resources w2 \<longrightarrow>
     set (ws_gpu_uuids (wr_spec w1)) \<inter> set (ws_gpu_uuids (wr_spec w2)) = {})"

text \<open>A worker's count of active jobs is the number of jobs running on it.\<close>

definition accounting :: "repo \<Rightarrow> bool" where
  "accounting r \<longleftrightarrow> (\<forall>k w. dict_get (r_workers r) k = Some w \<longrightarrow> wr_active_jobs w = active_job_count r k)"

definition repo_inv :: "repo \<Rightarrow> bool" where
  "repo_inv r \<longleftrightarrow> 1 \<le> worker_ttl_seconds r \<and> 1 \<le> lease_seconds r \<and> 0 \<le> r_sequence r \<and>
     dict_ok (r_jobs r) \<and> dict_ok (r_workers r) \<and>
     jobs_wf (dict_get (r_jobs r)) (r_sequence r) \<and> seq_inj (dict_get (r_jobs r)) \<and>
     assigned_ok (dict_get (r_jobs r)) (dict_get (r_workers r)) \<and>
     idem_ok (dict_get (r_idempotency r)) (dict_get (r_jobs r)) \<and>
     workers_wf (dict_get (r_workers r)) \<and> accounting r \<and> gpu_exclusive (dict_get (r_workers r))"

section \<open>How the parts react to an update\<close>

lemma jobs_wf_update: "jobs_wf J n \<Longrightarrow> job_wf k j \<Longrightarrow> jb_sequence j \<le> n \<Longrightarrow> jobs_wf (J(k \<mapsto> j)) n"
  by (simp add: jobs_wf_def)

lemma jobs_wf_mono: "jobs_wf J n \<Longrightarrow> n \<le> m \<Longrightarrow> jobs_wf J m"
  unfolding jobs_wf_def by (meson order_trans)

lemma seq_inj_replace: "seq_inj J \<Longrightarrow> J k = Some j \<Longrightarrow> jb_sequence j' = jb_sequence j \<Longrightarrow> seq_inj (J(k \<mapsto> j'))"
  unfolding seq_inj_def by (metis fun_upd_apply option.inject)

lemma seq_inj_new: "seq_inj J \<Longrightarrow> jobs_wf J n \<Longrightarrow> n < jb_sequence j \<Longrightarrow> seq_inj (J(k \<mapsto> j))"
  unfolding seq_inj_def jobs_wf_def by (metis fun_upd_apply leD option.inject)

lemma assigned_ok_update:
  "assigned_ok J W \<Longrightarrow> (\<And>w. jb_assigned_worker_id j = Some w \<Longrightarrow> w \<in> dom W) \<Longrightarrow> assigned_ok (J(k \<mapsto> j)) W"
  by (simp add: assigned_ok_def)

lemma assigned_ok_dom: "assigned_ok J W \<Longrightarrow> dom W \<subseteq> dom W' \<Longrightarrow> assigned_ok J W'"
  unfolding assigned_ok_def by blast

lemma idem_ok_replace:
  "idem_ok I J \<Longrightarrow> J k = Some j \<Longrightarrow> jb_idempotency_key j' = jb_idempotency_key j \<Longrightarrow> idem_ok I (J(k \<mapsto> j'))"
  unfolding idem_ok_def by (auto; metis option.inject)

lemma workers_wf_update: "workers_wf W \<Longrightarrow> worker_wf k w \<Longrightarrow> workers_wf (W(k \<mapsto> w))"
  by (simp add: workers_wf_def)

lemma gpu_exclusive_update:
  assumes ex: "gpu_exclusive W"
    and new: "\<And>k' w'. owns_resources w \<Longrightarrow> k' \<noteq> k \<Longrightarrow> W k' = Some w' \<Longrightarrow> owns_resources w' \<Longrightarrow>
           set (ws_gpu_uuids (wr_spec w)) \<inter> set (ws_gpu_uuids (wr_spec w')) = {}"
  shows "gpu_exclusive (W(k \<mapsto> w))"
  unfolding gpu_exclusive_def
proof (intro allI impI)
  fix k1 k2 w1 w2
  assume ne: "k1 \<noteq> k2" and w: "(W(k \<mapsto> w)) k1 = Some w1" "(W(k \<mapsto> w)) k2 = Some w2"
    and own: "owns_resources w1" "owns_resources w2"
  consider "k1 = k" "k2 \<noteq> k" | "k2 = k" "k1 \<noteq> k" | "k1 \<noteq> k" "k2 \<noteq> k"
    using ne by blast
  then show "set (ws_gpu_uuids (wr_spec w1)) \<inter> set (ws_gpu_uuids (wr_spec w2)) = {}"
  proof cases
    case 1
    then show ?thesis using new w own by simp
  next
    case 2
    then show ?thesis using new [of k1 w1] w own by (simp add: Int_commute)
  next
    case 3
    then show ?thesis using ex ne w own unfolding gpu_exclusive_def by simp
  qed
qed

lemma gpu_exclusive_weaken:
  assumes ex: "gpu_exclusive W" and old: "W k = Some v" and spec: "wr_spec w = wr_spec v"
    and own: "owns_resources w \<Longrightarrow> owns_resources v"
  shows "gpu_exclusive (W(k \<mapsto> w))"
proof (rule gpu_exclusive_update [OF ex])
  fix k' w'
  assume "owns_resources w" "k' \<noteq> k" "W k' = Some w'" "owns_resources w'"
  with ex old own show "set (ws_gpu_uuids (wr_spec w)) \<inter> set (ws_gpu_uuids (wr_spec w')) = {}"
    unfolding gpu_exclusive_def spec by metis
qed

lemma active_job_count_nonneg [simp]: "0 \<le> active_job_count r k"
  by (simp add: active_job_count_def)

lemma active_job_count_jobs [simp]:
  "active_job_count (r\<lparr>r_workers := ws\<rparr>) k = active_job_count r k"
  by (simp add: active_job_count_def)

lemma active_job_count_set:
  "dict_get (r_jobs r) k = Some j \<Longrightarrow> active_job_count (r\<lparr>r_jobs := dict_set k j' (r_jobs r)\<rparr>) w =
     active_job_count r w - (if runs_on w j then 1 else 0) + (if runs_on w j' then 1 else 0)"
  by (simp add: active_job_count_def dict_simps)

lemma active_job_count_pos:
  "dict_get (r_jobs r) k = Some j \<Longrightarrow> runs_on w j \<Longrightarrow> 0 < active_job_count r w"
  unfolding active_job_count_def by (rule count_values_pos)

section \<open>Replacing a job\<close>

text \<open>
  Everything but the accounting survives the replacement of a stored job by a well-formed one
  with the same sequence number and key, assigned to a known worker.
\<close>

lemma inv_replace_job:
  assumes inv: "repo_inv r" and old: "dict_get (r_jobs r) k = Some j" and wf: "job_wf k j'"
    and same: "jb_sequence j' = jb_sequence j" "jb_idempotency_key j' = jb_idempotency_key j"
    and asg: "\<And>w. jb_assigned_worker_id j' = Some w \<Longrightarrow> w \<in> dom (dict_get (r_workers r))"
    and acc: "accounting (r\<lparr>r_jobs := dict_set k j' (r_jobs r)\<rparr>)"
  shows "repo_inv (r\<lparr>r_jobs := dict_set k j' (r_jobs r)\<rparr>)"
proof -
  have "jb_sequence j' \<le> r_sequence r"
    using inv old same by (auto simp: repo_inv_def jobs_wf_def)
  then show ?thesis
    using inv acc old wf same asg unfolding repo_inv_def
    by (auto simp: dict_simps intro: jobs_wf_update seq_inj_replace assigned_ok_update idem_ok_replace)
qed

lemma inv_renew_job:
  assumes inv: "repo_inv r" and old: "dict_get (r_jobs r) k = Some j" and wf: "job_wf k j'"
    and same: "jb_sequence j' = jb_sequence j" "jb_idempotency_key j' = jb_idempotency_key j"
    and asg: "jb_assigned_worker_id j' = jb_assigned_worker_id j"
    and runs: "\<And>w. runs_on w j' = runs_on w j"
  shows "repo_inv (r\<lparr>r_jobs := dict_set k j' (r_jobs r)\<rparr>)"
proof (rule inv_replace_job [OF inv old wf same])
  show "\<And>w. jb_assigned_worker_id j' = Some w \<Longrightarrow> w \<in> dom (dict_get (r_workers r))"
    using inv old asg by (auto simp: repo_inv_def assigned_ok_def)
  show "accounting (r\<lparr>r_jobs := dict_set k j' (r_jobs r)\<rparr>)"
    using inv old runs by (simp add: repo_inv_def accounting_def active_job_count_set)
qed

section \<open>Replacing a worker\<close>

lemma inv_replace_worker:
  assumes inv: "repo_inv r" and wf: "worker_wf k w" and act: "wr_active_jobs w = active_job_count r k"
    and ex: "gpu_exclusive ((dict_get (r_workers r))(k \<mapsto> w))"
  shows "repo_inv (r\<lparr>r_workers := dict_set k w (r_workers r)\<rparr>)"
proof -
  have "accounting (r\<lparr>r_workers := dict_set k w (r_workers r)\<rparr>)"
    using inv act by (simp add: repo_inv_def accounting_def dict_simps)
  moreover have "assigned_ok (dict_get (r_jobs r)) ((dict_get (r_workers r))(k \<mapsto> w))"
    using inv by (auto simp: repo_inv_def intro: assigned_ok_dom)
  ultimately show ?thesis
    using inv wf ex unfolding repo_inv_def by (simp add: dict_simps workers_wf_update)
qed

lemma inv_update_worker:
  assumes inv: "repo_inv r" and old: "dict_get (r_workers r) k = Some v"
    and same: "wr_spec w = wr_spec v" "wr_max_concurrency w = wr_max_concurrency v"
      "wr_active_jobs w = wr_active_jobs v"
    and own: "owns_resources w \<Longrightarrow> owns_resources v"
  shows "repo_inv (r\<lparr>r_workers := dict_set k w (r_workers r)\<rparr>)"
proof (rule inv_replace_worker [OF inv])
  have v: "worker_wf k v" "wr_active_jobs v = active_job_count r k"
    using inv old by (auto simp: repo_inv_def workers_wf_def accounting_def)
  then show "worker_wf k w" using same by (simp add: worker_wf_def)
  show "wr_active_jobs w = active_job_count r k" using v same by simp
  show "gpu_exclusive ((dict_get (r_workers r))(k \<mapsto> w))"
    using inv old same own by (auto simp: repo_inv_def intro: gpu_exclusive_weaken)
qed

section \<open>Ending an attempt\<close>

text \<open>
  The shape of every operation that ends an attempt: the job leaves the running state and the
  worker it ran on gives one unit of capacity back.
\<close>

lemma release_jobs [simp]: "r_jobs (release_worker_capacity w r) = r_jobs r"
  by (simp add: release_worker_capacity_def split: option.splits)

lemma release_swap:
  "(release_worker_capacity w r)\<lparr>r_jobs := js\<rparr> = release_worker_capacity w (r\<lparr>r_jobs := js\<rparr>)"
  by (simp add: release_worker_capacity_def split: option.splits)

lemma inv_end_attempt:
  assumes inv: "repo_inv r" and old: "dict_get (r_jobs r) k = Some j" and run: "runs_on w j"
    and wf: "job_wf k j'" and stop: "jb_status j' \<noteq> RUNNING"
    and same: "jb_sequence j' = jb_sequence j" "jb_idempotency_key j' = jb_idempotency_key j"
  shows "repo_inv (release_worker_capacity (Some w) (r\<lparr>r_jobs := dict_set k j' (r_jobs r)\<rparr>))"
proof -
  have nrun: "\<not> runs_on x j'" for x using stop by (simp add: runs_on_def)
  have "w \<in> dom (dict_get (r_workers r))"
    using inv old run unfolding repo_inv_def assigned_ok_def runs_on_def by blast
  then obtain v where v: "dict_get (r_workers r) w = Some v" by blast
  let ?u = "v\<lparr>wr_active_jobs := max (wr_active_jobs v - 1) 0\<rparr>"
  let ?j = "r\<lparr>r_jobs := dict_set k j' (r_jobs r)\<rparr>"
  let ?W = "(dict_get (r_workers r))(w \<mapsto> ?u)"
  have act: "wr_active_jobs v = active_job_count r w"
    using inv v by (simp add: repo_inv_def accounting_def)
  have pos: "0 < active_job_count r w" using old run by (rule active_job_count_pos)
  have count: "active_job_count ?j x = active_job_count r x - (if x = w then 1 else 0)" for x
    using old run nrun by (auto simp: active_job_count_set runs_on_def)
  have acc: "accounting (?j\<lparr>r_workers := dict_set w ?u (r_workers r)\<rparr>)"
    using inv act pos count by (auto simp: repo_inv_def accounting_def dict_simps)
  have "worker_wf w v" using inv v by (simp add: repo_inv_def workers_wf_def)
  then have "worker_wf w ?u" using act pos by (auto simp: worker_wf_def)
  moreover have "gpu_exclusive ?W"
    using inv v act pos
    by (auto simp: repo_inv_def owns_resources_def intro: gpu_exclusive_weaken)
  moreover have "assigned_ok ((dict_get (r_jobs r))(k \<mapsto> j')) ?W"
    using inv wf stop unfolding repo_inv_def
    by (auto simp: job_wf_def intro!: assigned_ok_update elim: assigned_ok_dom)
  moreover have "jb_sequence j' \<le> r_sequence r"
    using inv old same by (auto simp: repo_inv_def jobs_wf_def)
  ultimately show ?thesis
    using inv acc same v old wf unfolding repo_inv_def release_worker_capacity_def
    by (auto simp: dict_simps intro: jobs_wf_update seq_inj_replace idem_ok_replace workers_wf_update)
qed

section \<open>The operations keep the invariant\<close>

lemma gpu_conflict_loop_None:
  "gpu_conflict_loop i g ws = None \<longleftrightarrow>
     (\<forall>w \<in> set ws. wr_worker_id w \<noteq> i \<longrightarrow> owns_resources w \<longrightarrow>
        set g \<inter> set (ws_gpu_uuids (wr_spec w)) = {})"
  by (induction ws) auto

lemma gpu_available_exclusive:
  assumes inv: "repo_inv r" and ok: "assert_gpu_ownership_available r g k = None"
    and spec: "wr_spec w = reg_spec g"
  shows "gpu_exclusive ((dict_get (r_workers r))(k \<mapsto> w))"
proof (rule gpu_exclusive_update)
  show "gpu_exclusive (dict_get (r_workers r))" using inv by (simp add: repo_inv_def)
  fix k' w'
  assume ne: "k' \<noteq> k" and w': "dict_get (r_workers r) k' = Some w'" and own: "owns_resources w'"
  have "w' \<in> set (dict_values (r_workers r))" using w' by (rule dict_get_value)
  moreover have "wr_worker_id w' \<noteq> k"
    using inv w' ne by (auto simp: repo_inv_def workers_wf_def worker_wf_def)
  ultimately show "set (ws_gpu_uuids (wr_spec w)) \<inter> set (ws_gpu_uuids (wr_spec w')) = {}"
    using ok own spec
    by (auto simp: assert_gpu_ownership_available_def gpu_conflict_loop_None Let_def split: if_splits)
qed

lemma get_worker_Inr: "get_worker k r = Inr w \<longleftrightarrow> dict_get (r_workers r) k = Some w"
  by (simp add: get_worker_def split: option.splits)

lemma get_job_Inr: "get_job k r = Inr j \<longleftrightarrow> dict_get (r_jobs r) k = Some j"
  by (simp add: get_job_def split: option.splits)

lemma assert_running_None:
  "assert_running j w t now = None \<longleftrightarrow> runs_on w j \<and> t \<noteq> [] \<and> jb_lease_token j = Some t \<and>
     (\<exists>e. jb_lease_expires_at j = Some e \<and> now < e)"
  by (auto simp: assert_running_def runs_on_def split: option.splits if_splits)

lemma register_worker_inv:
  assumes inv: "repo_inv r" and ok: "registration_ok g"
  shows "repo_inv (snd (register_worker g t r))"
proof -
  let ?k = "ws_worker_id (reg_spec g)"
  have fits: "active_job_count r ?k \<le> reg_max_concurrency g"
    if "\<And>w. dict_get (r_workers r) ?k = Some w \<Longrightarrow> wr_active_jobs w > 0 \<Longrightarrow> wr_active_jobs w \<le> reg_max_concurrency g"
  proof (cases "dict_get (r_workers r) ?k")
    case None
    then have "\<not> runs_on ?k j" if "dict_get (r_jobs r) i = Some j" for i j
      using inv that by (force simp: repo_inv_def assigned_ok_def runs_on_def)
    then have "active_job_count r ?k = 0"
      using inv by (auto simp: active_job_count_def repo_inv_def intro: count_values_zero)
    then show ?thesis using ok by (simp add: registration_ok_def)
  next
    case (Some w)
    then have "wr_active_jobs w = active_job_count r ?k"
      using inv by (simp add: repo_inv_def accounting_def)
    then show ?thesis using that [OF Some] ok
      by (cases "wr_active_jobs w > 0") (auto simp: registration_ok_def)
  qed
  have new: "repo_inv (r\<lparr>r_workers := dict_set ?k w (r_workers r)\<rparr>)"
    if "wr_spec w = reg_spec g" "wr_max_concurrency w = reg_max_concurrency g"
      "wr_active_jobs w = active_job_count r ?k"
      "assert_gpu_ownership_available r g ?k = None" "active_job_count r ?k \<le> reg_max_concurrency g" for w
    using inv that ok
    by (intro inv_replace_worker gpu_available_exclusive)
      (auto simp: worker_wf_def registration_ok_def)
  show ?thesis
    using inv fits unfolding register_worker_def
    by (auto simp: Let_def split: option.splits intro!: new)
qed

lemma set_worker_state_inv:
  assumes inv: "repo_inv r"
  shows "repo_inv (snd (set_worker_state k s t r))"
proof -
  have online: "repo_inv (r\<lparr>r_workers := dict_set k (w\<lparr>wr_state := s, wr_last_seen_at := t\<rparr>) (r_workers r)\<rparr>)"
    if "dict_get (r_workers r) k = Some w" "assert_gpu_ownership_available r g k = None"
      "reg_spec g = wr_spec w" for w g
    using inv that
    by (intro inv_replace_worker gpu_available_exclusive [where g = g])
      (auto simp: repo_inv_def workers_wf_def worker_wf_def accounting_def)
  have offline: "repo_inv (r\<lparr>r_workers := dict_set k (w\<lparr>wr_state := OFFLINE, wr_last_seen_at := t\<rparr>) (r_workers r)\<rparr>)"
    if "dict_get (r_workers r) k = Some w" for w
    using inv that by (intro inv_update_worker) (auto simp: owns_resources_def)
  show ?thesis
  proof (cases "get_worker k r")
    case (Inl e)
    then show ?thesis using inv by (simp add: set_worker_state_def)
  next
    case (Inr w)
    let ?g = "\<lparr>reg_spec = wr_spec w, reg_max_concurrency = wr_max_concurrency w,
      reg_metadata = wr_metadata w\<rparr>"
    have w: "dict_get (r_workers r) k = Some w" using Inr by (simp add: get_worker_Inr)
    show ?thesis
      using inv Inr offline [OF w] online [OF w, of ?g]
      by (auto simp: set_worker_state_def Let_def split: option.splits)
  qed
qed

lemma heartbeat_finish_inv:
  assumes inv: "repo_inv r" and w: "dict_get (r_workers r) k = Some w"
    and st: "wr_state w = OFFLINE \<Longrightarrow> hb_state hb \<notin> {Some ONLINE, Some DRAINING}"
  shows "repo_inv (snd (heartbeat_finish k w hb t r))"
proof -
  have "wr_active_jobs w = active_job_count r k"
    using inv w by (simp add: repo_inv_def accounting_def)
  moreover have "wr_state w = OFFLINE \<Longrightarrow> hb_state hb = None \<or> hb_state hb = Some OFFLINE"
    using st by (cases "hb_state hb"; cases "the (hb_state hb)") auto
  ultimately show ?thesis
    unfolding heartbeat_finish_def Let_def snd_conv
    by (intro inv_update_worker [OF inv w]) (auto simp: owns_resources_def split: option.splits)
qed

lemma heartbeat_worker_inv:
  assumes inv: "repo_inv r"
  shows "repo_inv (snd (heartbeat_worker k hb t r))"
proof -
  have renew: "repo_inv (r\<lparr>r_jobs := dict_set (jb_job_id j) (j\<lparr>jb_lease_expires_at := Some e, jb_updated_at := u\<rparr>) (r_jobs r)\<rparr>)"
    if j: "dict_get (r_jobs r) i = Some j" and run: "assert_running j k tok t = None" for i j tok e u
  proof -
    have wf: "job_wf i j" using inv j by (auto simp: repo_inv_def jobs_wf_def)
    then have "jb_job_id j = i" by (simp add: job_wf_def)
    with wf run show ?thesis
      by (intro inv_renew_job [OF inv j, folded \<open>jb_job_id j = i\<close>])
        (auto simp: job_wf_def runs_on_def assert_running_None)
  qed
  show ?thesis
    using inv unfolding heartbeat_worker_def
    by (auto simp: Let_def get_worker_Inr get_job_Inr split: sum.splits option.splits
        intro!: heartbeat_finish_inv renew)
qed

lemma expire_loop_inv:
  assumes "repo_inv r" "dict_ok xs" "\<And>k w. (k, w) \<in> set xs \<Longrightarrow> dict_get (r_workers r) k = Some w"
  shows "repo_inv (snd (expire_loop c xs r))"
  using assms
proof (induction xs arbitrary: r)
  case Nil
  then show ?case by simp
next
  case (Cons p xs)
  obtain k w where p: "p = (k, w)" by (cases p)
  let ?r = "r\<lparr>r_workers := dict_set k (w\<lparr>wr_state := OFFLINE\<rparr>) (r_workers r)\<rparr>"
  have "repo_inv ?r"
    using Cons.prems p by (intro inv_update_worker [where v = w]) (auto simp: owns_resources_def)
  moreover have "dict_get (r_workers ?r) k' = Some w'" if "(k', w') \<in> set xs" for k' w'
    using Cons.prems p that by (force simp: dict_simps)
  ultimately have "repo_inv (snd (expire_loop c xs ?r))"
    using Cons.prems p by (intro Cons.IH) auto
  moreover have "repo_inv (snd (expire_loop c xs r))"
    using Cons.prems p by (intro Cons.IH) auto
  ultimately show ?case by (simp add: p Let_def split_def)
qed

lemma expire_stale_workers_inv:
  assumes "repo_inv r" shows "repo_inv (snd (expire_stale_workers t r))"
  unfolding expire_stale_workers_def
  using assms by (intro expire_loop_inv) (auto simp: repo_inv_def)

lemma new_job_inv:
  assumes inv: "repo_inv r" and sub: "submission_ok s" and fresh: "dict_get (r_jobs r) i = None"
    and key: "\<And>k. sub_idempotency_key s = Some k \<Longrightarrow> k \<noteq> [] \<Longrightarrow> dict_get (r_idempotency r) k = None"
  shows "repo_inv (snd (new_job s t i r))"
proof -
  obtain j where j: "snd (new_job s t i r) = r\<lparr>r_sequence := r_sequence r + 1,
            r_jobs := dict_set i j (r_jobs r),
            r_idempotency := (case sub_idempotency_key s of
               Some k \<Rightarrow> if k = [] then r_idempotency r else dict_set k i (r_idempotency r)
             | None \<Rightarrow> r_idempotency r)\<rparr>"
    and wf: "job_wf i j" and seq: "jb_sequence j = r_sequence r + 1"
    and q: "jb_status j = QUEUED" "jb_assigned_worker_id j = None"
    and k: "jb_idempotency_key j = sub_idempotency_key s"
    using sub inv by (auto simp: new_job_def Let_def job_wf_def submission_ok_def terminal_def repo_inv_def)
  have count: "count_values (runs_on x) (dict_set i j (r_jobs r)) = count_values (runs_on x) (r_jobs r)" for x
    using fresh q by (simp add: count_values_set_new runs_on_def)
  have acc: "accounting (snd (new_job s t i r))"
    using inv count by (simp add: j repo_inv_def accounting_def active_job_count_def)
  have "jobs_wf ((dict_get (r_jobs r))(i \<mapsto> j)) (r_sequence r + 1)"
    using inv wf seq jobs_wf_mono [of _ "r_sequence r" "r_sequence r + 1"]
    by (intro jobs_wf_update) (auto simp: repo_inv_def)
  moreover have "seq_inj ((dict_get (r_jobs r))(i \<mapsto> j))"
    using inv seq by (auto simp: repo_inv_def intro: seq_inj_new)
  moreover have "idem_ok (dict_get (case sub_idempotency_key s of
               Some k \<Rightarrow> if k = [] then r_idempotency r else dict_set k i (r_idempotency r)
             | None \<Rightarrow> r_idempotency r)) ((dict_get (r_jobs r))(i \<mapsto> j))"
  proof (cases "sub_idempotency_key s")
    case None
    then show ?thesis using inv k fresh unfolding repo_inv_def idem_ok_def by (auto; force)
  next
    case (Some key')
    with sub have "key' \<noteq> []" by (auto simp: submission_ok_def)
    then show ?thesis using inv k fresh Some key unfolding repo_inv_def idem_ok_def
      by (auto simp: dict_simps; force)
  qed
  ultimately show ?thesis
    using inv acc q unfolding repo_inv_def j
    by (auto simp: dict_simps intro: assigned_ok_update)
qed

lemma submit_job_inv:
  assumes inv: "repo_inv r" and sub: "submission_ok s" and fresh: "dict_get (r_jobs r) i = None"
  shows "repo_inv (snd (submit_job s t i r))"
  using inv unfolding submit_job_def
  by (auto split: option.splits if_splits intro!: new_job_inv sub fresh)

lemma first_eligible:
  assumes "first_by claim_key (filter (eligible w t) (dict_values (r_jobs r))) = Some j" "repo_inv r"
  shows "dict_get (r_jobs r) (jb_job_id j) = Some j" and "eligible w t j"
proof -
  have j: "j \<in> set (dict_values (r_jobs r))" and "eligible w t j"
    using first_by_Some(1) [OF assms(1)] by auto
  then show "eligible w t j" by simp
  obtain k where k: "dict_get (r_jobs r) k = Some j"
    using j assms(2) dict_value_get by (metis repo_inv_def)
  then have "jb_job_id j = k" using assms(2) by (auto simp: repo_inv_def jobs_wf_def job_wf_def)
  with k show "dict_get (r_jobs r) (jb_job_id j) = Some j" by simp
qed

lemma claimed_record_wf:
  "job_wf k j \<Longrightarrow> eligible w t j \<Longrightarrow> tok \<noteq> [] \<Longrightarrow> job_wf k (claimed_record i tok t l j)"
  by (auto simp: job_wf_def eligible_def claimed_record_def terminal_def)

text \<open>A claim: the queued job runs on the worker, whose count goes up by one.\<close>

lemma inv_start_attempt:
  assumes inv: "repo_inv r" and w: "dict_get (r_workers r) k = Some w"
    and free: "wr_active_jobs w < wr_max_concurrency w" and on: "wr_state w = ONLINE"
    and j: "dict_get (r_jobs r) i = Some j" and el: "eligible w t j" and tok: "tok \<noteq> []"
  shows "repo_inv (r\<lparr>r_jobs := dict_set i (claimed_record k tok t l j) (r_jobs r),
     r_workers := dict_set k (w\<lparr>wr_active_jobs := wr_active_jobs w + 1\<rparr>) (r_workers r)\<rparr>)"
proof -
  let ?j = "claimed_record k tok t l j" and ?w = "w\<lparr>wr_active_jobs := wr_active_jobs w + 1\<rparr>"
  let ?r = "r\<lparr>r_jobs := dict_set i ?j (r_jobs r), r_workers := dict_set k ?w (r_workers r)\<rparr>"
  let ?W = "(dict_get (r_workers r))(k \<mapsto> ?w)"
  have runs: "runs_on x j = False" "runs_on x ?j = (x = k)" for x
    using el by (auto simp: runs_on_def eligible_def claimed_record_def)
  have act: "wr_active_jobs w = active_job_count r k"
    using inv w by (simp add: repo_inv_def accounting_def)
  have "count_values (runs_on x) (dict_set i ?j (r_jobs r)) = active_job_count r x + (if x = k then 1 else 0)" for x
    using j runs by (simp add: active_job_count_def count_values_set_old)
  then have acc: "accounting ?r"
    using inv act by (auto simp: repo_inv_def accounting_def active_job_count_def dict_simps)
  have jwf: "job_wf i j" "jb_sequence j \<le> r_sequence r"
    using inv j by (auto simp: repo_inv_def jobs_wf_def)
  have wwf: "worker_wf k w" using inv w by (simp add: repo_inv_def workers_wf_def)
  have same: "jb_sequence ?j = jb_sequence j" "jb_idempotency_key ?j = jb_idempotency_key j"
    "jb_assigned_worker_id ?j = Some k"
    by (simp_all add: claimed_record_def)
  have "gpu_exclusive ?W"
    using inv w on by (auto simp: repo_inv_def owns_resources_def intro: gpu_exclusive_weaken)
  moreover have "assigned_ok ((dict_get (r_jobs r))(i \<mapsto> ?j)) ?W"
    using inv same unfolding repo_inv_def
    by (auto intro!: assigned_ok_update elim: assigned_ok_dom)
  moreover have "worker_wf k ?w" using wwf free by (simp add: worker_wf_def)
  ultimately show ?thesis
    using inv acc same j jwf claimed_record_wf [OF jwf(1) el tok] unfolding repo_inv_def
    by (auto simp: dict_simps intro: jobs_wf_update seq_inj_replace idem_ok_replace workers_wf_update)
qed

lemma claim_next_job_inv:
  assumes inv: "repo_inv r" and tok: "tok \<noteq> []"
  shows "repo_inv (snd (claim_next_job k t tok r))"
proof (cases "get_worker k r")
  case (Inl e)
  then show ?thesis using inv by (simp add: claim_next_job_def)
next
  case (Inr w)
  then have w: "dict_get (r_workers r) k = Some w" by (simp add: get_worker_Inr)
  have "repo_inv (r\<lparr>r_workers := dict_set k (w\<lparr>wr_state := OFFLINE\<rparr>) (r_workers r)\<rparr>)"
    using inv w by (intro inv_update_worker) (auto simp: owns_resources_def)
  moreover have "jb_job_id (claimed_record k tok t l j) = jb_job_id j" for l j
    by (simp add: claimed_record_def)
  ultimately show ?thesis
    using inv Inr w tok unfolding claim_next_job_def
    by (auto simp: Let_def split: option.splits
        intro!: inv_start_attempt dest: first_eligible)
qed

lemma completed_record_wf:
  "job_wf k j \<Longrightarrow> jb_status j = RUNNING \<Longrightarrow> job_wf k (completed_record x t j)"
  by (auto simp: job_wf_def completed_record_def terminal_def)

lemma failed_record_wf:
  "job_wf k j \<Longrightarrow> jb_status j = RUNNING \<Longrightarrow> (b \<Longrightarrow> jb_attempts j < jb_max_attempts j) \<Longrightarrow>
     job_wf k (failed_record b e t j)"
  by (auto simp: job_wf_def failed_record_def terminal_def)

lemma cancelled_record_wf:
  "job_wf k j \<Longrightarrow> \<not> terminal (jb_status j) \<Longrightarrow> job_wf k (cancelled_record t j)"
  by (auto simp: job_wf_def cancelled_record_def terminal_def)

lemma ended_frame [simp]:
  "jb_sequence (completed_record x t j) = jb_sequence j"
  "jb_idempotency_key (completed_record x t j) = jb_idempotency_key j"
  "jb_status (completed_record x t j) = SUCCEEDED"
  "jb_sequence (failed_record b e t j) = jb_sequence j"
  "jb_idempotency_key (failed_record b e t j) = jb_idempotency_key j"
  "jb_status (failed_record b e t j) = (if b then QUEUED else FAILED)"
  "jb_sequence (cancelled_record t j) = jb_sequence j"
  "jb_idempotency_key (cancelled_record t j) = jb_idempotency_key j"
  "jb_status (cancelled_record t j) = CANCELLED"
  by (simp_all add: completed_record_def failed_record_def cancelled_record_def)

lemma complete_job_inv:
  assumes inv: "repo_inv r"
  shows "repo_inv (snd (complete_job i x w k t r))"
proof -
  have "repo_inv (release_worker_capacity (Some w) (r\<lparr>r_jobs := dict_set i (completed_record x t j) (r_jobs r)\<rparr>))"
    if j: "dict_get (r_jobs r) i = Some j" and run: "runs_on w j" for j
  proof -
    have "job_wf i j" using inv j by (simp add: repo_inv_def jobs_wf_def)
    with run show ?thesis
      by (intro inv_end_attempt [OF inv j]) (auto simp: runs_on_def intro: completed_record_wf)
  qed
  with inv show ?thesis
    unfolding complete_job_def
    by (auto simp: Let_def get_job_Inr assert_running_None split: sum.splits option.splits)
qed

lemma fail_job_inv:
  assumes inv: "repo_inv r"
  shows "repo_inv (snd (fail_job i e b w k t r))"
proof -
  have "repo_inv (release_worker_capacity (Some w) (r\<lparr>r_jobs := dict_set i (failed_record c p t j) (r_jobs r)\<rparr>))"
    if j: "dict_get (r_jobs r) i = Some j" and run: "runs_on w j" and c: "c \<Longrightarrow> jb_attempts j < jb_max_attempts j" for j c p
  proof -
    have "job_wf i j" using inv j by (simp add: repo_inv_def jobs_wf_def)
    with run c show ?thesis
      by (intro inv_end_attempt [OF inv j]) (auto simp: runs_on_def intro: failed_record_wf)
  qed
  with inv show ?thesis
    unfolding fail_job_def
    by (auto simp: Let_def get_job_Inr assert_running_None split: sum.splits option.splits)
qed

lemma cancel_job_inv:
  assumes inv: "repo_inv r"
  shows "repo_inv (snd (cancel_job i t r))"
proof (cases "get_job i r")
  case (Inl e)
  then show ?thesis using inv by (simp add: cancel_job_def)
next
  case (Inr j)
  then have j: "dict_get (r_jobs r) i = Some j" by (simp add: get_job_Inr)
  then have wf: "job_wf i j" using inv by (simp add: repo_inv_def jobs_wf_def)
  show ?thesis
  proof (cases "jb_status j = RUNNING")
    case True
    with wf obtain w where w: "jb_assigned_worker_id j = Some w" by (auto simp: job_wf_def)
    have "repo_inv (release_worker_capacity (Some w)
        (r\<lparr>r_jobs := dict_set i (cancelled_record t j) (r_jobs r)\<rparr>))"
      using True w wf
      by (intro inv_end_attempt [OF inv j])
        (auto simp: runs_on_def terminal_def intro!: cancelled_record_wf)
    with True w Inr show ?thesis
      by (simp add: cancel_job_def Let_def release_swap)
  next
    case False
    have "repo_inv (r\<lparr>r_jobs := dict_set i (cancelled_record t j) (r_jobs r)\<rparr>)"
      if "jb_status j = QUEUED"
      using that wf
      by (intro inv_renew_job [OF inv j])
        (auto simp: runs_on_def terminal_def job_wf_def cancelled_record_def)
    with False Inr inv show ?thesis
      by (cases "jb_status j") (auto simp: cancel_job_def Let_def)
  qed
qed

lemma lease_lapsed_running: "lease_lapsed t j \<Longrightarrow> jb_status j = RUNNING"
  by (simp add: lease_lapsed_def)

lemma recover_one_inv:
  assumes inv: "repo_inv r" and j: "dict_get (r_jobs r) i = Some j" and l: "lease_lapsed t j"
  shows "repo_inv (snd (recover_one t i j r))"
proof -
  have wf: "job_wf i j" using inv j by (simp add: repo_inv_def jobs_wf_def)
  with lease_lapsed_running [OF l] obtain w where w: "jb_assigned_worker_id j = Some w"
    by (auto simp: job_wf_def)
  have "repo_inv (release_worker_capacity (Some w)
      (r\<lparr>r_jobs := dict_set i (failed_record c p t j) (r_jobs r)\<rparr>))"
    if "c \<Longrightarrow> jb_attempts j < jb_max_attempts j" for c p
    using w wf that lease_lapsed_running [OF l]
    by (intro inv_end_attempt [OF inv j]) (auto simp: runs_on_def intro!: failed_record_wf)
  with w show ?thesis by (simp add: recover_one_def Let_def release_swap)
qed

lemma recover_one_jobs:
  "dict_get (r_jobs (snd (recover_one t i j r))) =
     (dict_get (r_jobs r))(i \<mapsto> fst (recover_one t i j r))"
  by (simp add: recover_one_def Let_def dict_simps fun_eq_iff)

lemma recover_loop_inv:
  assumes "repo_inv r" "dict_ok xs" "\<And>k j. (k, j) \<in> set xs \<Longrightarrow> dict_get (r_jobs r) k = Some j"
  shows "repo_inv (snd (recover_loop t xs r))"
  using assms
proof (induction xs arbitrary: r)
  case Nil
  then show ?case by simp
next
  case (Cons p xs)
  obtain k j where p: "p = (k, j)" by (cases p)
  let ?r = "snd (recover_one t k j r)"
  have "repo_inv (snd (recover_loop t xs ?r))" if l: "lease_lapsed t j"
  proof (rule Cons.IH)
    show "repo_inv ?r" using Cons.prems p l by (intro recover_one_inv) auto
    show "dict_ok xs" using Cons.prems by simp
    show "dict_get (r_jobs ?r) k' = Some j'" if "(k', j') \<in> set xs" for k' j'
      using Cons.prems p that by (force simp: recover_one_jobs)
  qed
  moreover have "repo_inv (snd (recover_loop t xs r))"
    using Cons.prems p by (intro Cons.IH) auto
  ultimately show ?case by (simp add: p Let_def split_def)
qed

lemma recover_expired_jobs_inv:
  assumes "repo_inv r" shows "repo_inv (snd (recover_expired_jobs t r))"
  unfolding recover_expired_jobs_def
  using assms by (intro recover_loop_inv) (auto simp: repo_inv_def)

lemmas op_inv = register_worker_inv set_worker_state_inv heartbeat_worker_inv
  expire_stale_workers_inv submit_job_inv claim_next_job_inv complete_job_inv fail_job_inv
  cancel_job_inv recover_expired_jobs_inv

lemma repo_step_inv: "repo_inv r \<Longrightarrow> op_ok r x \<Longrightarrow> repo_inv (repo_step r x)"
  by (induction r x rule: repo_step.induct) (auto intro: op_inv)

lemma init_repository_inv: "init_repository a b = Inr r \<Longrightarrow> repo_inv r"
  by (auto simp: init_repository_def repo_inv_def jobs_wf_def seq_inj_def assigned_ok_def idem_ok_def
      workers_wf_def accounting_def gpu_exclusive_def split: if_splits)

interpretation mem: transition_system repo_step op_ok repo_inv
  by unfold_locales (rule repo_step_inv)

end
