(* ===== verification/Repository_Life.thy ===== *)
theory Repository_Life
  imports Repository_Inv
begin

text \<open>
  The life of one job. \<open>job_step\<close> is the relation between a job's record before and after one
  operation: one rule per transition of the source, with its guard. Every operation of the
  repository performs a job step on every stored job (\<open>repo_step_job_step\<close>), so facts about the
  relation hold of the operations. The interpretation \<open>hist\<close> of \<open>monotone_system\<close> says what
  a run keeps of every job; the interpretation \<open>fence\<close> of \<open>transition_system\<close> says that a lease
  token that is no longer current never becomes current again.
\<close>

section \<open>One job under one operation\<close>

inductive job_step :: "repo_op \<times> instant \<Rightarrow> job_record \<Rightarrow> job_record \<Rightarrow> bool" where
  stay: "job_step x j j"
| claim: "jb_status j = QUEUED \<Longrightarrow> jb_attempts j < jb_max_attempts j \<Longrightarrow> jb_available_at j \<le> t \<Longrightarrow>
    job_step (Claim w k, t) j (claimed_record w k t l j)"
| renew: "jb_status j = RUNNING \<Longrightarrow> jb_assigned_worker_id j = Some w \<Longrightarrow> hb_lease_token h = jb_lease_token j \<Longrightarrow>
    job_step (Heartbeat w h, t) j (j\<lparr>jb_lease_expires_at := Some e, jb_updated_at := t\<rparr>)"
| complete: "jb_status j = RUNNING \<Longrightarrow> jb_assigned_worker_id j = Some w \<Longrightarrow> jb_lease_token j = Some k \<Longrightarrow>
    job_step (Complete i x w k, t) j (completed_record x t j)"
| fail: "jb_status j = RUNNING \<Longrightarrow> jb_assigned_worker_id j = Some w \<Longrightarrow> jb_lease_token j = Some k \<Longrightarrow>
    b = (rb \<and> jb_attempts j < jb_max_attempts j) \<Longrightarrow>
    job_step (Fail i er rb w k, t) j (failed_record b p t j)"
| cancel: "\<not> terminal (jb_status j) \<Longrightarrow> job_step (Cancel i, t) j (cancelled_record t j)"
| recover: "lease_lapsed t j \<Longrightarrow> b = (jb_attempts j < jb_max_attempts j) \<Longrightarrow>
    job_step (Recover, t) j (failed_record b (expired_error b) t j)"

inductive_cases job_stepE: "job_step x j j'"

section \<open>Every operation performs job steps\<close>

lemma get_job_set:
  "dict_get (dict_set k v d) i = (if i = k then Some v else dict_get d i)"
  by (simp add: dict_simps)

lemma register_jobs [simp]: "r_jobs (snd (register_worker g t r)) = r_jobs r"
  by (simp add: register_worker_def Let_def split: option.splits)

lemma set_state_jobs [simp]: "r_jobs (snd (set_worker_state w s t r)) = r_jobs r"
  by (simp add: set_worker_state_def Let_def split: option.splits sum.splits)

lemma expire_loop_jobs [simp]: "r_jobs (snd (expire_loop c xs r)) = r_jobs r"
  by (induction c xs r rule: expire_loop.induct) (auto simp: Let_def split_def)

lemma expire_jobs [simp]: "r_jobs (snd (expire_stale_workers t r)) = r_jobs r"
  by (simp add: expire_stale_workers_def)

lemma finish_jobs [simp]: "r_jobs (snd (heartbeat_finish k w h t r)) = r_jobs r"
  by (simp add: heartbeat_finish_def Let_def)

lemma stored_id: "repo_inv r \<Longrightarrow> dict_get (r_jobs r) i = Some j \<Longrightarrow> jb_job_id j = i"
  by (auto simp: repo_inv_def jobs_wf_def job_wf_def)

lemma heartbeat_job_step:
  assumes inv: "repo_inv r" and j: "dict_get (r_jobs r) i = Some j"
  shows "\<exists>j'. dict_get (r_jobs (snd (heartbeat_worker w h t r))) i = Some j' \<and> job_step (Heartbeat w h, t) j j'"
  using j stored_id [OF inv] unfolding heartbeat_worker_def
  by (auto simp: Let_def get_job_Inr get_job_set assert_running_None runs_on_def
      split: sum.splits option.splits intro!: job_step.renew intro: job_step.stay)

lemma submit_job_step:
  assumes j: "dict_get (r_jobs r) i = Some j" and fresh: "dict_get (r_jobs r) n = None"
  shows "dict_get (r_jobs (snd (submit_job s t n r))) i = Some j"
  using j fresh unfolding submit_job_def new_job_def
  by (auto simp: Let_def get_job_set split: option.splits)

lemma claim_job_step:
  assumes inv: "repo_inv r" and j: "dict_get (r_jobs r) i = Some j"
  shows "\<exists>j'. dict_get (r_jobs (snd (claim_next_job w t k r))) i = Some j' \<and> job_step (Claim w k, t) j j'"
proof -
  have "\<exists>j'. dict_get (dict_set (jb_job_id s) (claimed_record w k t l s) (r_jobs r)) i = Some j' \<and>
      job_step (Claim w k, t) j j'"
    if "first_by claim_key (filter (eligible v t) (dict_values (r_jobs r))) = Some s" for v s l
    using first_eligible [OF that inv] j
    by (auto simp: get_job_set eligible_def intro: job_step.intros)
  then show ?thesis
    using j unfolding claim_next_job_def
    by (auto simp: Let_def claimed_record_def split: sum.splits option.splits intro: job_step.stay)
qed

lemma complete_job_step:
  assumes j: "dict_get (r_jobs r) i = Some j"
  shows "\<exists>j'. dict_get (r_jobs (snd (complete_job n x w k t r))) i = Some j' \<and> job_step (Complete n x w k, t) j j'"
  using j unfolding complete_job_def
  by (auto simp: Let_def get_job_Inr get_job_set assert_running_None runs_on_def
      split: sum.splits option.splits intro: job_step.intros)

lemma fail_job_step:
  assumes j: "dict_get (r_jobs r) i = Some j"
  shows "\<exists>j'. dict_get (r_jobs (snd (fail_job n e b w k t r))) i = Some j' \<and> job_step (Fail n e b w k, t) j j'"
  using j unfolding fail_job_def
  by (auto simp: Let_def get_job_Inr get_job_set assert_running_None runs_on_def
      split: sum.splits option.splits intro: job_step.intros)

lemma cancel_job_step:
  assumes j: "dict_get (r_jobs r) i = Some j"
  shows "\<exists>j'. dict_get (r_jobs (snd (cancel_job n t r))) i = Some j' \<and> job_step (Cancel n, t) j j'"
  using j unfolding cancel_job_def
  by (auto simp: Let_def get_job_Inr get_job_set terminal_def
      split: sum.splits option.splits intro!: job_step.cancel intro: job_step.stay)

text \<open>The recovery loop changes each job it visits once, the others not at all.\<close>

lemma recover_loop_jobs:
  assumes "dict_ok xs"
  shows "dict_get (r_jobs (snd (recover_loop t xs r))) i =
    (case dict_get xs i of
       Some j \<Rightarrow> if lease_lapsed t j
         then Some (failed_record (jb_attempts j < jb_max_attempts j)
                     (expired_error (jb_attempts j < jb_max_attempts j)) t j)
         else dict_get (r_jobs r) i
     | None \<Rightarrow> dict_get (r_jobs r) i)"
  using assms
proof (induction xs arbitrary: r)
  case Nil
  then show ?case by simp
next
  case (Cons p xs)
  obtain k j where p: "p = (k, j)" by (cases p)
  have none: "dict_get xs k = None"
    using Cons.prems p by (simp add: map_of_eq_None_iff)
  show ?case
    using Cons none
    by (auto simp: p Let_def split_def recover_one_jobs recover_one_def get_job_set split: option.splits)
qed

lemma recover_job:
  assumes inv: "repo_inv r" and j: "dict_get (r_jobs r) i = Some j"
  shows "dict_get (r_jobs (snd (recover_expired_jobs t r))) i =
    Some (if lease_lapsed t j
      then failed_record (jb_attempts j < jb_max_attempts j)
             (expired_error (jb_attempts j < jb_max_attempts j)) t j
      else j)"
  using assms unfolding recover_expired_jobs_def
  by (simp add: recover_loop_jobs repo_inv_def)

lemma repo_step_job_step:
  assumes inv: "repo_inv r" and ok: "op_ok r x" and j: "dict_get (r_jobs r) i = Some j"
  shows "\<exists>j'. dict_get (r_jobs (repo_step r x)) i = Some j' \<and> job_step x j j'"
  using assms
proof (induction r x rule: repo_step.induct)
  case (5 r s n t)
  then show ?case by (auto intro: submit_job_step job_step.stay)
next
  case (10 r t)
  then show ?case by (auto simp: recover_job intro: job_step.intros)
qed (simp_all add: heartbeat_job_step claim_job_step complete_job_step fail_job_step cancel_job_step job_step.stay)

section \<open>What a job step can do\<close>

lemma job_step_terminal: "job_step x j j' \<Longrightarrow> terminal (jb_status j) \<Longrightarrow> j' = j"
  by (auto simp: terminal_def lease_lapsed_def elim!: job_stepE)

lemma job_step_frame:
  "job_step x j j' \<Longrightarrow> jb_job_id j' = jb_job_id j \<and> jb_capability j' = jb_capability j \<and>
     jb_payload j' = jb_payload j \<and> jb_requirements j' = jb_requirements j \<and>
     jb_priority j' = jb_priority j \<and> jb_sequence j' = jb_sequence j \<and>
     jb_max_attempts j' = jb_max_attempts j \<and> jb_idempotency_key j' = jb_idempotency_key j \<and>
     jb_created_at j' = jb_created_at j"
  by (auto simp: claimed_record_def completed_record_def failed_record_def cancelled_record_def
      elim!: job_stepE)

lemma job_step_token:
  "job_step x j j' \<Longrightarrow> jb_lease_token j' = Some k \<Longrightarrow>
     jb_lease_token j = Some k \<or> (\<exists>w t. x = (Claim w k, t))"
  by (auto simp: claimed_record_def completed_record_def failed_record_def cancelled_record_def
      elim!: job_stepE)

lemma job_step_attempts:
  "job_step x j j' \<Longrightarrow> jb_attempts j' = jb_attempts j \<or>
     jb_attempts j' = jb_attempts j + 1 \<and> jb_status j = QUEUED \<and> jb_status j' = RUNNING"
  by (auto simp: claimed_record_def completed_record_def failed_record_def cancelled_record_def
      elim!: job_stepE)

lemma job_step_claims:
  "job_step x j j' \<Longrightarrow> jb_attempts j' \<noteq> jb_attempts j \<Longrightarrow> \<exists>w k t. x = (Claim w k, t)"
  by (auto simp: claimed_record_def completed_record_def failed_record_def cancelled_record_def
      elim!: job_stepE)

section \<open>Histories\<close>

text \<open>
  What a run keeps of every job: its identity and request, its record once it is terminal, and
  the number of attempts, which only grows.
\<close>

definition kept :: "job_record \<Rightarrow> job_record \<Rightarrow> bool" where
  "kept j j' \<longleftrightarrow> jb_job_id j' = jb_job_id j \<and>
     jb_capability j' = jb_capability j \<and> jb_payload j' = jb_payload j \<and>
     jb_requirements j' = jb_requirements j \<and> jb_priority j' = jb_priority j \<and>
     jb_sequence j' = jb_sequence j \<and> jb_max_attempts j' = jb_max_attempts j \<and>
     jb_idempotency_key j' = jb_idempotency_key j \<and> jb_created_at j' = jb_created_at j \<and>
     jb_attempts j \<le> jb_attempts j' \<and> (terminal (jb_status j) \<longrightarrow> j' = j)"

definition history :: "repo \<Rightarrow> repo \<Rightarrow> bool" where
  "history r r' \<longleftrightarrow> (\<forall>i j. dict_get (r_jobs r) i = Some j \<longrightarrow>
     (\<exists>j'. dict_get (r_jobs r') i = Some j' \<and> kept j j'))"

lemma job_step_kept:
  assumes "job_step x j j'" shows "kept j j'"
  using job_step_frame [OF assms] job_step_terminal [OF assms] job_step_attempts [OF assms]
  by (auto simp: kept_def)

lemma history_step:
  assumes "repo_inv r" "op_ok r x"
  shows "history r (repo_step r x)"
  unfolding history_def
  using repo_step_job_step [OF assms] job_step_kept by blast

lemma history_trans: "history r s \<Longrightarrow> history s u \<Longrightarrow> history r u"
  unfolding history_def
proof (intro allI impI)
  fix i j
  assume rs: "\<forall>i j. dict_get (r_jobs r) i = Some j \<longrightarrow> (\<exists>j'. dict_get (r_jobs s) i = Some j' \<and> kept j j')"
    and su: "\<forall>i j. dict_get (r_jobs s) i = Some j \<longrightarrow> (\<exists>j'. dict_get (r_jobs u) i = Some j' \<and> kept j j')"
    and j: "dict_get (r_jobs r) i = Some j"
  from rs j obtain j1 where j1: "dict_get (r_jobs s) i = Some j1" "kept j j1" by blast
  with su obtain j2 where "dict_get (r_jobs u) i = Some j2" "kept j1 j2" by blast
  with j1 show "\<exists>j'. dict_get (r_jobs u) i = Some j' \<and> kept j j'" by (auto simp: kept_def)
qed

interpretation hist: monotone_system repo_step op_ok repo_inv history
proof unfold_locales
  show "history r r" for r by (simp add: history_def kept_def)
  show "history r s \<Longrightarrow> history s u \<Longrightarrow> history r u" for r s u by (rule history_trans)
  show "repo_inv r \<Longrightarrow> op_ok r x \<Longrightarrow> history r (repo_step r x)" for r x by (rule history_step)
qed

section \<open>Fencing\<close>

definition holds_token :: "repo \<Rightarrow> string \<Rightarrow> string \<Rightarrow> bool" where
  "holds_token r i k \<longleftrightarrow> (\<exists>j. dict_get (r_jobs r) i = Some j \<and> jb_lease_token j = Some k)"

text \<open>The operations allowed when the token \<open>k\<close> is never drawn again.\<close>

fun claims_with :: "string \<Rightarrow> repo_op \<times> instant \<Rightarrow> bool" where
  "claims_with k (Claim w k', t) = (k' = k)"
| "claims_with k _ = False"

definition fence_ok :: "string \<Rightarrow> repo \<Rightarrow> repo_op \<times> instant \<Rightarrow> bool" where
  "fence_ok k r x \<longleftrightarrow> op_ok r x \<and> \<not> claims_with k x"

definition fenced :: "string \<Rightarrow> string \<Rightarrow> repo \<Rightarrow> bool" where
  "fenced i k r \<longleftrightarrow> repo_inv r \<and> \<not> holds_token r i k"

lemma repo_step_new_job:
  assumes "repo_inv r" "op_ok r x" "dict_get (r_jobs r) i = None"
    and "dict_get (r_jobs (repo_step r x)) i = Some j"
  shows "jb_status j = QUEUED \<and> jb_attempts j = 0 \<and> jb_lease_token j = None"
  using assms
proof (induction r x rule: repo_step.induct)
  case (5 r s n t)
  then show ?case
    by (auto simp: submit_job_def new_job_def Let_def get_job_set split: option.splits if_splits)
next
  case (3 r w h t)
  then show ?case
    by (auto simp: heartbeat_worker_def Let_def get_job_Inr get_job_set stored_id
        split: sum.splits option.splits if_splits)
next
  case (6 r w k t)
  then show ?case
    by (auto simp: claim_next_job_def Let_def get_job_set claimed_record_def
        split: sum.splits option.splits if_splits dest: first_eligible)
next
  case (10 r t)
  then show ?case
    by (auto simp: recover_expired_jobs_def recover_loop_jobs repo_inv_def)
qed (auto simp: complete_job_def fail_job_def cancel_job_def Let_def get_job_Inr get_job_set
    split: sum.splits option.splits if_splits)

lemma fenced_step:
  assumes f: "fenced i k r" and ok: "fence_ok k r x"
  shows "fenced i k (repo_step r x)"
proof -
  have inv: "repo_inv r" and op: "op_ok r x" using f ok by (auto simp: fenced_def fence_ok_def)
  have "\<not> holds_token (repo_step r x) i k"
  proof (cases "dict_get (r_jobs r) i")
    case None
    then show ?thesis using repo_step_new_job [OF inv op None] by (fastforce simp: holds_token_def)
  next
    case (Some j)
    from repo_step_job_step [OF inv op this] obtain j'
      where j': "dict_get (r_jobs (repo_step r x)) i = Some j'" and st: "job_step x j j'" by blast
    have "jb_lease_token j' \<noteq> Some k"
      using job_step_token [OF st, of k] f ok Some by (auto simp: fenced_def fence_ok_def holds_token_def)
    with j' show ?thesis by (simp add: holds_token_def)
  qed
  then show ?thesis using repo_step_inv [OF inv op] by (simp add: fenced_def)
qed

interpretation fence: transition_system repo_step "fence_ok k" "fenced i k" for i k
  by unfold_locales (rule fenced_step)

end
