(* ===== verification/Serde.thy ===== *)
theory Serde
  imports Models
begin

text \<open>
  \<open>src/src/astrumweaver/control/serde.py\<close>: the JSON form of requirements, worker specifications
  and job results, and reading it back through the constructors. A value read from JSON may have
  any shape, so the readers start with Python's conversions (\<open>dict(x or {})\<close>, \<open>frozenset(x or ())\<close>,
  \<open>tuple(x or ())\<close>, \<open>int(x or 0)\<close>) on arbitrary JSON values. The lemmas are the round trips.
\<close>

section \<open>Conversions of JSON values\<close>

text \<open>\<open>data.get(k)\<close>\<close>

definition json_get :: "obj \<Rightarrow> string \<Rightarrow> json" where
  "json_get d k = (case dict_get d k of None \<Rightarrow> JNull | Some v \<Rightarrow> v)"

text \<open>\<open>data[k]\<close>\<close>

definition json_item :: "obj \<Rightarrow> string \<Rightarrow> json res" where
  "json_item d k = (case dict_get d k of None \<Rightarrow> Inl (KeyError k) | Some v \<Rightarrow> Inr v)"

text \<open>\<open>tuple(v or ())\<close>: a text gives its characters, a dictionary its keys.\<close>

fun json_tuple :: "json \<Rightarrow> json list res" where
  "json_tuple (JList xs) = Inr xs"
| "json_tuple (JStr s) = Inr (map (\<lambda>c. JStr [c]) s)"
| "json_tuple (JObj d) = Inr (map (\<lambda>p. JStr (fst p)) d)"
| "json_tuple v = (if py_truthy v then Inl (TypeError (Wrong_type ''iterable'')) else Inr [])"

fun hashable :: "json \<Rightarrow> bool" where
  "hashable (JList _) = False"
| "hashable (JObj _) = False"
| "hashable _ = True"

text \<open>The elements of a set in the order they were first added; equal elements are one.\<close>

fun json_dedup :: "json list \<Rightarrow> json list" where
  "json_dedup [] = []"
| "json_dedup (x # xs) = x # json_dedup (filter (\<lambda>y. \<not> py_eq x y) xs)"

text \<open>\<open>frozenset(v or ())\<close>\<close>

definition json_frozenset :: "json \<Rightarrow> json list res" where
  "json_frozenset v = rbind (json_tuple v) (\<lambda>xs.
     if list_all hashable xs then Inr (json_dedup xs) else Inl (TypeError (Wrong_type ''hashable'')))"

text \<open>\<open>int(v or 0)\<close>\<close>

definition int_or_zero :: "json \<Rightarrow> int res" where
  "int_or_zero v = (if py_truthy v then py_int v else Inr 0)"

text \<open>A field that is used as text when it is not \<open>None\<close>: \<open>strip\<close> on anything else raises.\<close>

fun text_field :: "json \<Rightarrow> string option res" where
  "text_field JNull = Inr None"
| "text_field (JStr s) = Inr (Some s)"
| "text_field _ = Inl AttributeError"

text \<open>A field that is converted with \<open>str\<close> when it is not \<open>None\<close>.\<close>

definition str_field :: "json \<Rightarrow> string option res" where
  "str_field v = (if v = JNull then Inr None else rbind (py_str v) (\<lambda>s. Inr (Some s)))"

definition str_items :: "obj \<Rightarrow> (string, string) dict res" where
  "str_items d = rmap (\<lambda>(k, v). rbind (py_str v) (\<lambda>s. Inr (k, s))) d"

definition json_opt :: "string option \<Rightarrow> json" where
  "json_opt x = (case x of None \<Rightarrow> JNull | Some s \<Rightarrow> JStr s)"

definition json_labels :: "(string, string) dict \<Rightarrow> json" where
  "json_labels d = JObj (map (\<lambda>(k, v). (k, JStr v)) d)"

text \<open>\<open>sorted(s)\<close> of a set of texts: code-point order.\<close>

definition json_sorted :: "string set \<Rightarrow> json" where
  "json_sorted S = JList (map JStr (sorted_list_of_set S))"

section \<open>Requirements\<close>

definition requirements_to_dict :: "job_requirements \<Rightarrow> obj" where
  "requirements_to_dict value = [
     (''worker_class'', json_opt (jr_worker_class value)),
     (''required_capabilities'', json_sorted (jr_required_capabilities value)),
     (''required_labels'', json_labels (jr_required_labels value)),
     (''required_gpu_uuids'', json_sorted (jr_required_gpu_uuids value)),
     (''min_gpu_count'', JInt (jr_min_gpu_count value)),
     (''min_total_vram_mb'', JInt (jr_min_total_vram_mb value)),
     (''min_single_gpu_vram_mb'', JInt (jr_min_single_gpu_vram_mb value))]"

text \<open>
  The arguments are converted first, in the order of the source, then the constructor checks them;
  of its conversions only the one of the labels can raise, which happens here just before its
  checks.
\<close>

definition requirements_from_dict :: "json \<Rightarrow> job_requirements res" where
  "requirements_from_dict value =
     rbind (as_mapping value) (\<lambda>data.
     rbind (json_frozenset (json_get data ''required_capabilities'')) (\<lambda>caps.
     rbind (json_frozenset (json_get data ''required_gpu_uuids'')) (\<lambda>gpus.
     rbind (int_or_zero (json_get data ''min_gpu_count'')) (\<lambda>count.
     rbind (int_or_zero (json_get data ''min_total_vram_mb'')) (\<lambda>tot.
     rbind (int_or_zero (json_get data ''min_single_gpu_vram_mb'')) (\<lambda>single.
     rbind (text_field (json_get data ''worker_class'')) (\<lambda>wclass.
     rbind (rmap py_str caps) (\<lambda>cap_texts.
     rbind (rmap py_str gpus) (\<lambda>gpu_texts.
     rbind (as_mapping (json_get data ''required_labels'')) (\<lambda>labels.
     rbind (str_items labels) (\<lambda>label_texts.
       mk_job_requirements wclass (Many cap_texts) label_texts (Many gpu_texts) count tot single)))))))))))"

section \<open>Worker specifications\<close>

definition accelerator_to_dict :: "accelerator_device \<Rightarrow> obj" where
  "accelerator_to_dict device = [
     (''uuid'', JStr (ad_uuid device)),
     (''memory_mb'', JInt (ad_memory_mb device)),
     (''compute_capability'', json_opt (ad_compute_capability device)),
     (''device_class'', json_opt (ad_device_class device))]"

definition worker_spec_to_dict :: "worker_spec \<Rightarrow> obj" where
  "worker_spec_to_dict value = [
     (''worker_id'', JStr (ws_worker_id value)),
     (''worker_class'', JStr (ws_worker_class value)),
     (''gpu_uuids'', JList (map JStr (ws_gpu_uuids value))),
     (''accelerators'', JList (map (\<lambda>d. JObj (accelerator_to_dict d)) (ws_accelerators value))),
     (''capabilities'', json_sorted (ws_capabilities value)),
     (''labels'', json_labels (ws_labels value)),
     (''resources'', JObj [
        (''gpu_count'', JInt (gpu_count (ws_resources value))),
        (''total_vram_mb'', JInt (total_vram_mb (ws_resources value))),
        (''max_single_gpu_vram_mb'', JInt (max_single_gpu_vram_mb (ws_resources value)))])]"

text \<open>
  One entry of \<open>accelerators\<close>: subscripting a list with a text raises \<open>TypeError\<close>, and so does
  subscripting a text, a number or \<open>None\<close>.
\<close>

definition accelerator_from_dict :: "json \<Rightarrow> accelerator_device res" where
  "accelerator_from_dict item = (case item of
     JObj d \<Rightarrow>
       rbind (json_item d ''uuid'') (\<lambda>u.
       rbind (py_str u) (\<lambda>uuid.
       rbind (json_item d ''memory_mb'') (\<lambda>m.
       rbind (py_int m) (\<lambda>memory.
       rbind (str_field (json_get d ''compute_capability'')) (\<lambda>cc.
       rbind (str_field (json_get d ''device_class'')) (\<lambda>dc.
         mk_accelerator_device uuid (JInt memory) cc dc))))))
   | _ \<Rightarrow> Inl (TypeError (Wrong_type ''accelerators'')))"

definition resources_from_dict :: "obj \<Rightarrow> resource_shape res" where
  "resources_from_dict resource =
     rbind (int_or_zero (json_get resource ''gpu_count'')) (\<lambda>count.
     rbind (int_or_zero (json_get resource ''total_vram_mb'')) (\<lambda>tot.
     rbind (int_or_zero (json_get resource ''max_single_gpu_vram_mb'')) (\<lambda>single.
       mk_resource_shape count tot single)))"

text \<open>
  The argument is a mapping (\<open>dict(value)\<close> of a text or a number raises before anything else).
\<close>

definition worker_spec_from_dict :: "json \<Rightarrow> worker_spec res" where
  "worker_spec_from_dict value = (case value of
     JObj data \<Rightarrow>
       rbind (as_mapping (json_get data ''resources'')) (\<lambda>resource.
       rbind (rbind (json_item data ''worker_id'') py_str) (\<lambda>worker_id.
       rbind (rbind (json_item data ''worker_class'') py_str) (\<lambda>worker_class.
       rbind (json_tuple (json_get data ''gpu_uuids'')) (\<lambda>gpus.
       rbind (rbind (json_tuple (json_get data ''accelerators'')) (rmap accelerator_from_dict)) (\<lambda>accelerators.
       rbind (json_frozenset (json_get data ''capabilities'')) (\<lambda>caps.
       rbind (resources_from_dict resource) (\<lambda>shape.
       rbind (rmap py_str gpus) (\<lambda>gpu_texts.
       rbind (rmap py_str caps) (\<lambda>cap_texts.
       rbind (as_mapping (json_get data ''labels'')) (\<lambda>labels.
       rbind (str_items labels) (\<lambda>label_texts.
         mk_worker_spec worker_id worker_class shape (Many gpu_texts) accelerators
           (Many cap_texts) label_texts)))))))))))
   | JList xs \<Rightarrow> if xs = [] then Inl (KeyError ''worker_id'') else Inl Unmodelled
   | JStr s \<Rightarrow> if s = [] then Inl (KeyError ''worker_id'') else Inl (ValueError (Malformed ''dict''))
   | _ \<Rightarrow> Inl (TypeError (Wrong_type ''dict'')))"

section \<open>Job results\<close>

definition artifact_to_dict :: "artifact_ref \<Rightarrow> obj" where
  "artifact_to_dict artifact = [
     (''uri'', JStr (ar_uri artifact)),
     (''media_type'', json_opt (ar_media_type artifact)),
     (''digest'', json_opt (ar_digest artifact)),
     (''size_bytes'', ar_size_bytes artifact),
     (''name'', json_opt (ar_name artifact)),
     (''metadata'', JObj (ar_metadata artifact))]"

definition job_result_to_dict :: "job_result \<Rightarrow> obj" where
  "job_result_to_dict value = [
     (''outputs'', JObj (re_outputs value)),
     (''artifacts'', JList (map (\<lambda>a. JObj (artifact_to_dict a)) (re_artifacts value))),
     (''metrics'', JObj (re_metrics value)),
     (''text'', json_opt (re_text value)),
     (''metadata'', JObj (re_metadata value))]"

definition artifact_from_dict :: "json \<Rightarrow> artifact_ref res" where
  "artifact_from_dict item = (case item of
     JObj d \<Rightarrow>
       rbind (rbind (json_item d ''uri'') py_str) (\<lambda>uri.
         mk_artifact_ref uri (json_get d ''media_type'') (json_get d ''digest'')
           (json_get d ''size_bytes'') (json_get d ''name'') (json_get d ''metadata''))
   | _ \<Rightarrow> Inl (TypeError (Wrong_type ''artifacts'')))"

definition job_result_from_dict :: "json \<Rightarrow> job_result option res" where
  "job_result_from_dict value = (case value of
     JNull \<Rightarrow> Inr None
   | JObj data \<Rightarrow>
       rbind (rbind (json_tuple (json_get data ''artifacts'')) (rmap artifact_from_dict)) (\<lambda>artifacts.
       rbind (mk_job_result (json_get data ''outputs'') artifacts (json_get data ''metrics'')
                (json_get data ''text'') (json_get data ''metadata'')) (\<lambda>r. Inr (Some r)))
   | JList xs \<Rightarrow> if xs = []
       then rbind (mk_job_result JNull [] JNull JNull JNull) (\<lambda>r. Inr (Some r)) else Inl Unmodelled
   | JStr s \<Rightarrow> if s = []
       then rbind (mk_job_result JNull [] JNull JNull JNull) (\<lambda>r. Inr (Some r))
       else Inl (ValueError (Malformed ''dict''))
   | _ \<Rightarrow> Inl (TypeError (Wrong_type ''dict'')))"

section \<open>Lemmas\<close>

lemma rmap_py_str_JStr [simp]: "rmap py_str (map JStr xs) = Inr xs"
  by (induction xs) auto

lemma hashable_JStr [simp]: "list_all hashable (map JStr xs)"
  by (induction xs) auto

lemma json_dedup_JStr: "distinct xs \<Longrightarrow> json_dedup (map JStr xs) = map JStr xs"
proof (induction xs)
  case (Cons x xs)
  then have "filter (\<lambda>y. \<not> py_eq (JStr x) y) (map JStr xs) = map JStr xs"
    by (auto simp: filter_id_conv)
  with Cons show ?case by simp
qed simp

lemma json_frozenset_sorted:
  "finite S \<Longrightarrow> json_frozenset (json_sorted S) = Inr (map JStr (sorted_list_of_set S))"
  by (simp add: json_frozenset_def json_sorted_def json_dedup_JStr)

lemma int_or_zero_JInt [simp]: "int_or_zero (JInt n) = Inr n"
  by (simp add: int_or_zero_def)

lemma text_field_json_opt [simp]: "text_field (json_opt x) = Inr x"
  by (cases x) (simp_all add: json_opt_def)

lemma str_field_json_opt [simp]: "str_field (json_opt x) = Inr x"
  by (cases x) (simp_all add: json_opt_def str_field_def)

lemma as_mapping_labels [simp]: "as_mapping (json_labels d) = Inr (map (\<lambda>(k, v). (k, JStr v)) d)"
  by (simp add: json_labels_def)

lemma str_items_labels [simp]: "str_items (map (\<lambda>(k, v). (k, JStr v)) d) = Inr d"
proof -
  have "rmap (\<lambda>(k, v). rbind (py_str v) (\<lambda>s. Inr (k, s))) (map (\<lambda>(k, v). (k, JStr v)) d) = (Inr d :: (string, string) dict res)"
    by (induction d) auto
  then show ?thesis by (simp add: str_items_def)
qed

lemma requirements_roundtrip:
  assumes "job_requirements_ok r"
  shows "requirements_from_dict (JObj (requirements_to_dict r)) = Inr r"
proof -
  have fin: "finite (jr_required_capabilities r)" "finite (jr_required_gpu_uuids r)"
    using assms by (simp_all add: job_requirements_ok_def)
  have "mk_job_requirements (jr_worker_class r) (Many (sorted_list_of_set (jr_required_capabilities r)))
      (jr_required_labels r) (Many (sorted_list_of_set (jr_required_gpu_uuids r)))
      (jr_min_gpu_count r) (jr_min_total_vram_mb r) (jr_min_single_gpu_vram_mb r) = Inr r"
    using assms fin by (intro mk_job_requirements_again) simp_all
  with fin show ?thesis
    by (simp add: requirements_from_dict_def requirements_to_dict_def json_get_def json_frozenset_sorted)
qed

text \<open>What the constructor of an accelerator guarantees.\<close>

definition accelerator_ok :: "accelerator_device \<Rightarrow> bool" where
  "accelerator_ok d \<longleftrightarrow> norm_text (ad_uuid d) \<and> 0 < ad_memory_mb d \<and>
     (\<forall>c. ad_compute_capability d = Some c \<longrightarrow> (\<exists>a b. c = show_nat a @ [CHR ''.''] @ show_nat b)) \<and>
     (\<forall>c. ad_device_class d = Some c \<longrightarrow> norm_text c)"

lemma mk_accelerator_device_ok:
  assumes "mk_accelerator_device u m cc dc = Inr d"
  shows "accelerator_ok d"
proof -
  from assms obtain n where m: "m = JInt n"
    by (cases m) (auto simp: mk_accelerator_device_def rbind_eq_Inr)
  with assms show ?thesis
    by (auto simp: mk_accelerator_device_def rbind_eq_Inr accelerator_ok_def require_nonblank_Inr Let_def
        norm_text_def split: if_splits option.splits elim!: normalize_compute_capability_shape; blast)
qed

lemma mk_accelerator_device_again:
  assumes "accelerator_ok d"
  shows "mk_accelerator_device (ad_uuid d) (JInt (ad_memory_mb d)) (ad_compute_capability d)
     (ad_device_class d) = Inr d"
proof -
  have cc: "(case ad_compute_capability d of None \<Rightarrow> Inr None
      | Some c \<Rightarrow> rbind (normalize_compute_capability c) (\<lambda>n. Inr (Some n))) = (Inr (ad_compute_capability d) :: string option res)"
    using assms normalize_compute_capability_canonical
    by (auto simp: accelerator_ok_def split: option.splits)
  have dc: "(case ad_device_class d of None \<Rightarrow> None
      | Some c \<Rightarrow> let v = py_strip c in if v = [] then None else Some v) = ad_device_class d"
    using assms by (auto simp: accelerator_ok_def norm_text_def split: option.splits)
  show ?thesis
    using assms unfolding mk_accelerator_device_def cc dc by (simp add: accelerator_ok_def)
qed

lemma accelerator_roundtrip:
  "accelerator_ok d \<Longrightarrow> accelerator_from_dict (JObj (accelerator_to_dict d)) = Inr d"
  by (simp add: accelerator_from_dict_def accelerator_to_dict_def json_item_def json_get_def
      mk_accelerator_device_again)

lemma rmap_all: "rmap f xs = Inr ys \<Longrightarrow> (\<And>x y. f x = Inr y \<Longrightarrow> P y) \<Longrightarrow> list_all P ys"
  by (induction xs arbitrary: ys) (auto split: sum.splits)

lemma rmap_roundtrip:
  "(\<And>x. x \<in> set xs \<Longrightarrow> f (g x) = Inr x) \<Longrightarrow> rmap f (map g xs) = Inr xs"
  by (induction xs) auto

definition spec_ok :: "worker_spec \<Rightarrow> bool" where
  "spec_ok s \<longleftrightarrow> worker_spec_ok s \<and> resource_shape_ok (ws_resources s) \<and>
     list_all accelerator_ok (ws_accelerators s)"

lemma resources_roundtrip:
  assumes "resource_shape_ok r"
  shows "mk_resource_shape (gpu_count r) (total_vram_mb r) (max_single_gpu_vram_mb r) = Inr r"
  using assms by (simp add: mk_resource_shape_Inr)

lemma worker_spec_roundtrip:
  assumes "spec_ok s"
  shows "worker_spec_from_dict (JObj (worker_spec_to_dict s)) = Inr s"
proof -
  have fin: "finite (ws_capabilities s)" using assms by (simp add: spec_ok_def worker_spec_ok_def)
  have "mk_worker_spec (ws_worker_id s) (ws_worker_class s) (ws_resources s)
           (Many (ws_gpu_uuids s)) (ws_accelerators s)
           (Many (sorted_list_of_set (ws_capabilities s))) (ws_labels s) = Inr s"
    using assms fin by (intro mk_worker_spec_again) (simp_all add: spec_ok_def)
  moreover have "rmap accelerator_from_dict (map (\<lambda>d. JObj (accelerator_to_dict d)) (ws_accelerators s)) =
      Inr (ws_accelerators s)"
    using assms by (intro rmap_roundtrip) (auto simp: spec_ok_def list_all_iff accelerator_roundtrip)
  ultimately show ?thesis
    using assms fin resources_roundtrip [of "ws_resources s"]
    by (simp add: worker_spec_from_dict_def worker_spec_to_dict_def json_get_def json_item_def
        json_frozenset_sorted resources_from_dict_def spec_ok_def)
qed

text \<open>What the constructors of artifacts and results guarantee.\<close>

definition artifact_ok :: "artifact_ref \<Rightarrow> bool" where
  "artifact_ok a \<longleftrightarrow> norm_text (ar_uri a) \<and>
     (\<forall>x. ar_media_type a = Some x \<longrightarrow> norm_text x) \<and> (\<forall>x. ar_digest a = Some x \<longrightarrow> norm_text x) \<and>
     (\<forall>x. ar_name a = Some x \<longrightarrow> norm_text x) \<and>
     (ar_size_bytes a = JNull \<or> py_negative (ar_size_bytes a) = Inr False)"

definition result_ok :: "job_result \<Rightarrow> bool" where
  "result_ok r \<longleftrightarrow> job_result_ok r \<and> list_all artifact_ok (re_artifacts r)"

lemma nonblank_Inr: "nonblank v f = Inr n \<longleftrightarrow> n = py_strip v \<and> norm_text n"
  by (auto simp: nonblank_def norm_text_def Let_def)

lemma optional_nonblank_Inr: "optional_nonblank v f = Inr (Some n) \<Longrightarrow> norm_text n"
  by (cases v) (auto simp: rbind_eq_Inr nonblank_Inr)

lemma optional_nonblank_again:
  "(\<And>n. x = Some n \<Longrightarrow> norm_text n) \<Longrightarrow> optional_nonblank (json_opt x) f = Inr x"
  by (cases x) (auto simp: json_opt_def nonblank_Inr norm_text_def nonblank_def)

lemma mk_artifact_ref_ok: "mk_artifact_ref u mt dg sz nm md = Inr a \<Longrightarrow> artifact_ok a"
  by (auto simp: mk_artifact_ref_def rbind_eq_Inr artifact_ok_def nonblank_Inr
      dest: optional_nonblank_Inr split: if_splits)

lemma artifact_roundtrip:
  assumes "artifact_ok a"
  shows "artifact_from_dict (JObj (artifact_to_dict a)) = Inr a"
proof -
  have u: "nonblank (ar_uri a) ''uri'' = Inr (ar_uri a)"
    using assms by (simp add: artifact_ok_def nonblank_Inr norm_text_def)
  have o: "optional_nonblank (json_opt (ar_media_type a)) f = Inr (ar_media_type a)"
    "optional_nonblank (json_opt (ar_digest a)) f = Inr (ar_digest a)"
    "optional_nonblank (json_opt (ar_name a)) f = Inr (ar_name a)" for f
    using assms by (auto simp: artifact_ok_def intro: optional_nonblank_again)
  have n: "(if ar_size_bytes a = JNull then Inr False else py_negative (ar_size_bytes a)) = Inr False"
    using assms by (auto simp: artifact_ok_def)
  show ?thesis
    by (simp add: artifact_from_dict_def artifact_to_dict_def json_item_def json_get_def
        mk_artifact_ref_def u o n)
qed

lemma job_result_roundtrip:
  assumes "result_ok r"
  shows "job_result_from_dict (JObj (job_result_to_dict r)) = Inr (Some r)"
proof -
  have "rmap artifact_from_dict (map (\<lambda>a. JObj (artifact_to_dict a)) (re_artifacts r)) = Inr (re_artifacts r)"
    using assms by (intro rmap_roundtrip) (auto simp: result_ok_def list_all_iff artifact_roundtrip)
  moreover have "check_metrics (re_metrics r) = Inr ()"
    using assms by (simp add: result_ok_def job_result_ok_def check_metrics_Inr)
  moreover have "(case json_opt (re_text r) of JNull \<Rightarrow> Inr None | JStr s \<Rightarrow> Inr (Some s)
      | _ \<Rightarrow> Inl (TypeError (Wrong_type ''text''))) = (Inr (re_text r) :: string option res)"
    by (cases "re_text r") (simp_all add: json_opt_def)
  ultimately show ?thesis
    by (simp add: job_result_from_dict_def job_result_to_dict_def json_get_def mk_job_result_def)
qed

lemma mk_worker_spec_accelerators:
  "mk_worker_spec i c r g a caps l = Inr s \<Longrightarrow> ws_accelerators s = a \<and> ws_resources s = r"
  by (auto simp: mk_worker_spec_def rbind_eq_Inr split: if_splits)

lemma worker_spec_from_dict_ok:
  assumes "worker_spec_from_dict v = Inr s"
  shows "spec_ok s"
proof -
  from assms obtain data where v: "v = JObj data"
    by (cases v) (auto simp: worker_spec_from_dict_def split: if_splits)
  from assms obtain i c shape g as caps l where
    mk: "mk_worker_spec i c shape g as caps l = Inr s" and
    sh: "\<exists>d. resources_from_dict d = Inr shape" and
    as: "\<exists>xs. rmap accelerator_from_dict xs = Inr as"
    unfolding v worker_spec_from_dict_def json.case rbind_eq_Inr by blast
  have "resource_shape_ok shape"
    using sh by (auto simp: resources_from_dict_def rbind_eq_Inr mk_resource_shape_Inr)
  moreover have "accelerator_ok d" if "accelerator_from_dict x = Inr d" for x d
    using that by (cases x) (auto simp: accelerator_from_dict_def rbind_eq_Inr dest: mk_accelerator_device_ok)
  then have "list_all accelerator_ok as"
    using as rmap_all by blast
  ultimately show ?thesis
    using mk_worker_spec_ok [OF mk] mk_worker_spec_accelerators [OF mk] by (simp add: spec_ok_def)
qed

lemma requirements_from_dict_ok:
  "requirements_from_dict v = Inr r \<Longrightarrow> job_requirements_ok r"
  by (auto simp: requirements_from_dict_def rbind_eq_Inr dest: mk_job_requirements_ok)

lemma job_result_from_dict_ok:
  assumes "job_result_from_dict v = Inr (Some r)"
  shows "result_ok r"
proof -
  have empty: "result_ok x" if "mk_job_result JNull [] JNull JNull JNull = Inr x" for x
    using that by (auto simp: mk_job_result_def result_ok_def job_result_ok_def)
  have art: "artifact_ok a" if "artifact_from_dict x = Inr a" for x a
    using that by (cases x) (auto simp: artifact_from_dict_def rbind_eq_Inr dest: mk_artifact_ref_ok)
  have obj: "result_ok x" if "rmap artifact_from_dict xs = Inr as" "mk_job_result ou as m t md = Inr x"
    for xs as ou m t md x
  proof -
    have "list_all artifact_ok as"
      by (rule rmap_all [OF that(1) art])
    then show ?thesis
      using that(2) mk_job_result_ok [OF that(2)] by (auto simp: mk_job_result_def rbind_eq_Inr result_ok_def)
  qed
  show ?thesis
    using assms by (cases v) (auto simp: job_result_from_dict_def rbind_eq_Inr intro: empty obj split: if_splits)
qed

text \<open>
  C13. Wire round trip. Whatever a reader of this module accepts, it is a value its writer writes
  and it reads back unchanged: requirements, worker specifications and job results survive any
  number of trips through their JSON form, and everything accepted satisfies its type invariant.
\<close>

theorem serde_roundtrip:
  "(\<forall>v r. requirements_from_dict v = Inr r \<longrightarrow>
      job_requirements_ok r \<and> requirements_from_dict (JObj (requirements_to_dict r)) = Inr r) \<and>
   (\<forall>v s. worker_spec_from_dict v = Inr s \<longrightarrow>
      spec_ok s \<and> worker_spec_from_dict (JObj (worker_spec_to_dict s)) = Inr s) \<and>
   (\<forall>v r. job_result_from_dict v = Inr (Some r) \<longrightarrow>
      result_ok r \<and> job_result_from_dict (JObj (job_result_to_dict r)) = Inr (Some r))"
  using requirements_from_dict_ok requirements_roundtrip worker_spec_from_dict_ok
    worker_spec_roundtrip job_result_from_dict_ok job_result_roundtrip by blast

definition ex_requirements_json :: json where
  "ex_requirements_json = JObj [(''min_gpu_count'', JStr '' 2 ''),
     (''required_labels'', JObj [(''zone'', JInt 7)]), (''worker_class'', JStr ''big '')]"

definition ex_requirements_read :: job_requirements where
  "ex_requirements_read = \<lparr>jr_worker_class = Some ''big'', jr_required_capabilities = {},
     jr_required_labels = [(''zone'', ''7'')], jr_required_gpu_uuids = {}, jr_min_gpu_count = 2,
     jr_min_total_vram_mb = 0, jr_min_single_gpu_vram_mb = 0\<rparr>"

theorem serde_roundtrip_witness:
  "requirements_from_dict ex_requirements_json = Inr ex_requirements_read \<and>
   requirements_from_dict (JObj (requirements_to_dict ex_requirements_read)) = Inr ex_requirements_read"
proof -
  have "requirements_from_dict ex_requirements_json = Inr ex_requirements_read"
    by code_simp
  then show ?thesis using serde_roundtrip by blast
qed

end
