(* ===== verification/Transport.thy ===== *)
theory Transport
  imports Serde
begin

text \<open>
  \<open>src/src/astrumweaver/transport.py\<close>: the versioned JSON messages of the control protocol, with
  the part of Python's \<open>datetime\<close> text they use. An instant is printed by \<open>isoformat\<close>; the reader
  \<open>fromisoformat\<close> covers dates and times in the extended form with an optional fraction and
  offset, and answers \<open>Unmodelled\<close> on the other forms Python accepts.
\<close>

section \<open>Dates as text\<close>

text \<open>The civil date of a day number (day 0 is 1970-01-01), in the proleptic Gregorian calendar.\<close>

definition civil_from_days :: "int \<Rightarrow> int \<times> int \<times> int" where
  "civil_from_days z0 = (let z = z0 + 719468; era = z div 146097; doe = z mod 146097;
     yoe = (doe - doe div 1460 + doe div 36524 - doe div 146096) div 365;
     doy = doe - (365 * yoe + yoe div 4 - yoe div 100);
     mp = (5 * doy + 2) div 153;
     d = doy - (153 * mp + 2) div 5 + 1;
     m = (if mp < 10 then mp + 3 else mp - 9)
     in (yoe + era * 400 + (if m \<le> 2 then 1 else 0), m, d))"

definition days_from_civil :: "int \<Rightarrow> int \<Rightarrow> int \<Rightarrow> int" where
  "days_from_civil y0 m d = (let y = (if m \<le> 2 then y0 - 1 else y0); era = y div 400;
     yoe = y mod 400;
     doy = (153 * (if m > 2 then m - 3 else m + 9) + 2) div 5 + d - 1;
     doe = yoe * 365 + yoe div 4 - yoe div 100 + doy
     in era * 146097 + doe - 719468)"

definition leap_year :: "int \<Rightarrow> bool" where
  "leap_year y \<longleftrightarrow> y mod 4 = 0 \<and> (y mod 100 \<noteq> 0 \<or> y mod 400 = 0)"

definition days_in_month :: "int \<Rightarrow> int \<Rightarrow> int" where
  "days_in_month y m = (if m = 2 then (if leap_year y then 29 else 28)
     else if m \<in> {4, 6, 9, 11} then 30 else 31)"

definition pad :: "nat \<Rightarrow> int \<Rightarrow> string" where
  "pad n k = (let s = show_nat (nat k) in replicate (n - length s) (CHR ''0'') @ s)"

text \<open>\<open>datetime.isoformat()\<close> of a UTC instant: microseconds only when there are any.\<close>

definition isoformat :: "instant \<Rightarrow> string" where
  "isoformat t = (let days = t div 86400000000; us = t mod 86400000000;
     (y, m, d) = civil_from_days days; secs = us div 1000000; frac = us mod 1000000
     in pad 4 y @ ''-'' @ pad 2 m @ ''-'' @ pad 2 d @ ''T'' @ pad 2 (secs div 3600) @ '':'' @
        pad 2 (secs div 60 mod 60) @ '':'' @ pad 2 (secs mod 60) @
        (if frac = 0 then [] else ''.'' @ pad 6 frac) @ ''+00:00'')"

text \<open>The next \<open>n\<close> digits, and what follows them.\<close>

definition take_num :: "nat \<Rightarrow> string \<Rightarrow> (int \<times> string) option" where
  "take_num n s = (if n \<le> length s \<and> list_all is_digit (take n s)
     then Some (int (read_nat (take n s)), drop n s) else None)"

definition take_char :: "char \<Rightarrow> string \<Rightarrow> string option" where
  "take_char c s = (case s of [] \<Rightarrow> None | x # r \<Rightarrow> if x = c then Some r else None)"

definition parse_date :: "string \<Rightarrow> ((int \<times> int \<times> int) \<times> string) option" where
  "parse_date s = Option.bind (take_num 4 s) (\<lambda>(y, s1). Option.bind (take_char (CHR ''-'') s1) (\<lambda>s2.
     Option.bind (take_num 2 s2) (\<lambda>(m, s3). Option.bind (take_char (CHR ''-'') s3) (\<lambda>s4.
     Option.bind (take_num 2 s4) (\<lambda>(d, s5). Some ((y, m, d), s5))))))"

definition parse_clock :: "string \<Rightarrow> ((int \<times> int \<times> int) \<times> string) option" where
  "parse_clock s = Option.bind (take_num 2 s) (\<lambda>(h, s1). Option.bind (take_char (CHR '':'') s1) (\<lambda>s2.
     Option.bind (take_num 2 s2) (\<lambda>(m, s3). Option.bind (take_char (CHR '':'') s3) (\<lambda>s4.
     Option.bind (take_num 2 s4) (\<lambda>(sec, s5). Some ((h, m, sec), s5))))))"

text \<open>The fraction of a second in microseconds; digits after the sixth are dropped.\<close>

definition parse_fraction :: "string \<Rightarrow> (int \<times> string) option" where
  "parse_fraction s = (case take_char (CHR ''.'') s of
     None \<Rightarrow> Some (0, s)
   | Some r \<Rightarrow> (let ds = takeWhile is_digit r in
       if ds = [] then None
       else Some (int (read_nat (take 6 (ds @ replicate 6 (CHR ''0'')))), dropWhile is_digit r)))"

text \<open>The offset at the end: nothing, \<open>Z\<close>, or a sign with hours and minutes, in microseconds.\<close>

definition parse_offset :: "string \<Rightarrow> int option option" where
  "parse_offset s = (if s = [] then Some None else if s = ''Z'' then Some (Some 0)
     else (let sign = (if hd s = CHR ''+'' then 1 else if hd s = CHR ''-'' then -1 else 0) in
       if sign = 0 then None
       else Option.bind (take_num 2 (tl s)) (\<lambda>(h, s1). Option.bind (take_char (CHR '':'') s1) (\<lambda>s2.
         Option.bind (take_num 2 s2) (\<lambda>(m, s3).
           if s3 = [] \<and> h \<le> 23 \<and> m \<le> 59 then Some (Some (sign * (h * 3600 + m * 60) * 1000000))
           else None)))))"

definition fromisoformat :: "string \<Rightarrow> py_datetime res" where
  "fromisoformat s = (case parse_date s of
     None \<Rightarrow> Inl Unmodelled
   | Some ((y, m, d), rest) \<Rightarrow>
       if y < 1 \<or> m < 1 \<or> 12 < m \<or> d < 1 \<or> days_in_month y m < d
       then Inl (ValueError (Malformed ''isoformat''))
       else let day = days_from_civil y m d * 86400000000 in
         (case rest of
            [] \<Rightarrow> Inr (Naive day)
          | _ # clock \<Rightarrow> (case parse_clock clock of
              None \<Rightarrow> Inl Unmodelled
            | Some ((h, mi, sec), r2) \<Rightarrow>
                if 23 < h \<or> 59 < mi \<or> 59 < sec then Inl Unmodelled
                else (case parse_fraction r2 of
                   None \<Rightarrow> Inl Unmodelled
                 | Some (us, r3) \<Rightarrow> (case parse_offset r3 of
                     None \<Rightarrow> Inl Unmodelled
                   | Some off \<Rightarrow> let t = day + (h * 3600 + mi * 60 + sec) * 1000000 + us in
                       Inr (case off of None \<Rightarrow> Naive t | Some o_us \<Rightarrow> Aware t o_us))))))"

section \<open>Messages\<close>

definition protocol_version :: string where
  "protocol_version = ''v1''"

definition iso_opt :: "instant option \<Rightarrow> json" where
  "iso_opt x = (case x of None \<Rightarrow> JNull | Some t \<Rightarrow> JStr (isoformat t))"

definition worker_record_to_dict :: "worker_record \<Rightarrow> obj" where
  "worker_record_to_dict value = [
     (''protocol_version'', JStr protocol_version),
     (''spec'', JObj (worker_spec_to_dict (wr_spec value))),
     (''max_concurrency'', JInt (wr_max_concurrency value)),
     (''state'', JStr (worker_state_value (wr_state value))),
     (''active_jobs'', JInt (wr_active_jobs value)),
     (''registered_at'', JStr (isoformat (wr_registered_at value))),
     (''last_seen_at'', JStr (isoformat (wr_last_seen_at value))),
     (''metadata'', JObj (wr_metadata value))]"

definition job_record_to_dict :: "job_record \<Rightarrow> bool \<Rightarrow> obj" where
  "job_record_to_dict value include_payload = [
     (''protocol_version'', JStr protocol_version),
     (''job_id'', JStr (jb_job_id value)),
     (''capability'', JStr (jb_capability value)),
     (''requirements'', JObj (requirements_to_dict (jb_requirements value))),
     (''priority'', JInt (jb_priority value)),
     (''sequence'', JInt (jb_sequence value)),
     (''status'', JStr (job_status_value (jb_status value))),
     (''attempts'', JInt (jb_attempts value)),
     (''max_attempts'', JInt (jb_max_attempts value)),
     (''idempotency_key'', json_opt (jb_idempotency_key value)),
     (''assigned_worker_id'', json_opt (jb_assigned_worker_id value)),
     (''lease_token'', json_opt (jb_lease_token value)),
     (''created_at'', JStr (isoformat (jb_created_at value))),
     (''available_at'', JStr (isoformat (jb_available_at value))),
     (''started_at'', iso_opt (jb_started_at value)),
     (''finished_at'', iso_opt (jb_finished_at value)),
     (''lease_expires_at'', iso_opt (jb_lease_expires_at value)),
     (''updated_at'', JStr (isoformat (jb_updated_at value))),
     (''result'', (case jb_result value of None \<Rightarrow> JNull | Some r \<Rightarrow> JObj (job_result_to_dict r))),
     (''error'', (case jb_error value of None \<Rightarrow> JNull | Some e \<Rightarrow> JObj e))] @
     (if include_payload then [(''payload'', JObj (jb_payload value))] else [])"

text \<open>\<open>data.get(k, default)\<close>\<close>

definition json_get_or :: "obj \<Rightarrow> string \<Rightarrow> json \<Rightarrow> json" where
  "json_get_or d k v = (case dict_get d k of None \<Rightarrow> v | Some x \<Rightarrow> x)"

definition worker_registration_from_dict :: "obj \<Rightarrow> worker_registration res" where
  "worker_registration_from_dict data =
     rbind (rbind (json_item data ''spec'') worker_spec_from_dict) (\<lambda>spec.
     rbind (py_int (json_get_or data ''max_concurrency'' (JInt 1))) (\<lambda>max_concurrency.
     if max_concurrency < 1 then Inl (ValueError (Must_be_positive ''max_concurrency''))
     else rbind (as_mapping (json_get data ''metadata'')) (\<lambda>metadata.
       mk_worker_registration spec max_concurrency metadata)))"

text \<open>
  The two lease fields of a heartbeat are passed on as they are; only texts and \<open>null\<close> are
  modelled.
\<close>

fun id_field :: "json \<Rightarrow> string option res" where
  "id_field JNull = Inr None"
| "id_field (JStr s) = Inr (Some s)"
| "id_field _ = Inl Unmodelled"

definition worker_heartbeat_from_dict :: "obj \<Rightarrow> worker_heartbeat res" where
  "worker_heartbeat_from_dict data =
     rbind (case json_get data ''state'' of
              JNull \<Rightarrow> Inr None
            | v \<Rightarrow> rbind (rbind (py_str v) worker_state_of) (\<lambda>s. Inr (Some s))) (\<lambda>state.
     rbind (as_mapping (json_get data ''metadata'')) (\<lambda>metadata.
     rbind (id_field (json_get data ''active_job_id'')) (\<lambda>job_id.
     rbind (id_field (json_get data ''lease_token'')) (\<lambda>token.
       Inr \<lparr>hb_state = state, hb_active_job_id = job_id, hb_lease_token = token, hb_metadata = metadata\<rparr>))))"

text \<open>
  The payload becomes a dictionary in the constructor, after its checks; a blank idempotency key
  is refused there, and one that is no text has no \<open>strip\<close>.
\<close>

definition job_submission_from_dict :: "obj \<Rightarrow> job_submission res" where
  "job_submission_from_dict data =
     rbind (rbind (json_item data ''capability'') py_str) (\<lambda>capability.
     rbind (requirements_from_dict (json_get data ''requirements'')) (\<lambda>req.
     rbind (py_int (json_get_or data ''priority'' (JInt 0))) (\<lambda>priority.
     rbind (py_int (json_get_or data ''max_attempts'' (JInt 3))) (\<lambda>max_attempts.
     rbind (case json_get data ''available_at'' of
              JNull \<Rightarrow> Inr None
            | v \<Rightarrow> rbind (rbind (py_str v) fromisoformat) (\<lambda>t. Inr (Some t))) (\<lambda>available_at.
     if py_strip capability = [] then Inl (ValueError (Must_not_be_blank ''capability''))
     else if max_attempts < 1 then Inl (ValueError (Must_be_positive ''max_attempts''))
     else rbind (text_field (json_get data ''idempotency_key'')) (\<lambda>key.
     rbind (mk_job_submission capability [] req priority max_attempts key available_at) (\<lambda>s.
     rbind (as_mapping (json_get data ''payload'')) (\<lambda>payload.
       Inr (s\<lparr>sub_payload := payload\<rparr>)))))))))"

definition job_request_from_record :: "job_record \<Rightarrow> job_request res" where
  "job_request_from_record value = mk_job_request (jb_job_id value) (jb_capability value)
     (jb_payload value)
     [(''attempt'', JInt (jb_attempts value)), (''lease_expires_at'', iso_opt (jb_lease_expires_at value))]"

section \<open>Lemmas\<close>

lemma worker_registration_from_dict_ok:
  assumes "worker_registration_from_dict d = Inr g"
  shows "registration_ok g" and "spec_ok (reg_spec g)"
proof -
  from assms obtain s m md where s: "\<exists>v. worker_spec_from_dict v = Inr s"
    and g: "mk_worker_registration s m md = Inr g"
    by (auto simp: worker_registration_from_dict_def rbind_eq_Inr split: if_splits)
  from s have "spec_ok s" using worker_spec_from_dict_ok by blast
  moreover from g have "reg_spec g = s" by (auto simp: mk_worker_registration_def split: if_splits)
  ultimately show "registration_ok g" "spec_ok (reg_spec g)"
    using mk_worker_registration_ok [OF g] by (auto simp: spec_ok_def)
qed

lemma mk_job_submission_requirements:
  "mk_job_submission c p r pr m k a = Inr s \<Longrightarrow> sub_requirements s = r"
  by (auto simp: mk_job_submission_def Let_def split: if_splits option.splits py_datetime.splits)

lemma job_submission_from_dict_ok:
  assumes "job_submission_from_dict d = Inr s"
  shows "submission_ok s" and "job_requirements_ok (sub_requirements s)"
proof -
  from assms obtain c r pr m k a s' p where r: "\<exists>v. requirements_from_dict v = Inr r"
    and mk: "mk_job_submission c [] r pr m k a = Inr s'" and s: "s = s'\<lparr>sub_payload := p\<rparr>"
    by (auto simp: job_submission_from_dict_def rbind_eq_Inr split: if_splits) blast
  show "submission_ok s" using mk_job_submission_ok [OF mk] s by (simp add: submission_ok_def)
  show "job_requirements_ok (sub_requirements s)"
    using mk_job_submission_requirements [OF mk] r requirements_from_dict_ok s by auto
qed

end
