(* ===== verification/Api.thy ===== *)
theory Api
  imports Repository_Life Transport
begin

text \<open>
  \<open>src/src/astrumweaver/control/api.py\<close>, \<open>auth.py\<close> and the configuration part of \<open>daemon.py\<close>: the
  HTTP transport of the control plane. A request is its method, the segments of its path, the
  authorization header and the decoded body; a handler takes the clock reading and the identifier
  \<open>uuid4\<close> would draw. The repository behind the API is a record of operations
  (\<open>control_api\<close>, the protocol \<open>ControlRepository\<close>), so the same handlers run on both backends. The locale
  \<open>control_repository\<close> states what the handlers rely on; what holds of any backend that
  satisfies it is proved there once. Framework behaviour outside the handlers (unknown routes,
  method mismatches) is not modelled.
\<close>

section \<open>The repository protocol\<close>

record 's control_api =
  ca_check_storage :: "'s \<Rightarrow> repo_error option"
  ca_register :: "worker_registration \<Rightarrow> instant \<Rightarrow> 's \<Rightarrow> (repo_error + worker_record) \<times> 's"
  ca_heartbeat :: "string \<Rightarrow> worker_heartbeat \<Rightarrow> instant \<Rightarrow> 's \<Rightarrow> (repo_error + worker_record) \<times> 's"
  ca_set_state :: "string \<Rightarrow> worker_state \<Rightarrow> instant \<Rightarrow> 's \<Rightarrow> (repo_error + worker_record) \<times> 's"
  ca_expire :: "instant \<Rightarrow> 's \<Rightarrow> (repo_error + worker_record list) \<times> 's"
  ca_submit :: "job_submission \<Rightarrow> instant \<Rightarrow> string \<Rightarrow> 's \<Rightarrow> (repo_error + job_record) \<times> 's"
  ca_get_job :: "string \<Rightarrow> 's \<Rightarrow> repo_error + job_record"
  ca_claim :: "string \<Rightarrow> instant \<Rightarrow> string \<Rightarrow> 's \<Rightarrow> (repo_error + job_record option) \<times> 's"
  ca_complete :: "string \<Rightarrow> job_result \<Rightarrow> string \<Rightarrow> string \<Rightarrow> instant \<Rightarrow> 's \<Rightarrow> (repo_error + job_record) \<times> 's"
  ca_fail :: "string \<Rightarrow> failure \<Rightarrow> bool \<Rightarrow> string \<Rightarrow> string \<Rightarrow> instant \<Rightarrow> 's \<Rightarrow> (repo_error + job_record) \<times> 's"
  ca_cancel :: "string \<Rightarrow> instant \<Rightarrow> 's \<Rightarrow> (repo_error + job_record) \<times> 's"
  ca_recover :: "instant \<Rightarrow> 's \<Rightarrow> (repo_error + job_record list) \<times> 's"

definition memory_api :: "repo control_api" where
  "memory_api = \<lparr>ca_check_storage = (\<lambda>_. None),
     ca_register = register_worker, ca_heartbeat = heartbeat_worker,
     ca_set_state = set_worker_state,
     ca_expire = (\<lambda>t r. case expire_stale_workers t r of (ws, r') \<Rightarrow> (Inr ws, r')),
     ca_submit = submit_job, ca_get_job = get_job, ca_claim = claim_next_job,
     ca_complete = complete_job, ca_fail = fail_job, ca_cancel = cancel_job,
     ca_recover = (\<lambda>t r. case recover_expired_jobs t r of (js, r') \<Rightarrow> (Inr js, r'))\<rparr>"

section \<open>Configuration\<close>

datatype client_auth_mode = BEARER | NONE

definition client_auth_mode_of :: "string \<Rightarrow> client_auth_mode res" where
  "client_auth_mode_of s = (if s = ''bearer'' then Inr BEARER else if s = ''none'' then Inr NONE
     else Inl (ValueError (Malformed ''ClientAuthMode'')))"

record app_config =
  ac_client_token :: "string option"
  ac_worker_token :: string
  ac_client_auth :: client_auth_mode
  ac_maintenance_interval :: py_float

text \<open>\<open>secrets.compare_digest\<close> on texts: both must be ASCII.\<close>

definition ascii :: "string \<Rightarrow> bool" where
  "ascii s = list_all (\<lambda>c. (of_char c :: nat) < 128) s"

definition compare_digest :: "string \<Rightarrow> string \<Rightarrow> bool res" where
  "compare_digest a b = (if ascii a \<and> ascii b then Inr (a = b)
     else Inl (TypeError (Wrong_type ''compare_digest'')))"

fun not_positive :: "py_float \<Rightarrow> bool" where
  "not_positive (Finite q) = (q \<le> 0)"
| "not_positive Neg_Inf = True"
| "not_positive _ = False"

definition create_app :: "string option \<Rightarrow> string \<Rightarrow> string \<Rightarrow> py_float \<Rightarrow> app_config res" where
  "create_app client_token worker_token client_auth interval =
     rbind (client_auth_mode_of client_auth) (\<lambda>mode.
     if worker_token = [] then Inl (ValueError (Required ''worker_token''))
     else rbind (if mode = BEARER then
            (if client_token \<in> {None, Some []} then Inl (ValueError (Required ''client_token''))
             else rbind (compare_digest (the client_token) worker_token) (\<lambda>same.
               if same then Inl (ValueError (Inconsistent ''client_token'')) else Inr ()))
          else Inr ()) (\<lambda>_.
     if not_positive interval then Inl (ValueError (Must_be_positive ''maintenance_interval_seconds''))
     else Inr \<lparr>ac_client_token = client_token, ac_worker_token = worker_token,
               ac_client_auth = mode, ac_maintenance_interval = interval\<rparr>))"

text \<open>
  \<open>build_app\<close> of the control daemon: the three environment variables and the \<open>control\<close> section of
  the configuration file give the database URL, the two repository settings and the app.
\<close>

record control_settings =
  cs_database_url :: string
  cs_worker_ttl_seconds :: int
  cs_lease_seconds :: int
  cs_app :: app_config

fun float_of_json :: "json \<Rightarrow> py_float res" where
  "float_of_json (JInt n) = Inr (Finite (of_int n))"
| "float_of_json (JBool b) = Inr (Finite (if b then 1 else 0))"
| "float_of_json (JFloat f) = Inr f"
| "float_of_json (JStr _) = Inl Unmodelled"
| "float_of_json _ = Inl (TypeError (Wrong_type ''float''))"

definition build_app :: "obj \<Rightarrow> string \<Rightarrow> string \<Rightarrow> string \<Rightarrow> control_settings res" where
  "build_app section database_url client_token worker_token =
     rbind (py_str (json_get_or section ''client_auth'' (JStr ''bearer''))) (\<lambda>mode_text.
     rbind (case client_auth_mode_of mode_text of
              Inl _ \<Rightarrow> Inl (RuntimeError (Malformed ''control.client_auth'')) | Inr m \<Rightarrow> Inr m) (\<lambda>mode.
     if database_url = [] then Inl (RuntimeError (Required ''ASTRUMWEAVER_DATABASE_URL''))
     else if mode = BEARER \<and> client_token = []
     then Inl (RuntimeError (Required ''ASTRUMWEAVER_CLIENT_TOKEN''))
     else if worker_token = [] then Inl (RuntimeError (Required ''ASTRUMWEAVER_WORKER_TOKEN''))
     else rbind (py_int (json_get_or section ''worker_ttl_seconds'' (JInt 60))) (\<lambda>ttl.
     rbind (py_int (json_get_or section ''lease_seconds'' (JInt 300))) (\<lambda>lease.
     if ttl < 1 then Inl (ValueError (Must_be_positive ''worker_ttl_seconds''))
     else if lease < 1 then Inl (ValueError (Must_be_positive ''lease_seconds''))
     else rbind (float_of_json (json_get_or section ''maintenance_interval_seconds'' (JInt 5))) (\<lambda>interval.
     rbind (create_app (if client_token = [] then None else Some client_token) worker_token
              mode_text interval) (\<lambda>app.
       Inr \<lparr>cs_database_url = database_url, cs_worker_ttl_seconds = ttl, cs_lease_seconds = lease,
            cs_app = app\<rparr>))))))"

section \<open>Requests and responses\<close>

record http_request =
  ht_method :: string
  ht_path :: "string list"
  ht_authorization :: string
  ht_body :: "json option"

text \<open>
  A response with a JSON body, one without, or no claim (a conversion that is not modelled).
\<close>

datatype http_response = Response int json | Empty_Response int | No_Claim

fun response_status :: "http_response \<Rightarrow> int option" where
  "response_status (Response s _) = Some s"
| "response_status (Empty_Response s) = Some s"
| "response_status No_Claim = None"

definition detail :: "string \<Rightarrow> json" where
  "detail t = JObj [(''detail'', JStr t)]"

text \<open>ASCII lower case, enough to compare with \<open>bearer\<close>.\<close>

definition ascii_lower :: "char \<Rightarrow> char" where
  "ascii_lower c = (let n = (of_char c :: nat) in if 65 \<le> n \<and> n \<le> 90 then char_of (n + 32) else c)"

definition bearer_token :: "http_request \<Rightarrow> string option" where
  "bearer_token request = (case py_partition (CHR '' '') (ht_authorization request) of
     (scheme, _, token) \<Rightarrow>
       if map ascii_lower scheme \<noteq> ''bearer'' \<or> token = [] then None else Some token)"

text \<open>\<open>_require_token\<close>: nothing when the request is authorized, else the response it gets.\<close>

definition require_token :: "http_request \<Rightarrow> string \<Rightarrow> string \<Rightarrow> http_response option" where
  "require_token request expected authority = (let
     refused = Some (Response 401 (detail (authority @ '' authorization required''))) in
     case bearer_token request of
       None \<Rightarrow> refused
     | Some supplied \<Rightarrow> (case compare_digest supplied expected of
         Inl _ \<Rightarrow> Some (Response 500 (detail ''internal server error''))
       | Inr same \<Rightarrow> if same then None else refused))"

definition require_client :: "app_config \<Rightarrow> http_request \<Rightarrow> http_response option" where
  "require_client cfg request = (case ac_client_auth cfg of
     NONE \<Rightarrow> None
   | BEARER \<Rightarrow> (case ac_client_token cfg of
       None \<Rightarrow> Some (Response 500 (detail ''internal server error''))
     | Some t \<Rightarrow> require_token request t ''client''))"

definition require_worker :: "app_config \<Rightarrow> http_request \<Rightarrow> http_response option" where
  "require_worker cfg request = require_token request (ac_worker_token cfg) ''worker''"

text \<open>What reading a request may raise: an \<open>HTTPException\<close> or a Python exception.\<close>

datatype api_exc = Http int string | Exc py_exc

definition lift_exc :: "'a res \<Rightarrow> api_exc + 'a" where
  "lift_exc m = (case m of Inl e \<Rightarrow> Inl (Exc e) | Inr x \<Rightarrow> Inr x)"

text \<open>\<open>_json_v1\<close>; a body that is no JSON raises a \<open>ValueError\<close>.\<close>

definition json_v1 :: "http_request \<Rightarrow> api_exc + obj" where
  "json_v1 request = (case ht_body request of
     None \<Rightarrow> Inl (Exc (ValueError (Malformed ''JSON'')))
   | Some (JObj body) \<Rightarrow>
       if json_get body ''protocol_version'' \<noteq> JStr protocol_version
       then Inl (Http 409 ''unsupported protocol version'') else Inr body
   | Some _ \<Rightarrow> Inl (Http 422 ''JSON object is required''))"

text \<open>
  The \<open>except (KeyError, TypeError, ValueError)\<close> of the handlers, and the catch-all handler. The
  text of a rejected request stands for the text of the exception.
\<close>

fun caught :: "py_exc \<Rightarrow> bool" where
  "caught (KeyError _) = True"
| "caught (TypeError _) = True"
| "caught (ValueError _) = True"
| "caught _ = False"

fun exc_response :: "api_exc \<Rightarrow> http_response" where
  "exc_response (Http code t) = Response code (detail t)"
| "exc_response (Exc e) = (if e = Unmodelled then No_Claim
     else if caught e then Response 422 (detail ''invalid request'')
     else Response 500 (detail ''internal server error''))"

text \<open>The message of a \<open>ConflictError\<close>.\<close>

fun conflict_message :: "conflict \<Rightarrow> string" where
  "conflict_message Topology_change = ''worker resource/topology cannot change while jobs are active''"
| "conflict_message Concurrency_below_active = ''max_concurrency cannot be lower than active job count''"
| "conflict_message (Gpu_overlap w) = ''GPU identity overlaps with worker '' @ w"
| "conflict_message Offline_reacquire = ''offline worker must explicitly reacquire GPU ownership''"
| "conflict_message Half_lease = ''active_job_id and lease_token must be supplied together''"
| "conflict_message (Not_running j) = ''job '' @ j @ '' is not running''"
| "conflict_message (Other_worker j) = ''job '' @ j @ '' is assigned to another worker''"
| "conflict_message (Stale_token j) = ''job '' @ j @ '' lease token is stale''"
| "conflict_message (Lease_expired j) = ''job '' @ j @ '' lease has expired''"
| "conflict_message Idempotency_mismatch = ''idempotency key already belongs to a different job request''"

text \<open>The exception handlers for repository errors.\<close>

fun error_response :: "repo_error \<Rightarrow> http_response" where
  "error_response (Worker_not_found w) = Response 404 (detail (''worker not found: '' @ w))"
| "error_response (Job_not_found j) = Response 404 (detail (''job not found: '' @ j))"
| "error_response (Conflict c) = Response 409 (detail (conflict_message c))"
| "error_response Storage_unavailable = Response 503 (detail ''storage unavailable'')"
| "error_response (Job_index_error j) = Response 500 (detail ''internal server error'')"
| "error_response (Row_error i) = Response 500 (detail ''internal server error'')"

text \<open>The end of most handlers: the record as JSON, or the error.\<close>

definition respond :: "int \<Rightarrow> ('a \<Rightarrow> obj) \<Rightarrow> (repo_error + 'a) \<times> 's \<Rightarrow> http_response \<times> 's" where
  "respond status to_dict out = (case out of (r, s) \<Rightarrow>
     ((case r of Inl e \<Rightarrow> error_response e | Inr x \<Rightarrow> Response status (JObj (to_dict x))), s))"

abbreviation job_json :: "job_record \<Rightarrow> obj" where
  "job_json j \<equiv> job_record_to_dict j True"

section \<open>Handlers\<close>

definition handle_health :: "'s \<Rightarrow> http_response \<times> 's" where
  "handle_health s =
     (Response 200 (JObj [(''status'', JStr ''ok''), (''protocol_version'', JStr protocol_version)]), s)"

definition handle_ready :: "'s control_api \<Rightarrow> 's \<Rightarrow> http_response \<times> 's" where
  "handle_ready api s = ((case ca_check_storage api s of
     Some e \<Rightarrow> error_response e
   | None \<Rightarrow> Response 200 (JObj [(''ready'', JBool True), (''protocol_version'', JStr protocol_version)])), s)"

definition handle_submit :: "'s control_api \<Rightarrow> instant \<Rightarrow> string \<Rightarrow> http_request \<Rightarrow> 's \<Rightarrow> http_response \<times> 's" where
  "handle_submit api now uid request s =
     (case rbind (json_v1 request) (\<lambda>b. lift_exc (job_submission_from_dict b)) of
        Inl e \<Rightarrow> (exc_response e, s)
      | Inr submission \<Rightarrow> respond 201 job_json (ca_submit api submission now uid s))"

definition handle_get_job :: "'s control_api \<Rightarrow> string \<Rightarrow> 's \<Rightarrow> http_response \<times> 's" where
  "handle_get_job api job_id s = respond 200 job_json (ca_get_job api job_id s, s)"

definition handle_cancel :: "'s control_api \<Rightarrow> instant \<Rightarrow> string \<Rightarrow> 's \<Rightarrow> http_response \<times> 's" where
  "handle_cancel api now job_id s = respond 200 job_json (ca_cancel api job_id now s)"

definition handle_register :: "'s control_api \<Rightarrow> instant \<Rightarrow> http_request \<Rightarrow> 's \<Rightarrow> http_response \<times> 's" where
  "handle_register api now request s =
     (case rbind (json_v1 request) (\<lambda>b. lift_exc (worker_registration_from_dict b)) of
        Inl e \<Rightarrow> (exc_response e, s)
      | Inr registration \<Rightarrow> respond 201 worker_record_to_dict (ca_register api registration now s))"

definition handle_heartbeat ::
  "'s control_api \<Rightarrow> instant \<Rightarrow> string \<Rightarrow> http_request \<Rightarrow> 's \<Rightarrow> http_response \<times> 's" where
  "handle_heartbeat api now worker_id request s =
     (case rbind (json_v1 request) (\<lambda>b. lift_exc (worker_heartbeat_from_dict b)) of
        Inl e \<Rightarrow> (exc_response e, s)
      | Inr heartbeat \<Rightarrow> respond 200 worker_record_to_dict (ca_heartbeat api worker_id heartbeat now s))"

definition handle_set_state ::
  "'s control_api \<Rightarrow> instant \<Rightarrow> string \<Rightarrow> http_request \<Rightarrow> 's \<Rightarrow> http_response \<times> 's" where
  "handle_set_state api now worker_id request s =
     (case rbind (json_v1 request) (\<lambda>b. lift_exc
             (rbind (rbind (json_item b ''state'') py_str) worker_state_of)) of
        Inl e \<Rightarrow> (exc_response e, s)
      | Inr state \<Rightarrow> respond 200 worker_record_to_dict (ca_set_state api worker_id state now s))"

definition handle_claim ::
  "'s control_api \<Rightarrow> instant \<Rightarrow> string \<Rightarrow> string \<Rightarrow> 's \<Rightarrow> http_response \<times> 's" where
  "handle_claim api now uid worker_id s = (case ca_claim api worker_id now uid s of (r, s') \<Rightarrow>
     ((case r of Inl e \<Rightarrow> error_response e
       | Inr None \<Rightarrow> Empty_Response 204
       | Inr (Some j) \<Rightarrow> Response 200 (JObj (job_json j))), s'))"

text \<open>A worker may look at a job that runs on it or on no one.\<close>

definition handle_inspect :: "'s control_api \<Rightarrow> string \<Rightarrow> string \<Rightarrow> 's \<Rightarrow> http_response \<times> 's" where
  "handle_inspect api worker_id job_id s = ((case ca_get_job api job_id s of
     Inl e \<Rightarrow> error_response e
   | Inr j \<Rightarrow>
       if jb_assigned_worker_id j \<notin> {None, Some worker_id}
       then Response 404 (detail ''job not visible to this worker'')
       else Response 200 (JObj [
         (''protocol_version'', JStr protocol_version), (''job_id'', JStr (jb_job_id j)),
         (''status'', JStr (job_status_value (jb_status j))),
         (''assigned_worker_id'', json_opt (jb_assigned_worker_id j)),
         (''lease_expires_at'', iso_opt (jb_lease_expires_at j)),
         (''updated_at'', JStr (isoformat (jb_updated_at j)))])), s)"

definition read_completion :: "obj \<Rightarrow> (string \<times> job_result) res" where
  "read_completion body =
     rbind (rbind (json_item body ''lease_token'') py_str) (\<lambda>token.
     rbind (rbind (json_item body ''result'') job_result_from_dict) (\<lambda>result.
       case result of None \<Rightarrow> Inl (ValueError (Required ''result'')) | Some x \<Rightarrow> Inr (token, x)))"

definition handle_complete ::
  "'s control_api \<Rightarrow> instant \<Rightarrow> string \<Rightarrow> string \<Rightarrow> http_request \<Rightarrow> 's \<Rightarrow> http_response \<times> 's" where
  "handle_complete api now worker_id job_id request s =
     (case rbind (json_v1 request) (\<lambda>b. lift_exc (read_completion b)) of
        Inl e \<Rightarrow> (exc_response e, s)
      | Inr (token, result) \<Rightarrow>
          respond 200 job_json (ca_complete api job_id result worker_id token now s))"

definition read_failure :: "obj \<Rightarrow> (string \<times> failure \<times> bool) res" where
  "read_failure body =
     rbind (rbind (json_item body ''lease_token'') py_str) (\<lambda>token.
     rbind (case json_get_or body ''error'' (JStr ''executor failed'') of
              JStr t \<Rightarrow> Inr (Message t) | JObj d \<Rightarrow> Inr (Details d)
            | _ \<Rightarrow> Inl (TypeError (Wrong_type ''error''))) (\<lambda>err.
       Inr (token, err, py_truthy (json_get_or body ''retryable'' (JBool False)))))"

definition handle_fail ::
  "'s control_api \<Rightarrow> instant \<Rightarrow> string \<Rightarrow> string \<Rightarrow> http_request \<Rightarrow> 's \<Rightarrow> http_response \<times> 's" where
  "handle_fail api now worker_id job_id request s =
     (case rbind (json_v1 request) (\<lambda>b. lift_exc (read_failure b)) of
        Inl e \<Rightarrow> (exc_response e, s)
      | Inr (token, err, retryable) \<Rightarrow>
          respond 200 job_json (ca_fail api job_id err retryable worker_id token now s))"

section \<open>Routing\<close>

datatype endpoint =
    Health | Ready
  | Submit_Job | Get_Job string | Cancel_Job string
  | Register_Worker | Heartbeat_Worker string | Set_Worker_State string
  | Claim_Job string | Inspect_Job string string | Complete_Job string string | Fail_Job string string

text \<open>The routes, on the segments of the path; a path parameter is a non-empty segment.\<close>

definition route :: "string \<Rightarrow> string list \<Rightarrow> endpoint option" where
  "route method path = (case path of
     [v, a] \<Rightarrow>
       if v = ''v1'' \<and> a = ''health'' \<and> method = ''GET'' then Some Health
       else if v = ''v1'' \<and> a = ''ready'' \<and> method = ''GET'' then Some Ready
       else if v = ''v1'' \<and> a = ''jobs'' \<and> method = ''POST'' then Some Submit_Job else None
   | [v, a, b] \<Rightarrow>
       if v = ''v1'' \<and> a = ''jobs'' \<and> b \<noteq> [] \<and> method = ''GET'' then Some (Get_Job b)
       else if v = ''v1'' \<and> a = ''workers'' \<and> b = ''register'' \<and> method = ''POST''
       then Some Register_Worker else None
   | [v, a, b, c] \<Rightarrow>
       if v \<noteq> ''v1'' \<or> b = [] \<or> method \<noteq> ''POST'' then None
       else if a = ''jobs'' \<and> c = ''cancel'' then Some (Cancel_Job b)
       else if a = ''workers'' \<and> c = ''heartbeat'' then Some (Heartbeat_Worker b)
       else if a = ''workers'' \<and> c = ''state'' then Some (Set_Worker_State b) else None
   | [v, a, b, c, d] \<Rightarrow>
       if v \<noteq> ''v1'' \<or> a \<noteq> ''workers'' \<or> c \<noteq> ''jobs'' \<or> b = [] \<or> d = [] then None
       else if d = ''claim'' \<and> method = ''POST'' then Some (Claim_Job b)
       else if method = ''GET'' then Some (Inspect_Job b d) else None
   | [v, a, b, c, d, e] \<Rightarrow>
       if v \<noteq> ''v1'' \<or> a \<noteq> ''workers'' \<or> c \<noteq> ''jobs'' \<or> b = [] \<or> d = [] \<or> method \<noteq> ''POST''
       then None
       else if e = ''complete'' then Some (Complete_Job b d)
       else if e = ''fail'' then Some (Fail_Job b d) else None
   | _ \<Rightarrow> None)"

text \<open>Which authority a route demands (the \<open>dependencies\<close> of its decorator).\<close>

datatype authority = Public | Client | Worker

fun authority_of :: "endpoint \<Rightarrow> authority" where
  "authority_of Health = Public"
| "authority_of Ready = Public"
| "authority_of Submit_Job = Client"
| "authority_of (Get_Job _) = Client"
| "authority_of (Cancel_Job _) = Client"
| "authority_of _ = Worker"

definition authorize :: "app_config \<Rightarrow> endpoint \<Rightarrow> http_request \<Rightarrow> http_response option" where
  "authorize cfg e request = (case authority_of e of
     Public \<Rightarrow> None | Client \<Rightarrow> require_client cfg request | Worker \<Rightarrow> require_worker cfg request)"

fun dispatch ::
  "'s control_api \<Rightarrow> instant \<Rightarrow> string \<Rightarrow> endpoint \<Rightarrow> http_request \<Rightarrow> 's \<Rightarrow> http_response \<times> 's" where
  "dispatch api now uid Health request s = handle_health s"
| "dispatch api now uid Ready request s = handle_ready api s"
| "dispatch api now uid Submit_Job request s = handle_submit api now uid request s"
| "dispatch api now uid (Get_Job j) request s = handle_get_job api j s"
| "dispatch api now uid (Cancel_Job j) request s = handle_cancel api now j s"
| "dispatch api now uid Register_Worker request s = handle_register api now request s"
| "dispatch api now uid (Heartbeat_Worker w) request s = handle_heartbeat api now w request s"
| "dispatch api now uid (Set_Worker_State w) request s = handle_set_state api now w request s"
| "dispatch api now uid (Claim_Job w) request s = handle_claim api now uid w s"
| "dispatch api now uid (Inspect_Job w j) request s = handle_inspect api w j s"
| "dispatch api now uid (Complete_Job w j) request s = handle_complete api now w j request s"
| "dispatch api now uid (Fail_Job w j) request s = handle_fail api now w j request s"

definition handle ::
  "app_config \<Rightarrow> 's control_api \<Rightarrow> instant \<Rightarrow> string \<Rightarrow> http_request \<Rightarrow> 's \<Rightarrow> http_response \<times> 's" where
  "handle cfg api now uid request s = (case route (ht_method request) (ht_path request) of
     None \<Rightarrow> (No_Claim, s)
   | Some e \<Rightarrow> (case authorize cfg e request of
       Some response \<Rightarrow> (response, s)
     | None \<Rightarrow> dispatch api now uid e request s))"

text \<open>One round of \<open>maintenance_loop\<close>: an exception of the first sweep skips the second.\<close>

definition maintenance_round :: "'s control_api \<Rightarrow> instant \<Rightarrow> instant \<Rightarrow> 's \<Rightarrow> 's" where
  "maintenance_round api t1 t2 s = (case ca_expire api t1 s of
     (Inl _, s') \<Rightarrow> s' | (Inr _, s') \<Rightarrow> snd (ca_recover api t2 s'))"

text \<open>What happens to the server: requests, and rounds of the maintenance loop.\<close>

datatype server_event = Request http_request instant string | Maintenance instant instant

fun server_step :: "app_config \<Rightarrow> 's control_api \<Rightarrow> 's \<Rightarrow> server_event \<Rightarrow> 's" where
  "server_step cfg api s (Request q now uid) = snd (handle cfg api now uid q s)"
| "server_step cfg api s (Maintenance t1 t2) = maintenance_round api t1 t2 s"

end
