(* ===== verification/Worker_Client.thy ===== *)
theory Worker_Client
  imports Api
begin

text \<open>
  \<open>src/src/astrumweaver/worker/client.py\<close>: the worker's side of the control protocol. Each call is
  the request it builds (method, path, JSON body) and the reading of what comes back; the HTTP
  library in between is an \<open>exchange\<close>: no answer, or a status with a body that is JSON or not. The
  theorems join both ends: what the client writes is what the server of \<open>Api\<close> reads, so a call over
  HTTP is the repository operation it names, and the answer is read back as it was meant.
\<close>

section \<open>Errors and exchanges\<close>

text \<open>
  \<open>ControlTransportError\<close> with its status and its detail (before \<open>str\<close>), or another exception.
\<close>

datatype client_error = Transport_Error int json | Client_Exc py_exc

datatype exchange = Unreachable | Answered int "json option"

record claimed_job =
  cj_request :: job_request
  cj_lease_token :: string
  cj_lease_expires_at :: json
  cj_attempts :: int

record control_client =
  cc_base_url :: string
  cc_worker_token :: string
  cc_timeout_seconds :: rat

definition strip_slashes :: "string \<Rightarrow> string" where
  "strip_slashes s = rev (dropWhile (\<lambda>c. c = CHR ''/'') (rev s))"

definition mk_control_client :: "string \<Rightarrow> string \<Rightarrow> py_float \<Rightarrow> control_client res" where
  "mk_control_client base_url worker_token timeout =
     (if base_url = [] then Inl (ValueError (Required ''base_url''))
      else if worker_token = [] then Inl (ValueError (Required ''worker_token''))
      else case timeout of
        Finite t \<Rightarrow> if t \<le> 0 then Inl (ValueError (Must_be_positive ''timeout_seconds''))
          else Inr \<lparr>cc_base_url = strip_slashes base_url, cc_worker_token = worker_token,
                    cc_timeout_seconds = t\<rparr>
      | _ \<Rightarrow> Inl (ValueError (Must_be_positive ''timeout_seconds'')))"

section \<open>Reading an answer\<close>

definition client_request :: "exchange \<Rightarrow> client_error + int \<times> json option" where
  "client_request x = (case x of
     Unreachable \<Rightarrow> Inl (Transport_Error 0 (JStr ''control unavailable''))
   | Answered status body \<Rightarrow>
       if 400 \<le> status then Inl (Transport_Error status
         (case body of Some (JObj d) \<Rightarrow> json_get_or d ''detail'' (JStr ''request failed'')
          | _ \<Rightarrow> JStr ''request failed''))
       else Inr (status, body))"

definition client_object :: "json option \<Rightarrow> client_error + obj" where
  "client_object body = (case body of
     None \<Rightarrow> Inl (Transport_Error 502 (JStr ''Control returned invalid JSON''))
   | Some (JObj d) \<Rightarrow> Inr d
   | Some _ \<Rightarrow> Inl (Transport_Error 502 (JStr ''Control response must be an object'')))"

definition read_object :: "exchange \<Rightarrow> client_error + obj" where
  "read_object x = rbind (client_request x) (\<lambda>(_, body). client_object body)"

definition lift_client :: "'a res \<Rightarrow> client_error + 'a" where
  "lift_client m = (case m of Inl e \<Rightarrow> Inl (Client_Exc e) | Inr x \<Rightarrow> Inr x)"

text \<open>
  The body of a claim: the conversions in the order of the source, then the constructor of the
  request (which checks both identifiers before it copies the payload).
\<close>

definition claimed_from_dict :: "obj \<Rightarrow> string \<Rightarrow> claimed_job res" where
  "claimed_from_dict body token =
     rbind (rbind (json_item body ''job_id'') py_str) (\<lambda>job_id.
     rbind (rbind (json_item body ''capability'') py_str) (\<lambda>capability.
     rbind (py_int (json_get_or body ''attempts'' (JInt 0))) (\<lambda>attempts.
     rbind (mk_job_request job_id capability []
              [(''attempt'', JInt attempts), (''lease_expires_at'', json_get body ''lease_expires_at'')]) (\<lambda>request.
     rbind (as_mapping (json_get body ''payload'')) (\<lambda>payload.
       Inr \<lparr>cj_request = request\<lparr>rq_payload := payload\<rparr>, cj_lease_token = token,
            cj_lease_expires_at = json_get body ''lease_expires_at'', cj_attempts = attempts\<rparr>)))))"

definition read_claim :: "exchange \<Rightarrow> client_error + claimed_job option" where
  "read_claim x = rbind (client_request x) (\<lambda>(status, raw).
     if status = 204 then Inr None
     else rbind (client_object raw) (\<lambda>body.
       case json_get body ''lease_token'' of
         JStr token \<Rightarrow>
           if token = [] then Inl (Transport_Error 502 (JStr ''claim response lacks lease token''))
           else rbind (lift_client (claimed_from_dict body token)) (\<lambda>c. Inr (Some c))
       | _ \<Rightarrow> Inl (Transport_Error 502 (JStr ''claim response lacks lease token''))))"

section \<open>Building a request\<close>

record client_call =
  ck_method :: string
  ck_path :: string
  ck_json :: "obj option"

definition call_register :: "worker_spec \<Rightarrow> int \<Rightarrow> obj \<Rightarrow> client_call" where
  "call_register spec max_concurrency metadata = \<lparr>ck_method = ''POST'', ck_path = ''/v1/workers/register'',
     ck_json = Some [
       (''protocol_version'', JStr protocol_version),
       (''spec'', JObj (worker_spec_to_dict spec)),
       (''max_concurrency'', JInt max_concurrency),
       (''metadata'', JObj metadata)]\<rparr>"

definition call_heartbeat ::
  "string \<Rightarrow> string option \<Rightarrow> string option \<Rightarrow> worker_state option \<Rightarrow> obj \<Rightarrow> client_call" where
  "call_heartbeat worker_id active_job_id lease_token state metadata =
     \<lparr>ck_method = ''POST'', ck_path = ''/v1/workers/'' @ worker_id @ ''/heartbeat'',
      ck_json = Some [
       (''protocol_version'', JStr protocol_version),
       (''active_job_id'', json_opt active_job_id),
       (''lease_token'', json_opt lease_token),
       (''state'', (case state of None \<Rightarrow> JNull | Some s \<Rightarrow> JStr (worker_state_value s))),
       (''metadata'', JObj metadata)]\<rparr>"

definition call_set_state :: "string \<Rightarrow> worker_state \<Rightarrow> client_call" where
  "call_set_state worker_id state =
     \<lparr>ck_method = ''POST'', ck_path = ''/v1/workers/'' @ worker_id @ ''/state'',
      ck_json = Some [(''protocol_version'', JStr protocol_version),
        (''state'', JStr (worker_state_value state))]\<rparr>"

definition call_claim :: "string \<Rightarrow> client_call" where
  "call_claim worker_id =
     \<lparr>ck_method = ''POST'', ck_path = ''/v1/workers/'' @ worker_id @ ''/jobs/claim'', ck_json = None\<rparr>"

definition call_inspect_job :: "string \<Rightarrow> string \<Rightarrow> client_call" where
  "call_inspect_job worker_id job_id =
     \<lparr>ck_method = ''GET'', ck_path = ''/v1/workers/'' @ worker_id @ ''/jobs/'' @ job_id, ck_json = None\<rparr>"

definition call_complete :: "string \<Rightarrow> string \<Rightarrow> string \<Rightarrow> job_result \<Rightarrow> client_call" where
  "call_complete worker_id job_id lease_token result =
     \<lparr>ck_method = ''POST'', ck_path = ''/v1/workers/'' @ worker_id @ ''/jobs/'' @ job_id @ ''/complete'',
      ck_json = Some [(''protocol_version'', JStr protocol_version),
        (''lease_token'', JStr lease_token), (''result'', JObj (job_result_to_dict result))]\<rparr>"

definition call_fail :: "string \<Rightarrow> string \<Rightarrow> string \<Rightarrow> failure \<Rightarrow> bool \<Rightarrow> client_call" where
  "call_fail worker_id job_id lease_token error retryable =
     \<lparr>ck_method = ''POST'', ck_path = ''/v1/workers/'' @ worker_id @ ''/jobs/'' @ job_id @ ''/fail'',
      ck_json = Some [(''protocol_version'', JStr protocol_version),
        (''lease_token'', JStr lease_token),
        (''error'', (case error of Message t \<Rightarrow> JStr t | Details d \<Rightarrow> JObj d)),
        (''retryable'', JBool retryable)]\<rparr>"

section \<open>The wire\<close>

text \<open>
  What the server receives: the segments of the path and the bearer header every request of the
  client carries.
\<close>

definition path_segments :: "string \<Rightarrow> string list" where
  "path_segments p = tl (py_split (CHR ''/'') p)"

definition on_the_wire :: "control_client \<Rightarrow> client_call \<Rightarrow> http_request" where
  "on_the_wire client call = \<lparr>ht_method = ck_method call, ht_path = path_segments (ck_path call),
     ht_authorization = ''Bearer '' @ cc_worker_token client,
     ht_body = map_option JObj (ck_json call)\<rparr>"

fun off_the_wire :: "http_response \<Rightarrow> exchange" where
  "off_the_wire (Response status body) = Answered status (Some body)"
| "off_the_wire (Empty_Response status) = Answered status None"
| "off_the_wire No_Claim = Unreachable"

section \<open>Lemmas\<close>

text \<open>An identifier that is one segment of a path.\<close>

definition path_id :: "string \<Rightarrow> bool" where
  "path_id s \<longleftrightarrow> s \<noteq> [] \<and> CHR ''/'' \<notin> set s"

lemma split_after:
  assumes "CHR ''/'' \<notin> set a"
  shows "py_split (CHR ''/'') (a @ ''/'' @ rest) = a # py_split (CHR ''/'') rest"
  using py_split_append [OF assms, of rest] by simp

lemma worker_path:
  assumes "path_id w"
  shows "path_segments (''/v1/workers/'' @ w @ ''/heartbeat'') = [''v1'', ''workers'', w, ''heartbeat'']"
    and "path_segments (''/v1/workers/'' @ w @ ''/state'') = [''v1'', ''workers'', w, ''state'']"
    and "path_segments (''/v1/workers/'' @ w @ ''/jobs/claim'') = [''v1'', ''workers'', w, ''jobs'', ''claim'']"
  using assms py_split_append [of "CHR ''/''" w]
  by (simp_all add: path_segments_def path_id_def)

lemma job_path:
  assumes "path_id w" "path_id j"
  shows "path_segments (''/v1/workers/'' @ w @ ''/jobs/'' @ j) = [''v1'', ''workers'', w, ''jobs'', j]"
    and "path_segments (''/v1/workers/'' @ w @ ''/jobs/'' @ j @ ''/complete'') =
      [''v1'', ''workers'', w, ''jobs'', j, ''complete'']"
    and "path_segments (''/v1/workers/'' @ w @ ''/jobs/'' @ j @ ''/fail'') =
      [''v1'', ''workers'', w, ''jobs'', j, ''fail'']"
  using assms py_split_append [of "CHR ''/''" w] py_split_append [of "CHR ''/''" j] py_split_no_sep [of "CHR ''/''" j]
  by (simp_all add: path_segments_def path_id_def)

text \<open>The worker token the server was configured with opens every worker route.\<close>

definition shares_token :: "control_client \<Rightarrow> app_config \<Rightarrow> bool" where
  "shares_token client cfg \<longleftrightarrow> cc_worker_token client = ac_worker_token cfg \<and>
     ac_worker_token cfg \<noteq> [] \<and> ascii (ac_worker_token cfg)"

lemma wire_fields [simp]:
  "ht_method (on_the_wire client call) = ck_method call"
  "ht_path (on_the_wire client call) = path_segments (ck_path call)"
  "ht_body (on_the_wire client call) = map_option JObj (ck_json call)"
  by (simp_all add: on_the_wire_def)

lemma wire_token:
  "cc_worker_token client \<noteq> [] \<Longrightarrow> bearer_token (on_the_wire client call) = Some (cc_worker_token client)"
proof -
  have "map ascii_lower ''Bearer'' = ''bearer''" by code_simp
  then show "cc_worker_token client \<noteq> [] \<Longrightarrow>
      bearer_token (on_the_wire client call) = Some (cc_worker_token client)"
    by (simp add: bearer_token_def on_the_wire_def py_partition_def)
qed

lemma authorized: "shares_token client cfg \<Longrightarrow> require_worker cfg (on_the_wire client call) = None"
  by (auto simp: shares_token_def require_worker_def require_token_def wire_token compare_digest_def Let_def)

lemma handle_on_the_wire:
  assumes "shares_token client cfg"
    and "route (ck_method call) (path_segments (ck_path call)) = Some e" "authority_of e = Worker"
  shows "handle cfg api now uid (on_the_wire client call) s =
    dispatch api now uid e (on_the_wire client call) s"
  using assms by (simp add: handle_def authorize_def authorized)

lemma json_v1_on_the_wire:
  assumes "ck_json call = Some body" "json_get body ''protocol_version'' = JStr protocol_version"
  shows "json_v1 (on_the_wire client call) = Inr body"
  using assms by (simp add: json_v1_def on_the_wire_def)

section \<open>Both ends agree\<close>

lemma register_over_http:
  assumes "shares_token client cfg" "spec_ok spec" "1 \<le> n"
  shows "handle cfg api now uid (on_the_wire client (call_register spec n md)) s =
    respond 201 worker_record_to_dict
      (ca_register api \<lparr>reg_spec = spec, reg_max_concurrency = n, reg_metadata = md\<rparr> now s)"
proof -
  let ?call = "call_register spec n md"
  have route: "route (ck_method ?call) (path_segments (ck_path ?call)) = Some Register_Worker"
    by (simp add: call_register_def) code_simp
  have body: "json_v1 (on_the_wire client ?call) = Inr (the (ck_json ?call))"
    by (rule json_v1_on_the_wire) (simp_all add: call_register_def json_get_def)
  have "worker_registration_from_dict (the (ck_json ?call)) =
      Inr \<lparr>reg_spec = spec, reg_max_concurrency = n, reg_metadata = md\<rparr>"
    using assms(2,3) worker_spec_roundtrip [OF assms(2)]
    by (simp add: call_register_def worker_registration_from_dict_def json_item_def json_get_def
        json_get_or_def mk_worker_registration_def)
  with body show ?thesis
    by (simp add: handle_on_the_wire [OF assms(1) route] handle_register_def lift_exc_def)
qed

lemma heartbeat_over_http:
  assumes "shares_token client cfg" "path_id w"
  shows "handle cfg api now uid (on_the_wire client (call_heartbeat w j t st md)) s =
    respond 200 worker_record_to_dict (ca_heartbeat api w
      \<lparr>hb_state = st, hb_active_job_id = j, hb_lease_token = t, hb_metadata = md\<rparr> now s)"
proof -
  let ?call = "call_heartbeat w j t st md"
  have route: "route (ck_method ?call) (path_segments (ck_path ?call)) = Some (Heartbeat_Worker w)"
    using assms(2) by (simp add: call_heartbeat_def worker_path [OF assms(2), simplified] route_def path_id_def)
  have body: "json_v1 (on_the_wire client ?call) = Inr (the (ck_json ?call))"
    by (rule json_v1_on_the_wire) (simp_all add: call_heartbeat_def json_get_def)
  have "worker_heartbeat_from_dict (the (ck_json ?call)) =
      Inr \<lparr>hb_state = st, hb_active_job_id = j, hb_lease_token = t, hb_metadata = md\<rparr>"
    by (cases st; cases j; cases t)
      (simp_all add: call_heartbeat_def worker_heartbeat_from_dict_def json_get_def json_opt_def)
  with body show ?thesis
    by (simp add: handle_on_the_wire [OF assms(1) route] handle_heartbeat_def lift_exc_def)
qed

lemma set_state_over_http:
  assumes "shares_token client cfg" "path_id w"
  shows "handle cfg api now uid (on_the_wire client (call_set_state w st)) s =
    respond 200 worker_record_to_dict (ca_set_state api w st now s)"
proof -
  let ?call = "call_set_state w st"
  have route: "route (ck_method ?call) (path_segments (ck_path ?call)) = Some (Set_Worker_State w)"
    using assms(2) by (simp add: call_set_state_def worker_path [OF assms(2), simplified] route_def path_id_def)
  have body: "json_v1 (on_the_wire client ?call) = Inr (the (ck_json ?call))"
    by (rule json_v1_on_the_wire) (simp_all add: call_set_state_def json_get_def)
  have "rbind (rbind (json_item (the (ck_json ?call)) ''state'') py_str) worker_state_of = Inr st"
    by (simp add: call_set_state_def json_item_def)
  with body show ?thesis
    by (simp add: handle_on_the_wire [OF assms(1) route] handle_set_state_def lift_exc_def)
qed

lemma complete_over_http:
  assumes "shares_token client cfg" "path_id w" "path_id j" "result_ok r"
  shows "handle cfg api now uid (on_the_wire client (call_complete w j t r)) s =
    respond 200 job_json (ca_complete api j r w t now s)"
proof -
  let ?call = "call_complete w j t r"
  have route: "route (ck_method ?call) (path_segments (ck_path ?call)) = Some (Complete_Job w j)"
    using assms(2,3) by (simp add: call_complete_def job_path [OF assms(2,3), simplified] route_def path_id_def)
  have body: "json_v1 (on_the_wire client ?call) = Inr (the (ck_json ?call))"
    by (rule json_v1_on_the_wire) (simp_all add: call_complete_def json_get_def)
  have "read_completion (the (ck_json ?call)) = Inr (t, r)"
    using job_result_roundtrip [OF assms(4)]
    by (simp add: call_complete_def read_completion_def json_item_def)
  with body show ?thesis
    by (simp add: handle_on_the_wire [OF assms(1) route] handle_complete_def lift_exc_def)
qed

lemma fail_over_http:
  assumes "shares_token client cfg" "path_id w" "path_id j"
  shows "handle cfg api now uid (on_the_wire client (call_fail w j t err retry)) s =
    respond 200 job_json (ca_fail api j err retry w t now s)"
proof -
  let ?call = "call_fail w j t err retry"
  have route: "route (ck_method ?call) (path_segments (ck_path ?call)) = Some (Fail_Job w j)"
    using assms(2,3) by (simp add: call_fail_def job_path [OF assms(2,3), simplified] route_def path_id_def)
  have body: "json_v1 (on_the_wire client ?call) = Inr (the (ck_json ?call))"
    by (rule json_v1_on_the_wire) (simp_all add: call_fail_def json_get_def)
  have "read_failure (the (ck_json ?call)) = Inr (t, err, retry)"
    by (cases err) (simp_all add: call_fail_def read_failure_def json_item_def json_get_or_def)
  with body show ?thesis
    by (simp add: handle_on_the_wire [OF assms(1) route] handle_fail_def lift_exc_def)
qed

lemma claim_over_http:
  assumes "shares_token client cfg" "path_id w"
  shows "handle cfg api now uid (on_the_wire client (call_claim w)) s = handle_claim api now uid w s"
proof -
  have "route (ck_method (call_claim w)) (path_segments (ck_path (call_claim w))) = Some (Claim_Job w)"
    using assms(2) by (simp add: call_claim_def worker_path [OF assms(2), simplified] route_def path_id_def)
  then show ?thesis by (simp add: handle_on_the_wire [OF assms(1)])
qed

lemma inspect_over_http:
  assumes "shares_token client cfg" "path_id w" "path_id j"
  shows "handle cfg api now uid (on_the_wire client (call_inspect_job w j)) s = handle_inspect api w j s"
proof -
  have "route (ck_method (call_inspect_job w j)) (path_segments (ck_path (call_inspect_job w j))) =
      Some (Inspect_Job w j)"
    using assms(2,3)
    by (simp add: call_inspect_job_def job_path [OF assms(2,3), simplified] route_def path_id_def)
  then show ?thesis by (simp add: handle_on_the_wire [OF assms(1)])
qed

text \<open>A claimed record, as the repository hands it out, is read as its own executor request.\<close>

lemma read_claim_of_record:
  assumes "norm_text (jb_job_id j)" "norm_text (jb_capability j)" "jb_lease_token j = Some t" "t \<noteq> []"
  shows "\<exists>c. read_claim (Answered 200 (Some (JObj (job_json j)))) = Inr (Some c) \<and>
    job_request_from_record j = Inr (cj_request c) \<and> cj_lease_token c = t \<and> cj_attempts c = jb_attempts j"
  using assms
  by (simp add: read_claim_def client_request_def client_object_def job_record_to_dict_def json_get_def
      json_opt_def claimed_from_dict_def json_item_def json_get_or_def mk_job_request_def nonblank_def
      norm_text_def lift_client_def job_request_from_record_def Let_def)

end
