(* ===== verification/Runtime_Contracts.thy ===== *)
theory Runtime_Contracts
  imports Contracts Execution
begin

text \<open>
  \<open>src/src/astrumweaver/runtime/contracts.py\<close>: the provider-neutral values of runtime selection.
  The enumerations are text enumerations: a member equals its text, so a raw argument is a text and
  the constructor of the enumeration a lookup that fails with \<open>ValueError\<close>. The \<open>Protocol\<close>
  classes \<open>ManagedRuntime\<close> and \<open>RuntimeProvider\<close> have no code; a provider is a record of its
  operations, and the lifecycle theory has the runtime. The lemmas say that a constructed value
  satisfies its type invariant and that the invariant is exactly what the constructor accepts.
\<close>

section \<open>Helpers\<close>

definition runtime_nonblank :: "string \<Rightarrow> string \<Rightarrow> string res" where
  "runtime_nonblank value field_name = (let normalized = py_strip value in
     if normalized = [] then Inl (ValueError (Must_not_be_blank field_name)) else Inr normalized)"

text \<open>A boolean is an \<open>int\<close> for \<open>isinstance\<close>, so it is refused by name.\<close>

definition nonnegative :: "json \<Rightarrow> string \<Rightarrow> int res" where
  "nonnegative value field_name = (case value of
     JInt n \<Rightarrow> if n < 0 then Inl (ValueError (Must_not_be_negative field_name)) else Inr n
   | _ \<Rightarrow> Inl (TypeError (Wrong_type field_name)))"

text \<open>\<open>str.lower\<close> for code points below 256.\<close>

definition py_lower_char :: "char \<Rightarrow> char" where
  "py_lower_char c = (let n = (of_char c :: nat) in
     if (65 \<le> n \<and> n \<le> 90) \<or> (192 \<le> n \<and> n \<le> 222 \<and> n \<noteq> 215) then char_of (n + 32) else c)"

definition py_lower :: "string \<Rightarrow> string" where
  "py_lower s = map py_lower_char s"

text \<open>The constructor of an enumeration: its table of texts, \<open>ValueError\<close> on any other.\<close>

definition enum_of :: "(string \<times> 'a) list \<Rightarrow> string \<Rightarrow> string \<Rightarrow> 'a res" where
  "enum_of table cls value = (case map_of table value of
     None \<Rightarrow> Inl (ValueError (Malformed cls)) | Some x \<Rightarrow> Inr x)"

section \<open>Enumerations\<close>

datatype runtime_selection_mode = EXPLICIT | RECOMMEND

definition runtime_selection_mode_of :: "string \<Rightarrow> runtime_selection_mode res" where
  "runtime_selection_mode_of =
     enum_of [(''explicit'', EXPLICIT), (''recommend'', RECOMMEND)] ''RuntimeSelectionMode''"

datatype residency_policy = VRAM_ONLY | PREFER_VRAM | CPU_GPU_HYBRID

fun residency_policy_value :: "residency_policy \<Rightarrow> string" where
  "residency_policy_value VRAM_ONLY = ''vram_only''"
| "residency_policy_value PREFER_VRAM = ''prefer_vram''"
| "residency_policy_value CPU_GPU_HYBRID = ''cpu_gpu_hybrid''"

definition residency_policy_of :: "string \<Rightarrow> residency_policy res" where
  "residency_policy_of =
     enum_of [(''vram_only'', VRAM_ONLY), (''prefer_vram'', PREFER_VRAM),
              (''cpu_gpu_hybrid'', CPU_GPU_HYBRID)] ''ResidencyPolicy''"

datatype gpu_topology = TOPO_NONE | SINGLE_GPU | MULTI_GPU

fun gpu_topology_value :: "gpu_topology \<Rightarrow> string" where
  "gpu_topology_value TOPO_NONE = ''none''"
| "gpu_topology_value SINGLE_GPU = ''single_gpu''"
| "gpu_topology_value MULTI_GPU = ''multi_gpu''"

definition gpu_topology_of :: "string \<Rightarrow> gpu_topology res" where
  "gpu_topology_of =
     enum_of [(''none'', TOPO_NONE), (''single_gpu'', SINGLE_GPU), (''multi_gpu'', MULTI_GPU)]
       ''GPUTopology''"

datatype model_topology = DENSE | MOE

fun model_topology_value :: "model_topology \<Rightarrow> string" where
  "model_topology_value DENSE = ''dense''"
| "model_topology_value MOE = ''moe''"

definition model_topology_of :: "string \<Rightarrow> model_topology res" where
  "model_topology_of = enum_of [(''dense'', DENSE), (''moe'', MOE)] ''ModelTopology''"

datatype model_preparation_policy = REFERENCE_ONLY | DOWNLOAD | CONVERT

fun model_preparation_value :: "model_preparation_policy \<Rightarrow> string" where
  "model_preparation_value REFERENCE_ONLY = ''reference_only''"
| "model_preparation_value DOWNLOAD = ''download''"
| "model_preparation_value CONVERT = ''convert''"

definition model_preparation_of :: "string \<Rightarrow> model_preparation_policy res" where
  "model_preparation_of =
     enum_of [(''reference_only'', REFERENCE_ONLY), (''download'', DOWNLOAD), (''convert'', CONVERT)]
       ''ModelPreparationPolicy''"

datatype runtime_health_state = RT_STOPPED | RT_STARTING | RT_READY | RT_DEGRADED | RT_FAILED

definition runtime_health_state_of :: "string \<Rightarrow> runtime_health_state res" where
  "runtime_health_state_of =
     enum_of [(''stopped'', RT_STOPPED), (''starting'', RT_STARTING), (''ready'', RT_READY),
              (''degraded'', RT_DEGRADED), (''failed'', RT_FAILED)] ''RuntimeHealthState''"

section \<open>RuntimeSelection\<close>

record runtime_selection =
  rs_mode :: runtime_selection_mode
  rs_provider_id :: "string option"

definition mk_runtime_selection :: "string \<Rightarrow> string option \<Rightarrow> runtime_selection res" where
  "mk_runtime_selection raw_mode provider_id =
     rbind (runtime_selection_mode_of raw_mode) (\<lambda>mode.
     if mode = EXPLICIT then
       (case provider_id of
          None \<Rightarrow> Inl (ValueError (Required ''provider_id''))
        | Some p \<Rightarrow> rbind (runtime_nonblank p ''provider_id'') (\<lambda>pid.
            Inr \<lparr>rs_mode = mode, rs_provider_id = Some pid\<rparr>))
     else if provider_id \<noteq> None then Inl (ValueError (Inconsistent ''provider_id''))
     else Inr \<lparr>rs_mode = mode, rs_provider_id = provider_id\<rparr>)"

section \<open>ModelDemand\<close>

record model_demand =
  md_model_ref :: string
  md_model_format :: string
  md_topology :: model_topology
  md_estimated_size_mb :: "int option"
  md_metadata :: obj

definition mk_model_demand :: "string \<Rightarrow> string \<Rightarrow> string \<Rightarrow> json \<Rightarrow> obj \<Rightarrow> model_demand res" where
  "mk_model_demand model_ref model_format topology estimated_size_mb metadata =
     rbind (runtime_nonblank model_ref ''model_ref'') (\<lambda>ref.
     rbind (runtime_nonblank model_format ''model_format'') (\<lambda>fmt.
     rbind (model_topology_of topology) (\<lambda>topo.
     rbind (if estimated_size_mb = JNull then Inr None
            else rbind (nonnegative estimated_size_mb ''estimated_size_mb'') (\<lambda>n.
              if n = 0 then Inl (ValueError (Must_be_positive ''estimated_size_mb''))
              else Inr (Some n))) (\<lambda>size.
       Inr \<lparr>md_model_ref = ref, md_model_format = py_lower fmt, md_topology = topo,
            md_estimated_size_mb = size, md_metadata = metadata\<rparr>))))"

section \<open>ExecutionDemand\<close>

record execution_demand =
  ed_model :: model_demand
  ed_residency_policy :: residency_policy
  ed_gpu_topology :: gpu_topology
  ed_min_gpu_count :: int
  ed_min_total_vram_mb :: int
  ed_min_single_gpu_vram_mb :: int
  ed_min_host_ram_mb :: int
  ed_preferred_host_ram_mb :: int
  ed_metadata :: obj

text \<open>The checks that relate the GPU minima to the topology.\<close>

definition check_gpu_topology :: "gpu_topology \<Rightarrow> residency_policy \<Rightarrow> int \<Rightarrow> int \<Rightarrow> int \<Rightarrow> unit res" where
  "check_gpu_topology topology policy count tot single = (case topology of
     TOPO_NONE \<Rightarrow>
       if count \<noteq> 0 \<or> tot \<noteq> 0 \<or> single \<noteq> 0 then Inl (ValueError (Inconsistent ''gpu_topology''))
       else if policy = VRAM_ONLY then Inl (ValueError (Inconsistent ''vram_only''))
       else Inr ()
   | SINGLE_GPU \<Rightarrow>
       if count \<notin> {0, 1} then Inl (ValueError (Inconsistent ''single_gpu'')) else Inr ()
   | MULTI_GPU \<Rightarrow>
       if count < 2 then Inl (ValueError (Inconsistent ''multi_gpu'')) else Inr ())"

definition mk_execution_demand ::
  "model_demand \<Rightarrow> string \<Rightarrow> string \<Rightarrow> json \<Rightarrow> json \<Rightarrow> json \<Rightarrow> json \<Rightarrow> json \<Rightarrow> obj
    \<Rightarrow> execution_demand res" where
  "mk_execution_demand model policy topology count tot single ram preferred metadata =
     rbind (residency_policy_of policy) (\<lambda>pol.
     rbind (gpu_topology_of topology) (\<lambda>topo.
     rbind (nonnegative count ''min_gpu_count'') (\<lambda>c.
     rbind (nonnegative tot ''min_total_vram_mb'') (\<lambda>t.
     rbind (nonnegative single ''min_single_gpu_vram_mb'') (\<lambda>s.
     rbind (nonnegative ram ''min_host_ram_mb'') (\<lambda>r.
     rbind (nonnegative preferred ''preferred_host_ram_mb'') (\<lambda>p.
     if p < r then Inl (ValueError (Inconsistent ''preferred_host_ram_mb''))
     else rbind (check_gpu_topology topo pol c t s) (\<lambda>_.
       Inr \<lparr>ed_model = model, ed_residency_policy = pol, ed_gpu_topology = topo,
            ed_min_gpu_count = c, ed_min_total_vram_mb = t, ed_min_single_gpu_vram_mb = s,
            ed_min_host_ram_mb = r, ed_preferred_host_ram_mb = p, ed_metadata = metadata\<rparr>))))))))"

definition effective_min_gpu_count :: "execution_demand \<Rightarrow> int" where
  "effective_min_gpu_count d = (case ed_gpu_topology d of
     TOPO_NONE \<Rightarrow> 0 | SINGLE_GPU \<Rightarrow> 1 | MULTI_GPU \<Rightarrow> ed_min_gpu_count d)"

section \<open>RuntimeHostFacts and the compatibility context\<close>

record runtime_host_facts =
  hf_cpu_count :: int
  hf_host_ram_mb :: int
  hf_architecture :: string
  hf_labels :: "(string, string) dict"

fun host_labels :: "(string, string) dict \<Rightarrow> (string, string) dict \<Rightarrow> (string, string) dict res" where
  "host_labels normalized [] = Inr normalized"
| "host_labels normalized ((key, value) # rest) =
     rbind (runtime_nonblank key ''label key'') (\<lambda>k.
     rbind (runtime_nonblank value ''label value'') (\<lambda>v.
       host_labels (dict_set k v normalized) rest))"

definition mk_runtime_host_facts ::
  "json \<Rightarrow> json \<Rightarrow> string \<Rightarrow> (string, string) dict \<Rightarrow> runtime_host_facts res" where
  "mk_runtime_host_facts cpu_count host_ram_mb architecture labels =
     rbind (nonnegative cpu_count ''cpu_count'') (\<lambda>cpus.
     rbind (nonnegative host_ram_mb ''host_ram_mb'') (\<lambda>ram.
     if cpus = 0 then Inl (ValueError (Must_be_positive ''cpu_count''))
     else if ram = 0 then Inl (ValueError (Must_be_positive ''host_ram_mb''))
     else rbind (runtime_nonblank architecture ''architecture'') (\<lambda>arch.
       rbind (host_labels [] labels) (\<lambda>labs.
         Inr \<lparr>hf_cpu_count = cpus, hf_host_ram_mb = ram, hf_architecture = arch,
              hf_labels = labs\<rparr>))))"

record runtime_context =
  cx_worker :: worker_spec
  cx_host :: runtime_host_facts
  cx_demand :: execution_demand

section \<open>Provider information and compatibility reports\<close>

record runtime_provider_info =
  pi_provider_id :: string
  pi_display_name :: string
  pi_description :: string

definition mk_runtime_provider_info :: "string \<Rightarrow> string \<Rightarrow> string \<Rightarrow> runtime_provider_info res" where
  "mk_runtime_provider_info provider_id display_name description =
     rbind (runtime_nonblank provider_id ''provider_id'') (\<lambda>pid.
     rbind (runtime_nonblank display_name ''display_name'') (\<lambda>nm.
       Inr \<lparr>pi_provider_id = pid, pi_display_name = nm, pi_description = py_strip description\<rparr>))"

record compatibility_reason =
  cr_code :: string
  cr_message :: string
  cr_blocking :: bool

definition mk_compatibility_reason :: "string \<Rightarrow> string \<Rightarrow> bool \<Rightarrow> compatibility_reason res" where
  "mk_compatibility_reason code message blocking =
     rbind (runtime_nonblank code ''code'') (\<lambda>c.
     rbind (runtime_nonblank message ''message'') (\<lambda>m.
       Inr \<lparr>cr_code = c, cr_message = m, cr_blocking = blocking\<rparr>))"

record runtime_compatibility =
  rc_provider_id :: string
  rc_reasons :: "compatibility_reason list"

definition mk_runtime_compatibility ::
  "string \<Rightarrow> compatibility_reason list \<Rightarrow> runtime_compatibility res" where
  "mk_runtime_compatibility provider_id reasons =
     rbind (runtime_nonblank provider_id ''provider_id'') (\<lambda>pid.
       Inr \<lparr>rc_provider_id = pid, rc_reasons = reasons\<rparr>)"

definition compatible :: "runtime_compatibility \<Rightarrow> bool" where
  "compatible r \<longleftrightarrow> \<not> list_ex cr_blocking (rc_reasons r)"

section \<open>RuntimeSetupIntent and RuntimeHealth\<close>

record runtime_setup_intent =
  si_provider_id :: string
  si_package_references :: "string list"
  si_configuration :: obj
  si_model_preparation :: model_preparation_policy
  si_model_ref :: "string option"
  si_requires_privilege :: bool
  si_metadata :: obj

definition mk_runtime_setup_intent ::
  "string \<Rightarrow> string list \<Rightarrow> obj \<Rightarrow> string \<Rightarrow> json \<Rightarrow> bool \<Rightarrow> obj \<Rightarrow> runtime_setup_intent res" where
  "mk_runtime_setup_intent provider_id packages configuration preparation model_ref privilege metadata =
     rbind (runtime_nonblank provider_id ''provider_id'') (\<lambda>pid.
     rbind (rmap (\<lambda>v. runtime_nonblank v ''package reference'') packages) (\<lambda>pkgs.
     if \<not> distinct pkgs then Inl (ValueError (Contains_duplicates ''package_references''))
     else rbind (model_preparation_of preparation) (\<lambda>prep.
       rbind (if model_ref = JNull then Inr None
              else rbind (py_str model_ref) (\<lambda>s.
                rbind (runtime_nonblank s ''model_ref'') (\<lambda>r. Inr (Some r)))) (\<lambda>ref.
         Inr \<lparr>si_provider_id = pid, si_package_references = pkgs,
              si_configuration = configuration, si_model_preparation = prep,
              si_model_ref = ref, si_requires_privilege = privilege, si_metadata = metadata\<rparr>))))"

record runtime_health =
  rh_state :: runtime_health_state
  rh_ready :: bool
  rh_detail :: "string option"
  rh_metadata :: obj

definition mk_runtime_health :: "string \<Rightarrow> bool \<Rightarrow> string option \<Rightarrow> obj \<Rightarrow> runtime_health res" where
  "mk_runtime_health state ready detail metadata =
     rbind (runtime_health_state_of state) (\<lambda>st.
       Inr \<lparr>rh_state = st, rh_ready = ready, rh_detail = map_option py_strip detail,
            rh_metadata = metadata\<rparr>)"

text \<open>
  The provider protocol: its information and the two operations the planner and the setup call.
  The configuration is what \<open>getattr(provider, "config", None)\<close> serialises to.
\<close>

record runtime_provider =
  rp_info :: runtime_provider_info
  rp_config :: "obj option"
  rp_compatibility :: "runtime_context \<Rightarrow> runtime_compatibility res"
  rp_setup_intent :: "runtime_context \<Rightarrow> runtime_setup_intent res"

abbreviation rp_provider_id :: "runtime_provider \<Rightarrow> string" where
  "rp_provider_id p \<equiv> pi_provider_id (rp_info p)"

section \<open>Type invariants\<close>

definition selection_ok :: "runtime_selection \<Rightarrow> bool" where
  "selection_ok s \<longleftrightarrow> (case rs_mode s of
     EXPLICIT \<Rightarrow> (\<exists>p. rs_provider_id s = Some p \<and> norm_text p)
   | RECOMMEND \<Rightarrow> rs_provider_id s = None)"

definition model_demand_ok :: "model_demand \<Rightarrow> bool" where
  "model_demand_ok m \<longleftrightarrow> norm_text (md_model_ref m) \<and> norm_text (md_model_format m) \<and>
     py_lower (md_model_format m) = md_model_format m \<and>
     (\<forall>n. md_estimated_size_mb m = Some n \<longrightarrow> 0 < n)"

definition topology_ok :: "gpu_topology \<Rightarrow> residency_policy \<Rightarrow> int \<Rightarrow> int \<Rightarrow> int \<Rightarrow> bool" where
  "topology_ok topo pol c t s \<longleftrightarrow> (case topo of
      TOPO_NONE \<Rightarrow> c = 0 \<and> t = 0 \<and> s = 0 \<and> pol \<noteq> VRAM_ONLY
    | SINGLE_GPU \<Rightarrow> c = 0 \<or> c = 1
    | MULTI_GPU \<Rightarrow> 2 \<le> c)"

definition demand_ok :: "execution_demand \<Rightarrow> bool" where
  "demand_ok d \<longleftrightarrow>
     0 \<le> ed_min_gpu_count d \<and> 0 \<le> ed_min_total_vram_mb d \<and> 0 \<le> ed_min_single_gpu_vram_mb d \<and>
     0 \<le> ed_min_host_ram_mb d \<and> ed_min_host_ram_mb d \<le> ed_preferred_host_ram_mb d \<and>
     topology_ok (ed_gpu_topology d) (ed_residency_policy d) (ed_min_gpu_count d)
       (ed_min_total_vram_mb d) (ed_min_single_gpu_vram_mb d)"

definition host_facts_ok :: "runtime_host_facts \<Rightarrow> bool" where
  "host_facts_ok h \<longleftrightarrow> 0 < hf_cpu_count h \<and> 0 < hf_host_ram_mb h \<and>
     norm_text (hf_architecture h) \<and> labels_ok (hf_labels h)"

definition setup_intent_ok :: "runtime_setup_intent \<Rightarrow> bool" where
  "setup_intent_ok s \<longleftrightarrow> norm_text (si_provider_id s) \<and> distinct (si_package_references s) \<and>
     (\<forall>p \<in> set (si_package_references s). norm_text p) \<and>
     (\<forall>r. si_model_ref s = Some r \<longrightarrow> norm_text r)"

section \<open>Lemmas\<close>

lemma runtime_nonblank_Inr: "runtime_nonblank v f = Inr n \<longleftrightarrow> n = py_strip v \<and> norm_text n"
  by (auto simp: runtime_nonblank_def norm_text_def Let_def)

lemma runtime_nonblank_norm [simp]: "norm_text v \<Longrightarrow> runtime_nonblank v f = Inr v"
  by (auto simp: runtime_nonblank_Inr norm_text_def)

lemma nonnegative_Inr: "nonnegative v f = Inr n \<longleftrightarrow> v = JInt n \<and> 0 \<le> n"
  by (auto simp: nonnegative_def split: json.splits)

lemma nonnegative_JInt [simp]: "0 \<le> n \<Longrightarrow> nonnegative (JInt n) f = Inr n"
  by (simp add: nonnegative_def)

lemma rmap_nonblank:
  "rmap (\<lambda>v. runtime_nonblank v f) xs = Inr ys \<longleftrightarrow>
     ys = map py_strip xs \<and> (\<forall>y \<in> set ys. norm_text y)"
  by (auto simp: rmap_Inr runtime_nonblank_Inr list_all2_conv_all_nth list_eq_iff_nth_eq
      all_set_conv_all_nth)

lemma mk_runtime_selection_ok:
  assumes "mk_runtime_selection m p = Inr s"
  shows "selection_ok s"
proof -
  from assms obtain mode where "runtime_selection_mode_of m = Inr mode"
    by (auto simp: mk_runtime_selection_def rbind_eq_Inr)
  with assms show ?thesis
    by (cases mode; cases p)
      (simp_all add: mk_runtime_selection_def rbind_eq_Inr runtime_nonblank_Inr selection_ok_def,
       auto)
qed

lemma check_gpu_topology_Inr: "check_gpu_topology topo pol c t s = Inr u \<longleftrightarrow> topology_ok topo pol c t s"
  by (cases topo) (auto simp: check_gpu_topology_def topology_ok_def)

lemma mk_execution_demand_Inr:
  "mk_execution_demand m pol topo c t s r p md = Inr d \<longleftrightarrow>
     demand_ok d \<and> residency_policy_of pol = Inr (ed_residency_policy d) \<and>
     gpu_topology_of topo = Inr (ed_gpu_topology d) \<and> m = ed_model d \<and> md = ed_metadata d \<and>
     c = JInt (ed_min_gpu_count d) \<and> t = JInt (ed_min_total_vram_mb d) \<and>
     s = JInt (ed_min_single_gpu_vram_mb d) \<and> r = JInt (ed_min_host_ram_mb d) \<and>
     p = JInt (ed_preferred_host_ram_mb d)"
  unfolding mk_execution_demand_def rbind_eq_Inr nonnegative_Inr check_gpu_topology_Inr demand_ok_def
  by (cases d, auto simp: rbind_eq_Inr check_gpu_topology_Inr split: if_splits) (metis leD)

lemma mk_execution_demand_ok:
  "mk_execution_demand m pol topo c t s r p md = Inr d \<Longrightarrow> demand_ok d"
  by (simp add: mk_execution_demand_Inr)

lemma host_labels_ok: "host_labels acc xs = Inr ys \<Longrightarrow> labels_ok acc \<Longrightarrow> labels_ok ys"
proof (induction acc xs arbitrary: ys rule: host_labels.induct)
  case (1 acc)
  then show ?case by simp
next
  case (2 acc k v rest)
  then have ne: "norm_text (py_strip k)" "norm_text (py_strip v)"
    and loop: "host_labels (dict_set (py_strip k) (py_strip v) acc) rest = Inr ys"
    by (auto simp: rbind_eq_Inr runtime_nonblank_Inr)
  have "labels_ok (dict_set (py_strip k) (py_strip v) acc)"
    using "2.prems"(2) ne dict_set_items [of "py_strip k" "py_strip v" acc]
    by (fastforce simp: labels_ok_def)
  with "2.IH" ne loop show ?case by (auto simp: runtime_nonblank_Inr)
qed

lemma mk_runtime_host_facts_ok: "mk_runtime_host_facts c r a l = Inr h \<Longrightarrow> host_facts_ok h"
  by (auto simp: mk_runtime_host_facts_def rbind_eq_Inr nonnegative_Inr runtime_nonblank_Inr
      host_facts_ok_def labels_ok_def [of "[]"] dest: host_labels_ok split: if_splits)

lemma mk_runtime_setup_intent_ok:
  "mk_runtime_setup_intent p pk c mp r pr md = Inr s \<Longrightarrow> setup_intent_ok s"
  by (auto simp: mk_runtime_setup_intent_def rbind_eq_Inr runtime_nonblank_Inr rmap_nonblank
      setup_intent_ok_def split: if_splits)

text \<open>Reading back the text of an enumeration member.\<close>

lemma residency_policy_of_value [simp]: "residency_policy_of (residency_policy_value p) = Inr p"
  by (cases p) (simp_all add: residency_policy_of_def enum_of_def)

lemma gpu_topology_of_value [simp]: "gpu_topology_of (gpu_topology_value g) = Inr g"
  by (cases g) (simp_all add: gpu_topology_of_def enum_of_def)

lemma model_topology_of_value [simp]: "model_topology_of (model_topology_value t) = Inr t"
  by (cases t) (simp_all add: model_topology_of_def enum_of_def)

lemma model_preparation_of_value [simp]: "model_preparation_of (model_preparation_value q) = Inr q"
  by (cases q) (simp_all add: model_preparation_of_def enum_of_def)

text \<open>Lower-casing neither creates nor removes white space, so it keeps a text normalised.\<close>

lemma is_space_lower [simp]: "is_space (py_lower_char c) = is_space c"
  by (auto simp: is_space_def py_lower_char_def Let_def)

lemma py_lower_char_idem [simp]: "py_lower_char (py_lower_char c) = py_lower_char c"
  by (auto simp: py_lower_char_def Let_def)

lemma py_lower_idem [simp]: "py_lower (py_lower s) = py_lower s"
  by (simp add: py_lower_def)

lemma py_strip_lower: "py_strip (py_lower s) = py_lower (py_strip s)"
  by (simp add: py_strip_def py_lower_def rev_map dropWhile_map comp_def)

lemma norm_text_lower [simp]: "norm_text s \<Longrightarrow> norm_text (py_lower s)"
  by (simp add: norm_text_def py_strip_lower) (simp add: py_lower_def)

lemma mk_model_demand_ok: "mk_model_demand r f t e md = Inr m \<Longrightarrow> model_demand_ok m"
  by (auto simp: mk_model_demand_def rbind_eq_Inr runtime_nonblank_Inr nonnegative_Inr
      model_demand_ok_def split: if_splits)

end
