(* ===== verification/Runtime_Lifecycle.thy ===== *)
theory Runtime_Lifecycle
  imports Runtime_Contracts
begin

text \<open>
  \<open>src/src/astrumweaver/runtime/lifecycle.py\<close>: the coordinator that starts, stops, restarts and
  releases one managed runtime. The runtime and the event loop's clock are a world of unspecified
  type with the operations of the \<open>ManagedRuntime\<close> protocol as arguments: an awaited call returns a
  value or raises, and moves the world on. Inside \<open>asyncio.timeout\<close> a call is also told when it is
  cut off. The polling loops are partial functions (\<open>None\<close> is a loop that never ends); under a clock
  that advances while sleeping they are shown to end. Cancelling the caller itself is not modelled.
\<close>

section \<open>The managed runtime and the clock\<close>

text \<open>What an awaited call may raise: an exception of the provider, or the timeout that cut it off.\<close>

datatype call_exc = Provider_Raised py_exc | Cut_Off

record 'w managed_runtime =
  mr_health :: "'w \<Rightarrow> (call_exc + runtime_health) \<times> 'w"
  mr_start :: "'w \<Rightarrow> (call_exc + unit) \<times> 'w"
  mr_stop :: "rat option \<Rightarrow> 'w \<Rightarrow> (call_exc + unit) \<times> 'w"
  mr_release :: "rat option \<Rightarrow> 'w \<Rightarrow> (call_exc + unit) \<times> 'w"
  mr_now :: "'w \<Rightarrow> rat"
  mr_sleep :: "rat \<Rightarrow> 'w \<Rightarrow> 'w"

datatype lifecycle_error =
    Failed_Before_Start | Failed_While_Starting | Not_Ready_In_Time
  | Failed_While_Stopping | Not_Stopped_In_Time | Shutdown_Failed
  | Bad_Timing | Passed_On call_exc

record lifecycle_manager =
  lm_poll_interval_seconds :: rat
  lm_released :: bool

definition mk_lifecycle_manager :: "rat \<Rightarrow> lifecycle_manager res" where
  "mk_lifecycle_manager poll =
     (if poll \<le> 0 then Inl (ValueError (Must_be_positive ''poll_interval_seconds''))
      else Inr \<lparr>lm_poll_interval_seconds = poll, lm_released = False\<rparr>)"

text \<open>Comparisons with a float that may be infinite or not a number.\<close>

definition not_above_zero :: "py_float \<Rightarrow> bool" where
  "not_above_zero t = (case t of Finite q \<Rightarrow> q \<le> 0 | Neg_Inf \<Rightarrow> True | _ \<Rightarrow> False)"

definition deadline_after :: "rat \<Rightarrow> py_float \<Rightarrow> py_float" where
  "deadline_after now t = (case t of Finite q \<Rightarrow> Finite (now + q) | _ \<Rightarrow> t)"

definition reached :: "rat \<Rightarrow> py_float \<Rightarrow> bool" where
  "reached now d = (case d of Finite q \<Rightarrow> q \<le> now | Neg_Inf \<Rightarrow> True | _ \<Rightarrow> False)"

section \<open>Becoming ready\<close>

partial_function (option) wait_ready ::
  "'w managed_runtime \<Rightarrow> rat \<Rightarrow> py_float \<Rightarrow> 'w \<Rightarrow> ((lifecycle_error + runtime_health) \<times> 'w) option" where
  "wait_ready rt poll deadline w = (case mr_health rt w of
     (Inl e, w') \<Rightarrow> Some (Inl (Passed_On e), w')
   | (Inr health, w') \<Rightarrow>
       if rh_ready health then Some (Inr health, w')
       else if rh_state health = RT_FAILED then Some (Inl Failed_While_Starting, w')
       else if reached (mr_now rt w') deadline then Some (Inl Not_Ready_In_Time, w')
       else wait_ready rt poll deadline (mr_sleep rt poll w'))"

text \<open>The flag \<open>_released\<close> is cleared exactly when a ready health is returned.\<close>

definition with_ready :: "lifecycle_manager \<Rightarrow> (lifecycle_error + runtime_health) \<times> 'w
    \<Rightarrow> (lifecycle_error + runtime_health) \<times> lifecycle_manager \<times> 'w" where
  "with_ready m r = (case r of
     (Inl e, w) \<Rightarrow> (Inl e, m, w)
   | (Inr h, w) \<Rightarrow> (Inr h, m\<lparr>lm_released := False\<rparr>, w))"

definition ensure_ready :: "'w managed_runtime \<Rightarrow> py_float \<Rightarrow> lifecycle_manager \<Rightarrow> 'w
    \<Rightarrow> ((lifecycle_error + runtime_health) \<times> lifecycle_manager \<times> 'w) option" where
  "ensure_ready rt timeout m w =
     (if not_above_zero timeout then Some (Inl Bad_Timing, m, w)
      else case mr_health rt w of
        (Inl e, w1) \<Rightarrow> Some (Inl (Passed_On e), m, w1)
      | (Inr health, w1) \<Rightarrow>
          if rh_ready health then Some (Inr health, m\<lparr>lm_released := False\<rparr>, w1)
          else if rh_state health = RT_FAILED then Some (Inl Failed_Before_Start, m, w1)
          else (case (if rh_state health = RT_STOPPED then mr_start rt w1 else (Inr (), w1)) of
              (Inl e, w2) \<Rightarrow> Some (Inl (Passed_On e), m, w2)
            | (Inr _, w2) \<Rightarrow>
                map_option (with_ready m) (wait_ready rt (lm_poll_interval_seconds m)
                  (deadline_after (mr_now rt w2) timeout) w2)))"

section \<open>Stopping and releasing\<close>

partial_function (option) wait_stopped ::
  "'w managed_runtime \<Rightarrow> rat \<Rightarrow> py_float \<Rightarrow> 'w \<Rightarrow> ((lifecycle_error + runtime_health) \<times> 'w) option" where
  "wait_stopped rt poll deadline w = (case mr_health rt w of
     (Inl e, w') \<Rightarrow> Some (Inl (Passed_On e), w')
   | (Inr health, w') \<Rightarrow>
       if rh_state health = RT_STOPPED then Some (Inr health, w')
       else if rh_state health = RT_FAILED then Some (Inl Failed_While_Stopping, w')
       else if reached (mr_now rt w') deadline then Some (Inl Not_Stopped_In_Time, w')
       else wait_stopped rt poll deadline (mr_sleep rt poll w'))"

text \<open>The last part of \<open>ensure_stopped\<close>: release once, when asked to.\<close>

definition release_once :: "'w managed_runtime \<Rightarrow> bool \<Rightarrow> lifecycle_manager
    \<Rightarrow> (lifecycle_error + runtime_health) \<times> 'w
    \<Rightarrow> (lifecycle_error + runtime_health) \<times> lifecycle_manager \<times> 'w" where
  "release_once rt release m r = (case r of
     (Inl e, w) \<Rightarrow> (Inl e, m, w)
   | (Inr health, w) \<Rightarrow>
       if release \<and> \<not> lm_released m
       then (case mr_release rt None w of
           (Inl e, w') \<Rightarrow> (Inl (Passed_On e), m, w')
         | (Inr _, w') \<Rightarrow> (Inr health, m\<lparr>lm_released := True\<rparr>, w'))
       else (Inr health, m, w))"

definition ensure_stopped :: "'w managed_runtime \<Rightarrow> py_float \<Rightarrow> bool \<Rightarrow> lifecycle_manager \<Rightarrow> 'w
    \<Rightarrow> ((lifecycle_error + runtime_health) \<times> lifecycle_manager \<times> 'w) option" where
  "ensure_stopped rt timeout release m w =
     (if not_above_zero timeout then Some (Inl Bad_Timing, m, w)
      else case mr_health rt w of
        (Inl e, w1) \<Rightarrow> Some (Inl (Passed_On e), m, w1)
      | (Inr health, w1) \<Rightarrow>
          if rh_state health = RT_STOPPED then Some (release_once rt release m (Inr health, w1))
          else (case mr_stop rt None w1 of
              (Inl e, w2) \<Rightarrow> Some (Inl (Passed_On e), m, w2)
            | (Inr _, w2) \<Rightarrow>
                map_option (release_once rt release m) (wait_stopped rt (lm_poll_interval_seconds m)
                  (deadline_after (mr_now rt w2) timeout) w2)))"

definition lifecycle_shutdown_owned :: "'w managed_runtime \<Rightarrow> py_float \<Rightarrow> lifecycle_manager \<Rightarrow> 'w
    \<Rightarrow> (lifecycle_error + unit) \<times> lifecycle_manager \<times> 'w" where
  "lifecycle_shutdown_owned rt timeout m w = (case timeout of
     Finite t \<Rightarrow>
       if t \<le> 0 then (Inl Bad_Timing, m, w)
       else if lm_released m then (Inr (), m, w)
       else (let budget = Some (mr_now rt w + t) in
         case mr_stop rt budget w of
           (Inl _, w1) \<Rightarrow> (Inl Shutdown_Failed, m, w1)
         | (Inr _, w1) \<Rightarrow>
             (case mr_release rt budget w1 of
                (Inl _, w2) \<Rightarrow> (Inl Shutdown_Failed, m, w2)
              | (Inr _, w2) \<Rightarrow> (Inr (), m\<lparr>lm_released := True\<rparr>, w2)))
   | _ \<Rightarrow> (Inl Bad_Timing, m, w))"

definition lifecycle_restart :: "'w managed_runtime \<Rightarrow> py_float \<Rightarrow> lifecycle_manager \<Rightarrow> 'w
    \<Rightarrow> ((lifecycle_error + runtime_health) \<times> lifecycle_manager \<times> 'w) option" where
  "lifecycle_restart rt timeout m w = (case ensure_stopped rt timeout False m w of
     None \<Rightarrow> None
   | Some (Inl e, m1, w1) \<Rightarrow> Some (Inl e, m1, w1)
   | Some (Inr _, m1, w1) \<Rightarrow> ensure_ready rt timeout m1 w1)"

section \<open>The polling loops end\<close>

text \<open>
  What the code relies on: the loop's clock never goes back over a call of the runtime, and
  sleeping for a time takes at least that time.
\<close>

definition clock_advances :: "'w managed_runtime \<Rightarrow> bool" where
  "clock_advances rt \<longleftrightarrow> (\<forall>w. mr_now rt w \<le> mr_now rt (snd (mr_health rt w)) \<and>
       mr_now rt w \<le> mr_now rt (snd (mr_start rt w)) \<and>
       mr_now rt w \<le> mr_now rt (snd (mr_stop rt None w)) \<and>
       mr_now rt w \<le> mr_now rt (snd (mr_release rt None w))) \<and>
     (\<forall>d w. mr_now rt w + d \<le> mr_now rt (mr_sleep rt d w))"

lemma clock_health: "clock_advances rt \<Longrightarrow> mr_health rt w = (r, w') \<Longrightarrow> mr_now rt w \<le> mr_now rt w'"
  unfolding clock_advances_def by (metis snd_conv)

lemma clock_start: "clock_advances rt \<Longrightarrow> mr_start rt w = (r, w') \<Longrightarrow> mr_now rt w \<le> mr_now rt w'"
  unfolding clock_advances_def by (metis snd_conv)

lemma clock_stop: "clock_advances rt \<Longrightarrow> mr_stop rt None w = (r, w') \<Longrightarrow> mr_now rt w \<le> mr_now rt w'"
  unfolding clock_advances_def by (metis snd_conv)

lemma clock_release: "clock_advances rt \<Longrightarrow> mr_release rt None w = (r, w') \<Longrightarrow> mr_now rt w \<le> mr_now rt w'"
  unfolding clock_advances_def by (metis snd_conv)

lemma clock_sleep: "clock_advances rt \<Longrightarrow> mr_now rt w + d \<le> mr_now rt (mr_sleep rt d w)"
  unfolding clock_advances_def by blast

text \<open>The number of polls left before the deadline: the measure of both loops.\<close>

definition polls_left :: "'w managed_runtime \<Rightarrow> rat \<Rightarrow> rat \<Rightarrow> 'w \<Rightarrow> nat" where
  "polls_left rt poll deadline w = nat \<lceil>(deadline - mr_now rt w) / poll\<rceil>"

lemma polls_left_decreases:
  assumes clock: "clock_advances rt" and poll: "0 < poll"
    and health: "mr_health rt w = (r, w')" and before: "mr_now rt w' < deadline"
  shows "polls_left rt poll deadline (mr_sleep rt poll w') < polls_left rt poll deadline w"
proof -
  let ?x = "(deadline - mr_now rt w') / poll"
  have "(deadline - mr_now rt (mr_sleep rt poll w')) / poll \<le> (deadline - mr_now rt w' - poll) / poll"
    using clock_sleep [OF clock, of w' poll] poll by (intro divide_right_mono) auto
  then have "(deadline - mr_now rt (mr_sleep rt poll w')) / poll \<le> ?x - 1"
    using poll by (simp add: diff_divide_distrib)
  then have "\<lceil>(deadline - mr_now rt (mr_sleep rt poll w')) / poll\<rceil> \<le> \<lceil>?x\<rceil> - 1"
    by (metis ceiling_diff_one ceiling_mono)
  moreover have "0 < \<lceil>?x\<rceil>" using before poll by simp
  moreover have "\<lceil>?x\<rceil> \<le> \<lceil>(deadline - mr_now rt w) / poll\<rceil>"
    using clock_health [OF clock health] poll by (intro ceiling_mono divide_right_mono) auto
  ultimately show ?thesis unfolding polls_left_def by linarith
qed

lemma wait_ready_ends:
  assumes "clock_advances rt" "0 < poll"
  shows "\<exists>r w'. wait_ready rt poll (Finite d) w = Some (r, w') \<and> mr_now rt w \<le> mr_now rt w' \<and>
    (case r of Inr h \<Rightarrow> rh_ready h | Inl Not_Ready_In_Time \<Rightarrow> d \<le> mr_now rt w' | _ \<Rightarrow> True)"
proof (induction "polls_left rt poll d w" arbitrary: w rule: less_induct)
  case less
  obtain r w1 where h: "mr_health rt w = (r, w1)" by fastforce
  note mono = clock_health [OF assms(1) h]
  show ?case
  proof (cases "\<exists>h. r = Inr h \<and> \<not> rh_ready h \<and> rh_state h \<noteq> RT_FAILED \<and> mr_now rt w1 < d")
    case False
    then show ?thesis
      using h mono by (subst wait_ready.simps) (auto simp: reached_def split: sum.splits)
  next
    case True
    let ?w = "mr_sleep rt poll w1"
    from True have less: "polls_left rt poll d ?w < polls_left rt poll d w"
      using polls_left_decreases [OF assms h] by auto
    have "mr_now rt w \<le> mr_now rt ?w"
      using mono clock_sleep [OF assms(1), of w1 poll] assms(2) by linarith
    with less.hyps [OF less] True h show ?thesis
      by (subst wait_ready.simps) (auto simp: reached_def)
  qed
qed

lemma wait_stopped_ends:
  assumes "clock_advances rt" "0 < poll"
  shows "\<exists>r w'. wait_stopped rt poll (Finite d) w = Some (r, w') \<and> mr_now rt w \<le> mr_now rt w' \<and>
    (case r of Inr h \<Rightarrow> rh_state h = RT_STOPPED | Inl Not_Stopped_In_Time \<Rightarrow> d \<le> mr_now rt w' | _ \<Rightarrow> True)"
proof (induction "polls_left rt poll d w" arbitrary: w rule: less_induct)
  case less
  obtain r w1 where h: "mr_health rt w = (r, w1)" by fastforce
  note mono = clock_health [OF assms(1) h]
  show ?case
  proof (cases "\<exists>h. r = Inr h \<and> rh_state h \<noteq> RT_STOPPED \<and> rh_state h \<noteq> RT_FAILED \<and> mr_now rt w1 < d")
    case False
    then show ?thesis
      using h mono by (subst wait_stopped.simps) (auto simp: reached_def split: sum.splits)
  next
    case True
    let ?w = "mr_sleep rt poll w1"
    from True have less: "polls_left rt poll d ?w < polls_left rt poll d w"
      using polls_left_decreases [OF assms h] by auto
    have "mr_now rt w \<le> mr_now rt ?w"
      using mono clock_sleep [OF assms(1), of w1 poll] assms(2) by linarith
    with less.hyps [OF less] True h show ?thesis
      by (subst wait_stopped.simps) (auto simp: reached_def)
  qed
qed

text \<open>What the two awaiting operations promise, as the outcome with the manager and world after.\<close>

definition ready_outcome :: "'w managed_runtime \<Rightarrow> rat \<Rightarrow> lifecycle_manager \<Rightarrow> 'w
    \<Rightarrow> (lifecycle_error + runtime_health) \<times> lifecycle_manager \<times> 'w \<Rightarrow> bool" where
  "ready_outcome rt t m w out = (case out of (r, m', w') \<Rightarrow>
     (case r of
        Inr h \<Rightarrow> rh_ready h \<and> m' = m\<lparr>lm_released := False\<rparr>
      | Inl e \<Rightarrow> m' = m \<and> (e = Not_Ready_In_Time \<longrightarrow> mr_now rt w + t \<le> mr_now rt w')))"

definition stopped_outcome :: "'w managed_runtime \<Rightarrow> rat \<Rightarrow> bool \<Rightarrow> lifecycle_manager \<Rightarrow> 'w
    \<Rightarrow> (lifecycle_error + runtime_health) \<times> lifecycle_manager \<times> 'w \<Rightarrow> bool" where
  "stopped_outcome rt t release m w out = (case out of (r, m', w') \<Rightarrow>
     (case r of
        Inr h \<Rightarrow> rh_state h = RT_STOPPED \<and> m' = m\<lparr>lm_released := release \<or> lm_released m\<rparr>
      | Inl e \<Rightarrow> m' = m \<and> (e = Not_Stopped_In_Time \<longrightarrow> mr_now rt w + t \<le> mr_now rt w')))"

lemma ensure_ready_ends:
  assumes clock: "clock_advances rt" and poll: "0 < lm_poll_interval_seconds m" and t: "0 < t"
  shows "\<exists>out. ensure_ready rt (Finite t) m w = Some out \<and> ready_outcome rt t m w out"
proof -
  obtain r w1 where h: "mr_health rt w = (r, w1)" by fastforce
  note w1 = clock_health [OF clock h]
  show ?thesis
  proof (cases "\<exists>h. r = Inr h \<and> \<not> rh_ready h \<and> rh_state h \<noteq> RT_FAILED")
    case False
    with h t show ?thesis
      by (auto simp: ensure_ready_def not_above_zero_def ready_outcome_def split: sum.splits)
  next
    case True
    then obtain h' where r: "r = Inr h'" "\<not> rh_ready h'" "rh_state h' \<noteq> RT_FAILED" by blast
    obtain s w2 where s: "(if rh_state h' = RT_STOPPED then mr_start rt w1 else (Inr (), w1)) = (s, w2)"
      by fastforce
    then have w2: "mr_now rt w1 \<le> mr_now rt w2" using clock_start [OF clock] by (auto split: if_splits)
    obtain q w3 where q: "wait_ready rt (lm_poll_interval_seconds m) (Finite (mr_now rt w2 + t)) w2 = Some (q, w3)"
      and out: "case q of Inr h \<Rightarrow> rh_ready h | Inl Not_Ready_In_Time \<Rightarrow> mr_now rt w2 + t \<le> mr_now rt w3 | _ \<Rightarrow> True"
      using wait_ready_ends [OF clock poll] by blast
    have "ready_outcome rt t m w (with_ready m (q, w3))"
      using out w1 w2 by (auto simp: ready_outcome_def with_ready_def split: sum.splits)
    with r s q h t show ?thesis
      by (cases s) (simp_all add: ensure_ready_def not_above_zero_def deadline_after_def ready_outcome_def)
  qed
qed

lemma release_once_outcome:
  assumes "case q of Inr h \<Rightarrow> rh_state h = RT_STOPPED | Inl e \<Rightarrow> e \<noteq> Not_Stopped_In_Time \<or> mr_now rt w + t \<le> mr_now rt w'"
  shows "stopped_outcome rt t release m w (release_once rt release m (q, w'))"
  using assms
  by (cases "mr_release rt None w'"; cases m)
    (auto simp: stopped_outcome_def release_once_def split: sum.splits)

lemma ensure_stopped_ends:
  assumes clock: "clock_advances rt" and poll: "0 < lm_poll_interval_seconds m" and t: "0 < t"
  shows "\<exists>out. ensure_stopped rt (Finite t) release m w = Some out \<and> stopped_outcome rt t release m w out"
proof -
  obtain r w1 where h: "mr_health rt w = (r, w1)" by fastforce
  note w1 = clock_health [OF clock h]
  show ?thesis
  proof (cases "\<exists>h. r = Inr h \<and> rh_state h \<noteq> RT_STOPPED")
    case False
    then show ?thesis
      using h t release_once_outcome [where q = "Inr (projr r)" and w' = w1 and w = w]
      by (cases r) (auto simp: ensure_stopped_def not_above_zero_def stopped_outcome_def)
  next
    case True
    then obtain h' where r: "r = Inr h'" "rh_state h' \<noteq> RT_STOPPED" by blast
    obtain s w2 where s: "mr_stop rt None w1 = (s, w2)" by fastforce
    note w2 = clock_stop [OF clock s]
    obtain q w3 where q: "wait_stopped rt (lm_poll_interval_seconds m) (Finite (mr_now rt w2 + t)) w2 = Some (q, w3)"
      and out: "case q of Inr h \<Rightarrow> rh_state h = RT_STOPPED
        | Inl Not_Stopped_In_Time \<Rightarrow> mr_now rt w2 + t \<le> mr_now rt w3 | _ \<Rightarrow> True"
      using wait_stopped_ends [OF clock poll] by blast
    have "stopped_outcome rt t release m w (release_once rt release m (q, w3))"
      using out w1 w2 by (intro release_once_outcome) (auto split: sum.splits)
    with r s q h t show ?thesis
      by (cases s) (simp_all add: ensure_stopped_def not_above_zero_def deadline_after_def stopped_outcome_def)
  qed
qed

section \<open>Properties\<close>

text \<open>
  C21. Starting, stopping and restarting always return. Under a clock that advances, with a positive
  poll interval and timeout, each of the three gives an outcome: a ready runtime (the release flag
  cleared), a stopped one (released when asked to), or an error that leaves the flag as it was; the
  timeout errors are raised no earlier than the timeout after the call.
\<close>

theorem lifecycle_returns:
  assumes "clock_advances rt" "0 < lm_poll_interval_seconds m" "0 < t"
  shows "(\<exists>out. ensure_ready rt (Finite t) m w = Some out \<and> ready_outcome rt t m w out) \<and>
    (\<exists>out. ensure_stopped rt (Finite t) release m w = Some out \<and> stopped_outcome rt t release m w out) \<and>
    (\<exists>r m' w'. lifecycle_restart rt (Finite t) m w = Some (r, m', w') \<and>
      (\<forall>h. r = Inr h \<longrightarrow> rh_ready h \<and> \<not> lm_released m'))"
proof -
  obtain q m1 w1 where q: "ensure_stopped rt (Finite t) False m w = Some (q, m1, w1)"
    and out: "stopped_outcome rt t False m w (q, m1, w1)"
    using ensure_stopped_ends [OF assms] by (metis prod_cases3)
  have "0 < lm_poll_interval_seconds m1"
    using out assms(2) by (cases m) (auto simp: stopped_outcome_def split: sum.splits)
  then obtain r m2 w2 where "ensure_ready rt (Finite t) m1 w1 = Some (r, m2, w2)"
    "ready_outcome rt t m1 w1 (r, m2, w2)"
    using ensure_ready_ends [OF assms(1) _ assms(3)] by (metis prod_cases3)
  with q have "\<exists>r m' w'. lifecycle_restart rt (Finite t) m w = Some (r, m', w') \<and>
      (\<forall>h. r = Inr h \<longrightarrow> rh_ready h \<and> \<not> lm_released m')"
    by (cases q) (auto simp: lifecycle_restart_def ready_outcome_def)
  with ensure_ready_ends [OF assms] ensure_stopped_ends [OF assms] show ?thesis by blast
qed

text \<open>
  Shutting down the owned runtime succeeds exactly when it was released before or both the
  stop and then the release within the budget return normally, and exactly then it counts as
  released; a failed shutdown can be tried again, a second one after success does nothing, and the
  health of the runtime is never consulted.
\<close>

theorem shutdown_owned_exact:
  assumes "0 < t" "lifecycle_shutdown_owned rt (Finite t) m w = (r, m', w')"
  shows "(r = Inr () \<longleftrightarrow> lm_released m \<or>
      (\<exists>w1. mr_stop rt (Some (mr_now rt w + t)) w = (Inr (), w1) \<and>
        mr_release rt (Some (mr_now rt w + t)) w1 = (Inr (), w')))
    \<and> (lm_released m' \<longleftrightarrow> r = Inr ())
    \<and> (r \<noteq> Inr () \<longrightarrow> m' = m \<and> r = Inl Shutdown_Failed)
    \<and> (r = Inr () \<and> 0 < t' \<longrightarrow> lifecycle_shutdown_owned rt' (Finite t') m' w'' = (Inr (), m', w''))
    \<and> lifecycle_shutdown_owned (rt\<lparr>mr_health := probe\<rparr>) (Finite t) m w = (r, m', w')"
  using assms
  by (auto simp: lifecycle_shutdown_owned_def Let_def split: if_splits prod.splits sum.splits)

section \<open>Witnesses\<close>

text \<open>A scripted runtime: the time and the states its next probes report; the last one stays.\<close>

type_synonym ex_world = "rat \<times> runtime_health_state list"

definition ex_health :: "runtime_health_state \<Rightarrow> runtime_health" where
  "ex_health s = \<lparr>rh_state = s, rh_ready = (s = RT_READY), rh_detail = None, rh_metadata = []\<rparr>"

fun ex_probe :: "ex_world \<Rightarrow> (call_exc + runtime_health) \<times> ex_world" where
  "ex_probe (now, []) = (Inl Cut_Off, now, [])"
| "ex_probe (now, [s]) = (Inr (ex_health s), now + 1 / 10, [s])"
| "ex_probe (now, s # ss) = (Inr (ex_health s), now + 1 / 10, ss)"

definition ex_runtime :: "ex_world managed_runtime" where
  "ex_runtime = \<lparr>mr_health = ex_probe,
     mr_start = (\<lambda>(now, ss). (Inr (), now + 1, ss)),
     mr_stop = (\<lambda>_ (now, ss). (Inr (), now + 1, ss)),
     mr_release = (\<lambda>_ (now, ss). (Inr (), now + 1, ss)),
     mr_now = fst, mr_sleep = (\<lambda>d (now, ss). (now + d, ss))\<rparr>"

definition ex_manager :: lifecycle_manager where
  "ex_manager = \<lparr>lm_poll_interval_seconds = 1 / 4, lm_released = False\<rparr>"

lemma ex_clock: "clock_advances ex_runtime"
proof -
  have "fst w \<le> fst (snd (ex_probe w))" for w by (cases w rule: ex_probe.cases) simp_all
  then show ?thesis by (auto simp: clock_advances_def ex_runtime_def)
qed

theorem lifecycle_returns_witness:
  "ensure_ready ex_runtime (Finite 60) ex_manager (0, [RT_STOPPED, RT_STARTING, RT_READY]) =
      Some (Inr (ex_health RT_READY), ex_manager, (31 / 20, [RT_READY])) \<and>
   (\<exists>r m' w'. lifecycle_restart ex_runtime (Finite 60) ex_manager (0, [RT_READY, RT_STOPPED]) = Some (r, m', w'))"
proof -
  let ?w = "(0, [RT_STOPPED, RT_STARTING, RT_READY]) :: ex_world"
  have "ensure_ready ex_runtime (Finite 60) ex_manager ?w =
      Some (Inr (ex_health RT_READY), ex_manager, (31 / 20, [RT_READY]))"
    by (simp add: ensure_ready_def ex_runtime_def ex_manager_def not_above_zero_def deadline_after_def
        wait_ready.simps reached_def ex_health_def with_ready_def)
  moreover have "\<exists>r m' w'. lifecycle_restart ex_runtime (Finite 60) ex_manager (0, [RT_READY, RT_STOPPED]) = Some (r, m', w')"
    using lifecycle_returns [OF ex_clock, of ex_manager 60 "(0, [RT_READY, RT_STOPPED])" True]
    by (auto simp: ex_manager_def)
  ultimately show ?thesis by blast
qed

theorem shutdown_owned_exact_witness:
  "lifecycle_shutdown_owned ex_runtime (Finite 60) ex_manager (0, []) =
     (Inr (), ex_manager\<lparr>lm_released := True\<rparr>, (2, [])) \<and>
   lifecycle_shutdown_owned ex_runtime (Finite 5) (ex_manager\<lparr>lm_released := True\<rparr>) (7, []) =
     (Inr (), ex_manager\<lparr>lm_released := True\<rparr>, (7, []))"
proof -
  have first: "lifecycle_shutdown_owned ex_runtime (Finite 60) ex_manager (0, []) =
      (Inr (), ex_manager\<lparr>lm_released := True\<rparr>, (2, []))"
    by (simp add: lifecycle_shutdown_owned_def ex_runtime_def ex_manager_def)
  with shutdown_owned_exact [OF _ first, of 5 ex_runtime "(7, [])" ex_probe] show ?thesis by simp
qed

end
