(* ===== verification/Supervision.thy ===== *)
theory Supervision
  imports Runtime_Lifecycle
begin

text \<open>
  \<open>src/src/astrumweaver/worker/supervision.py\<close>: the health authority of one owned runtime. The
  coroutine \<open>check\<close> gives up control while it waits for the probe, so it is two operations: entering
  it (up to the call of \<open>health\<close>, with the probe lock taken) and leaving it with what the probe
  brought. Monitor, worker and shutdown interleave at these points: a run of the supervisor is any
  sequence of the events below, each with the monotonic time at which its code runs. Within one
  event the clock is read once. The theorems are the promises of the class: a failure is latched,
  and availability always rests on a recent successful probe.
\<close>

section \<open>State and construction\<close>

text \<open>
  \<open>sv_valid_until\<close> is 0 when there is no health lease, as in the source; \<open>sv_probe\<close> is the start
  time of the probe that holds the probe lock.
\<close>

record supervisor =
  sv_interval_seconds :: rat
  sv_timeout_seconds :: rat
  sv_shutdown_timeout_seconds :: rat
  sv_initialized :: bool
  sv_failed :: bool
  sv_valid_until :: rat
  sv_reason :: "string option"
  sv_probe :: "rat option"
  sv_task :: bool
  sv_closed :: bool

definition timing_ok :: "py_float \<Rightarrow> bool" where
  "timing_ok t = (case t of Finite q \<Rightarrow> 0 < q | _ \<Rightarrow> False)"

fun finite_value :: "py_float \<Rightarrow> rat" where
  "finite_value (Finite q) = q"
| "finite_value _ = 0"

text \<open>\<open>same\<close>: a lifecycle manager passed in manages the same runtime.\<close>

definition mk_supervisor :: "py_float \<Rightarrow> py_float \<Rightarrow> py_float \<Rightarrow> bool \<Rightarrow> supervisor res" where
  "mk_supervisor interval timeout shutdown_timeout same =
     (if \<not> list_all timing_ok [interval, timeout, shutdown_timeout]
      then Inl (ValueError (Must_be_positive ''runtime health timings''))
      else if \<not> same then Inl (ValueError (Inconsistent ''lifecycle''))
      else Inr \<lparr>sv_interval_seconds = finite_value interval, sv_timeout_seconds = finite_value timeout,
                sv_shutdown_timeout_seconds = finite_value shutdown_timeout,
                sv_initialized = False, sv_failed = False, sv_valid_until = 0, sv_reason = None,
                sv_probe = None, sv_task = False, sv_closed = False\<rparr>)"

section \<open>Operations\<close>

definition sup_fail :: "string \<Rightarrow> supervisor \<Rightarrow> supervisor" where
  "sup_fail reason s =
     (if sv_failed s \<or> sv_closed s then s
      else s\<lparr>sv_valid_until := 0, sv_reason := Some reason, sv_failed := True\<rparr>)"

text \<open>The property \<open>available\<close>: reading it after the lease has ended is itself a failure.\<close>

definition sup_expire :: "rat \<Rightarrow> supervisor \<Rightarrow> supervisor" where
  "sup_expire now s =
     (if sv_valid_until s \<noteq> 0 \<and> sv_valid_until s \<le> now then sup_fail ''health_stale'' s else s)"

definition sup_available :: "rat \<Rightarrow> supervisor \<Rightarrow> bool \<times> supervisor" where
  "sup_available now s = (let s' = sup_expire now s in
     (\<not> sv_closed s' \<and> \<not> sv_failed s' \<and> sv_valid_until s' \<noteq> 0, s'))"

definition sup_state :: "rat \<Rightarrow> supervisor \<Rightarrow> string \<times> supervisor" where
  "sup_state now s =
     (if sv_closed s then (''stopped'', s)
      else case sup_available now s of (up, s') \<Rightarrow>
        (if up then ''ready'' else if sv_failed s' then ''failed'' else ''starting'', s'))"

text \<open>Entering \<open>check\<close> with the lock: \<open>Some False\<close> is an early return, \<open>None\<close> a probe under way.\<close>

definition check_enter :: "rat \<Rightarrow> supervisor \<Rightarrow> bool option \<times> supervisor" where
  "check_enter now s =
     (if sv_closed s \<or> sv_failed s then (Some False, s)
      else if sv_valid_until s \<noteq> 0 \<and> \<not> fst (sup_available now s)
      then (Some False, snd (sup_available now s))
      else (None, (if sv_valid_until s \<noteq> 0 then snd (sup_available now s) else s)\<lparr>sv_probe := Some now\<rparr>))"

text \<open>
  What a probe brings: a value (\<open>None\<close> when it is no \<open>RuntimeHealth\<close>), the end of the budget, or
  an exception.
\<close>

datatype probe_outcome = Probe_Value "runtime_health option" | Probe_Timeout | Probe_Exception

definition probe_verdict :: "rat \<Rightarrow> rat \<Rightarrow> runtime_health option \<Rightarrow> supervisor \<Rightarrow> supervisor" where
  "probe_verdict now started health s =
     (if sv_timeout_seconds s \<le> now - started then sup_fail ''health_timeout'' s
      else case health of
        None \<Rightarrow> sup_fail ''health_invalid'' s
      | Some h \<Rightarrow>
          if rh_state h \<noteq> RT_READY \<or> \<not> rh_ready h then sup_fail ''health_not_ready'' s
          else s\<lparr>sv_valid_until := started + sv_interval_seconds s + sv_timeout_seconds s\<rparr>)"

definition check_leave :: "rat \<Rightarrow> rat \<Rightarrow> probe_outcome \<Rightarrow> supervisor \<Rightarrow> bool \<times> supervisor" where
  "check_leave now started outcome s0 = (let s = s0\<lparr>sv_probe := None\<rparr> in
     case outcome of
       Probe_Timeout \<Rightarrow> sup_available now (sup_fail ''health_timeout'' s)
     | Probe_Exception \<Rightarrow> sup_available now (sup_fail ''health_exception'' s)
     | Probe_Value health \<Rightarrow>
         if sv_closed s \<or> sv_failed s then (False, s)
         else if sv_valid_until s \<noteq> 0 \<and> \<not> fst (sup_available now s)
         then (False, snd (sup_available now s))
         else sup_available now (probe_verdict now started health
           (if sv_valid_until s \<noteq> 0 then snd (sup_available now s) else s)))"

text \<open>A \<open>check\<close> whose budget ends while it waits for the lock.\<close>

definition check_lock_timeout :: "rat \<Rightarrow> supervisor \<Rightarrow> bool \<times> supervisor" where
  "check_lock_timeout now s = sup_available now (sup_fail ''health_timeout'' s)"

definition sup_start :: "supervisor \<Rightarrow> py_exc + supervisor" where
  "sup_start s = (if sv_closed s \<or> sv_task s then Inl (RuntimeError (Inconsistent ''single-use''))
     else Inr (s\<lparr>sv_task := True\<rparr>))"

text \<open>The monitor after each of its checks, and its \<open>finally\<close> when the loop or its task ends.\<close>

definition run_checked :: "supervisor \<Rightarrow> supervisor" where
  "run_checked s = s\<lparr>sv_initialized := True\<rparr>"

definition run_ended :: "supervisor \<Rightarrow> supervisor" where
  "run_ended s = (if sv_closed s then s else sup_fail ''monitor_stopped'' s)\<lparr>sv_initialized := True\<rparr>"

definition sup_close :: "supervisor \<Rightarrow> supervisor" where
  "sup_close s = s\<lparr>sv_closed := True, sv_valid_until := 0\<rparr>"

definition sup_shutdown_owned :: "'w managed_runtime \<Rightarrow> supervisor \<Rightarrow> lifecycle_manager \<Rightarrow> 'w
    \<Rightarrow> (lifecycle_error + unit) \<times> lifecycle_manager \<times> 'w" where
  "sup_shutdown_owned rt s m w =
     lifecycle_shutdown_owned rt (Finite (sv_shutdown_timeout_seconds s)) m w"

section \<open>Runs\<close>

datatype sup_event =
    Read_Available rat
  | Check_Enter rat
  | Check_Leave rat probe_outcome
  | Check_Lock_Timeout rat
  | Sup_Start
  | Run_Checked
  | Run_Ended
  | Sup_Close

text \<open>
  The probe lock: a second \<open>check\<close> cannot enter while a probe is under way, and only a probe that
  is under way can be left.
\<close>

fun sup_step :: "supervisor \<Rightarrow> sup_event \<Rightarrow> supervisor" where
  "sup_step s (Read_Available now) = snd (sup_available now s)"
| "sup_step s (Check_Enter now) = (if sv_probe s = None then snd (check_enter now s) else s)"
| "sup_step s (Check_Leave now out) = (case sv_probe s of None \<Rightarrow> s
     | Some started \<Rightarrow> snd (check_leave now started out s))"
| "sup_step s (Check_Lock_Timeout now) = snd (check_lock_timeout now s)"
| "sup_step s Sup_Start = (case sup_start s of Inl _ \<Rightarrow> s | Inr s' \<Rightarrow> s')"
| "sup_step s Run_Checked = run_checked s"
| "sup_step s Run_Ended = run_ended s"
| "sup_step s Sup_Close = sup_close s"

section \<open>Latching\<close>

text \<open>Down for good: failed or closed, with no health lease left.\<close>

definition sup_down :: "supervisor \<Rightarrow> bool" where
  "sup_down s \<longleftrightarrow> (sv_failed s \<or> sv_closed s) \<and> sv_valid_until s = 0"

lemmas sup_defs = sup_fail_def sup_expire_def sup_available_def check_enter_def probe_verdict_def
  check_leave_def check_lock_timeout_def run_checked_def run_ended_def sup_close_def Let_def

lemma sup_fail_down [simp]: "sup_down s \<Longrightarrow> sup_fail r s = s"
  by (auto simp: sup_fail_def sup_down_def)

lemma sup_available_down [simp]: "sup_down s \<Longrightarrow> sup_available now s = (False, s)"
  by (auto simp: sup_available_def sup_expire_def sup_down_def)

lemma sup_down_update [simp]:
  "sup_down (s\<lparr>sv_probe := p\<rparr>) = sup_down s"
  "sup_down (s\<lparr>sv_initialized := b\<rparr>) = sup_down s"
  "sup_down (s\<lparr>sv_task := b\<rparr>) = sup_down s"
  by (simp_all add: sup_down_def)

lemma sup_close_down [simp]: "sup_down (sup_close s)"
  by (simp add: sup_close_def sup_down_def)

lemma check_leave_down [simp]:
  assumes "sup_down s"
  shows "check_leave now started out s = (False, s\<lparr>sv_probe := None\<rparr>)"
proof -
  have "sv_closed s \<or> sv_failed s" using assms by (auto simp: sup_down_def)
  with assms show ?thesis by (cases out) (auto simp: check_leave_def Let_def)
qed

lemma sup_step_down: "sup_down s \<Longrightarrow> sup_down (sup_step s e)"
proof (cases e)
  case (Check_Enter now)
  assume d: "sup_down s"
  then have "sv_closed s \<or> sv_failed s" by (auto simp: sup_down_def)
  with d Check_Enter show ?thesis by (simp add: check_enter_def)
qed (auto simp: check_lock_timeout_def sup_start_def run_checked_def run_ended_def
    split: option.splits if_splits sum.splits)

interpretation down: transition_system sup_step "\<lambda>_ _. True" sup_down
  by unfold_locales (rule sup_step_down)

lemma admissible_True [simp]: "admissible (\<lambda>_ _. True) step s xs"
  by (induction xs arbitrary: s) auto

text \<open>A failed or closed supervisor never keeps a lease.\<close>

definition sup_inv :: "supervisor \<Rightarrow> bool" where
  "sup_inv s \<longleftrightarrow> (sv_failed s \<or> sv_closed s \<longrightarrow> sv_valid_until s = 0) \<and>
     (sv_failed s \<longrightarrow> sv_reason s \<noteq> None)"

lemma sup_fail_inv [simp]: "sup_inv s \<Longrightarrow> sup_inv (sup_fail r s)"
  by (auto simp: sup_inv_def sup_fail_def)

lemma sup_expire_inv [simp]: "sup_inv s \<Longrightarrow> sup_inv (sup_expire now s)"
  by (simp add: sup_expire_def)

lemma sup_available_inv [simp]: "sup_inv s \<Longrightarrow> sup_inv (snd (sup_available now s))"
  by (simp add: sup_available_def Let_def)

lemma sup_inv_update [simp]:
  "sup_inv (s\<lparr>sv_probe := p\<rparr>) = sup_inv s"
  "sup_inv (s\<lparr>sv_initialized := b\<rparr>) = sup_inv s"
  "sup_inv (s\<lparr>sv_task := b\<rparr>) = sup_inv s"
  by (simp_all add: sup_inv_def)

lemma probe_verdict_inv:
  "sup_inv s \<Longrightarrow> \<not> sv_failed s \<Longrightarrow> \<not> sv_closed s \<Longrightarrow> sup_inv (probe_verdict now st h s)"
  by (auto simp: probe_verdict_def sup_inv_def sup_fail_def split: option.splits)

lemma sup_available_up:
  "fst (sup_available now s) \<Longrightarrow> snd (sup_available now s) = s \<and> \<not> sv_failed s \<and> \<not> sv_closed s \<and>
     sv_valid_until s \<noteq> 0 \<and> now < sv_valid_until s"
  by (auto simp: sup_available_def sup_expire_def sup_fail_def Let_def split: if_splits)

lemma check_leave_inv: "sup_inv s \<Longrightarrow> sup_inv (snd (check_leave now st out s))"
proof (cases out)
  case (Probe_Value h)
  assume inv: "sup_inv s"
  let ?s = "s\<lparr>sv_probe := None\<rparr>"
  show ?thesis
  proof (cases "sv_closed s \<or> sv_failed s")
    case True
    with inv Probe_Value show ?thesis by (simp add: check_leave_def Let_def)
  next
    case False
    then have "sup_inv (probe_verdict now st h ?s)"
      using inv by (intro probe_verdict_inv) simp_all
    with inv Probe_Value False show ?thesis
      by (auto simp: check_leave_def Let_def dest: sup_available_up)
  qed
qed (simp_all add: check_leave_def Let_def)

lemma sup_step_inv: "sup_inv s \<Longrightarrow> sup_inv (sup_step s e)"
proof (cases e)
  case (Check_Leave now out)
  assume "sup_inv s"
  with Check_Leave show ?thesis by (auto split: option.splits intro: check_leave_inv)
qed (auto simp: check_enter_def check_lock_timeout_def sup_start_def run_checked_def run_ended_def
    sup_close_def split: option.splits if_splits sum.splits, auto simp: sup_inv_def)

interpretation sup: transition_system sup_step "\<lambda>_ _. True" sup_inv
  by unfold_locales (rule sup_step_inv)

lemma mk_supervisor_inv: "mk_supervisor i t sh same = Inr s \<Longrightarrow> sup_inv s"
  by (auto simp: mk_supervisor_def sup_inv_def split: if_splits)

section \<open>Freshness\<close>

text \<open>The start times of the probes that came back ready within the budget, along a run.\<close>

fun ready_start :: "supervisor \<Rightarrow> sup_event \<Rightarrow> rat list" where
  "ready_start s (Check_Leave now (Probe_Value (Some h))) = (case sv_probe s of
     None \<Rightarrow> []
   | Some st \<Rightarrow> if rh_state h = RT_READY \<and> rh_ready h \<and> now - st < sv_timeout_seconds s then [st] else [])"
| "ready_start s _ = []"

primrec ready_starts :: "supervisor \<Rightarrow> sup_event list \<Rightarrow> rat list" where
  "ready_starts s [] = []"
| "ready_starts s (e # es) = ready_start s e @ ready_starts (sup_step s e) es"

definition lease_end :: "supervisor \<Rightarrow> rat \<Rightarrow> rat" where
  "lease_end s started = started + sv_interval_seconds s + sv_timeout_seconds s"

lemma sup_fail_fields:
  "sv_interval_seconds (sup_fail r s) = sv_interval_seconds s"
  "sv_timeout_seconds (sup_fail r s) = sv_timeout_seconds s"
  "sv_valid_until (sup_fail r s) \<in> {0, sv_valid_until s}"
  by (simp_all add: sup_fail_def)

lemma sup_available_fields:
  "sv_interval_seconds (snd (sup_available now s)) = sv_interval_seconds s"
  "sv_timeout_seconds (snd (sup_available now s)) = sv_timeout_seconds s"
  "sv_valid_until (snd (sup_available now s)) \<in> {0, sv_valid_until s}"
  by (simp_all add: sup_available_def sup_expire_def sup_fail_def Let_def)

declare sup_fail_fields(1,2) [simp] sup_available_fields(1,2) [simp]

lemma probe_verdict_fields [simp]:
  "sv_interval_seconds (probe_verdict now st h s) = sv_interval_seconds s"
  "sv_timeout_seconds (probe_verdict now st h s) = sv_timeout_seconds s"
  by (simp_all add: probe_verdict_def split: option.splits)

lemma probe_verdict_lease:
  "sv_valid_until (probe_verdict now st h s) \<in> {0, sv_valid_until s} \<or>
   sv_valid_until (probe_verdict now st h s) = lease_end s st \<and> now - st < sv_timeout_seconds s \<and>
     (\<exists>x. h = Some x \<and> rh_state x = RT_READY \<and> rh_ready x)"
  using sup_fail_fields(3) [of _ s]
  by (auto simp: probe_verdict_def lease_end_def split: option.splits)

lemma sup_step_timings [simp]:
  "sv_interval_seconds (sup_step s e) = sv_interval_seconds s"
  "sv_timeout_seconds (sup_step s e) = sv_timeout_seconds s"
  by (cases e; auto simp: check_enter_def check_leave_def check_lock_timeout_def sup_start_def
      run_checked_def run_ended_def sup_close_def Let_def split: option.splits sum.splits probe_outcome.splits)+

lemma available_lease: "sv_valid_until (snd (sup_available now s)) \<noteq> 0 \<Longrightarrow>
    sv_valid_until (snd (sup_available now s)) = sv_valid_until s"
  using sup_available_fields(3) [of now s] by auto

lemma fail_lease: "sv_valid_until (sup_fail r s) \<noteq> 0 \<Longrightarrow> sv_valid_until (sup_fail r s) = sv_valid_until s"
  using sup_fail_fields(3) [of r s] by auto

lemma fail_available_lease:
  "sv_valid_until (snd (sup_available now (sup_fail r s))) \<in> {0, sv_valid_until s}"
  by (simp add: sup_available_def sup_expire_def sup_fail_def Let_def)

lemma check_leave_lease:
  "sv_valid_until (snd (check_leave now st out s)) \<in> {0, sv_valid_until s} \<or>
   sv_valid_until (snd (check_leave now st out s)) = lease_end s st \<and> now - st < sv_timeout_seconds s \<and>
     (\<exists>x. out = Probe_Value (Some x) \<and> rh_state x = RT_READY \<and> rh_ready x)"
proof (cases out)
  case (Probe_Value h)
  let ?s = "s\<lparr>sv_probe := None\<rparr>"
  show ?thesis
  proof (cases "sv_closed s \<or> sv_failed s \<or> (sv_valid_until s \<noteq> 0 \<and> \<not> fst (sup_available now ?s))")
    case True
    then show ?thesis
      using Probe_Value sup_available_fields(3) [of now ?s] by (auto simp: check_leave_def Let_def)
  next
    case False
    then have "(if sv_valid_until ?s \<noteq> 0 then snd (sup_available now ?s) else ?s) = ?s"
      using sup_available_up [of now ?s] by auto
    with False Probe_Value
    have late: "snd (check_leave now st out s) = snd (sup_available now (probe_verdict now st h ?s))"
      by (auto simp: check_leave_def Let_def)
    have "sv_valid_until (snd (sup_available now (probe_verdict now st h ?s))) \<in> {0, sv_valid_until (probe_verdict now st h ?s)}"
      by (rule sup_available_fields(3))
    with late probe_verdict_lease [of now st h ?s] Probe_Value show ?thesis
      by (auto simp: lease_end_def)
  qed
next
  case Probe_Timeout
  then show ?thesis
    using fail_available_lease [of now _ "s\<lparr>sv_probe := None\<rparr>"] by (simp add: check_leave_def Let_def)
next
  case Probe_Exception
  then show ?thesis
    using fail_available_lease [of now _ "s\<lparr>sv_probe := None\<rparr>"] by (simp add: check_leave_def Let_def)
qed

lemma sup_step_lease:
  assumes "sv_valid_until (sup_step s e) \<noteq> 0"
  shows "sv_valid_until (sup_step s e) \<in> insert (sv_valid_until s) (lease_end s ` set (ready_start s e))"
proof (cases e)
  case (Check_Leave now out)
  with assms show ?thesis
    using check_leave_lease [of now "the (sv_probe s)" out s] by (cases "sv_probe s") auto
next
  case (Check_Lock_Timeout now)
  with assms show ?thesis
    using fail_available_lease [of now _ s] by (auto simp: check_lock_timeout_def)
qed (use assms in \<open>auto simp: check_enter_def sup_start_def run_checked_def
      run_ended_def sup_close_def split: if_splits sum.splits dest!: available_lease fail_lease\<close>)

lemma run_timings:
  "sv_interval_seconds (run sup_step s es) = sv_interval_seconds s"
  "sv_timeout_seconds (run sup_step s es) = sv_timeout_seconds s"
  by (induction es arbitrary: s) simp_all

lemma run_lease:
  "sv_valid_until (run sup_step s es) \<noteq> 0 \<Longrightarrow>
    sv_valid_until (run sup_step s es) \<in> insert (sv_valid_until s) (lease_end s ` set (ready_starts s es))"
proof (induction es arbitrary: s)
  case Nil
  then show ?case by simp
next
  case (Cons e es)
  have same: "lease_end (sup_step s e) = lease_end s" by (simp add: lease_end_def fun_eq_iff)
  show ?case
  proof (cases "sv_valid_until (sup_step s e) = 0")
    case True
    with Cons same show ?thesis by fastforce
  next
    case False
    from sup_step_lease [OF False] Cons.IH [of "sup_step s e"] Cons.prems same show ?thesis by auto
  qed
qed

section \<open>Properties\<close>

text \<open>
  A health failure is latched. Once a supervisor has failed or was closed, no later event -- no
  late or repeated success, no restart of the monitor, no reading of its state -- makes it available
  again: it stays failed or closed, holds no health lease, and every later reading of \<open>available\<close>
  is false.
\<close>

theorem health_failure_latched:
  assumes "mk_supervisor i t sh same = Inr s0"
    and "sv_failed (run sup_step s0 es) \<or> sv_closed (run sup_step s0 es)"
  shows "let s = run sup_step s0 (es @ later) in
    (sv_failed s \<or> sv_closed s) \<and> sv_valid_until s = 0 \<and> sup_available now s = (False, s) \<and>
    fst (check_enter now s) = Some False \<and> fst (check_leave now st out s) = False"
proof -
  let ?s = "run sup_step s0 (es @ later)"
  have "sup_inv (run sup_step s0 es)"
    using sup.run_inv mk_supervisor_inv [OF assms(1)] by simp
  with assms(2) have "sup_down (run sup_step s0 es)" by (auto simp: sup_inv_def sup_down_def)
  then have d: "sup_down ?s" using down.run_inv by (simp add: run_append)
  then have "sv_failed ?s \<or> sv_closed ?s" "sv_valid_until ?s = 0" by (auto simp: sup_down_def)
  with d show ?thesis by (auto simp: check_enter_def Let_def)
qed

text \<open>
  C22. Availability is fresh. Whenever a supervisor reports that its runtime is available, some probe
  of the run came back ready within the budget and was started less than one interval plus one
  budget ago, and the supervisor has neither failed nor been closed: a delayed monitor can never
  leave a stale verdict standing.
\<close>

theorem availability_is_fresh:
  assumes "mk_supervisor (Finite i) (Finite t) (Finite sh) same = Inr s0"
    and "fst (sup_available now (run sup_step s0 es))"
  shows "(\<exists>st \<in> set (ready_starts s0 es). now < st + i + t) \<and>
    \<not> sv_failed (run sup_step s0 es) \<and> \<not> sv_closed (run sup_step s0 es)"
proof -
  have s0: "sv_valid_until s0 = 0" "lease_end s0 = (\<lambda>st. st + i + t)"
    using assms(1) by (auto simp: mk_supervisor_def lease_end_def split: if_splits)
  from sup_available_up [OF assms(2)] have up: "sv_valid_until (run sup_step s0 es) \<noteq> 0"
    "now < sv_valid_until (run sup_step s0 es)" "\<not> sv_failed (run sup_step s0 es)"
    "\<not> sv_closed (run sup_step s0 es)" by auto
  with run_lease [OF up(1)] s0 show ?thesis by auto
qed

section \<open>Witnesses\<close>

definition ex_supervisor :: supervisor where
  "ex_supervisor = \<lparr>sv_interval_seconds = 1, sv_timeout_seconds = 5, sv_shutdown_timeout_seconds = 60,
     sv_initialized = False, sv_failed = False, sv_valid_until = 0, sv_reason = None,
     sv_probe = None, sv_task = False, sv_closed = False\<rparr>"

definition ex_ready :: probe_outcome where
  "ex_ready = Probe_Value (Some (ex_health RT_READY))"

definition ex_probes :: "sup_event list" where
  "ex_probes = [Sup_Start, Check_Enter 10, Check_Leave 11 ex_ready, Run_Checked]"

lemma ex_supervisor_made: "mk_supervisor (Finite 1) (Finite 5) (Finite 60) True = Inr ex_supervisor"
  by (simp add: mk_supervisor_def ex_supervisor_def timing_ok_def)

lemmas ex_sup = ex_probes_def ex_ready_def ex_health_def ex_supervisor_def sup_start_def sup_defs

theorem availability_is_fresh_witness:
  "fst (sup_available 15 (run sup_step ex_supervisor ex_probes)) \<and>
   (\<exists>st. st \<in> set (ready_starts ex_supervisor ex_probes) \<and> (15::rat) < st + 1 + 5)"
proof -
  have "fst (sup_available 15 (run sup_step ex_supervisor ex_probes))" by (simp add: ex_sup)
  with availability_is_fresh [OF ex_supervisor_made] show ?thesis by blast
qed

theorem health_failure_latched_witness:
  "sv_reason (run sup_step ex_supervisor (ex_probes @ [Read_Available 16])) = Some ''health_stale'' \<and>
   sup_available 18 (run sup_step ex_supervisor
     ((ex_probes @ [Read_Available 16]) @ [Check_Enter 17, Check_Leave 18 ex_ready])) =
   (False, run sup_step ex_supervisor
     ((ex_probes @ [Read_Available 16]) @ [Check_Enter 17, Check_Leave 18 ex_ready]))"
proof -
  have "sv_failed (run sup_step ex_supervisor (ex_probes @ [Read_Available 16]))"
    "sv_reason (run sup_step ex_supervisor (ex_probes @ [Read_Available 16])) = Some ''health_stale''"
    by (simp_all add: ex_sup)
  then show ?thesis
    using health_failure_latched [OF ex_supervisor_made, of "ex_probes @ [Read_Available 16]"
        "[Check_Enter 17, Check_Leave 18 ex_ready]" 18]
    unfolding Let_def by simp
qed

end
