(* ===== verification/Worker_Runtime.thy ===== *)
theory Worker_Runtime
  imports Worker_Client Supervision
begin

text \<open>
  \<open>src/src/astrumweaver/worker/runtime.py\<close>, class \<open>WorkerRuntime\<close>: the execution loop of a worker.
  The coroutine \<open>run_forever\<close> (with \<open>register\<close>, \<open>_heartbeat_if_due\<close> and \<open>_execute_claim\<close>, which it
  awaits) is cut into the segments that run between two awaits; \<open>wk_pc\<close> says where it waits: for
  the control lock, for the answer to a request, for the poll interval, for the executor. Calls of
  \<open>drain\<close>, the signal handlers, the executor task and the events of the health supervisor interleave
  with it in any order; every event carries the monotonic time its segment reads. Taking a free lock
  is a step of its own, so the model allows more interleavings than the event loop does. Cancelling
  the task of \<open>run_forever\<close> itself is not modelled. Every request (with the time it is sent), claim and end of an attempt is
  recorded in \<open>wk_log\<close>, which only the theorems read.
\<close>

section \<open>State\<close>

text \<open>The requests the worker sends, by what the client call carries.\<close>

datatype rpc =
    R_Register
  | R_Heartbeat "(string \<times> string) option" "worker_state option"
  | R_Claim
  | R_Complete string string job_result
  | R_Fail string string obj bool
  | R_Inspect string
  | R_Set_State worker_state

datatype log_entry = Sent rpc rat | Got claimed_job | Started string | Finished | Ended

text \<open>How the executor's task ended: a result, another value, an exception, or cancelled.\<close>

datatype exec_outcome = Exec_Result job_result | Exec_Not_Result | Exec_Raised string string | Exec_Cancelled

datatype verdict = V_Complete job_result | V_Fail obj bool

text \<open>Why an attempt is left: normally, or with the exception that propagates.\<close>

datatype cause = Normal | Runtime_Unavailable | Transport_Failed int | Other_Exception

datatype lock_point =
    Lk_Register | Lk_Loop | Lk_Claim | Lk_Exec claimed_job | Lk_Terminal claimed_job verdict
  | Lk_Inspect claimed_job | Lk_Offline

datatype rpc_point =
    At_Register | At_Register_Heartbeat | At_Loop_Heartbeat | At_Claim_Heartbeat | At_Claim
  | At_Exec_Heartbeat claimed_job | At_Terminal_Heartbeat claimed_job verdict
  | At_Terminal claimed_job | At_Inspect claimed_job | At_Offline

datatype pc =
    Begin | Sup_Starting | Wait_Stop
  | Want_Lock lock_point
  | In_Rpc rpc_point rat
  | Polling
  | Exec_Waiting claimed_job
  | Checking claimed_job string string
  | Cancelling claimed_job cause
  | Closing | Shutting_Down | Stopped

datatype lock_owner = Main | Drain

record worker =
  wk_spec :: worker_spec
  wk_max_concurrency :: int
  wk_poll_interval_seconds :: rat
  wk_heartbeat_interval_seconds :: rat
  wk_timeout_seconds :: rat
  wk_stop :: bool
  wk_draining :: bool
  wk_registered :: bool
  wk_control_state :: "worker_state option"
  wk_control_valid_until :: rat
  wk_next_heartbeat_at :: rat
  wk_lock :: "lock_owner option"
  wk_active :: "claimed_job option"
  wk_supervisor :: "supervisor option"
  wk_pc :: pc
  wk_execution :: "exec_outcome option option"
  wk_drains_waiting :: nat
  wk_drain_sent :: "rat option"
  wk_log :: "log_entry list"

definition mk_worker :: "worker_spec \<Rightarrow> int \<Rightarrow> py_float \<Rightarrow> py_float \<Rightarrow> rat \<Rightarrow> supervisor option \<Rightarrow> worker res" where
  "mk_worker spec max_concurrency poll heartbeat client_timeout spv =
     (if max_concurrency \<noteq> 1 then Inl (ValueError (Inconsistent ''max_concurrency''))
      else if \<not> timing_ok poll \<or> \<not> timing_ok heartbeat
      then Inl (ValueError (Must_be_positive ''worker intervals''))
      else Inr \<lparr>wk_spec = spec, wk_max_concurrency = max_concurrency,
        wk_poll_interval_seconds = finite_value poll,
        wk_heartbeat_interval_seconds = finite_value heartbeat,
        wk_timeout_seconds = client_timeout, wk_stop = False, wk_draining = False,
        wk_registered = False, wk_control_state = None, wk_control_valid_until = 0,
        wk_next_heartbeat_at = 0, wk_lock = None, wk_active = None, wk_supervisor = spv,
        wk_pc = Begin, wk_execution = None, wk_drains_waiting = 0, wk_drain_sent = None,
        wk_log = []\<rparr>)"

section \<open>Properties of the class\<close>

definition control_available :: "rat \<Rightarrow> worker \<Rightarrow> bool" where
  "control_available now w = (now < wk_control_valid_until w)"

definition supervisor_failed :: "worker \<Rightarrow> bool" where
  "supervisor_failed w = (case wk_supervisor w of None \<Rightarrow> False | Some s \<Rightarrow> sv_failed s)"

text \<open>Reading the supervisor's \<open>available\<close> may fail it, so the worker is returned too.\<close>

definition runtime_available :: "rat \<Rightarrow> worker \<Rightarrow> bool \<times> worker" where
  "runtime_available now w = (case wk_supervisor w of
     None \<Rightarrow> (True, w)
   | Some s \<Rightarrow> (case sup_available now s of (up, s') \<Rightarrow> (up, w\<lparr>wk_supervisor := Some s'\<rparr>)))"

definition runtime_state :: "rat \<Rightarrow> worker \<Rightarrow> string \<times> worker" where
  "runtime_state now w = (case wk_supervisor w of
     None \<Rightarrow> (''unmanaged'', w)
   | Some s \<Rightarrow> (case sup_state now s of (t, s') \<Rightarrow> (t, w\<lparr>wk_supervisor := Some s'\<rparr>)))"

definition runtime_failure :: "worker \<Rightarrow> string option" where
  "runtime_failure w = (case wk_supervisor w of None \<Rightarrow> None | Some s \<Rightarrow> sv_reason s)"

definition worker_draining :: "worker \<Rightarrow> bool" where
  "worker_draining w \<longleftrightarrow> wk_draining w \<or> wk_control_state w = Some DRAINING \<or> supervisor_failed w"

definition worker_ready :: "rat \<Rightarrow> worker \<Rightarrow> bool \<times> worker" where
  "worker_ready now w =
     (if \<not> wk_stop w \<and> wk_registered w \<and> \<not> worker_draining w \<and> control_available now w \<and>
         wk_control_state w = Some ONLINE
      then runtime_available now w else (False, w))"

definition active_job_id :: "worker \<Rightarrow> string option" where
  "active_job_id w = map_option (\<lambda>c. rq_job_id (cj_request c)) (wk_active w)"

definition request_drain :: "worker \<Rightarrow> worker" where
  "request_drain w = w\<lparr>wk_draining := True\<rparr>"

definition request_stop :: "worker \<Rightarrow> worker" where
  "request_stop w = (request_drain w)\<lparr>wk_stop := True\<rparr>"

section \<open>Acknowledgements\<close>

definition control_failed :: "int \<Rightarrow> rat \<Rightarrow> worker \<Rightarrow> worker" where
  "control_failed status now w = w\<lparr>wk_control_valid_until := 0,
     wk_registered := (if status \<in> {401, 403, 404} then False else wk_registered w),
     wk_next_heartbeat_at := now + wk_heartbeat_interval_seconds w\<rparr>"

definition ack_check :: "worker \<Rightarrow> obj \<Rightarrow> worker_state res" where
  "ack_check w record =
     (if json_get record ''protocol_version'' \<noteq> JStr protocol_version
      then Inl (ValueError (Malformed ''Worker response''))
      else rbind (json_item record ''state'') (\<lambda>v.
        rbind (case v of JStr s \<Rightarrow> worker_state_of s | _ \<Rightarrow> Inl (ValueError (Malformed ''WorkerState''))) (\<lambda>state.
        rbind (rbind (json_item record ''spec'') worker_spec_from_dict) (\<lambda>spec.
        if \<not> worker_spec_eq spec (wk_spec w) then Inl (ValueError (Inconsistent ''Worker identity''))
        else rbind (json_item record ''max_concurrency'') (\<lambda>n.
          if \<not> py_eq n (JInt (wk_max_concurrency w)) then Inl (ValueError (Inconsistent ''Worker capacity''))
          else Inr state)))))"

definition acknowledge_control :: "rat \<Rightarrow> rat \<Rightarrow> obj \<Rightarrow> worker \<Rightarrow> (client_error + unit) \<times> worker" where
  "acknowledge_control now sent_at record w = (case ack_check w record of
     Inl e \<Rightarrow>
       if caught e then (Inl (Transport_Error 502 (JStr ''invalid Worker acknowledgement'')),
         control_failed 502 now w)
       else (Inl (Client_Exc e), w)
   | Inr state \<Rightarrow> (Inr (), w\<lparr>wk_registered := True, wk_control_state := Some state,
       wk_control_valid_until := sent_at + wk_heartbeat_interval_seconds w + wk_timeout_seconds w\<rparr>))"

text \<open>
  The answer to a registration or a heartbeat, with the \<open>except\<close> clause of both methods.
\<close>

definition ack_reply :: "rat \<Rightarrow> rat \<Rightarrow> exchange \<Rightarrow> worker \<Rightarrow> (client_error + unit) \<times> worker" where
  "ack_reply now sent_at x w =
     (case (case read_object x of Inl e \<Rightarrow> (Inl e, w) | Inr record \<Rightarrow> acknowledge_control now sent_at record w) of
        (Inl (Transport_Error status d), w') \<Rightarrow> (Inl (Transport_Error status d), control_failed status now w')
      | out \<Rightarrow> out)"

definition rearm :: "rat \<Rightarrow> worker \<Rightarrow> worker" where
  "rearm now w = w\<lparr>wk_next_heartbeat_at := now + wk_heartbeat_interval_seconds w\<rparr>"

text \<open>\<open>_heartbeat_locked\<close>: the request, and its answer with the \<open>finally\<close> clause.\<close>

definition lease_ids :: "claimed_job \<Rightarrow> string \<times> string" where
  "lease_ids c = (rq_job_id (cj_request c), cj_lease_token c)"

definition heartbeat_rpc :: "rat \<Rightarrow> worker \<Rightarrow> rpc" where
  "heartbeat_rpc now w = R_Heartbeat (map_option lease_ids (wk_active w))
     (if (wk_draining w \<or> supervisor_failed w) \<and> control_available now w \<and>
         wk_control_state w \<noteq> Some OFFLINE
      then Some DRAINING else None)"

definition heartbeat_reply :: "rat \<Rightarrow> rat \<Rightarrow> exchange \<Rightarrow> worker \<Rightarrow> (client_error + unit) \<times> worker" where
  "heartbeat_reply now sent_at x w = (case ack_reply now sent_at x w of (r, w') \<Rightarrow> (r, rearm now w'))"

text \<open>The client call of each request.\<close>

definition rpc_call :: "worker \<Rightarrow> rpc \<Rightarrow> client_call" where
  "rpc_call w r = (let wid = ws_worker_id (wk_spec w) in case r of
     R_Register \<Rightarrow> call_register (wk_spec w) (wk_max_concurrency w) [(''runtime'', JStr ''astrumweaver-worker'')]
   | R_Heartbeat lease state \<Rightarrow> call_heartbeat wid (map_option fst lease) (map_option snd lease) state []
   | R_Claim \<Rightarrow> call_claim wid
   | R_Complete j t result \<Rightarrow> call_complete wid j t result
   | R_Fail j t err retryable \<Rightarrow> call_fail wid j t (Details err) retryable
   | R_Inspect j \<Rightarrow> call_inspect_job wid j
   | R_Set_State s \<Rightarrow> call_set_state wid s)"

section \<open>Segments of \<open>run_forever\<close>\<close>

definition logged :: "log_entry \<Rightarrow> worker \<Rightarrow> worker" where
  "logged e w = w\<lparr>wk_log := wk_log w @ [e]\<rparr>"

definition goto :: "pc \<Rightarrow> worker \<Rightarrow> worker" where
  "goto p w = w\<lparr>wk_pc := p\<rparr>"

text \<open>Sending a request with the lock held, and leaving the block of the lock.\<close>

definition send :: "rpc_point \<Rightarrow> rpc \<Rightarrow> rat \<Rightarrow> worker \<Rightarrow> worker" where
  "send p r now w = goto (In_Rpc p now) (logged (Sent r now) (w\<lparr>wk_lock := Some Main\<rparr>))"

definition release :: "worker \<Rightarrow> worker" where
  "release w = w\<lparr>wk_lock := None\<rparr>"

text \<open>The outer \<open>finally\<close>, up to its first await.\<close>

definition finalize :: "worker \<Rightarrow> worker" where
  "finalize w = (let w' = (request_stop w)\<lparr>wk_control_valid_until := 0\<rparr> in
     case wk_supervisor w' of
       None \<Rightarrow> goto (Want_Lock Lk_Offline) w'
     | Some s \<Rightarrow> goto Closing (w'\<lparr>wk_supervisor := Some (sup_close s)\<rparr>))"

definition loop_top :: "worker \<Rightarrow> worker" where
  "loop_top w = (if wk_stop w then finalize w else goto (Want_Lock Lk_Loop) w)"

definition after_heartbeat :: "rat \<Rightarrow> worker \<Rightarrow> worker" where
  "after_heartbeat now w = (case worker_ready now w of (ok, w') \<Rightarrow>
     goto (if ok then Want_Lock Lk_Claim else Polling) w')"

definition claim_if_ready :: "rat \<Rightarrow> worker \<Rightarrow> worker" where
  "claim_if_ready now w = (case worker_ready now w of (ok, w') \<Rightarrow>
     if ok then send At_Claim R_Claim now w' else loop_top (release w'))"

text \<open>The \<open>except ControlTransportError\<close> of the loop.\<close>

definition transport_pause :: "int \<Rightarrow> rat \<Rightarrow> worker \<Rightarrow> worker" where
  "transport_pause status now w = goto Polling (control_failed status now w)"

text \<open>The end of an attempt: both \<open>finally\<close> clauses, then what its cause leads to.\<close>

definition attempt_end :: "cause \<Rightarrow> rat \<Rightarrow> worker \<Rightarrow> worker" where
  "attempt_end cs now w = (let w' = logged Ended (w\<lparr>wk_active := None, wk_execution := None\<rparr>) in
     case cs of
       Normal \<Rightarrow> loop_top w'
     | Runtime_Unavailable \<Rightarrow> goto Polling w'
     | Transport_Failed status \<Rightarrow> transport_pause status now w'
     | Other_Exception \<Rightarrow> finalize w')"

definition unwind :: "claimed_job \<Rightarrow> cause \<Rightarrow> rat \<Rightarrow> worker \<Rightarrow> worker" where
  "unwind c cs now w = (if wk_execution w = Some None then goto (Cancelling c cs) w else attempt_end cs now w)"

definition exec_error :: "claimed_job \<Rightarrow> client_error \<Rightarrow> rat \<Rightarrow> worker \<Rightarrow> worker" where
  "exec_error c e now w = (case e of
     Transport_Error status _ \<Rightarrow> (let w' = control_failed status now w in
       if status = 409 then goto (Want_Lock (Lk_Inspect c)) w' else unwind c (Transport_Failed status) now w')
   | Client_Exc _ \<Rightarrow> unwind c Other_Exception now w)"

text \<open>\<open>_require_runtime\<close> before going on inside an attempt.\<close>

definition with_runtime :: "claimed_job \<Rightarrow> rat \<Rightarrow> worker \<Rightarrow> (worker \<Rightarrow> worker) \<Rightarrow> worker" where
  "with_runtime c now w k = (case runtime_available now w of (up, w') \<Rightarrow>
     if up then k w' else unwind c Runtime_Unavailable now w')"

definition raised_error :: "string \<Rightarrow> string \<Rightarrow> verdict" where
  "raised_error kind message = V_Fail [(''type'', JStr kind), (''message'', JStr message)] True"

definition protocol_error :: verdict where
  "protocol_error = V_Fail [(''type'', JStr ''ExecutorProtocolError''),
     (''message'', JStr ''executor returned a non-JobResult value'')] False"

definition exec_done :: "claimed_job \<Rightarrow> exec_outcome \<Rightarrow> rat \<Rightarrow> worker \<Rightarrow> worker" where
  "exec_done c out now w = with_runtime c now w (\<lambda>w'. case out of
     Exec_Result r \<Rightarrow> goto (Want_Lock (Lk_Terminal c (V_Complete r))) w'
   | Exec_Not_Result \<Rightarrow> goto (Want_Lock (Lk_Terminal c protocol_error)) w'
   | Exec_Raised kind message \<Rightarrow>
       if wk_supervisor w' = None then goto (Want_Lock (Lk_Terminal c (raised_error kind message))) w'
       else goto (Checking c kind message) w'
   | Exec_Cancelled \<Rightarrow> unwind c Other_Exception now w')"

definition exec_loop :: "claimed_job \<Rightarrow> rat \<Rightarrow> worker \<Rightarrow> worker" where
  "exec_loop c now w = (case wk_execution w of
     Some (Some out) \<Rightarrow> exec_done c out now w
   | _ \<Rightarrow> with_runtime c now w (goto (Want_Lock (Lk_Exec c))))"

definition exec_wait :: "claimed_job \<Rightarrow> rat \<Rightarrow> worker \<Rightarrow> worker" where
  "exec_wait c now w = with_runtime c now w (goto (Exec_Waiting c))"

text \<open>A claim was answered with a job: \<open>_execute_claim\<close> starts the executor's task.\<close>

definition execute_claim :: "claimed_job \<Rightarrow> rat \<Rightarrow> worker \<Rightarrow> worker" where
  "execute_claim c now w = with_runtime c now w (\<lambda>w'.
     exec_loop c now (logged (Started (rq_job_id (cj_request c)))
       (w'\<lparr>wk_active := Some c, wk_execution := Some None\<rparr>)))"

definition terminal_rpc :: "claimed_job \<Rightarrow> verdict \<Rightarrow> rpc" where
  "terminal_rpc c v = (case lease_ids c of (j, t) \<Rightarrow>
     (case v of V_Complete r \<Rightarrow> R_Complete j t r | V_Fail err retryable \<Rightarrow> R_Fail j t err retryable))"

definition terminal_write :: "claimed_job \<Rightarrow> verdict \<Rightarrow> rat \<Rightarrow> worker \<Rightarrow> worker" where
  "terminal_write c v now w = (case runtime_available now w of (up, w') \<Rightarrow>
     if \<not> up then unwind c Runtime_Unavailable now (release w')
     else if \<not> control_available now w'
     then exec_error c (Transport_Error 0 (JStr ''Worker authority is unconfirmed'')) now (release w')
     else send (At_Terminal c) (terminal_rpc c v) now w')"

section \<open>The steps of the main coroutine\<close>

abbreviation heartbeat_due :: "rat \<Rightarrow> worker \<Rightarrow> bool" where
  "heartbeat_due now w \<equiv> wk_next_heartbeat_at w \<le> now"

text \<open>The lock is free and the coroutine takes it.\<close>

fun lock_taken :: "lock_point \<Rightarrow> rat \<Rightarrow> worker \<Rightarrow> worker" where
  "lock_taken Lk_Register now w = send At_Register R_Register now w"
| "lock_taken Lk_Loop now w =
     (if heartbeat_due now w then send At_Loop_Heartbeat (heartbeat_rpc now w) now w
      else after_heartbeat now w)"
| "lock_taken Lk_Claim now w = (case worker_ready now w of (ok, w') \<Rightarrow>
     if \<not> ok then loop_top w'
     else if heartbeat_due now w' then send At_Claim_Heartbeat (heartbeat_rpc now w') now w'
     else claim_if_ready now w')"
| "lock_taken (Lk_Exec c) now w =
     (if heartbeat_due now w then send (At_Exec_Heartbeat c) (heartbeat_rpc now w) now w
      else exec_wait c now w)"
| "lock_taken (Lk_Terminal c v) now w =
     (if heartbeat_due now w then send (At_Terminal_Heartbeat c v) (heartbeat_rpc now w) now w
      else terminal_write c v now w)"
| "lock_taken (Lk_Inspect c) now w = send (At_Inspect c) (R_Inspect (rq_job_id (cj_request c))) now w"
| "lock_taken Lk_Offline now w =
     (if wk_registered w then send At_Offline (R_Set_State OFFLINE) now w
      else goto Stopped (w\<lparr>wk_registered := False\<rparr>))"

text \<open>An answer arrives.\<close>

fun rpc_answered :: "rpc_point \<Rightarrow> rat \<Rightarrow> rat \<Rightarrow> exchange \<Rightarrow> worker \<Rightarrow> worker" where
  "rpc_answered At_Register now sent_at x w = (case ack_reply now sent_at x w of
     (Inl _, w') \<Rightarrow> finalize (release w')
   | (Inr _, w') \<Rightarrow> (let w'' = rearm now w' in
       if wk_draining w'' then send At_Register_Heartbeat (heartbeat_rpc now w'') now w''
       else loop_top (release w'')))"
| "rpc_answered At_Register_Heartbeat now sent_at x w = (case heartbeat_reply now sent_at x w of
     (Inl _, w') \<Rightarrow> finalize (release w')
   | (Inr _, w') \<Rightarrow> loop_top (release w'))"
| "rpc_answered At_Loop_Heartbeat now sent_at x w = (case heartbeat_reply now sent_at x w of
     (Inl (Transport_Error status _), w') \<Rightarrow> transport_pause status now (release w')
   | (Inl (Client_Exc _), w') \<Rightarrow> finalize (release w')
   | (Inr _, w') \<Rightarrow> after_heartbeat now (release w'))"
| "rpc_answered At_Claim_Heartbeat now sent_at x w = (case heartbeat_reply now sent_at x w of
     (Inl (Transport_Error status _), w') \<Rightarrow> transport_pause status now (release w')
   | (Inl (Client_Exc _), w') \<Rightarrow> finalize (release w')
   | (Inr _, w') \<Rightarrow> claim_if_ready now w')"
| "rpc_answered At_Claim now sent_at x w = (case read_claim x of
     Inl (Transport_Error status _) \<Rightarrow> transport_pause status now (release w)
   | Inl (Client_Exc _) \<Rightarrow> finalize (release w)
   | Inr None \<Rightarrow> goto Polling (release w)
   | Inr (Some c) \<Rightarrow> execute_claim c now (logged (Got c) (release (w\<lparr>wk_active := Some c\<rparr>))))"
| "rpc_answered (At_Exec_Heartbeat c) now sent_at x w = (case heartbeat_reply now sent_at x w of
     (Inl e, w') \<Rightarrow> exec_error c e now (release w')
   | (Inr _, w') \<Rightarrow> exec_wait c now (release w'))"
| "rpc_answered (At_Terminal_Heartbeat c v) now sent_at x w = (case heartbeat_reply now sent_at x w of
     (Inl e, w') \<Rightarrow> exec_error c e now (release w')
   | (Inr _, w') \<Rightarrow> terminal_write c v now w')"
| "rpc_answered (At_Terminal c) now sent_at x w = (case read_object x of
     Inl e \<Rightarrow> exec_error c e now (release w)
   | Inr _ \<Rightarrow> unwind c Normal now (logged Finished (release (w\<lparr>wk_active := None\<rparr>))))"
| "rpc_answered (At_Inspect c) now sent_at x w = (case read_object x of
     Inl (Transport_Error status _) \<Rightarrow> unwind c (Transport_Failed status) now (release w)
   | Inl (Client_Exc _) \<Rightarrow> unwind c Other_Exception now (release w)
   | Inr d \<Rightarrow> unwind c (if json_get d ''status'' = JStr ''cancelled'' then Normal else Transport_Failed 409)
       now (release w))"
| "rpc_answered At_Offline now sent_at x w = goto Stopped (release (w\<lparr>wk_registered := False\<rparr>))"

section \<open>All steps\<close>

datatype worker_event =
    Ev_Start rat
  | Ev_Supervisor_Started rat
  | Ev_Stop_Seen
  | Ev_Lock rat
  | Ev_Answer rat exchange
  | Ev_Poll_Over
  | Ev_Executor_Finished exec_outcome
  | Ev_Executor_Wake rat
  | Ev_Check_Over rat
  | Ev_Cancel_Over rat bool
  | Ev_Closed
  | Ev_Shutdown_Over bool
  | Ev_Request_Drain
  | Ev_Request_Stop
  | Ev_Drain
  | Ev_Drain_Lock rat
  | Ev_Drain_Answer rat exchange
  | Ev_Supervisor sup_event

definition worker_start :: "rat \<Rightarrow> worker \<Rightarrow> worker" where
  "worker_start now w =
     (if wk_stop w then finalize w
      else case wk_supervisor w of
        None \<Rightarrow> goto (Want_Lock Lk_Register) w
      | Some s \<Rightarrow> (case sup_start s of
          Inl _ \<Rightarrow> finalize w
        | Inr s' \<Rightarrow> goto Sup_Starting (w\<lparr>wk_supervisor := Some s'\<rparr>)))"

definition supervisor_started :: "rat \<Rightarrow> worker \<Rightarrow> worker" where
  "supervisor_started now w = (case wk_supervisor w of
     None \<Rightarrow> w
   | Some s \<Rightarrow>
       if \<not> sv_initialized s then w
       else (case runtime_available now w of (up, w') \<Rightarrow>
         goto (if up then Want_Lock Lk_Register else Wait_Stop) w'))"

text \<open>\<open>drain\<close>: the intent at once, then a heartbeat under the lock.\<close>

definition drain_locked :: "rat \<Rightarrow> worker \<Rightarrow> worker" where
  "drain_locked now w = (let w' = w\<lparr>wk_drains_waiting := wk_drains_waiting w - 1\<rparr> in
     if wk_registered w' \<and> \<not> wk_stop w'
     then logged (Sent (heartbeat_rpc now w') now) (w'\<lparr>wk_lock := Some Drain, wk_drain_sent := Some now\<rparr>)
     else w')"

definition drain_answered :: "rat \<Rightarrow> rat \<Rightarrow> exchange \<Rightarrow> worker \<Rightarrow> worker" where
  "drain_answered now sent_at x w =
     release ((snd (heartbeat_reply now sent_at x w))\<lparr>wk_drain_sent := None\<rparr>)"

text \<open>The events of the supervisor that come from outside the worker.\<close>

fun foreign_event :: "sup_event \<Rightarrow> bool" where
  "foreign_event Sup_Start = False"
| "foreign_event Sup_Close = False"
| "foreign_event _ = True"

fun worker_step :: "worker \<Rightarrow> worker_event \<Rightarrow> worker" where
  "worker_step w (Ev_Start now) = (if wk_pc w = Begin then worker_start now w else w)"
| "worker_step w (Ev_Supervisor_Started now) =
     (if wk_pc w = Sup_Starting then supervisor_started now w else w)"
| "worker_step w Ev_Stop_Seen = (if wk_pc w = Wait_Stop \<and> wk_stop w then finalize w else w)"
| "worker_step w (Ev_Lock now) = (case wk_pc w of
     Want_Lock p \<Rightarrow> if wk_lock w = None then lock_taken p now w else w
   | _ \<Rightarrow> w)"
| "worker_step w (Ev_Answer now x) = (case wk_pc w of
     In_Rpc p sent_at \<Rightarrow> rpc_answered p now sent_at x w | _ \<Rightarrow> w)"
| "worker_step w Ev_Poll_Over = (if wk_pc w = Polling then loop_top w else w)"
| "worker_step w (Ev_Executor_Finished out) =
     (if wk_execution w = Some None then w\<lparr>wk_execution := Some (Some out)\<rparr> else w)"
| "worker_step w (Ev_Executor_Wake now) = (case wk_pc w of Exec_Waiting c \<Rightarrow> exec_loop c now w | _ \<Rightarrow> w)"
| "worker_step w (Ev_Check_Over now) = (case wk_pc w of
     Checking c kind message \<Rightarrow> with_runtime c now w (goto (Want_Lock (Lk_Terminal c (raised_error kind message))))
   | _ \<Rightarrow> w)"
| "worker_step w (Ev_Cancel_Over now raised) = (case wk_pc w of
     Cancelling c cs \<Rightarrow> attempt_end (if raised then Other_Exception else cs) now w | _ \<Rightarrow> w)"
| "worker_step w Ev_Closed = (if wk_pc w = Closing then goto Shutting_Down w else w)"
| "worker_step w (Ev_Shutdown_Over ok) =
     (if wk_pc w = Shutting_Down then goto (if ok then Want_Lock Lk_Offline else Stopped) w else w)"
| "worker_step w Ev_Request_Drain = request_drain w"
| "worker_step w Ev_Request_Stop = request_stop w"
| "worker_step w Ev_Drain = (request_drain w)\<lparr>wk_drains_waiting := Suc (wk_drains_waiting w)\<rparr>"
| "worker_step w (Ev_Drain_Lock now) =
     (if 0 < wk_drains_waiting w \<and> wk_lock w = None then drain_locked now w else w)"
| "worker_step w (Ev_Drain_Answer now x) = (case wk_drain_sent w of
     Some sent_at \<Rightarrow> drain_answered now sent_at x w | None \<Rightarrow> w)"
| "worker_step w (Ev_Supervisor e) = (case wk_supervisor w of
     Some s \<Rightarrow> if foreign_event e then w\<lparr>wk_supervisor := Some (sup_step s e)\<rparr> else w
   | None \<Rightarrow> w)"

section \<open>The local health API\<close>

text \<open>
  \<open>src/src/astrumweaver/worker/health.py\<close>. Its readings of \<open>available\<close> are events of the supervisor,
  so only the values matter here.
\<close>

definition health_ready :: "rat \<Rightarrow> worker \<Rightarrow> bool" where
  "health_ready now w \<longleftrightarrow> fst (worker_ready now w) \<and> wk_registered w \<and> \<not> worker_draining (snd (worker_ready now w))"

definition health_report :: "rat \<Rightarrow> worker \<Rightarrow> obj" where
  "health_report now w = [
     (''status'', JStr ''ok''),
     (''worker_id'', JStr (ws_worker_id (wk_spec w))),
     (''registered'', JBool (wk_registered w)),
     (''control_state'', json_opt (map_option worker_state_value (wk_control_state w))),
     (''control_available'', JBool (control_available now w)),
     (''runtime_state'', JStr (fst (runtime_state now w))),
     (''runtime_available'', JBool (fst (runtime_available now (snd (runtime_state now w))))),
     (''runtime_failure'', json_opt (runtime_failure (snd (runtime_state now w)))),
     (''ready'', JBool (health_ready now (snd (runtime_state now w)))),
     (''active_job_id'', json_opt (active_job_id w)),
     (''draining'', JBool (worker_draining (snd (worker_ready now (snd (runtime_state now w))))))]"

definition ready_report :: "rat \<Rightarrow> worker \<Rightarrow> int \<times> obj" where
  "ready_report now w = (if health_ready now w then 200 else 503, [
     (''ready'', JBool (health_ready now w)),
     (''worker_id'', JStr (ws_worker_id (wk_spec w))),
     (''active_job_id'', json_opt (active_job_id w)),
     (''draining'', JBool (worker_draining (snd (worker_ready now w))))])"

end
