(* ===== verification/Worker_Protocol.thy ===== *)
theory Worker_Protocol
  imports Worker_Runtime
begin

text \<open>
  What the worker does towards the control plane, as a language of its log: a monitor reads the
  requests, claims and ends of attempts and refuses the first entry that breaks the protocol. The
  main lemma is that no interleaving makes it refuse. It is proved segment by segment: \<open>base\<close> and
  \<open>held\<close> are what holds between two awaits without and with the control lock.
\<close>

section \<open>The monitor\<close>

record monitor =
  mo_cur :: "claimed_job option"
  mo_written :: bool
  mo_enrolled :: bool

definition mon0 :: monitor where
  "mon0 = \<lparr>mo_cur = None, mo_written = False, mo_enrolled = False\<rparr>"

text \<open>One terminal write for the current attempt, with its own lease.\<close>

definition may_write :: "monitor \<Rightarrow> string \<Rightarrow> string \<Rightarrow> bool" where
  "may_write m j t \<longleftrightarrow> map_option lease_ids (mo_cur m) = Some (j, t) \<and> \<not> mo_written m"

fun rpc_allowed :: "monitor \<Rightarrow> rpc \<Rightarrow> bool" where
  "rpc_allowed m R_Register = (mo_cur m = None \<and> \<not> mo_enrolled m)"
| "rpc_allowed m (R_Heartbeat lease st) =
     (lease = map_option lease_ids (mo_cur m) \<and> st \<in> {None, Some DRAINING})"
| "rpc_allowed m R_Claim = (mo_cur m = None)"
| "rpc_allowed m (R_Complete j t r) = may_write m j t"
| "rpc_allowed m (R_Fail j t e b) = may_write m j t"
| "rpc_allowed m (R_Inspect j) = (map_option (\<lambda>c. rq_job_id (cj_request c)) (mo_cur m) = Some j)"
| "rpc_allowed m (R_Set_State s) = (mo_cur m = None \<and> s = OFFLINE)"

fun rpc_effect :: "monitor \<Rightarrow> rpc \<Rightarrow> monitor" where
  "rpc_effect m R_Register = m\<lparr>mo_enrolled := True\<rparr>"
| "rpc_effect m (R_Complete j t r) = m\<lparr>mo_written := True\<rparr>"
| "rpc_effect m (R_Fail j t e b) = m\<lparr>mo_written := True\<rparr>"
| "rpc_effect m _ = m"

fun mon_step :: "monitor \<Rightarrow> log_entry \<Rightarrow> monitor option" where
  "mon_step m (Sent r t) = (if rpc_allowed m r then Some (rpc_effect m r) else None)"
| "mon_step m (Got c) = (if mo_cur m = None then Some (m\<lparr>mo_cur := Some c, mo_written := False\<rparr>) else None)"
| "mon_step m (Started j) =
     (if map_option (\<lambda>c. rq_job_id (cj_request c)) (mo_cur m) = Some j \<and> \<not> mo_written m then Some m else None)"
| "mon_step m Finished = (if mo_cur m \<noteq> None \<and> mo_written m then Some (m\<lparr>mo_cur := None\<rparr>) else None)"
| "mon_step m Ended = Some (m\<lparr>mo_cur := None\<rparr>)"

fun mon_run :: "monitor \<Rightarrow> log_entry list \<Rightarrow> monitor option" where
  "mon_run m [] = Some m"
| "mon_run m (e # es) = (case mon_step m e of None \<Rightarrow> None | Some m' \<Rightarrow> mon_run m' es)"

lemma mon_run_append:
  "mon_run m (xs @ ys) = (case mon_run m xs of None \<Rightarrow> None | Some m' \<Rightarrow> mon_run m' ys)"
  by (induction xs arbitrary: m) (auto split: option.splits)

section \<open>Where the coroutine is\<close>

fun pc_claim :: "pc \<Rightarrow> claimed_job option" where
  "pc_claim (Want_Lock (Lk_Exec c)) = Some c"
| "pc_claim (Want_Lock (Lk_Terminal c v)) = Some c"
| "pc_claim (Want_Lock (Lk_Inspect c)) = Some c"
| "pc_claim (In_Rpc (At_Exec_Heartbeat c) t) = Some c"
| "pc_claim (In_Rpc (At_Terminal_Heartbeat c v) t) = Some c"
| "pc_claim (In_Rpc (At_Terminal c) t) = Some c"
| "pc_claim (In_Rpc (At_Inspect c) t) = Some c"
| "pc_claim (Exec_Waiting c) = Some c"
| "pc_claim (Checking c k s) = Some c"
| "pc_claim (Cancelling c cs) = Some c"
| "pc_claim _ = None"

text \<open>A terminal write may still come; it is under way.\<close>

fun pc_fresh :: "pc \<Rightarrow> bool" where
  "pc_fresh (Want_Lock (Lk_Exec c)) = True"
| "pc_fresh (Want_Lock (Lk_Terminal c v)) = True"
| "pc_fresh (In_Rpc (At_Exec_Heartbeat c) t) = True"
| "pc_fresh (In_Rpc (At_Terminal_Heartbeat c v) t) = True"
| "pc_fresh (Exec_Waiting c) = True"
| "pc_fresh (Checking c k s) = True"
| "pc_fresh _ = False"

fun pc_written :: "pc \<Rightarrow> bool" where
  "pc_written (In_Rpc (At_Terminal c) t) = True"
| "pc_written _ = False"

text \<open>The executor's task has ended.\<close>

fun pc_done :: "pc \<Rightarrow> bool" where
  "pc_done (Want_Lock (Lk_Terminal c v)) = True"
| "pc_done (In_Rpc (At_Terminal_Heartbeat c v) t) = True"
| "pc_done (In_Rpc (At_Terminal c) t) = True"
| "pc_done (Checking c k s) = True"
| "pc_done _ = False"

fun pc_before :: "pc \<Rightarrow> bool" where
  "pc_before Begin = True"
| "pc_before Sup_Starting = True"
| "pc_before (Want_Lock Lk_Register) = True"
| "pc_before _ = False"

fun in_rpc :: "pc \<Rightarrow> bool" where
  "in_rpc (In_Rpc p t) = True"
| "in_rpc _ = False"

section \<open>Invariant\<close>

definition follows :: "worker \<Rightarrow> monitor \<Rightarrow> bool" where
  "follows w m \<longleftrightarrow> mon_run mon0 (wk_log w) = Some m \<and> mo_cur m = wk_active w"

definition drain_lock :: "worker \<Rightarrow> bool" where
  "drain_lock w \<longleftrightarrow> (wk_lock w = Some Drain \<longleftrightarrow> wk_drain_sent w \<noteq> None)"

definition at_pc :: "worker \<Rightarrow> monitor \<Rightarrow> bool" where
  "at_pc w m \<longleftrightarrow> wk_active w = pc_claim (wk_pc w) \<and>
     (pc_fresh (wk_pc w) \<longrightarrow> \<not> mo_written m) \<and> (pc_written (wk_pc w) \<longrightarrow> mo_written m) \<and>
     (pc_done (wk_pc w) \<longrightarrow> wk_execution w \<noteq> Some None) \<and>
     (pc_before (wk_pc w) \<longrightarrow> \<not> mo_enrolled m) \<and>
     (wk_lock w = Some Main \<longleftrightarrow> in_rpc (wk_pc w))"

definition worker_inv :: "worker \<Rightarrow> bool" where
  "worker_inv w \<longleftrightarrow> drain_lock w \<and> (\<exists>m. follows w m \<and> at_pc w m)"

definition base :: "worker \<Rightarrow> monitor \<Rightarrow> bool" where
  "base w m \<longleftrightarrow> follows w m \<and> drain_lock w \<and> wk_lock w \<noteq> Some Main"

definition held :: "worker \<Rightarrow> monitor \<Rightarrow> bool" where
  "held w m \<longleftrightarrow> follows w m \<and> wk_drain_sent w = None \<and> wk_lock w \<noteq> Some Drain"

lemma worker_invI: "base w m \<Longrightarrow> at_pc (w\<lparr>wk_pc := p\<rparr>) m \<Longrightarrow> worker_inv (w\<lparr>wk_pc := p\<rparr>)"
  by (auto simp: worker_inv_def base_def follows_def drain_lock_def)

section \<open>Steps that concern neither log nor attempt\<close>

definition quiet :: "worker \<Rightarrow> worker \<Rightarrow> bool" where
  "quiet w w' \<longleftrightarrow> wk_log w' = wk_log w \<and> wk_active w' = wk_active w \<and> wk_execution w' = wk_execution w \<and>
     wk_lock w' = wk_lock w \<and> wk_pc w' = wk_pc w \<and> wk_drain_sent w' = wk_drain_sent w"

lemma quiet_refl [simp]: "quiet w w"
  by (simp add: quiet_def)

lemma quiet_trans: "quiet w w' \<Longrightarrow> quiet w' w'' \<Longrightarrow> quiet w w''"
  by (simp add: quiet_def)

lemma quiet_base: "quiet w w' \<Longrightarrow> base w m \<Longrightarrow> base w' m"
  by (simp add: quiet_def base_def follows_def drain_lock_def)

lemma quiet_held: "quiet w w' \<Longrightarrow> held w m \<Longrightarrow> held w' m"
  by (simp add: quiet_def held_def follows_def)

lemma quiet_inv: "quiet w w' \<Longrightarrow> worker_inv w \<Longrightarrow> worker_inv w'"
  by (simp add: quiet_def worker_inv_def follows_def drain_lock_def at_pc_def)

lemma quiet_fields: "quiet w w' \<Longrightarrow> wk_active w' = wk_active w \<and> wk_execution w' = wk_execution w"
  by (simp add: quiet_def)

lemma quiet_runtime: "runtime_available now w = (up, w') \<Longrightarrow> quiet w w'"
  by (auto simp: runtime_available_def quiet_def split: option.splits prod.splits)

lemma quiet_ready: "worker_ready now w = (ok, w') \<Longrightarrow> quiet w w'"
  by (auto simp: worker_ready_def split: if_splits intro: quiet_runtime)

lemma quiet_failed [simp]: "quiet w (control_failed status now w)"
  by (simp add: quiet_def control_failed_def)

lemma control_failed_fields [simp]:
  "wk_active (control_failed status now w) = wk_active w"
  "wk_execution (control_failed status now w) = wk_execution w"
  by (simp_all add: control_failed_def)

lemma quiet_rearm [simp]: "quiet w (rearm now w)"
  by (simp add: quiet_def rearm_def)

lemma quiet_stop [simp]: "quiet w (request_stop w)" "quiet w (request_drain w)"
  by (simp_all add: quiet_def request_stop_def request_drain_def)

lemma quiet_acknowledge: "acknowledge_control now st rec w = (r, w') \<Longrightarrow> quiet w w'"
  by (auto simp: acknowledge_control_def quiet_def control_failed_def split: sum.splits if_splits)

lemma quiet_ack_reply: "ack_reply now st x w = (r, w') \<Longrightarrow> quiet w w'"
  by (auto simp: ack_reply_def split: sum.splits prod.splits client_error.splits
      dest!: quiet_acknowledge intro: quiet_trans [OF _ quiet_failed])

lemma quiet_heartbeat_reply: "heartbeat_reply now st x w = (r, w') \<Longrightarrow> quiet w w'"
  by (auto simp: heartbeat_reply_def split: prod.splits dest!: quiet_ack_reply
      intro: quiet_trans [OF _ quiet_rearm])

section \<open>Segments keep the invariant\<close>

lemma held_release: "held w m \<Longrightarrow> base (release w) m"
  by (simp add: held_def base_def follows_def drain_lock_def release_def)

lemma base_held: "base w m \<Longrightarrow> wk_lock w = None \<Longrightarrow> held w m"
  by (auto simp: held_def base_def drain_lock_def)

lemma goto_inv:
  assumes "base w m" "wk_active w = pc_claim p" "\<not> in_rpc p"
    and "pc_fresh p \<Longrightarrow> \<not> mo_written m" "pc_done p \<Longrightarrow> wk_execution w \<noteq> Some None"
    and "pc_before p \<Longrightarrow> \<not> mo_enrolled m"
  shows "worker_inv (goto p w)"
proof -
  have "\<not> pc_written p" using assms(3) by (cases p rule: pc_written.cases) auto
  with assms show ?thesis
    unfolding goto_def by (intro worker_invI) (auto simp: at_pc_def base_def)
qed

lemma send_inv:
  assumes "held w m" "rpc_allowed m r" "wk_active w = pc_claim (In_Rpc p now)"
    and "pc_fresh (In_Rpc p now) \<Longrightarrow> \<not> mo_written (rpc_effect m r)"
    and "pc_written (In_Rpc p now) \<Longrightarrow> mo_written (rpc_effect m r)"
    and "pc_done (In_Rpc p now) \<Longrightarrow> wk_execution w \<noteq> Some None"
  shows "worker_inv (send p r now w)"
proof -
  have cur: "mo_cur (rpc_effect m r) = mo_cur m" by (cases r) auto
  have "follows (send p r now w) (rpc_effect m r)"
    using assms(1,2) cur by (simp add: follows_def held_def send_def goto_def logged_def mon_run_append)
  moreover have "at_pc (send p r now w) (rpc_effect m r)"
    using assms by (auto simp: at_pc_def send_def goto_def logged_def)
  moreover have "drain_lock (send p r now w)"
    using assms(1) by (simp add: drain_lock_def send_def goto_def logged_def held_def)
  ultimately show ?thesis by (auto simp: worker_inv_def)
qed

lemma finalize_inv: "base w m \<Longrightarrow> wk_active w = None \<Longrightarrow> worker_inv (finalize w)"
  unfolding finalize_def Let_def
  by (auto split: option.split intro!: goto_inv [where m = m])
    (auto simp: base_def follows_def drain_lock_def request_stop_def request_drain_def)

lemma loop_top_inv: "base w m \<Longrightarrow> wk_active w = None \<Longrightarrow> worker_inv (loop_top w)"
  unfolding loop_top_def by (auto intro: finalize_inv goto_inv [where m = m])

lemma after_heartbeat_inv:
  assumes "base w m" "wk_active w = None"
  shows "worker_inv (after_heartbeat now w)"
proof -
  obtain ok w' where r: "worker_ready now w = (ok, w')" by fastforce
  note q = quiet_ready [OF r]
  from q assms(2) have "wk_active w' = None" by (simp add: quiet_def)
  with quiet_base [OF q assms(1)] r show ?thesis
    by (auto simp: after_heartbeat_def intro!: goto_inv [where m = m])
qed

lemma claim_if_ready_inv:
  assumes "held w m" "wk_active w = None"
  shows "worker_inv (claim_if_ready now w)"
proof -
  obtain ok w' where r: "worker_ready now w = (ok, w')" by fastforce
  note q = quiet_ready [OF r]
  from q assms(2) have a: "wk_active w' = None" by (simp add: quiet_def)
  note h = quiet_held [OF q assms(1)]
  have "mo_cur m = None" using h a by (simp add: held_def follows_def)
  then show ?thesis
    using r a h by (auto simp: claim_if_ready_def release_def [symmetric]
        intro!: send_inv [where m = m] loop_top_inv [where m = m] held_release)
      (simp add: release_def)
qed

lemma transport_pause_inv: "base w m \<Longrightarrow> wk_active w = None \<Longrightarrow> worker_inv (transport_pause st now w)"
  unfolding transport_pause_def
  by (rule goto_inv [where m = m]) (auto intro: quiet_base [OF quiet_failed])

lemma attempt_end_inv:
  assumes "base w m"
  shows "worker_inv (attempt_end cs now w)"
proof -
  let ?w = "logged Ended (w\<lparr>wk_active := None, wk_execution := None\<rparr>)"
  have "base ?w (m\<lparr>mo_cur := None\<rparr>)"
    using assms by (simp add: base_def follows_def drain_lock_def logged_def mon_run_append)
  moreover have "wk_active ?w = None" by (simp add: logged_def)
  ultimately show ?thesis
    unfolding attempt_end_def Let_def
    by (cases cs) (auto intro: loop_top_inv goto_inv transport_pause_inv finalize_inv)
qed

lemma unwind_inv:
  assumes "base w m" "wk_active w = Some c \<or> wk_execution w \<noteq> Some None"
  shows "worker_inv (unwind c cs now w)"
  using assms unfolding unwind_def by (auto intro: attempt_end_inv goto_inv [where m = m])

lemma exec_error_inv:
  assumes "base w m" "wk_active w = Some c"
  shows "worker_inv (exec_error c e now w)"
proof (cases e)
  case (Transport_Error st d)
  let ?w = "control_failed st now w"
  have "base ?w m" "wk_active ?w = Some c"
    using assms by (auto intro: quiet_base [OF quiet_failed])
  with Transport_Error show ?thesis
    by (auto simp: exec_error_def Let_def intro: unwind_inv goto_inv [where m = m])
next
  case (Client_Exc x)
  with assms show ?thesis by (auto simp: exec_error_def intro: unwind_inv)
qed

lemma with_runtime_inv:
  assumes "base w m" "wk_active w = Some c" and k: "\<And>w'. quiet w w' \<Longrightarrow> worker_inv (k w')"
  shows "worker_inv (with_runtime c now w k)"
proof -
  obtain up w' where r: "runtime_available now w = (up, w')" by fastforce
  note q = quiet_runtime [OF r]
  have "base w' m" "wk_active w' = Some c"
    using quiet_fields [OF q] quiet_base [OF q] assms by auto
  with k [OF q] r show ?thesis by (auto simp: with_runtime_def intro: unwind_inv)
qed

lemma exec_done_inv:
  assumes "base w m" "wk_active w = Some c" "\<not> mo_written m" "wk_execution w = Some (Some out)"
  shows "worker_inv (exec_done c out now w)"
  unfolding exec_done_def
proof (rule with_runtime_inv [OF assms(1,2)])
  fix w' assume q: "quiet w w'"
  have "base w' m" "wk_active w' = Some c" "wk_execution w' = Some (Some out)"
    using quiet_fields [OF q] quiet_base [OF q] assms by auto
  then show "worker_inv (case out of
     Exec_Result r \<Rightarrow> goto (Want_Lock (Lk_Terminal c (V_Complete r))) w'
   | Exec_Not_Result \<Rightarrow> goto (Want_Lock (Lk_Terminal c protocol_error)) w'
   | Exec_Raised kind message \<Rightarrow>
       if wk_supervisor w' = None then goto (Want_Lock (Lk_Terminal c (raised_error kind message))) w'
       else goto (Checking c kind message) w'
   | Exec_Cancelled \<Rightarrow> unwind c Other_Exception now w')"
    using assms(3) by (auto split: exec_outcome.split intro: goto_inv [where m = m] unwind_inv)
qed

lemma exec_loop_inv:
  assumes "base w m" "wk_active w = Some c" "\<not> mo_written m"
  shows "worker_inv (exec_loop c now w)"
proof (cases "\<exists>out. wk_execution w = Some (Some out)")
  case True
  with assms show ?thesis by (auto simp: exec_loop_def intro: exec_done_inv)
next
  case False
  then have "exec_loop c now w = with_runtime c now w (goto (Want_Lock (Lk_Exec c)))"
    by (auto simp: exec_loop_def split: option.splits)
  moreover have "worker_inv (goto (Want_Lock (Lk_Exec c)) w')" if "quiet w w'" for w'
    using quiet_fields [OF that] quiet_base [OF that] assms by (intro goto_inv [where m = m]) auto
  ultimately show ?thesis using assms by (auto intro: with_runtime_inv)
qed

lemma exec_wait_inv:
  assumes "base w m" "wk_active w = Some c" "\<not> mo_written m"
  shows "worker_inv (exec_wait c now w)"
  unfolding exec_wait_def
  by (rule with_runtime_inv [OF assms(1,2)], rule goto_inv [where m = m])
    (use assms in \<open>auto dest: quiet_fields quiet_base\<close>)

lemma execute_claim_inv:
  assumes "base w m" "wk_active w = Some c" "\<not> mo_written m"
  shows "worker_inv (execute_claim c now w)"
  unfolding execute_claim_def
proof (rule with_runtime_inv [OF assms(1,2)], rule exec_loop_inv [where m = m])
  fix w' assume q: "quiet w w'"
  then have "base w' m" "wk_active w' = Some c" using assms by (auto dest: quiet_fields quiet_base)
  with assms(3) show "base (logged (Started (rq_job_id (cj_request c)))
      (w'\<lparr>wk_active := Some c, wk_execution := Some None\<rparr>)) m"
    by (auto simp: base_def follows_def drain_lock_def logged_def mon_run_append)
qed (use assms(3) in \<open>simp_all add: logged_def\<close>)

lemma terminal_write_inv:
  assumes "held w m" "wk_active w = Some c" "\<not> mo_written m" "wk_execution w \<noteq> Some None"
  shows "worker_inv (terminal_write c v now w)"
proof -
  obtain up w' where r: "runtime_available now w = (up, w')" by fastforce
  note q = quiet_runtime [OF r]
  have w': "held w' m" "wk_active w' = Some c" "wk_execution w' \<noteq> Some None"
    using quiet_fields [OF q] quiet_held [OF q] assms by auto
  then have rel: "base (release w') m" "wk_active (release w') = Some c"
    using held_release [OF w'(1)] by (simp_all add: release_def)
  have "mo_cur m = Some c" using w' by (simp add: held_def follows_def)
  then have "rpc_allowed m (terminal_rpc c v)" "mo_written (rpc_effect m (terminal_rpc c v))"
    using assms(3) by (auto simp: terminal_rpc_def may_write_def split: verdict.split prod.split)
  with w' have "worker_inv (send (At_Terminal c) (terminal_rpc c v) now w')"
    by (intro send_inv [where m = m]) auto
  with r rel show ?thesis
    by (auto simp: terminal_write_def intro: unwind_inv exec_error_inv)
qed

lemma heartbeat_allowed: "follows w m \<Longrightarrow> rpc_allowed m (heartbeat_rpc now w)"
  by (simp add: heartbeat_rpc_def follows_def)

lemma heartbeat_effect [simp]: "rpc_effect m (heartbeat_rpc now w) = m"
  by (simp add: heartbeat_rpc_def)

lemma send_heartbeat_inv:
  assumes "held w m" "wk_active w = pc_claim (In_Rpc p now)"
    and "pc_fresh (In_Rpc p now) \<Longrightarrow> \<not> mo_written m"
    and "\<not> pc_written (In_Rpc p now)" "pc_done (In_Rpc p now) \<Longrightarrow> wk_execution w \<noteq> Some None"
  shows "worker_inv (send p (heartbeat_rpc now w) now w)"
  using assms by (intro send_inv [where m = m]) (auto simp: held_def intro: heartbeat_allowed)

section \<open>Every step keeps the invariant\<close>

lemma inv_waiting:
  assumes "worker_inv w" "\<not> in_rpc (wk_pc w)"
  obtains m where "base w m" "at_pc w m"
  using assms by (auto simp: worker_inv_def base_def at_pc_def)

lemma inv_idle:
  assumes "worker_inv w" "\<not> in_rpc (wk_pc w)" "pc_claim (wk_pc w) = None"
  shows "\<exists>m. base w m \<and> wk_active w = None"
  using assms by (auto simp: worker_inv_def base_def at_pc_def)

lemma idle_moves:
  assumes "worker_inv w" "\<not> in_rpc (wk_pc w)" "pc_claim (wk_pc w) = None"
  shows "worker_inv (finalize w)" "worker_inv (loop_top w)"
    and "p \<in> {Shutting_Down, Stopped, Want_Lock Lk_Offline} \<Longrightarrow> worker_inv (goto p w)"
  using inv_idle [OF assms] by (auto intro: finalize_inv loop_top_inv goto_inv)

lemma inv_answering:
  assumes "worker_inv w" "wk_pc w = In_Rpc p t"
  obtains m where "held w m" "at_pc w m"
proof -
  from assms obtain m where m: "follows w m" "at_pc w m" and d: "drain_lock w"
    by (auto simp: worker_inv_def)
  from m(2) assms(2) have "wk_lock w = Some Main" by (simp add: at_pc_def)
  with d m(1) have "held w m" by (auto simp: held_def drain_lock_def)
  with m(2) that show ?thesis by blast
qed

lemma lock_taken_inv:
  assumes inv: "worker_inv w" and pc: "wk_pc w = Want_Lock p" and free: "wk_lock w = None"
  shows "worker_inv (lock_taken p now w)"
proof -
  obtain m where b: "base w m" and at: "at_pc w m" using inv_waiting [OF inv] pc by auto
  note h = base_held [OF b free]
  note f = at [unfolded at_pc_def pc]
  show ?thesis
  proof (cases p)
    case Lk_Register
    with f h show ?thesis by (auto simp: held_def follows_def intro!: send_inv [where m = m])
  next
    case Lk_Loop
    with f h b show ?thesis by (auto intro: send_heartbeat_inv after_heartbeat_inv)
  next
    case Lk_Claim
    obtain ok w' where r: "worker_ready now w = (ok, w')" by fastforce
    note q = quiet_ready [OF r]
    have "wk_active w' = None" using quiet_fields [OF q] f Lk_Claim by simp
    with quiet_base [OF q b] quiet_held [OF q h] r Lk_Claim show ?thesis
      by (auto intro: loop_top_inv send_heartbeat_inv claim_if_ready_inv)
  next
    case (Lk_Exec c)
    with f h b show ?thesis by (auto intro: send_heartbeat_inv exec_wait_inv)
  next
    case (Lk_Terminal c v)
    with f h show ?thesis by (auto intro: send_heartbeat_inv terminal_write_inv)
  next
    case (Lk_Inspect c)
    with f h show ?thesis by (auto simp: held_def follows_def intro!: send_inv [where m = m])
  next
    case Lk_Offline
    have "base (w\<lparr>wk_registered := False\<rparr>) m" using b by (simp add: base_def follows_def drain_lock_def)
    with Lk_Offline f h show ?thesis
      by (auto simp: held_def follows_def intro!: send_inv [where m = m] goto_inv [where m = m])
  qed
qed

lemma release_fields [simp]:
  "wk_active (release w) = wk_active w" "wk_execution (release w) = wk_execution w"
  by (simp_all add: release_def)

lemma execute_got_inv:
  assumes "held w m" "wk_active w = None"
  shows "worker_inv (execute_claim c now (logged (Got c) (release (w\<lparr>wk_active := Some c\<rparr>))))"
proof (rule execute_claim_inv [where m = "m\<lparr>mo_cur := Some c, mo_written := False\<rparr>"])
  show "base (logged (Got c) (release (w\<lparr>wk_active := Some c\<rparr>))) (m\<lparr>mo_cur := Some c, mo_written := False\<rparr>)"
    using assms by (simp add: base_def held_def follows_def drain_lock_def logged_def release_def mon_run_append)
qed (simp_all add: logged_def)

lemma finished_inv:
  assumes "held w m" "mo_written m" "wk_active w = Some c" "wk_execution w \<noteq> Some None"
  shows "worker_inv (unwind c Normal now (logged Finished (release (w\<lparr>wk_active := None\<rparr>))))"
proof (rule unwind_inv)
  show "base (logged Finished (release (w\<lparr>wk_active := None\<rparr>))) (m\<lparr>mo_cur := None\<rparr>)"
    using assms by (simp add: base_def held_def follows_def drain_lock_def logged_def release_def mon_run_append)
qed (use assms(4) in \<open>simp add: logged_def release_def\<close>)

lemma rpc_answered_inv:
  assumes inv: "worker_inv w" and pc: "wk_pc w = In_Rpc p sent"
  shows "worker_inv (rpc_answered p now sent x w)"
proof -
  obtain m where h: "held w m" and at: "at_pc w m" using inv_answering [OF inv pc] .
  note f = at [unfolded at_pc_def pc]
  obtain r w' where hb: "heartbeat_reply now sent x w = (r, w')" by fastforce
  note q = quiet_heartbeat_reply [OF hb]
  note h' = quiet_held [OF q h] and f' = quiet_fields [OF q] and b' = held_release [OF quiet_held [OF q h]]
  show ?thesis
  proof (cases p)
    case At_Register
    obtain r1 w1 where a: "ack_reply now sent x w = (r1, w1)" by fastforce
    note q1 = quiet_ack_reply [OF a]
    have w2: "held (rearm now w1) m" "wk_active (rearm now w1) = None" "wk_active w1 = None"
      using quiet_held [OF quiet_trans [OF q1 quiet_rearm] h] quiet_fields [OF q1]
        quiet_fields [OF quiet_rearm [of w1 now]] f At_Register by auto
    with quiet_held [OF q1 h] a At_Register show ?thesis
      by (cases r1) (auto simp: Let_def intro!: finalize_inv [where m = m] loop_top_inv [where m = m]
          send_heartbeat_inv [where m = m] held_release)
  next
    case At_Register_Heartbeat
    with hb b' f f' show ?thesis by (cases r) (auto intro!: finalize_inv [where m = m] loop_top_inv [where m = m])
  next
    case At_Loop_Heartbeat
    with hb b' f f' show ?thesis
      by (cases r) (auto split: client_error.split
          intro!: finalize_inv [where m = m] transport_pause_inv [where m = m] after_heartbeat_inv [where m = m])
  next
    case At_Claim_Heartbeat
    with hb h' b' f f' show ?thesis
      by (cases r) (auto split: client_error.split
          intro!: finalize_inv [where m = m] transport_pause_inv [where m = m] claim_if_ready_inv [where m = m])
  next
    case At_Claim
    with h held_release [OF h] f show ?thesis
      by (auto split: sum.split client_error.split option.split
          intro!: finalize_inv [where m = m] transport_pause_inv [where m = m] goto_inv [where m = m]
            execute_got_inv [where m = m])
  next
    case (At_Exec_Heartbeat c)
    with hb b' f f' show ?thesis
      by (cases r) (auto intro!: exec_error_inv [where m = m] exec_wait_inv [where m = m])
  next
    case (At_Terminal_Heartbeat c v)
    with hb b' h' f f' show ?thesis
      by (cases r) (auto intro!: exec_error_inv [where m = m] terminal_write_inv [where m = m])
  next
    case (At_Terminal c)
    with h held_release [OF h] f show ?thesis
      by (auto split: sum.split intro!: exec_error_inv [where m = m] finished_inv [where m = m])
  next
    case (At_Inspect c)
    with held_release [OF h] f show ?thesis
      by (auto split: sum.split client_error.split intro!: unwind_inv [where m = m])
  next
    case At_Offline
    have "base (release (w\<lparr>wk_registered := False\<rparr>)) m"
      using h by (simp add: base_def held_def follows_def drain_lock_def release_def)
    with At_Offline f show ?thesis by (auto intro!: goto_inv [where m = m])
  qed
qed

lemma worker_start_inv:
  assumes "worker_inv w" "wk_pc w = Begin"
  shows "worker_inv (worker_start now w)"
proof -
  obtain m where b: "base w m" and at: "at_pc w m" using inv_waiting [OF assms(1)] assms(2) by auto
  note f = at [unfolded at_pc_def assms(2)]
  have "base (w\<lparr>wk_supervisor := s\<rparr>) m" for s using b by (simp add: base_def follows_def drain_lock_def)
  with b f show ?thesis
    by (auto simp: worker_start_def split: option.split sum.split
        intro!: finalize_inv [where m = m] goto_inv [where m = m])
qed

lemma supervisor_started_inv:
  assumes "worker_inv w" "wk_pc w = Sup_Starting"
  shows "worker_inv (supervisor_started now w)"
proof -
  obtain m where b: "base w m" and at: "at_pc w m" using inv_waiting [OF assms(1)] assms(2) by auto
  note f = at [unfolded at_pc_def assms(2)]
  obtain up w' where r: "runtime_available now w = (up, w')" by fastforce
  note q = quiet_runtime [OF r]
  have "worker_inv (goto (if up then Want_Lock Lk_Register else Wait_Stop) w')"
    using quiet_base [OF q b] quiet_fields [OF q] f by (auto intro!: goto_inv [where m = m])
  with r assms(1) show ?thesis by (auto simp: supervisor_started_def split: option.split)
qed

lemma drain_locked_inv:
  assumes "worker_inv w" "wk_lock w = None"
  shows "worker_inv (drain_locked now w)"
proof -
  from assms obtain m where m: "follows w m" "at_pc w m" and d: "drain_lock w"
    by (auto simp: worker_inv_def)
  let ?w = "w\<lparr>wk_drains_waiting := wk_drains_waiting w - 1\<rparr>"
  have "follows ?w m" using m(1) by (simp add: follows_def)
  note hb = heartbeat_allowed [OF this, of now]
  have "mon_run mon0 (wk_log w @ [Sent (heartbeat_rpc now ?w) now]) = Some m"
    using m(1) hb by (simp add: follows_def mon_run_append)
  then show ?thesis
    using m d assms(2)
    by (auto simp: drain_locked_def Let_def worker_inv_def follows_def at_pc_def drain_lock_def logged_def
        intro!: exI [of _ m])
qed

lemma drain_answered_inv:
  assumes "worker_inv w" "wk_drain_sent w = Some sent"
  shows "worker_inv (drain_answered now sent x w)"
proof -
  obtain r w' where hb: "heartbeat_reply now sent x w = (r, w')" by fastforce
  note inv = quiet_inv [OF quiet_heartbeat_reply [OF hb] assms(1)]
  have "wk_drain_sent w' = Some sent" using quiet_heartbeat_reply [OF hb] assms(2) by (simp add: quiet_def)
  with inv have "wk_lock w' = Some Drain" "\<not> in_rpc (wk_pc w')"
    by (auto simp: worker_inv_def drain_lock_def at_pc_def)
  with inv show ?thesis
    by (auto simp: drain_answered_def hb release_def worker_inv_def follows_def drain_lock_def at_pc_def)
qed

lemma finished_task_inv:
  "worker_inv w \<Longrightarrow> worker_inv (w\<lparr>wk_execution := Some (Some out)\<rparr>)"
  by (auto simp: worker_inv_def follows_def drain_lock_def at_pc_def)

lemma worker_step_inv:
  assumes "worker_inv w"
  shows "worker_inv (worker_step w e)"
proof (cases e)
  case (Ev_Lock now)
  with assms show ?thesis by (auto split: pc.split intro: lock_taken_inv)
next
  case (Ev_Answer now x)
  with assms show ?thesis by (auto split: pc.split intro: rpc_answered_inv)
next
  case Ev_Stop_Seen
  with assms show ?thesis by (auto intro: idle_moves)
next
  case Ev_Poll_Over
  with assms show ?thesis by (auto intro: idle_moves)
next
  case (Ev_Executor_Wake now)
  have "worker_inv (exec_loop c now w)" if pc: "wk_pc w = Exec_Waiting c" for c
  proof -
    obtain m where "base w m" "at_pc w m" using inv_waiting [OF assms] pc by auto
    with pc show ?thesis by (auto simp: at_pc_def intro: exec_loop_inv)
  qed
  with Ev_Executor_Wake assms show ?thesis by (auto split: pc.split)
next
  case (Ev_Check_Over now)
  have "worker_inv (with_runtime c now w (goto (Want_Lock (Lk_Terminal c v))))"
    if pc: "wk_pc w = Checking c k s" for c k s v
  proof -
    obtain m where b: "base w m" and at: "at_pc w m" using inv_waiting [OF assms] pc by auto
    note f = at [unfolded at_pc_def pc]
    show ?thesis
    proof (rule with_runtime_inv [OF b])
      fix w' assume q: "quiet w w'"
      with quiet_base [OF q b] quiet_fields [OF q] f show "worker_inv (goto (Want_Lock (Lk_Terminal c v)) w')"
        by (intro goto_inv [where m = m]) auto
    qed (use f in simp)
  qed
  with Ev_Check_Over assms show ?thesis by (auto split: pc.split)
next
  case (Ev_Cancel_Over now raised)
  have "worker_inv (attempt_end cs' now w)" if "wk_pc w = Cancelling c cs" for c cs cs'
    by (rule inv_waiting [OF assms]) (use that in \<open>auto intro: attempt_end_inv\<close>)
  with Ev_Cancel_Over assms show ?thesis by (auto split: pc.split)
next
  case Ev_Closed
  with assms show ?thesis by (auto intro!: idle_moves)
next
  case (Ev_Shutdown_Over ok)
  with assms show ?thesis by (auto intro!: idle_moves)
next
  case Ev_Drain
  have "quiet w ((request_drain w)\<lparr>wk_drains_waiting := Suc (wk_drains_waiting w)\<rparr>)"
    by (simp add: quiet_def request_drain_def)
  with Ev_Drain assms show ?thesis by (auto intro: quiet_inv)
next
  case (Ev_Supervisor ev)
  have "quiet w (w\<lparr>wk_supervisor := s\<rparr>)" for s by (simp add: quiet_def)
  with Ev_Supervisor assms show ?thesis by (auto split: option.split intro: quiet_inv)
qed (use assms in \<open>auto split: option.split intro: worker_start_inv supervisor_started_inv
    drain_locked_inv drain_answered_inv finished_task_inv quiet_inv [OF quiet_stop(1)] quiet_inv [OF quiet_stop(2)]\<close>)

interpretation protocol: transition_system worker_step "\<lambda>_ _. True" worker_inv
  by unfold_locales (rule worker_step_inv)

lemma mk_worker_inv: "mk_worker spec n poll hb tmo spv = Inr w \<Longrightarrow> worker_inv w"
  by (auto simp: mk_worker_def worker_inv_def follows_def drain_lock_def at_pc_def mon0_def split: if_splits)

end
