(* ===== verification/Postgres.thy ===== *)
theory Postgres
  imports Repository_Life Transport "HOL-Library.Word"
begin

text \<open>
  \<open>src/src/astrumweaver/control/postgres.py\<close> over the tables of \<open>src/migrations\<close>: the durable control
  repository. A table is a dictionary from primary keys to rows, a row a record of its columns
  (the column \<open>updated_at\<close> of \<open>workers\<close>, which is written and never read, is left out). Every
  SQL statement is written out as the function of the tables it computes; a statement whose row
  breaks a constraint of the schema, a column type or the range of an integer cast fails. A
  transaction either commits the tables it computed or, when anything in it raises, leaves them
  as they were; inside a transaction every exception that is no repository error becomes
  \<open>StorageUnavailable\<close>. Transactions run one after the other: the row and advisory locks of
  the source are what makes that so, and their order is modelled by \<open>lock_sequence\<close>. A \<open>jsonb\<close> column
  gives back the value it was given (the order of object keys, which \<open>jsonb\<close> does not keep, is
  kept here; dictionaries compare without it). Text is ordered by code point.
\<close>

section \<open>Column types and schema\<close>

definition int4 :: "int \<Rightarrow> bool" where
  "int4 n \<longleftrightarrow> - 2147483648 \<le> n \<and> n \<le> 2147483647"

definition int8 :: "int \<Rightarrow> bool" where
  "int8 n \<longleftrightarrow> - 9223372036854775808 \<le> n \<and> n \<le> 9223372036854775807"

text \<open>\<open>text\<close> and \<open>jsonb\<close> refuse the NUL character, \<open>jsonb\<close> also refuses non-finite numbers.\<close>

definition text_ok :: "string \<Rightarrow> bool" where
  "text_ok s \<longleftrightarrow> CHR 0x00 \<notin> set s"

definition text_opt_ok :: "string option \<Rightarrow> bool" where
  "text_opt_ok x = (case x of None \<Rightarrow> True | Some s \<Rightarrow> text_ok s)"

fun jsonb_ok :: "json \<Rightarrow> bool" where
  "jsonb_ok (JFloat f) = (case f of Finite _ \<Rightarrow> True | _ \<Rightarrow> False)"
| "jsonb_ok (JStr s) = text_ok s"
| "jsonb_ok (JList xs) = list_all jsonb_ok xs"
| "jsonb_ok (JObj d) = list_all (\<lambda>p. text_ok (fst p) \<and> jsonb_ok (snd p)) d"
| "jsonb_ok _ = True"

record worker_row =
  w_id :: string
  w_worker_class :: string
  w_capabilities :: json
  w_labels :: json
  w_gpu_uuids :: json
  w_accelerators :: json
  w_gpu_count :: int
  w_total_vram_mb :: int
  w_max_single_gpu_vram_mb :: int
  w_max_concurrency :: int
  w_state :: string
  w_metadata :: json
  w_registered_at :: instant
  w_last_seen_at :: instant
  w_active_jobs :: int

record job_row =
  j_id :: string
  j_sequence :: int
  j_capability :: string
  j_status :: string
  j_payload :: json
  j_requirements :: json
  j_priority :: int
  j_attempts :: int
  j_max_attempts :: int
  j_idempotency_key :: "string option"
  j_assigned_worker_id :: "string option"
  j_lease_token :: "string option"
  j_result :: "json option"
  j_error :: "json option"
  j_created_at :: instant
  j_available_at :: instant
  j_started_at :: "instant option"
  j_finished_at :: "instant option"
  j_lease_expires_at :: "instant option"
  j_updated_at :: instant

record pg =
  pg_worker_ttl_seconds :: int
  pg_lease_seconds :: int
  pg_workers :: "(string, worker_row) dict"
  pg_jobs :: "(string, job_row) dict"
  pg_sequence :: int

text \<open>The constraints of \<open>CREATE TABLE workers\<close> and \<open>CREATE TABLE jobs\<close>.\<close>

definition worker_row_ok :: "worker_row \<Rightarrow> bool" where
  "worker_row_ok w \<longleftrightarrow> text_ok (w_id w) \<and> text_ok (w_worker_class w) \<and>
     jsonb_ok (w_capabilities w) \<and> jsonb_ok (w_labels w) \<and> jsonb_ok (w_gpu_uuids w) \<and>
     jsonb_ok (w_accelerators w) \<and> jsonb_ok (w_metadata w) \<and>
     int4 (w_gpu_count w) \<and> int4 (w_total_vram_mb w) \<and> int4 (w_max_single_gpu_vram_mb w) \<and>
     int4 (w_max_concurrency w) \<and> int4 (w_active_jobs w) \<and>
     0 < w_max_concurrency w \<and> 0 \<le> w_active_jobs w \<and>
     w_state w \<in> {''online'', ''draining'', ''offline''} \<and>
     (w_gpu_count w = 0 \<and> w_total_vram_mb w = 0 \<and> w_max_single_gpu_vram_mb w = 0 \<or>
      0 < w_gpu_count w \<and> 0 < w_total_vram_mb w \<and> 0 < w_max_single_gpu_vram_mb w \<and>
      w_max_single_gpu_vram_mb w \<le> w_total_vram_mb w)"

definition job_row_ok :: "job_row \<Rightarrow> bool" where
  "job_row_ok j \<longleftrightarrow> text_ok (j_capability j) \<and> text_opt_ok (j_idempotency_key j) \<and>
     text_opt_ok (j_lease_token j) \<and> jsonb_ok (j_payload j) \<and> jsonb_ok (j_requirements j) \<and>
     (case j_result j of None \<Rightarrow> True | Some x \<Rightarrow> jsonb_ok x) \<and>
     (case j_error j of None \<Rightarrow> True | Some x \<Rightarrow> jsonb_ok x) \<and>
     int8 (j_sequence j) \<and> int4 (j_priority j) \<and> int4 (j_attempts j) \<and> int4 (j_max_attempts j) \<and>
     0 \<le> j_attempts j \<and> 0 < j_max_attempts j \<and>
     j_status j \<in> {''queued'', ''running'', ''succeeded'', ''failed'', ''cancelled''}"

section \<open>Statements and transactions\<close>

type_synonym 'a tx = "pg \<Rightarrow> repo_error + 'a \<times> pg"

text \<open>\<open>_transaction\<close>: commit what the body computed, or roll back.\<close>

definition transaction :: "'a tx \<Rightarrow> pg \<Rightarrow> (repo_error + 'a) \<times> pg" where
  "transaction body db = (case body db of Inl e \<Rightarrow> (Inl e, db) | Inr (x, db') \<Rightarrow> (Inr x, db'))"

text \<open>A Python exception inside a transaction.\<close>

definition in_tx :: "'a res \<Rightarrow> repo_error + 'a" where
  "in_tx m = (case m of Inl _ \<Rightarrow> Inl Storage_unavailable | Inr x \<Rightarrow> Inr x)"

text \<open>Writing one row (\<open>INSERT ... ON CONFLICT (id) DO UPDATE\<close>, or \<open>UPDATE ... WHERE id = ...\<close>).\<close>

definition write_worker :: "string \<Rightarrow> worker_row \<Rightarrow> pg \<Rightarrow> repo_error + pg" where
  "write_worker k row db = (if worker_row_ok row
     then Inr (db\<lparr>pg_workers := dict_set k row (pg_workers db)\<rparr>) else Inl Storage_unavailable)"

definition write_job :: "string \<Rightarrow> job_row \<Rightarrow> pg \<Rightarrow> repo_error + pg" where
  "write_job k row db = (if job_row_ok row
     then Inr (db\<lparr>pg_jobs := dict_set k row (pg_jobs db)\<rparr>) else Inl Storage_unavailable)"

section \<open>Rows and records\<close>

definition worker_of_row :: "worker_row \<Rightarrow> worker_record res" where
  "worker_of_row row =
     rbind (json_tuple (w_gpu_uuids row)) (\<lambda>gpus.
     rbind (rbind (json_tuple (w_accelerators row)) (rmap accelerator_from_dict)) (\<lambda>accelerators.
     rbind (json_frozenset (w_capabilities row)) (\<lambda>caps.
     rbind (mk_resource_shape (w_gpu_count row) (w_total_vram_mb row) (w_max_single_gpu_vram_mb row)) (\<lambda>shape.
     rbind (rmap py_str gpus) (\<lambda>gpu_texts.
     rbind (rmap py_str caps) (\<lambda>cap_texts.
     rbind (as_mapping (w_labels row)) (\<lambda>labels.
     rbind (str_items labels) (\<lambda>label_texts.
     rbind (mk_worker_spec (w_id row) (w_worker_class row) shape (Many gpu_texts) accelerators
              (Many cap_texts) label_texts) (\<lambda>spec.
     rbind (worker_state_of (w_state row)) (\<lambda>state.
     if w_max_concurrency row < 1 then Inl (ValueError (Must_be_positive ''max_concurrency''))
     else if w_active_jobs row < 0 then Inl (ValueError (Must_not_be_negative ''active_jobs''))
     else rbind (as_mapping (w_metadata row)) (\<lambda>metadata.
       Inr \<lparr>wr_spec = spec, wr_max_concurrency = w_max_concurrency row, wr_state = state,
            wr_active_jobs = w_active_jobs row, wr_registered_at = w_registered_at row,
            wr_last_seen_at = w_last_seen_at row, wr_metadata = metadata\<rparr>)))))))))))"

definition job_of_row :: "job_row \<Rightarrow> job_record res" where
  "job_of_row row =
     rbind (requirements_from_dict (j_requirements row)) (\<lambda>req.
     rbind (job_status_of (j_status row)) (\<lambda>status.
     rbind (job_result_from_dict (case j_result row of None \<Rightarrow> JNull | Some v \<Rightarrow> v)) (\<lambda>result.
     if j_sequence row < 1 then Inl (ValueError (Must_be_positive ''sequence''))
     else rbind (as_mapping (j_payload row)) (\<lambda>payload.
     rbind (case j_error row of None \<Rightarrow> Inr None | Some JNull \<Rightarrow> Inr None
            | Some v \<Rightarrow> rbind (as_mapping v) (\<lambda>d. Inr (Some d))) (\<lambda>err.
       Inr \<lparr>jb_job_id = j_id row, jb_capability = j_capability row, jb_payload = payload,
            jb_requirements = req, jb_priority = j_priority row, jb_sequence = j_sequence row,
            jb_status = status, jb_attempts = j_attempts row, jb_max_attempts = j_max_attempts row,
            jb_idempotency_key = j_idempotency_key row, jb_created_at = j_created_at row,
            jb_available_at = j_available_at row, jb_updated_at = j_updated_at row,
            jb_assigned_worker_id = j_assigned_worker_id row, jb_lease_token = j_lease_token row,
            jb_lease_expires_at = j_lease_expires_at row, jb_started_at = j_started_at row,
            jb_finished_at = j_finished_at row, jb_result = result, jb_error = err\<rparr>)))))"

text \<open>The columns of the \<open>INSERT INTO workers\<close> of \<open>register_worker\<close>.\<close>

definition registration_row :: "worker_registration \<Rightarrow> instant \<Rightarrow> instant \<Rightarrow> int \<Rightarrow> worker_row" where
  "registration_row registration registered_at timestamp active_jobs =
     (let spec = reg_spec registration in
      \<lparr>w_id = ws_worker_id spec, w_worker_class = ws_worker_class spec,
       w_capabilities = json_sorted (ws_capabilities spec), w_labels = json_labels (ws_labels spec),
       w_gpu_uuids = JList (map JStr (ws_gpu_uuids spec)),
       w_accelerators = JList (map (\<lambda>d. JObj (accelerator_to_dict d)) (ws_accelerators spec)),
       w_gpu_count = gpu_count (ws_resources spec),
       w_total_vram_mb = total_vram_mb (ws_resources spec),
       w_max_single_gpu_vram_mb = max_single_gpu_vram_mb (ws_resources spec),
       w_max_concurrency = reg_max_concurrency registration, w_state = ''online'',
       w_metadata = JObj (reg_metadata registration), w_registered_at = registered_at,
       w_last_seen_at = timestamp, w_active_jobs = active_jobs\<rparr>)"

section \<open>Ownership locks\<close>

text \<open>
  \<open>_ownership_lock_key\<close>: the first four bytes of the SHA-256 digest, read as a signed big-endian
  32-bit integer. The digest is a parameter.
\<close>

definition ownership_lock_key :: "(string \<Rightarrow> 8 word list) \<Rightarrow> string \<Rightarrow> int" where
  "ownership_lock_key sha256 identity = sint (word_rcat (take 4 (sha256 identity)) :: 32 word)"

definition worker_ownership_lock :: int where
  "worker_ownership_lock = 1095980801"

definition gpu_ownership_lock :: int where
  "gpu_ownership_lock = 1095980802"

text \<open>
  The advisory locks \<open>_lock_worker_ownership\<close> takes, in order: the identity, then the requested and
  current GPUs by sorted key.
\<close>

definition lock_sequence ::
  "(string \<Rightarrow> 8 word list) \<Rightarrow> string \<Rightarrow> string list \<Rightarrow> string list \<Rightarrow> (int \<times> int) list" where
  "lock_sequence sha256 worker_id requested current =
     (worker_ownership_lock, ownership_lock_key sha256 worker_id) #
     map (\<lambda>key. (gpu_ownership_lock, key))
       (sorted_list_of_set (ownership_lock_key sha256 ` (set requested \<union> set current)))"

section \<open>Workers\<close>

text \<open>\<open>a ? t\<close>: the text is an element of the JSON array (or a key of the object).\<close>

fun jsonb_exists :: "json \<Rightarrow> string \<Rightarrow> bool" where
  "jsonb_exists (JList xs) t = (JStr t \<in> set xs)"
| "jsonb_exists (JObj d) t = (t \<in> fst ` set d)"
| "jsonb_exists (JStr s) t = (s = t)"
| "jsonb_exists _ t = False"

text \<open>The query of \<open>_gpu_overlap\<close>: the first owner by id that has a requested GPU.\<close>

definition overlap_row :: "worker_registration \<Rightarrow> worker_row \<Rightarrow> bool" where
  "overlap_row registration w \<longleftrightarrow> w_id w \<noteq> ws_worker_id (reg_spec registration) \<and>
     (w_state w \<noteq> ''offline'' \<or> 0 < w_active_jobs w) \<and>
     list_ex (jsonb_exists (w_gpu_uuids w)) (ws_gpu_uuids (reg_spec registration))"

definition gpu_overlap :: "worker_registration \<Rightarrow> pg \<Rightarrow> string option" where
  "gpu_overlap registration db = (if ws_gpu_uuids (reg_spec registration) = [] then None
     else map_option w_id (first_by w_id (filter (overlap_row registration) (dict_values (pg_workers db)))))"

text \<open>\<open>SELECT count(*) FROM jobs WHERE status = 'running' AND assigned_worker_id = ...\<close>\<close>

definition running_count :: "string \<Rightarrow> pg \<Rightarrow> int" where
  "running_count worker_id db = count_values
     (\<lambda>j. j_status j = ''running'' \<and> j_assigned_worker_id j = Some worker_id) (pg_jobs db)"

definition check_reregistration :: "worker_registration \<Rightarrow> worker_record option \<Rightarrow> repo_error + unit" where
  "check_reregistration registration existing = (case existing of
     None \<Rightarrow> Inr ()
   | Some current \<Rightarrow>
       if wr_active_jobs current > 0 \<and> \<not> worker_spec_eq (reg_spec registration) (wr_spec current)
       then Inl (Conflict Topology_change)
       else if wr_active_jobs current > 0 \<and> reg_max_concurrency registration < wr_active_jobs current
       then Inl (Conflict Concurrency_below_active) else Inr ())"

definition pg_register_worker ::
  "worker_registration \<Rightarrow> instant \<Rightarrow> pg \<Rightarrow> (repo_error + worker_record) \<times> pg" where
  "pg_register_worker registration timestamp = transaction (\<lambda>db.
     let wid = ws_worker_id (reg_spec registration); existing = dict_get (pg_workers db) wid in
     rbind (case existing of None \<Rightarrow> Inr None
            | Some row \<Rightarrow> rbind (in_tx (worker_of_row row)) (\<lambda>w. Inr (Some w))) (\<lambda>current.
     rbind (check_reregistration registration current) (\<lambda>_.
     case gpu_overlap registration db of
       Some other \<Rightarrow> Inl (Conflict (Gpu_overlap other))
     | None \<Rightarrow>
         let registered_at = (case existing of Some row \<Rightarrow> w_registered_at row | None \<Rightarrow> timestamp);
             row = registration_row registration registered_at timestamp (running_count wid db) in
         rbind (write_worker wid row db) (\<lambda>db'.
         rbind (in_tx (worker_of_row row)) (\<lambda>w. Inr (w, db'))))))"

definition pg_get_worker :: "string \<Rightarrow> pg \<Rightarrow> repo_error + worker_record" where
  "pg_get_worker worker_id db = (case dict_get (pg_workers db) worker_id of
     None \<Rightarrow> Inl (Worker_not_found worker_id)
   | Some row \<Rightarrow> (case worker_of_row row of Inl _ \<Rightarrow> Inl (Row_error worker_id) | Inr w \<Rightarrow> Inr w))"

definition pg_set_worker_state ::
  "string \<Rightarrow> worker_state \<Rightarrow> instant \<Rightarrow> pg \<Rightarrow> (repo_error + worker_record) \<times> pg" where
  "pg_set_worker_state worker_id state timestamp = transaction (\<lambda>db.
     case dict_get (pg_workers db) worker_id of
       None \<Rightarrow> Inl (Worker_not_found worker_id)
     | Some row \<Rightarrow>
         rbind (in_tx (worker_of_row row)) (\<lambda>current.
         case (if state \<noteq> OFFLINE
               then gpu_overlap \<lparr>reg_spec = wr_spec current,
                      reg_max_concurrency = wr_max_concurrency current,
                      reg_metadata = wr_metadata current\<rparr> db
               else None) of
           Some other \<Rightarrow> Inl (Conflict (Gpu_overlap other))
         | None \<Rightarrow>
             let row' = row\<lparr>w_state := worker_state_value state, w_last_seen_at := timestamp\<rparr> in
             rbind (write_worker worker_id row' db) (\<lambda>db'.
             rbind (in_tx (worker_of_row row')) (\<lambda>w. Inr (w, db')))))"

text \<open>\<open>_assert_running_row\<close>\<close>

definition assert_running_row :: "job_row \<Rightarrow> string \<Rightarrow> string \<Rightarrow> instant \<Rightarrow> repo_error + unit" where
  "assert_running_row row worker_id lease_token now =
     (if j_status row \<noteq> ''running'' then Inl (Conflict (Not_running (j_id row)))
      else if j_assigned_worker_id row \<noteq> Some worker_id then Inl (Conflict (Other_worker (j_id row)))
      else if lease_token = [] \<or> j_lease_token row \<noteq> Some lease_token
      then Inl (Conflict (Stale_token (j_id row)))
      else (case j_lease_expires_at row of
              None \<Rightarrow> Inl (Conflict (Lease_expired (j_id row)))
            | Some t \<Rightarrow> if t \<le> now then Inl (Conflict (Lease_expired (j_id row))) else Inr ()))"

text \<open>The first half of \<open>heartbeat_worker\<close>: renewing the lease, before the worker is looked at.\<close>

definition renew_lease :: "string \<Rightarrow> worker_heartbeat \<Rightarrow> instant \<Rightarrow> pg \<Rightarrow> repo_error + pg" where
  "renew_lease worker_id hb timestamp db =
     (if hb_active_job_id hb = None \<and> hb_lease_token hb = None then Inr db
      else if hb_active_job_id hb \<in> {None, Some []} \<or> hb_lease_token hb \<in> {None, Some []}
      then Inl (Conflict Half_lease)
      else (let job_id = the (hb_active_job_id hb) in
        case dict_get (pg_jobs db) job_id of
          None \<Rightarrow> Inl (Job_not_found job_id)
        | Some row \<Rightarrow>
            rbind (assert_running_row row worker_id (the (hb_lease_token hb)) timestamp) (\<lambda>_.
              write_job job_id (row\<lparr>j_lease_expires_at := Some (timestamp + seconds (pg_lease_seconds db)),
                j_updated_at := timestamp\<rparr>) db)))"

text \<open>The second half: the worker's row, checked and updated.\<close>

definition touch_worker :: "string \<Rightarrow> worker_heartbeat \<Rightarrow> instant \<Rightarrow> worker_record tx" where
  "touch_worker worker_id hb timestamp db = (case dict_get (pg_workers db) worker_id of
     None \<Rightarrow> Inl (Worker_not_found worker_id)
   | Some row \<Rightarrow>
       rbind (in_tx (worker_of_row row)) (\<lambda>current.
       if wr_state current = OFFLINE \<and> (hb_state hb = Some ONLINE \<or> hb_state hb = Some DRAINING)
       then Inl (Conflict Offline_reacquire)
       else let row' = row\<lparr>
              w_state := worker_state_value (case hb_state hb of None \<Rightarrow> wr_state current | Some s \<Rightarrow> s),
              w_last_seen_at := timestamp, w_active_jobs := running_count worker_id db,
              w_metadata := JObj (dict_merge (wr_metadata current) (hb_metadata hb))\<rparr> in
         rbind (write_worker worker_id row' db) (\<lambda>db'.
         rbind (in_tx (worker_of_row row')) (\<lambda>w. Inr (w, db')))))"

definition pg_heartbeat_worker ::
  "string \<Rightarrow> worker_heartbeat \<Rightarrow> instant \<Rightarrow> pg \<Rightarrow> (repo_error + worker_record) \<times> pg" where
  "pg_heartbeat_worker worker_id hb timestamp = transaction (\<lambda>db.
     rbind (renew_lease worker_id hb timestamp db) (touch_worker worker_id hb timestamp))"

text \<open>
  \<open>expire_stale_workers\<close>: one \<open>UPDATE ... RETURNING\<close>; the rows are read back after the commit.
\<close>

definition stale_row :: "instant \<Rightarrow> worker_row \<Rightarrow> bool" where
  "stale_row cutoff w \<longleftrightarrow> w_state w \<noteq> ''offline'' \<and> w_last_seen_at w < cutoff"

definition pg_expire_stale_workers ::
  "instant \<Rightarrow> pg \<Rightarrow> (repo_error + worker_record list) \<times> pg" where
  "pg_expire_stale_workers timestamp db =
     (let cutoff = timestamp - seconds (pg_worker_ttl_seconds db);
          off = (\<lambda>w. w\<lparr>w_state := ''offline''\<rparr>);
          rows = map off (filter (stale_row cutoff) (dict_values (pg_workers db)));
          db' = db\<lparr>pg_workers := map (\<lambda>(k, w). (k, if stale_row cutoff w then off w else w)) (pg_workers db)\<rparr>
      in if list_all worker_row_ok rows
         then ((case rmap worker_of_row rows of Inl _ \<Rightarrow> Inl (Row_error ''workers'') | Inr ws \<Rightarrow> Inr ws), db')
         else (Inl Storage_unavailable, db))"

section \<open>Jobs\<close>

text \<open>\<open>SELECT * FROM jobs WHERE idempotency_key = ...\<close>; the column is unique.\<close>

definition row_by_key :: "string \<Rightarrow> pg \<Rightarrow> job_row option" where
  "row_by_key key db = List.find (\<lambda>j. j_idempotency_key j = Some key) (dict_values (pg_jobs db))"

text \<open>The columns of the \<open>INSERT INTO jobs\<close>, with the defaults of the others.\<close>

definition submission_row :: "job_submission \<Rightarrow> instant \<Rightarrow> string \<Rightarrow> int \<Rightarrow> job_row" where
  "submission_row sub timestamp job_id sequence =
     \<lparr>j_id = job_id, j_sequence = sequence, j_capability = sub_capability sub, j_status = ''queued'',
      j_payload = JObj (sub_payload sub),
      j_requirements = JObj (requirements_to_dict (sub_requirements sub)),
      j_priority = sub_priority sub, j_attempts = 0, j_max_attempts = sub_max_attempts sub,
      j_idempotency_key = sub_idempotency_key sub, j_assigned_worker_id = None,
      j_lease_token = None, j_result = None, j_error = None, j_created_at = timestamp,
      j_available_at = (case sub_available_at sub of Some t \<Rightarrow> t | None \<Rightarrow> timestamp),
      j_started_at = None, j_finished_at = None, j_lease_expires_at = None, j_updated_at = timestamp\<rparr>"

definition existing_submission :: "job_submission \<Rightarrow> job_row \<Rightarrow> repo_error + job_record" where
  "existing_submission sub row = rbind (in_tx (job_of_row row)) (\<lambda>record.
     if submission_matches record sub then Inr record else Inl (Conflict Idempotency_mismatch))"

definition pg_submit_job ::
  "job_submission \<Rightarrow> instant \<Rightarrow> string \<Rightarrow> pg \<Rightarrow> (repo_error + job_record) \<times> pg" where
  "pg_submit_job sub timestamp job_id = transaction (\<lambda>db.
     case (case sub_idempotency_key sub of
             Some k \<Rightarrow> if k = [] then None else row_by_key k db
           | None \<Rightarrow> None) of
       Some row \<Rightarrow> rbind (existing_submission sub row) (\<lambda>record. Inr (record, db))
     | None \<Rightarrow>
         (case Option.bind (sub_idempotency_key sub) (\<lambda>k. row_by_key k db) of
            Some row \<Rightarrow> rbind (existing_submission sub row) (\<lambda>record. Inr (record, db))
          | None \<Rightarrow>
              let row = submission_row sub timestamp job_id (pg_sequence db + 1) in
              rbind (if dict_get (pg_jobs db) job_id = None then write_job job_id row db
                     else Inl Storage_unavailable) (\<lambda>db'.
              rbind (in_tx (job_of_row row)) (\<lambda>record.
                Inr (record, db'\<lparr>pg_sequence := pg_sequence db + 1\<rparr>)))))"

definition pg_get_job :: "string \<Rightarrow> pg \<Rightarrow> repo_error + job_record" where
  "pg_get_job job_id db = (case dict_get (pg_jobs db) job_id of
     None \<Rightarrow> Inl (Job_not_found job_id)
   | Some row \<Rightarrow> (case job_of_row row of Inl _ \<Rightarrow> Inl (Row_error job_id) | Inr j \<Rightarrow> Inr j))"

text \<open>
  The \<open>WHERE\<close> clause of the claim query on one row. A requirement is cast to \<open>integer\<close>: the answer
  is \<open>None\<close> when that cast fails. The conditions are evaluated from left to right here; the planner
  may choose another order, which can only matter for rows whose cast fails.
\<close>

definition sql_integer :: "obj \<Rightarrow> string \<Rightarrow> int option" where
  "sql_integer d key = (case json_get d key of
     JNull \<Rightarrow> Some 0 | JInt n \<Rightarrow> if int4 n then Some n else None | _ \<Rightarrow> None)"

fun requirements_column :: "json \<Rightarrow> obj" where
  "requirements_column (JObj d) = d"
| "requirements_column _ = []"

fun array_texts_exist :: "json \<Rightarrow> json \<Rightarrow> bool" where
  "array_texts_exist (JList xs) available =
     list_all (\<lambda>x. case x of JStr t \<Rightarrow> jsonb_exists available t | _ \<Rightarrow> False) xs"
| "array_texts_exist _ available = True"

fun labels_contained :: "json \<Rightarrow> json \<Rightarrow> bool" where
  "labels_contained (JObj a) (JObj b) = list_all (\<lambda>(k, v). dict_get b k = Some v) a"
| "labels_contained JNull b = True"
| "labels_contained _ _ = False"

definition queue_row_matches :: "worker_spec \<Rightarrow> instant \<Rightarrow> job_row \<Rightarrow> bool" where
  "queue_row_matches spec timestamp row \<longleftrightarrow> (let d = requirements_column (j_requirements row) in
     j_status row = ''queued'' \<and> j_available_at row \<le> timestamp \<and>
     j_attempts row < j_max_attempts row \<and>
     jsonb_exists (json_sorted (ws_capabilities spec)) (j_capability row) \<and>
     (json_get d ''worker_class'' = JNull \<or> json_get d ''worker_class'' = JStr (ws_worker_class spec)) \<and>
     array_texts_exist (json_get d ''required_capabilities'') (json_sorted (ws_capabilities spec)) \<and>
     labels_contained (json_get d ''required_labels'') (json_labels (ws_labels spec)) \<and>
     array_texts_exist (json_get d ''required_gpu_uuids'') (JList (map JStr (ws_gpu_uuids spec))))"

definition claim_row_matches :: "worker_spec \<Rightarrow> instant \<Rightarrow> bool \<Rightarrow> job_row \<Rightarrow> bool option" where
  "claim_row_matches spec timestamp has_capacity row =
     (let d = requirements_column (j_requirements row); res = ws_resources spec in
      if \<not> queue_row_matches spec timestamp row then Some False
      else (case sql_integer d ''min_gpu_count'' of None \<Rightarrow> None | Some n1 \<Rightarrow>
        if gpu_count res < n1 then Some False
        else (case sql_integer d ''min_total_vram_mb'' of None \<Rightarrow> None | Some n2 \<Rightarrow>
          if total_vram_mb res < n2 then Some False
          else (case sql_integer d ''min_single_gpu_vram_mb'' of None \<Rightarrow> None | Some n3 \<Rightarrow>
            if max_single_gpu_vram_mb res < n3 then Some False else Some has_capacity))))"

definition claim_query :: "worker_row \<Rightarrow> worker_spec \<Rightarrow> instant \<Rightarrow> pg \<Rightarrow> repo_error + (string \<times> job_row) option" where
  "claim_query worker spec timestamp db =
     (let test = (\<lambda>p. claim_row_matches spec timestamp
            (w_active_jobs worker < w_max_concurrency worker) (snd p)) in
      if list_ex (\<lambda>p. test p = None) (pg_jobs db) then Inl Storage_unavailable
      else Inr (first_by (\<lambda>p. (- j_priority (snd p), j_sequence (snd p)))
                 (filter (\<lambda>p. test p = Some True) (pg_jobs db))))"

definition claimed_row :: "string \<Rightarrow> string \<Rightarrow> instant \<Rightarrow> int \<Rightarrow> job_row \<Rightarrow> job_row" where
  "claimed_row worker_id token timestamp lease row = row\<lparr>
     j_status := ''running'', j_attempts := j_attempts row + 1,
     j_assigned_worker_id := Some worker_id, j_lease_token := Some token,
     j_lease_expires_at := Some (timestamp + seconds lease), j_started_at := Some timestamp,
     j_finished_at := None, j_error := None, j_updated_at := timestamp\<rparr>"

definition pg_claim_next_job ::
  "string \<Rightarrow> instant \<Rightarrow> string \<Rightarrow> pg \<Rightarrow> (repo_error + job_record option) \<times> pg" where
  "pg_claim_next_job worker_id timestamp token = transaction (\<lambda>db.
     let cutoff = timestamp - seconds (pg_worker_ttl_seconds db) in
     case dict_get (pg_workers db) worker_id of
       None \<Rightarrow> Inl (Worker_not_found worker_id)
     | Some worker_row \<Rightarrow>
         rbind (in_tx (worker_of_row worker_row)) (\<lambda>worker.
         if wr_last_seen_at worker < cutoff
         then rbind (write_worker worker_id (worker_row\<lparr>w_state := ''offline''\<rparr>) db) (\<lambda>db'. Inr (None, db'))
         else if wr_state worker \<noteq> ONLINE then Inr (None, db)
         else rbind (claim_query worker_row (wr_spec worker) timestamp db) (\<lambda>found.
           case found of
             None \<Rightarrow> Inr (None, db)
           | Some (job_id, row) \<Rightarrow>
               if wr_active_jobs worker \<ge> wr_max_concurrency worker then Inr (None, db)
               else rbind (in_tx (job_of_row row)) (\<lambda>selected.
                 if jb_capability selected \<notin> ws_capabilities (wr_spec worker) \<or>
                    \<not> worker_matches (wr_spec worker) (jb_requirements selected)
                 then Inr (None, db)
                 else let row' = claimed_row worker_id token timestamp (pg_lease_seconds db) row in
                   rbind (write_job job_id row' db) (\<lambda>db'.
                   rbind (write_worker worker_id (worker_row\<lparr>w_active_jobs := w_active_jobs worker_row + 1\<rparr>) db') (\<lambda>db''.
                   rbind (in_tx (job_of_row row')) (\<lambda>claimed. Inr (Some claimed, db''))))))))"

text \<open>\<open>_decrement_worker\<close>: nothing happens when there is no such row.\<close>

definition decrement_worker :: "string option \<Rightarrow> pg \<Rightarrow> repo_error + pg" where
  "decrement_worker worker_id db = (case worker_id of
     None \<Rightarrow> Inr db
   | Some wid \<Rightarrow> (case dict_get (pg_workers db) wid of
       None \<Rightarrow> Inr db
     | Some row \<Rightarrow> write_worker wid (row\<lparr>w_active_jobs := max (w_active_jobs row - 1) 0\<rparr>) db))"

text \<open>The end of the transactions that change one job: write it, then release the worker.\<close>

definition finish_job :: "string \<Rightarrow> job_row \<Rightarrow> string option \<Rightarrow> pg \<Rightarrow> repo_error + job_record \<times> pg" where
  "finish_job job_id row worker_id db =
     rbind (write_job job_id row db) (\<lambda>db'.
     rbind (decrement_worker worker_id db') (\<lambda>db''.
     rbind (in_tx (job_of_row row)) (\<lambda>record. Inr (record, db''))))"

definition completed_row :: "job_result \<Rightarrow> instant \<Rightarrow> job_row \<Rightarrow> job_row" where
  "completed_row result timestamp row = row\<lparr>
     j_status := ''succeeded'', j_result := Some (JObj (job_result_to_dict result)), j_error := None,
     j_assigned_worker_id := None, j_lease_token := None, j_lease_expires_at := None,
     j_finished_at := Some timestamp, j_updated_at := timestamp\<rparr>"

definition pg_complete_job ::
  "string \<Rightarrow> job_result \<Rightarrow> string \<Rightarrow> string \<Rightarrow> instant \<Rightarrow> pg \<Rightarrow> (repo_error + job_record) \<times> pg" where
  "pg_complete_job job_id result worker_id lease_token timestamp = transaction (\<lambda>db.
     case dict_get (pg_jobs db) job_id of
       None \<Rightarrow> Inl (Job_not_found job_id)
     | Some row \<Rightarrow>
         rbind (assert_running_row row worker_id lease_token timestamp) (\<lambda>_.
           finish_job job_id (completed_row result timestamp row) (Some worker_id) db))"

text \<open>The \<open>UPDATE jobs\<close> that \<open>fail_job\<close> and \<open>recover_expired_jobs\<close> share.\<close>

definition failed_row :: "bool \<Rightarrow> obj \<Rightarrow> instant \<Rightarrow> job_row \<Rightarrow> job_row" where
  "failed_row should_retry err timestamp row = row\<lparr>
     j_status := (if should_retry then ''queued'' else ''failed''), j_error := Some (JObj err),
     j_assigned_worker_id := None, j_lease_token := None, j_lease_expires_at := None,
     j_started_at := (if should_retry then None else j_started_at row),
     j_finished_at := (if should_retry then None else Some timestamp),
     j_available_at := (if should_retry then timestamp else j_available_at row),
     j_updated_at := timestamp\<rparr>"

definition pg_fail_job ::
  "string \<Rightarrow> failure \<Rightarrow> bool \<Rightarrow> string \<Rightarrow> string \<Rightarrow> instant \<Rightarrow> pg \<Rightarrow> (repo_error + job_record) \<times> pg" where
  "pg_fail_job job_id err retryable worker_id lease_token timestamp = transaction (\<lambda>db.
     case dict_get (pg_jobs db) job_id of
       None \<Rightarrow> Inl (Job_not_found job_id)
     | Some row \<Rightarrow>
         rbind (assert_running_row row worker_id lease_token timestamp) (\<lambda>_.
         let should_retry = (retryable \<and> j_attempts row < j_max_attempts row) in
           finish_job job_id (failed_row should_retry (failure_payload err should_retry) timestamp row)
             (Some worker_id) db))"

definition cancelled_row :: "instant \<Rightarrow> job_row \<Rightarrow> job_row" where
  "cancelled_row timestamp row = row\<lparr>
     j_status := ''cancelled'', j_assigned_worker_id := None, j_lease_token := None,
     j_lease_expires_at := None, j_finished_at := Some timestamp, j_updated_at := timestamp\<rparr>"

definition pg_cancel_job :: "string \<Rightarrow> instant \<Rightarrow> pg \<Rightarrow> (repo_error + job_record) \<times> pg" where
  "pg_cancel_job job_id timestamp = transaction (\<lambda>db.
     case dict_get (pg_jobs db) job_id of
       None \<Rightarrow> Inl (Job_not_found job_id)
     | Some row \<Rightarrow>
         rbind (in_tx (job_of_row row)) (\<lambda>job.
         if jb_status job \<in> {SUCCEEDED, FAILED, CANCELLED} then Inr (job, db)
         else finish_job job_id (cancelled_row timestamp row)
                (if jb_status job = RUNNING then jb_assigned_worker_id job else None) db))"

text \<open>
  \<open>recover_expired_jobs\<close>: one transaction per lapsed job, in the order of submission, until the
  query finds none. Each round leaves one lapsed row fewer, so the loop ends.
\<close>

definition lapsed_row :: "instant \<Rightarrow> job_row \<Rightarrow> bool" where
  "lapsed_row timestamp row \<longleftrightarrow> j_status row = ''running'' \<and>
     (case j_lease_expires_at row of None \<Rightarrow> False | Some t \<Rightarrow> t \<le> timestamp)"

definition next_lapsed :: "instant \<Rightarrow> pg \<Rightarrow> (string \<times> job_row) option" where
  "next_lapsed timestamp db =
     first_by (\<lambda>p. j_sequence (snd p)) (filter (\<lambda>p. lapsed_row timestamp (snd p)) (pg_jobs db))"

definition recover_row :: "instant \<Rightarrow> string \<Rightarrow> job_row \<Rightarrow> job_record tx" where
  "recover_row timestamp job_id row = (let should_retry = j_attempts row < j_max_attempts row in
     finish_job job_id (failed_row should_retry (expired_error should_retry) timestamp row)
       (j_assigned_worker_id row))"

definition lapsed_count :: "instant \<Rightarrow> pg \<Rightarrow> nat" where
  "lapsed_count timestamp db = length (filter (\<lambda>p. lapsed_row timestamp (snd p)) (pg_jobs db))"

lemma filter_update_less:
  assumes "(k, v) \<in> set d" "p v" "\<not> p v'" "distinct (map fst d)"
  shows "length (filter (\<lambda>x. p (snd x)) (dict_set k v' d)) < length (filter (\<lambda>x. p (snd x)) d)"
  using assms
proof (induction d)
  case (Cons x d)
  obtain k1 v1 where x: "x = (k1, v1)" by (cases x)
  show ?case
  proof (cases "k1 = k")
    case True
    then have "v1 = v" using Cons.prems x by (auto simp: rev_image_eqI)
    then show ?thesis using Cons.prems x True by simp
  next
    case False
    then show ?thesis using Cons x by auto
  qed
qed simp

lemma decrement_worker_jobs: "decrement_worker w db = Inr db' \<Longrightarrow> pg_jobs db' = pg_jobs db"
  by (auto simp: decrement_worker_def write_worker_def split: option.splits if_splits)

lemma recover_row_less:
  assumes "next_lapsed t db = Some (k, row)" "recover_row t k row db = Inr (x, db')" "dict_ok (pg_jobs db)"
  shows "lapsed_count t db' < lapsed_count t db" and "dict_ok (pg_jobs db')"
proof -
  have row: "(k, row) \<in> set (pg_jobs db)" "lapsed_row t row"
    using first_by_Some(1) [OF assms(1) [unfolded next_lapsed_def]] by auto
  from assms(2) obtain b e where jobs: "pg_jobs db' = dict_set k (failed_row b e t row) (pg_jobs db)"
    by (auto simp: recover_row_def finish_job_def Let_def rbind_eq_Inr write_job_def
        dest!: decrement_worker_jobs split: if_splits)
  have "\<not> lapsed_row t (failed_row b e t row)" by (simp add: lapsed_row_def failed_row_def)
  then show "lapsed_count t db' < lapsed_count t db"
    using row assms(3) unfolding lapsed_count_def jobs by (intro filter_update_less) auto
  show "dict_ok (pg_jobs db')" using assms(3) unfolding jobs by simp
qed

text \<open>The loop; tables have distinct primary keys, otherwise there is no such database.\<close>

function recover_rounds :: "instant \<Rightarrow> job_record list \<Rightarrow> pg \<Rightarrow> (repo_error + job_record list) \<times> pg" where
  "recover_rounds timestamp recovered db =
     (if \<not> dict_ok (pg_jobs db) then (Inl Storage_unavailable, db)
      else case next_lapsed timestamp db of
        None \<Rightarrow> (Inr recovered, db)
      | Some (job_id, row) \<Rightarrow> (case recover_row timestamp job_id row db of
          Inl e \<Rightarrow> (Inl e, db)
        | Inr (record, db') \<Rightarrow> recover_rounds timestamp (recovered @ [record]) db'))"
  by pat_completeness auto

termination
  by (relation "measure (\<lambda>(t, _, db). lapsed_count t db)") (auto dest: recover_row_less(1))

declare recover_rounds.simps [simp del]

definition pg_recover_expired_jobs ::
  "instant \<Rightarrow> pg \<Rightarrow> (repo_error + job_record list) \<times> pg" where
  "pg_recover_expired_jobs timestamp db = recover_rounds timestamp [] db"

section \<open>The repository as a machine\<close>

fun pg_step :: "pg \<Rightarrow> repo_op \<times> instant \<Rightarrow> pg" where
  "pg_step db (Register g, t) = snd (pg_register_worker g t db)"
| "pg_step db (Set_State w s, t) = snd (pg_set_worker_state w s t db)"
| "pg_step db (Heartbeat w h, t) = snd (pg_heartbeat_worker w h t db)"
| "pg_step db (Expire_Stale, t) = snd (pg_expire_stale_workers t db)"
| "pg_step db (Submit s i, t) = snd (pg_submit_job s t i db)"
| "pg_step db (Claim w k, t) = snd (pg_claim_next_job w t k db)"
| "pg_step db (Complete j x w k, t) = snd (pg_complete_job j x w k t db)"
| "pg_step db (Fail j e b w k, t) = snd (pg_fail_job j e b w k t db)"
| "pg_step db (Cancel j, t) = snd (pg_cancel_job j t db)"
| "pg_step db (Recover, t) = snd (pg_recover_expired_jobs t db)"

text \<open>
  \<open>check_storage\<close>: the migrations this binary needs (\<open>None\<close> when their files are missing), whether the
  three tables exist, and the names recorded in \<open>schema_migrations\<close>.
\<close>

definition pg_check_storage :: "string list option \<Rightarrow> bool \<Rightarrow> bool \<Rightarrow> bool \<Rightarrow> string list \<Rightarrow> repo_error option" where
  "pg_check_storage required workers jobs schema_migrations applied = (case required of
     None \<Rightarrow> Some Storage_unavailable
   | Some names \<Rightarrow>
       if \<not> workers \<or> \<not> jobs \<or> \<not> schema_migrations then Some Storage_unavailable
       else if filter (\<lambda>n. n \<notin> set applied) names \<noteq> [] then Some Storage_unavailable
       else None)"

definition init_pg :: "string \<Rightarrow> int \<Rightarrow> int \<Rightarrow> pg res" where
  "init_pg database_url ttl lease =
     (if database_url = [] then Inl (ValueError (Required ''database_url''))
      else if ttl < 1 then Inl (ValueError (Must_be_positive ''worker_ttl_seconds''))
      else if lease < 1 then Inl (ValueError (Must_be_positive ''lease_seconds''))
      else Inr \<lparr>pg_worker_ttl_seconds = ttl, pg_lease_seconds = lease, pg_workers = [], pg_jobs = [],
                pg_sequence = 0\<rparr>)"

end
