(* ===== verification/Repository_Props.thy ===== *)
theory Repository_Props
  imports Repository_Life
begin

text \<open>
  The properties of the in-memory repository: ownership and accounting invariants of reachable
  states, lease fencing, the choice of a claim, the history of a job, idempotent submission and
  the two maintenance sweeps, each with an instance on a small concrete repository.
\<close>

section \<open>Example values\<close>

definition ex_spec :: "string \<Rightarrow> string \<Rightarrow> worker_spec" where
  "ex_spec wid gpu = \<lparr>ws_worker_id = wid, ws_worker_class = ''c'',
     ws_resources = \<lparr>gpu_count = 1, total_vram_mb = 24, max_single_gpu_vram_mb = 24\<rparr>,
     ws_gpu_uuids = [gpu], ws_accelerators = [], ws_capabilities = {''x''}, ws_labels = []\<rparr>"

definition ex_reg :: "string \<Rightarrow> string \<Rightarrow> worker_registration" where
  "ex_reg wid gpu = \<lparr>reg_spec = ex_spec wid gpu, reg_max_concurrency = 1, reg_metadata = []\<rparr>"

definition ex_req :: job_requirements where
  "ex_req = \<lparr>jr_worker_class = None, jr_required_capabilities = {}, jr_required_labels = [],
     jr_required_gpu_uuids = {}, jr_min_gpu_count = 1, jr_min_total_vram_mb = 20,
     jr_min_single_gpu_vram_mb = 20\<rparr>"

definition ex_sub :: "int \<Rightarrow> job_submission" where
  "ex_sub p = \<lparr>sub_capability = ''x'', sub_payload = [], sub_requirements = ex_req,
     sub_priority = p, sub_max_attempts = 2, sub_idempotency_key = Some ''k'', sub_available_at = None\<rparr>"

definition ex_repo :: repo where
  "ex_repo = \<lparr>worker_ttl_seconds = 60, lease_seconds = 300, r_workers = [], r_jobs = [],
     r_idempotency = [], r_sequence = 0\<rparr>"

lemmas ex_defs = ex_spec_def ex_reg_def ex_req_def ex_sub_def ex_repo_def

lemma ex_init: "init_repository 60 300 = Inr ex_repo"
  by (simp add: init_repository_def ex_repo_def)

lemma ex_strip: "py_strip ''x'' = ''x''" "py_strip ''c'' = ''c''" "py_strip ''w'' = ''w''"
    "py_strip ''v'' = ''v''" "py_strip ''A'' = ''A''" "py_strip ''B'' = ''B''"
  by (code_simp)+

lemma ex_reg_ok: "wid \<in> {''w'', ''v''} \<Longrightarrow> gpu \<in> {''A'', ''B''} \<Longrightarrow> registration_ok (ex_reg wid gpu)"
  by (auto simp: ex_defs registration_ok_def worker_spec_ok_def norm_text_def labels_ok_def ex_strip)

lemma ex_sub_ok: "submission_ok (ex_sub p)"
  by (simp add: ex_defs submission_ok_def norm_text_def ex_strip)

section \<open>Reachable repositories\<close>

lemma reachable_inv:
  "init_repository a b = Inr r0 \<Longrightarrow> admissible op_ok repo_step r0 ops \<Longrightarrow> repo_inv (run repo_step r0 ops)"
  by (intro mem.run_inv init_repository_inv)

text \<open>
  C2. In every repository reached from an empty one by admissible operations, two different
  workers that own their resources (not OFFLINE, or with jobs still running) share no GPU.
\<close>

theorem gpu_ownership_exclusive:
  assumes "init_repository ttl lease = Inr r0" and "admissible op_ok repo_step r0 ops"
    and "dict_get (r_workers (run repo_step r0 ops)) k1 = Some w1"
    and "dict_get (r_workers (run repo_step r0 ops)) k2 = Some w2"
    and "k1 \<noteq> k2" and "owns_resources w1" and "owns_resources w2"
  shows "set (ws_gpu_uuids (wr_spec w1)) \<inter> set (ws_gpu_uuids (wr_spec w2)) = {}"
  using reachable_inv [OF assms(1,2)] assms(3-7)
  by (auto simp: repo_inv_def gpu_exclusive_def)

definition ex_two_workers :: "(repo_op \<times> instant) list" where
  "ex_two_workers = [(Register (ex_reg ''w'' ''A''), 0), (Register (ex_reg ''v'' ''B''), 1)]"

lemma ex_two_workers_ok: "admissible op_ok repo_step ex_repo ex_two_workers"
  by (simp add: ex_two_workers_def ex_reg_ok)

theorem gpu_ownership_exclusive_witness:
  "\<exists>w1 w2. dict_get (r_workers (run repo_step ex_repo ex_two_workers)) ''w'' = Some w1 \<and>
     dict_get (r_workers (run repo_step ex_repo ex_two_workers)) ''v'' = Some w2 \<and>
     set (ws_gpu_uuids (wr_spec w1)) \<inter> set (ws_gpu_uuids (wr_spec w2)) = {}"
proof -
  obtain w1 w2 where w: "dict_get (r_workers (run repo_step ex_repo ex_two_workers)) ''w'' = Some w1"
    "dict_get (r_workers (run repo_step ex_repo ex_two_workers)) ''v'' = Some w2"
    and "owns_resources w1" "owns_resources w2"
    by (simp add: ex_two_workers_def ex_defs register_worker_def assert_gpu_ownership_available_def
        owns_resources_def Let_def)
  then show ?thesis
    using gpu_ownership_exclusive [OF ex_init ex_two_workers_ok, of "''w''" w1 "''v''" w2] by simp
qed


text \<open>
  C3. In every reachable repository the count of active jobs a worker carries is the number of
  stored jobs that run on it, and it never exceeds the worker's concurrency.
\<close>

theorem capacity_accounting:
  assumes "init_repository ttl lease = Inr r0" and "admissible op_ok repo_step r0 ops"
    and "dict_get (r_workers (run repo_step r0 ops)) k = Some w"
  shows "wr_active_jobs w =
      int (length (filter (\<lambda>j. jb_status j = RUNNING \<and> jb_assigned_worker_id j = Some k)
        (dict_values (r_jobs (run repo_step r0 ops))))) \<and>
    wr_active_jobs w \<le> wr_max_concurrency w"
proof -
  have inv: "repo_inv (run repo_step r0 ops)" using assms(1,2) by (rule reachable_inv)
  then have "wr_active_jobs w = active_job_count (run repo_step r0 ops) k" "worker_wf k w"
    using assms(3) by (auto simp: repo_inv_def accounting_def workers_wf_def)
  then show ?thesis
    by (simp add: active_job_count_def count_values_def runs_on_def [abs_def] worker_wf_def)
qed

definition ex_claimed :: "(repo_op \<times> instant) list" where
  "ex_claimed = [(Register (ex_reg ''w'' ''A''), 0), (Submit (ex_sub 5) ''j'', 1), (Claim ''w'' ''t'', 2)]"

definition ex_worker :: worker_record where
  "ex_worker = \<lparr>wr_spec = ex_spec ''w'' ''A'', wr_max_concurrency = 1, wr_state = ONLINE,
     wr_active_jobs = 1, wr_registered_at = 0, wr_last_seen_at = 0, wr_metadata = []\<rparr>"

definition ex_job :: job_record where
  "ex_job = \<lparr>jb_job_id = ''j'', jb_capability = ''x'', jb_payload = [], jb_requirements = ex_req,
     jb_priority = 5, jb_sequence = 1, jb_status = RUNNING, jb_attempts = 1, jb_max_attempts = 2,
     jb_idempotency_key = Some ''k'', jb_created_at = 1, jb_available_at = 1, jb_updated_at = 2,
     jb_assigned_worker_id = Some ''w'', jb_lease_token = Some ''t'',
     jb_lease_expires_at = Some 300000002, jb_started_at = Some 2, jb_finished_at = None,
     jb_result = None, jb_error = None\<rparr>"

definition ex_running :: repo where
  "ex_running = \<lparr>worker_ttl_seconds = 60, lease_seconds = 300, r_workers = [(''w'', ex_worker)],
     r_jobs = [(''j'', ex_job)], r_idempotency = [(''k'', ''j'')], r_sequence = 1\<rparr>"

lemma ex_claimed_run: "run repo_step ex_repo ex_claimed = ex_running"
  by (simp add: ex_claimed_def ex_running_def ex_worker_def ex_job_def ex_defs register_worker_def
      assert_gpu_ownership_available_def submit_job_def new_job_def claim_next_job_def get_worker_def
      eligible_def worker_matches_satisfies satisfies_def first_by_def claimed_record_def
      active_job_count_def seconds_def Let_def)

lemma ex_claimed_ok: "admissible op_ok repo_step ex_repo ex_claimed"
  by (simp add: ex_claimed_def ex_reg_ok ex_sub_ok register_worker_def ex_repo_def
      assert_gpu_ownership_available_def Let_def split: option.splits)

lemma ex_running_inv: "repo_inv ex_running"
  using reachable_inv [OF ex_init ex_claimed_ok] by (simp add: ex_claimed_run)

theorem capacity_accounting_witness:
  "wr_active_jobs ex_worker = int (length (filter (\<lambda>j. jb_status j = RUNNING \<and>
      jb_assigned_worker_id j = Some ''w'') (dict_values (r_jobs ex_running)))) \<and>
   wr_active_jobs ex_worker = 1"
  using capacity_accounting [OF ex_init ex_claimed_ok, of "''w''" ex_worker]
  unfolding ex_claimed_run by (simp add: ex_running_def ex_worker_def)

text \<open>
  C6. In every reachable repository a stored job is consistent: it is filed under its own id; it
  has a worker, a non-empty token and a lease end exactly while it is RUNNING; it is finished
  exactly when it is terminal; it carries a result exactly when it succeeded; a queued job still
  has an attempt left and no job has more attempts than allowed.
\<close>

theorem job_record_consistent:
  assumes "init_repository ttl lease = Inr r0" and "admissible op_ok repo_step r0 ops"
    and "dict_get (r_jobs (run repo_step r0 ops)) i = Some j"
  shows "jb_job_id j = i \<and> 0 \<le> jb_attempts j \<and> jb_attempts j \<le> jb_max_attempts j \<and>
    (jb_status j = QUEUED \<longrightarrow> jb_attempts j < jb_max_attempts j) \<and>
    (jb_status j = RUNNING \<longleftrightarrow> jb_assigned_worker_id j \<noteq> None) \<and>
    (jb_status j = RUNNING \<longleftrightarrow> jb_lease_token j \<noteq> None) \<and> jb_lease_token j \<noteq> Some [] \<and>
    (jb_status j = RUNNING \<longleftrightarrow> jb_lease_expires_at j \<noteq> None) \<and>
    (jb_finished_at j \<noteq> None \<longleftrightarrow> jb_status j \<in> {SUCCEEDED, FAILED, CANCELLED}) \<and>
    (jb_result j \<noteq> None \<longleftrightarrow> jb_status j = SUCCEEDED)"
proof -
  have "job_wf i j"
    using reachable_inv [OF assms(1,2)] assms(3) by (auto simp: repo_inv_def jobs_wf_def)
  then show ?thesis
    by (cases "jb_status j") (auto simp: job_wf_def terminal_def)
qed

theorem job_record_consistent_witness:
  "jb_job_id ex_job = ''j'' \<and> jb_lease_token ex_job \<noteq> None \<and> jb_finished_at ex_job = None"
  using job_record_consistent [OF ex_init ex_claimed_ok, of "''j''" ex_job]
  unfolding ex_claimed_run by (simp add: ex_running_def ex_job_def)

section \<open>Fencing\<close>

lemma stale_rejected:
  assumes "\<not> holds_token r i k"
  shows "\<exists>e. complete_job i x w k t r = (Inl e, r)" "\<exists>e. fail_job i f b w k t r = (Inl e, r)"
    "hb_active_job_id h = Some i \<Longrightarrow> hb_lease_token h = Some k \<Longrightarrow>
       \<exists>e. heartbeat_worker w h t r = (Inl e, r)"
proof -
  have no: "\<exists>e. assert_running j w k t = Some e" if "get_job i r = Inr j" for j w
    using assms that assert_running_None [of j w k t]
    by (cases "assert_running j w k t") (auto simp: holds_token_def get_job_Inr)
  show "\<exists>e. complete_job i x w k t r = (Inl e, r)"
  proof (cases "get_job i r")
    case (Inr j)
    with no [OF this, of w] show ?thesis by (auto simp: complete_job_def)
  qed (simp add: complete_job_def)
  show "\<exists>e. fail_job i f b w k t r = (Inl e, r)"
  proof (cases "get_job i r")
    case (Inr j)
    with no [OF this, of w] show ?thesis by (auto simp: fail_job_def)
  qed (simp add: fail_job_def)
  assume h: "hb_active_job_id h = Some i" "hb_lease_token h = Some k"
  show "\<exists>e. heartbeat_worker w h t r = (Inl e, r)"
  proof (cases "get_job i r")
    case (Inl e)
    with h show ?thesis by (auto simp: heartbeat_worker_def split: sum.splits)
  next
    case (Inr j)
    with no [OF this, of w] h show ?thesis by (auto simp: heartbeat_worker_def split: sum.splits)
  qed
qed

text \<open>
  C1. Lease fencing. Once a token is not the current token of a job (the attempt it stood for was
  completed, failed, cancelled or recovered), and it is never drawn again by a claim, then after
  any admissible operations, at any time and for any worker, completing or failing the job with
  it is rejected, so is renewing the lease with it, and the repository is left as it was.
\<close>

theorem stale_token_fenced:
  assumes "repo_inv r" and "\<not> holds_token r i k" and "admissible (fence_ok k) repo_step r ops"
  shows "(\<exists>e. complete_job i x w k t (run repo_step r ops) = (Inl e, run repo_step r ops)) \<and>
    (\<exists>e. fail_job i f b w k t (run repo_step r ops) = (Inl e, run repo_step r ops)) \<and>
    (\<exists>e. heartbeat_worker w \<lparr>hb_state = st, hb_active_job_id = Some i, hb_lease_token = Some k,
        hb_metadata = md\<rparr> t (run repo_step r ops) = (Inl e, run repo_step r ops))"
proof -
  have "fenced i k (run repo_step r ops)"
    using assms by (intro fence.run_inv) (simp_all add: fenced_def)
  then have "\<not> holds_token (run repo_step r ops) i k" by (simp add: fenced_def)
  from stale_rejected [OF this] show ?thesis by simp
qed

text \<open>The worker's lease ends at 300000002; recovery at that time and a new claim with token u.\<close>

definition ex_reclaim :: "(repo_op \<times> instant) list" where
  "ex_reclaim = [(Heartbeat ''w'' \<lparr>hb_state = None, hb_active_job_id = None, hb_lease_token = None,
     hb_metadata = []\<rparr>, 300000002), (Claim ''w'' ''u'', 300000003)]"

definition ex_recovered :: repo where
  "ex_recovered = snd (recover_expired_jobs 300000002 ex_running)"

lemma ex_recovered_fenced: "repo_inv ex_recovered \<and> \<not> holds_token ex_recovered ''j'' ''t''"
proof -
  have "dict_get (r_jobs ex_running) ''j'' = Some ex_job" by (simp add: ex_running_def)
  from recover_job [OF ex_running_inv this, of 300000002] show ?thesis
    using recover_expired_jobs_inv [OF ex_running_inv]
    by (simp add: ex_recovered_def holds_token_def lease_lapsed_def ex_job_def failed_record_def)
qed

theorem stale_token_fenced_witness:
  "\<exists>e. complete_job ''j'' (\<lparr>re_outputs = [], re_artifacts = [], re_metrics = [], re_text = None,
      re_metadata = []\<rparr>) ''w'' ''t'' 300000004 (run repo_step ex_recovered ex_reclaim) =
     (Inl e, run repo_step ex_recovered ex_reclaim)"
  using stale_token_fenced [of ex_recovered "''j''" "''t''" ex_reclaim] ex_recovered_fenced
  by (simp add: ex_reclaim_def fence_ok_def)

section \<open>Claiming\<close>

lemma claim_key_unique:
  assumes inv: "repo_inv r" and a: "dict_get (r_jobs r) i = Some a" and b: "dict_get (r_jobs r) k = Some b"
    and le: "claim_key a \<le> claim_key b" "claim_key b \<le> claim_key a"
  shows "a = b"
proof -
  have "jb_sequence a = jb_sequence b" using le by (auto simp: claim_key_def)
  moreover have "seq_inj (dict_get (r_jobs r))" using inv by (simp add: repo_inv_def)
  ultimately have "i = k" using a b unfolding seq_inj_def by blast
  with a b show ?thesis by simp
qed

lemma first_eligible_iff:
  assumes inv: "repo_inv r"
  shows "first_by claim_key (filter (eligible w t) (dict_values (r_jobs r))) = Some j \<longleftrightarrow>
    dict_get (r_jobs r) (jb_job_id j) = Some j \<and> eligible w t j \<and>
    (\<forall>i j'. dict_get (r_jobs r) i = Some j' \<longrightarrow> eligible w t j' \<longrightarrow> claim_key j \<le> claim_key j')"
    (is "?f = Some j \<longleftrightarrow> ?best j")
proof -
  have best: "?best s" if f: "?f = Some s" for s
  proof (intro conjI allI impI)
    show "dict_get (r_jobs r) (jb_job_id s) = Some s" "eligible w t s"
      using first_eligible [OF f inv] by auto
    fix i j' assume "dict_get (r_jobs r) i = Some j'" "eligible w t j'"
    then have "j' \<in> set (filter (eligible w t) (dict_values (r_jobs r)))"
      using dict_get_value [of "r_jobs r" i j'] by simp
    then show "claim_key s \<le> claim_key j'" by (rule first_by_Some(2) [OF f])
  qed
  show ?thesis
  proof
    assume "?f = Some j" then show "?best j" by (rule best)
  next
    assume b: "?best j"
    then have "j \<in> set (filter (eligible w t) (dict_values (r_jobs r)))"
      using dict_get_value [of "r_jobs r" "jb_job_id j" j] by simp
    then have "?f \<noteq> None" unfolding first_by_None by (metis empty_iff list.set(1))
    then obtain s where s: "?f = Some s" by blast
    from best [OF s] b have "s = j"
      by (intro claim_key_unique [OF inv, of "jb_job_id s" s "jb_job_id j" j]) auto
    with s show "?f = Some j" by simp
  qed
qed

text \<open>
  C4. A claim hands out a job exactly when the worker's last contact is no older than its time to
  live, the worker is ONLINE and below its concurrency, and some job is eligible for it; the job
  handed out is then the one of highest priority and, among those, the oldest submission, now
  RUNNING on that worker under the fresh token, with one more attempt and a full lease.
\<close>

theorem claim_selects_best:
  assumes "repo_inv r" and "dict_get (r_workers r) k = Some w"
  shows "fst (claim_next_job k t tok r) = Inr (Some c) \<longleftrightarrow>
    t - wr_last_seen_at w \<le> seconds (worker_ttl_seconds r) \<and> wr_state w = ONLINE \<and>
    wr_active_jobs w < wr_max_concurrency w \<and>
    (\<exists>j. dict_get (r_jobs r) (jb_job_id j) = Some j \<and> eligible w t j \<and>
       (\<forall>i j'. dict_get (r_jobs r) i = Some j' \<longrightarrow> eligible w t j' \<longrightarrow>
          jb_priority j' < jb_priority j \<or>
          jb_priority j' = jb_priority j \<and> jb_sequence j \<le> jb_sequence j') \<and>
       c = claimed_record k tok t (lease_seconds r) j)"
proof -
  have key: "claim_key a \<le> claim_key b \<longleftrightarrow> jb_priority b < jb_priority a \<or>
      jb_priority b = jb_priority a \<and> jb_sequence a \<le> jb_sequence b" for a b
    by (auto simp: claim_key_def)
  have "fst (claim_next_job k t tok r) = Inr (Some c) \<longleftrightarrow>
    t - wr_last_seen_at w \<le> seconds (worker_ttl_seconds r) \<and> wr_state w = ONLINE \<and>
    wr_active_jobs w < wr_max_concurrency w \<and>
    (\<exists>j. first_by claim_key (filter (eligible w t) (dict_values (r_jobs r))) = Some j \<and>
       c = claimed_record k tok t (lease_seconds r) j)"
    using assms(2)
    by (auto simp: claim_next_job_def get_worker_def Let_def first_by_def split: option.splits list.splits)
  then show ?thesis
    unfolding first_eligible_iff [OF assms(1)] key by blast
qed

text \<open>A repository with one free worker and two queued jobs, the second of higher priority.\<close>

definition ex_queue :: "(repo_op \<times> instant) list" where
  "ex_queue = [(Register (ex_reg ''w'' ''A''), 0),
     (Submit ((ex_sub 5)\<lparr>sub_idempotency_key := None\<rparr>) ''i'', 1),
     (Submit ((ex_sub 7)\<lparr>sub_idempotency_key := None\<rparr>) ''j'', 1)]"

lemmas run_simps = register_worker_def assert_gpu_ownership_available_def submit_job_def new_job_def
  claim_next_job_def get_worker_def get_job_def eligible_def worker_matches_satisfies satisfies_def first_by_def
  claimed_record_def active_job_count_def seconds_def Let_def claim_key_def

lemma ex_queue_ok: "admissible op_ok repo_step ex_repo ex_queue"
  by (simp add: ex_queue_def ex_reg_ok run_simps ex_repo_def ex_sub_def submission_ok_def norm_text_def
      ex_strip split: option.splits)

theorem claim_selects_best_witness:
  "\<exists>c. fst (claim_next_job ''w'' 2 ''t'' (run repo_step ex_repo ex_queue)) = Inr (Some c) \<and>
     jb_job_id c = ''j'' \<and> jb_status c = RUNNING"
proof -
  let ?r = "run repo_step ex_repo ex_queue"
  have inv: "repo_inv ?r" by (rule reachable_inv [OF ex_init ex_queue_ok])
  obtain w where w: "dict_get (r_workers ?r) ''w'' = Some w"
    by (simp add: ex_queue_def ex_defs run_simps)
  obtain c where c: "fst (claim_next_job ''w'' 2 ''t'' ?r) = Inr (Some c)" "jb_job_id c = ''j''"
    by (simp add: ex_queue_def ex_defs run_simps)
  from claim_selects_best [OF inv w, of 2 "''t''" c] c have "jb_status c = RUNNING"
    by (auto simp: claimed_record_def)
  with c show ?thesis by blast
qed

section \<open>Histories of jobs\<close>

text \<open>
  C7. Whatever admissible operations follow, a stored job is never lost, keeps its id, request,
  priority, sequence number, budget and creation time, its attempts never go down, and once it is
  SUCCEEDED, FAILED or CANCELLED its whole record never changes again.
\<close>

theorem terminal_jobs_immutable:
  assumes "repo_inv r" and "admissible op_ok repo_step r ops" and "dict_get (r_jobs r) i = Some j"
  shows "\<exists>j'. dict_get (r_jobs (run repo_step r ops)) i = Some j' \<and>
    jb_job_id j' = jb_job_id j \<and> jb_capability j' = jb_capability j \<and> jb_payload j' = jb_payload j \<and>
    jb_requirements j' = jb_requirements j \<and> jb_priority j' = jb_priority j \<and>
    jb_sequence j' = jb_sequence j \<and> jb_max_attempts j' = jb_max_attempts j \<and>
    jb_created_at j' = jb_created_at j \<and> jb_attempts j \<le> jb_attempts j' \<and>
    (jb_status j \<in> {SUCCEEDED, FAILED, CANCELLED} \<longrightarrow> j' = j)"
proof -
  have "history r (run repo_step r ops)" using assms(1,2) by (rule hist.run_rel)
  with assms(3) obtain j' where "dict_get (r_jobs (run repo_step r ops)) i = Some j'" "kept j j'"
    unfolding history_def by blast
  then show ?thesis by (auto simp: kept_def terminal_def)
qed

definition ex_cancelled :: repo where
  "ex_cancelled = snd (cancel_job ''j'' 5 ex_running)"

lemma ex_cancelled_job: "dict_get (r_jobs ex_cancelled) ''j'' = Some (cancelled_record 5 ex_job)"
  by (simp add: ex_cancelled_def cancel_job_def get_job_def ex_running_def ex_job_def Let_def dict_simps)

theorem terminal_jobs_immutable_witness:
  "\<exists>j'. dict_get (r_jobs (run repo_step ex_cancelled [(Claim ''w'' ''u'', 6), (Recover, 7)])) ''j'' = Some j' \<and>
     j' = cancelled_record 5 ex_job"
proof -
  have "repo_inv ex_cancelled"
    unfolding ex_cancelled_def by (rule cancel_job_inv [OF ex_running_inv])
  then show ?thesis
    using terminal_jobs_immutable [OF _ _ ex_cancelled_job, of "[(Claim ''w'' ''u'', 6), (Recover, 7)]"]
    by (auto simp: cancelled_record_def)
qed

text \<open>The claims that hand out the job \<open>i\<close> along a run.\<close>

fun claims_job :: "string \<Rightarrow> repo \<Rightarrow> repo_op \<times> instant \<Rightarrow> bool" where
  "claims_job i r (Claim w k, t) =
     (case fst (claim_next_job w t k r) of Inr (Some j) \<Rightarrow> jb_job_id j = i | _ \<Rightarrow> False)"
| "claims_job i r _ = False"

primrec claim_count :: "string \<Rightarrow> repo \<Rightarrow> (repo_op \<times> instant) list \<Rightarrow> int" where
  "claim_count i r [] = 0"
| "claim_count i r (x # xs) = (if claims_job i r x then 1 else 0) + claim_count i (repo_step r x) xs"

definition attempts_of :: "repo \<Rightarrow> string \<Rightarrow> int" where
  "attempts_of r i = (case dict_get (r_jobs r) i of None \<Rightarrow> 0 | Some j \<Rightarrow> jb_attempts j)"

lemma claim_cases:
  obtains "fst (claim_next_job w t k r) = Inr None \<or> (\<exists>e. fst (claim_next_job w t k r) = Inl e)"
      "r_jobs (snd (claim_next_job w t k r)) = r_jobs r"
  | v s where "first_by claim_key (filter (eligible v t) (dict_values (r_jobs r))) = Some s"
      "fst (claim_next_job w t k r) = Inr (Some (claimed_record w k t (lease_seconds r) s))"
      "r_jobs (snd (claim_next_job w t k r)) =
         dict_set (jb_job_id s) (claimed_record w k t (lease_seconds r) s) (r_jobs r)"
proof (cases "get_worker w r")
  case (Inl e)
  then show ?thesis using that(1) by (simp add: claim_next_job_def)
next
  case (Inr v)
  have id: "jb_job_id (claimed_record w k t l s) = jb_job_id s" for l s
    by (simp add: claimed_record_def)
  show ?thesis
  proof (cases "t - wr_last_seen_at v > seconds (worker_ttl_seconds r) \<or> wr_state v \<noteq> ONLINE \<or>
      wr_active_jobs v \<ge> wr_max_concurrency v \<or>
      first_by claim_key (filter (eligible v t) (dict_values (r_jobs r))) = None")
    case True
    then show ?thesis using Inr by (intro that(1)) (auto simp: claim_next_job_def simp del: first_by_None split: option.splits)
  next
    case False
    then obtain s where "first_by claim_key (filter (eligible v t) (dict_values (r_jobs r))) = Some s"
      by blast
    with False Inr id show ?thesis using that(2) [of v s] by (simp add: claim_next_job_def Let_def)
  qed
qed

lemma claim_attempts:
  assumes inv: "repo_inv r"
  shows "attempts_of (snd (claim_next_job w t k r)) i =
    attempts_of r i + (if claims_job i r (Claim w k, t) then 1 else 0)"
proof (cases rule: claim_cases [of w t k r])
  case 1
  then show ?thesis by (auto simp: attempts_of_def)
next
  case (2 v s)
  from first_eligible [OF 2(1) inv] 2(2,3) show ?thesis
    by (cases "jb_job_id s = i") (simp_all add: attempts_of_def dict_get_set claimed_record_def)
qed

lemma step_attempts:
  assumes inv: "repo_inv r" and ok: "op_ok r x"
  shows "attempts_of (repo_step r x) i = attempts_of r i + (if claims_job i r x then 1 else 0)"
proof (cases "\<exists>w k t. x = (Claim w k, t)")
  case True
  then show ?thesis using claim_attempts [OF inv] by auto
next
  case False
  then have "\<not> claims_job i r x" by (cases "(i, r, x)" rule: claims_job.cases) auto
  moreover have "attempts_of (repo_step r x) i = attempts_of r i"
  proof (cases "dict_get (r_jobs r) i")
    case None
    then show ?thesis
      using repo_step_new_job [OF inv ok None] by (auto simp: attempts_of_def split: option.splits)
  next
    case (Some j)
    from repo_step_job_step [OF inv ok this] obtain j'
      where j': "dict_get (r_jobs (repo_step r x)) i = Some j'" and st: "job_step x j j'" by blast
    have "jb_attempts j' = jb_attempts j" using job_step_claims [OF st] False by blast
    with j' Some show ?thesis by (simp add: attempts_of_def)
  qed
  ultimately show ?thesis by simp
qed

lemma run_attempts:
  "repo_inv r \<Longrightarrow> admissible op_ok repo_step r ops \<Longrightarrow>
     attempts_of (run repo_step r ops) i = attempts_of r i + claim_count i r ops"
  by (induction ops arbitrary: r) (auto simp: step_attempts repo_step_inv)

text \<open>
  C5. Retry budget. Along every run from an empty repository the number of times a job is handed
  out to a worker is exactly its attempt counter, hence at most the \<open>max_attempts\<close> of its
  submission, however often it fails, expires or is recovered.
\<close>

theorem retry_budget_respected:
  assumes "init_repository ttl lease = Inr r0" and "admissible op_ok repo_step r0 ops"
    and "dict_get (r_jobs (run repo_step r0 ops)) i = Some j"
  shows "claim_count i r0 ops = jb_attempts j \<and> claim_count i r0 ops \<le> jb_max_attempts j"
proof -
  have "attempts_of r0 i = 0"
    using assms(1) by (auto simp: init_repository_def attempts_of_def split: if_splits)
  then have "claim_count i r0 ops = jb_attempts j"
    using run_attempts [OF init_repository_inv [OF assms(1)] assms(2), of i] assms(3)
    by (simp add: attempts_of_def)
  moreover have "jb_attempts j \<le> jb_max_attempts j"
    using reachable_inv [OF assms(1,2)] assms(3) by (auto simp: repo_inv_def jobs_wf_def job_wf_def)
  ultimately show ?thesis by simp
qed

theorem retry_budget_respected_witness:
  "claim_count ''j'' ex_repo ex_claimed = 1 \<and> claim_count ''j'' ex_repo ex_claimed \<le> 2"
  using retry_budget_respected [OF ex_init ex_claimed_ok, of "''j''" ex_job]
  unfolding ex_claimed_run by (simp add: ex_running_def ex_job_def)

section \<open>Submission\<close>

text \<open>
  Idempotent submission. If a key already belongs to a stored job, submitting it again
  creates nothing: an equivalent request gets the stored record, a different one the conflict,
  and the repository is unchanged; a request whose key is unknown (or that has none) becomes one
  new QUEUED job under the next sequence number, found again under its key.
\<close>

theorem submit_job_idempotent:
  assumes "repo_inv r" and "submission_ok s" and "dict_get (r_jobs r) n = None"
  shows "(\<forall>key. sub_idempotency_key s = Some key \<longrightarrow>
      (\<exists>i j. dict_get (r_jobs r) i = Some j \<and> jb_idempotency_key j = Some key) \<longrightarrow>
      (\<exists>i j. dict_get (r_jobs r) i = Some j \<and> jb_idempotency_key j = Some key \<and>
         submit_job s t n r = (if submission_matches j s then Inr j else Inl (Conflict Idempotency_mismatch), r))) \<and>
    ((\<forall>key i j. sub_idempotency_key s = Some key \<longrightarrow> dict_get (r_jobs r) i = Some j \<longrightarrow>
        jb_idempotency_key j \<noteq> Some key) \<longrightarrow>
      (\<exists>j. fst (submit_job s t n r) = Inr j \<and> jb_status j = QUEUED \<and> jb_attempts j = 0 \<and>
         jb_sequence j = r_sequence r + 1 \<and> jb_job_id j = n \<and>
         dict_get (r_jobs (snd (submit_job s t n r))) = (dict_get (r_jobs r))(n \<mapsto> j) \<and>
         (\<forall>key. sub_idempotency_key s = Some key \<longrightarrow>
            dict_get (r_idempotency (snd (submit_job s t n r))) key = Some n)))"
proof (intro conjI allI impI)
  fix key
  assume key: "sub_idempotency_key s = Some key"
    and "\<exists>i j. dict_get (r_jobs r) i = Some j \<and> jb_idempotency_key j = Some key"
  then obtain i j where j: "dict_get (r_jobs r) i = Some j" "jb_idempotency_key j = Some key" by blast
  have ne: "key \<noteq> []" using key assms(2) by (auto simp: submission_ok_def)
  have "dict_get (r_idempotency r) key = Some i"
    using assms(1) j ne unfolding repo_inv_def idem_ok_def by blast
  then have "submit_job s t n r =
      (if submission_matches j s then Inr j else Inl (Conflict Idempotency_mismatch), r)"
    using j ne key by (simp add: submit_job_def)
  with j show "\<exists>i j. dict_get (r_jobs r) i = Some j \<and> jb_idempotency_key j = Some key \<and>
      submit_job s t n r = (if submission_matches j s then Inr j else Inl (Conflict Idempotency_mismatch), r)"
    by blast
next
  assume new: "\<forall>key i j. sub_idempotency_key s = Some key \<longrightarrow> dict_get (r_jobs r) i = Some j \<longrightarrow>
        jb_idempotency_key j \<noteq> Some key"
  have "dict_get (r_idempotency r) key = None" if "sub_idempotency_key s = Some key" for key
    using assms(1) new that unfolding repo_inv_def idem_ok_def by (metis not_Some_eq)
  then have sub: "submit_job s t n r = new_job s t n r"
    by (auto simp: submit_job_def split: option.splits if_splits)
  have ne: "sub_idempotency_key s \<noteq> Some []" using assms(2) by (simp add: submission_ok_def)
  show "\<exists>j. fst (submit_job s t n r) = Inr j \<and> jb_status j = QUEUED \<and> jb_attempts j = 0 \<and>
         jb_sequence j = r_sequence r + 1 \<and> jb_job_id j = n \<and>
         dict_get (r_jobs (snd (submit_job s t n r))) = (dict_get (r_jobs r))(n \<mapsto> j) \<and>
         (\<forall>key. sub_idempotency_key s = Some key \<longrightarrow>
            dict_get (r_idempotency (snd (submit_job s t n r))) key = Some n)"
    unfolding sub new_job_def Let_def using ne by (auto simp: dict_get_set split: option.splits)
qed

theorem submit_job_idempotent_witness:
  "submit_job (ex_sub 5) 9 ''n'' ex_running = (Inr ex_job, ex_running) \<and>
   submit_job (ex_sub 6) 9 ''n'' ex_running = (Inl (Conflict Idempotency_mismatch), ex_running)"
proof -
  have n: "dict_get (r_jobs ex_running) ''n'' = None" by (simp add: ex_running_def)
  have only: "i = ''j'' \<and> j = ex_job" if "dict_get (r_jobs ex_running) i = Some j" for i j
    using that by (simp add: ex_running_def split: if_splits)
  have j: "dict_get (r_jobs ex_running) ''j'' = Some ex_job" "jb_idempotency_key ex_job = Some ''k''"
    by (simp_all add: ex_running_def ex_job_def)
  have m: "submission_matches ex_job (ex_sub 5)" "\<not> submission_matches ex_job (ex_sub 6)"
    by (simp_all add: submission_matches_def ex_job_def ex_sub_def obj_eq_def job_requirements_eq_def
        ex_req_def)
  have key: "sub_idempotency_key (ex_sub p) = Some ''k''" for p by (simp add: ex_sub_def)
  have "submit_job (ex_sub p) 9 ''n'' ex_running =
      (if submission_matches ex_job (ex_sub p) then Inr ex_job else Inl (Conflict Idempotency_mismatch), ex_running)" for p
    using submit_job_idempotent [OF ex_running_inv ex_sub_ok n, of p 9] key j only by metis
  with m show ?thesis by simp
qed

end
