(* ===== verification/Repository_Ends.thy ===== *)
theory Repository_Ends
  imports Repository_Props
begin

text \<open>
  The ends of an attempt on the in-memory repository: completion and failure with their exact
  conditions and effects, and the two maintenance sweeps (lapsed leases, silent workers).
\<close>

section \<open>Ending an attempt\<close>

lemma token_nonempty:
  assumes "repo_inv r" and "dict_get (r_jobs r) i = Some j"
  shows "jb_lease_token j \<noteq> Some []"
proof -
  have "job_wf i j" using assms by (auto simp: repo_inv_def jobs_wf_def)
  then show ?thesis by (cases "jb_status j = RUNNING") (simp_all add: job_wf_def)
qed

lemma release_worker:
  assumes inv: "repo_inv r" and j: "dict_get (r_jobs r) i = Some j" and run: "runs_on w j"
  shows "\<exists>v. dict_get (r_workers r) w = Some v \<and> 0 < wr_active_jobs v \<and>
    dict_get (r_workers (release_worker_capacity (Some w) r)) =
      (dict_get (r_workers r))(w \<mapsto> v\<lparr>wr_active_jobs := wr_active_jobs v - 1\<rparr>)"
proof -
  obtain v where v: "dict_get (r_workers r) w = Some v"
    using inv j run unfolding repo_inv_def assigned_ok_def runs_on_def by blast
  then have "wr_active_jobs v = active_job_count r w"
    using inv by (simp add: repo_inv_def accounting_def)
  with active_job_count_pos [OF j run] have pos: "0 < wr_active_jobs v" by simp
  then have "max (wr_active_jobs v - 1) 0 = wr_active_jobs v - 1" by simp
  then show ?thesis
    using v pos by (simp add: release_worker_capacity_def get_job_set fun_eq_iff)
qed

lemma release_worker_jobs:
  "dict_get (r_workers (release_worker_capacity w (r\<lparr>r_jobs := js\<rparr>))) =
     dict_get (r_workers (release_worker_capacity w r))"
  by (simp add: release_worker_capacity_def split: option.splits)

lemma complete_job_Inr:
  "fst (complete_job i x w k t r) = Inr c \<longleftrightarrow>
    (\<exists>j. dict_get (r_jobs r) i = Some j \<and> runs_on w j \<and> k \<noteq> [] \<and> jb_lease_token j = Some k \<and>
      (\<exists>e. jb_lease_expires_at j = Some e \<and> t < e) \<and> c = completed_record x t j)"
proof (cases "get_job i r")
  case (Inl e)
  then show ?thesis using get_job_Inr [of i r] by (auto simp: complete_job_def)
next
  case (Inr j)
  then have j: "dict_get (r_jobs r) i = Some j" by (simp add: get_job_Inr)
  show ?thesis
    using assert_running_None [of j w k t] Inr j
    by (cases "assert_running j w k t") (auto simp: complete_job_def Let_def)
qed

text \<open>
  C8. A completion is accepted exactly from the worker the job runs on, with the current token,
  strictly before the end of the lease; then the job is SUCCEEDED with that result, every other
  job is as before, and exactly that worker gets one unit of capacity back. Otherwise the
  repository is unchanged.
\<close>

theorem complete_job_exact:
  assumes "repo_inv r"
  shows "(fst (complete_job i x w k t r) = Inr c \<longleftrightarrow>
      (\<exists>j. dict_get (r_jobs r) i = Some j \<and> jb_status j = RUNNING \<and>
         jb_assigned_worker_id j = Some w \<and> jb_lease_token j = Some k \<and>
         (\<exists>e. jb_lease_expires_at j = Some e \<and> t < e) \<and> c = completed_record x t j)) \<and>
    (fst (complete_job i x w k t r) = Inr c \<longrightarrow>
      dict_get (r_jobs (snd (complete_job i x w k t r))) = (dict_get (r_jobs r))(i \<mapsto> c) \<and>
      (\<exists>v. dict_get (r_workers r) w = Some v \<and> 0 < wr_active_jobs v \<and>
         dict_get (r_workers (snd (complete_job i x w k t r))) =
           (dict_get (r_workers r))(w \<mapsto> v\<lparr>wr_active_jobs := wr_active_jobs v - 1\<rparr>))) \<and>
    ((\<exists>e. fst (complete_job i x w k t r) = Inl e) \<longrightarrow> snd (complete_job i x w k t r) = r)"
proof (intro conjI impI)
  show "fst (complete_job i x w k t r) = Inr c \<longleftrightarrow>
      (\<exists>j. dict_get (r_jobs r) i = Some j \<and> jb_status j = RUNNING \<and>
         jb_assigned_worker_id j = Some w \<and> jb_lease_token j = Some k \<and>
         (\<exists>e. jb_lease_expires_at j = Some e \<and> t < e) \<and> c = completed_record x t j)"
    using complete_job_Inr [of i x w k t r c] token_nonempty [OF assms, of i] unfolding runs_on_def by blast
next
  assume c: "fst (complete_job i x w k t r) = Inr c"
  then obtain j where j: "dict_get (r_jobs r) i = Some j" "runs_on w j" "c = completed_record x t j"
    unfolding complete_job_Inr by blast
  have s: "snd (complete_job i x w k t r) =
      release_worker_capacity (Some w) (r\<lparr>r_jobs := dict_set i c (r_jobs r)\<rparr>)"
    using c j by (auto simp: complete_job_def Let_def get_job_def split: option.splits)
  show "dict_get (r_jobs (snd (complete_job i x w k t r))) = (dict_get (r_jobs r))(i \<mapsto> c)"
    unfolding s by (simp add: get_job_set fun_eq_iff)
  show "\<exists>v. dict_get (r_workers r) w = Some v \<and> 0 < wr_active_jobs v \<and>
         dict_get (r_workers (snd (complete_job i x w k t r))) =
           (dict_get (r_workers r))(w \<mapsto> v\<lparr>wr_active_jobs := wr_active_jobs v - 1\<rparr>)"
    unfolding s release_worker_jobs by (rule release_worker [OF assms j(1,2)])
next
  assume "\<exists>e. fst (complete_job i x w k t r) = Inl e"
  then show "snd (complete_job i x w k t r) = r"
    by (auto simp: complete_job_def Let_def split: sum.splits option.splits)
qed

definition ex_result :: job_result where
  "ex_result = \<lparr>re_outputs = [], re_artifacts = [], re_metrics = [], re_text = Some ''ok'', re_metadata = []\<rparr>"

theorem complete_job_exact_witness:
  "fst (complete_job ''j'' ex_result ''w'' ''t'' 9 ex_running) = Inr (completed_record ex_result 9 ex_job) \<and>
   dict_get (r_jobs (snd (complete_job ''j'' ex_result ''w'' ''t'' 9 ex_running))) ''j'' =
     Some (completed_record ex_result 9 ex_job) \<and>
   snd (complete_job ''j'' ex_result ''w'' ''u'' 9 ex_running) = ex_running"
proof -
  have a: "fst (complete_job ''j'' ex_result ''w'' ''t'' 9 ex_running) = Inr (completed_record ex_result 9 ex_job)"
    using complete_job_exact [OF ex_running_inv, of "''j''" ex_result "''w''" "''t''" 9 "completed_record ex_result 9 ex_job"]
    by (simp add: ex_running_def ex_job_def)
  have "\<exists>e. fst (complete_job ''j'' ex_result ''w'' ''u'' 9 ex_running) = Inl e"
    by (simp add: complete_job_def get_job_def assert_running_def ex_running_def ex_job_def)
  then show ?thesis
    using a complete_job_exact [OF ex_running_inv] by simp
qed

text \<open>
  A failure report is accepted under exactly the same conditions; the job goes back to the
  queue, available at once and without a lease, exactly when the report is retryable and an
  attempt is left, and is FAILED for good otherwise; the worker's capacity is released.
\<close>

theorem fail_job_exact:
  assumes "repo_inv r" and "dict_get (r_jobs r) i = Some j" and "jb_status j = RUNNING"
    and "jb_assigned_worker_id j = Some w" and "jb_lease_token j = Some k"
    and "jb_lease_expires_at j = Some e" and "t < e"
  shows "\<exists>j'. fst (fail_job i f b w k t r) = Inr j' \<and>
    dict_get (r_jobs (snd (fail_job i f b w k t r))) = (dict_get (r_jobs r))(i \<mapsto> j') \<and>
    jb_status j' = (if b \<and> jb_attempts j < jb_max_attempts j then QUEUED else FAILED) \<and>
    jb_attempts j' = jb_attempts j \<and> jb_lease_token j' = None \<and> jb_assigned_worker_id j' = None \<and>
    (jb_status j' = QUEUED \<longrightarrow> jb_available_at j' = t \<and> jb_finished_at j' = None) \<and>
    (jb_status j' = FAILED \<longrightarrow> jb_finished_at j' = Some t) \<and>
    (\<exists>v. dict_get (r_workers r) w = Some v \<and>
       dict_get (r_workers (snd (fail_job i f b w k t r))) =
         (dict_get (r_workers r))(w \<mapsto> v\<lparr>wr_active_jobs := wr_active_jobs v - 1\<rparr>))"
proof -
  have "k \<noteq> []" using token_nonempty [OF assms(1,2)] assms(5) by auto
  then have ok: "assert_running j w k t = None" and run: "runs_on w j"
    using assms by (auto simp: assert_running_def runs_on_def)
  let ?b = "b \<and> jb_attempts j < jb_max_attempts j"
  let ?j = "failed_record ?b (failure_payload f ?b) t j"
  have f: "fail_job i f b w k t r =
      (Inr ?j, release_worker_capacity (Some w) (r\<lparr>r_jobs := dict_set i ?j (r_jobs r)\<rparr>))"
    using ok assms(2) by (simp add: fail_job_def get_job_def Let_def)
  have "\<exists>v. dict_get (r_workers r) w = Some v \<and>
       dict_get (r_workers (snd (fail_job i f b w k t r))) =
         (dict_get (r_workers r))(w \<mapsto> v\<lparr>wr_active_jobs := wr_active_jobs v - 1\<rparr>)"
    unfolding f snd_conv release_worker_jobs using release_worker [OF assms(1,2) run] by blast
  moreover have "dict_get (r_jobs (snd (fail_job i f b w k t r))) = (dict_get (r_jobs r))(i \<mapsto> ?j)"
    unfolding f by (simp add: get_job_set fun_eq_iff)
  moreover have "fst (fail_job i f b w k t r) = Inr ?j" by (simp add: f)
  moreover have "jb_status ?j = (if ?b then QUEUED else FAILED)" "jb_attempts ?j = jb_attempts j"
    "jb_lease_token ?j = None" "jb_assigned_worker_id ?j = None"
    "jb_status ?j = QUEUED \<longrightarrow> jb_available_at ?j = t \<and> jb_finished_at ?j = None"
    "jb_status ?j = FAILED \<longrightarrow> jb_finished_at ?j = Some t"
    by (simp_all add: failed_record_def)
  ultimately show ?thesis by blast
qed

theorem fail_job_exact_witness:
  "\<exists>j'. fst (fail_job ''j'' (Message ''oom'') True ''w'' ''t'' 9 ex_running) = Inr j' \<and> jb_status j' = QUEUED"
  using fail_job_exact [OF ex_running_inv, of "''j''" ex_job "''w''" "''t''" 300000002 9 "Message ''oom''" True]
  by (simp add: ex_running_def ex_job_def) blast

section \<open>Maintenance\<close>

lemma recover_loop_list:
  "fst (recover_loop t xs r) =
     map (\<lambda>j. failed_record (jb_attempts j < jb_max_attempts j)
                (expired_error (jb_attempts j < jb_max_attempts j)) t j)
       (filter (lease_lapsed t) (dict_values xs))"
  by (induction t xs r rule: recover_loop.induct) (auto simp: Let_def split_def recover_one_def)

text \<open>
  C9. The recovery sweep leaves no job whose lease has ended: each such job is requeued while an
  attempt is left and FAILED otherwise, every other job is untouched, no job appears or is lost,
  and the records returned are exactly the ones changed, in order.
\<close>

theorem recover_expired_jobs_exact:
  assumes "repo_inv r"
  shows "(\<forall>i j. dict_get (r_jobs (snd (recover_expired_jobs t r))) i = Some j \<longrightarrow> \<not> lease_lapsed t j) \<and>
    (\<forall>i. dict_get (r_jobs (snd (recover_expired_jobs t r))) i =
      map_option (\<lambda>j. if lease_lapsed t j
        then failed_record (jb_attempts j < jb_max_attempts j)
               (expired_error (jb_attempts j < jb_max_attempts j)) t j
        else j) (dict_get (r_jobs r) i)) \<and>
    fst (recover_expired_jobs t r) =
      map (\<lambda>j. failed_record (jb_attempts j < jb_max_attempts j)
                 (expired_error (jb_attempts j < jb_max_attempts j)) t j)
        (filter (lease_lapsed t) (dict_values (r_jobs r)))"
proof -
  have get: "dict_get (r_jobs (snd (recover_expired_jobs t r))) i =
      map_option (\<lambda>j. if lease_lapsed t j
        then failed_record (jb_attempts j < jb_max_attempts j)
               (expired_error (jb_attempts j < jb_max_attempts j)) t j
        else j) (dict_get (r_jobs r) i)" for i
    using assms unfolding recover_expired_jobs_def
    by (auto simp: recover_loop_jobs repo_inv_def split: option.splits)
  moreover have "\<not> lease_lapsed t (failed_record b e t j)" for b e j
    by (simp add: lease_lapsed_def failed_record_def)
  ultimately show ?thesis
    by (auto simp: recover_expired_jobs_def recover_loop_list split: if_splits)
qed

theorem recover_expired_jobs_exact_witness:
  "\<exists>j. dict_get (r_jobs (snd (recover_expired_jobs 300000002 ex_running))) ''j'' = Some j \<and>
     jb_status j = QUEUED \<and> \<not> lease_lapsed 300000002 j"
proof -
  have j: "dict_get (r_jobs ex_running) ''j'' = Some ex_job" by (simp add: ex_running_def)
  have l: "lease_lapsed 300000002 ex_job" "jb_attempts ex_job < jb_max_attempts ex_job"
    by (simp_all add: lease_lapsed_def ex_job_def)
  let ?j = "failed_record True (expired_error True) 300000002 ex_job"
  have "dict_get (r_jobs (snd (recover_expired_jobs 300000002 ex_running))) ''j'' = Some ?j"
    using recover_expired_jobs_exact [OF ex_running_inv, of 300000002, THEN conjunct2, THEN conjunct1, THEN spec, of "''j''"] j l
    by simp
  moreover have "jb_status ?j = QUEUED" "\<not> lease_lapsed 300000002 ?j"
    by (simp_all add: failed_record_def lease_lapsed_def)
  ultimately show ?thesis by blast
qed

lemma expire_loop_list:
  "fst (expire_loop c xs r) = map (\<lambda>w. w\<lparr>wr_state := OFFLINE\<rparr>)
     (filter (\<lambda>w. wr_state w \<noteq> OFFLINE \<and> wr_last_seen_at w < c) (dict_values xs))"
  by (induction c xs r rule: expire_loop.induct) (auto simp: Let_def split_def)

lemma expire_loop_workers:
  assumes "dict_ok xs"
  shows "dict_get (r_workers (snd (expire_loop c xs r))) i =
    (case dict_get xs i of
       Some w \<Rightarrow> if wr_state w \<noteq> OFFLINE \<and> wr_last_seen_at w < c
         then Some (w\<lparr>wr_state := OFFLINE\<rparr>) else dict_get (r_workers r) i
     | None \<Rightarrow> dict_get (r_workers r) i)"
  using assms
proof (induction xs arbitrary: r)
  case Nil
  then show ?case by simp
next
  case (Cons p xs)
  obtain k w where p: "p = (k, w)" by (cases p)
  have none: "dict_get xs k = None"
    using Cons.prems p by (simp add: map_of_eq_None_iff)
  show ?case
    using Cons none by (auto simp: p Let_def split_def get_job_set split: option.splits)
qed

text \<open>
  The expiry sweep takes OFFLINE exactly the workers not heard from since the cutoff, leaves
  the others, all jobs and all running leases alone, and returns the workers it changed; a worker
  that the sweep takes offline while a job still runs on it keeps its GPUs until the job ends.
\<close>

theorem expire_stale_workers_exact:
  assumes "repo_inv r"
  shows "(\<forall>k. dict_get (r_workers (snd (expire_stale_workers t r))) k =
      map_option (\<lambda>w. if wr_last_seen_at w < t - seconds (worker_ttl_seconds r)
        then w\<lparr>wr_state := OFFLINE\<rparr> else w) (dict_get (r_workers r) k)) \<and>
    r_jobs (snd (expire_stale_workers t r)) = r_jobs r \<and>
    fst (expire_stale_workers t r) = map (\<lambda>w. w\<lparr>wr_state := OFFLINE\<rparr>)
      (filter (\<lambda>w. wr_state w \<noteq> OFFLINE \<and> wr_last_seen_at w < t - seconds (worker_ttl_seconds r))
        (dict_values (r_workers r))) \<and>
    (\<forall>k w w' i j. dict_get (r_workers r) k = Some w \<longrightarrow>
      dict_get (r_jobs r) i = Some j \<longrightarrow> runs_on k j \<longrightarrow>
      dict_get (r_workers (snd (expire_stale_workers t r))) k = Some w' \<longrightarrow> owns_resources w')"
proof -
  have same: "w\<lparr>wr_state := OFFLINE\<rparr> = w" if "wr_state w = OFFLINE" for w :: worker_record
    using that by (cases w) simp
  have get: "dict_get (r_workers (snd (expire_stale_workers t r))) k =
      map_option (\<lambda>w. if wr_last_seen_at w < t - seconds (worker_ttl_seconds r)
        then w\<lparr>wr_state := OFFLINE\<rparr> else w) (dict_get (r_workers r) k)" for k
    using assms unfolding expire_stale_workers_def
    by (auto simp: expire_loop_workers repo_inv_def same split: option.splits)
  have "0 < wr_active_jobs w"
    if "dict_get (r_workers r) k = Some w" "dict_get (r_jobs r) i = Some j" "runs_on k j" for k w i j
    using assms that active_job_count_pos [OF that(2,3)] by (simp add: repo_inv_def accounting_def)
  then have "owns_resources w'"
    if "dict_get (r_workers r) k = Some w" "dict_get (r_jobs r) i = Some j" "runs_on k j"
      "dict_get (r_workers (snd (expire_stale_workers t r))) k = Some w'" for k w w' i j
    using that get [of k] by (auto simp: owns_resources_def)
  with get show ?thesis
    by (simp add: expire_stale_workers_def expire_loop_list)
qed

theorem expire_stale_workers_exact_witness:
  "dict_get (r_workers (snd (expire_stale_workers 60000001 ex_running))) ''w'' =
     Some (ex_worker\<lparr>wr_state := OFFLINE\<rparr>) \<and>
   dict_get (r_workers (snd (expire_stale_workers 60000000 ex_running))) ''w'' = Some ex_worker"
proof -
  have w: "dict_get (r_workers ex_running) ''w'' = Some ex_worker" "wr_last_seen_at ex_worker = 0"
    "worker_ttl_seconds ex_running = 60"
    by (simp_all add: ex_running_def ex_worker_def)
  show ?thesis
    using expire_stale_workers_exact [OF ex_running_inv, of 60000001]
      expire_stale_workers_exact [OF ex_running_inv, of 60000000] w
    by (simp add: seconds_def)
qed

end
