(* ===== verification/Postgres_Refine.thy ===== *)
theory Postgres_Refine
  imports Postgres Repository_Ends
begin

text \<open>
  The PostgreSQL backend implements the in-memory reference. \<open>pg_of\<close> writes a repository as tables;
  for every operation the outcome on the tables of a state is the outcome on the state
  (\<open>refines\<close>), up to the error named when several apply and to storage failures when a row breaks a
  constraint of the schema. The recovery loop, which the two backends run in different orders, is
  related through the one state both end in (\<open>swept\<close>).
\<close>

section \<open>The tables of a repository\<close>

definition worker_row_of :: "worker_record \<Rightarrow> worker_row" where
  "worker_row_of w = (let spec = wr_spec w in
     \<lparr>w_id = ws_worker_id spec, w_worker_class = ws_worker_class spec,
      w_capabilities = json_sorted (ws_capabilities spec), w_labels = json_labels (ws_labels spec),
      w_gpu_uuids = JList (map JStr (ws_gpu_uuids spec)),
      w_accelerators = JList (map (\<lambda>d. JObj (accelerator_to_dict d)) (ws_accelerators spec)),
      w_gpu_count = gpu_count (ws_resources spec),
      w_total_vram_mb = total_vram_mb (ws_resources spec),
      w_max_single_gpu_vram_mb = max_single_gpu_vram_mb (ws_resources spec),
      w_max_concurrency = wr_max_concurrency w, w_state = worker_state_value (wr_state w),
      w_metadata = JObj (wr_metadata w), w_registered_at = wr_registered_at w,
      w_last_seen_at = wr_last_seen_at w, w_active_jobs = wr_active_jobs w\<rparr>)"

definition job_row_of :: "job_record \<Rightarrow> job_row" where
  "job_row_of j =
     \<lparr>j_id = jb_job_id j, j_sequence = jb_sequence j, j_capability = jb_capability j,
      j_status = job_status_value (jb_status j), j_payload = JObj (jb_payload j),
      j_requirements = JObj (requirements_to_dict (jb_requirements j)), j_priority = jb_priority j,
      j_attempts = jb_attempts j, j_max_attempts = jb_max_attempts j,
      j_idempotency_key = jb_idempotency_key j, j_assigned_worker_id = jb_assigned_worker_id j,
      j_lease_token = jb_lease_token j,
      j_result = map_option (\<lambda>x. JObj (job_result_to_dict x)) (jb_result j),
      j_error = map_option JObj (jb_error j), j_created_at = jb_created_at j,
      j_available_at = jb_available_at j, j_started_at = jb_started_at j,
      j_finished_at = jb_finished_at j, j_lease_expires_at = jb_lease_expires_at j,
      j_updated_at = jb_updated_at j\<rparr>"

lemma worker_row_sel [simp]:
  "w_id (worker_row_of w) = wr_worker_id w" "w_state (worker_row_of w) = worker_state_value (wr_state w)"
  "w_max_concurrency (worker_row_of w) = wr_max_concurrency w"
  "w_registered_at (worker_row_of w) = wr_registered_at w"
  "w_last_seen_at (worker_row_of w) = wr_last_seen_at w" "w_active_jobs (worker_row_of w) = wr_active_jobs w"
  by (simp_all add: worker_row_of_def Let_def)

lemma job_row_sel [simp]:
  "j_id (job_row_of j) = jb_job_id j" "j_sequence (job_row_of j) = jb_sequence j"
  "j_status (job_row_of j) = job_status_value (jb_status j)" "j_priority (job_row_of j) = jb_priority j"
  "j_attempts (job_row_of j) = jb_attempts j" "j_max_attempts (job_row_of j) = jb_max_attempts j"
  "j_capability (job_row_of j) = jb_capability j" "j_available_at (job_row_of j) = jb_available_at j"
  "j_requirements (job_row_of j) = JObj (requirements_to_dict (jb_requirements j))"
  "j_idempotency_key (job_row_of j) = jb_idempotency_key j"
  "j_assigned_worker_id (job_row_of j) = jb_assigned_worker_id j"
  "j_lease_token (job_row_of j) = jb_lease_token j"
  "j_lease_expires_at (job_row_of j) = jb_lease_expires_at j"
  by (simp_all add: job_row_of_def)

definition map_dict :: "('a \<Rightarrow> 'b) \<Rightarrow> ('k, 'a) dict \<Rightarrow> ('k, 'b) dict" where
  "map_dict f d = map (\<lambda>(k, v). (k, f v)) d"

definition pg_of :: "repo \<Rightarrow> pg" where
  "pg_of r = \<lparr>pg_worker_ttl_seconds = worker_ttl_seconds r, pg_lease_seconds = lease_seconds r,
     pg_workers = map_dict worker_row_of (r_workers r), pg_jobs = map_dict job_row_of (r_jobs r),
     pg_sequence = r_sequence r\<rparr>"

lemma map_dict_get [simp]: "dict_get (map_dict f d) k = map_option f (dict_get d k)"
  by (induction d) (auto simp: map_dict_def)

lemma map_dict_set: "dict_set k (f v) (map_dict f d) = map_dict f (dict_set k v d)"
  by (induction d) (auto simp: map_dict_def)

lemma map_dict_values [simp]: "dict_values (map_dict f d) = map f (dict_values d)"
  by (induction d) (auto simp: map_dict_def)

lemma map_dict_keys [simp]: "map fst (map_dict f d) = map fst d"
  by (induction d) (auto simp: map_dict_def)

lemma pg_of_sel [simp]:
  "pg_worker_ttl_seconds (pg_of r) = worker_ttl_seconds r" "pg_lease_seconds (pg_of r) = lease_seconds r"
  "pg_workers (pg_of r) = map_dict worker_row_of (r_workers r)"
  "pg_jobs (pg_of r) = map_dict job_row_of (r_jobs r)" "pg_sequence (pg_of r) = r_sequence r"
  by (simp_all add: pg_of_def)

lemma pg_of_workers:
  "(pg_of r)\<lparr>pg_workers := map_dict worker_row_of ws\<rparr> = pg_of (r\<lparr>r_workers := ws\<rparr>)"
  by (simp add: pg_of_def)

lemma pg_of_jobs:
  "(pg_of r)\<lparr>pg_jobs := map_dict job_row_of js\<rparr> = pg_of (r\<lparr>r_jobs := js\<rparr>)"
  by (simp add: pg_of_def)

lemma write_worker_of:
  "write_worker k (worker_row_of w) (pg_of r) = (if worker_row_ok (worker_row_of w)
     then Inr (pg_of (r\<lparr>r_workers := dict_set k w (r_workers r)\<rparr>)) else Inl Storage_unavailable)"
  by (simp add: write_worker_def map_dict_set pg_of_workers)

lemma write_job_of:
  "write_job k (job_row_of j) (pg_of r) = (if job_row_ok (job_row_of j)
     then Inr (pg_of (r\<lparr>r_jobs := dict_set k j (r_jobs r)\<rparr>)) else Inl Storage_unavailable)"
  by (simp add: write_job_def map_dict_set pg_of_jobs)

text \<open>What the record classes guarantee of stored records, beyond the repository invariant.\<close>

definition record_ok :: "job_record \<Rightarrow> bool" where
  "record_ok j \<longleftrightarrow> job_requirements_ok (jb_requirements j) \<and> (\<forall>x. jb_result j = Some x \<longrightarrow> result_ok x)"

definition rows_ok :: "repo \<Rightarrow> bool" where
  "rows_ok r \<longleftrightarrow> (\<forall>k w. dict_get (r_workers r) k = Some w \<longrightarrow> spec_ok (wr_spec w)) \<and>
     (\<forall>i j. dict_get (r_jobs r) i = Some j \<longrightarrow> record_ok j)"

definition pg_ready :: "repo \<Rightarrow> bool" where
  "pg_ready r \<longleftrightarrow> repo_inv r \<and> rows_ok r"

lemma worker_of_row_of:
  assumes "spec_ok (wr_spec w)" "1 \<le> wr_max_concurrency w" "0 \<le> wr_active_jobs w"
  shows "worker_of_row (worker_row_of w) = Inr w"
proof -
  let ?s = "wr_spec w"
  have fin: "finite (ws_capabilities ?s)" using assms(1) by (simp add: spec_ok_def worker_spec_ok_def)
  have "mk_worker_spec (ws_worker_id ?s) (ws_worker_class ?s) (ws_resources ?s)
           (Many (ws_gpu_uuids ?s)) (ws_accelerators ?s)
           (Many (sorted_list_of_set (ws_capabilities ?s))) (ws_labels ?s) = Inr ?s"
    using assms fin by (intro mk_worker_spec_again) (simp_all add: spec_ok_def)
  moreover have "rmap accelerator_from_dict (map (\<lambda>d. JObj (accelerator_to_dict d)) (ws_accelerators ?s)) =
      Inr (ws_accelerators ?s)"
    using assms by (intro rmap_roundtrip) (auto simp: spec_ok_def list_all_iff accelerator_roundtrip)
  moreover have "mk_resource_shape (gpu_count (ws_resources ?s)) (total_vram_mb (ws_resources ?s))
      (max_single_gpu_vram_mb (ws_resources ?s)) = Inr (ws_resources ?s)"
    using assms by (intro resources_roundtrip) (simp add: spec_ok_def)
  ultimately show ?thesis
    using assms(2,3) fin
    by (simp add: worker_of_row_def worker_row_of_def Let_def json_frozenset_sorted)
qed

lemma job_of_row_of:
  assumes "record_ok j" "1 \<le> jb_sequence j"
  shows "job_of_row (job_row_of j) = Inr j"
proof -
  have "job_result_from_dict (case map_option (\<lambda>x. JObj (job_result_to_dict x)) (jb_result j) of
      None \<Rightarrow> JNull | Some v \<Rightarrow> v) = Inr (jb_result j)"
    using assms by (cases "jb_result j") (auto simp: record_ok_def job_result_from_dict_def [of JNull] job_result_roundtrip)
  moreover have "(case map_option JObj (jb_error j) of None \<Rightarrow> Inr None | Some JNull \<Rightarrow> Inr None
      | Some v \<Rightarrow> rbind (as_mapping v) (\<lambda>d. Inr (Some d))) = (Inr (jb_error j) :: obj option res)"
    by (cases "jb_error j") simp_all
  ultimately show ?thesis
    using assms
    by (simp add: job_of_row_def job_row_of_def requirements_roundtrip record_ok_def)
qed

lemma stored_worker:
  assumes "pg_ready r" "dict_get (r_workers r) k = Some w"
  shows "worker_of_row (worker_row_of w) = Inr w" "spec_ok (wr_spec w)" "wr_worker_id w = k"
    "1 \<le> wr_max_concurrency w" "0 \<le> wr_active_jobs w"
proof -
  have inv: "repo_inv r" using assms(1) by (simp add: pg_ready_def)
  show s: "spec_ok (wr_spec w)" using assms by (simp add: pg_ready_def rows_ok_def)
  show m: "1 \<le> wr_max_concurrency w" "wr_worker_id w = k"
    using inv assms(2) by (auto simp: repo_inv_def workers_wf_def worker_wf_def)
  have "wr_active_jobs w = active_job_count r k" using inv assms(2) by (simp add: repo_inv_def accounting_def)
  then show a: "0 \<le> wr_active_jobs w" by simp
  from s m a show "worker_of_row (worker_row_of w) = Inr w" by (intro worker_of_row_of)
qed

lemma stored_job:
  assumes "pg_ready r" "dict_get (r_jobs r) i = Some j"
  shows "job_of_row (job_row_of j) = Inr j" "record_ok j" "jb_job_id j = i" "1 \<le> jb_sequence j"
proof -
  have wf: "job_wf i j" using assms by (auto simp: pg_ready_def repo_inv_def jobs_wf_def)
  then show "jb_job_id j = i" and s: "1 \<le> jb_sequence j" by (auto simp: job_wf_def)
  show ok: "record_ok j" using assms by (simp add: pg_ready_def rows_ok_def)
  from ok s show "job_of_row (job_row_of j) = Inr j" by (rule job_of_row_of)
qed

lemma state_value_inj [simp]: "worker_state_value a = worker_state_value b \<longleftrightarrow> a = b"
  by (cases a; cases b) simp_all

lemma status_value_inj [simp]: "job_status_value a = job_status_value b \<longleftrightarrow> a = b"
  by (cases a; cases b) simp_all

lemma status_values:
  "job_status_value s = ''running'' \<longleftrightarrow> s = RUNNING" "job_status_value s = ''queued'' \<longleftrightarrow> s = QUEUED"
  "worker_state_value u = ''offline'' \<longleftrightarrow> u = OFFLINE"
  by (cases s; simp)+ (cases u; simp)

lemma running_count_of [simp]: "running_count k (pg_of r) = active_job_count r k"
  by (simp add: running_count_def active_job_count_def count_values_def runs_on_def [abs_def]
      job_row_of_def filter_map o_def status_values)

section \<open>GPU ownership\<close>

lemma overlap_row_of:
  "overlap_row g (worker_row_of w) \<longleftrightarrow> wr_worker_id w \<noteq> ws_worker_id (reg_spec g) \<and> owns_resources w \<and>
     set (ws_gpu_uuids (reg_spec g)) \<inter> set (ws_gpu_uuids (wr_spec w)) \<noteq> {}"
  by (auto simp: overlap_row_def worker_row_of_def Let_def owns_resources_def status_values list_ex_iff)

lemma gpu_overlap_of:
  "gpu_overlap g (pg_of r) = None \<longleftrightarrow> assert_gpu_ownership_available r g (ws_worker_id (reg_spec g)) = None"
proof -
  let ?gs = "ws_gpu_uuids (reg_spec g)" and ?ws = "dict_values (r_workers r)"
  have "filter (overlap_row g) (map worker_row_of ?ws) = [] \<longleftrightarrow>
      gpu_conflict_loop (ws_worker_id (reg_spec g)) ?gs ?ws = None"
    unfolding filter_empty_conv gpu_conflict_loop_None set_map ball_simps overlap_row_of by blast
  then show ?thesis
    by (simp add: gpu_overlap_def assert_gpu_ownership_available_def Let_def del: set_map)
qed

lemma gpu_conflict_is_overlap:
  "gpu_conflict_loop i gs ws = Some e \<Longrightarrow> \<exists>w. e = Conflict (Gpu_overlap w)"
  by (induction i gs ws rule: gpu_conflict_loop.induct) (auto split: if_splits)

lemma ownership_error_is_overlap:
  "assert_gpu_ownership_available r g i = Some e \<Longrightarrow> \<exists>w. e = Conflict (Gpu_overlap w)"
  by (auto simp: assert_gpu_ownership_available_def Let_def split: if_splits dest: gpu_conflict_is_overlap)

section \<open>What refinement means\<close>

text \<open>
  Two errors that callers cannot tell apart by their kind: which of several owners of a GPU is
  named depends on the order the backend looks at them.
\<close>

fun same_error :: "repo_error \<Rightarrow> repo_error \<Rightarrow> bool" where
  "same_error (Conflict (Gpu_overlap a)) (Conflict (Gpu_overlap b)) = True"
| "same_error e e' = (e = e')"

lemma same_error_refl [simp]: "same_error e e"
  by (cases e; simp; rename_tac c; case_tac c; simp)

text \<open>Every row of the tables satisfies the constraints of the schema.\<close>

definition storable :: "repo \<Rightarrow> bool" where
  "storable r \<longleftrightarrow> (\<forall>k w. dict_get (r_workers r) k = Some w \<longrightarrow> worker_row_ok (worker_row_of w)) \<and>
     (\<forall>i j. dict_get (r_jobs r) i = Some j \<longrightarrow> job_row_ok (job_row_of j))"

text \<open>
  The outcome of an operation on the tables of \<open>r\<close> refines the outcome on \<open>r\<close> itself: a success
  is the same result with the tables of the new state, or, only when those break a constraint of
  the schema, a storage failure that leaves the tables as they were; an error is an error related
  by \<open>E\<close> and leaves the tables as they were.
\<close>

definition refines ::
  "(repo_error \<Rightarrow> repo_error \<Rightarrow> bool) \<Rightarrow> (repo_error + 'a) \<times> pg \<Rightarrow> (repo_error + 'a) \<times> repo \<Rightarrow> repo \<Rightarrow> bool" where
  "refines E p m r \<longleftrightarrow> (case m of
     (Inr x, r') \<Rightarrow> p = (Inr x, pg_of r') \<or> \<not> storable r' \<and> p = (Inl Storage_unavailable, pg_of r)
   | (Inl e, r') \<Rightarrow> \<exists>e'. E e e' \<and> p = (Inl e', pg_of r))"

lemma transaction_Inl [simp]: "body db = Inl e \<Longrightarrow> transaction body db = (Inl e, db)"
  by (simp add: transaction_def)

lemma transaction_Inr [simp]: "body db = Inr (x, db') \<Longrightarrow> transaction body db = (Inr x, db')"
  by (simp add: transaction_def)

lemma in_tx_Inr [simp]: "in_tx (Inr x) = Inr x"
  by (simp add: in_tx_def)

section \<open>Registration\<close>

lemma registration_row_of:
  "registration_row g t0 t n = worker_row_of \<lparr>wr_spec = reg_spec g,
     wr_max_concurrency = reg_max_concurrency g, wr_state = ONLINE, wr_active_jobs = n,
     wr_registered_at = t0, wr_last_seen_at = t, wr_metadata = reg_metadata g\<rparr>"
  by (simp add: registration_row_def worker_row_of_def Let_def)

lemma register_body:
  assumes ok: "pg_ready r" and reg: "registration_ok g" and spec: "spec_ok (reg_spec g)"
  shows "register_worker g t r = (Inr w, r') \<Longrightarrow> pg_register_worker g t (pg_of r) =
      (if worker_row_ok (worker_row_of w) then (Inr w, pg_of r') else (Inl Storage_unavailable, pg_of r))"
    and "register_worker g t r = (Inl e, r') \<Longrightarrow>
      \<exists>e'. same_error e e' \<and> pg_register_worker g t (pg_of r) = (Inl e', pg_of r)"
proof -
  let ?k = "ws_worker_id (reg_spec g)"
  let ?ex = "dict_get (r_workers r) ?k"
  let ?w = "\<lparr>wr_spec = reg_spec g, wr_max_concurrency = reg_max_concurrency g, wr_state = ONLINE,
     wr_active_jobs = active_job_count r ?k,
     wr_registered_at = (case ?ex of None \<Rightarrow> t | Some w \<Rightarrow> wr_registered_at w),
     wr_last_seen_at = t, wr_metadata = reg_metadata g\<rparr>"
  have cur: "(case map_option worker_row_of ?ex of None \<Rightarrow> Inr None
        | Some row \<Rightarrow> rbind (in_tx (worker_of_row row)) (\<lambda>w. Inr (Some w))) = Inr ?ex"
    using stored_worker(1) [OF ok] by (cases ?ex) auto
  have row: "worker_of_row (worker_row_of ?w) = Inr ?w"
    using spec reg by (intro worker_of_row_of) (simp_all add: registration_ok_def)
  have chk: "check_reregistration g ?ex = (case fst (register_worker g t r) of
      Inl (Conflict Topology_change) \<Rightarrow> Inl (Conflict Topology_change)
    | Inl (Conflict Concurrency_below_active) \<Rightarrow> Inl (Conflict Concurrency_below_active)
    | _ \<Rightarrow> Inr ())"
    using ownership_error_is_overlap [of r g ?k]
    by (cases ?ex) (auto simp: check_reregistration_def register_worker_def Let_def split: option.splits)
  show "register_worker g t r = (Inr w, r') \<Longrightarrow> pg_register_worker g t (pg_of r) =
      (if worker_row_ok (worker_row_of w) then (Inr w, pg_of r') else (Inl Storage_unavailable, pg_of r))"
  proof -
    assume m: "register_worker g t r = (Inr w, r')"
    then have w: "w = ?w" and r': "r' = r\<lparr>r_workers := dict_set ?k ?w (r_workers r)\<rparr>"
      and free: "assert_gpu_ownership_available r g ?k = None"
      by (auto simp: register_worker_def Let_def split: option.splits if_splits)
    have "check_reregistration g ?ex = Inr ()" using chk m by simp
    then show ?thesis
      unfolding pg_register_worker_def transaction_def
      using free cur row
      by (cases ?ex) (simp_all add: Let_def gpu_overlap_of [THEN iffD2] registration_row_of write_worker_of w r')
  qed
  show "\<exists>e'. same_error e e' \<and> pg_register_worker g t (pg_of r) = (Inl e', pg_of r)"
    if m: "register_worker g t r = (Inl e, r')"
  proof (cases "check_reregistration g ?ex")
    case (Inl x)
    then have "x = e" using chk m by (auto split: repo_error.splits conflict.splits)
    then show ?thesis
      unfolding pg_register_worker_def transaction_def using Inl cur by (simp add: Let_def)
  next
    case (Inr u)
    then have "e \<noteq> Conflict Topology_change" "e \<noteq> Conflict Concurrency_below_active"
      using chk m by auto
    then have "assert_gpu_ownership_available r g ?k = Some e"
      using m by (auto simp: register_worker_def Let_def split: option.splits if_splits)
    then obtain a b where "e = Conflict (Gpu_overlap a)" "gpu_overlap g (pg_of r) = Some b"
      using ownership_error_is_overlap gpu_overlap_of [of g r] by fastforce
    then show ?thesis
      unfolding pg_register_worker_def transaction_def using Inr cur by (simp add: Let_def)
  qed
qed

lemma storable_worker: "storable r \<Longrightarrow> dict_get (r_workers r) k = Some w \<Longrightarrow> worker_row_ok (worker_row_of w)"
  by (simp add: storable_def)

lemma storable_job: "storable r \<Longrightarrow> dict_get (r_jobs r) i = Some j \<Longrightarrow> job_row_ok (job_row_of j)"
  by (simp add: storable_def)

lemma register_refines:
  assumes "pg_ready r" "registration_ok g" "spec_ok (reg_spec g)"
  shows "refines same_error (pg_register_worker g t (pg_of r)) (register_worker g t r) r"
proof (cases "register_worker g t r")
  case (Pair m r')
  show ?thesis
  proof (cases m)
    case (Inl e)
    then show ?thesis using register_body(2) [OF assms, of t e r'] Pair by (auto simp: refines_def)
  next
    case (Inr w)
    then have "dict_get (r_workers r') (ws_worker_id (reg_spec g)) = Some w"
      using Pair by (auto simp: register_worker_def Let_def get_job_set split: option.splits if_splits)
    then show ?thesis
      using register_body(1) [OF assms, of t w r'] Pair Inr storable_worker by (auto simp: refines_def)
  qed
qed

section \<open>State changes and heartbeats\<close>

lemma worker_row_state:
  "(worker_row_of w)\<lparr>w_state := worker_state_value s, w_last_seen_at := t\<rparr> =
     worker_row_of (w\<lparr>wr_state := s, wr_last_seen_at := t\<rparr>)"
  "(worker_row_of w)\<lparr>w_state := worker_state_value s, w_last_seen_at := t, w_active_jobs := n, w_metadata := JObj d\<rparr> =
     worker_row_of (w\<lparr>wr_state := s, wr_active_jobs := n, wr_last_seen_at := t, wr_metadata := d\<rparr>)"
  "(worker_row_of w)\<lparr>w_active_jobs := n\<rparr> = worker_row_of (w\<lparr>wr_active_jobs := n\<rparr>)"
  "(worker_row_of w)\<lparr>w_state := ''offline''\<rparr> = worker_row_of (w\<lparr>wr_state := OFFLINE\<rparr>)"
  by (simp_all add: worker_row_of_def Let_def)

lemma set_state_refines:
  assumes ok: "pg_ready r"
  shows "refines same_error (pg_set_worker_state k s t (pg_of r)) (set_worker_state k s t r) r"
proof (cases "dict_get (r_workers r) k")
  case None
  then show ?thesis
    by (simp add: refines_def set_worker_state_def get_worker_def pg_set_worker_state_def transaction_def)
next
  case (Some w)
  note st = stored_worker [OF ok Some]
  let ?g = "\<lparr>reg_spec = wr_spec w, reg_max_concurrency = wr_max_concurrency w, reg_metadata = wr_metadata w\<rparr>"
  let ?w = "w\<lparr>wr_state := s, wr_last_seen_at := t\<rparr>"
  have row: "worker_of_row (worker_row_of ?w) = Inr ?w" using st by (intro worker_of_row_of) simp_all
  have same: "gpu_overlap ?g (pg_of r) = None \<longleftrightarrow> assert_gpu_ownership_available r ?g k = None"
    using gpu_overlap_of [of ?g r] st(3) by simp
  show ?thesis
  proof (cases "s \<noteq> OFFLINE \<and> assert_gpu_ownership_available r ?g k \<noteq> None")
    case True
    then obtain e where e: "assert_gpu_ownership_available r ?g k = Some e" by blast
    with same obtain b where "gpu_overlap ?g (pg_of r) = Some b" by fastforce
    with True e st Some ownership_error_is_overlap [OF e] show ?thesis
      by (auto simp: refines_def set_worker_state_def get_worker_def pg_set_worker_state_def transaction_def)
  next
    case False
    then have "(if s \<noteq> OFFLINE then gpu_overlap ?g (pg_of r) else None) = None"
      "(if s \<noteq> OFFLINE then assert_gpu_ownership_available r ?g k else None) = None"
      using same by auto
    with st Some row storable_worker [of "r\<lparr>r_workers := dict_set k ?w (r_workers r)\<rparr>" k ?w] show ?thesis
      by (auto simp: refines_def set_worker_state_def get_worker_def pg_set_worker_state_def transaction_def
          Let_def worker_row_state write_worker_of get_job_set)
  qed
qed

lemma assert_running_row_of:
  "assert_running_row (job_row_of j) w k t = (case assert_running j w k t of Some e \<Rightarrow> Inl e | None \<Rightarrow> Inr ())"
  by (auto simp: assert_running_row_def assert_running_def status_values split: option.splits)

lemma job_row_renew:
  "(job_row_of j)\<lparr>j_lease_expires_at := Some e, j_updated_at := t\<rparr> =
     job_row_of (j\<lparr>jb_lease_expires_at := Some e, jb_updated_at := t\<rparr>)"
  by (simp add: job_row_of_def)

lemma touch_worker_of:
  assumes w: "dict_get (r_workers r) k = Some w" and row: "worker_of_row (worker_row_of w) = Inr w"
    and spec: "spec_ok (wr_spec w)" "1 \<le> wr_max_concurrency w"
  shows "touch_worker k hb t (pg_of r) =
    (if wr_state w = OFFLINE \<and> (hb_state hb = Some ONLINE \<or> hb_state hb = Some DRAINING)
     then Inl (Conflict Offline_reacquire)
     else (case heartbeat_finish k w hb t r of (Inr w', r') \<Rightarrow>
         if worker_row_ok (worker_row_of w') then Inr (w', pg_of r') else Inl Storage_unavailable
       | (Inl e, r') \<Rightarrow> Inl e))"
proof -
  let ?w = "w\<lparr>wr_state := (case hb_state hb of None \<Rightarrow> wr_state w | Some s \<Rightarrow> s),
     wr_active_jobs := active_job_count r k, wr_last_seen_at := t,
     wr_metadata := dict_merge (wr_metadata w) (hb_metadata hb)\<rparr>"
  have "worker_of_row (worker_row_of ?w) = Inr ?w" using spec by (intro worker_of_row_of) simp_all
  then show ?thesis
    using w row by (simp add: touch_worker_def heartbeat_finish_def Let_def worker_row_state(2) write_worker_of)
qed

lemma heartbeat_refines:
  assumes ok: "pg_ready r"
  shows "refines (\<lambda>_ _. True) (pg_heartbeat_worker k hb t (pg_of r)) (heartbeat_worker k hb t r) r"
proof (cases "dict_get (r_workers r) k")
  case None
  have "touch_worker k hb t db = Inl (Worker_not_found k)" if "pg_workers db = pg_workers (pg_of r)" for db
    using that None by (simp add: touch_worker_def)
  moreover have "pg_workers db = pg_workers (pg_of r)" if "renew_lease k hb t (pg_of r) = Inr db" for db
    using that
    by (auto simp: renew_lease_def write_job_def rbind_eq_Inr Let_def split: if_splits option.splits)
  ultimately show ?thesis
    using None
    by (cases "renew_lease k hb t (pg_of r)")
      (auto simp: refines_def heartbeat_worker_def get_worker_def pg_heartbeat_worker_def transaction_def)
next
  case (Some w)
  note st = stored_worker [OF ok Some]
  let ?off = "wr_state w = OFFLINE \<and> (hb_state hb = Some ONLINE \<or> hb_state hb = Some DRAINING)"
  have touch: "touch_worker k hb t (pg_of r1) = (if ?off then Inl (Conflict Offline_reacquire)
      else (case heartbeat_finish k w hb t r1 of (Inr w', r') \<Rightarrow>
          if worker_row_ok (worker_row_of w') then Inr (w', pg_of r') else Inl Storage_unavailable
        | (Inl e, r') \<Rightarrow> Inl e))" if "r_workers r1 = r_workers r" for r1
    using that Some st by (intro touch_worker_of) simp_all
  have fin: "\<exists>w'. heartbeat_finish k w hb t r1 = (Inr w', r1\<lparr>r_workers := dict_set k w' (r_workers r1)\<rparr>)" for r1
    by (simp add: heartbeat_finish_def Let_def)
  show ?thesis
  proof (cases ?off)
    case True
    then have "\<exists>e. rbind (renew_lease k hb t (pg_of r)) (touch_worker k hb t) = Inl e"
      using touch write_job_of
      by (auto simp: renew_lease_def Let_def assert_running_row_of job_row_renew write_job_of
          split: option.splits)
    then show ?thesis
      using True Some
      by (auto simp: refines_def heartbeat_worker_def get_worker_def pg_heartbeat_worker_def transaction_def)
  next
    case False
    have fin_ref: "refines (\<lambda>_ _. True) (transaction (\<lambda>_. touch_worker k hb t (pg_of r1)) (pg_of r))
        (heartbeat_finish k w hb t r1) r" if "r_workers r1 = r_workers r" for r1
    proof -
      obtain w' where f: "heartbeat_finish k w hb t r1 = (Inr w', r1\<lparr>r_workers := dict_set k w' (r_workers r1)\<rparr>)"
        using fin by blast
      show ?thesis
        using touch [OF that] False storable_worker [of "r1\<lparr>r_workers := dict_set k w' (r_workers r1)\<rparr>" k w']
        by (auto simp: refines_def f transaction_def get_job_set)
    qed
    consider (none) "hb_active_job_id hb = None" "hb_lease_token hb = None"
      | (half) "hb_active_job_id hb \<noteq> None \<or> hb_lease_token hb \<noteq> None"
          "hb_active_job_id hb \<in> {None, Some []} \<or> hb_lease_token hb \<in> {None, Some []}"
      | (lease) i tok where "hb_active_job_id hb = Some i" "hb_lease_token hb = Some tok" "i \<noteq> []" "tok \<noteq> []"
      by (cases "hb_active_job_id hb"; cases "hb_lease_token hb") auto
    then show ?thesis
    proof cases
      case none
      then show ?thesis
        using fin_ref [of r] False Some
        by (auto simp: heartbeat_worker_def get_worker_def pg_heartbeat_worker_def renew_lease_def transaction_def)
    next
      case half
      then show ?thesis
        using False Some
        by (auto simp: refines_def heartbeat_worker_def get_worker_def pg_heartbeat_worker_def renew_lease_def transaction_def)
    next
      case lease
      show ?thesis
      proof (cases "\<exists>j. dict_get (r_jobs r) i = Some j \<and> assert_running j k tok t = None")
        case False
        then show ?thesis
          using lease Some \<open>\<not> ?off\<close>
          by (auto simp: refines_def heartbeat_worker_def get_worker_def get_job_def pg_heartbeat_worker_def
              renew_lease_def transaction_def assert_running_row_of Let_def split: option.splits)
      next
        case True
        then obtain j where j: "dict_get (r_jobs r) i = Some j" "assert_running j k tok t = None" by blast
        have id: "jb_job_id j = i" by (rule stored_job(3) [OF ok j(1)])
        let ?j = "j\<lparr>jb_lease_expires_at := Some (t + seconds (lease_seconds r)), jb_updated_at := t\<rparr>"
        let ?r1 = "r\<lparr>r_jobs := dict_set i ?j (r_jobs r)\<rparr>"
        have m: "heartbeat_worker k hb t r = heartbeat_finish k w hb t ?r1"
          using lease Some j \<open>\<not> ?off\<close> id
          by (auto simp: heartbeat_worker_def get_worker_def get_job_def Let_def)
        have p: "renew_lease k hb t (pg_of r) =
            (if job_row_ok (job_row_of ?j) then Inr (pg_of ?r1) else Inl Storage_unavailable)"
          using lease j by (simp add: renew_lease_def assert_running_row_of job_row_renew write_job_of)
        show ?thesis
        proof (cases "job_row_ok (job_row_of ?j)")
          case True
          then show ?thesis
            using fin_ref [of ?r1] by (simp add: m pg_heartbeat_worker_def p transaction_def)
        next
          case False
          obtain w' where f: "heartbeat_finish k w hb t ?r1 = (Inr w', ?r1\<lparr>r_workers := dict_set k w' (r_workers ?r1)\<rparr>)"
            using fin by blast
          have "\<not> storable (?r1\<lparr>r_workers := dict_set k w' (r_workers ?r1)\<rparr>)"
            using False storable_job [of "?r1\<lparr>r_workers := dict_set k w' (r_workers ?r1)\<rparr>" i ?j]
            by (auto simp: get_job_set)
          with False show ?thesis
            by (simp add: m f refines_def pg_heartbeat_worker_def p transaction_def)
        qed
      qed
    qed
  qed
qed

section \<open>The end of an attempt\<close>

lemma decrement_worker_of:
  "decrement_worker w (pg_of r) = (let r' = release_worker_capacity w r in
     if (\<forall>k v. w = Some k \<longrightarrow> dict_get (r_workers r) k = Some v \<longrightarrow>
          worker_row_ok (worker_row_of (v\<lparr>wr_active_jobs := max (wr_active_jobs v - 1) 0\<rparr>)))
     then Inr (pg_of r') else Inl Storage_unavailable)"
  by (auto simp: decrement_worker_def release_worker_capacity_def worker_row_state write_worker_of Let_def
      split: option.splits)

lemma finish_job_of:
  assumes row: "job_of_row (job_row_of j) = Inr j"
  shows "finish_job i (job_row_of j) w (pg_of r) =
      Inr (j, pg_of (release_worker_capacity w (r\<lparr>r_jobs := dict_set i j (r_jobs r)\<rparr>))) \<or>
    \<not> storable (release_worker_capacity w (r\<lparr>r_jobs := dict_set i j (r_jobs r)\<rparr>)) \<and>
      finish_job i (job_row_of j) w (pg_of r) = Inl Storage_unavailable"
proof -
  let ?r = "r\<lparr>r_jobs := dict_set i j (r_jobs r)\<rparr>"
  have job: "\<not> job_row_ok (job_row_of j) \<Longrightarrow> \<not> storable (release_worker_capacity w ?r)"
    using storable_job [of "release_worker_capacity w ?r" i j] by (auto simp: get_job_set)
  have worker: "\<not> storable (release_worker_capacity w ?r)"
    if "w = Some k" "dict_get (r_workers r) k = Some v"
      "\<not> worker_row_ok (worker_row_of (v\<lparr>wr_active_jobs := max (wr_active_jobs v - 1) 0\<rparr>))" for k v
    using storable_worker [of "release_worker_capacity w ?r" k] that
    by (auto simp: release_worker_capacity_def get_job_set)
  show ?thesis
  proof (cases "job_row_ok (job_row_of j)")
    case False
    then show ?thesis using job by (simp add: finish_job_def write_job_of)
  next
    case True
    then have f: "finish_job i (job_row_of j) w (pg_of r) =
        rbind (decrement_worker w (pg_of ?r)) (\<lambda>db. Inr (j, db))"
      using row by (simp add: finish_job_def write_job_of)
    show ?thesis
      using worker unfolding f decrement_worker_of Let_def by (auto split: if_splits)
  qed
qed

lemma transaction_finish:
  assumes "job_of_row (job_row_of j) = Inr j"
    and "m = (Inr j, release_worker_capacity w (r\<lparr>r_jobs := dict_set i j (r_jobs r)\<rparr>))"
  shows "refines E (transaction (\<lambda>db. finish_job i (job_row_of j) w (pg_of r)) (pg_of r)) m r"
  using finish_job_of [OF assms(1), of i w r] assms(2) by (auto simp: refines_def transaction_def)

lemma job_row_ends:
  "completed_row x t (job_row_of j) = job_row_of (completed_record x t j)"
  "failed_row b e t (job_row_of j) = job_row_of (failed_record b e t j)"
  "cancelled_row t (job_row_of j) = job_row_of (cancelled_record t j)"
  "claimed_row w k t l (job_row_of j) = job_row_of (claimed_record w k t l j)"
  by (simp_all add: completed_row_def completed_record_def failed_row_def failed_record_def
      cancelled_row_def cancelled_record_def claimed_row_def claimed_record_def job_row_of_def)

lemma record_ok_ends:
  "record_ok j \<Longrightarrow> result_ok x \<Longrightarrow> record_ok (completed_record x t j)"
  "record_ok j \<Longrightarrow> record_ok (failed_record b e t j)"
  "record_ok j \<Longrightarrow> record_ok (cancelled_record t j)"
  "record_ok j \<Longrightarrow> record_ok (claimed_record w k t l j)"
  by (simp_all add: record_ok_def completed_record_def failed_record_def cancelled_record_def claimed_record_def)

lemma end_sequence [simp]:
  "jb_sequence (claimed_record w k t l j) = jb_sequence j"
  by (simp add: claimed_record_def)

lemma complete_refines:
  assumes ok: "pg_ready r" and x: "result_ok x"
  shows "refines (=) (pg_complete_job i x w k t (pg_of r)) (complete_job i x w k t r) r"
proof (cases "dict_get (r_jobs r) i")
  case None
  then show ?thesis
    by (simp add: refines_def complete_job_def get_job_def pg_complete_job_def transaction_def)
next
  case (Some j)
  note st = stored_job [OF ok Some]
  have row: "job_of_row (job_row_of (completed_record x t j)) = Inr (completed_record x t j)"
    using st x by (intro job_of_row_of record_ok_ends) simp_all
  show ?thesis
  proof (cases "assert_running j w k t")
    case None
    then have "pg_complete_job i x w k t (pg_of r) =
        transaction (\<lambda>db. finish_job i (job_row_of (completed_record x t j)) (Some w) (pg_of r)) (pg_of r)"
      using Some by (simp add: pg_complete_job_def transaction_def assert_running_row_of job_row_ends)
    then show ?thesis
      using transaction_finish [OF row] None Some by (simp add: complete_job_def get_job_def Let_def)
  next
    case (Some e)
    then show ?thesis
      using \<open>dict_get (r_jobs r) i = Some j\<close>
      by (simp add: refines_def complete_job_def get_job_def pg_complete_job_def transaction_def assert_running_row_of)
  qed
qed

lemma fail_refines:
  assumes ok: "pg_ready r"
  shows "refines (=) (pg_fail_job i f b w k t (pg_of r)) (fail_job i f b w k t r) r"
proof (cases "dict_get (r_jobs r) i")
  case None
  then show ?thesis
    by (simp add: refines_def fail_job_def get_job_def pg_fail_job_def transaction_def)
next
  case (Some j)
  note st = stored_job [OF ok Some]
  let ?b = "b \<and> jb_attempts j < jb_max_attempts j"
  let ?j = "failed_record ?b (failure_payload f ?b) t j"
  have row: "job_of_row (job_row_of ?j) = Inr ?j"
    using st by (intro job_of_row_of record_ok_ends) simp_all
  show ?thesis
  proof (cases "assert_running j w k t")
    case None
    then have "pg_fail_job i f b w k t (pg_of r) =
        transaction (\<lambda>db. finish_job i (job_row_of ?j) (Some w) (pg_of r)) (pg_of r)"
      using Some by (simp add: pg_fail_job_def transaction_def assert_running_row_of job_row_ends Let_def)
    then show ?thesis
      using transaction_finish [OF row] None Some by (simp add: fail_job_def get_job_def Let_def)
  next
    case (Some e)
    then show ?thesis
      using \<open>dict_get (r_jobs r) i = Some j\<close>
      by (simp add: refines_def fail_job_def get_job_def pg_fail_job_def transaction_def assert_running_row_of)
  qed
qed

lemma cancel_refines:
  assumes ok: "pg_ready r"
  shows "refines (=) (pg_cancel_job i t (pg_of r)) (cancel_job i t r) r"
proof (cases "dict_get (r_jobs r) i")
  case None
  then show ?thesis
    by (simp add: refines_def cancel_job_def get_job_def pg_cancel_job_def transaction_def)
next
  case (Some j)
  note st = stored_job [OF ok Some]
  have row: "job_of_row (job_row_of (cancelled_record t j)) = Inr (cancelled_record t j)"
    using st by (intro job_of_row_of record_ok_ends) simp_all
  show ?thesis
  proof (cases "jb_status j \<in> {SUCCEEDED, FAILED, CANCELLED}")
    case True
    then show ?thesis
      using Some st by (simp add: refines_def cancel_job_def get_job_def pg_cancel_job_def transaction_def)
  next
    case False
    let ?w = "if jb_status j = RUNNING then jb_assigned_worker_id j else None"
    have "pg_cancel_job i t (pg_of r) =
        transaction (\<lambda>db. finish_job i (job_row_of (cancelled_record t j)) ?w (pg_of r)) (pg_of r)"
      using Some False st by (simp add: pg_cancel_job_def transaction_def job_row_ends)
    moreover have "cancel_job i t r = (Inr (cancelled_record t j),
        release_worker_capacity ?w (r\<lparr>r_jobs := dict_set i (cancelled_record t j) (r_jobs r)\<rparr>))"
    proof -
      have "release_worker_capacity None x = x" for x by (simp add: release_worker_capacity_def)
      then show ?thesis using Some False by (simp add: cancel_job_def get_job_def Let_def release_swap)
    qed
    ultimately show ?thesis using transaction_finish [OF row] by simp
  qed
qed

section \<open>Submission\<close>

lemma find_map: "List.find p (map f xs) = map_option f (List.find (p \<circ> f) xs)"
  by (induction xs) auto

lemma row_by_key_of:
  assumes inv: "repo_inv r" and k: "k \<noteq> []"
  shows "row_by_key k (pg_of r) =
    Option.bind (dict_get (r_idempotency r) k) (\<lambda>i. map_option job_row_of (dict_get (r_jobs r) i))"
proof -
  let ?f = "List.find (\<lambda>j. jb_idempotency_key j = Some k) (dict_values (r_jobs r))"
  have idem: "idem_ok (dict_get (r_idempotency r)) (dict_get (r_jobs r))" and ok: "dict_ok (r_jobs r)"
    using inv by (simp_all add: repo_inv_def)
  have find: "row_by_key k (pg_of r) = map_option job_row_of ?f"
    by (simp add: row_by_key_def find_map o_def option.map_comp)
  show ?thesis
  proof (cases ?f)
    case None
    then have no: "jb_idempotency_key j \<noteq> Some k" if "dict_get (r_jobs r) i = Some j" for i j
      using dict_get_value [OF that] by (auto simp: find_None_iff)
    have "dict_get (r_idempotency r) k = None"
    proof (rule ccontr)
      assume "dict_get (r_idempotency r) k \<noteq> None"
      then obtain i where "dict_get (r_idempotency r) k = Some i" by blast
      then obtain j where "dict_get (r_jobs r) i = Some j" "jb_idempotency_key j = Some k"
        using idem unfolding idem_ok_def by blast
      with no show False by blast
    qed
    with None find show ?thesis by simp
  next
    case (Some j)
    then have j: "j \<in> set (dict_values (r_jobs r))" "jb_idempotency_key j = Some k"
      by (auto simp: find_Some_iff)
    then obtain i where i: "dict_get (r_jobs r) i = Some j" using dict_value_get [OF ok] by blast
    then have "dict_get (r_idempotency r) k = Some i" using idem j(2) k unfolding idem_ok_def by blast
    with Some find i show ?thesis by simp
  qed
qed

lemma submission_row_of:
  "submission_row s t i n = job_row_of \<lparr>jb_job_id = i, jb_capability = sub_capability s,
     jb_payload = sub_payload s, jb_requirements = sub_requirements s, jb_priority = sub_priority s,
     jb_sequence = n, jb_status = QUEUED, jb_attempts = 0, jb_max_attempts = sub_max_attempts s,
     jb_idempotency_key = sub_idempotency_key s, jb_created_at = t,
     jb_available_at = (case sub_available_at s of Some t \<Rightarrow> t | None \<Rightarrow> t), jb_updated_at = t,
     jb_assigned_worker_id = None, jb_lease_token = None, jb_lease_expires_at = None,
     jb_started_at = None, jb_finished_at = None, jb_result = None, jb_error = None\<rparr>"
  by (simp add: submission_row_def job_row_of_def)

lemma pg_of_submit:
  "(pg_of (r\<lparr>r_jobs := js\<rparr>))\<lparr>pg_sequence := n\<rparr> = pg_of (r\<lparr>r_sequence := n, r_jobs := js, r_idempotency := d\<rparr>)"
  by (simp add: pg_of_def)

lemma new_job_refines:
  assumes ok: "pg_ready r" and req: "job_requirements_ok (sub_requirements s)"
    and fresh: "dict_get (r_jobs r) i = None"
    and key: "Option.bind (sub_idempotency_key s) (\<lambda>k. row_by_key k (pg_of r)) = None"
    and key': "(case sub_idempotency_key s of Some k \<Rightarrow> if k = [] then None else row_by_key k (pg_of r) | None \<Rightarrow> None) = None"
  shows "refines (=) (pg_submit_job s t i (pg_of r)) (new_job s t i r) r"
proof -
  obtain j d where m: "new_job s t i r = (Inr j, r\<lparr>r_sequence := r_sequence r + 1,
        r_jobs := dict_set i j (r_jobs r), r_idempotency := d\<rparr>)"
    and j: "job_row_of j = submission_row s t i (r_sequence r + 1)"
    and f: "jb_requirements j = sub_requirements s" "jb_sequence j = r_sequence r + 1" "jb_result j = None"
    by (simp add: new_job_def Let_def submission_row_of)
  have "0 \<le> r_sequence r" using ok by (simp add: pg_ready_def repo_inv_def)
  then have row: "job_of_row (job_row_of j) = Inr j"
    using req f by (intro job_of_row_of) (simp_all add: record_ok_def)
  have bad: "\<not> job_row_ok (job_row_of j) \<Longrightarrow> \<not> storable (r\<lparr>r_sequence := r_sequence r + 1,
        r_jobs := dict_set i j (r_jobs r), r_idempotency := d\<rparr>)"
    using storable_job [of "r\<lparr>r_sequence := r_sequence r + 1,
        r_jobs := dict_set i j (r_jobs r), r_idempotency := d\<rparr>" i j] by (auto simp: get_job_set)
  show ?thesis
    unfolding m refines_def pg_submit_job_def transaction_def key key'
    using row fresh bad
    by (simp add: j [symmetric] write_job_of Let_def pg_of_submit [of _ _ _ d])
qed

lemma submit_refines:
  assumes ok: "pg_ready r" and s: "submission_ok s" and req: "job_requirements_ok (sub_requirements s)"
    and fresh: "dict_get (r_jobs r) i = None"
  shows "refines (=) (pg_submit_job s t i (pg_of r)) (submit_job s t i r) r"
proof -
  have inv: "repo_inv r" using ok by (simp add: pg_ready_def)
  show ?thesis
  proof (cases "\<exists>k n. sub_idempotency_key s = Some k \<and> dict_get (r_idempotency r) k = Some n")
    case True
    then obtain k n where k: "sub_idempotency_key s = Some k" and n: "dict_get (r_idempotency r) k = Some n"
      by blast
    have ne: "k \<noteq> []" using k s by (auto simp: submission_ok_def)
    obtain j where j: "dict_get (r_jobs r) n = Some j"
      using inv n unfolding repo_inv_def idem_ok_def by blast
    have "row_by_key k (pg_of r) = Some (job_row_of j)" using row_by_key_of [OF inv ne] n j by simp
    then show ?thesis
      using k ne n j stored_job(1) [OF ok j]
      by (simp add: refines_def submit_job_def pg_submit_job_def transaction_def existing_submission_def)
  next
    case False
    then have no: "row_by_key k (pg_of r) = None" if "sub_idempotency_key s = Some k" for k
      using row_by_key_of [OF inv, of k] that s by (cases "dict_get (r_idempotency r) k") (auto simp: submission_ok_def)
    have m: "submit_job s t i r = new_job s t i r"
      using False by (auto simp: submit_job_def split: option.splits)
    show ?thesis
      unfolding m by (rule new_job_refines [OF ok req fresh])
        (use no in \<open>cases "sub_idempotency_key s"; auto\<close>)+
  qed
qed

section \<open>The expiry sweep\<close>

lemma dict_set_middle: "k \<notin> fst ` set pre \<Longrightarrow> dict_set k v (pre @ (k, u) # ys) = pre @ (k, v) # ys"
  by (induction pre) auto

lemma expire_loop_state:
  assumes "r_workers r = pre @ xs" "dict_ok (pre @ xs)"
  shows "snd (expire_loop c xs r) = r\<lparr>r_workers := pre @ map (\<lambda>(k, w).
    (k, if wr_state w \<noteq> OFFLINE \<and> wr_last_seen_at w < c then w\<lparr>wr_state := OFFLINE\<rparr> else w)) xs\<rparr>"
  using assms
proof (induction xs arbitrary: r pre)
  case Nil
  then show ?case by simp
next
  case (Cons p xs)
  obtain k w where p: "p = (k, w)" by (cases p)
  have k: "k \<notin> fst ` set pre" using Cons.prems p by auto
  show ?case
  proof (cases "wr_state w = OFFLINE \<or> c \<le> wr_last_seen_at w")
    case True
    then have e: "expire_loop c (p # xs) r = expire_loop c xs r" by (auto simp: p)
    have "snd (expire_loop c xs r) = r\<lparr>r_workers := (pre @ [(k, w)]) @ map (\<lambda>(k, w).
        (k, if wr_state w \<noteq> OFFLINE \<and> wr_last_seen_at w < c then w\<lparr>wr_state := OFFLINE\<rparr> else w)) xs\<rparr>"
      using Cons.prems p by (intro Cons.IH) simp_all
    with True show ?thesis unfolding e by (auto simp: p)
  next
    case False
    let ?w = "w\<lparr>wr_state := OFFLINE\<rparr>"
    let ?r = "r\<lparr>r_workers := dict_set k ?w (r_workers r)\<rparr>"
    have e: "snd (expire_loop c (p # xs) r) = snd (expire_loop c xs ?r)"
      using False by (simp add: p Let_def split_def)
    have "snd (expire_loop c xs ?r) = ?r\<lparr>r_workers := (pre @ [(k, ?w)]) @ map (\<lambda>(k, w).
        (k, if wr_state w \<noteq> OFFLINE \<and> wr_last_seen_at w < c then w\<lparr>wr_state := OFFLINE\<rparr> else w)) xs\<rparr>"
      using Cons.prems p k by (intro Cons.IH) (simp_all add: dict_set_middle)
    with False show ?thesis unfolding e by (simp add: p)
  qed
qed

lemma expire_refines:
  assumes ok: "pg_ready r"
  shows "refines (=) (pg_expire_stale_workers t (pg_of r))
    (Inr (fst (expire_stale_workers t r)), snd (expire_stale_workers t r)) r"
proof -
  let ?c = "t - seconds (worker_ttl_seconds r)"
  let ?off = "\<lambda>w :: worker_record. w\<lparr>wr_state := OFFLINE\<rparr>"
  let ?new = "\<lambda>w. if wr_state w \<noteq> OFFLINE \<and> wr_last_seen_at w < ?c then ?off w else w"
  let ?stale = "filter (\<lambda>w. wr_state w \<noteq> OFFLINE \<and> wr_last_seen_at w < ?c) (dict_values (r_workers r))"
  have keys: "dict_ok (r_workers r)" using ok by (simp add: pg_ready_def repo_inv_def)
  have stale: "stale_row ?c (worker_row_of w) \<longleftrightarrow> wr_state w \<noteq> OFFLINE \<and> wr_last_seen_at w < ?c" for w
    by (simp add: stale_row_def status_values)
  have state: "snd (expire_stale_workers t r) = r\<lparr>r_workers := map_dict ?new (r_workers r)\<rparr>"
    using expire_loop_state [of r "[]" "r_workers r" ?c] keys
    by (simp add: expire_stale_workers_def map_dict_def)
  have rows: "filter (stale_row ?c) (map worker_row_of (dict_values (r_workers r))) = map worker_row_of ?stale"
    by (simp add: filter_map o_def stale)
  have off: "map (\<lambda>w. w\<lparr>w_state := ''offline''\<rparr>) (map worker_row_of xs) = map worker_row_of (map ?off xs)" for xs
    by (simp add: worker_row_state)
  have table: "map (\<lambda>(k, w). (k, if stale_row ?c w then w\<lparr>w_state := ''offline''\<rparr> else w))
      (map_dict worker_row_of (r_workers r)) = map_dict worker_row_of (map_dict ?new (r_workers r))"
    by (simp add: map_dict_def split_def stale worker_row_state)
  have read: "rmap worker_of_row (map worker_row_of (map ?off ?stale)) = Inr (map ?off ?stale)"
  proof (rule rmap_roundtrip)
    fix w assume "w \<in> set (map ?off ?stale)"
    then obtain v where v: "w = ?off v" "v \<in> set (dict_values (r_workers r))" by auto
    then obtain k where "dict_get (r_workers r) k = Some v" using dict_value_get [OF keys] by blast
    from stored_worker [OF ok this] show "worker_of_row (worker_row_of w) = Inr w"
      unfolding v by (intro worker_of_row_of) simp_all
  qed
  have bad: "\<not> storable (r\<lparr>r_workers := map_dict ?new (r_workers r)\<rparr>)"
    if "\<not> list_all worker_row_ok (map worker_row_of (map ?off ?stale))"
  proof -
    from that obtain v where v: "v \<in> set (dict_values (r_workers r))" "wr_state v \<noteq> OFFLINE"
      "wr_last_seen_at v < ?c" "\<not> worker_row_ok (worker_row_of (?off v))"
      by (auto simp: list_all_iff)
    then obtain k where "dict_get (r_workers r) k = Some v" using dict_value_get [OF keys] by blast
    then have "dict_get (map_dict ?new (r_workers r)) k = Some (?off v)" using v by simp
    then show ?thesis using v(4) unfolding storable_def by force
  qed
  show ?thesis
    unfolding refines_def prod.case sum.case pg_expire_stale_workers_def pg_of_sel map_dict_values rows off table
      read state Let_def
    using bad by (simp add: expire_stale_workers_def expire_loop_list pg_of_workers)
qed

section \<open>Claims\<close>

lemma insort_key_map: "insort_key f (g x) (map g ys) = map g (insort_key (f \<circ> g) x ys)"
  by (induction ys) auto

lemma sort_key_map: "sort_key f (map g xs) = map g (sort_key (f \<circ> g) xs)"
  by (induction xs) (simp_all add: sort_key_def insort_key_map o_def)

lemma first_by_map: "first_by f (map g xs) = map_option g (first_by (f \<circ> g) xs)"
  by (simp add: first_by_def sort_key_map split: list.splits)

text \<open>The casts of the claim query succeed: every stored minimum is a 32-bit integer.\<close>

definition casts_ok :: "repo \<Rightarrow> bool" where
  "casts_ok r \<longleftrightarrow> (\<forall>i j. dict_get (r_jobs r) i = Some j \<longrightarrow> int4 (jr_min_gpu_count (jb_requirements j)) \<and>
     int4 (jr_min_total_vram_mb (jb_requirements j)) \<and> int4 (jr_min_single_gpu_vram_mb (jb_requirements j)))"

lemma jsonb_exists_sorted [simp]: "finite S \<Longrightarrow> jsonb_exists (json_sorted S) c \<longleftrightarrow> c \<in> S"
  by (auto simp: json_sorted_def)

lemma array_texts_sorted: "finite S \<Longrightarrow> array_texts_exist (json_sorted S) a \<longleftrightarrow> (\<forall>c \<in> S. jsonb_exists a c)"
  by (auto simp: json_sorted_def list_all_iff)

lemma labels_contained_of:
  "labels_contained (json_labels a) (json_labels b) \<longleftrightarrow> (\<forall>(k, v) \<in> set a. dict_get b k = Some v)"
proof -
  have "dict_get (map (\<lambda>(k, v). (k, JStr v)) b) k = map_option JStr (dict_get b k)" for k
    by (induction b) auto
  then show ?thesis by (auto simp: json_labels_def list_all_iff)
qed

lemma queue_row_matches_of:
  assumes spec: "spec_ok (wr_spec w)" and j: "record_ok j"
  shows "queue_row_matches (wr_spec w) t (job_row_of j) \<and>
      jr_min_gpu_count (jb_requirements j) \<le> gpu_count (ws_resources (wr_spec w)) \<and>
      jr_min_total_vram_mb (jb_requirements j) \<le> total_vram_mb (ws_resources (wr_spec w)) \<and>
      jr_min_single_gpu_vram_mb (jb_requirements j) \<le> max_single_gpu_vram_mb (ws_resources (wr_spec w)) \<longleftrightarrow>
    eligible w t j"
proof -
  let ?q = "jb_requirements j" and ?s = "wr_spec w"
  have fin: "finite (ws_capabilities ?s)" "finite (jr_required_capabilities ?q)" "finite (jr_required_gpu_uuids ?q)"
    using spec j by (simp_all add: spec_ok_def worker_spec_ok_def record_ok_def job_requirements_ok_def)
  have cls: "(json_opt (jr_worker_class ?q) = JNull \<or> json_opt (jr_worker_class ?q) = JStr (ws_worker_class ?s)) \<longleftrightarrow>
      (\<forall>c. jr_worker_class ?q = Some c \<longrightarrow> c = [] \<or> ws_worker_class ?s = c)"
    using j by (cases "jr_worker_class ?q")
      (auto simp: json_opt_def record_ok_def job_requirements_ok_def norm_text_def)
  have get: "json_get (requirements_to_dict ?q) ''worker_class'' = json_opt (jr_worker_class ?q)"
    "json_get (requirements_to_dict ?q) ''required_capabilities'' = json_sorted (jr_required_capabilities ?q)"
    "json_get (requirements_to_dict ?q) ''required_labels'' = json_labels (jr_required_labels ?q)"
    "json_get (requirements_to_dict ?q) ''required_gpu_uuids'' = json_sorted (jr_required_gpu_uuids ?q)"
    by (simp_all add: json_get_def requirements_to_dict_def)
  show ?thesis
    unfolding queue_row_matches_def Let_def job_row_sel requirements_column.simps get cls
      array_texts_sorted [OF fin(2)] array_texts_sorted [OF fin(3)] labels_contained_of
      jsonb_exists_sorted [OF fin(1)] status_values eligible_def worker_matches_satisfies satisfies_def
    by (auto simp: subset_iff)
qed

lemma claim_row_matches_of:
  assumes spec: "spec_ok (wr_spec w)" and j: "record_ok j"
  shows "claim_row_matches (wr_spec w) t cap (job_row_of j) \<in> {None, Some (eligible w t j \<and> cap)}"
    and "int4 (jr_min_gpu_count (jb_requirements j)) \<Longrightarrow> int4 (jr_min_total_vram_mb (jb_requirements j)) \<Longrightarrow>
      int4 (jr_min_single_gpu_vram_mb (jb_requirements j)) \<Longrightarrow>
      claim_row_matches (wr_spec w) t cap (job_row_of j) = Some (eligible w t j \<and> cap)"
proof -
  let ?q = "jb_requirements j"
  have num: "sql_integer (requirements_to_dict ?q) ''min_gpu_count'' =
      (if int4 (jr_min_gpu_count ?q) then Some (jr_min_gpu_count ?q) else None)"
    "sql_integer (requirements_to_dict ?q) ''min_total_vram_mb'' =
      (if int4 (jr_min_total_vram_mb ?q) then Some (jr_min_total_vram_mb ?q) else None)"
    "sql_integer (requirements_to_dict ?q) ''min_single_gpu_vram_mb'' =
      (if int4 (jr_min_single_gpu_vram_mb ?q) then Some (jr_min_single_gpu_vram_mb ?q) else None)"
    by (simp_all add: sql_integer_def json_get_def requirements_to_dict_def)
  note key = queue_row_matches_of [OF spec j, of t, symmetric]
  show "claim_row_matches (wr_spec w) t cap (job_row_of j) \<in> {None, Some (eligible w t j \<and> cap)}"
    unfolding claim_row_matches_def Let_def job_row_sel requirements_column.simps num key by auto
  show "claim_row_matches (wr_spec w) t cap (job_row_of j) = Some (eligible w t j \<and> cap)"
    if "int4 (jr_min_gpu_count ?q)" "int4 (jr_min_total_vram_mb ?q)" "int4 (jr_min_single_gpu_vram_mb ?q)"
    unfolding claim_row_matches_def Let_def job_row_sel requirements_column.simps num key using that by auto
qed

text \<open>What the claim query finds: the job the reference picks, under its id.\<close>

lemma claim_query_of:
  assumes ok: "pg_ready r" and w: "dict_get (r_workers r) k = Some w"
  shows "claim_query (worker_row_of w) (wr_spec w) t (pg_of r) = Inl Storage_unavailable \<and> \<not> casts_ok r \<or>
    claim_query (worker_row_of w) (wr_spec w) t (pg_of r) =
      Inr (if wr_active_jobs w < wr_max_concurrency w
        then map_option (\<lambda>j. (jb_job_id j, job_row_of j))
          (first_by claim_key (filter (eligible w t) (dict_values (r_jobs r)))) else None)"
proof -
  let ?cap = "wr_active_jobs w < wr_max_concurrency w"
  let ?row = "\<lambda>p. (fst p, job_row_of (snd p))"
  let ?test = "\<lambda>p. claim_row_matches (wr_spec w) t ?cap (snd p)"
  have keys: "dict_ok (r_jobs r)" using ok by (simp add: pg_ready_def repo_inv_def)
  have table: "map_dict job_row_of (r_jobs r) = map ?row (r_jobs r)"
    by (simp add: map_dict_def split_def)
  have stored: "dict_get (r_jobs r) (fst p) = Some (snd p)" if "p \<in> set (r_jobs r)" for p
    using that keys by simp
  note rec = stored_job(2) [OF ok stored] and spec = stored_worker(2) [OF ok w]
  show ?thesis
  proof (cases "list_ex (\<lambda>p. ?test p = None) (map ?row (r_jobs r))")
    case True
    then obtain p where p: "p \<in> set (r_jobs r)" "?test (?row p) = None" by (auto simp: list_ex_iff)
    then have "\<not> casts_ok r"
      using claim_row_matches_of(2) [OF spec rec [OF p(1)], of t ?cap] stored [OF p(1)]
      unfolding casts_ok_def by (metis option.distinct(1) snd_conv)
    with True show ?thesis by (simp add: claim_query_def table Let_def)
  next
    case False
    then have test: "claim_row_matches (wr_spec w) t ?cap (job_row_of (snd p)) = Some (eligible w t (snd p) \<and> ?cap)"
      if "p \<in> set (r_jobs r)" for p
      using that claim_row_matches_of(1) [OF spec rec [OF that], of t ?cap] by (fastforce simp: list_ex_iff)
    have hits: "filter (\<lambda>p. ?test p = Some True) (map ?row (r_jobs r)) =
        map ?row (filter (\<lambda>p. eligible w t (snd p) \<and> ?cap) (r_jobs r))"
      unfolding filter_map o_def snd_conv
      by (intro arg_cong [where f = "map ?row"] filter_cong) (simp_all add: test)
    have key: "(\<lambda>p. (- j_priority (snd p), j_sequence (snd p))) \<circ> ?row = claim_key \<circ> snd"
      by (simp add: fun_eq_iff claim_key_def)
    have vals: "filter (eligible w t) (dict_values (r_jobs r)) =
        map snd (filter (\<lambda>p. eligible w t (snd p)) (r_jobs r))"
      by (simp add: filter_map o_def)
    have id: "?row p = (jb_job_id (snd p), job_row_of (snd p))"
      if "first_by (claim_key \<circ> snd) (filter (\<lambda>p. eligible w t (snd p)) (r_jobs r)) = Some p" for p
      using first_by_Some(1) [OF that] stored_job(3) [OF ok stored] by auto
    have "claim_query (worker_row_of w) (wr_spec w) t (pg_of r) =
        Inr (map_option ?row (first_by (claim_key \<circ> snd) (filter (\<lambda>p. eligible w t (snd p) \<and> ?cap) (r_jobs r))))"
      using False by (simp add: claim_query_def table Let_def hits first_by_map key)
    then show ?thesis
      unfolding vals first_by_map
      by (cases "first_by (claim_key \<circ> snd) (filter (\<lambda>p. eligible w t (snd p)) (r_jobs r))")
        (auto simp: id first_by_def)
  qed
qed

lemma claim_refines:
  assumes ok: "pg_ready r"
  shows "refines (=) (pg_claim_next_job k t tok (pg_of r)) (claim_next_job k t tok r) r \<or>
    \<not> casts_ok r \<and> pg_claim_next_job k t tok (pg_of r) = (Inl Storage_unavailable, pg_of r)"
proof (cases "dict_get (r_workers r) k")
  case None
  then show ?thesis
    by (simp add: refines_def claim_next_job_def get_worker_def pg_claim_next_job_def transaction_def)
next
  case (Some w)
  note st = stored_worker [OF ok Some]
  have late: "t - wr_last_seen_at w > seconds (worker_ttl_seconds r) \<longleftrightarrow>
      wr_last_seen_at w < t - seconds (worker_ttl_seconds r)" by linarith
  show ?thesis
  proof (cases "wr_last_seen_at w < t - seconds (worker_ttl_seconds r)")
    case True
    then show ?thesis
      using Some st late storable_worker [of "r\<lparr>r_workers := dict_set k (w\<lparr>wr_state := OFFLINE\<rparr>) (r_workers r)\<rparr>" k]
      by (auto simp: refines_def claim_next_job_def get_worker_def pg_claim_next_job_def transaction_def
          worker_row_state write_worker_of get_job_set)
  next
    case here: False
    show ?thesis
    proof (cases "wr_state w = ONLINE")
      case False
      then show ?thesis
        using Some st late here
        by (simp add: refines_def claim_next_job_def get_worker_def pg_claim_next_job_def transaction_def)
    next
      case online: True
      let ?f = "first_by claim_key (filter (eligible w t) (dict_values (r_jobs r)))"
      let ?cap = "wr_active_jobs w < wr_max_concurrency w"
      show ?thesis
      proof (cases "claim_query (worker_row_of w) (wr_spec w) t (pg_of r) = Inl Storage_unavailable")
        case True
        then have "\<not> casts_ok r" using claim_query_of [OF ok Some, of t] by auto
        then show ?thesis
          using True Some st here online by (simp add: pg_claim_next_job_def transaction_def)
      next
        case False
        then have q: "claim_query (worker_row_of w) (wr_spec w) t (pg_of r) =
            Inr (if ?cap then map_option (\<lambda>j. (jb_job_id j, job_row_of j)) ?f else None)"
          using claim_query_of [OF ok Some, of t] by auto
        show ?thesis
        proof (cases "?cap \<and> ?f \<noteq> None")
          case False
          then show ?thesis
            using Some st late here online q
            by (auto simp: refines_def claim_next_job_def get_worker_def pg_claim_next_job_def transaction_def
                simp del: first_by_None split: option.splits)
        next
          case True
          then obtain j where f: "?f = Some j" and cap: ?cap by blast
          have j: "dict_get (r_jobs r) (jb_job_id j) = Some j" "eligible w t j"
            using first_eligible [OF f] ok by (auto simp: pg_ready_def)
          note sj = stored_job [OF ok j(1)]
          let ?j = "claimed_record k tok t (lease_seconds r) j"
          let ?w = "w\<lparr>wr_active_jobs := wr_active_jobs w + 1\<rparr>"
          let ?r = "r\<lparr>r_jobs := dict_set (jb_job_id j) ?j (r_jobs r), r_workers := dict_set k ?w (r_workers r)\<rparr>"
          have row: "job_of_row (job_row_of ?j) = Inr ?j" using sj by (intro job_of_row_of record_ok_ends) simp_all
          have id: "jb_job_id ?j = jb_job_id j" by (simp add: claimed_record_def)
          have m: "claim_next_job k t tok r = (Inr (Some ?j), ?r)"
            using Some late here online cap f id by (simp add: claim_next_job_def get_worker_def Let_def)
          have elig: "jb_capability j \<in> ws_capabilities (wr_spec w)" "worker_matches (wr_spec w) (jb_requirements j)"
            using j(2) by (auto simp: eligible_def)
          have bad: "\<not> job_row_ok (job_row_of ?j) \<or> \<not> worker_row_ok (worker_row_of ?w) \<Longrightarrow> \<not> storable ?r"
            using storable_job [of ?r "jb_job_id j" ?j] storable_worker [of ?r k ?w] by (auto simp: get_job_set)
          show ?thesis
            unfolding m refines_def
            using Some st here online q f cap sj elig row bad
            by (auto simp: pg_claim_next_job_def transaction_def job_row_ends worker_row_state
                write_job_of write_worker_of Let_def)
        qed
      qed
    qed
  qed
qed

section \<open>The recovery loop\<close>

lemma lapsed_row_of [simp]: "lapsed_row t (job_row_of j) \<longleftrightarrow> lease_lapsed t j"
  by (simp add: lapsed_row_def lease_lapsed_def status_values)

lemma next_lapsed_of:
  assumes "pg_ready r"
  shows "(next_lapsed t (pg_of r) = None \<longleftrightarrow> (\<forall>i j. dict_get (r_jobs r) i = Some j \<longrightarrow> \<not> lease_lapsed t j)) \<and>
    (\<forall>i row. next_lapsed t (pg_of r) = Some (i, row) \<longrightarrow>
      (\<exists>j. dict_get (r_jobs r) i = Some j \<and> lease_lapsed t j \<and> row = job_row_of j))"
proof -
  have keys: "dict_ok (r_jobs r)" using assms by (simp add: pg_ready_def repo_inv_def)
  have table: "map_dict job_row_of (r_jobs r) = map (\<lambda>p. (fst p, job_row_of (snd p))) (r_jobs r)"
    by (simp add: map_dict_def split_def)
  have stored: "p \<in> set (r_jobs r) \<longleftrightarrow> dict_get (r_jobs r) (fst p) = Some (snd p)" for p
    using keys by (metis dict_get_item map_of_is_SomeI prod.collapse)
  show ?thesis
  proof (intro conjI allI impI)
    show "next_lapsed t (pg_of r) = None \<longleftrightarrow> (\<forall>i j. dict_get (r_jobs r) i = Some j \<longrightarrow> \<not> lease_lapsed t j)"
      unfolding next_lapsed_def first_by_None filter_empty_conv pg_of_sel table
      by (auto simp: stored) (metis dict_get_item snd_conv)
    fix i row assume n: "next_lapsed t (pg_of r) = Some (i, row)"
    from first_by_Some(1) [OF n [unfolded next_lapsed_def]]
    have "(i, row) \<in> set (map (\<lambda>p. (fst p, job_row_of (snd p))) (r_jobs r))" "lapsed_row t row"
      by (auto simp: table)
    then show "\<exists>j. dict_get (r_jobs r) i = Some j \<and> lease_lapsed t j \<and> row = job_row_of j"
      by (auto simp: stored)
  qed
qed

text \<open>One round is one step of the reference loop, or a storage failure.\<close>

lemma recover_row_of:
  assumes ok: "pg_ready r" and j: "dict_get (r_jobs r) i = Some j"
  shows "recover_row t i (job_row_of j) (pg_of r) =
      (case recover_one t i j r of (j', r') \<Rightarrow> Inr (j', pg_of r')) \<or>
    \<not> storable (snd (recover_one t i j r)) \<and>
      recover_row t i (job_row_of j) (pg_of r) = Inl Storage_unavailable"
proof -
  note st = stored_job [OF ok j]
  let ?b = "jb_attempts j < jb_max_attempts j"
  let ?j = "failed_record ?b (expired_error ?b) t j"
  have row: "job_of_row (job_row_of ?j) = Inr ?j" using st by (intro job_of_row_of record_ok_ends) simp_all
  have p: "recover_row t i (job_row_of j) (pg_of r) =
      finish_job i (job_row_of ?j) (jb_assigned_worker_id j) (pg_of r)"
    by (simp add: recover_row_def Let_def job_row_ends)
  have m: "recover_one t i j r =
      (?j, release_worker_capacity (jb_assigned_worker_id j) (r\<lparr>r_jobs := dict_set i ?j (r_jobs r)\<rparr>))"
    by (simp add: recover_one_def Let_def release_swap)
  show ?thesis
    unfolding p m using finish_job_of [OF row, of i "jb_assigned_worker_id j" r] by auto
qed

lemma rows_ok_replace_job:
  "rows_ok r \<Longrightarrow> record_ok j \<Longrightarrow> rows_ok (r\<lparr>r_jobs := dict_set i j (r_jobs r)\<rparr>)"
  by (auto simp: rows_ok_def get_job_set)

lemma rows_ok_release: "rows_ok r \<Longrightarrow> rows_ok (release_worker_capacity w r)"
  by (auto simp: rows_ok_def release_worker_capacity_def get_job_set split: option.splits if_splits)

lemma recover_one_ready:
  assumes ok: "pg_ready r" and j: "dict_get (r_jobs r) i = Some j" and l: "lease_lapsed t j"
  shows "pg_ready (snd (recover_one t i j r))"
  using recover_one_inv [OF _ j l] ok stored_job(2) [OF ok j]
  by (auto simp: pg_ready_def recover_one_def Let_def release_swap
      intro!: rows_ok_release rows_ok_replace_job record_ok_ends)

lemma recover_rounds_ready:
  "pg_ready r \<Longrightarrow> \<exists>r'. pg_ready r' \<and> snd (recover_rounds t acc (pg_of r)) = pg_of r'"
proof (induction "lapsed_count t (pg_of r)" arbitrary: acc r rule: less_induct)
  case less
  have keys: "dict_ok (pg_jobs (pg_of r))" using less.prems by (simp add: pg_ready_def repo_inv_def)
  show ?case
  proof (cases "next_lapsed t (pg_of r)")
    case None
    then show ?thesis using less.prems keys by (subst recover_rounds.simps) auto
  next
    case (Some p)
    obtain i row where p: "p = (i, row)" by (cases p)
    obtain j where j: "dict_get (r_jobs r) i = Some j" "lease_lapsed t j" "row = job_row_of j"
      using next_lapsed_of [OF less.prems, of t] Some p by auto
    show ?thesis
    proof (cases "recover_row t i row (pg_of r)")
      case (Inl e)
      then show ?thesis using less.prems keys Some p by (subst recover_rounds.simps) auto
    next
      case (Inr q)
      then obtain j' r' where r': "recover_one t i j r = (j', r')" "q = (j', pg_of r')"
        using recover_row_of [OF less.prems j(1), of t] j(3) by (cases "recover_one t i j r") auto
      have "pg_ready r'" using recover_one_ready [OF less.prems j(1,2)] r' by simp
      moreover have "lapsed_count t (pg_of r') < lapsed_count t (pg_of r)"
        using recover_row_less(1) [OF _ _ keys, of t i row j' "pg_of r'"] Some p Inr r' by simp
      ultimately have "\<exists>r''. pg_ready r'' \<and> snd (recover_rounds t (acc @ [j']) (pg_of r')) = pg_of r''"
        using less.hyps by blast
      then show ?thesis using keys Some p Inr r' by (subst recover_rounds.simps) auto
    qed
  qed
qed

text \<open>
  The state a recovery sweep ends in, described without the order of the rounds: the same keys, every
  lapsed job replaced by its failed record, the workers as before except for their counters. The
  invariant determines the counters, so there is only one such state.
\<close>

definition recovered_job :: "instant \<Rightarrow> job_record \<Rightarrow> job_record" where
  "recovered_job t j = (if lease_lapsed t j
     then failed_record (jb_attempts j < jb_max_attempts j)
            (expired_error (jb_attempts j < jb_max_attempts j)) t j else j)"

definition swept :: "instant \<Rightarrow> repo \<Rightarrow> repo \<Rightarrow> bool" where
  "swept t r r' \<longleftrightarrow> repo_inv r' \<and> worker_ttl_seconds r' = worker_ttl_seconds r \<and>
     lease_seconds r' = lease_seconds r \<and> r_idempotency r' = r_idempotency r \<and>
     r_sequence r' = r_sequence r \<and> map fst (r_jobs r') = map fst (r_jobs r) \<and>
     map fst (r_workers r') = map fst (r_workers r) \<and>
     (\<forall>i. dict_get (r_jobs r') i = map_option (recovered_job t) (dict_get (r_jobs r) i)) \<and>
     (\<forall>k. map_option (\<lambda>w. w\<lparr>wr_active_jobs := 0\<rparr>) (dict_get (r_workers r') k) =
        map_option (\<lambda>w. w\<lparr>wr_active_jobs := 0\<rparr>) (dict_get (r_workers r) k))"

lemma dict_list_eq:
  assumes "map fst a = map fst b" "dict_ok b" "\<And>k. dict_get a k = dict_get b k"
  shows "a = b"
proof (rule nth_equalityI)
  show len: "length a = length b" using assms(1) by (metis length_map)
  fix n assume n: "n < length a"
  have fst: "fst (a ! n) = fst (b ! n)" using assms(1) n len by (metis nth_map)
  have "dict_get a (fst (a ! n)) = Some (snd (a ! n))" "dict_get b (fst (b ! n)) = Some (snd (b ! n))"
    using n len assms(1,2) by (simp_all add: map_of_eq_Some_iff)
  with assms(3) fst show "a ! n = b ! n" by (metis option.inject prod.expand)
qed

lemma swept_unique:
  assumes a: "swept t r a" and b: "swept t r b"
  shows "a = b"
proof -
  have inv: "repo_inv a" "repo_inv b" using a b by (simp_all add: swept_def)
  have jobs: "r_jobs a = r_jobs b"
    using a b inv by (intro dict_list_eq) (simp_all add: swept_def repo_inv_def)
  have workers: "r_workers a = r_workers b"
  proof (rule dict_list_eq)
    show "map fst (r_workers a) = map fst (r_workers b)" "dict_ok (r_workers b)"
      using a b inv by (simp_all add: swept_def repo_inv_def)
    fix k
    have z: "map_option (\<lambda>w. w\<lparr>wr_active_jobs := 0\<rparr>) (dict_get (r_workers a) k) =
        map_option (\<lambda>w. w\<lparr>wr_active_jobs := 0\<rparr>) (dict_get (r_workers b) k)"
      using a b by (simp add: swept_def)
    show "dict_get (r_workers a) k = dict_get (r_workers b) k"
    proof (cases "dict_get (r_workers a) k")
      case None
      then show ?thesis using z by (cases "dict_get (r_workers b) k") simp_all
    next
      case (Some v)
      with z obtain w where w: "dict_get (r_workers b) k = Some w" "v\<lparr>wr_active_jobs := 0\<rparr> = w\<lparr>wr_active_jobs := 0\<rparr>"
        by (cases "dict_get (r_workers b) k") simp_all
      have "wr_active_jobs v = wr_active_jobs w"
        using inv Some w(1) jobs by (simp add: repo_inv_def accounting_def active_job_count_def)
      with w Some show ?thesis by (cases v; cases w) simp
    qed
  qed
  show ?thesis using a b jobs workers by (cases a; cases b) (simp add: swept_def)
qed

lemma dict_set_keys: "dict_get d k \<noteq> None \<Longrightarrow> map fst (dict_set k v d) = map fst d"
  by (induction d) (auto split: if_splits)

lemma release_frame:
  "worker_ttl_seconds (release_worker_capacity w r) = worker_ttl_seconds r"
  "lease_seconds (release_worker_capacity w r) = lease_seconds r"
  "r_idempotency (release_worker_capacity w r) = r_idempotency r"
  "r_sequence (release_worker_capacity w r) = r_sequence r"
  "map fst (r_workers (release_worker_capacity w r)) = map fst (r_workers r)"
  "map_option (\<lambda>w. w\<lparr>wr_active_jobs := 0\<rparr>) (dict_get (r_workers (release_worker_capacity w r)) k) =
     map_option (\<lambda>w. w\<lparr>wr_active_jobs := 0\<rparr>) (dict_get (r_workers r) k)"
  by (auto simp: release_worker_capacity_def dict_set_keys get_job_set split: option.splits)

lemma recovered_not_lapsed: "\<not> lease_lapsed t (recovered_job t j)"
  by (auto simp: recovered_job_def lease_lapsed_def failed_record_def)

lemma recovered_again [simp]: "recovered_job t (recovered_job t j) = recovered_job t j"
  using recovered_not_lapsed [of t j] by (simp add: recovered_job_def [of t "recovered_job t j"])

lemma swept_step:
  assumes j: "dict_get (r_jobs r) i = Some j" "lease_lapsed t j"
    and s: "swept t (snd (recover_one t i j r)) r'"
  shows "swept t r r'"
proof -
  let ?b = "jb_attempts j < jb_max_attempts j"
  have one: "snd (recover_one t i j r) = release_worker_capacity (jb_assigned_worker_id j)
      (r\<lparr>r_jobs := dict_set i (recovered_job t j) (r_jobs r)\<rparr>)"
    using j(2) by (simp add: recover_one_def Let_def release_swap recovered_job_def)
  have "dict_get (r_jobs r') k = map_option (recovered_job t) (dict_get (r_jobs r) k)" for k
    using s j by (auto simp: swept_def one get_job_set)
  then show ?thesis
    using s j(1) unfolding swept_def one by (simp add: release_frame release_worker_jobs dict_set_keys)
qed

lemma swept_none:
  assumes "repo_inv r" and none: "\<And>i j. dict_get (r_jobs r) i = Some j \<Longrightarrow> \<not> lease_lapsed t j"
  shows "swept t r r"
proof -
  have "dict_get (r_jobs r) i = map_option (recovered_job t) (dict_get (r_jobs r) i)" for i
    using none by (cases "dict_get (r_jobs r) i") (simp_all add: recovered_job_def)
  then show ?thesis using assms(1) by (simp add: swept_def)
qed

lemma swept_loop:
  "repo_inv r \<Longrightarrow> dict_ok xs \<Longrightarrow> (\<And>k j. (k, j) \<in> set xs \<Longrightarrow> dict_get (r_jobs r) k = Some j) \<Longrightarrow>
     (\<And>k j. dict_get (r_jobs r) k = Some j \<Longrightarrow> lease_lapsed t j \<Longrightarrow> (k, j) \<in> set xs) \<Longrightarrow>
     swept t r (snd (recover_loop t xs r))"
proof (induction t xs r rule: recover_loop.induct)
  case (1 t r)
  then show ?case by (auto intro: swept_none)
next
  case (2 t i j rest r)
  show ?case
  proof (cases "lease_lapsed t j")
    case False
    have "swept t r (snd (recover_loop t rest r))"
    proof (rule "2.IH"(1))
      show "(k, j') \<in> set rest" if "dict_get (r_jobs r) k = Some j'" "lease_lapsed t j'" for k j'
        using "2.prems"(4) [OF that] that(2) False by auto
      show "dict_get (r_jobs r) k = Some j'" if "(k, j') \<in> set rest" for k j'
        by (rule "2.prems"(3)) (simp add: that)
      show "\<not> lease_lapsed t j" by (rule False)
      show "repo_inv r" by (rule "2.prems"(1))
      show "dict_ok rest" using "2.prems"(2) by simp
    qed
    with False show ?thesis by simp
  next
    case True
    let ?r = "snd (recover_one t i j r)"
    have j: "dict_get (r_jobs r) i = Some j" using "2.prems"(3) by simp
    have jobs: "dict_get (r_jobs ?r) k = (if k = i then Some (recovered_job t j) else dict_get (r_jobs r) k)" for k
      using True by (simp add: recover_one_jobs) (simp add: recover_one_def Let_def recovered_job_def)
    have "swept t ?r (snd (recover_loop t rest ?r))"
    proof (rule "2.IH"(2) [of "recover_one t i j r" "fst (recover_one t i j r)"])
      show "repo_inv ?r" by (rule recover_one_inv [OF "2.prems"(1) j True])
      show "dict_ok rest" using "2.prems"(2) by simp
      have i: "i \<notin> fst ` set rest" using "2.prems"(2) by simp
      show "dict_get (r_jobs ?r) k = Some j'" if "(k, j') \<in> set rest" for k j'
        using that i "2.prems"(3) [of k j'] by (force simp: jobs)
      show "(k, j') \<in> set rest" if "dict_get (r_jobs ?r) k = Some j'" "lease_lapsed t j'" for k j'
        using that "2.prems"(4) [of k j'] recovered_not_lapsed [of t j] by (auto simp: jobs split: if_splits)
    qed (use True in simp_all)
    then show ?thesis
      using swept_step [OF j True] True by (simp add: Let_def split_def)
  qed
qed

lemma swept_recover: "repo_inv r \<Longrightarrow> swept t r (snd (recover_expired_jobs t r))"
  unfolding recover_expired_jobs_def
  by (rule swept_loop) (auto simp: repo_inv_def dest: dict_get_item)

lemma worker_row_ok_release:
  assumes "worker_row_ok (worker_row_of w)"
  shows "worker_row_ok (worker_row_of (w\<lparr>wr_active_jobs := max (wr_active_jobs w - 1) 0\<rparr>))"
  using assms by (auto simp: worker_row_ok_def worker_row_of_def Let_def int4_def)

lemma storable_recover_one:
  assumes st: "storable r" and row: "job_row_ok (job_row_of (recovered_job t j))" and l: "lease_lapsed t j"
  shows "storable (snd (recover_one t i j r))"
proof -
  have "storable (r\<lparr>r_jobs := dict_set i (recovered_job t j) (r_jobs r)\<rparr>)"
    using st row by (auto simp: storable_def get_job_set)
  moreover have "storable (release_worker_capacity w x)" if "storable x" for w x
    using that worker_row_ok_release
    by (auto simp: storable_def release_worker_capacity_def get_job_set split: option.splits)
  ultimately show ?thesis
    using l by (simp add: recover_one_def Let_def release_swap recovered_job_def)
qed

lemma recover_rounds_swept:
  assumes "pg_ready r" "storable r"
    and "\<And>i j. dict_get (r_jobs r) i = Some j \<Longrightarrow> job_row_ok (job_row_of (recovered_job t j))"
  shows "\<exists>js r'. recover_rounds t acc (pg_of r) = (Inr (acc @ js), pg_of r') \<and> swept t r r' \<and>
    set js = {recovered_job t j |i j. dict_get (r_jobs r) i = Some j \<and> lease_lapsed t j}"
  using assms
proof (induction "lapsed_count t (pg_of r)" arbitrary: acc r rule: less_induct)
  case less
  note ok = less.prems(1)
  have keys: "dict_ok (pg_jobs (pg_of r))" and inv: "repo_inv r" using ok by (simp_all add: pg_ready_def repo_inv_def)
  show ?case
  proof (cases "next_lapsed t (pg_of r)")
    case None
    then have none: "\<not> lease_lapsed t j" if "dict_get (r_jobs r) i = Some j" for i j
      using next_lapsed_of [OF ok, of t] that by blast
    have "recover_rounds t acc (pg_of r) = (Inr (acc @ []), pg_of r)"
      using None keys by (subst recover_rounds.simps) simp
    moreover have "swept t r r" using inv none by (rule swept_none)
    ultimately show ?thesis using none by (intro exI [of _ "[]"] exI [of _ r]) auto
  next
    case (Some p)
    obtain i row where p: "p = (i, row)" by (cases p)
    obtain j where j: "dict_get (r_jobs r) i = Some j" "lease_lapsed t j" "row = job_row_of j"
      using next_lapsed_of [OF ok, of t] Some p by auto
    let ?r = "snd (recover_one t i j r)"
    have one: "fst (recover_one t i j r) = recovered_job t j"
      using j(2) by (simp add: recover_one_def Let_def recovered_job_def)
    have st: "storable ?r" using less.prems(2,3) j by (intro storable_recover_one)
    then have row: "recover_row t i row (pg_of r) = Inr (recovered_job t j, pg_of ?r)"
      using recover_row_of [OF ok j(1), of t] j(3) one by (auto simp: split_def)
    have jobs: "dict_get (r_jobs ?r) k = (if k = i then Some (recovered_job t j) else dict_get (r_jobs r) k)" for k
      using j(2) by (simp add: recover_one_jobs) (simp add: recover_one_def Let_def recovered_job_def)
    have "lapsed_count t (pg_of ?r) < lapsed_count t (pg_of r)"
      using recover_row_less(1) [OF _ row keys] Some p by simp
    moreover have "pg_ready ?r" by (rule recover_one_ready [OF ok j(1,2)])
    moreover have "job_row_ok (job_row_of (recovered_job t j'))" if "dict_get (r_jobs ?r) k = Some j'" for k j'
      using that less.prems(3) [of k j'] less.prems(3) [OF j(1)] by (auto simp: jobs split: if_splits)
    ultimately obtain js r' where rest: "recover_rounds t (acc @ [recovered_job t j]) (pg_of ?r) =
        (Inr ((acc @ [recovered_job t j]) @ js), pg_of r')" "swept t ?r r'"
      "set js = {recovered_job t j' |k j'. dict_get (r_jobs ?r) k = Some j' \<and> lease_lapsed t j'}"
      using less.hyps [of ?r "acc @ [recovered_job t j]"] st by blast
    have "recover_rounds t acc (pg_of r) = (Inr (acc @ (recovered_job t j # js)), pg_of r')"
      using rest(1) row Some p keys by (subst recover_rounds.simps) simp
    moreover have "swept t r r'" by (rule swept_step [OF j(1,2) rest(2)])
    moreover have "set (recovered_job t j # js) =
        {recovered_job t j' |k j'. dict_get (r_jobs r) k = Some j' \<and> lease_lapsed t j'}"
    proof -
      have "{recovered_job t j' |k j'. dict_get (r_jobs r) k = Some j' \<and> lease_lapsed t j'} =
          insert (recovered_job t j) {recovered_job t j' |k j'. dict_get (r_jobs ?r) k = Some j' \<and> lease_lapsed t j'}"
        (is "?all = insert _ ?rest")
      proof (intro equalityI subsetI)
        fix x assume "x \<in> ?all"
        then obtain k j' where x: "x = recovered_job t j'" "dict_get (r_jobs r) k = Some j'" "lease_lapsed t j'"
          by blast
        show "x \<in> insert (recovered_job t j) ?rest"
        proof (cases "k = i")
          case True
          then show ?thesis using x j(1) by simp
        next
          case False
          then have "dict_get (r_jobs ?r) k = Some j'" using x(2) by (simp add: jobs)
          then show ?thesis using x by blast
        qed
      next
        fix x assume "x \<in> insert (recovered_job t j) ?rest"
        then show "x \<in> ?all"
          using j(1,2) recovered_not_lapsed [of t j] by (auto simp: jobs split: if_splits)
      qed
      then show ?thesis using rest(3) by simp
    qed
    ultimately show ?thesis by blast
  qed
qed

end
