(* ===== verification/Api_Props.thy ===== *)
theory Api_Props
  imports Api Repository_Ends
begin

text \<open>
  What the HTTP layer guarantees. The locale \<open>control_repository\<close> is the contract between the
  handlers and a backend; inside it every event of the server (a request or a maintenance round)
  is shown to keep the backend's invariant, and the in-memory repository is its interpretation
  \<open>memory\<close>. The properties are about whole runs of the server, the separation of the two
  authorities, and requests that are answered with an error.
\<close>

section \<open>What the API relies on\<close>

text \<open>An event may happen: the identifier drawn for it is new.\<close>

fun event_ok :: "(string \<Rightarrow> 's \<Rightarrow> bool) \<Rightarrow> 's \<Rightarrow> server_event \<Rightarrow> bool" where
  "event_ok fresh s (Request q now uid) = (uid \<noteq> [] \<and> fresh uid s)"
| "event_ok fresh s (Maintenance t1 t2) = True"

lemma respond_snd [simp]: "snd (respond c f out) = snd out"
  by (cases out) (simp add: respond_def)

lemma lift_exc_Inr [simp]: "lift_exc m = Inr x \<longleftrightarrow> m = Inr x"
  by (cases m) (simp_all add: lift_exc_def)

text \<open>
  The contract of a repository backend: every operation keeps the backend's invariant when it is
  called with values the readers produce, with an unused job id (\<open>fresh\<close>) and a non-empty token.
\<close>

locale control_repository =
  fixes api :: "'s control_api"
    and inv :: "'s \<Rightarrow> bool"
    and fresh :: "string \<Rightarrow> 's \<Rightarrow> bool"
  assumes register_inv: "inv s \<Longrightarrow> registration_ok g \<Longrightarrow> spec_ok (reg_spec g) \<Longrightarrow> inv (snd (ca_register api g t s))"
    and heartbeat_inv: "inv s \<Longrightarrow> inv (snd (ca_heartbeat api w h t s))"
    and set_state_inv: "inv s \<Longrightarrow> inv (snd (ca_set_state api w st t s))"
    and expire_inv: "inv s \<Longrightarrow> inv (snd (ca_expire api t s))"
    and submit_inv: "inv s \<Longrightarrow> submission_ok sub \<Longrightarrow> job_requirements_ok (sub_requirements sub) \<Longrightarrow>
      fresh i s \<Longrightarrow> inv (snd (ca_submit api sub t i s))"
    and claim_inv: "inv s \<Longrightarrow> k \<noteq> [] \<Longrightarrow> inv (snd (ca_claim api w t k s))"
    and complete_inv: "inv s \<Longrightarrow> result_ok x \<Longrightarrow> inv (snd (ca_complete api j x w k t s))"
    and fail_inv: "inv s \<Longrightarrow> inv (snd (ca_fail api j e b w k t s))"
    and cancel_inv: "inv s \<Longrightarrow> inv (snd (ca_cancel api j t s))"
    and recover_inv: "inv s \<Longrightarrow> inv (snd (ca_recover api t s))"
begin

lemma handle_submit_inv:
  "inv s \<Longrightarrow> fresh uid s \<Longrightarrow> inv (snd (handle_submit api now uid q s))"
  by (auto simp: handle_submit_def rbind_eq_Inr split: sum.splits
      intro: submit_inv job_submission_from_dict_ok)

lemma handle_register_inv: "inv s \<Longrightarrow> inv (snd (handle_register api now q s))"
  by (auto simp: handle_register_def rbind_eq_Inr split: sum.splits
      intro: register_inv worker_registration_from_dict_ok)

lemma handle_claim_inv: "inv s \<Longrightarrow> uid \<noteq> [] \<Longrightarrow> inv (snd (handle_claim api now uid w s))"
  using claim_inv [of s uid w now] by (auto simp: handle_claim_def split: prod.splits)

lemma read_completion_ok: "read_completion b = Inr (k, x) \<Longrightarrow> result_ok x"
  by (auto simp: read_completion_def rbind_eq_Inr split: option.splits intro: job_result_from_dict_ok)

lemma handle_complete_inv: "inv s \<Longrightarrow> inv (snd (handle_complete api now w j q s))"
  by (auto simp: handle_complete_def rbind_eq_Inr split: sum.splits
      intro: complete_inv read_completion_ok)

lemma dispatch_inv:
  assumes "inv s" "uid \<noteq> []" "fresh uid s"
  shows "inv (snd (dispatch api now uid e q s))"
  using assms
  by (cases e)
    (auto simp: handle_health_def handle_ready_def handle_get_job_def handle_cancel_def handle_inspect_def
      handle_heartbeat_def handle_set_state_def handle_fail_def split: sum.splits
      intro: handle_submit_inv handle_register_inv handle_claim_inv handle_complete_inv cancel_inv
        heartbeat_inv set_state_inv fail_inv)

lemma handle_inv:
  "inv s \<Longrightarrow> uid \<noteq> [] \<Longrightarrow> fresh uid s \<Longrightarrow> inv (snd (handle cfg api now uid q s))"
  by (auto simp: handle_def split: option.splits intro: dispatch_inv)

lemma maintenance_inv: "inv s \<Longrightarrow> inv (maintenance_round api t1 t2 s)"
  using expire_inv [of s t1]
  by (auto simp: maintenance_round_def split: prod.splits sum.splits intro: recover_inv)

lemma server_step_inv: "inv s \<Longrightarrow> event_ok fresh s e \<Longrightarrow> inv (server_step cfg api s e)"
  by (cases e) (auto intro: handle_inv maintenance_inv)

text \<open>A request that is not authorized leaves the repository alone and gets an error.\<close>

lemma unauthorized:
  assumes "route (ht_method q) (ht_path q) = Some e" "authorize cfg e q = Some r"
  shows "handle cfg api now uid q s = (r, s)"
  using assms by (simp add: handle_def)

end

sublocale control_repository \<subseteq> server: transition_system "server_step cfg api" "event_ok fresh" inv for cfg
  by unfold_locales (rule server_step_inv)

interpretation memory: control_repository memory_api repo_inv "\<lambda>i r. dict_get (r_jobs r) i = None"
  by unfold_locales
    (auto simp: memory_api_def split_def intro: op_inv)

section \<open>The server on the in-memory backend\<close>

abbreviation memory_fresh :: "string \<Rightarrow> repo \<Rightarrow> bool" where
  "memory_fresh i r \<equiv> dict_get (r_jobs r) i = None"

text \<open>
  C10. End to end: however clients and workers use the HTTP interface, authorized or not, with
  well-formed or malformed bodies, and whenever the maintenance loop runs, the repository behind
  it never lets two owners share a GPU, never runs more jobs on a worker than its concurrency, and
  keeps every job's lease fields set exactly while it is RUNNING.
\<close>

theorem http_server_safe:
  assumes "init_repository ttl lease = Inr r0"
    and "admissible (event_ok memory_fresh) (server_step cfg memory_api) r0 events"
  defines "r \<equiv> run (server_step cfg memory_api) r0 events"
  shows "(\<forall>k1 k2 w1 w2. dict_get (r_workers r) k1 = Some w1 \<longrightarrow> dict_get (r_workers r) k2 = Some w2 \<longrightarrow>
      k1 \<noteq> k2 \<longrightarrow> owns_resources w1 \<longrightarrow> owns_resources w2 \<longrightarrow>
      set (ws_gpu_uuids (wr_spec w1)) \<inter> set (ws_gpu_uuids (wr_spec w2)) = {}) \<and>
    (\<forall>k w. dict_get (r_workers r) k = Some w \<longrightarrow>
      wr_active_jobs w = active_job_count r k \<and> wr_active_jobs w \<le> wr_max_concurrency w) \<and>
    (\<forall>i j. dict_get (r_jobs r) i = Some j \<longrightarrow>
      (jb_status j = RUNNING \<longleftrightarrow> jb_lease_token j \<noteq> None) \<and>
      (jb_status j = RUNNING \<longleftrightarrow> jb_assigned_worker_id j \<noteq> None))"
proof -
  have inv: "repo_inv r"
    unfolding r_def
    by (rule memory.server.run_inv [OF init_repository_inv [OF assms(1)] assms(2)])
  have wf: "job_wf i j" if "dict_get (r_jobs r) i = Some j" for i j
    using inv that by (auto simp: repo_inv_def jobs_wf_def)
  have job: "(jb_status j = RUNNING \<longleftrightarrow> jb_lease_token j \<noteq> None) \<and>
      (jb_status j = RUNNING \<longleftrightarrow> jb_assigned_worker_id j \<noteq> None)"
    if "dict_get (r_jobs r) i = Some j" for i j
    using wf [OF that] by (cases "jb_status j = RUNNING") (auto simp: job_wf_def)
  have worker: "wr_active_jobs w = active_job_count r k \<and> wr_active_jobs w \<le> wr_max_concurrency w"
    if "dict_get (r_workers r) k = Some w" for k w
    using inv that by (auto simp: repo_inv_def accounting_def workers_wf_def worker_wf_def)
  have "gpu_exclusive (dict_get (r_workers r))" using inv by (simp add: repo_inv_def)
  then have excl: "set (ws_gpu_uuids (wr_spec w1)) \<inter> set (ws_gpu_uuids (wr_spec w2)) = {}"
    if "dict_get (r_workers r) k1 = Some w1" "dict_get (r_workers r) k2 = Some w2" "k1 \<noteq> k2"
      "owns_resources w1" "owns_resources w2" for k1 k2 w1 w2
    using that unfolding gpu_exclusive_def by blast
  show ?thesis using excl worker job by blast
qed

definition ex_cfg :: app_config where
  "ex_cfg = \<lparr>ac_client_token = Some ''c'', ac_worker_token = ''w'', ac_client_auth = BEARER,
     ac_maintenance_interval = Finite 5\<rparr>"

definition ex_submit_request :: http_request where
  "ex_submit_request = \<lparr>ht_method = ''POST'', ht_path = [''v1'', ''jobs''],
     ht_authorization = ''Bearer c'',
     ht_body = Some (JObj [(''protocol_version'', JStr ''v1''), (''capability'', JStr ''x'')])\<rparr>"

definition ex_register_request :: http_request where
  "ex_register_request = \<lparr>ht_method = ''POST'', ht_path = [''v1'', ''workers'', ''register''],
     ht_authorization = ''Bearer w'',
     ht_body = Some (JObj [(''protocol_version'', JStr ''v1''), (''spec'', JObj [
       (''worker_id'', JStr ''a''), (''worker_class'', JStr ''c''), (''gpu_uuids'', JList [JStr ''G'']),
       (''capabilities'', JList [JStr ''x'']),
       (''resources'', JObj [(''gpu_count'', JInt 1), (''total_vram_mb'', JInt 24),
          (''max_single_gpu_vram_mb'', JInt 24)])])])\<rparr>"

lemma ex_submitted:
  "case dict_get (r_jobs (snd (handle ex_cfg memory_api 7 ''n'' ex_submit_request ex_repo))) ''n'' of
     None \<Rightarrow> False | Some j \<Rightarrow> jb_status j = QUEUED"
  by code_simp

theorem http_server_safe_witness:
  "\<exists>j. dict_get (r_jobs (run (server_step ex_cfg memory_api) ex_repo
      [Request ex_submit_request 7 ''n''])) ''n'' = Some j \<and> jb_status j = QUEUED \<and> jb_lease_token j = None"
proof -
  have adm: "admissible (event_ok memory_fresh) (server_step ex_cfg memory_api) ex_repo
      [Request ex_submit_request 7 ''n'']"
    by (simp add: ex_repo_def)
  from ex_submitted obtain j where j: "dict_get (r_jobs (run (server_step ex_cfg memory_api) ex_repo
      [Request ex_submit_request 7 ''n''])) ''n'' = Some j" "jb_status j = QUEUED"
    by (auto split: option.splits)
  from http_server_safe [OF ex_init adm] j have "jb_status j = RUNNING \<longleftrightarrow> jb_lease_token j \<noteq> None" by blast
  with j show ?thesis by auto
qed

text \<open>
  C11. Authorities are separate. A worker route reached without the worker token, and in bearer
  mode a client route reached without the client token, never touches the repository and is
  answered 401 (or 500 when the token is not ASCII); the two tokens differ, so holding one of
  them never opens a route of the other authority.
\<close>

theorem authorities_separate:
  assumes "create_app client_token worker_token mode interval = Inr cfg"
    and "route (ht_method q) (ht_path q) = Some e"
    and "authority_of e = Worker \<and> bearer_token q \<noteq> Some worker_token \<or>
      authority_of e = Client \<and> mode = ''bearer'' \<and>
        (bearer_token q \<noteq> client_token \<or> bearer_token q = Some worker_token)"
  shows "\<exists>status body. handle cfg api now uid q s = (Response status body, s) \<and> status \<in> {401, 500}"
proof -
  have cfg: "ac_worker_token cfg = worker_token" "ac_client_token cfg = client_token"
    "mode = ''bearer'' \<Longrightarrow> ac_client_auth cfg = BEARER \<and> client_token \<noteq> None \<and> client_token \<noteq> Some worker_token"
    using assms(1)
    by (auto simp: create_app_def client_auth_mode_of_def rbind_eq_Inr compare_digest_def split: if_splits)
  have refuse: "\<exists>c b. require_token q t a = Some (Response c b) \<and> c \<in> {401, 500}"
    if "bearer_token q \<noteq> Some t" for t a
    using that by (auto simp: require_token_def compare_digest_def Let_def split: option.splits)
  have "\<exists>c b. authorize cfg e q = Some (Response c b) \<and> c \<in> {401, 500}"
    using assms(3)
  proof (elim disjE conjE)
    assume "authority_of e = Worker" "bearer_token q \<noteq> Some worker_token"
    then show ?thesis using refuse cfg(1) by (simp add: authorize_def require_worker_def)
  next
    assume e: "authority_of e = Client" "mode = ''bearer''" and t: "bearer_token q \<noteq> client_token"
    from cfg(3) [OF e(2)] t obtain ct where "client_token = Some ct" "bearer_token q \<noteq> Some ct" by auto
    then show ?thesis
      using e cfg(2) cfg(3) [OF e(2)] refuse by (simp add: authorize_def require_client_def)
  next
    assume e: "authority_of e = Client" "mode = ''bearer''" and t: "bearer_token q = Some worker_token"
    from cfg(3) [OF e(2)] t obtain ct where "client_token = Some ct" "bearer_token q \<noteq> Some ct" by auto
    then show ?thesis
      using e cfg(2) cfg(3) [OF e(2)] refuse by (simp add: authorize_def require_client_def)
  qed
  then show ?thesis using assms(2) by (auto simp: handle_def)
qed

theorem authorities_separate_witness:
  "\<exists>status body. handle ex_cfg memory_api 7 ''n''
      (ex_submit_request\<lparr>ht_authorization := ''Bearer w''\<rparr>) ex_repo = (Response status body, ex_repo) \<and>
     status \<in> {401, 500}"
proof -
  have "create_app (Some ''c'') ''w'' ''bearer'' (Finite 5) = Inr ex_cfg"
    by (simp add: create_app_def client_auth_mode_of_def compare_digest_def ascii_def ex_cfg_def)
  moreover have "route ''POST'' [''v1'', ''jobs''] = Some Submit_Job" by (simp add: route_def)
  moreover have "bearer_token (ex_submit_request\<lparr>ht_authorization := ''Bearer w''\<rparr>) = Some ''w''"
    by code_simp
  ultimately show ?thesis
    using authorities_separate [of "Some ''c''" "''w''" "''bearer''" "Finite 5" ex_cfg
        "ex_submit_request\<lparr>ht_authorization := ''Bearer w''\<rparr>" Submit_Job memory_api 7 "''n''" ex_repo]
    by (simp add: ex_submit_request_def)
qed

section \<open>Errors have no effect\<close>

definition error_status :: "http_response \<Rightarrow> bool" where
  "error_status r = (case response_status r of None \<Rightarrow> False | Some c \<Rightarrow> 400 \<le> c)"

lemma error_status_simps [simp]:
  "error_status (Response c b) \<longleftrightarrow> 400 \<le> c" "error_status (Empty_Response c) \<longleftrightarrow> 400 \<le> c"
  by (simp_all add: error_status_def)

lemma memory_errors_unchanged:
  "fst (register_worker g t r) = Inl e \<Longrightarrow> snd (register_worker g t r) = r"
  "fst (set_worker_state w st t r) = Inl e \<Longrightarrow> snd (set_worker_state w st t r) = r"
  "fst (heartbeat_worker w h t r) = Inl e \<Longrightarrow> snd (heartbeat_worker w h t r) = r"
  "fst (submit_job s t i r) = Inl e \<Longrightarrow> snd (submit_job s t i r) = r"
  "fst (claim_next_job w t k r) = Inl e \<Longrightarrow> snd (claim_next_job w t k r) = r"
  "fst (complete_job i x w k t r) = Inl e \<Longrightarrow> snd (complete_job i x w k t r) = r"
  "fst (fail_job i f b w k t r) = Inl e \<Longrightarrow> snd (fail_job i f b w k t r) = r"
  "fst (cancel_job i t r) = Inl e \<Longrightarrow> snd (cancel_job i t r) = r"
  subgoal by (auto simp: register_worker_def Let_def split: option.splits if_splits)
  subgoal by (auto simp: set_worker_state_def Let_def split: option.splits if_splits sum.splits)
  subgoal by (auto simp: heartbeat_worker_def heartbeat_finish_def Let_def split: option.splits if_splits sum.splits)
  subgoal by (auto simp: submit_job_def new_job_def Let_def split: option.splits if_splits)
  subgoal by (auto simp: claim_next_job_def Let_def split: option.splits if_splits sum.splits)
  subgoal by (auto simp: complete_job_def Let_def split: option.splits if_splits sum.splits)
  subgoal by (auto simp: fail_job_def Let_def split: option.splits if_splits sum.splits)
  subgoal by (auto simp: cancel_job_def Let_def split: option.splits if_splits sum.splits)
  done

lemma respond_error:
  assumes "error_status (fst (respond c f out))" "c < 400"
  obtains e where "fst out = Inl e"
  using assms by (cases out) (auto simp: respond_def split: sum.splits)




end
