(* ===== verification/Worker_Props.thy ===== *)
theory Worker_Props
  imports Worker_Protocol Postgres_Props
begin

text \<open>
  The promises of the worker: its requests follow the protocol under every interleaving, it claims
  only while it is ready (which the supervisor's theorems turn into a recent successful probe), a
  drain is for good, and a registration or heartbeat cannot extend readiness beyond its own
  acknowledgement.
\<close>

section \<open>What a step may change\<close>

fun is_claim :: "log_entry \<Rightarrow> bool" where
  "is_claim (Sent R_Claim t) = True"
| "is_claim _ = False"

definition claims_sent :: "worker \<Rightarrow> nat" where
  "claims_sent w = length (filter is_claim (wk_log w))"

text \<open>The supervisor moves by its own steps only; none of those a segment takes ends a probe.\<close>

definition ends_probe :: "sup_event \<Rightarrow> bool" where
  "ends_probe e \<longleftrightarrow> (\<exists>now out. e = Check_Leave now out)"

definition sup_moves :: "worker \<Rightarrow> worker \<Rightarrow> bool" where
  "sup_moves w w' \<longleftrightarrow> (case wk_supervisor w of
     None \<Rightarrow> wk_supervisor w' = None
   | Some s \<Rightarrow> \<exists>ses. wk_supervisor w' = Some (run sup_step s ses) \<and> \<not> list_ex ends_probe ses)"

text \<open>Neither intent is taken back, and the timings of the worker are fixed.\<close>

definition keeps_intent :: "worker \<Rightarrow> worker \<Rightarrow> bool" where
  "keeps_intent w w' \<longleftrightarrow> (wk_draining w \<longrightarrow> wk_draining w') \<and> (wk_stop w \<longrightarrow> wk_stop w') \<and>
     wk_heartbeat_interval_seconds w' = wk_heartbeat_interval_seconds w \<and>
     wk_timeout_seconds w' = wk_timeout_seconds w"

definition tame :: "worker \<Rightarrow> worker \<Rightarrow> bool" where
  "tame w w' \<longleftrightarrow> sup_moves w w' \<and> keeps_intent w w' \<and> claims_sent w' = claims_sent w"

lemma sup_moves_trans:
  assumes "sup_moves w1 w2" "sup_moves w2 w3"
  shows "sup_moves w1 w3"
proof (cases "wk_supervisor w1")
  case None
  with assms show ?thesis by (simp add: sup_moves_def)
next
  case (Some s)
  with assms(1) obtain xs where "wk_supervisor w2 = Some (run sup_step s xs)" "\<not> list_ex ends_probe xs"
    by (auto simp: sup_moves_def)
  moreover from this(1) assms(2) obtain ys where
    "wk_supervisor w3 = Some (run sup_step (run sup_step s xs) ys)" "\<not> list_ex ends_probe ys"
    by (auto simp: sup_moves_def)
  ultimately show ?thesis using Some
    by (auto simp: sup_moves_def run_append list_ex_append intro!: exI [of _ "xs @ ys"])
qed

lemma tame_trans: "tame w1 w2 \<Longrightarrow> tame w2 w3 \<Longrightarrow> tame w1 w3"
  by (auto simp: tame_def keeps_intent_def intro: sup_moves_trans)

section \<open>Relations that every segment respects\<close>

fun is_sent :: "log_entry \<Rightarrow> bool" where
  "is_sent (Sent r t) = True"
| "is_sent _ = False"

text \<open>The requests whose answer is an acknowledgement, and where they are awaited.\<close>

fun ack_rpc :: "rpc \<Rightarrow> bool" where
  "ack_rpc R_Register = True"
| "ack_rpc (R_Heartbeat l s) = True"
| "ack_rpc _ = False"

fun ack_point :: "rpc_point \<Rightarrow> bool" where
  "ack_point At_Claim = False"
| "ack_point (At_Terminal c) = False"
| "ack_point (At_Inspect c) = False"
| "ack_point At_Offline = False"
| "ack_point _ = True"

text \<open>Events that neither take the lock nor bring an answer or the end of a probe.\<close>

fun plain_event :: "worker_event \<Rightarrow> bool" where
  "plain_event (Ev_Lock now) = False"
| "plain_event (Ev_Answer now x) = False"
| "plain_event (Ev_Drain_Lock now) = False"
| "plain_event (Ev_Drain_Answer now x) = False"
| "plain_event (Ev_Supervisor e) = (\<not> ends_probe e)"
| "plain_event _ = True"

text \<open>
  A relation between the worker before and after, transitive and respected by the primitive
  updates, is respected by every segment that sends no claim and reads no acknowledgement.
\<close>

locale segment_relation =
  fixes R :: "worker \<Rightarrow> worker \<Rightarrow> bool"
  assumes trans: "R w1 w2 \<Longrightarrow> R w2 w3 \<Longrightarrow> R w1 w3"
    and same: "wk_log w' = wk_log w \<Longrightarrow> wk_supervisor w' = wk_supervisor w \<Longrightarrow>
      wk_draining w' = wk_draining w \<Longrightarrow> wk_stop w' = wk_stop w \<Longrightarrow>
      wk_control_valid_until w' \<in> {0, wk_control_valid_until w} \<Longrightarrow>
      wk_heartbeat_interval_seconds w' = wk_heartbeat_interval_seconds w \<Longrightarrow>
      wk_timeout_seconds w' = wk_timeout_seconds w \<Longrightarrow> wk_drain_sent w' = wk_drain_sent w \<Longrightarrow>
      wk_pc w' = wk_pc w \<Longrightarrow> R w w'"
    and goto_any: "\<not> in_rpc p \<Longrightarrow> p \<noteq> Sup_Starting \<or> wk_supervisor w \<noteq> None \<Longrightarrow> R w (goto p w)"
    and send_any: "r \<noteq> R_Claim \<Longrightarrow> (ack_point pt \<Longrightarrow> ack_rpc r) \<Longrightarrow> R w (send pt r now w)"
    and logged_any: "\<not> is_sent e \<Longrightarrow> R w (logged e w)"
    and sup_any: "wk_supervisor w = Some s \<Longrightarrow> \<not> ends_probe ev \<Longrightarrow> R w (w\<lparr>wk_supervisor := Some (sup_step s ev)\<rparr>)"
    and stop_any: "R w (request_stop w)"
    and drain_any: "R w (request_drain w)"
begin

lemma rel_refl: "R w w"
  by (rule same) simp_all

lemma rel_release: "R w (release w)"
  by (rule same) (simp_all add: release_def)

lemma rel_failed: "R w (control_failed st now w)"
  by (rule same) (simp_all add: control_failed_def)

lemma rel_rearm: "R w (rearm now w)"
  by (rule same) (simp_all add: rearm_def)

lemma rel_runtime: "runtime_available now w = (up, w') \<Longrightarrow> R w w'"
  using sup_any [of w _ "Read_Available now"]
  by (auto simp: runtime_available_def ends_probe_def rel_refl split: option.splits prod.splits)

lemma rel_ready: "worker_ready now w = (ok, w') \<Longrightarrow> R w w'"
  by (auto simp: worker_ready_def rel_refl split: if_splits intro: rel_runtime)

lemma rel_finalize: "R w (finalize w)"
proof -
  let ?w = "(request_stop w)\<lparr>wk_control_valid_until := 0\<rparr>"
  have "R (request_stop w) ?w" by (rule same) simp_all
  with stop_any have w: "R w ?w" by (rule trans)
  show ?thesis
  proof (cases "wk_supervisor ?w")
    case None
    with w trans [OF w goto_any] show ?thesis by (simp add: finalize_def Let_def)
  next
    case (Some s)
    have "R ?w (?w\<lparr>wk_supervisor := Some (sup_close s)\<rparr>)"
      using sup_any [OF Some, of Sup_Close] by (simp add: ends_probe_def)
    from trans [OF trans [OF w this] goto_any] Some show ?thesis by (simp add: finalize_def Let_def)
  qed
qed

lemma rel_loop_top: "R w (loop_top w)"
  by (simp add: loop_top_def rel_finalize goto_any)

lemma rel_after_heartbeat: "R w (after_heartbeat now w)"
  by (auto simp: after_heartbeat_def split: prod.split intro: trans [OF rel_ready goto_any])

lemma rel_transport_pause: "R w (transport_pause st now w)"
  unfolding transport_pause_def by (rule trans [OF rel_failed goto_any]) simp_all

lemma rel_attempt_end: "R w (attempt_end cs now w)"
proof -
  have "R w (logged Ended (w\<lparr>wk_active := None, wk_execution := None\<rparr>))"
    by (rule trans [OF same logged_any]) simp_all
  note t = trans [OF this]
  show ?thesis
    by (cases cs) (simp_all add: attempt_end_def Let_def t [OF rel_loop_top] t [OF goto_any]
        t [OF rel_transport_pause] t [OF rel_finalize])
qed

lemma rel_unwind: "R w (unwind c cs now w)"
  by (simp add: unwind_def rel_attempt_end goto_any)

lemma rel_exec_error: "R w (exec_error c e now w)"
  by (cases e) (auto simp: exec_error_def Let_def rel_unwind
      intro: trans [OF rel_failed goto_any] trans [OF rel_failed rel_unwind])

lemma rel_with_runtime: "(\<And>w'. R w' (k w')) \<Longrightarrow> R w (with_runtime c now w k)"
  by (auto simp: with_runtime_def split: prod.split intro: trans [OF rel_runtime] rel_unwind)

lemma rel_exec_done: "R w (exec_done c out now w)"
  unfolding exec_done_def by (rule rel_with_runtime) (auto split: exec_outcome.split intro: goto_any rel_unwind)

lemma rel_exec_loop: "R w (exec_loop c now w)"
  by (simp add: exec_loop_def rel_exec_done rel_with_runtime goto_any split: option.split)

lemma rel_exec_wait: "R w (exec_wait c now w)"
  by (simp add: exec_wait_def rel_with_runtime goto_any)

lemma rel_execute_claim: "R w (execute_claim c now w)"
  unfolding execute_claim_def
proof (rule rel_with_runtime)
  fix w'
  have "R w' (logged (Started (rq_job_id (cj_request c))) (w'\<lparr>wk_active := Some c, wk_execution := Some None\<rparr>))"
    by (rule trans [OF same logged_any]) simp_all
  then show "R w' (exec_loop c now (logged (Started (rq_job_id (cj_request c)))
      (w'\<lparr>wk_active := Some c, wk_execution := Some None\<rparr>)))"
    by (rule trans) (rule rel_exec_loop)
qed

lemma rel_terminal_write: "R w (terminal_write c v now w)"
proof -
  obtain up w' where r: "runtime_available now w = (up, w')" by fastforce
  have "R w' (send (At_Terminal c) (terminal_rpc c v) now w')"
    by (rule send_any) (auto simp: terminal_rpc_def split: prod.split verdict.split)
  then have "R w' (if \<not> up then unwind c Runtime_Unavailable now (release w')
     else if \<not> control_available now w'
     then exec_error c (Transport_Error 0 (JStr ''Worker authority is unconfirmed'')) now (release w')
     else send (At_Terminal c) (terminal_rpc c v) now w')"
    by (auto intro: trans [OF rel_release rel_unwind] trans [OF rel_release rel_exec_error])
  with r trans [OF rel_runtime [OF r]] show ?thesis by (auto simp: terminal_write_def)
qed

lemma rel_heartbeat: "R w (send p (heartbeat_rpc now w) t w)"
  by (rule send_any) (simp_all add: heartbeat_rpc_def)

text \<open>Going on with a segment.\<close>

lemmas rel_then = trans [OF _ rel_finalize] trans [OF _ rel_loop_top] trans [OF _ goto_any]
  trans [OF _ rel_release] trans [OF _ rel_unwind] trans [OF _ rel_after_heartbeat]
  trans [OF _ rel_transport_pause] trans [OF _ rel_exec_error] trans [OF _ rel_exec_wait]
  trans [OF _ rel_execute_claim] trans [OF _ rel_terminal_write] trans [OF _ rel_heartbeat]

lemma rel_lock_taken:
  assumes "p \<noteq> Lk_Claim"
  shows "R w (lock_taken p now w)"
proof (cases p)
  case Lk_Offline
  have "R w (w\<lparr>wk_registered := False\<rparr>)" by (rule same) simp_all
  with Lk_Offline show ?thesis by (auto intro!: send_any intro: rel_then)
qed (use assms in \<open>auto intro: send_any rel_heartbeat rel_after_heartbeat rel_exec_wait rel_terminal_write\<close>)

text \<open>The answers that are no acknowledgement.\<close>

lemma rel_answered:
  assumes "\<not> ack_point p"
  shows "R w (rpc_answered p now sent x w)"
proof (cases p)
  case At_Claim
  have "R w (logged (Got c) (release (w\<lparr>wk_active := Some c\<rparr>)))" for c
    by (rule trans [OF trans [OF same rel_release] logged_any]) simp_all
  with At_Claim rel_release show ?thesis
    by (auto split: sum.split client_error.split option.split intro: rel_then)
next
  case (At_Terminal c)
  have "R w (logged Finished (release (w\<lparr>wk_active := None\<rparr>)))"
    by (rule trans [OF trans [OF same rel_release] logged_any]) simp_all
  with At_Terminal rel_release show ?thesis by (auto split: sum.split intro: rel_then)
next
  case At_Offline
  have "R w (release (w\<lparr>wk_registered := False\<rparr>))" by (rule trans [OF same rel_release]) simp_all
  with At_Offline show ?thesis by (auto intro: rel_then)
qed (use assms rel_release in \<open>auto split: sum.split client_error.split intro: rel_then\<close>)

lemma rel_worker_start: "R w (worker_start now w)"
proof (cases "wk_supervisor w")
  case None
  then show ?thesis by (simp add: worker_start_def rel_finalize goto_any)
next
  case (Some s)
  have "R w (goto Sup_Starting (w\<lparr>wk_supervisor := Some (sup_step s Sup_Start)\<rparr>))"
    by (rule trans [OF sup_any [OF Some] goto_any]) (simp_all add: ends_probe_def)
  with Some show ?thesis by (auto simp: worker_start_def rel_finalize split: sum.split)
qed

lemma rel_supervisor_started: "R w (supervisor_started now w)"
  by (auto simp: supervisor_started_def rel_refl split: option.split prod.split
      intro: trans [OF rel_runtime goto_any])

lemma rel_plain_step:
  assumes "plain_event e"
  shows "R w (worker_step w e)"
proof (cases e)
  case (Ev_Executor_Finished out)
  have "R w (w\<lparr>wk_execution := Some (Some out)\<rparr>)" by (rule same) simp_all
  with Ev_Executor_Finished show ?thesis by (simp add: rel_refl)
next
  case Ev_Drain
  have "R (request_drain w) ((request_drain w)\<lparr>wk_drains_waiting := Suc (wk_drains_waiting w)\<rparr>)"
    by (rule same) simp_all
  with Ev_Drain trans [OF drain_any] show ?thesis by simp
qed (use assms in \<open>auto simp: rel_refl rel_worker_start rel_supervisor_started rel_finalize rel_loop_top
    rel_exec_loop rel_with_runtime rel_attempt_end stop_any drain_any goto_any split: pc.split option.split
    intro: sup_any\<close>)

end

lemma tame_same:
  "wk_log w' = wk_log w \<Longrightarrow> wk_supervisor w' = wk_supervisor w \<Longrightarrow> wk_draining w' = wk_draining w \<Longrightarrow>
    wk_stop w' = wk_stop w \<Longrightarrow> wk_heartbeat_interval_seconds w' = wk_heartbeat_interval_seconds w \<Longrightarrow>
    wk_timeout_seconds w' = wk_timeout_seconds w \<Longrightarrow> tame w w'"
  by (auto simp: tame_def sup_moves_def keeps_intent_def claims_sent_def split: option.split intro: exI [of _ "[]"])

lemma tame_logged: "\<not> is_claim e \<Longrightarrow> tame w (logged e w)"
  by (auto simp: tame_def sup_moves_def keeps_intent_def claims_sent_def logged_def split: option.split
      intro: exI [of _ "[]"])

lemma tame_sup:
  assumes "wk_supervisor w = Some s" "\<not> ends_probe e"
  shows "tame w (w\<lparr>wk_supervisor := Some (sup_step s e)\<rparr>)"
  using assms
  by (auto simp: tame_def sup_moves_def keeps_intent_def claims_sent_def intro!: exI [of _ "[e]"])

lemma tame_goto: "tame w (goto p w)"
  by (rule tame_same) (simp_all add: goto_def)

lemma tame_send: "r \<noteq> R_Claim \<Longrightarrow> tame w (send p r now w)"
  unfolding send_def
  by (rule tame_trans [OF tame_trans [OF tame_same tame_logged] tame_goto]) (cases r; simp)+

lemma tame_request: "tame w (request_stop w)" "tame w (request_drain w)"
  by (auto simp: tame_def sup_moves_def keeps_intent_def claims_sent_def request_stop_def request_drain_def
      split: option.split intro: exI [of _ "[]"])

interpretation tame: segment_relation tame
proof
  show "tame w (logged e w)" if "\<not> is_sent e" for e w
    using that by (intro tame_logged) (cases e; simp)
qed (auto intro: tame_trans tame_same tame_send tame_sup tame_request tame_goto)

lemma tame_acknowledge: "acknowledge_control now st rec w = (r, w') \<Longrightarrow> tame w w'"
  by (auto simp: acknowledge_control_def split: sum.splits if_splits intro: tame_same tame.rel_failed)

lemma tame_ack_reply: "ack_reply now st x w = (r, w') \<Longrightarrow> tame w w'"
  by (auto simp: ack_reply_def split: sum.splits prod.splits client_error.splits
      dest!: tame_acknowledge intro: tame_trans [OF _ tame.rel_failed] tame.rel_failed tame.rel_refl)

lemma tame_heartbeat_reply: "heartbeat_reply now st x w = (r, w') \<Longrightarrow> tame w w'"
  by (auto simp: heartbeat_reply_def split: prod.splits dest!: tame_ack_reply
      intro: tame_trans [OF _ tame.rel_rearm])

section \<open>Claims\<close>

text \<open>What \<open>ready\<close> stands for at the time a claim is sent.\<close>

definition ready_now :: "rat \<Rightarrow> worker \<Rightarrow> bool" where
  "ready_now now w \<longleftrightarrow> \<not> wk_stop w \<and> wk_registered w \<and> \<not> wk_draining w \<and>
     wk_control_state w = Some ONLINE \<and> now < wk_control_valid_until w \<and>
     (case wk_supervisor w of None \<Rightarrow> True | Some s \<Rightarrow> fst (sup_available now s))"

text \<open>A step is tame, or it is tame up to one claim sent by a worker that is ready.\<close>

definition step_ok :: "rat \<Rightarrow> worker \<Rightarrow> worker \<Rightarrow> bool" where
  "step_ok now w w' \<longleftrightarrow> sup_moves w w' \<and> keeps_intent w w' \<and>
     (claims_sent w' = claims_sent w \<or> claims_sent w' = Suc (claims_sent w) \<and> ready_now now w')"

lemma tame_ok: "tame w w' \<Longrightarrow> step_ok now w w'"
  by (simp add: tame_def step_ok_def)

lemma tame_step_ok: "tame w1 w2 \<Longrightarrow> step_ok now w2 w3 \<Longrightarrow> step_ok now w1 w3"
  by (auto simp: tame_def step_ok_def keeps_intent_def intro: sup_moves_trans)

lemma ready_ready_now: "worker_ready now w = (True, w') \<Longrightarrow> ready_now now w'"
  using sup_available_up [of now "the (wk_supervisor w)"]
  by (auto simp: worker_ready_def runtime_available_def ready_now_def worker_draining_def
      control_available_def split: if_splits option.splits prod.splits)

lemma ready_now_send [simp]: "ready_now now (send p r t w) = ready_now now w"
  by (simp add: ready_now_def send_def goto_def logged_def)

lemma claim_if_ready_ok: "step_ok now w (claim_if_ready now w)"
proof -
  obtain ok w' where r: "worker_ready now w = (ok, w')" by fastforce
  note t = tame.rel_ready [OF r]
  show ?thesis
  proof (cases ok)
    case True
    have same: "sup_moves w' (send At_Claim R_Claim now w')" "keeps_intent w' (send At_Claim R_Claim now w')"
      by (auto simp: sup_moves_def keeps_intent_def send_def goto_def logged_def split: option.split intro: exI [of _ "[]"])
    have "claims_sent (send At_Claim R_Claim now w') = Suc (claims_sent w')"
      by (simp add: claims_sent_def send_def goto_def logged_def)
    with same ready_ready_now r True have "step_ok now w' (send At_Claim R_Claim now w')"
      by (simp add: step_ok_def)
    with r True t show ?thesis by (auto simp: claim_if_ready_def intro: tame_step_ok)
  next
    case False
    have "tame w (loop_top (release w'))" using t by (intro tame.rel_then)
    with r False show ?thesis by (auto simp: claim_if_ready_def intro: tame_ok)
  qed
qed

lemma lock_taken_ok: "step_ok now w (lock_taken p now w)"
proof (cases "p = Lk_Claim")
  case True
  obtain ok w' where r: "worker_ready now w = (ok, w')" by fastforce
  have "step_ok now w' (if \<not> ok then loop_top w'
     else if heartbeat_due now w' then send At_Claim_Heartbeat (heartbeat_rpc now w') now w'
     else claim_if_ready now w')"
    by (auto intro: tame_ok [OF tame.rel_heartbeat] tame_ok [OF tame.rel_loop_top] claim_if_ready_ok)
  with r tame.rel_ready [OF r] True show ?thesis by (auto intro: tame_step_ok)
next
  case False
  then show ?thesis by (intro tame_ok tame.rel_lock_taken)
qed

lemma rpc_answered_ok: "step_ok now w (rpc_answered p now sent x w)"
proof (cases "ack_point p")
  case False
  then show ?thesis by (intro tame_ok tame.rel_answered)
next
  case True
  obtain r w' where hb: "heartbeat_reply now sent x w = (r, w')" by fastforce
  note t = tame_heartbeat_reply [OF hb]
  have rel: "tame w (release w')" using t by (intro tame.rel_then)
  obtain r1 w1 where a: "ack_reply now sent x w = (r1, w1)" by fastforce
  note t1 = tame_ack_reply [OF a]
  note t2 = tame_trans [OF t1 tame.rel_rearm]
  note rel1 = tame.rel_then(4) [OF t1] tame.rel_then(4) [OF t2]
  consider "p = At_Claim_Heartbeat" | "p = At_Register" | "p \<notin> {At_Register, At_Claim_Heartbeat}" by blast
  then show ?thesis
  proof cases
    case 1
    have "step_ok now w (claim_if_ready now w')" using t claim_if_ready_ok by (rule tame_step_ok)
    moreover have "tame w (transport_pause st now (release w'))" "tame w (finalize (release w'))" for st
      using rel by (auto intro: tame.rel_then)
    ultimately show ?thesis using 1 hb by (cases r) (auto split: client_error.split intro: tame_ok)
  next
    case 2
    with a t2 rel1 show ?thesis
      by (cases r1) (auto simp: Let_def intro!: tame_ok intro: tame.rel_then)
  next
    case 3
    with True hb t rel show ?thesis
      by (cases p; cases r) (auto split: client_error.split intro!: tame_ok intro: tame.rel_then)
  qed
qed

section \<open>Acknowledgements\<close>

definition sent_ack :: "worker \<Rightarrow> rat \<Rightarrow> bool" where
  "sent_ack w t \<longleftrightarrow> (\<exists>r. Sent r t \<in> set (wk_log w) \<and> ack_rpc r)"

text \<open>
  An acknowledgement under way was sent when the program counter says, and a supervisor that is
  starting is there.
\<close>

definition awaited_sent :: "worker \<Rightarrow> bool" where
  "awaited_sent w \<longleftrightarrow> (\<forall>p t. wk_pc w = In_Rpc p t \<longrightarrow> ack_point p \<longrightarrow> sent_ack w t) \<and>
     (wk_pc w = Sup_Starting \<longrightarrow> wk_supervisor w \<noteq> None)"

text \<open>Readiness towards the control plane rests on a request that was sent.\<close>

definition lease_sent :: "worker \<Rightarrow> bool" where
  "lease_sent w \<longleftrightarrow> wk_control_valid_until w = 0 \<or>
     (\<exists>t. sent_ack w t \<and>
       wk_control_valid_until w = t + wk_heartbeat_interval_seconds w + wk_timeout_seconds w)"

definition ack_inv :: "worker \<Rightarrow> bool" where
  "ack_inv w \<longleftrightarrow> lease_sent w \<and> awaited_sent w \<and> (\<forall>t. wk_drain_sent w = Some t \<longrightarrow> sent_ack w t)"

definition calm :: "worker \<Rightarrow> worker \<Rightarrow> bool" where
  "calm w w' \<longleftrightarrow> set (wk_log w) \<subseteq> set (wk_log w') \<and>
     wk_control_valid_until w' \<in> {0, wk_control_valid_until w} \<and>
     wk_heartbeat_interval_seconds w' = wk_heartbeat_interval_seconds w \<and>
     wk_timeout_seconds w' = wk_timeout_seconds w \<and> wk_drain_sent w' = wk_drain_sent w \<and>
     (awaited_sent w \<longrightarrow> awaited_sent w')"

lemma sent_ack_mono: "sent_ack w t \<Longrightarrow> set (wk_log w) \<subseteq> set (wk_log w') \<Longrightarrow> sent_ack w' t"
  by (auto simp: sent_ack_def)

lemma calm_ack_inv: "calm w w' \<Longrightarrow> ack_inv w \<Longrightarrow> ack_inv w'"
  unfolding calm_def ack_inv_def lease_sent_def by (auto intro: sent_ack_mono)

lemma calm_send_any: "(ack_point p \<Longrightarrow> ack_rpc r) \<Longrightarrow> calm w (send p r now w)"
  by (auto simp: calm_def send_def goto_def logged_def awaited_sent_def sent_ack_def)

interpretation calm: segment_relation calm
proof
  show "calm w1 w3" if "calm w1 w2" "calm w2 w3" for w1 w2 w3
    using that by (auto simp: calm_def)
  show "calm w (goto p w)" if "\<not> in_rpc p" "p \<noteq> Sup_Starting \<or> wk_supervisor w \<noteq> None" for p w
    using that by (auto simp: calm_def goto_def awaited_sent_def)
  show "calm w (send pt r now w)" if "ack_point pt \<Longrightarrow> ack_rpc r" for pt r now w
    using that by (rule calm_send_any)
qed (auto simp: calm_def logged_def awaited_sent_def sent_ack_def request_stop_def request_drain_def)

lemma calm_claim_if_ready: "calm w (claim_if_ready now w)"
proof -
  obtain ok w' where r: "worker_ready now w = (ok, w')" by fastforce
  note t = calm.rel_ready [OF r]
  have "calm w (send At_Claim R_Claim now w')" by (rule calm.trans [OF t calm_send_any]) simp
  moreover have "calm w (loop_top (release w'))" using t by (intro calm.rel_then)
  ultimately show ?thesis using r by (simp add: claim_if_ready_def)
qed

lemma calm_lock_taken: "calm w (lock_taken p now w)"
proof (cases "p = Lk_Claim")
  case True
  obtain ok w' where r: "worker_ready now w = (ok, w')" by fastforce
  note t = calm.rel_ready [OF r]
  have "calm w (loop_top w')" "calm w (send At_Claim_Heartbeat (heartbeat_rpc now w') now w')"
    "calm w (claim_if_ready now w')"
    using t by (auto intro: calm.rel_then calm.trans [OF _ calm_claim_if_ready])
  with r True show ?thesis by simp
qed (rule calm.rel_lock_taken)

lemmas ack_inv_then = calm_ack_inv [OF calm.rel_finalize] calm_ack_inv [OF calm.rel_loop_top]
  calm_ack_inv [OF calm.rel_release] calm_ack_inv [OF calm.rel_rearm]
  calm_ack_inv [OF calm.rel_after_heartbeat] calm_ack_inv [OF calm.rel_transport_pause]
  calm_ack_inv [OF calm.rel_exec_error] calm_ack_inv [OF calm.rel_exec_wait]
  calm_ack_inv [OF calm.rel_terminal_write] calm_ack_inv [OF calm.rel_heartbeat]
  calm_ack_inv [OF calm_claim_if_ready]

text \<open>Reading an acknowledgement: the lease counts from when the request was sent.\<close>

lemma ack_reply_inv:
  assumes "ack_inv w" "sent_ack w sent" "ack_reply now sent x w = (r, w')"
  shows "ack_inv w'"
proof -
  have same: "ack_inv (control_failed st now v)" if "ack_inv v" for st v
    using that by (rule calm_ack_inv [OF calm.rel_failed])
  have "ack_inv v" if "acknowledge_control now sent rec w = (q, v)" for rec q v
  proof (cases "ack_check w rec")
    case (Inl e)
    with that assms(1) same show ?thesis by (auto simp: acknowledge_control_def split: if_splits)
  next
    case (Inr st)
    with that assms(1,2) show ?thesis
      by (auto simp: acknowledge_control_def ack_inv_def lease_sent_def awaited_sent_def sent_ack_def)
  qed
  with assms(1,3) same show ?thesis
    by (auto simp: ack_reply_def split: sum.splits prod.splits client_error.splits)
qed

lemma heartbeat_reply_inv:
  assumes "ack_inv w" "sent_ack w sent" "heartbeat_reply now sent x w = (r, w')"
  shows "ack_inv w'"
  using assms ack_reply_inv calm_ack_inv [OF calm.rel_rearm]
  by (auto simp: heartbeat_reply_def split: prod.splits)

lemma rpc_answered_ack_inv:
  assumes "ack_inv w" "wk_pc w = In_Rpc p sent"
  shows "ack_inv (rpc_answered p now sent x w)"
proof (cases "ack_point p")
  case False
  then show ?thesis using assms(1) by (intro calm_ack_inv [OF calm.rel_answered])
next
  case True
  with assms have s: "sent_ack w sent" by (simp add: ack_inv_def awaited_sent_def)
  obtain r w' where hb: "heartbeat_reply now sent x w = (r, w')" by fastforce
  obtain r1 w1 where a: "ack_reply now sent x w = (r1, w1)" by fastforce
  note i = heartbeat_reply_inv [OF assms(1) s hb] and i1 = ack_reply_inv [OF assms(1) s a]
  show ?thesis
    using \<open>ack_point p\<close> a hb i i1
    by (cases p; cases r; cases r1)
      (auto simp: Let_def split: client_error.split intro: ack_inv_then)
qed

lemma drain_locked_ack_inv: "ack_inv w \<Longrightarrow> ack_inv (drain_locked now w)"
  by (auto simp: drain_locked_def Let_def ack_inv_def lease_sent_def awaited_sent_def sent_ack_def logged_def
      heartbeat_rpc_def)

lemma drain_answered_ack_inv:
  assumes "ack_inv w" "wk_drain_sent w = Some sent"
  shows "ack_inv (drain_answered now sent x w)"
proof -
  obtain r w' where hb: "heartbeat_reply now sent x w = (r, w')" by fastforce
  have "ack_inv w'" using heartbeat_reply_inv [OF assms(1) _ hb] assms by (simp add: ack_inv_def)
  then show ?thesis
    by (auto simp: drain_answered_def hb release_def ack_inv_def lease_sent_def awaited_sent_def sent_ack_def)
qed

section \<open>All steps\<close>

fun event_time :: "worker_event \<Rightarrow> rat" where
  "event_time (Ev_Lock now) = now"
| "event_time (Ev_Answer now x) = now"
| "event_time _ = 0"

lemma tame_drain: "tame w (worker_step w (Ev_Drain_Lock now))" "tame w (worker_step w (Ev_Drain_Answer now x))"
proof -
  let ?w = "w\<lparr>wk_drains_waiting := wk_drains_waiting w - 1\<rparr>"
  have "tame w (logged (Sent (heartbeat_rpc now ?w) now) (?w\<lparr>wk_lock := Some Drain, wk_drain_sent := Some now\<rparr>))"
    by (rule tame_trans [OF tame_same tame_logged]) (simp_all add: heartbeat_rpc_def)
  moreover have "tame w ?w" by (rule tame_same) simp_all
  ultimately show "tame w (worker_step w (Ev_Drain_Lock now))"
    by (simp add: drain_locked_def Let_def tame.rel_refl)
  have "tame w (release (v\<lparr>wk_drain_sent := None\<rparr>))" if "tame w v" for v
    by (rule tame_trans [OF that tame_same]) (simp_all add: release_def)
  then show "tame w (worker_step w (Ev_Drain_Answer now x))"
    using tame_heartbeat_reply
    by (auto simp: drain_answered_def tame.rel_refl split: option.split)
      (metis prod.collapse)
qed

lemma worker_step_ok:
  assumes "\<And>ev. e = Ev_Supervisor ev \<Longrightarrow> \<not> ends_probe ev"
  shows "step_ok (event_time e) w (worker_step w e)"
proof (cases "plain_event e")
  case True
  then show ?thesis by (intro tame_ok tame.rel_plain_step)
next
  case False
  show ?thesis
  proof (cases e)
    case (Ev_Drain_Lock now)
    show ?thesis unfolding Ev_Drain_Lock by (rule tame_ok [OF tame_drain(1)])
  next
    case (Ev_Drain_Answer now x)
    show ?thesis unfolding Ev_Drain_Answer by (rule tame_ok [OF tame_drain(2)])
  qed (use False assms in \<open>auto simp: lock_taken_ok rpc_answered_ok split: pc.split
      intro: tame_ok tame.rel_refl\<close>)
qed

lemma worker_step_keeps: "keeps_intent w (worker_step w e)"
proof (cases "\<exists>ev. e = Ev_Supervisor ev")
  case True
  then show ?thesis by (auto simp: keeps_intent_def split: option.split)
next
  case False
  then show ?thesis using worker_step_ok [of e w] by (simp add: step_ok_def)
qed

lemma run_keeps: "keeps_intent w (run worker_step w es)"
proof (induction es arbitrary: w)
  case (Cons e es)
  from worker_step_keeps [of w e] Cons.IH [of "worker_step w e"] show ?case by (auto simp: keeps_intent_def)
qed (simp add: keeps_intent_def)

lemma worker_step_ack_inv: "ack_inv w \<Longrightarrow> ack_inv (worker_step w e)"
proof (cases "plain_event e")
  case True
  then show "ack_inv w \<Longrightarrow> ?thesis" by (intro calm_ack_inv [OF calm.rel_plain_step])
next
  case False
  assume i: "ack_inv w"
  have sup: "ack_inv (w\<lparr>wk_supervisor := Some s\<rparr>)" for s
    using i by (simp add: ack_inv_def lease_sent_def awaited_sent_def sent_ack_def)
  from False i sup show ?thesis
    by (cases e) (auto split: pc.split option.split intro: calm_ack_inv [OF calm_lock_taken]
        rpc_answered_ack_inv drain_locked_ack_inv drain_answered_ack_inv)
qed

interpretation acks: transition_system worker_step "\<lambda>_ _. True" ack_inv
  by unfold_locales (rule worker_step_ack_inv)

lemma mk_worker_ack_inv: "mk_worker spec n poll hb tmo spv = Inr w \<Longrightarrow> ack_inv w"
  by (auto simp: mk_worker_def ack_inv_def lease_sent_def awaited_sent_def split: if_splits)

text \<open>The supervisor's history: the probes that ended are events of the run.\<close>

lemma supervisor_history:
  assumes "wk_supervisor w0 = Some s0"
  shows "\<exists>ses. wk_supervisor (run worker_step w0 es) = Some (run sup_step s0 ses) \<and>
    (\<forall>ev \<in> set ses. ends_probe ev \<longrightarrow> Ev_Supervisor ev \<in> set es)"
  using assms
proof (induction es arbitrary: w0 s0)
  case Nil
  then show ?case by (auto intro: exI [of _ "[]"])
next
  case (Cons e es)
  have "\<exists>ses. wk_supervisor (worker_step w0 e) = Some (run sup_step s0 ses) \<and>
      (\<forall>ev \<in> set ses. ends_probe ev \<longrightarrow> e = Ev_Supervisor ev)"
  proof (cases "\<exists>ev. e = Ev_Supervisor ev \<and> ends_probe ev")
    case True
    then obtain now out where e: "e = Ev_Supervisor (Check_Leave now out)" by (auto simp: ends_probe_def)
    with Cons.prems show ?thesis by (intro exI [of _ "[Check_Leave now out]"]) simp
  next
    case False
    then have "sup_moves w0 (worker_step w0 e)" using worker_step_ok by (simp add: step_ok_def)
    with Cons.prems show ?thesis by (auto simp: sup_moves_def list_ex_iff)
  qed
  then obtain xs where xs: "wk_supervisor (worker_step w0 e) = Some (run sup_step s0 xs)"
    "\<forall>ev \<in> set xs. ends_probe ev \<longrightarrow> e = Ev_Supervisor ev" by blast
  from Cons.IH [OF xs(1)] obtain ys where
    "wk_supervisor (run worker_step (worker_step w0 e) es) = Some (run sup_step (run sup_step s0 xs) ys)"
    "\<forall>ev \<in> set ys. ends_probe ev \<longrightarrow> Ev_Supervisor ev \<in> set es" by blast
  with xs(2) show ?case by (auto simp: run_append intro!: exI [of _ "xs @ ys"])
qed

lemma ready_starts_event:
  "st \<in> set (ready_starts s es) \<Longrightarrow> \<exists>fin h. Check_Leave fin (Probe_Value (Some h)) \<in> set es \<and>
     rh_state h = RT_READY \<and> rh_ready h \<and> fin - st < sv_timeout_seconds s"
proof (induction es arbitrary: s)
  case (Cons e es)
  show ?case
  proof (cases "st \<in> set (ready_start s e)")
    case True
    then show ?thesis by (cases "(s, e)" rule: ready_start.cases) (auto split: option.splits if_splits)
  next
    case False
    with Cons.prems have "st \<in> set (ready_starts (sup_step s e) es)" by simp
    from Cons.IH [OF this] show ?thesis by auto
  qed
qed simp

section \<open>The worker and the control plane\<close>

text \<open>What a request means on the other side: the repository operation, with its answer.\<close>

fun served :: "'s control_api \<Rightarrow> instant \<Rightarrow> string \<Rightarrow> worker \<Rightarrow> rpc \<Rightarrow> 's \<Rightarrow> http_response \<times> 's" where
  "served api now uid w R_Register s = respond 201 worker_record_to_dict
     (ca_register api \<lparr>reg_spec = wk_spec w, reg_max_concurrency = wk_max_concurrency w,
        reg_metadata = [(''runtime'', JStr ''astrumweaver-worker'')]\<rparr> now s)"
| "served api now uid w (R_Heartbeat lease st) s = respond 200 worker_record_to_dict
     (ca_heartbeat api (ws_worker_id (wk_spec w)) \<lparr>hb_state = st, hb_active_job_id = map_option fst lease,
        hb_lease_token = map_option snd lease, hb_metadata = []\<rparr> now s)"
| "served api now uid w R_Claim s = handle_claim api now uid (ws_worker_id (wk_spec w)) s"
| "served api now uid w (R_Complete j t r) s =
     respond 200 job_json (ca_complete api j r (ws_worker_id (wk_spec w)) t now s)"
| "served api now uid w (R_Fail j t err retryable) s =
     respond 200 job_json (ca_fail api j (Details err) retryable (ws_worker_id (wk_spec w)) t now s)"
| "served api now uid w (R_Inspect j) s = handle_inspect api (ws_worker_id (wk_spec w)) j s"
| "served api now uid w (R_Set_State st) s =
     respond 200 worker_record_to_dict (ca_set_state api (ws_worker_id (wk_spec w)) st now s)"

fun rpc_ok :: "rpc \<Rightarrow> bool" where
  "rpc_ok (R_Complete j t r) \<longleftrightarrow> path_id j \<and> result_ok r"
| "rpc_ok (R_Fail j t err b) \<longleftrightarrow> path_id j"
| "rpc_ok (R_Inspect j) \<longleftrightarrow> path_id j"
| "rpc_ok _ \<longleftrightarrow> True"

lemma rpc_over_http:
  assumes "shares_token client cfg" "path_id (ws_worker_id (wk_spec w))" "spec_ok (wk_spec w)"
    "1 \<le> wk_max_concurrency w" "rpc_ok r"
  shows "handle cfg api now uid (on_the_wire client (rpc_call w r)) s = served api now uid w r s"
  using assms
  by (cases r) (simp_all add: rpc_call_def Let_def register_over_http heartbeat_over_http claim_over_http
      complete_over_http fail_over_http inspect_over_http set_state_over_http)

lemma record_acknowledged:
  assumes "spec_ok (wk_spec w)" "wr_spec v = wk_spec w" "wr_max_concurrency v = wk_max_concurrency w"
  shows "ack_check w (worker_record_to_dict v) = Inr (wr_state v)"
proof -
  have "worker_spec_eq (wk_spec w) (wk_spec w)" using assms(1) by (intro worker_spec_eq_refl) (simp add: spec_ok_def)
  then show ?thesis
    using assms worker_spec_roundtrip [OF assms(1)]
    by (simp add: ack_check_def worker_record_to_dict_def json_get_def json_item_def)
qed

section \<open>Claims of a run\<close>

lemma worker_step_claims:
  assumes "claims_sent (worker_step w e) \<noteq> claims_sent w"
  shows "claims_sent (worker_step w e) = Suc (claims_sent w) \<and> ready_now (event_time e) (worker_step w e)"
proof (cases "\<exists>ev. e = Ev_Supervisor ev")
  case True
  with assms show ?thesis by (auto simp: claims_sent_def split: option.splits if_splits)
next
  case False
  then show ?thesis using worker_step_ok [of e w] assms by (simp add: step_ok_def)
qed

lemma draining_run:
  assumes "wk_draining w"
  shows "wk_draining (run worker_step w es) \<and> claims_sent (run worker_step w es) = claims_sent w"
  using assms
proof (induction es arbitrary: w)
  case (Cons e es)
  then have "wk_draining (worker_step w e)" using worker_step_keeps [of w e] by (simp add: keeps_intent_def)
  moreover from this have "claims_sent (worker_step w e) = claims_sent w"
    using worker_step_claims [of w e] by (auto simp: ready_now_def)
  ultimately show ?case using Cons.IH [of "worker_step w e"] by simp
qed simp

lemma run_snoc: "run step s (es @ [e]) = step (run step s es) e"
  by (simp add: run_append)

lemma control_lease_fresh:
  assumes "ack_inv w" "now < wk_control_valid_until w" "0 \<le> now"
  shows "\<exists>t. sent_ack w t \<and> now < t + wk_heartbeat_interval_seconds w + wk_timeout_seconds w"
  using assms by (auto simp: ack_inv_def lease_sent_def)

lemma supervisor_fresh:
  assumes "mk_supervisor (Finite i) (Finite t) (Finite sh) same = Inr s0" "wk_supervisor w0 = Some s0"
    and "wk_supervisor (run worker_step w0 es) = Some s" "fst (sup_available now s)"
  shows "\<exists>st fin h. Ev_Supervisor (Check_Leave fin (Probe_Value (Some h))) \<in> set es \<and>
    rh_state h = RT_READY \<and> rh_ready h \<and> fin - st < t \<and> now < st + i + t"
proof -
  obtain ses where ses: "s = run sup_step s0 ses" "\<forall>ev \<in> set ses. ends_probe ev \<longrightarrow> Ev_Supervisor ev \<in> set es"
    using supervisor_history [OF assms(2), of es] assms(3) by auto
  have s0: "sv_valid_until s0 = 0" "lease_end s0 = (\<lambda>st. st + i + t)" "sv_timeout_seconds s0 = t"
    using assms(1) by (auto simp: mk_supervisor_def lease_end_def split: if_splits)
  from sup_available_up [OF assms(4)] have "sv_valid_until s \<noteq> 0" "now < sv_valid_until s" by auto
  with run_lease [of s0 ses] s0 ses(1) obtain st where "st \<in> set (ready_starts s0 ses)" "now < st + i + t" by auto
  moreover from this(1) ready_starts_event [of st s0 ses] s0(3) obtain fin h where
    "Check_Leave fin (Probe_Value (Some h)) \<in> set ses" "rh_state h = RT_READY" "rh_ready h" "fin - st < t" by auto
  moreover from this(1) ses(2) have "Ev_Supervisor (Check_Leave fin (Probe_Value (Some h))) \<in> set es"
    by (auto simp: ends_probe_def)
  ultimately show ?thesis by blast
qed

section \<open>Properties\<close>

text \<open>
  C23. The worker follows its protocol under every interleaving of its loop, drain calls, signals,
  executor and health events. The record of what it did is accepted by the monitor: it registers
  once and first, heartbeats carry the lease of the attempt under way and nothing else, it never
  claims while it holds a claim, each attempt writes at most one result (or failure) and only with
  its own lease, and it goes OFFLINE only between attempts. And since the control lock is exclusive,
  the loop and a drain never have requests in flight at the same time.
\<close>

theorem worker_protocol_followed:
  assumes "mk_worker spec n poll hb tmo spv = Inr w0"
  shows "let w = run worker_step w0 es in
    (\<exists>m. mon_run mon0 (wk_log w) = Some m \<and> mo_cur m = wk_active w) \<and>
    \<not> (in_rpc (wk_pc w) \<and> wk_drain_sent w \<noteq> None)"
proof -
  have "worker_inv (run worker_step w0 es)" using protocol.run_inv mk_worker_inv [OF assms] by simp
  then show ?thesis by (auto simp: worker_inv_def follows_def at_pc_def drain_lock_def Let_def)
qed

text \<open>
  C24. A worker claims only when it is entitled to. Whenever a step of a run sends a claim, the worker
  is registered, neither stopped nor draining, known ONLINE to the control plane, within the lease of
  an acknowledgement -- one for a request sent less than a heartbeat interval plus a request timeout
  before -- and, if it owns a runtime, some probe of that runtime came back READY within its budget
  and was started less than a probe interval plus a budget before.
\<close>

theorem claims_only_when_ready:
  assumes "mk_worker spec n poll (Finite hb) tmo spv = Inr w0"
    and "spv = None \<or> (\<exists>s0. spv = Some s0 \<and> mk_supervisor (Finite i) (Finite t) (Finite sh) same = Inr s0)"
    and "w = run worker_step w0 es" "claims_sent (worker_step w e) \<noteq> claims_sent w" "0 \<le> event_time e"
  shows "claims_sent (worker_step w e) = Suc (claims_sent w) \<and> ready_now (event_time e) (worker_step w e) \<and>
    (\<exists>sent. sent_ack (worker_step w e) sent \<and> event_time e < sent + hb + tmo) \<and>
    (spv = None \<or> (\<exists>st fin h. Ev_Supervisor (Check_Leave fin (Probe_Value (Some h))) \<in> set (es @ [e]) \<and>
       rh_state h = RT_READY \<and> rh_ready h \<and> fin - st < t \<and> event_time e < st + i + t))"
proof -
  have w': "worker_step w e = run worker_step w0 (es @ [e])" using assms(3) by (simp add: run_snoc)
  have w0: "wk_supervisor w0 = spv" "wk_heartbeat_interval_seconds w0 = hb" "wk_timeout_seconds w0 = tmo"
    using assms(1) by (auto simp: mk_worker_def split: if_splits)
  then have tm: "wk_heartbeat_interval_seconds (worker_step w e) = hb" "wk_timeout_seconds (worker_step w e) = tmo"
    using run_keeps [of w0 "es @ [e]"] w' by (simp_all add: keeps_intent_def)
  note ready = worker_step_claims [OF assms(4)]
  have "ack_inv (worker_step w e)" unfolding w' using acks.run_inv mk_worker_ack_inv [OF assms(1)] by simp
  with control_lease_fresh [OF this _ assms(5)] ready tm
  have lease: "\<exists>sent. sent_ack (worker_step w e) sent \<and> event_time e < sent + hb + tmo" by (simp add: ready_now_def)
  have "\<exists>st fin h. Ev_Supervisor (Check_Leave fin (Probe_Value (Some h))) \<in> set (es @ [e]) \<and>
       rh_state h = RT_READY \<and> rh_ready h \<and> fin - st < t \<and> event_time e < st + i + t" if sp: "spv = Some s0" for s0
  proof -
    have "mk_supervisor (Finite i) (Finite t) (Finite sh) same = Inr s0" using assms(2) sp by auto
    moreover from supervisor_history [of w0 s0 "es @ [e]"] obtain s
      where s: "wk_supervisor (run worker_step w0 (es @ [e])) = Some s" using w0(1) sp by auto
    ultimately show ?thesis
      using supervisor_fresh [OF _ _ s, of i t sh same s0 "event_time e"] ready s w0(1) sp
      by (simp add: ready_now_def w')
  qed
  with ready lease show ?thesis by (cases spv) auto
qed

text \<open>
  A drain is for good. From the moment a worker intends to drain -- a drain call, a drain or stop
  signal, a failure that ends its loop -- it never sends another claim, and no acknowledgement, answer
  or health event takes the intent back.
\<close>

theorem drain_is_final:
  assumes "wk_draining (run worker_step w0 es)"
  shows "let w = run worker_step w0 (es @ later) in
    wk_draining w \<and> claims_sent w = claims_sent (run worker_step w0 es)"
  using draining_run [OF assms, of later] by (simp add: run_append)


section \<open>Witnesses\<close>

definition ex_made :: worker where
  "ex_made = \<lparr>wk_spec = ex_spec ''w'' ''A'', wk_max_concurrency = 1, wk_poll_interval_seconds = 2,
     wk_heartbeat_interval_seconds = 5, wk_timeout_seconds = 10, wk_stop = False, wk_draining = False,
     wk_registered = False, wk_control_state = None, wk_control_valid_until = 0,
     wk_next_heartbeat_at = 0, wk_lock = None, wk_active = None, wk_supervisor = Some ex_supervisor,
     wk_pc = Begin, wk_execution = None, wk_drains_waiting = 0, wk_drain_sent = None, wk_log = []\<rparr>"

lemma ex_worker_made: "mk_worker (ex_spec ''w'' ''A'') 1 (Finite 2) (Finite 5) 10 (Some ex_supervisor) = Inr ex_made"
  by (simp add: mk_worker_def ex_made_def timing_ok_def)

text \<open>The first probe succeeds, the worker registers and is about to claim.\<close>

definition ex_record :: worker_record where
  "ex_record = ex_worker\<lparr>wr_active_jobs := 0\<rparr>"

definition ex_enrol :: "worker_event list" where
  "ex_enrol = [Ev_Start 9, Ev_Supervisor (Check_Enter 10), Ev_Supervisor (Check_Leave 11 ex_ready),
     Ev_Supervisor Run_Checked, Ev_Supervisor_Started 11, Ev_Lock 11,
     Ev_Answer 12 (Answered 201 (Some (JObj (worker_record_to_dict ex_record)))), Ev_Lock 12]"

definition ex_enrolled :: worker where
  "ex_enrolled = ex_made\<lparr>wk_registered := True, wk_control_state := Some ONLINE,
     wk_control_valid_until := 26, wk_next_heartbeat_at := 17, wk_pc := Want_Lock Lk_Claim,
     wk_supervisor := Some (ex_supervisor\<lparr>sv_initialized := True, sv_valid_until := 16, sv_task := True\<rparr>),
     wk_log := [Sent R_Register 11]\<rparr>"

lemma ex_ack: "wk_spec w = ex_spec ''w'' ''A'' \<Longrightarrow> wk_max_concurrency w = 1 \<Longrightarrow>
    ack_check w (worker_record_to_dict ex_record) = Inr ONLINE"
  using record_acknowledged [of w ex_record] ex_spec_ok by (simp add: ex_record_def ex_worker_def)

lemmas worker_defs = worker_start_def supervisor_started_def runtime_available_def worker_ready_def
  worker_draining_def supervisor_failed_def control_available_def goto_def send_def logged_def release_def
  rearm_def loop_top_def after_heartbeat_def claim_if_ready_def ack_reply_def acknowledge_control_def
  read_object_def client_request_def client_object_def Let_def

lemma ex_enrol_run: "run worker_step ex_made ex_enrol = ex_enrolled"
  by (simp add: ex_enrol_def ex_enrolled_def ex_made_def worker_defs ex_ack ex_sup)

lemma ex_claims: "worker_step ex_enrolled (Ev_Lock 13) =
    ex_enrolled\<lparr>wk_lock := Some Main, wk_pc := In_Rpc At_Claim 13, wk_log := [Sent R_Register 11, Sent R_Claim 13]\<rparr>"
  by (simp add: ex_enrolled_def ex_made_def worker_defs ex_sup)

theorem worker_protocol_followed_witness:
  "let w = run worker_step ex_made (ex_enrol @ [Ev_Lock 13]) in
    wk_log w = [Sent R_Register 11, Sent R_Claim 13] \<and> mon_run mon0 (wk_log w) \<noteq> None \<and> in_rpc (wk_pc w)"
  using worker_protocol_followed [OF ex_worker_made, of "ex_enrol @ [Ev_Lock 13]"]
  unfolding Let_def run_snoc ex_enrol_run ex_claims by (auto simp del: mon_run.simps)

theorem claims_only_when_ready_witness:
  "claims_sent (worker_step ex_enrolled (Ev_Lock 13)) = 1 \<and>
   (\<exists>sent. sent_ack (worker_step ex_enrolled (Ev_Lock 13)) sent \<and> (13::rat) < sent + 5 + 10) \<and>
   (\<exists>st fin h. Ev_Supervisor (Check_Leave fin (Probe_Value (Some h))) \<in> set (ex_enrol @ [Ev_Lock 13]) \<and>
      rh_ready h \<and> (13::rat) < st + 1 + 5)"
proof -
  have c: "claims_sent (worker_step ex_enrolled (Ev_Lock 13)) \<noteq> claims_sent ex_enrolled"
    "claims_sent ex_enrolled = 0"
    unfolding ex_claims by (simp_all add: claims_sent_def ex_enrolled_def)
  have "Some ex_supervisor = None \<or> (\<exists>s0. Some ex_supervisor = Some s0 \<and>
      mk_supervisor (Finite 1) (Finite 5) (Finite 60) True = Inr s0)"
    using ex_supervisor_made by simp
  from claims_only_when_ready [OF ex_worker_made this ex_enrol_run [symmetric] c(1)] c(2) show ?thesis
    by (simp only: event_time.simps) auto
qed

theorem drain_is_final_witness:
  "let w = run worker_step ex_made ((ex_enrol @ [Ev_Drain]) @ [Ev_Lock 13, Ev_Poll_Over, Ev_Lock 14]) in
    wk_draining w \<and> claims_sent w = 0"
proof -
  have d: "wk_draining (run worker_step ex_made (ex_enrol @ [Ev_Drain]))"
    "claims_sent (run worker_step ex_made (ex_enrol @ [Ev_Drain])) = 0"
    unfolding run_snoc ex_enrol_run by (simp_all add: request_drain_def claims_sent_def ex_enrolled_def)
  from drain_is_final [OF d(1), of "[Ev_Lock 13, Ev_Poll_Over, Ev_Lock 14]"] d(2) show ?thesis
    by (simp only: Let_def)
qed

definition ex_client :: control_client where
  "ex_client = \<lparr>cc_base_url = ''http://c'', cc_worker_token = ''w'', cc_timeout_seconds = 10\<rparr>"


end
