(* ===== verification/Worker_Stop.thy ===== *)
theory Worker_Stop
  imports Worker_Props
begin

text \<open>
  The end of \<open>run_forever\<close>. A worker that was told to stop and whose executor is no longer running
  only moves downwards: a rank on the places where the coroutine waits falls with every move, so it
  reaches its end in a bounded number of moves whatever the answers are, and there is always a next
  move to make.
\<close>

section \<open>Rank\<close>

fun lock_rank :: "lock_point \<Rightarrow> nat" where
  "lock_rank Lk_Register = 19"
| "lock_rank Lk_Loop = 16"
| "lock_rank Lk_Claim = 16"
| "lock_rank (Lk_Exec c) = 16"
| "lock_rank (Lk_Terminal c v) = 12"
| "lock_rank (Lk_Inspect c) = 9"
| "lock_rank Lk_Offline = 3"

fun rpc_rank :: "rpc_point \<Rightarrow> nat" where
  "rpc_rank At_Register = 18"
| "rpc_rank At_Register_Heartbeat = 17"
| "rpc_rank At_Loop_Heartbeat = 15"
| "rpc_rank At_Claim_Heartbeat = 15"
| "rpc_rank At_Claim = 17"
| "rpc_rank (At_Exec_Heartbeat c) = 15"
| "rpc_rank (At_Terminal_Heartbeat c v) = 11"
| "rpc_rank (At_Terminal c) = 10"
| "rpc_rank (At_Inspect c) = 8"
| "rpc_rank At_Offline = 2"

fun rank :: "pc \<Rightarrow> nat" where
  "rank Begin = 21"
| "rank Sup_Starting = 20"
| "rank Wait_Stop = 6"
| "rank (Want_Lock p) = lock_rank p"
| "rank (In_Rpc p t) = rpc_rank p"
| "rank Polling = 6"
| "rank (Exec_Waiting c) = 14"
| "rank (Checking c k s) = 13"
| "rank (Cancelling c cs) = 7"
| "rank Closing = 5"
| "rank Shutting_Down = 4"
| "rank Stopped = 0"

lemma rank_bound: "rank p \<le> 21"
proof (cases p)
  case (Want_Lock l)
  then show ?thesis by (cases l) simp_all
next
  case (In_Rpc r t)
  then show ?thesis by (cases r) simp_all
qed simp_all

text \<open>An executor may still have to run: a claim is awaited, or the attempt's task has not ended.\<close>

fun exec_pc :: "pc \<Rightarrow> bool" where
  "exec_pc (Want_Lock (Lk_Exec c)) = True"
| "exec_pc (In_Rpc (At_Exec_Heartbeat c) t) = True"
| "exec_pc (Exec_Waiting c) = True"
| "exec_pc _ = False"

fun claim_pc :: "pc \<Rightarrow> bool" where
  "claim_pc (In_Rpc At_Claim t) = True"
| "claim_pc _ = False"

definition exec_open :: "worker \<Rightarrow> bool" where
  "exec_open w \<longleftrightarrow> claim_pc (wk_pc w) \<or> exec_pc (wk_pc w) \<and> (\<nexists>out. wk_execution w = Some (Some out))"

definition below :: "nat \<Rightarrow> worker \<Rightarrow> bool" where
  "below n w \<longleftrightarrow> wk_stop w \<and> \<not> exec_open w \<and> rank (wk_pc w) \<le> n"

lemma below_mono: "below m w \<Longrightarrow> m \<le> n \<Longrightarrow> below n w"
  by (simp add: below_def)

section \<open>Segments of a stopped worker\<close>

lemma stop_fields [simp]:
  "wk_stop (release w) = wk_stop w" "wk_stop (rearm now w) = wk_stop w"
  "wk_stop (control_failed st now w) = wk_stop w" "wk_stop (logged e w) = wk_stop w"
  "wk_execution (release w) = wk_execution w" "wk_execution (rearm now w) = wk_execution w"
  "wk_execution (logged e w) = wk_execution w"
  by (simp_all add: release_def rearm_def control_failed_def logged_def)

lemma goto_below:
  "wk_stop w \<Longrightarrow> \<not> claim_pc p \<Longrightarrow> (exec_pc p \<Longrightarrow> \<exists>out. wk_execution w = Some (Some out)) \<Longrightarrow> rank p \<le> n \<Longrightarrow>
    below n (goto p w)"
  by (auto simp: below_def exec_open_def goto_def)

lemma send_below:
  "wk_stop w \<Longrightarrow> pt \<noteq> At_Claim \<Longrightarrow>
    (exec_pc (In_Rpc pt now) \<Longrightarrow> \<exists>out. wk_execution w = Some (Some out)) \<Longrightarrow> rpc_rank pt \<le> n \<Longrightarrow>
    below n (send pt r now w)"
  unfolding send_def by (cases pt) (auto intro!: goto_below)

lemma finalize_below: "5 \<le> n \<Longrightarrow> below n (finalize w)"
  by (auto simp: finalize_def Let_def request_stop_def split: option.split intro!: goto_below)

lemma loop_top_below: "wk_stop w \<Longrightarrow> 5 \<le> n \<Longrightarrow> below n (loop_top w)"
  by (simp add: loop_top_def finalize_below)

lemma stopped_not_ready: "wk_stop w \<Longrightarrow> worker_ready now w = (False, w)"
  by (simp add: worker_ready_def)

lemma after_heartbeat_below: "wk_stop w \<Longrightarrow> 6 \<le> n \<Longrightarrow> below n (after_heartbeat now w)"
  by (auto simp: after_heartbeat_def stopped_not_ready intro!: goto_below)

lemma transport_pause_below: "wk_stop w \<Longrightarrow> 6 \<le> n \<Longrightarrow> below n (transport_pause st now w)"
  by (auto simp: transport_pause_def intro!: goto_below)

lemma attempt_end_below: "wk_stop w \<Longrightarrow> 6 \<le> n \<Longrightarrow> below n (attempt_end cs now w)"
  by (auto simp: attempt_end_def Let_def split: cause.split
      intro!: loop_top_below goto_below transport_pause_below finalize_below)

lemma unwind_below: "wk_stop w \<Longrightarrow> 7 \<le> n \<Longrightarrow> below n (unwind c cs now w)"
  by (auto simp: unwind_def intro!: attempt_end_below goto_below)

lemma exec_error_below: "wk_stop w \<Longrightarrow> 9 \<le> n \<Longrightarrow> below n (exec_error c e now w)"
  by (auto simp: exec_error_def Let_def split: client_error.split intro!: unwind_below goto_below)

lemma runtime_fields:
  "runtime_available now w = (up, w') \<Longrightarrow> wk_stop w' = wk_stop w \<and> wk_execution w' = wk_execution w"
  by (auto simp: runtime_available_def split: option.splits prod.splits)

lemma with_runtime_below:
  assumes "wk_stop w" "7 \<le> n"
    "\<And>w'. wk_stop w' \<Longrightarrow> wk_execution w' = wk_execution w \<Longrightarrow> below n (k w')"
  shows "below n (with_runtime c now w k)"
  using assms runtime_fields [of now w]
  by (auto simp: with_runtime_def split: prod.split intro!: unwind_below)

lemma exec_done_below: "wk_stop w \<Longrightarrow> 13 \<le> n \<Longrightarrow> below n (exec_done c out now w)"
  unfolding exec_done_def
  by (rule with_runtime_below) (auto split: exec_outcome.split intro!: goto_below unwind_below)

lemma exec_loop_below:
  "wk_stop w \<Longrightarrow> wk_execution w = Some (Some out) \<Longrightarrow> 13 \<le> n \<Longrightarrow> below n (exec_loop c now w)"
  by (simp add: exec_loop_def exec_done_below)

lemma exec_wait_below:
  "wk_stop w \<Longrightarrow> wk_execution w = Some (Some out) \<Longrightarrow> 14 \<le> n \<Longrightarrow> below n (exec_wait c now w)"
  unfolding exec_wait_def by (rule with_runtime_below) (auto intro!: goto_below)

lemma terminal_write_below: "wk_stop w \<Longrightarrow> 10 \<le> n \<Longrightarrow> below n (terminal_write c v now w)"
  using runtime_fields [of now w]
  by (auto simp: terminal_write_def split: prod.split intro!: unwind_below exec_error_below send_below)

lemmas below_intros = goto_below send_below finalize_below loop_top_below after_heartbeat_below
  transport_pause_below attempt_end_below unwind_below exec_error_below terminal_write_below

lemma reply_fields:
  assumes "heartbeat_reply now sent x w = (r, w')"
  shows "wk_stop w \<Longrightarrow> wk_stop w'" "wk_execution w' = wk_execution w"
  using tame_heartbeat_reply [OF assms] quiet_heartbeat_reply [OF assms]
  by (simp_all add: tame_def keeps_intent_def quiet_def)

lemma ack_fields:
  assumes "ack_reply now sent x w = (r, w')"
  shows "wk_stop w \<Longrightarrow> wk_stop w'"
  using tame_ack_reply [OF assms] by (simp add: tame_def keeps_intent_def)

section \<open>Every move goes down\<close>

lemma lock_taken_below:
  assumes "wk_stop w" "wk_pc w = Want_Lock p" "\<not> exec_open w"
  shows "below (rank (wk_pc w) - 1) (lock_taken p now w)"
proof (cases p)
  case (Lk_Exec c)
  then obtain out where "wk_execution w = Some (Some out)" using assms by (auto simp: exec_open_def)
  with Lk_Exec assms show ?thesis by (auto intro!: send_below exec_wait_below)
qed (use assms in \<open>auto simp: stopped_not_ready intro!: below_intros\<close>)

lemma rpc_answered_below:
  assumes "wk_stop w" "wk_pc w = In_Rpc p sent" "\<not> exec_open w"
  shows "below (rank (wk_pc w) - 1) (rpc_answered p now sent x w)"
proof -
  obtain r w' where hb: "heartbeat_reply now sent x w = (r, w')" by fastforce
  obtain r1 w1 where a: "ack_reply now sent x w = (r1, w1)" by fastforce
  note f = reply_fields(1) [OF hb assms(1)] reply_fields(2) [OF hb] ack_fields [OF a assms(1)]
  show ?thesis
  proof (cases p)
    case (At_Exec_Heartbeat c)
    then obtain out where "wk_execution w = Some (Some out)" using assms by (auto simp: exec_open_def)
    with At_Exec_Heartbeat assms f hb show ?thesis by (cases r) (auto intro!: exec_error_below exec_wait_below)
  next
    case At_Register
    with assms f a show ?thesis by (cases r1) (auto simp: Let_def intro!: below_intros)
  next
    case At_Claim_Heartbeat
    with assms f hb stopped_not_ready [OF f(1)] show ?thesis
      by (cases r) (auto simp: claim_if_ready_def split: client_error.split intro!: below_intros)
  next
    case At_Claim
    with assms show ?thesis by (simp add: exec_open_def)
  qed (use assms f hb in \<open>cases r; auto split: client_error.split sum.split intro!: below_intros\<close>)+
qed

lemma worker_start_below: "wk_stop w \<Longrightarrow> below 20 (worker_start now w)"
  by (simp add: worker_start_def finalize_below)

lemma supervisor_started_below:
  assumes "wk_stop w" "supervisor_started now w \<noteq> w"
  shows "below 19 (supervisor_started now w)"
  using assms runtime_fields [of now w]
  by (auto simp: supervisor_started_def split: option.splits prod.splits if_splits intro!: goto_below)

text \<open>Events that leave the coroutine where it is.\<close>

lemma below_same:
  "below n w \<Longrightarrow> wk_stop w' \<Longrightarrow> wk_pc w' = wk_pc w \<Longrightarrow>
    wk_execution w' \<in> {wk_execution w, Some (Some out)} \<Longrightarrow> below n w'"
  by (auto simp: below_def exec_open_def)

definition moves_down :: "worker \<Rightarrow> worker \<Rightarrow> bool" where
  "moves_down w w' \<longleftrightarrow> wk_stop w' \<and> \<not> exec_open w' \<and>
     (wk_pc w' = wk_pc w \<or> rank (wk_pc w') < rank (wk_pc w))"

lemma below_moves: "below (rank (wk_pc w) - 1) w' \<Longrightarrow> 0 < rank (wk_pc w) \<Longrightarrow> moves_down w w'"
  by (auto simp: below_def moves_down_def)

lemma stays:
  "wk_stop w \<Longrightarrow> \<not> exec_open w \<Longrightarrow> wk_stop w' \<Longrightarrow> wk_pc w' = wk_pc w \<Longrightarrow>
    wk_execution w' = wk_execution w \<or> (\<exists>out. wk_execution w' = Some (Some out)) \<Longrightarrow> moves_down w w'"
  by (auto simp: moves_down_def exec_open_def)

lemma drain_moves:
  assumes "wk_stop w" "\<not> exec_open w"
  shows "moves_down w (worker_step w (Ev_Drain_Lock now))" "moves_down w (worker_step w (Ev_Drain_Answer now x))"
proof -
  show "moves_down w (worker_step w (Ev_Drain_Lock now))"
    using assms by (intro stays) (auto simp: drain_locked_def Let_def logged_def)
  have "wk_stop (snd (heartbeat_reply now st x w))" "quiet w (snd (heartbeat_reply now st x w))" for st
    using assms(1) reply_fields(1) quiet_heartbeat_reply by (metis prod.collapse)+
  then show "moves_down w (worker_step w (Ev_Drain_Answer now x))"
    using assms by (intro stays) (auto simp: drain_answered_def release_def quiet_def split: option.split)
qed

lemma rank_pos: "0 < lock_rank p" "0 < rpc_rank r"
  by (cases p; simp) (cases r; simp)

lemma worker_step_down:
  assumes "wk_stop w" "\<not> exec_open w"
  shows "moves_down w (worker_step w e)"
proof -
  have same: "moves_down w w" using assms by (intro stays) simp_all
  have to: "moves_down w w'" if "wk_pc w = p" "below n w'" "n < rank p" for w' p n
    using that by (intro below_moves) (auto intro: below_mono)
  show ?thesis
  proof (cases e)
    case (Ev_Lock now)
    have "moves_down w (lock_taken p now w)" if "wk_pc w = Want_Lock p" for p
      using lock_taken_below [OF assms(1) that assms(2)] that rank_pos by (intro below_moves) simp_all
    with Ev_Lock same show ?thesis by (auto split: pc.split)
  next
    case (Ev_Answer now x)
    have "moves_down w (rpc_answered p now st x w)" if "wk_pc w = In_Rpc p st" for p st
      using rpc_answered_below [OF assms(1) that assms(2)] that rank_pos by (intro below_moves) simp_all
    with Ev_Answer same show ?thesis by (auto split: pc.split)
  next
    case (Ev_Start now)
    with same to [OF _ worker_start_below [OF assms(1)]] show ?thesis by simp
  next
    case (Ev_Supervisor_Started now)
    with same to [OF _ supervisor_started_below [OF assms(1)]] show ?thesis
      by (cases "supervisor_started now w = w") simp_all
  next
    case Ev_Stop_Seen
    with same to [OF _ finalize_below [of 5]] show ?thesis by simp
  next
    case Ev_Poll_Over
    with same to [OF _ loop_top_below [OF assms(1), of 5]] show ?thesis by simp
  next
    case (Ev_Executor_Wake now)
    have "moves_down w (exec_loop c now w)" if pc: "wk_pc w = Exec_Waiting c" for c
    proof -
      obtain out where "wk_execution w = Some (Some out)" using pc assms(2) by (auto simp: exec_open_def)
      then show ?thesis using to [OF pc exec_loop_below [OF assms(1)], of out 13] by simp
    qed
    with Ev_Executor_Wake same show ?thesis by (auto split: pc.split)
  next
    case (Ev_Check_Over now)
    have "below 12 (with_runtime c now w (goto (Want_Lock (Lk_Terminal c v))))" for c v
      using assms(1) by (rule with_runtime_below) (auto intro!: goto_below)
    with Ev_Check_Over same to [of _ 12] show ?thesis by (auto split: pc.split)
  next
    case (Ev_Cancel_Over now raised)
    with same to [OF _ attempt_end_below [OF assms(1), of 6]] show ?thesis by (auto split: pc.split)
  next
    case Ev_Closed
    have "below 4 (goto Shutting_Down w)" using assms(1) by (auto intro!: goto_below)
    with Ev_Closed same to show ?thesis by simp
  next
    case (Ev_Shutdown_Over ok)
    have "below 3 (goto (if ok then Want_Lock Lk_Offline else Stopped) w)" using assms(1) by (auto intro!: goto_below)
    with Ev_Shutdown_Over same to show ?thesis by simp
  next
    case (Ev_Drain_Lock now)
    show ?thesis unfolding Ev_Drain_Lock by (rule drain_moves [OF assms])
  next
    case (Ev_Drain_Answer now x)
    show ?thesis unfolding Ev_Drain_Answer by (rule drain_moves [OF assms])
  qed (use assms in \<open>intro stays; auto simp: request_stop_def request_drain_def split: option.split\<close>)+
qed

section \<open>There is always a next move\<close>

fun pc_moves :: "worker \<Rightarrow> worker_event list \<Rightarrow> nat" where
  "pc_moves w [] = 0"
| "pc_moves w (e # es) = (if wk_pc (worker_step w e) = wk_pc w then 0 else 1) + pc_moves (worker_step w e) es"

lemma pc_moves_bound: "wk_stop w \<Longrightarrow> \<not> exec_open w \<Longrightarrow> pc_moves w es + rank (wk_pc (run worker_step w es)) \<le> rank (wk_pc w)"
proof (induction es arbitrary: w)
  case (Cons e es)
  from worker_step_down [OF Cons.prems, of e] Cons.IH [of "worker_step w e"] show ?case
    by (auto simp: moves_down_def)
qed simp

lemma stopped_run:
  "wk_stop w \<Longrightarrow> \<not> exec_open w \<Longrightarrow> wk_stop (run worker_step w es) \<and> \<not> exec_open (run worker_step w es)"
proof (induction es arbitrary: w)
  case (Cons e es)
  from worker_step_down [OF Cons.prems, of e] Cons.IH [of "worker_step w e"] show ?case
    by (simp add: moves_down_def)
qed simp

lemma rank_0: "rank p = 0 \<longleftrightarrow> p = Stopped"
  using rank_pos by (cases p) (auto simp: less_not_refl2 neq0_conv)

text \<open>One event lowers the rank where the coroutine waits for nothing but that event.\<close>

definition falls :: "worker \<Rightarrow> worker_event list \<Rightarrow> bool" where
  "falls w es \<longleftrightarrow> length es \<le> 2 \<and> rank (wk_pc (run worker_step w es)) < rank (wk_pc w)"

lemma falls_one: "below n (worker_step w e) \<Longrightarrow> n < rank (wk_pc w) \<Longrightarrow> falls w [e]"
  by (simp add: falls_def below_def)

lemma lock_falls:
  assumes "worker_inv w" "wk_stop w" "\<not> exec_open w" "wk_pc w = Want_Lock p"
  shows "\<exists>es. falls w es"
proof -
  have free: "falls v [Ev_Lock 0]" if "wk_stop v" "\<not> exec_open v" "wk_pc v = Want_Lock p" "wk_lock v = None" for v
    using lock_taken_below [OF that(1,3,2)] that rank_pos by (intro falls_one) auto
  have "wk_lock w \<noteq> Some Main" using assms(1,4) by (auto simp: worker_inv_def at_pc_def)
  then consider "wk_lock w = None" | "wk_lock w = Some Drain" by (metis lock_owner.exhaust not_None_eq)
  then show ?thesis
  proof cases
    case 1
    with free assms show ?thesis by blast
  next
    case 2
    let ?v = "worker_step w (Ev_Drain_Answer 0 Unreachable)"
    obtain sent where sent: "wk_drain_sent w = Some sent" using assms(1) 2 by (auto simp: worker_inv_def drain_lock_def)
    have "quiet w (snd (heartbeat_reply 0 sent Unreachable w))"
      using quiet_heartbeat_reply by (metis prod.collapse)
    with sent have "wk_lock ?v = None" "wk_pc ?v = wk_pc w"
      by (simp_all add: drain_answered_def release_def quiet_def)
    with free [of ?v] drain_moves(2) [OF assms(2,3), of 0 Unreachable] assms(4)
    have "falls w [Ev_Drain_Answer 0 Unreachable, Ev_Lock 0]" by (simp add: falls_def moves_down_def)
    then show ?thesis by blast
  qed
qed

lemma next_move:
  assumes "worker_inv w" "ack_inv w" "wk_stop w" "\<not> exec_open w" "wk_pc w \<noteq> Stopped"
  shows "\<exists>es. falls w es"
proof (cases "wk_pc w")
  case Begin
  then have "falls w [Ev_Start 0]" using worker_start_below [OF assms(3)] by (intro falls_one) auto
  then show ?thesis by blast
next
  case Sup_Starting
  then obtain s where s: "wk_supervisor w = Some s"
    using assms(2) by (auto simp: ack_inv_def awaited_sent_def)
  have "rank (wk_pc (supervisor_started 0 (w\<lparr>wk_supervisor := Some (run_checked s)\<rparr>))) < 20"
    by (simp add: supervisor_started_def run_checked_def goto_def split: prod.split)
  with Sup_Starting s have "falls w [Ev_Supervisor Run_Checked, Ev_Supervisor_Started 0]" by (simp add: falls_def)
  then show ?thesis by blast
next
  case Wait_Stop
  then have "falls w [Ev_Stop_Seen]" using finalize_below [of 5 w] assms(3) by (intro falls_one) auto
  then show ?thesis by blast
next
  case (Want_Lock p)
  with assms show ?thesis by (intro lock_falls)
next
  case (In_Rpc p sent)
  then have "falls w [Ev_Answer 0 Unreachable]"
    using rpc_answered_below [OF assms(3) In_Rpc assms(4)] rank_pos by (intro falls_one) auto
  then show ?thesis by blast
next
  case Polling
  then have "falls w [Ev_Poll_Over]" using loop_top_below [OF assms(3), of 5] by (intro falls_one) auto
  then show ?thesis by blast
next
  case (Exec_Waiting c)
  then obtain out where "wk_execution w = Some (Some out)" using assms(4) by (auto simp: exec_open_def)
  with Exec_Waiting have "falls w [Ev_Executor_Wake 0]"
    using exec_loop_below [OF assms(3), of out 13] by (intro falls_one) auto
  then show ?thesis by blast
next
  case (Checking c k s)
  have "below 12 (with_runtime c 0 w (goto (Want_Lock (Lk_Terminal c v))))" for v
    using assms(3) by (rule with_runtime_below) (auto intro!: goto_below)
  with Checking have "falls w [Ev_Check_Over 0]" by (intro falls_one) auto
  then show ?thesis by blast
next
  case (Cancelling c cs)
  then have "falls w [Ev_Cancel_Over 0 False]" using attempt_end_below [OF assms(3), of 6] by (intro falls_one) auto
  then show ?thesis by blast
next
  case Closing
  then have "falls w [Ev_Closed]" by (simp add: falls_def goto_def)
  then show ?thesis by blast
next
  case Shutting_Down
  then have "falls w [Ev_Shutdown_Over False]" by (simp add: falls_def goto_def)
  then show ?thesis by blast
qed (use assms(5) in simp)

lemma reaches_stopped:
  assumes "worker_inv w" "ack_inv w" "wk_stop w" "\<not> exec_open w"
  shows "\<exists>es. length es \<le> 2 * rank (wk_pc w) \<and> wk_pc (run worker_step w es) = Stopped"
  using assms
proof (induction "rank (wk_pc w)" arbitrary: w rule: less_induct)
  case less
  show ?case
  proof (cases "wk_pc w = Stopped")
    case True
    then show ?thesis by (intro exI [of _ "[]"]) simp
  next
    case False
    with next_move less.prems obtain es where es: "falls w es" by blast
    let ?v = "run worker_step w es"
    have "worker_inv ?v" "ack_inv ?v" using protocol.run_inv acks.run_inv less.prems by simp_all
    with less.hyps [of ?v] es stopped_run [OF less.prems(3,4), of es] obtain more where
      "length more \<le> 2 * rank (wk_pc ?v)" "wk_pc (run worker_step ?v more) = Stopped" by (auto simp: falls_def)
    with es show ?thesis by (intro exI [of _ "es @ more"]) (auto simp: falls_def run_append)
  qed
qed

section \<open>Property\<close>

text \<open>
  C26. A stop comes to its end. Once a worker was told to stop (or its loop failed) and no executor is
  running or about to be started, then whatever requests fail, locks are contended, drains or health
  events interleave, the coroutine moves at most 21 more times; and from every state on the way some
  at most 42 events lead to its end, so it is never stuck: every place it can wait at is left by the
  event it waits for.
\<close>

theorem stop_comes_to_an_end:
  assumes "mk_worker spec n poll hb tmo spv = Inr w0" "w = run worker_step w0 es"
    and "wk_stop w" "\<not> exec_open w"
  shows "pc_moves w later \<le> 21 \<and>
    (\<exists>more. length more \<le> 42 \<and> wk_pc (run worker_step w (later @ more)) = Stopped)"
proof -
  have inv: "worker_inv w" "ack_inv w"
    using protocol.run_inv mk_worker_inv [OF assms(1)] acks.run_inv mk_worker_ack_inv [OF assms(1)] assms(2) by simp_all
  let ?v = "run worker_step w later"
  have "worker_inv ?v" "ack_inv ?v" using protocol.run_inv acks.run_inv inv by simp_all
  with reaches_stopped stopped_run [OF assms(3,4), of later] obtain more where
    "length more \<le> 2 * rank (wk_pc ?v)" "wk_pc (run worker_step ?v more) = Stopped" by blast
  then have "\<exists>more. length more \<le> 42 \<and> wk_pc (run worker_step w (later @ more)) = Stopped"
    using rank_bound [of "wk_pc ?v"] by (intro exI [of _ more]) (simp add: run_append)
  moreover have "pc_moves w later \<le> 21"
    using pc_moves_bound [OF assms(3,4), of later] rank_bound [of "wk_pc w"] by simp
  ultimately show ?thesis by simp
qed

theorem stop_comes_to_an_end_witness:
  "pc_moves (run worker_step ex_made (ex_enrol @ [Ev_Request_Stop])) [Ev_Lock 13, Ev_Closed, Ev_Lock 14] \<le> 21 \<and>
   (\<exists>more. length more \<le> 42 \<and> wk_pc (run worker_step (run worker_step ex_made (ex_enrol @ [Ev_Request_Stop]))
      ([Ev_Lock 13, Ev_Closed, Ev_Lock 14] @ more)) = Stopped)"
proof -
  have "wk_stop (run worker_step ex_made (ex_enrol @ [Ev_Request_Stop]))"
    "\<not> exec_open (run worker_step ex_made (ex_enrol @ [Ev_Request_Stop]))"
    unfolding run_snoc ex_enrol_run
    by (simp_all add: request_stop_def request_drain_def ex_enrolled_def exec_open_def)
  from stop_comes_to_an_end [OF ex_worker_made refl this] show ?thesis by blast
qed

end
