(* ===== verification/Gpu_Mapping.thy ===== *)
theory Gpu_Mapping
  imports Serde Runtime_Contracts
begin

text \<open>
  \<open>src/src/astrumweaver/gpu_mapping.py\<close>: which device node belongs to which GPU UUID, and the proof
  that a worker can open its own GPUs and no other; with the GPU checks of
  \<open>src/src/astrumweaver/worker/runtime.py\<close> that use it. The host is a record of what the code asks it:
  the answer of the NVIDIA command, the text of the files (\<open>None\<close> when unreadable), \<open>stat\<close> and \<open>open\<close> of
  a device node by its name below the device root. The main theorem says what a successful check has
  established about the host.
\<close>

section \<open>Host and errors\<close>

datatype gpu_error = Mapping_Error string | Isolation_Unavailable | Gpu_Exc py_exc

record completed_process =
  cp_returncode :: int
  cp_stdout :: string
  cp_stderr :: string

text \<open>
  \<open>gh_information_files\<close> are the texts of \<open>proc_root/*/information\<close> in path order; \<open>gh_device_stat\<close>
  says whether a node is a character device, with its major and minor; \<open>gh_open_device\<close> is the
  \<open>errno\<close> of opening a node, \<open>None\<close> when it opens.
\<close>

record gpu_host =
  gh_run :: "string list \<Rightarrow> completed_process option"
  gh_information_files :: "string option list"
  gh_proc_devices :: "string option"
  gh_device_stat :: "string \<Rightarrow> (bool \<times> int \<times> int) option"
  gh_open_device :: "string \<Rightarrow> int option"
  gh_read_text :: "string \<Rightarrow> string option"
  gh_load_toml :: "string \<Rightarrow> obj option"
  gh_cuda_visible_devices :: "string option"

section \<open>Text\<close>

text \<open>The regular expressions, all used with \<open>fullmatch\<close>.\<close>

definition gpu_uuid_re :: "string \<Rightarrow> bool" where
  "gpu_uuid_re s \<longleftrightarrow> take 4 s = ''GPU-'' \<and> drop 4 s \<noteq> [] \<and>
     list_all (\<lambda>c. \<not> is_space c \<and> c \<noteq> CHR '','' \<and> c \<noteq> CHR ''='') (drop 4 s)"

definition minor_re :: "string \<Rightarrow> bool" where
  "minor_re s \<longleftrightarrow> s \<noteq> [] \<and> list_all is_digit s"

definition device_path_re :: "string \<Rightarrow> bool" where
  "device_path_re s \<longleftrightarrow> take 11 s = ''/dev/nvidia'' \<and> minor_re (drop 11 s)"

text \<open>\<open>needle in text\<close>, \<open>casefold\<close> (sharp s becomes two letters) and \<open>sep.join(parts)\<close>.\<close>

fun py_in :: "string \<Rightarrow> string \<Rightarrow> bool" where
  "py_in needle [] = (needle = [])"
| "py_in needle (c # s) = (take (length needle) (c # s) = needle \<or> py_in needle s)"

definition py_casefold :: "string \<Rightarrow> string" where
  "py_casefold s = concat (map (\<lambda>c. if of_char c = (223::nat) then ''ss'' else [py_lower_char c]) s)"

fun py_join :: "string \<Rightarrow> string list \<Rightarrow> string" where
  "py_join sep [] = []"
| "py_join sep [s] = s"
| "py_join sep (s # t # rest) = s @ sep @ py_join sep (t # rest)"

text \<open>\<open>s.split(None, 1)\<close> for a stripped text.\<close>

definition split_once :: "string \<Rightarrow> string list" where
  "split_once s = (let w = takeWhile (\<lambda>c. \<not> is_space c) s;
     rest = dropWhile is_space (dropWhile (\<lambda>c. \<not> is_space c) s)
     in if s = [] then [] else if rest = [] then [w] else [w, rest])"

definition validate_uuid :: "string \<Rightarrow> gpu_error + string" where
  "validate_uuid value = (let normalized = py_strip value in
     if gpu_uuid_re normalized then Inr normalized else Inl (Mapping_Error ''GPU UUID data is invalid''))"

section \<open>The NVIDIA command\<close>

definition run_nvidia_query ::
  "string \<Rightarrow> string \<Rightarrow> (string list \<Rightarrow> completed_process option) \<Rightarrow> gpu_error + completed_process" where
  "run_nvidia_query command query runner =
     (case runner [command, ''--query-gpu='' @ query,
        (if query = ''uuid,minor_number'' then ''--format=csv,noheader,nounits'' else ''--format=csv,noheader'')] of
        None \<Rightarrow> Inl (Mapping_Error ''NVIDIA visibility command is unavailable'')
      | Some completed \<Rightarrow> Inr completed)"

definition parse_visible_uuids :: "string \<Rightarrow> gpu_error + string list" where
  "parse_visible_uuids output =
     rbind (rmap validate_uuid (filter (\<lambda>s. s \<noteq> []) (map py_strip (py_splitlines output)))) (\<lambda>values.
       if values = [] then Inl (Mapping_Error ''no visible NVIDIA GPU UUIDs were reported'')
       else if \<not> distinct values then Inl (Mapping_Error ''visible NVIDIA GPU UUIDs are not unique'')
       else Inr (sort values))"

definition query_visible_uuids ::
  "string \<Rightarrow> (string list \<Rightarrow> completed_process option) \<Rightarrow> gpu_error + string list" where
  "query_visible_uuids command runner =
     rbind (run_nvidia_query command ''uuid'' runner) (\<lambda>completed.
       if cp_returncode completed \<noteq> 0 then Inl (Mapping_Error ''NVIDIA GPU UUID visibility query failed'')
       else parse_visible_uuids (cp_stdout completed))"

fun uuid_minor_loop :: "string list \<Rightarrow> (string, int) dict \<Rightarrow> gpu_error + (string, int) dict" where
  "uuid_minor_loop [] rows = Inr rows"
| "uuid_minor_loop (line # lines) rows =
     (if py_strip line = [] then uuid_minor_loop lines rows
      else case map py_strip (py_split (CHR '','') line) of
        [u, n] \<Rightarrow> rbind (validate_uuid u) (\<lambda>uuid.
          if \<not> minor_re n then Inl (Mapping_Error ''NVIDIA GPU minor data is malformed'')
          else if dict_get rows uuid \<noteq> None
          then Inl (Mapping_Error ''NVIDIA GPU UUID/minor data is ambiguous'')
          else uuid_minor_loop lines (dict_set uuid (int (read_nat n)) rows))
      | _ \<Rightarrow> Inl (Mapping_Error ''NVIDIA GPU UUID/minor data is malformed''))"

definition parse_uuid_minor_rows :: "string \<Rightarrow> gpu_error + (string, int) dict" where
  "parse_uuid_minor_rows output = rbind (uuid_minor_loop (py_splitlines output) []) (\<lambda>rows.
     if rows = [] then Inl (Mapping_Error ''NVIDIA GPU UUID/minor data is empty'') else Inr rows)"

definition stdout_contains_gpu_data :: "string \<Rightarrow> bool" where
  "stdout_contains_gpu_data output = list_ex (\<lambda>raw. let line = py_strip raw in
     line \<noteq> [] \<and> gpu_uuid_re (py_strip (fst (py_partition (CHR '','') line)))) (py_splitlines output)"

definition runtime_failure_markers :: "string list" where
  "runtime_failure_markers = [''failed to initialize nvml'', ''driver/library version mismatch'',
     ''couldn'' @ [CHR 0x27] @ ''t communicate with the nvidia driver'',
     ''could not communicate with the nvidia driver'', ''failed to communicate with the nvidia driver'',
     ''permission denied'', ''not permitted'', ''insufficient permission'']"

definition minor_query_is_explicitly_unsupported :: "completed_process \<Rightarrow> bool" where
  "minor_query_is_explicitly_unsupported completed =
     (let diagnostic = py_casefold (py_join [CHR 0x0A]
            (filter (\<lambda>s. s \<noteq> []) [cp_stdout completed, cp_stderr completed]))
      in cp_returncode completed \<noteq> 0 \<and> \<not> stdout_contains_gpu_data (cp_stdout completed) \<and>
         py_strip diagnostic \<noteq> [] \<and> \<not> list_ex (\<lambda>m. py_in m diagnostic) runtime_failure_markers \<and>
         (py_in ''minor_number'' diagnostic \<or> py_in ''minor number'' diagnostic) \<and>
         (py_in ''not a valid field to query'' diagnostic \<or>
          py_in ''field'' diagnostic \<and>
          list_ex (\<lambda>m. py_in m diagnostic)
            [''unknown'', ''unsupported'', ''not supported'', ''unrecognized'', ''not recognized'']))"

definition query_primary_mapping ::
  "string \<Rightarrow> (string list \<Rightarrow> completed_process option) \<Rightarrow> gpu_error + (string, int) dict option" where
  "query_primary_mapping command runner =
     rbind (run_nvidia_query command ''uuid,minor_number'' runner) (\<lambda>completed.
       if cp_returncode completed \<noteq> 0
       then if minor_query_is_explicitly_unsupported completed then Inr None
            else Inl (Mapping_Error ''NVIDIA GPU UUID/minor query failed'')
       else rbind (parse_uuid_minor_rows (cp_stdout completed)) (\<lambda>rows. Inr (Some rows)))"

section \<open>The kernel's files\<close>

text \<open>A minor as it was found: a number, a text, or nothing unambiguous.\<close>

datatype raw_minor = RM_Int int | RM_Str string | RM_None

text \<open>The UUID and minor fields of one information file.\<close>

fun info_fields :: "string list \<Rightarrow> string list \<times> string list" where
  "info_fields [] = ([], [])"
| "info_fields (line # lines) = (case info_fields lines of (uuids, minors) \<Rightarrow>
     case py_partition (CHR '':'') line of (key, separator, raw) \<Rightarrow>
       if \<not> separator then (uuids, minors)
       else if py_strip key = ''GPU UUID'' then (py_strip raw # uuids, minors)
       else if py_strip key = ''Device Minor'' then (uuids, py_strip raw # minors)
       else (uuids, minors))"

fun proc_rows_loop :: "string option list \<Rightarrow> (string, raw_minor list) dict \<Rightarrow> (string, raw_minor list) dict" where
  "proc_rows_loop [] rows = rows"
| "proc_rows_loop (None # files) rows = proc_rows_loop files rows"
| "proc_rows_loop (Some text # files) rows = (case info_fields (py_splitlines text) of (uuids, minors) \<Rightarrow>
     case uuids of
       [] \<Rightarrow> proc_rows_loop files rows
     | uuid # others \<Rightarrow>
         proc_rows_loop files (dict_set uuid
           ((case dict_get rows uuid of None \<Rightarrow> [] | Some vs \<Rightarrow> vs) @
            [if others = [] \<and> length minors = 1 then RM_Str (hd minors) else RM_None]) rows))"

definition proc_mapping_rows :: "string option list \<Rightarrow> gpu_error + (string, raw_minor list) dict" where
  "proc_mapping_rows files =
     (if files = [] then Inl (Mapping_Error ''NVIDIA GPU information entries are unavailable'')
      else Inr (proc_rows_loop files []))"

fun major_loop :: "string list \<Rightarrow> bool \<Rightarrow> int list \<Rightarrow> gpu_error + int list" where
  "major_loop [] inside majors = Inr majors"
| "major_loop (line # lines) inside majors = (let stripped = py_strip line in
     if stripped = ''Character devices:'' then major_loop lines True majors
     else if stripped = ''Block devices:'' then Inr majors
     else if \<not> inside then major_loop lines inside majors
     else case split_once stripped of
       [a, b] \<Rightarrow>
         if b \<notin> {''nvidia-frontend'', ''nvidia''} then major_loop lines inside majors
         else (case parse_int a of
           None \<Rightarrow> Inl (Mapping_Error ''NVIDIA character device registry is malformed'')
         | Some n \<Rightarrow> major_loop lines inside (List.insert n majors))
     | _ \<Rightarrow> major_loop lines inside majors)"

definition nvidia_character_device_major :: "string option \<Rightarrow> gpu_error + int" where
  "nvidia_character_device_major proc_devices = (case proc_devices of
     None \<Rightarrow> Inl (Mapping_Error ''NVIDIA character device registry is unavailable'')
   | Some text \<Rightarrow> rbind (major_loop (py_splitlines text) False []) (\<lambda>majors.
       case majors of [n] \<Rightarrow> Inr n
       | _ \<Rightarrow> Inl (Mapping_Error ''NVIDIA character device major is unavailable or ambiguous'')))"

section \<open>The mapping\<close>

definition minor_of :: "raw_minor \<Rightarrow> gpu_error + int" where
  "minor_of raw = rbind (case raw of
       RM_Int n \<Rightarrow> Inr n
     | RM_Str s \<Rightarrow> if minor_re s then Inr (int (read_nat s))
         else Inl (Mapping_Error ''a visible GPU has an invalid device minor'')
     | RM_None \<Rightarrow> Inl (Mapping_Error ''a visible GPU has an invalid device minor'')) (\<lambda>n.
     if n < 0 then Inl (Mapping_Error ''a visible GPU has an invalid device minor'') else Inr n)"

definition node_name :: "int \<Rightarrow> string" where
  "node_name minor = ''nvidia'' @ show_nat (nat minor)"

definition device_path_of :: "int \<Rightarrow> string" where
  "device_path_of minor = ''/dev/nvidia'' @ show_nat (nat minor)"

definition check_node :: "(bool \<times> int \<times> int) option \<Rightarrow> int \<Rightarrow> int \<Rightarrow> gpu_error + unit" where
  "check_node node nvidia_major minor = (case node of
     None \<Rightarrow> Inl (Mapping_Error ''a visible GPU device node is unavailable'')
   | Some (char_device, major, n) \<Rightarrow>
       if \<not> char_device then Inl (Mapping_Error ''a visible GPU device node is not a character device'')
       else if major \<noteq> nvidia_major \<or> n \<noteq> minor
       then Inl (Mapping_Error ''a visible GPU device node does not match the NVIDIA major/minor'')
       else Inr ())"

fun validate_mapping_loop ::
  "(string, raw_minor list) dict \<Rightarrow> int \<Rightarrow> (string \<Rightarrow> (bool \<times> int \<times> int) option) \<Rightarrow> string list
    \<Rightarrow> (string, string) dict \<Rightarrow> gpu_error + (string, string) dict" where
  "validate_mapping_loop rows nvidia_major device_stat [] mapping = Inr mapping"
| "validate_mapping_loop rows nvidia_major device_stat (uuid # uuids) mapping =
     (case dict_get rows uuid of
        Some [raw] \<Rightarrow> rbind (minor_of raw) (\<lambda>minor.
          if \<not> device_path_re (device_path_of minor)
          then Inl (Mapping_Error ''a visible GPU resolved to an invalid device path'')
          else rbind (check_node (device_stat (node_name minor)) nvidia_major minor) (\<lambda>_.
            if device_path_of minor \<in> set (dict_values mapping)
            then Inl (Mapping_Error ''visible GPUs reuse one device minor'')
            else validate_mapping_loop rows nvidia_major device_stat uuids
              (dict_set uuid (device_path_of minor) mapping)))
      | _ \<Rightarrow> Inl (Mapping_Error ''a visible GPU lacks exactly one device mapping''))"

definition validate_mapping ::
  "string list \<Rightarrow> (string, raw_minor list) dict \<Rightarrow> int \<Rightarrow> (string \<Rightarrow> (bool \<times> int \<times> int) option)
    \<Rightarrow> gpu_error + (string \<times> string) list" where
  "validate_mapping visible rows nvidia_major device_stat =
     rbind (validate_mapping_loop rows nvidia_major device_stat visible []) (\<lambda>mapping. Inr (sort mapping))"

definition discover_gpu_mapping :: "gpu_host \<Rightarrow> string \<Rightarrow> gpu_error + (string \<times> string) list" where
  "discover_gpu_mapping h nvidia_smi =
     rbind (query_visible_uuids nvidia_smi (gh_run h)) (\<lambda>visible.
     rbind (query_primary_mapping nvidia_smi (gh_run h)) (\<lambda>primary.
     rbind (case primary of
              None \<Rightarrow> proc_mapping_rows (gh_information_files h)
            | Some rows \<Rightarrow> Inr (map (\<lambda>(uuid, minor). (uuid, [RM_Int minor])) rows)) (\<lambda>rows.
     rbind (nvidia_character_device_major (gh_proc_devices h)) (\<lambda>nvidia_major.
     validate_mapping visible rows nvidia_major (gh_device_stat h)))))"

section \<open>Selections and reviewed maps\<close>

definition load_expected :: "string option \<Rightarrow> gpu_error + string list" where
  "load_expected file = (case file of
     None \<Rightarrow> Inl (Mapping_Error ''expected GPU UUID file is unavailable'')
   | Some text \<Rightarrow> rbind (rmap validate_uuid (filter (\<lambda>l. py_strip l \<noteq> []) (py_splitlines text))) (\<lambda>values.
       if values = [] then Inl (Mapping_Error ''expected GPU UUID set is empty'')
       else if \<not> distinct values then Inl (Mapping_Error ''expected GPU UUID set is not unique'')
       else Inr (sort values)))"

definition lift_gpu :: "'a res \<Rightarrow> gpu_error + 'a" where
  "lift_gpu r = (case r of Inl e \<Rightarrow> Inl (Gpu_Exc e) | Inr x \<Rightarrow> Inr x)"

definition load_worker_gpu_order :: "obj option \<Rightarrow> gpu_error + string list" where
  "load_worker_gpu_order file = (case file of
     None \<Rightarrow> Inl (Mapping_Error ''Worker GPU configuration is unavailable'')
   | Some config \<Rightarrow>
       rbind (lift_gpu (as_mapping (json_get config ''worker''))) (\<lambda>worker.
       case dict_get worker ''gpu_uuids'' of
         Some (JList raw) \<Rightarrow>
           rbind (rmap (\<lambda>v. rbind (lift_gpu (py_str v)) validate_uuid) raw) (\<lambda>values.
             if values = [] then Inl (Mapping_Error ''Worker GPU UUID order is empty'')
             else if \<not> distinct values then Inl (Mapping_Error ''Worker GPU UUID order is not unique'')
             else Inr values)
       | _ \<Rightarrow> Inl (Mapping_Error ''Worker GPU UUID order is invalid'')))"

fun select_loop :: "(string \<times> string) list \<Rightarrow> string list \<Rightarrow> (string, string) dict \<Rightarrow> gpu_error + (string, string) dict" where
  "select_loop mapping [] selected = Inr selected"
| "select_loop mapping (uuid # uuids) selected = (case dict_get (rev mapping) uuid of
     None \<Rightarrow> Inl (Mapping_Error ''a configured GPU UUID is not visible'')
   | Some path \<Rightarrow> select_loop mapping uuids (dict_set uuid path selected))"

definition select_mapping :: "(string \<times> string) list \<Rightarrow> string list \<Rightarrow> gpu_error + (string \<times> string) list" where
  "select_mapping mapping expected = rbind (select_loop mapping expected []) (\<lambda>selected. Inr (sort selected))"

fun reviewed_loop :: "string list \<Rightarrow> (string, string) dict \<Rightarrow> gpu_error + (string, string) dict" where
  "reviewed_loop [] mapping = Inr mapping"
| "reviewed_loop (line # lines) mapping =
     (if py_strip line = [] \<or> CHR ''='' \<notin> set line
      then Inl (Mapping_Error ''reviewed GPU device map is malformed'')
      else case py_partition (CHR ''='') line of (raw, _, rest) \<Rightarrow>
        rbind (validate_uuid (py_strip raw)) (\<lambda>uuid.
          if \<not> device_path_re (py_strip rest) then Inl (Mapping_Error ''reviewed GPU device map is malformed'')
          else if dict_get mapping uuid \<noteq> None then Inl (Mapping_Error ''reviewed GPU device map is ambiguous'')
          else reviewed_loop lines (dict_set uuid (py_strip rest) mapping)))"

definition load_reviewed_gpu_map :: "string option \<Rightarrow> gpu_error + (string \<times> string) list" where
  "load_reviewed_gpu_map file = (case file of
     None \<Rightarrow> Inl (Mapping_Error ''reviewed GPU device map is unavailable'')
   | Some text \<Rightarrow> rbind (reviewed_loop (py_splitlines text) []) (\<lambda>mapping.
       if mapping = [] then Inl (Mapping_Error ''reviewed GPU device map is empty'') else Inr (sort mapping)))"

section \<open>Isolated access\<close>

text \<open>\<open>Path(p).name\<close>, the name looked up below the device root.\<close>

definition path_name :: "string \<Rightarrow> string" where
  "path_name p = (case rev (filter (\<lambda>s. s \<noteq> [] \<and> s \<noteq> ''.'') (py_split (CHR ''/'') p)) of [] \<Rightarrow> [] | s # _ \<Rightarrow> s)"

text \<open>\<open>sorted(set(xs))\<close>\<close>

abbreviation sorted_set :: "string list \<Rightarrow> string list" where
  "sorted_set xs \<equiv> sort (remdups xs)"

fun open_selected :: "(string \<Rightarrow> int option) \<Rightarrow> string list \<Rightarrow> gpu_error + unit" where
  "open_selected open_device [] = Inr ()"
| "open_selected open_device (path # paths) = (case open_device (path_name path) of
     Some _ \<Rightarrow> Inl (Mapping_Error ''selected GPU device access is unavailable'')
   | None \<Rightarrow> open_selected open_device paths)"

text \<open>\<open>EPERM\<close> is 1 and \<open>EACCES\<close> is 13.\<close>

definition denied_errnos :: "int set" where
  "denied_errnos = {13, 1}"

fun deny_others :: "(string \<Rightarrow> int option) \<Rightarrow> string list \<Rightarrow> gpu_error + unit" where
  "deny_others open_device [] = Inr ()"
| "deny_others open_device (path # paths) = (case open_device (path_name path) of
     Some n \<Rightarrow> if n \<in> denied_errnos then deny_others open_device paths
       else Inl (Mapping_Error ''unselected GPU device access probe failed ambiguously'')
   | None \<Rightarrow> Inl Isolation_Unavailable)"

definition verify_isolated_gpu_access ::
  "(string \<Rightarrow> int option) \<Rightarrow> (string \<times> string) list \<Rightarrow> string list \<Rightarrow> (string \<times> string) list \<Rightarrow> string list
    \<Rightarrow> string option \<Rightarrow> gpu_error + unit" where
  "verify_isolated_gpu_access open_device mapping expected reviewed worker_gpu_order cuda =
     rbind (select_mapping mapping expected) (\<lambda>selected.
       if selected \<noteq> sort reviewed then Inl (Mapping_Error ''reviewed GPU device map changed'')
       else rbind (rmap validate_uuid worker_gpu_order) (\<lambda>ordered.
         if \<not> distinct ordered then Inl (Mapping_Error ''Worker GPU UUID order is not unique'')
         else if sort ordered \<noteq> sort expected
         then Inl (Mapping_Error ''Worker GPU UUID order does not match selected set'')
         else if cuda \<noteq> Some (py_join '','' ordered)
         then Inl (Mapping_Error ''CUDA visible-device order does not match Worker GPU order'')
         else rbind (open_selected open_device (sorted_set (map snd selected))) (\<lambda>_.
           deny_others open_device
             (sorted_set (filter (\<lambda>p. p \<notin> set (map snd selected)) (map snd mapping))))))"

section \<open>The worker's checks\<close>

text \<open>\<open>discover_nvidia_gpu_uuids\<close> and \<open>require_exact_gpu_set\<close> of the worker; the errors are \<open>RuntimeError\<close>s.\<close>

definition discover_nvidia_gpu_uuids ::
  "(string list \<Rightarrow> completed_process option) \<Rightarrow> string \<Rightarrow> gpu_error + string list" where
  "discover_nvidia_gpu_uuids runner command =
     (case runner [command, ''--query-gpu=uuid'', ''--format=csv,noheader''] of
        None \<Rightarrow> Inl (Gpu_Exc (RuntimeError (Malformed ''nvidia-smi preflight'')))
      | Some completed \<Rightarrow>
          if cp_returncode completed \<noteq> 0 then Inl (Gpu_Exc (RuntimeError (Malformed ''nvidia-smi preflight'')))
          else let uuids = sort (filter (\<lambda>s. s \<noteq> []) (map py_strip (py_splitlines (cp_stdout completed)))) in
            if uuids = [] then Inl (Gpu_Exc (RuntimeError (Required ''NVIDIA GPUs'')))
            else if \<not> distinct uuids then Inl (Gpu_Exc (RuntimeError (Contains_duplicates ''observed GPU UUIDs'')))
            else Inr uuids)"

definition require_exact_gpu_set ::
  "(string list \<Rightarrow> completed_process option) \<Rightarrow> string list \<Rightarrow> string \<Rightarrow> gpu_error + unit" where
  "require_exact_gpu_set runner expected command =
     (if expected = [] then Inr ()
      else if \<not> distinct expected then Inl (Gpu_Exc (RuntimeError (Contains_duplicates ''configured GPU UUIDs'')))
      else rbind (discover_nvidia_gpu_uuids runner command) (\<lambda>observed.
        if observed \<noteq> sort expected then Inl (Gpu_Exc (RuntimeError (Inconsistent ''GPU UUID set''))) else Inr ()))"

definition require_isolated_gpu_access ::
  "gpu_host \<Rightarrow> string list \<Rightarrow> string \<Rightarrow> string \<Rightarrow> string option \<Rightarrow> gpu_error + unit" where
  "require_isolated_gpu_access h expected reviewed_map_path command cuda =
     (if expected = [] then Inr ()
      else if take 1 reviewed_map_path \<noteq> ''/''
      then Inl (Gpu_Exc (RuntimeError (Malformed ''isolated GPU device map path'')))
      else rbind (discover_gpu_mapping h command) (\<lambda>mapping.
        rbind (load_reviewed_gpu_map (gh_read_text h reviewed_map_path)) (\<lambda>reviewed.
          verify_isolated_gpu_access (gh_open_device h) mapping expected reviewed expected cuda)))"

section \<open>The command\<close>

datatype gpu_mode = Discover | Discover_Visible | Verify_Map | Verify_Isolated_Access

definition map_lines :: "(string \<times> string) list \<Rightarrow> string list" where
  "map_lines mapping = map (\<lambda>(uuid, path). uuid @ ''='' @ path) mapping"

text \<open>What is printed to standard output; the summary lines are their counts.\<close>

datatype gpu_output = Map_Lines "string list" | Verified nat | Isolated nat nat

definition gpu_main_body :: "gpu_host \<Rightarrow> string \<Rightarrow> gpu_mode \<Rightarrow> string list \<Rightarrow> gpu_error + gpu_output" where
  "gpu_main_body h nvidia_smi mode paths =
     rbind (discover_gpu_mapping h nvidia_smi) (\<lambda>mapping.
       if mode = Discover_Visible
       then if paths \<noteq> [] then Inl (Mapping_Error ''discover-visible arguments are invalid'')
            else Inr (Map_Lines (map_lines mapping))
       else if mode = Discover \<and> length paths \<noteq> 1 then Inl (Mapping_Error ''discover arguments are invalid'')
       else if mode = Verify_Map \<and> length paths \<noteq> 2 then Inl (Mapping_Error ''mapping arguments are invalid'')
       else if mode = Verify_Isolated_Access \<and> length paths \<noteq> 3
       then Inl (Mapping_Error ''isolated-access arguments are invalid'')
       else rbind (load_expected (gh_read_text h (paths ! 0))) (\<lambda>expected.
         rbind (select_mapping mapping expected) (\<lambda>selected.
         if mode = Verify_Map
         then rbind (load_reviewed_gpu_map (gh_read_text h (paths ! 1))) (\<lambda>reviewed.
           if selected \<noteq> reviewed then Inl (Mapping_Error ''reviewed GPU device map changed'')
           else Inr (Verified (length selected)))
         else if mode = Verify_Isolated_Access
         then rbind (load_worker_gpu_order (gh_load_toml h (paths ! 2))) (\<lambda>order.
           rbind (load_reviewed_gpu_map (gh_read_text h (paths ! 1))) (\<lambda>reviewed.
           rbind (verify_isolated_gpu_access (gh_open_device h) mapping expected reviewed order
             (gh_cuda_visible_devices h)) (\<lambda>_.
           Inr (Isolated (length selected) (length mapping)))))
         else Inr (Map_Lines (map_lines selected)))))"

text \<open>The exit status; another exception ends the process with status 1.\<close>

definition gpu_main :: "gpu_host \<Rightarrow> string \<Rightarrow> gpu_mode \<Rightarrow> string list \<Rightarrow> int \<times> gpu_output option" where
  "gpu_main h nvidia_smi mode paths = (case gpu_main_body h nvidia_smi mode paths of
     Inr out \<Rightarrow> (0, Some out)
   | Inl Isolation_Unavailable \<Rightarrow> (3, None)
   | Inl _ \<Rightarrow> (1, None))"

section \<open>What the steps establish\<close>

lemma validate_uuid_Inr: "validate_uuid s = Inr u \<longleftrightarrow> u = py_strip s \<and> gpu_uuid_re u"
  by (auto simp: validate_uuid_def Let_def)

lemma list_all2_map: "list_all2 (\<lambda>x y. y = f x \<and> P y) xs ys \<longleftrightarrow> ys = map f xs \<and> list_all P ys"
  by (induction xs ys rule: list_induct2') auto

lemma rmap_validate: "rmap validate_uuid xs = Inr ys \<longleftrightarrow> ys = map py_strip xs \<and> list_all gpu_uuid_re ys"
  by (simp add: rmap_Inr validate_uuid_Inr list_all2_map)

lemma uuid_not_space: "gpu_uuid_re u \<Longrightarrow> list_all (\<lambda>c. \<not> is_space c) u"
proof -
  assume u: "gpu_uuid_re u"
  have "list_all (\<lambda>c. \<not> is_space c) (''GPU-'' @ drop 4 u)"
    using u by (simp add: gpu_uuid_re_def list_all_iff is_space_def Let_def)
  moreover have "''GPU-'' @ drop 4 u = u" using u append_take_drop_id [of 4 u] by (simp add: gpu_uuid_re_def)
  ultimately show ?thesis by (simp only:)
qed

lemma uuid_stripped: "gpu_uuid_re u \<Longrightarrow> py_strip u = u"
  by (rule py_strip_no_space [OF uuid_not_space])

lemma parse_visible_uuids_ok:
  "parse_visible_uuids out = Inr us \<Longrightarrow> distinct us \<and> sorted us \<and> us \<noteq> [] \<and> list_all gpu_uuid_re us"
proof -
  assume "parse_visible_uuids out = Inr us"
  then obtain vs where vs: "list_all gpu_uuid_re vs" "vs \<noteq> []" "distinct vs" "us = sort vs"
    by (auto simp: parse_visible_uuids_def rbind_eq_Inr rmap_validate simp del: filter_empty_conv split: if_splits)
  then have "us \<noteq> []" by (metis length_0_conv length_sort)
  with vs show ?thesis by (simp add: list_all_iff)
qed

text \<open>A mapping whose entries were all checked against the host.\<close>

definition entry_ok :: "int \<Rightarrow> (string \<Rightarrow> (bool \<times> int \<times> int) option) \<Rightarrow> string \<Rightarrow> bool" where
  "entry_ok major device_stat path \<longleftrightarrow> (\<exists>n. 0 \<le> n \<and> path = device_path_of n \<and>
     device_stat (node_name n) = Some (True, major, n))"

lemma check_node_ok: "check_node node major n = Inr u \<longleftrightarrow> node = Some (True, major, n)"
  by (auto simp: check_node_def split: option.splits)

lemma minor_of_nonneg: "minor_of raw = Inr n \<Longrightarrow> 0 \<le> n"
  by (auto simp: minor_of_def rbind_eq_Inr split: if_splits)

lemma dict_set_new: "dict_get d k = None \<Longrightarrow> dict_set k v d = d @ [(k, v)]"
  by (induction d) (auto split: if_splits)

lemma validate_loop_ok:
  assumes "validate_mapping_loop rows major ds us m = Inr m'"
    and "distinct (map fst m @ us)" "distinct (map snd m)" "list_all (entry_ok major ds) (map snd m)"
  shows "map fst m' = map fst m @ us \<and> distinct (map snd m') \<and> list_all (entry_ok major ds) (map snd m')"
  using assms
proof (induction us arbitrary: m)
  case Nil
  then show ?case by simp
next
  case (Cons u us)
  from Cons.prems(1) obtain raw n where n: "dict_get rows u = Some [raw]" "minor_of raw = Inr n"
    "ds (node_name n) = Some (True, major, n)" "device_path_of n \<notin> snd ` set m"
    and rest: "validate_mapping_loop rows major ds us (dict_set u (device_path_of n) m) = Inr m'"
    by (auto simp: rbind_eq_Inr check_node_ok split: option.splits list.splits if_splits)
  have "dict_get m u = None" using Cons.prems(2) by (auto simp: map_of_eq_None_iff)
  then have m: "dict_set u (device_path_of n) m = m @ [(u, device_path_of n)]" by (rule dict_set_new)
  have "entry_ok major ds (device_path_of n)" using n minor_of_nonneg by (auto simp: entry_ok_def)
  with Cons.IH [OF rest] Cons.prems(2-4) n(4) show ?case by (simp add: m)
qed

text \<open>What \<open>discover_gpu_mapping\<close> has established when it returns.\<close>

lemma discover_ok:
  assumes "discover_gpu_mapping h cmd = Inr mapping"
  shows "\<exists>visible major. query_visible_uuids cmd (gh_run h) = Inr visible \<and>
    nvidia_character_device_major (gh_proc_devices h) = Inr major \<and> map fst mapping = visible \<and>
    distinct visible \<and> list_all gpu_uuid_re visible \<and>
    distinct (map snd mapping) \<and> list_all (entry_ok major (gh_device_stat h)) (map snd mapping)"
proof -
  from assms obtain visible rows major m where v: "query_visible_uuids cmd (gh_run h) = Inr visible"
    and major: "nvidia_character_device_major (gh_proc_devices h) = Inr major"
    and m: "validate_mapping_loop rows major (gh_device_stat h) visible [] = Inr m" "mapping = sort m"
    by (auto simp: discover_gpu_mapping_def validate_mapping_def rbind_eq_Inr)
  from v have vis: "distinct visible" "sorted visible" "list_all gpu_uuid_re visible"
    by (auto simp: query_visible_uuids_def rbind_eq_Inr split: if_splits dest: parse_visible_uuids_ok)
  from validate_loop_ok [OF m(1)] vis have ok: "map fst m = visible" "distinct (map snd m)"
    "list_all (entry_ok major (gh_device_stat h)) (map snd m)" by simp_all
  have "sorted m"
  proof (rule sorted_wrt_mono_rel [of _ "\<lambda>x y. fst x \<le> fst y \<and> (fst x = fst y \<longrightarrow> x = y)"])
    show "sorted_wrt (\<lambda>x y. fst x \<le> fst y \<and> (fst x = fst y \<longrightarrow> x = y)) m"
      using vis(1,2) ok(1) by (auto simp: sorted_wrt_iff_nth_less distinct_conv_nth sorted_iff_nth_mono)
  qed (auto simp: less_eq_prod_def order_le_less)
  then have "mapping = m" using m(2) by (simp add: sorted_sort_id)
  with v major vis ok show ?thesis by blast
qed

section \<open>Selecting and reading back\<close>

lemma select_loop_ok:
  assumes "select_loop mapping us sel = Inr sel'" "dict_ok sel"
  shows "dict_ok sel' \<and> set us \<subseteq> dom (dict_get (rev mapping)) \<and>
    (\<forall>u. dict_get sel' u = (if u \<in> set us then dict_get (rev mapping) u else dict_get sel u))"
  using assms
proof (induction us arbitrary: sel)
  case (Cons u us)
  then obtain p where p: "dict_get (rev mapping) u = Some p" "select_loop mapping us (dict_set u p sel) = Inr sel'"
    by (auto split: option.splits)
  from Cons.IH [OF p(2)] Cons.prems(2) p(1) show ?case by (auto simp: dict_get_set)
qed simp

lemma rev_dict: "dict_ok d \<Longrightarrow> dict_get (rev d) = dict_get d"
  by (simp add: map_of_inject_set flip: rev_map)

lemma select_ok:
  assumes "select_mapping mapping expected = Inr sel" "dict_ok mapping"
  shows "dict_ok sel \<and> sorted sel \<and> set expected \<subseteq> fst ` set mapping \<and>
    set sel = {(u, p) \<in> set mapping. u \<in> set expected}"
proof -
  from assms(1) obtain d where d: "select_loop mapping expected [] = Inr d" "sel = sort d"
    by (auto simp: select_mapping_def rbind_eq_Inr)
  from select_loop_ok [OF d(1)] rev_dict [OF assms(2)] have ok: "dict_ok d"
    "set expected \<subseteq> dom (dict_get mapping)"
    "\<And>u. dict_get d u = (if u \<in> set expected then dict_get mapping u else None)" by auto
  have "x \<in> set d \<longleftrightarrow> x \<in> set mapping \<and> fst x \<in> set expected" for x
    using ok(3) [of "fst x"] map_of_eq_Some_iff [OF ok(1), of "fst x" "snd x"]
      map_of_eq_Some_iff [OF assms(2), of "fst x" "snd x"] by (auto split: if_splits)
  moreover have "dict_ok (sort d)" using ok(1) by (simp add: distinct_map)
  ultimately show ?thesis using d(2) ok(2) by (auto simp: dom_map_of_conv_image_fst split: prod.splits)
qed

lemma open_selected_ok: "open_selected opn ps = Inr u \<longleftrightarrow> (\<forall>p \<in> set ps. opn (path_name p) = None)"
  by (induction ps) (auto split: option.splits)

lemma deny_others_ok: "deny_others opn ps = Inr u \<longleftrightarrow> (\<forall>p \<in> set ps. \<exists>n \<in> denied_errnos. opn (path_name p) = Some n)"
  by (induction ps) (auto split: option.splits)

lemma show_nat_no: "\<not> is_digit c \<Longrightarrow> c \<notin> set (show_nat n)"
  using show_nat_digits [of n] by (auto simp: list_all_iff)

lemma path_name_device: "path_name (device_path_of n) = node_name n"
proof -
  have "CHR ''/'' \<notin> set (show_nat k)" for k by (rule show_nat_no) (simp add: is_digit_def)
  then have "py_split (CHR ''/'') (''/dev/'' @ ''nvidia'' @ show_nat (nat n)) = [[], ''dev'', node_name n]"
    using py_split_no_sep [of "CHR ''/''" "node_name n"] by (simp add: node_name_def)
  then show ?thesis by (simp add: path_name_def device_path_of_def node_name_def)
qed

lemma device_path_inj: "0 \<le> n \<Longrightarrow> 0 \<le> k \<Longrightarrow> device_path_of n = device_path_of k \<Longrightarrow> n = k"
proof -
  assume "0 \<le> n" "0 \<le> k" "device_path_of n = device_path_of k"
  then have "show_nat (nat n) = show_nat (nat k)" by (simp add: device_path_of_def)
  then have "nat n = nat k" by (metis read_show_nat)
  with \<open>0 \<le> n\<close> \<open>0 \<le> k\<close> show ?thesis by simp
qed

lemma device_path_ok: "device_path_re (device_path_of n)"
  using show_nat_digits [of "nat n"] by (simp add: device_path_re_def device_path_of_def minor_re_def)

lemma device_path_not_space: "list_all (\<lambda>c. \<not> is_space c) (device_path_of n)"
  using show_nat_digits [of "nat n"]
  by (auto simp: device_path_of_def list_all_iff is_space_def is_digit_def Let_def)

text \<open>The printed lines of a mapping are read back as that mapping.\<close>

definition printable :: "(string \<times> string) \<Rightarrow> bool" where
  "printable e \<longleftrightarrow> gpu_uuid_re (fst e) \<and> (\<exists>n. snd e = device_path_of n)"

lemma uuid_no_equals: "gpu_uuid_re u \<Longrightarrow> CHR ''='' \<notin> set u"
proof
  assume u: "gpu_uuid_re u" "CHR ''='' \<in> set u"
  then have "CHR ''='' \<in> set (take 4 u @ drop 4 u)" by simp
  with u(1) show False by (auto simp: gpu_uuid_re_def list_all_iff)
qed

lemma reviewed_line:
  assumes "printable (u, p)" "dict_get d u = None"
  shows "reviewed_loop ((u @ ''='' @ p) # lines) d = reviewed_loop lines (d @ [(u, p)])"
proof -
  from assms(1) obtain n where n: "gpu_uuid_re u" "p = device_path_of n" by (auto simp: printable_def)
  have part: "py_partition (CHR ''='') (u @ CHR ''='' # p) = (u, True, p)"
    using uuid_no_equals [OF n(1)] by (auto simp: py_partition_def takeWhile_append dropWhile_append)
  have strip: "py_strip p = p" unfolding n(2) by (rule py_strip_no_space [OF device_path_not_space])
  have "list_all (\<lambda>c. \<not> is_space c) (u @ CHR ''='' # p)"
    using uuid_not_space [OF n(1)] device_path_not_space [of n] n(2) by (simp add: is_space_def)
  then have "py_strip (u @ CHR ''='' # p) = u @ CHR ''='' # p" by (rule py_strip_no_space)
  with assms(2) part strip n device_path_ok show ?thesis
    by (simp add: validate_uuid_def uuid_stripped dict_set_new)
qed

lemma reviewed_lines:
  "list_all printable m \<Longrightarrow> dict_ok (d @ m) \<Longrightarrow> reviewed_loop (map_lines m) d = Inr (d @ m)"
proof (induction m arbitrary: d)
  case (Cons e m)
  obtain u p where e: "e = (u, p)" by fastforce
  have "dict_get d u = None" using Cons.prems(2) e by (auto simp: map_of_eq_None_iff)
  with Cons e reviewed_line [of u p d "map_lines m"] show ?case by (simp add: map_lines_def)
qed (simp add: map_lines_def)

lemma reviewed_roundtrip:
  assumes "list_all printable m" "dict_ok m" "m \<noteq> []" "sorted m"
  shows "load_reviewed_gpu_map (Some (concat (map (\<lambda>l. l @ [CHR 0x0A]) (map_lines m)))) = Inr m"
proof -
  have "\<not> is_line_end c" if e: "e \<in> set m" and c: "c \<in> set (fst e @ ''='' @ snd e)" for e c
  proof -
    from e assms(1) obtain n where n: "gpu_uuid_re (fst e)" "snd e = device_path_of n"
      by (auto simp: printable_def list_all_iff)
    have "\<not> is_space c"
      using c uuid_not_space [OF n(1)] device_path_not_space [of n] n(2)
      by (auto simp: list_all_iff) (simp add: is_space_def)
    then show ?thesis using line_end_space by blast
  qed
  then have "list_all (list_all (\<lambda>c. \<not> is_line_end c)) (map_lines m)"
    by (fastforce simp: map_lines_def list_all_iff)
  with reviewed_lines [OF assms(1), of "[]"] assms(2-4) show ?thesis
    by (simp add: load_reviewed_gpu_map_def py_splitlines_lines sorted_sort_id)
qed

section \<open>Properties\<close>

lemma discovered_printable:
  assumes "discover_gpu_mapping h cmd = Inr mapping"
  shows "list_all printable mapping" "dict_ok mapping"
proof -
  from discover_ok [OF assms] obtain major where ok: "dict_ok mapping" "list_all gpu_uuid_re (map fst mapping)"
    "list_all (entry_ok major (gh_device_stat h)) (map snd mapping)" by auto
  then show "dict_ok mapping" by simp
  from ok(2,3) show "list_all printable mapping"
    by (fastforce simp: list_all_iff printable_def entry_ok_def)
qed

text \<open>The node of a visible GPU is the one it claims to be, and opens exactly for the worker's own GPUs.\<close>

definition access_checked :: "gpu_host \<Rightarrow> int \<Rightarrow> string list \<Rightarrow> string \<times> string \<Rightarrow> bool" where
  "access_checked h major expected entry \<longleftrightarrow> (\<exists>n. 0 \<le> n \<and> snd entry = device_path_of n \<and>
     gh_device_stat h (node_name n) = Some (True, major, n) \<and>
     (if fst entry \<in> set expected then gh_open_device h (node_name n) = None
      else \<exists>e \<in> denied_errnos. gh_open_device h (node_name n) = Some e))"

text \<open>
  C27. What a successful isolation check of a worker has established about the host. Every visible GPU
  was resolved to a device node of its own, a character device with NVIDIA's major and the GPU's minor;
  all GPUs of the worker are visible; each of their nodes could be opened; the node of every other
  visible GPU was refused with EACCES or EPERM; and CUDA sees exactly the worker's GPUs in its order.
\<close>

theorem isolated_access_sound:
  assumes "require_isolated_gpu_access h expected path cmd cuda = Inr ()" "expected \<noteq> []"
  shows "\<exists>mapping major. discover_gpu_mapping h cmd = Inr mapping \<and>
    nvidia_character_device_major (gh_proc_devices h) = Inr major \<and>
    query_visible_uuids cmd (gh_run h) = Inr (map fst mapping) \<and>
    set expected \<subseteq> set (map fst mapping) \<and> distinct (map snd mapping) \<and>
    list_all (access_checked h major expected) mapping \<and>
    cuda = Some (py_join '','' expected) \<and> distinct expected"
proof -
  from assms obtain mapping reviewed where m: "discover_gpu_mapping h cmd = Inr mapping"
    and v: "verify_isolated_gpu_access (gh_open_device h) mapping expected reviewed expected cuda = Inr ()"
    by (auto simp: require_isolated_gpu_access_def rbind_eq_Inr split: if_splits)
  from discover_ok [OF m] obtain major where ok: "nvidia_character_device_major (gh_proc_devices h) = Inr major"
    "query_visible_uuids cmd (gh_run h) = Inr (map fst mapping)" "dict_ok mapping"
    "list_all gpu_uuid_re (map fst mapping)" "distinct (map snd mapping)"
    "list_all (entry_ok major (gh_device_stat h)) (map snd mapping)" by auto
  from v obtain sel ord where sel: "select_mapping mapping expected = Inr sel"
    and ord: "ord = map py_strip expected" "distinct ord" "sort ord = sort expected" "cuda = Some (py_join '','' ord)"
    and opens: "\<forall>p \<in> snd ` set sel. gh_open_device h (path_name p) = None"
    and denied: "\<forall>p \<in> snd ` set mapping - snd ` set sel. \<exists>e \<in> denied_errnos. gh_open_device h (path_name p) = Some e"
    by (auto simp: verify_isolated_gpu_access_def rbind_eq_Inr rmap_validate open_selected_ok deny_others_ok
        split: if_splits)
  note s = select_ok [OF sel ok(3)]
  then have sel_set: "set sel = {(u, p) \<in> set mapping. u \<in> set expected}" by simp
  have "list_all gpu_uuid_re expected" using s ok(4) by (fastforce simp: list_all_iff)
  then have "ord = expected" using ord(1) uuid_stripped by (simp add: list_all_iff map_idI)
  moreover have "access_checked h major expected (uuid, dev)" if e: "(uuid, dev) \<in> set mapping" for uuid dev
  proof -
    from e ok(6) obtain n where n: "0 \<le> n" "dev = device_path_of n" "gh_device_stat h (node_name n) = Some (True, major, n)"
      by (auto simp: list_all_iff entry_ok_def)
    have "inj_on snd (set mapping)" using ok(5) by (simp add: distinct_map)
    then have "a = uuid" if "(a, dev) \<in> set mapping" for a
      using inj_onD [of snd "set mapping" "(a, dev)" "(uuid, dev)"] that e by auto
    then have "dev \<notin> snd ` set sel" if "uuid \<notin> set expected" using that unfolding sel_set by auto
    moreover have "dev \<in> snd ` set mapping" using e by (rule rev_image_eqI) simp
    ultimately have "dev \<in> snd ` set mapping - snd ` set sel" if "uuid \<notin> set expected" using that by simp
    with denied n(2) path_name_device
    have no: "\<exists>e \<in> denied_errnos. gh_open_device h (node_name n) = Some e" if "uuid \<notin> set expected" using that by metis
    have "dev \<in> snd ` set sel" if "uuid \<in> set expected"
      using e that unfolding sel_set by (intro rev_image_eqI [of "(uuid, dev)"]) simp_all
    with opens n(2) path_name_device
    have "gh_open_device h (node_name n) = None" if "uuid \<in> set expected" using that by metis
    with no n show ?thesis unfolding access_checked_def by (intro exI [of _ n]) simp
  qed
  ultimately show ?thesis using m ok s ord(2,4)
    by (intro exI [of _ mapping] exI [of _ major]) (auto simp: list_all_iff)
qed

text \<open>
  A discovered map verifies. If the command prints the map of the expected GPUs and that output is
  stored as the reviewed map, then verifying against it on the same host succeeds and counts the same
  GPUs; the stored text is read as exactly the printed entries.
\<close>

theorem discovered_map_verifies:
  assumes "gpu_main h cmd Discover [f] = (0, Some (Map_Lines ls))"
    and "gh_read_text h g = Some (concat (map (\<lambda>l. l @ [CHR 0x0A]) ls))"
  shows "gpu_main h cmd Verify_Map [f, g] = (0, Some (Verified (length ls))) \<and>
    (\<exists>m. load_reviewed_gpu_map (gh_read_text h g) = Inr m \<and> ls = map_lines m)"
proof -
  have body: "gpu_main_body h cmd Discover [f] = Inr (Map_Lines ls)"
    using assms(1) by (auto simp: gpu_main_def split: sum.splits gpu_error.splits)
  then obtain mapping expected sel where m: "discover_gpu_mapping h cmd = Inr mapping"
    "load_expected (gh_read_text h f) = Inr expected" "select_mapping mapping expected = Inr sel" "ls = map_lines sel"
    by (auto simp: gpu_main_body_def rbind_eq_Inr)
  note p = discovered_printable [OF m(1)]
  note s = select_ok [OF m(3) p(2)]
  have "expected \<noteq> []" using m(2)
    by (auto simp: load_expected_def rbind_eq_Inr split: option.splits if_splits) (metis length_0_conv length_sort)
  then obtain u where u: "u \<in> set expected" by (cases expected) auto
  then obtain q where "(u, q) \<in> set mapping" using s by force
  then have "sel \<noteq> []" using s u by auto
  moreover have "list_all printable sel" using p(1) s by (auto simp: list_all_iff)
  ultimately have "load_reviewed_gpu_map (gh_read_text h g) = Inr sel"
    using reviewed_roundtrip s m(4) assms(2) by simp
  with m show ?thesis by (simp add: gpu_main_def gpu_main_body_def map_lines_def)
qed

section \<open>Witnesses\<close>

text \<open>Two GPUs, of which the worker owns the second; the first is refused.\<close>

definition ex_gpu_run :: "string list \<Rightarrow> completed_process option" where
  "ex_gpu_run args = Some \<lparr>cp_returncode = 0,
     cp_stdout = (if ''--query-gpu=uuid'' \<in> set args then ''GPU-a'' @ [CHR 0x0A] @ ''GPU-b''
       else ''GPU-a, 0'' @ [CHR 0x0A] @ ''GPU-b, 3''),
     cp_stderr = []\<rparr>"

definition ex_gpu_host :: gpu_host where
  "ex_gpu_host = \<lparr>gh_run = ex_gpu_run, gh_information_files = [],
     gh_proc_devices = Some (''Character devices:'' @ [CHR 0x0A] @ ''195 nvidia''),
     gh_device_stat = (\<lambda>node. if node = ''nvidia0'' then Some (True, 195, 0)
       else if node = ''nvidia3'' then Some (True, 195, 3) else None),
     gh_open_device = (\<lambda>node. if node = ''nvidia3'' then None else Some 1),
     gh_read_text = (\<lambda>path. if path = ''/e'' then Some ''GPU-b'' else Some (''GPU-b=/dev/nvidia3'' @ [CHR 0x0A])),
     gh_load_toml = (\<lambda>_. None), gh_cuda_visible_devices = None\<rparr>"

lemma ex_discovered: "discover_gpu_mapping ex_gpu_host ''nvidia-smi'' = Inr [(''GPU-a'', ''/dev/nvidia0''), (''GPU-b'', ''/dev/nvidia3'')]"
  by code_simp

lemma ex_isolated:
  "require_isolated_gpu_access ex_gpu_host [''GPU-b''] ''/m'' ''nvidia-smi'' (Some ''GPU-b'') = Inr ()"
  by code_simp

theorem isolated_access_sound_witness:
  "require_isolated_gpu_access ex_gpu_host [''GPU-b''] ''/m'' ''nvidia-smi'' (Some ''GPU-b'') = Inr () \<and>
   (\<exists>mapping. discover_gpu_mapping ex_gpu_host ''nvidia-smi'' = Inr mapping \<and> ''GPU-b'' \<in> set (map fst mapping) \<and>
     distinct (map snd mapping))"
  using isolated_access_sound [OF ex_isolated] ex_isolated by auto

theorem discovered_map_verifies_witness:
  "gpu_main ex_gpu_host ''nvidia-smi'' Verify_Map [''/e'', ''/m''] = (0, Some (Verified 1))"
proof -
  have "gpu_main ex_gpu_host ''nvidia-smi'' Discover [''/e''] = (0, Some (Map_Lines [''GPU-b=/dev/nvidia3'']))"
    by code_simp
  from discovered_map_verifies [OF this, of "''/m''"] show ?thesis by (simp add: ex_gpu_host_def)
qed

end
