(* ===== verification/Worker_Mode.thy ===== *)
theory Worker_Mode
  imports Gpu_Mapping
begin

text \<open>
  \<open>src/src/astrumweaver/worker/mode.py\<close>: handing the GPUs of a borrowable worker over to development and
  back. \<open>systemctl\<close>, \<open>nvidia-smi\<close>, the health endpoint and the clock are the host, a record of what it
  answers in a world that each call may change; the three adapters (service manager, health probe, GPU
  probe) and the controller are functions over it. Waiting may never end, so the transitions are
  option-valued: \<open>None\<close> stands for a wait without end. The theorem reads the calls a transition makes,
  in order, with a monitor: no worker is stopped before it was seen drained, none is started before the
  GPUs were seen free.
\<close>

section \<open>Host\<close>

record 'w mode_host =
  mh_run :: "string list \<Rightarrow> 'w \<Rightarrow> completed_process option \<times> 'w"
  mh_get :: "string \<Rightarrow> 'w \<Rightarrow> (int \<times> json option) option \<times> 'w"
  mh_monotonic :: "'w \<Rightarrow> rat \<times> 'w"
  mh_sleep :: "rat \<Rightarrow> 'w \<Rightarrow> 'w"

datatype mode_error = Mode_Transition string | Mode_Gpu gpu_error | Mode_Exc py_exc

type_synonym ('w, 'a) host_prog = "'w \<Rightarrow> (mode_error + 'a) \<times> 'w"

definition hbind :: "('w, 'a) host_prog \<Rightarrow> ('a \<Rightarrow> ('w, 'b) host_prog) \<Rightarrow> ('w, 'b) host_prog" where
  "hbind p k w = (case p w of (Inl e, w') \<Rightarrow> (Inl e, w') | (Inr x, w') \<Rightarrow> k x w')"

definition hreturn :: "'a \<Rightarrow> ('w, 'a) host_prog" where
  "hreturn x w = (Inr x, w)"

definition hraise :: "mode_error \<Rightarrow> ('w, 'a) host_prog" where
  "hraise e w = (Inl e, w)"

record gpu_process =
  gp_pid :: int
  gp_gpu_uuid :: string
  gp_process_type :: string
  gp_process_name :: string

record mode_report =
  mr_mode :: string
  mr_service_active :: bool
  mr_worker_ready :: bool
  mr_worker_draining :: bool
  mr_active_job_id :: "string option"
  mr_gpu_processes :: "gpu_process list"

text \<open>The settings of the adapters and of the controller.\<close>

record mode_cfg =
  mc_service_name :: string
  mc_systemctl :: string
  mc_health_url :: string
  mc_expected_gpu_uuids :: "string list"
  mc_nvidia_smi :: string
  mc_poll_interval_seconds :: rat

section \<open>The service manager\<close>

definition systemctl_run :: "'w mode_host \<Rightarrow> mode_cfg \<Rightarrow> string list \<Rightarrow> ('w, int) host_prog" where
  "systemctl_run h c args w = (case mh_run h (mc_systemctl c # args) w of
     (None, w') \<Rightarrow> (Inl (Mode_Transition ''systemctl is unavailable''), w')
   | (Some r, w') \<Rightarrow> (Inr (cp_returncode r), w'))"

definition svc_is_active :: "'w mode_host \<Rightarrow> mode_cfg \<Rightarrow> ('w, bool) host_prog" where
  "svc_is_active h c = hbind (systemctl_run h c [''is-active'', ''--quiet'', mc_service_name c]) (\<lambda>rc.
     if rc = 0 then hreturn True else if rc = 3 then hreturn False
     else hraise (Mode_Transition ''cannot determine service state''))"

definition svc_request_drain :: "'w mode_host \<Rightarrow> mode_cfg \<Rightarrow> ('w, unit) host_prog" where
  "svc_request_drain h c =
     hbind (systemctl_run h c [''kill'', ''--kill-whom=main'', ''--signal=SIGUSR1'', mc_service_name c]) (\<lambda>rc.
       if rc \<noteq> 0 then hraise (Mode_Transition ''failed to request Worker drain'') else hreturn ())"

definition svc_stop :: "'w mode_host \<Rightarrow> mode_cfg \<Rightarrow> ('w, unit) host_prog" where
  "svc_stop h c = hbind (systemctl_run h c [''stop'', mc_service_name c]) (\<lambda>rc.
     if rc \<noteq> 0 then hraise (Mode_Transition ''failed to stop Worker service'') else hreturn ())"

definition svc_start :: "'w mode_host \<Rightarrow> mode_cfg \<Rightarrow> ('w, unit) host_prog" where
  "svc_start h c = hbind (systemctl_run h c [''start'', mc_service_name c]) (\<lambda>rc.
     if rc \<noteq> 0 then hraise (Mode_Transition ''failed to start Worker service'') else hreturn ())"

section \<open>The health probe\<close>

definition read_health :: "(int \<times> json option) option \<Rightarrow> obj option" where
  "read_health answer = (case answer of Some (status, Some (JObj d)) \<Rightarrow> if status = 200 then Some d else None | _ \<Rightarrow> None)"

definition health_snapshot :: "'w mode_host \<Rightarrow> mode_cfg \<Rightarrow> ('w, obj option) host_prog" where
  "health_snapshot h c w = (case mh_get h (mc_health_url c @ ''/health'') w of (x, w') \<Rightarrow> (Inr (read_health x), w'))"

definition health_probe_ready :: "'w mode_host \<Rightarrow> mode_cfg \<Rightarrow> ('w, bool) host_prog" where
  "health_probe_ready h c w = (case mh_get h (mc_health_url c @ ''/ready'') w of (x, w') \<Rightarrow>
     (Inr (case read_health x of None \<Rightarrow> False | Some d \<Rightarrow> json_get d ''ready'' = JBool True), w'))"

section \<open>The GPU probe\<close>

definition mk_gpu_probe :: "string list \<Rightarrow> string list res" where
  "mk_gpu_probe uuids = (let expected = sort (map py_strip uuids) in
     if expected = [] \<or> [] \<in> set expected then Inl (ValueError (Required ''expected GPU UUIDs''))
     else if \<not> distinct expected then Inl (ValueError (Contains_duplicates ''expected GPU UUIDs''))
     else Inr expected)"

definition uuid_query :: "mode_cfg \<Rightarrow> string list" where
  "uuid_query c = [mc_nvidia_smi c, ''--query-gpu=uuid'', ''--format=csv,noheader'']"

definition index_query :: "mode_cfg \<Rightarrow> string list" where
  "index_query c = [mc_nvidia_smi c, ''--query-gpu=index,uuid'', ''--format=csv,noheader,nounits'']"

definition pmon_query :: "mode_cfg \<Rightarrow> string list" where
  "pmon_query c = [mc_nvidia_smi c, ''pmon'', ''-c'', ''1'']"

definition gpu_require_exact_identity :: "'w mode_host \<Rightarrow> mode_cfg \<Rightarrow> ('w, unit) host_prog" where
  "gpu_require_exact_identity h c w = (case mh_run h (uuid_query c) w of (r, w') \<Rightarrow>
     (case require_exact_gpu_set (\<lambda>_. r) (mc_expected_gpu_uuids c) (mc_nvidia_smi c) of
        Inl e \<Rightarrow> (Inl (Mode_Gpu e), w') | Inr _ \<Rightarrow> (Inr (), w')))"

fun index_map_loop :: "string list \<Rightarrow> (string, string) dict \<Rightarrow> mode_error + (string, string) dict" where
  "index_map_loop [] m = Inr m"
| "index_map_loop (raw # lines) m = (let line = py_strip raw in
     if line = [] then index_map_loop lines m
     else case py_partition (CHR '','') line of (index, sep, uuid) \<Rightarrow>
       if \<not> sep then Inl (Mode_Transition ''unexpected nvidia-smi GPU output'')
       else index_map_loop lines (dict_set (py_strip uuid) (py_strip index) m))"

definition read_index_map :: "completed_process option \<Rightarrow> mode_error + (string, string) dict" where
  "read_index_map r = (case r of
     None \<Rightarrow> Inl (Mode_Transition ''nvidia-smi is unavailable'')
   | Some p \<Rightarrow> if cp_returncode p \<noteq> 0 then Inl (Mode_Transition ''cannot inspect NVIDIA GPU identity'')
       else index_map_loop (py_splitlines (cp_stdout p)) [])"

text \<open>\<open>{index_map[uuid]: uuid for uuid in expected if uuid in index_map}\<close>\<close>

definition expected_indexes :: "string list \<Rightarrow> (string, string) dict \<Rightarrow> (string, string) dict" where
  "expected_indexes expected m = dict_merge [] (concat (map (\<lambda>uuid. case dict_get m uuid of
     None \<Rightarrow> [] | Some index \<Rightarrow> [(index, uuid)]) expected))"

text \<open>\<open>line.split(maxsplit=7)\<close> of a stripped line: at most seven words, then the rest.\<close>

fun split_max :: "nat \<Rightarrow> string \<Rightarrow> string list" where
  "split_max 0 s = (if s = [] then [] else [s])"
| "split_max (Suc n) s = (if s = [] then []
     else takeWhile (\<lambda>c. \<not> is_space c) s #
       split_max n (dropWhile is_space (dropWhile (\<lambda>c. \<not> is_space c) s)))"

fun processes_loop :: "(string, string) dict \<Rightarrow> string list \<Rightarrow> mode_error + gpu_process list" where
  "processes_loop indexes [] = Inr []"
| "processes_loop indexes (raw # lines) = (let line = py_strip raw in
     if line = [] \<or> hd line = CHR ''#'' then processes_loop indexes lines
     else case split_max 7 line of
       gpu_index # raw_pid # process_type # rest \<Rightarrow>
         (case dict_get indexes gpu_index of
            None \<Rightarrow> processes_loop indexes lines
          | Some uuid \<Rightarrow>
              if raw_pid = ''-'' then processes_loop indexes lines
              else (case parse_int raw_pid of
                 None \<Rightarrow> Inl (Mode_Transition ''unexpected nvidia-smi process PID'')
               | Some pid \<Rightarrow> rbind (processes_loop indexes lines) (\<lambda>ps. Inr (
                   \<lparr>gp_pid = pid, gp_gpu_uuid = uuid, gp_process_type = process_type,
                    gp_process_name = (if 5 \<le> length rest then rest ! 4 else [])\<rparr> # ps))))
     | _ \<Rightarrow> Inl (Mode_Transition ''unexpected nvidia-smi pmon output''))"

definition read_processes :: "(string, string) dict \<Rightarrow> completed_process option \<Rightarrow> mode_error + gpu_process list" where
  "read_processes indexes r = (case r of
     None \<Rightarrow> Inl (Mode_Transition ''nvidia-smi is unavailable'')
   | Some p \<Rightarrow> if cp_returncode p \<noteq> 0 then Inl (Mode_Transition ''cannot inspect NVIDIA GPU processes'')
       else processes_loop indexes (py_splitlines (cp_stdout p)))"

definition gpu_index_map :: "'w mode_host \<Rightarrow> mode_cfg \<Rightarrow> ('w, (string, string) dict) host_prog" where
  "gpu_index_map h c w = (case mh_run h (index_query c) w of (r, w') \<Rightarrow> (read_index_map r, w'))"

definition gpu_active_processes :: "'w mode_host \<Rightarrow> mode_cfg \<Rightarrow> ('w, gpu_process list) host_prog" where
  "gpu_active_processes h c = hbind (gpu_index_map h c) (\<lambda>m w.
     case mh_run h (pmon_query c) w of (r, w') \<Rightarrow>
       (read_processes (expected_indexes (mc_expected_gpu_uuids c) m) r, w'))"

section \<open>The controller\<close>

definition mk_controller :: "mode_cfg \<Rightarrow> mode_cfg res" where
  "mk_controller c = (if mc_poll_interval_seconds c \<le> 0
     then Inl (ValueError (Must_be_positive ''poll_interval_seconds'')) else Inr c)"

text \<open>\<open>now >= deadline\<close> and \<open>now + timeout\<close> for any float.\<close>

definition deadline_passed :: "rat \<Rightarrow> py_float \<Rightarrow> bool" where
  "deadline_passed now d = (case d of Finite q \<Rightarrow> q \<le> now | Neg_Inf \<Rightarrow> True | _ \<Rightarrow> False)"

definition wait_deadline :: "rat \<Rightarrow> py_float \<Rightarrow> py_float" where
  "wait_deadline now t = (case t of Finite q \<Rightarrow> Finite (now + q) | x \<Rightarrow> x)"

partial_function (option) wait_loop ::
  "'w mode_host \<Rightarrow> mode_cfg \<Rightarrow> ('w, bool) host_prog \<Rightarrow> py_float option \<Rightarrow> string \<Rightarrow> 'w
    \<Rightarrow> ((mode_error + unit) \<times> 'w) option" where
  "wait_loop h c test deadline description w =
     (let (r, w1) = test w in
      if r = Inr True then Some (Inr (), w1)
      else if r \<noteq> Inr False then Some (Inl (projl r), w1)
      else if deadline = None then wait_loop h c test deadline description (mh_sleep h (mc_poll_interval_seconds c) w1)
      else let (now, w2) = mh_monotonic h w1 in
        if deadline_passed now (the deadline) then Some (Inl (Mode_Transition description), w2)
        else wait_loop h c test deadline description (mh_sleep h (mc_poll_interval_seconds c) w2))"

declare wait_loop.simps [code]

definition mode_wait ::
  "'w mode_host \<Rightarrow> mode_cfg \<Rightarrow> ('w, bool) host_prog \<Rightarrow> py_float option \<Rightarrow> string \<Rightarrow> 'w
    \<Rightarrow> ((mode_error + unit) \<times> 'w) option" where
  "mode_wait h c test timeout description w = (case timeout of
     None \<Rightarrow> wait_loop h c test None description w
   | Some t \<Rightarrow> (case mh_monotonic h w of (now, w1) \<Rightarrow>
       wait_loop h c test (Some (wait_deadline now t)) description w1))"

text \<open>Sequencing after a wait, and a transition that has no wait.\<close>

definition obind :: "((mode_error + 'a) \<times> 'w) option \<Rightarrow> ('a \<Rightarrow> 'w \<Rightarrow> ((mode_error + 'b) \<times> 'w) option)
    \<Rightarrow> ((mode_error + 'b) \<times> 'w) option" where
  "obind m k = (case m of None \<Rightarrow> None | Some (Inl e, w) \<Rightarrow> Some (Inl e, w) | Some (Inr x, w) \<Rightarrow> k x w)"

text \<open>\<open>snapshot.get(k) is True\<close> on a snapshot that may be missing.\<close>

definition snapshot_true :: "string \<Rightarrow> obj option \<Rightarrow> bool" where
  "snapshot_true k s = (case s of None \<Rightarrow> False | Some d \<Rightarrow> json_get d k = JBool True)"

definition snapshot_drained :: "obj option \<Rightarrow> bool" where
  "snapshot_drained s = (case s of None \<Rightarrow> False
     | Some d \<Rightarrow> json_get d ''draining'' = JBool True \<and> json_get d ''active_job_id'' = JNull)"

definition worker_drained :: "'w mode_host \<Rightarrow> mode_cfg \<Rightarrow> ('w, bool) host_prog" where
  "worker_drained h c = hbind (svc_is_active h c) (\<lambda>active.
     if \<not> active then hreturn True
     else hbind (health_snapshot h c) (\<lambda>s. hreturn (snapshot_drained s)))"

definition worker_is_ready :: "'w mode_host \<Rightarrow> mode_cfg \<Rightarrow> ('w, bool) host_prog" where
  "worker_is_ready h c = hbind (health_snapshot h c) (\<lambda>s. hreturn (snapshot_true ''ready'' s))"

definition mode_name :: "bool \<Rightarrow> bool \<Rightarrow> bool \<Rightarrow> string" where
  "mode_name active draining ready =
     (if active \<and> draining then ''draining'' else if active \<and> ready then ''astrumweaver''
      else if active then ''transitioning'' else ''development'')"

definition controller_report :: "'w mode_host \<Rightarrow> mode_cfg \<Rightarrow> ('w, mode_report) host_prog" where
  "controller_report h c = hbind (svc_is_active h c) (\<lambda>active.
     hbind (if active then health_snapshot h c else hreturn None) (\<lambda>snapshot.
     let ready = snapshot_true ''ready'' snapshot;
         draining = (case snapshot of None \<Rightarrow> False | Some d \<Rightarrow> py_truthy (json_get d ''draining''));
         job = (case snapshot of None \<Rightarrow> Inr None
           | Some d \<Rightarrow> if json_get d ''active_job_id'' = JNull then Inr None
               else rbind (py_str (json_get d ''active_job_id'')) (\<lambda>s. Inr (Some s)))
     in case job of Inl e \<Rightarrow> hraise (Mode_Exc e)
      | Inr active_job_id \<Rightarrow> hbind (gpu_active_processes h c) (\<lambda>ps. hreturn
          \<lparr>mr_mode = mode_name active draining ready, mr_service_active = active, mr_worker_ready = ready,
           mr_worker_draining = draining, mr_active_job_id = active_job_id, mr_gpu_processes = ps\<rparr>)))"

definition stop_if_active :: "'w mode_host \<Rightarrow> mode_cfg \<Rightarrow> ('w, unit) host_prog" where
  "stop_if_active h c = hbind (svc_is_active h c) (\<lambda>active. if active then svc_stop h c else hreturn ())"

definition require_free_gpus :: "'w mode_host \<Rightarrow> mode_cfg \<Rightarrow> string \<Rightarrow> ('w, unit) host_prog" where
  "require_free_gpus h c message = hbind (gpu_require_exact_identity h c) (\<lambda>_.
     hbind (gpu_active_processes h c) (\<lambda>busy.
       if busy \<noteq> [] then hraise (Mode_Transition message) else hreturn ()))"

definition to_development ::
  "'w mode_host \<Rightarrow> mode_cfg \<Rightarrow> py_float option \<Rightarrow> 'w \<Rightarrow> ((mode_error + mode_report) \<times> 'w) option" where
  "to_development h c drain_timeout w =
     obind (Some (svc_is_active h c w)) (\<lambda>active w1.
     obind (if active
            then obind (Some (svc_request_drain h c w1)) (\<lambda>_ w2.
              obind (mode_wait h c (worker_drained h c) drain_timeout ''Worker drain'' w2) (\<lambda>_ w3.
              Some (stop_if_active h c w3)))
            else Some (Inr (), w1)) (\<lambda>_ w4.
     Some (hbind (svc_is_active h c) (\<lambda>still.
       if still then hraise (Mode_Transition ''Worker service is still active'')
       else hbind (require_free_gpus h c ''GPU is still owned by one or more compute processes'') (\<lambda>_.
         controller_report h c)) w4)))"

definition start_worker ::
  "'w mode_host \<Rightarrow> mode_cfg \<Rightarrow> py_float \<Rightarrow> 'w \<Rightarrow> ((mode_error + mode_report) \<times> 'w) option" where
  "start_worker h c start_timeout w =
     obind (Some (hbind (require_free_gpus h c ''GPU is in use by a development or unrelated process'')
       (\<lambda>_. svc_start h c) w)) (\<lambda>_ w1.
     obind (mode_wait h c (svc_is_active h c) (Some start_timeout) ''Worker service activation'' w1) (\<lambda>_ w2.
     obind (mode_wait h c (worker_is_ready h c) (Some start_timeout) ''Worker readiness'' w2) (\<lambda>_ w3.
     Some (controller_report h c w3))))"

definition float_nonpositive :: "py_float \<Rightarrow> bool" where
  "float_nonpositive t = (case t of Finite q \<Rightarrow> q \<le> 0 | Neg_Inf \<Rightarrow> True | _ \<Rightarrow> False)"

definition to_astrumweaver ::
  "'w mode_host \<Rightarrow> mode_cfg \<Rightarrow> py_float \<Rightarrow> py_float option \<Rightarrow> 'w \<Rightarrow> ((mode_error + mode_report) \<times> 'w) option" where
  "to_astrumweaver h c start_timeout drain_timeout w =
     (if float_nonpositive start_timeout
      then Some (Inl (Mode_Exc (ValueError (Must_be_positive ''start_timeout_seconds''))), w)
      else obind (Some (svc_is_active h c w)) (\<lambda>active w1.
        if \<not> active then start_worker h c start_timeout w1
        else obind (Some (health_snapshot h c w1)) (\<lambda>snapshot w2.
          if snapshot_true ''draining'' snapshot
          then obind (mode_wait h c (worker_drained h c) drain_timeout ''existing Worker drain'' w2) (\<lambda>_ w3.
            obind (Some (stop_if_active h c w3)) (\<lambda>_ w4. start_worker h c start_timeout w4))
          else obind (mode_wait h c (worker_is_ready h c) (Some start_timeout) ''existing Worker readiness'' w2)
            (\<lambda>_ w3. Some (controller_report h c w3)))))"

section \<open>The command\<close>

datatype mode_choice = Development | Astrumweaver | Status

definition drain_timeout_of :: "py_float \<Rightarrow> py_float option" where
  "drain_timeout_of t = (if t = Finite 0 then None else Some t)"

definition mode_main ::
  "'w mode_host \<Rightarrow> mode_cfg \<Rightarrow> mode_choice \<Rightarrow> py_float \<Rightarrow> py_float \<Rightarrow> 'w \<Rightarrow> ((mode_error + mode_report) \<times> 'w) option" where
  "mode_main h c mode drain_timeout start_timeout w = (case mode of
     Development \<Rightarrow> to_development h c (drain_timeout_of drain_timeout) w
   | Astrumweaver \<Rightarrow> to_astrumweaver h c start_timeout (drain_timeout_of drain_timeout) w
   | Status \<Rightarrow> Some (controller_report h c w))"

section \<open>The calls of a transition\<close>

datatype host_call = Ran "string list" "completed_process option" | Fetched string "(int \<times> json option) option"

text \<open>The same host, keeping the calls that were made with their answers.\<close>

definition traced :: "'w mode_host \<Rightarrow> ('w \<times> host_call list) mode_host" where
  "traced h = \<lparr>
     mh_run = (\<lambda>args (w, calls). case mh_run h args w of (r, w') \<Rightarrow> (r, (w', calls @ [Ran args r]))),
     mh_get = (\<lambda>url (w, calls). case mh_get h url w of (x, w') \<Rightarrow> (x, (w', calls @ [Fetched url x]))),
     mh_monotonic = (\<lambda>(w, calls). case mh_monotonic h w of (t, w') \<Rightarrow> (t, (w', calls))),
     mh_sleep = (\<lambda>d (w, calls). (mh_sleep h d w, calls))\<rparr>"

text \<open>
  The monitor. \<open>wt_drained\<close>: the last look at the service or at the worker's health showed no worker, or
  one that drains and holds no job. \<open>wt_free\<close>: the GPU set was verified and then no process was seen on
  it. A stop without the first or a start without the second clears \<open>wt_ok\<close>. \<open>wt_handed\<close>: the GPUs were
  seen free while the service was inactive; \<open>wt_ready\<close>: the worker reported itself ready; a start clears both.
\<close>

record watch =
  wt_ok :: bool
  wt_drained :: bool
  wt_inactive :: bool
  wt_ready :: bool
  wt_identity :: bool
  wt_indexes :: "mode_error + (string, string) dict"
  wt_free :: bool
  wt_handed :: bool

definition watch0 :: watch where
  "watch0 = \<lparr>wt_ok = True, wt_drained = False, wt_inactive = False, wt_ready = False, wt_identity = False,
     wt_indexes = Inr [], wt_free = False, wt_handed = False\<rparr>"

definition says :: "int \<Rightarrow> completed_process option \<Rightarrow> bool" where
  "says rc r = (case r of None \<Rightarrow> False | Some p \<Rightarrow> cp_returncode p = rc)"

definition no_processes :: "mode_cfg \<Rightarrow> mode_error + (string, string) dict \<Rightarrow> completed_process option \<Rightarrow> bool" where
  "no_processes c m r = (case m of Inl _ \<Rightarrow> False
     | Inr d \<Rightarrow> read_processes (expected_indexes (mc_expected_gpu_uuids c) d) r = Inr [])"

definition saw_free :: "mode_cfg \<Rightarrow> completed_process option \<Rightarrow> watch \<Rightarrow> watch" where
  "saw_free c r s = (let free = (wt_identity s \<and> no_processes c (wt_indexes s) r) in
     s\<lparr>wt_free := free, wt_handed := (wt_handed s \<or> free \<and> wt_inactive s)\<rparr>)"

fun observe :: "mode_cfg \<Rightarrow> watch \<Rightarrow> host_call \<Rightarrow> watch" where
  "observe c s (Ran args r) =
     (if args = [mc_systemctl c, ''stop'', mc_service_name c] then s\<lparr>wt_ok := (wt_ok s \<and> wt_drained s)\<rparr>
      else if args = [mc_systemctl c, ''start'', mc_service_name c]
      then s\<lparr>wt_ok := (wt_ok s \<and> wt_free s), wt_drained := False, wt_inactive := False, wt_ready := False,
             wt_handed := False\<rparr>
      else if args = [mc_systemctl c, ''is-active'', ''--quiet'', mc_service_name c]
      then s\<lparr>wt_inactive := says 3 r, wt_drained := (says 3 r \<or> wt_drained s)\<rparr>
      else if args = uuid_query c
      then s\<lparr>wt_identity := (require_exact_gpu_set (\<lambda>_. r) (mc_expected_gpu_uuids c) (mc_nvidia_smi c) = Inr ()),
        wt_free := False\<rparr>
      else if args = index_query c then s\<lparr>wt_indexes := read_index_map r, wt_free := False\<rparr>
      else if args = pmon_query c then saw_free c r s
      else s)"
| "observe c s (Fetched url x) =
     (if url = mc_health_url c @ ''/health''
      then s\<lparr>wt_drained := snapshot_drained (read_health x),
        wt_ready := (wt_ready s \<or> snapshot_true ''ready'' (read_health x))\<rparr>
      else s)"

definition watched :: "mode_cfg \<Rightarrow> host_call list \<Rightarrow> watch" where
  "watched c calls = foldl (observe c) watch0 calls"

lemma watched_snoc [simp]: "watched c (calls @ [x]) = observe c (watched c calls) x"
  by (simp add: watched_def)

section \<open>What each operation does to the monitor\<close>

text \<open>
  \<open>trip c P p Q\<close>: an operation of the traced host that starts where the monitor satisfies \<open>P\<close> ends, if
  it returns, where it satisfies \<open>Q\<close> of the outcome.
\<close>

definition trip :: "mode_cfg \<Rightarrow> (watch \<Rightarrow> bool) \<Rightarrow> ('w \<times> host_call list \<Rightarrow> ((mode_error + 'a) \<times> 'w \<times> host_call list) option)
    \<Rightarrow> (mode_error + 'a \<Rightarrow> watch \<Rightarrow> bool) \<Rightarrow> bool" where
  "trip c P p Q \<longleftrightarrow> (\<forall>w calls r w' calls'. P (watched c calls) \<longrightarrow> p (w, calls) = Some (r, w', calls') \<longrightarrow>
     Q r (watched c calls'))"

abbreviation (input) total :: "('w, 'a) host_prog \<Rightarrow> 'w \<Rightarrow> ((mode_error + 'a) \<times> 'w) option" where
  "total p \<equiv> \<lambda>w. Some (p w)"

lemma tripD: "trip c P p Q \<Longrightarrow> P (watched c calls) \<Longrightarrow> p (w, calls) = Some (r, w', calls') \<Longrightarrow> Q r (watched c calls')"
  by (simp add: trip_def)

lemma trip_weaken: "trip c P p Q \<Longrightarrow> (\<And>s. P' s \<Longrightarrow> P s) \<Longrightarrow> (\<And>r s. Q r s \<Longrightarrow> Q' r s) \<Longrightarrow> trip c P' p Q'"
  unfolding trip_def by blast

lemma trip_obind:
  assumes "trip c P p (\<lambda>r. case r of Inl e \<Rightarrow> Q (Inl e) | Inr x \<Rightarrow> M x)" "\<And>x. trip c (M x) (k x) Q"
  shows "trip c P (\<lambda>w. obind (p w) k) Q"
  unfolding trip_def
proof (intro allI impI)
  fix w calls r w' calls'
  assume a: "P (watched c calls)" and e: "obind (p (w, calls)) k = Some (r, w', calls')"
  then obtain q v cs where p: "p (w, calls) = Some (q, v, cs)"
    by (cases "p (w, calls)") (auto simp: obind_def split: prod.splits)
  note b = tripD [OF assms(1) a p]
  show "Q r (watched c calls')"
    using b p e assms(2) by (cases q) (auto simp: obind_def dest: tripD)
qed

lemma total_hbind: "total (hbind p k) = (\<lambda>w. obind (total p w) (\<lambda>x. total (k x)))"
  by (auto simp: hbind_def obind_def fun_eq_iff split: prod.split sum.split)

lemma trip_hbind:
  assumes "trip c P (total p) (\<lambda>r. case r of Inl e \<Rightarrow> Q (Inl e) | Inr x \<Rightarrow> M x)" "\<And>x. trip c (M x) (total (k x)) Q"
  shows "trip c P (total (hbind p k)) Q"
  unfolding total_hbind by (rule trip_obind [OF assms])

lemma trip_return: "(\<And>s. P s \<Longrightarrow> Q (Inr x) s) \<Longrightarrow> trip c P (total (hreturn x)) Q"
  by (auto simp: trip_def hreturn_def)

lemma trip_raise: "(\<And>s. P s \<Longrightarrow> Q (Inl e) s) \<Longrightarrow> trip c P (total (hraise e)) Q"
  by (auto simp: trip_def hraise_def)

lemma systemctl_trip:
  assumes "\<And>s r. P s \<Longrightarrow> Q (case r of None \<Rightarrow> Inl (Mode_Transition ''systemctl is unavailable'')
      | Some p \<Rightarrow> Inr (cp_returncode p)) (observe c s (Ran (mc_systemctl c # args) r))"
  shows "trip c P (total (systemctl_run (traced h) c args)) Q"
  unfolding trip_def
proof (intro allI impI)
  fix w calls r w' calls'
  assume p: "P (watched c calls)" and e: "Some (systemctl_run (traced h) c args (w, calls)) = Some (r, w', calls')"
  obtain x v where x: "mh_run h (mc_systemctl c # args) w = (x, v)" by fastforce
  from e x assms [OF p, of x] show "Q r (watched c calls')"
    by (cases x) (auto simp: systemctl_run_def traced_def)
qed

lemmas queries = uuid_query_def index_query_def pmon_query_def

lemma is_active_trip:
  "trip c P (total (svc_is_active (traced h) c)) (\<lambda>r s'. \<exists>s. P s \<and>
     s' = s\<lparr>wt_inactive := (r = Inr False), wt_drained := (r = Inr False \<or> wt_drained s)\<rparr>)"
  unfolding svc_is_active_def
proof (rule trip_hbind [where M = "\<lambda>rc s'. \<exists>s. P s \<and>
    s' = s\<lparr>wt_inactive := (rc = 3), wt_drained := (rc = 3 \<or> wt_drained s)\<rparr>"])
qed (auto simp: says_def queries split: option.split intro!: systemctl_trip trip_return trip_raise)

text \<open>Calls that only say whether they worked.\<close>

lemma order_trip:
  assumes "\<And>s r. P s \<Longrightarrow> Q (observe c s (Ran (mc_systemctl c # args) r))"
  shows "trip c P (total (hbind (systemctl_run (traced h) c args) (\<lambda>rc.
    if rc \<noteq> 0 then hraise e else hreturn ()))) (\<lambda>_. Q)"
  by (rule trip_hbind [where M = "\<lambda>_. Q"])
    (auto intro!: systemctl_trip trip_return trip_raise assms split: option.split)

lemma drain_trip: "trip c P (total (svc_request_drain (traced h) c)) (\<lambda>_. P)"
  unfolding svc_request_drain_def by (rule order_trip) (simp add: queries)

lemma stop_trip:
  "trip c P (total (svc_stop (traced h) c)) (\<lambda>_ s'. \<exists>s. P s \<and> s' = s\<lparr>wt_ok := (wt_ok s \<and> wt_drained s)\<rparr>)"
  unfolding svc_stop_def by (rule order_trip) auto

lemma start_trip:
  "trip c P (total (svc_start (traced h) c)) (\<lambda>_ s'. \<exists>s. P s \<and> wt_ok s' = (wt_ok s \<and> wt_free s))"
  unfolding svc_start_def by (rule order_trip) (auto intro!: exI)

lemma snapshot_trip:
  "trip c P (total (health_snapshot (traced h) c)) (\<lambda>r s'. \<exists>s x. P s \<and> r = Inr x \<and>
     s' = s\<lparr>wt_drained := snapshot_drained x, wt_ready := (wt_ready s \<or> snapshot_true ''ready'' x)\<rparr>)"
  by (auto simp: trip_def health_snapshot_def traced_def split: prod.splits)

lemma identity_trip:
  "trip c P (total (gpu_require_exact_identity (traced h) c)) (\<lambda>r s'. \<exists>s. P s \<and>
     s' = s\<lparr>wt_identity := (r = Inr ()), wt_free := False\<rparr>)"
  unfolding trip_def
proof (intro allI impI)
  fix w calls r w' calls'
  assume p: "P (watched c calls)" and e: "Some (gpu_require_exact_identity (traced h) c (w, calls)) = Some (r, w', calls')"
  obtain x v where x: "mh_run h (uuid_query c) w = (x, v)" by fastforce
  let ?q = "require_exact_gpu_set (\<lambda>_. x) (mc_expected_gpu_uuids c) (mc_nvidia_smi c)"
  from e x have c': "calls' = calls @ [Ran (uuid_query c) x]"
    "r = (case ?q of Inl e \<Rightarrow> Inl (Mode_Gpu e) | Inr _ \<Rightarrow> Inr ())"
    by (auto simp: gpu_require_exact_identity_def traced_def split: sum.splits)
  then have "(r = Inr ()) = (?q = Inr ())" by (cases ?q) auto
  with p c'(1) show "\<exists>s. P s \<and> watched c calls' = s\<lparr>wt_identity := (r = Inr ()), wt_free := False\<rparr>"
    by (intro exI [of _ "watched c calls"]) (simp add: uuid_query_def)
qed

text \<open>What looking for processes leaves alone, and what an empty answer says.\<close>

definition after_look :: "watch \<Rightarrow> bool \<Rightarrow> watch \<Rightarrow> bool" where
  "after_look s none s' \<longleftrightarrow> wt_ok s' = wt_ok s \<and> wt_ready s' = wt_ready s \<and> (wt_handed s \<longrightarrow> wt_handed s') \<and>
     (none \<and> wt_identity s \<longrightarrow> wt_free s' \<and> (wt_inactive s \<longrightarrow> wt_handed s'))"

lemma processes_trip:
  "trip c P (total (gpu_active_processes (traced h) c)) (\<lambda>r s'. \<exists>s. P s \<and> after_look s (r = Inr []) s')"
  unfolding gpu_active_processes_def
proof (rule trip_hbind)
  show "trip c P (total (gpu_index_map (traced h) c)) (\<lambda>r. case r of
      Inl e \<Rightarrow> \<lambda>s'. \<exists>s. P s \<and> after_look s (Inl e = Inr []) s'
    | Inr m \<Rightarrow> \<lambda>s'. \<exists>s. P s \<and> s' = s\<lparr>wt_indexes := Inr m, wt_free := False\<rparr>)"
    by (auto simp: trip_def gpu_index_map_def traced_def after_look_def queries split: prod.splits sum.splits)
next
  fix m
  let ?look = "\<lambda>w. case mh_run (traced h) (pmon_query c) w of
      (r, w') \<Rightarrow> (read_processes (expected_indexes (mc_expected_gpu_uuids c) m) r, w')"
  show "trip c (\<lambda>s'. \<exists>s. P s \<and> s' = s\<lparr>wt_indexes := Inr m, wt_free := False\<rparr>) (total ?look)
      (\<lambda>r s'. \<exists>s. P s \<and> after_look s (r = Inr []) s')"
    unfolding trip_def
  proof (intro allI impI, elim exE conjE)
    fix w calls r w' calls' s
    assume s: "P s" "watched c calls = s\<lparr>wt_indexes := Inr m, wt_free := False\<rparr>"
      and e: "Some (?look (w, calls)) = Some (r, w', calls')"
    obtain x v where "mh_run h (pmon_query c) w = (x, v)" by fastforce
    with e have "calls' = calls @ [Ran (pmon_query c) x]"
      "r = read_processes (expected_indexes (mc_expected_gpu_uuids c) m) x" by (auto simp: traced_def)
    with s(2) have "after_look s (r = Inr []) (watched c calls')"
      by (auto simp: after_look_def saw_free_def no_processes_def queries Let_def)
    with s(1) show "\<exists>s. P s \<and> after_look s (r = Inr []) (watched c calls')" by blast
  qed
qed

section \<open>Transitions\<close>

text \<open>Sleeping and reading the clock are no calls; the test keeps \<open>I\<close> until it succeeds with \<open>B\<close>.\<close>

lemma loop_trip:
  assumes test: "trip c I (total test) (\<lambda>r s. if r = Inr True then B s else I s)"
    and loop: "wait_loop (traced h) c test dl d x = Some y" and i: "I (watched c (snd x))"
  shows "if fst y = Inr () then B (watched c (snd (snd y))) else I (watched c (snd (snd y)))"
proof -
  have clock: "snd (mh_sleep (traced h) t v) = snd v" "snd (snd (mh_monotonic (traced h) v)) = snd v" for t v
    by (auto simp: traced_def split: prod.splits)
  have step: "if r = Inr True then B (watched c (snd v)) else I (watched c (snd v))"
    if "test x = (r, v)" "I (watched c (snd x))" for x r v
    using tripD [OF test, of "snd x" "fst x" r "fst v" "snd v"] that by simp
  have "h' = traced h \<longrightarrow> c' = c \<longrightarrow> test' = test \<longrightarrow> I (watched c (snd x)) \<longrightarrow>
      (if fst y = Inr () then B (watched c (snd (snd y))) else I (watched c (snd (snd y))))"
    if "wait_loop h' c' test' dl d x = Some y" for h' c' test'
  proof (rule wait_loop.raw_induct [where P = "\<lambda>h' c' test' dl d x y.
      h' = traced h \<longrightarrow> c' = c \<longrightarrow> test' = test \<longrightarrow> I (watched c (snd x)) \<longrightarrow>
      (if fst y = Inr () then B (watched c (snd (snd y))) else I (watched c (snd (snd y))))", OF _ that], intro impI)
    fix rec h' c' test' dl d x y
    assume rec: "\<And>h' c' test' dl d x y. rec h' c' test' dl d x = Some y \<Longrightarrow>
        h' = traced h \<longrightarrow> c' = c \<longrightarrow> test' = test \<longrightarrow> I (watched c (snd x)) \<longrightarrow>
        (if fst y = Inr () then B (watched c (snd (snd y))) else I (watched c (snd (snd y))))"
      and body: "(let (r, w1) = test' x in
        if r = Inr True then Some (Inr (), w1)
        else if r \<noteq> Inr False then Some (Inl (projl r), w1)
        else if dl = None then rec h' c' test' dl d (mh_sleep h' (mc_poll_interval_seconds c') w1)
        else let (now, w2) = mh_monotonic h' w1 in
          if deadline_passed now (the dl) then Some (Inl (Mode_Transition d), w2)
          else rec h' c' test' dl d (mh_sleep h' (mc_poll_interval_seconds c') w2)) = Some y"
      and eq: "h' = traced h" "c' = c" "test' = test" and i: "I (watched c (snd x))"
    obtain r v where t: "test x = (r, v)" by (cases "test x")
    obtain now v2 where m: "mh_monotonic (traced h) v = (now, v2)" by (cases "mh_monotonic (traced h) v")
    have v2: "snd v2 = snd v" using clock(2) [of v] m by simp
    note s = step [OF t i]
    consider "r = Inr True" | "r \<noteq> Inr True" "r \<noteq> Inr False" | "r = Inr False" by blast
    then show "if fst y = Inr () then B (watched c (snd (snd y))) else I (watched c (snd (snd y)))"
    proof cases
      case 3
      have "snd (mh_sleep (traced h) (mc_poll_interval_seconds c) v) = snd v"
        "snd (mh_sleep (traced h) (mc_poll_interval_seconds c) v2) = snd v" using clock(1) v2 by auto
      with 3 body eq t m s v2 show ?thesis
        by (auto simp: Let_def split: if_splits dest!: rec)
    qed (use body eq t s in auto)
  qed
  with loop i show ?thesis by blast
qed

lemma wait_trip:
  assumes test: "trip c I (total test) (\<lambda>r s. if r = Inr True then B s else I s)"
  shows "trip c I (mode_wait (traced h) c test t d) (\<lambda>r s. if r = Inr () then B s else I s)"
  unfolding trip_def
proof (intro allI impI)
  fix w calls r w' calls'
  assume i: "I (watched c calls)" and e: "mode_wait (traced h) c test t d (w, calls) = Some (r, w', calls')"
  obtain now v where m: "mh_monotonic (traced h) (w, calls) = (now, v)"
    by (cases "mh_monotonic (traced h) (w, calls)")
  have "snd v = calls" using m by (auto simp: traced_def split: prod.splits)
  then show "if r = Inr () then B (watched c calls') else I (watched c calls')"
    using loop_trip [OF test] e i m by (cases t) (fastforce simp: mode_wait_def)+
qed

text \<open>The conditions under which a transition goes on.\<close>

abbreviation (input) okay :: "watch \<Rightarrow> bool" where
  "okay s \<equiv> wt_ok s"

abbreviation (input) ok_drained :: "watch \<Rightarrow> bool" where
  "ok_drained s \<equiv> wt_ok s \<and> wt_drained s"

lemma drained_trip:
  "trip c okay (total (worker_drained (traced h) c)) (\<lambda>r s. if r = Inr True then ok_drained s else okay s)"
  unfolding worker_drained_def
proof (rule trip_hbind [where M = "\<lambda>active s. wt_ok s \<and> (\<not> active \<longrightarrow> wt_drained s)"])
  show "trip c okay (total (svc_is_active (traced h) c)) (\<lambda>r. case r of
      Inl e \<Rightarrow> \<lambda>s. if Inl e = Inr True then ok_drained s else okay s
    | Inr active \<Rightarrow> \<lambda>s. wt_ok s \<and> (\<not> active \<longrightarrow> wt_drained s))"
    by (rule trip_weaken [OF is_active_trip [where P = okay]]) (auto split: sum.split)
next
  fix active
  have look: "trip c okay (total (hbind (health_snapshot (traced h) c) (\<lambda>s. hreturn (snapshot_drained s))))
      (\<lambda>r s. if r = Inr True then ok_drained s else okay s)"
    by (rule trip_hbind [where M = "\<lambda>x s. wt_ok s \<and> wt_drained s = snapshot_drained x"])
      (auto intro!: trip_return trip_weaken [OF snapshot_trip [where P = okay]] split: sum.split)
  show "trip c (\<lambda>s. wt_ok s \<and> (\<not> active \<longrightarrow> wt_drained s)) (total (if \<not> active then hreturn True
      else hbind (health_snapshot (traced h) c) (\<lambda>s. hreturn (snapshot_drained s))))
      (\<lambda>r s. if r = Inr True then ok_drained s else okay s)"
    using look by (cases active) (auto intro!: trip_return elim: trip_weaken)
qed

lemma ready_trip:
  "trip c okay (total (worker_is_ready (traced h) c)) (\<lambda>r s. if r = Inr True then wt_ok s \<and> wt_ready s else okay s)"
  unfolding worker_is_ready_def
  by (rule trip_hbind [where M = "\<lambda>x s. wt_ok s \<and> (snapshot_true ''ready'' x \<longrightarrow> wt_ready s)"])
    (auto intro!: trip_return trip_weaken [OF snapshot_trip [where P = okay]] split: sum.split)

lemma stop_if_active_trip: "trip c ok_drained (total (stop_if_active (traced h) c)) (\<lambda>_. okay)"
  unfolding stop_if_active_def
proof (rule trip_hbind [where M = "\<lambda>_. ok_drained"])
  show "trip c ok_drained (total (svc_is_active (traced h) c)) (\<lambda>r. case r of Inl e \<Rightarrow> okay | Inr active \<Rightarrow> ok_drained)"
    by (rule trip_weaken [OF is_active_trip [where P = ok_drained]]) (auto split: sum.split)
  show "trip c ok_drained (total (if active then svc_stop (traced h) c else hreturn ())) (\<lambda>_. okay)" for active
    by (cases active) (auto intro!: trip_return trip_weaken [OF stop_trip [where P = ok_drained]])
qed

lemma free_trip:
  "trip c (\<lambda>s. wt_ok s \<and> (b \<longrightarrow> wt_inactive s)) (total (require_free_gpus (traced h) c message))
     (\<lambda>r s. wt_ok s \<and> (r = Inr () \<longrightarrow> wt_free s \<and> (b \<longrightarrow> wt_handed s)))"
  unfolding require_free_gpus_def
proof (rule trip_hbind [where M = "\<lambda>_ s. wt_ok s \<and> (b \<longrightarrow> wt_inactive s) \<and> wt_identity s"])
  show "trip c (\<lambda>s. wt_ok s \<and> (b \<longrightarrow> wt_inactive s)) (total (gpu_require_exact_identity (traced h) c)) (\<lambda>r. case r of
      Inl e \<Rightarrow> \<lambda>s. wt_ok s \<and> (Inl e = Inr () \<longrightarrow> wt_free s \<and> (b \<longrightarrow> wt_handed s))
    | Inr _ \<Rightarrow> \<lambda>s. wt_ok s \<and> (b \<longrightarrow> wt_inactive s) \<and> wt_identity s)"
    by (rule trip_weaken [OF identity_trip [where P = "\<lambda>s. wt_ok s \<and> (b \<longrightarrow> wt_inactive s)"]])
      (auto split: sum.split)
next
  show "trip c (\<lambda>s. wt_ok s \<and> (b \<longrightarrow> wt_inactive s) \<and> wt_identity s) (total (hbind (gpu_active_processes (traced h) c)
      (\<lambda>busy. if busy \<noteq> [] then hraise (Mode_Transition message) else hreturn ())))
      (\<lambda>r s. wt_ok s \<and> (r = Inr () \<longrightarrow> wt_free s \<and> (b \<longrightarrow> wt_handed s)))"
    by (rule trip_hbind [where M = "\<lambda>busy s. wt_ok s \<and> (busy = [] \<longrightarrow> wt_free s \<and> (b \<longrightarrow> wt_handed s))"])
      (auto simp: after_look_def intro!: trip_return trip_raise
        trip_weaken [OF processes_trip [where P = "\<lambda>s. wt_ok s \<and> (b \<longrightarrow> wt_inactive s) \<and> wt_identity s"]]
        split: sum.split)
qed

text \<open>A report changes neither verdict, nor that the GPUs were handed over or the worker was ready.\<close>

lemma report_trip:
  "trip c (\<lambda>s. wt_ok s \<and> (a \<longrightarrow> wt_handed s) \<and> (b \<longrightarrow> wt_ready s)) (total (controller_report (traced h) c))
     (\<lambda>_ s. wt_ok s \<and> (a \<longrightarrow> wt_handed s) \<and> (b \<longrightarrow> wt_ready s))" (is "trip c ?P _ _")
proof -
  have active: "trip c ?P (total (svc_is_active (traced h) c)) (\<lambda>_. ?P)"
    by (rule trip_weaken [OF is_active_trip [where P = ?P]]) auto
  have snap: "trip c ?P (total (health_snapshot (traced h) c)) (\<lambda>_. ?P)"
    by (rule trip_weaken [OF snapshot_trip [where P = ?P]]) auto
  have look: "trip c ?P (total (gpu_active_processes (traced h) c)) (\<lambda>_. ?P)"
    by (rule trip_weaken [OF processes_trip [where P = ?P]]) (auto simp: after_look_def)
  have bind: "trip c ?P (total (hbind p k)) (\<lambda>_. ?P)"
    if "trip c ?P (total p) (\<lambda>_. ?P)" "\<And>x. trip c ?P (total (k x)) (\<lambda>_. ?P)"
    for p :: "('w \<times> host_call list, 'x) host_prog" and k :: "'x \<Rightarrow> ('w \<times> host_call list, 'y) host_prog"
    by (rule trip_hbind [where M = "\<lambda>_. ?P"]) (use that in \<open>auto elim: trip_weaken split: sum.split\<close>)
  show ?thesis
    unfolding controller_report_def Let_def
    by (intro bind active) (auto intro!: bind snap look trip_return trip_raise split: sum.split)
qed

lemma to_development_trip:
  "trip c okay (to_development (traced h) c dt) (\<lambda>r s. wt_ok s \<and> ((\<exists>rep. r = Inr rep) \<longrightarrow> wt_handed s))"
proof -
  let ?Q = "\<lambda>r s. wt_ok s \<and> ((\<exists>rep. r = Inr rep) \<longrightarrow> wt_handed s)"
  have finish: "trip c okay (total (hbind (svc_is_active (traced h) c) (\<lambda>still.
      if still then hraise (Mode_Transition ''Worker service is still active'')
      else hbind (require_free_gpus (traced h) c message) (\<lambda>_. controller_report (traced h) c)))) ?Q" for message
  proof (rule trip_hbind [where M = "\<lambda>still s. wt_ok s \<and> (\<not> still \<longrightarrow> wt_inactive s)"])
    show "trip c okay (total (svc_is_active (traced h) c)) (\<lambda>r. case r of
        Inl e \<Rightarrow> ?Q (Inl e) | Inr still \<Rightarrow> \<lambda>s. wt_ok s \<and> (\<not> still \<longrightarrow> wt_inactive s))"
      by (rule trip_weaken [OF is_active_trip [where P = okay]]) (auto split: sum.split)
    have "trip c (\<lambda>s. wt_ok s \<and> (True \<longrightarrow> wt_inactive s))
        (total (hbind (require_free_gpus (traced h) c message) (\<lambda>_. controller_report (traced h) c))) ?Q"
      by (rule trip_hbind [where M = "\<lambda>_ s. wt_ok s \<and> (True \<longrightarrow> wt_handed s) \<and> (False \<longrightarrow> wt_ready s)"])
        (auto split: sum.split intro: trip_weaken [OF free_trip [where b = True]] trip_weaken [OF report_trip [where a = True and b = False]])
    then show "trip c (\<lambda>s. wt_ok s \<and> (\<not> still \<longrightarrow> wt_inactive s)) (total (if still then hraise (Mode_Transition ''Worker service is still active'')
        else hbind (require_free_gpus (traced h) c message) (\<lambda>_. controller_report (traced h) c))) ?Q" for still
      by (cases still) (auto intro!: trip_raise elim: trip_weaken)
  qed
  have stopping: "trip c okay (\<lambda>w. obind (total (svc_request_drain (traced h) c) w) (\<lambda>_ w.
      obind (mode_wait (traced h) c (worker_drained (traced h) c) dt d w) (\<lambda>_. total (stop_if_active (traced h) c)))) (\<lambda>_. okay)" for d
    by (rule trip_obind [where M = "\<lambda>_. okay"], rule trip_weaken [OF drain_trip [where P = okay]])
      (auto split: sum.split intro!: trip_obind [where M = "\<lambda>_. ok_drained"] stop_if_active_trip
        trip_weaken [OF wait_trip [OF drained_trip]])
  have part: "trip c okay (\<lambda>w. if active then obind (total (svc_request_drain (traced h) c) w) (\<lambda>_ w.
      obind (mode_wait (traced h) c (worker_drained (traced h) c) dt ''Worker drain'' w) (\<lambda>_. total (stop_if_active (traced h) c)))
      else Some (Inr (), w)) (\<lambda>_. okay)" for active
    using stopping by (cases active) (simp_all add: trip_def)
  have "trip c okay (\<lambda>w. obind (if active then obind (total (svc_request_drain (traced h) c) w) (\<lambda>_ w.
      obind (mode_wait (traced h) c (worker_drained (traced h) c) dt ''Worker drain'' w) (\<lambda>_. total (stop_if_active (traced h) c)))
      else Some (Inr (), w)) (\<lambda>_. total (hbind (svc_is_active (traced h) c) (\<lambda>still.
      if still then hraise (Mode_Transition ''Worker service is still active'')
      else hbind (require_free_gpus (traced h) c ''GPU is still owned by one or more compute processes'') (\<lambda>_.
        controller_report (traced h) c))))) ?Q" for active
    by (intro trip_obind [where M = "\<lambda>_. okay"] finish)
      (rule trip_weaken [OF part], auto split: sum.split)
  then show ?thesis
    unfolding to_development_def
    by (intro trip_obind [where M = "\<lambda>_. okay" and p = "total (svc_is_active (traced h) c)"])
      (auto split: sum.split intro: trip_weaken [OF is_active_trip [where P = okay]])
qed

lemma start_worker_trip:
  "trip c okay (start_worker (traced h) c st) (\<lambda>r s. wt_ok s \<and> ((\<exists>rep. r = Inr rep) \<longrightarrow> wt_ready s))"
proof -
  let ?Q = "\<lambda>r s. wt_ok s \<and> ((\<exists>rep. r = Inr rep) \<longrightarrow> wt_ready s)"
  have start: "trip c okay (total (hbind (require_free_gpus (traced h) c message) (\<lambda>_. svc_start (traced h) c))) (\<lambda>_. okay)" for message
    by (rule trip_hbind [where M = "\<lambda>_ s. wt_ok s \<and> wt_free s"])
      (auto split: sum.split intro: trip_weaken [OF free_trip [where b = False]] trip_weaken [OF start_trip [where P = "\<lambda>s. wt_ok s \<and> wt_free s"]])
  have active: "trip c okay (total (svc_is_active (traced h) c)) (\<lambda>r s. if r = Inr True then okay s else okay s)"
    by (rule trip_weaken [OF is_active_trip [where P = okay]]) auto
  have report: "trip c (\<lambda>s. wt_ok s \<and> wt_ready s) (total (controller_report (traced h) c)) ?Q"
    by (rule trip_weaken [OF report_trip [where a = False and b = True]]) auto
  have ready: "trip c okay (\<lambda>w. obind (mode_wait (traced h) c (worker_is_ready (traced h) c) (Some st) d w)
      (\<lambda>_. total (controller_report (traced h) c))) ?Q" for d
    by (rule trip_obind [where M = "\<lambda>_ s. wt_ok s \<and> wt_ready s"])
      (auto split: sum.split intro: report trip_weaken [OF wait_trip [OF ready_trip]])
  have "trip c okay (\<lambda>w. obind (mode_wait (traced h) c (svc_is_active (traced h) c) (Some st) d w)
      (\<lambda>_ w. obind (mode_wait (traced h) c (worker_is_ready (traced h) c) (Some st) d' w)
      (\<lambda>_. total (controller_report (traced h) c)))) ?Q" for d d'
    by (rule trip_obind [where M = "\<lambda>_. okay"]) (auto split: sum.split intro: ready trip_weaken [OF wait_trip [OF active]])
  then show ?thesis
    unfolding start_worker_def
    by (intro trip_obind [where M = "\<lambda>_. okay" and
          p = "total (hbind (require_free_gpus (traced h) c ''GPU is in use by a development or unrelated process'') (\<lambda>_. svc_start (traced h) c))"])
      (auto split: sum.split intro: trip_weaken [OF start])
qed

lemma to_astrumweaver_trip:
  "trip c okay (to_astrumweaver (traced h) c st dt) (\<lambda>r s. wt_ok s \<and> ((\<exists>rep. r = Inr rep) \<longrightarrow> wt_ready s))"
proof (cases "float_nonpositive st")
  case True
  then show ?thesis by (auto simp: trip_def to_astrumweaver_def)
next
  case False
  let ?Q = "\<lambda>r s. wt_ok s \<and> ((\<exists>rep. r = Inr rep) \<longrightarrow> wt_ready s)"
  let ?drained = "\<lambda>w. obind (mode_wait (traced h) c (worker_drained (traced h) c) dt ''existing Worker drain'' w) (\<lambda>_ w.
    obind (Some (stop_if_active (traced h) c w)) (\<lambda>_. start_worker (traced h) c st))"
  let ?ready = "\<lambda>w. obind (mode_wait (traced h) c (worker_is_ready (traced h) c) (Some st) ''existing Worker readiness'' w)
    (\<lambda>_. total (controller_report (traced h) c))"
  let ?look = "\<lambda>snapshot. if snapshot_true ''draining'' snapshot then ?drained else ?ready"
  have stop: "trip c ok_drained (\<lambda>w. obind (Some (stop_if_active (traced h) c w)) (\<lambda>_. start_worker (traced h) c st)) ?Q"
    by (rule trip_obind [where M = "\<lambda>_. okay"], rule trip_weaken [OF stop_if_active_trip])
      (auto split: sum.split intro: start_worker_trip)
  have drained: "trip c okay ?drained ?Q"
    by (rule trip_obind [where M = "\<lambda>_. ok_drained"], rule trip_weaken [OF wait_trip [OF drained_trip]])
      (auto split: sum.split intro: stop)
  have "trip c (\<lambda>s. wt_ok s \<and> wt_ready s) (total (controller_report (traced h) c)) ?Q"
    by (rule trip_weaken [OF report_trip [where a = False and b = True]]) auto
  then have ready: "trip c okay ?ready ?Q"
    by (intro trip_obind [where M = "\<lambda>_ s. wt_ok s \<and> wt_ready s"])
      (auto split: sum.split intro: trip_weaken [OF wait_trip [OF ready_trip]])
  have look: "trip c okay (\<lambda>w. obind (Some (health_snapshot (traced h) c w)) ?look) ?Q"
    by (rule trip_obind [where M = "\<lambda>_. okay"], rule trip_weaken [OF snapshot_trip [where P = okay]])
      (use drained ready in \<open>auto split: sum.split\<close>)
  have "trip c okay (if \<not> active then start_worker (traced h) c st
      else (\<lambda>w. obind (Some (health_snapshot (traced h) c w)) ?look)) ?Q" for active
    using look start_worker_trip by (cases active) auto
  then have "trip c okay (\<lambda>w. obind (total (svc_is_active (traced h) c) w) (\<lambda>active. if \<not> active then start_worker (traced h) c st
      else (\<lambda>w. obind (Some (health_snapshot (traced h) c w)) ?look))) ?Q"
    by (intro trip_obind [where M = "\<lambda>_. okay"])
      (auto split: sum.split intro: trip_weaken [OF is_active_trip [where P = okay]])
  moreover have "to_astrumweaver (traced h) c st dt = (\<lambda>w. obind (total (svc_is_active (traced h) c) w) (\<lambda>active. if \<not> active then start_worker (traced h) c st
      else (\<lambda>w. obind (Some (health_snapshot (traced h) c w)) ?look)))"
    using False by (auto simp: to_astrumweaver_def fun_eq_iff intro!: arg_cong2 [where f = obind])
  ultimately show ?thesis by simp
qed

section \<open>Transitions with finite timeouts return\<close>

text \<open>A host on which time passes: no call turns the clock back, and sleeping moves it on.\<close>

definition host_clock :: "'w mode_host \<Rightarrow> ('w \<Rightarrow> rat) \<Rightarrow> bool" where
  "host_clock h clk \<longleftrightarrow> (\<forall>args w. clk w \<le> clk (snd (mh_run h args w))) \<and> (\<forall>url w. clk w \<le> clk (snd (mh_get h url w))) \<and>
     (\<forall>w. fst (mh_monotonic h w) = clk w \<and> clk w \<le> clk (snd (mh_monotonic h w))) \<and>
     (\<forall>d w. clk w + d \<le> clk (mh_sleep h d w))"

definition onward :: "('w \<Rightarrow> rat) \<Rightarrow> ('w, 'a) host_prog \<Rightarrow> bool" where
  "onward clk p \<longleftrightarrow> (\<forall>w. clk w \<le> clk (snd (p w)))"

lemma onward_hbind: "onward clk p \<Longrightarrow> (\<And>x. onward clk (k x)) \<Longrightarrow> onward clk (hbind p k)"
  unfolding onward_def hbind_def by (auto split: prod.split sum.split) (metis order_trans snd_conv)+

lemma onward_simple: "onward clk (hreturn x)" "onward clk (hraise e)"
  by (simp_all add: onward_def hreturn_def hraise_def)

lemma onward_tests:
  assumes "host_clock h clk"
  shows "onward clk (svc_is_active h c)" "onward clk (worker_drained h c)" "onward clk (worker_is_ready h c)"
proof -
  have "onward clk (systemctl_run h c args)" for args
    using assms by (auto simp: onward_def systemctl_run_def host_clock_def split: prod.split option.split)
      (metis snd_conv)+
  moreover have snap: "onward clk (health_snapshot h c)"
    using assms by (auto simp: onward_def health_snapshot_def host_clock_def split: prod.split) (metis snd_conv)
  ultimately show active: "onward clk (svc_is_active h c)"
    unfolding svc_is_active_def by (auto intro!: onward_hbind onward_simple)
  show "onward clk (worker_drained h c)" "onward clk (worker_is_ready h c)"
    unfolding worker_drained_def worker_is_ready_def
    using active snap by (auto intro!: onward_hbind onward_simple)
qed

lemma wait_ends:
  assumes clock: "host_clock h clk" and poll: "0 < mc_poll_interval_seconds c" and test: "onward clk test"
  shows "\<exists>y. wait_loop h c test (Some (Finite q)) d w = Some y"
proof (induction "nat \<lceil>(q - clk w) / mc_poll_interval_seconds c\<rceil>" arbitrary: w rule: less_induct)
  case less
  let ?poll = "mc_poll_interval_seconds c"
  obtain r w1 where t: "test w = (r, w1)" by (cases "test w")
  obtain now w2 where m: "mh_monotonic h w1 = (now, w2)" by (cases "mh_monotonic h w1")
  have c: "clk w \<le> clk w1" "now = clk w1" "clk w1 \<le> clk w2" "clk w2 + ?poll \<le> clk (mh_sleep h ?poll w2)"
    using test t m clock unfolding onward_def host_clock_def by (metis fst_conv snd_conv)+
  show ?case
  proof (cases "r = Inr False \<and> now < q")
    case False
    with t m show ?thesis by (subst wait_loop.simps) (auto simp: deadline_passed_def)
  next
    case True
    let ?x = "(q - clk w1) / ?poll"
    have "(q - clk (mh_sleep h ?poll w2)) / ?poll \<le> (q - clk w1 - ?poll) / ?poll"
      using c poll by (intro divide_right_mono) auto
    also have "\<dots> = ?x - 1" using poll by (simp add: diff_divide_distrib)
    finally have "\<lceil>(q - clk (mh_sleep h ?poll w2)) / ?poll\<rceil> \<le> \<lceil>?x\<rceil> - 1"
      by (metis ceiling_diff_one ceiling_mono)
    moreover have "\<lceil>?x\<rceil> \<le> \<lceil>(q - clk w) / ?poll\<rceil>" using c poll by (intro ceiling_mono divide_right_mono) auto
    moreover have "0 < \<lceil>?x\<rceil>" using True c poll by simp
    ultimately have "nat \<lceil>(q - clk (mh_sleep h ?poll w2)) / ?poll\<rceil> < nat \<lceil>(q - clk w) / ?poll\<rceil>" by linarith
    from less [OF this] True t m show ?thesis by (subst wait_loop.simps) (auto simp: deadline_passed_def)
  qed
qed

lemma mode_wait_ends:
  assumes "host_clock h clk" "0 < mc_poll_interval_seconds c" "onward clk test"
  shows "mode_wait h c test (Some (Finite q)) d w \<noteq> None"
  using wait_ends [OF assms] by (auto simp: mode_wait_def wait_deadline_def split: prod.split)

lemma obind_ends: "m \<noteq> None \<Longrightarrow> (\<And>x w. k x w \<noteq> None) \<Longrightarrow> obind m k \<noteq> None"
  by (auto simp: obind_def split: sum.split)

lemma if_ends: "(b \<Longrightarrow> x \<noteq> None) \<Longrightarrow> (\<not> b \<Longrightarrow> y \<noteq> None) \<Longrightarrow> (if b then x else y) \<noteq> None"
  by simp

lemma mode_main_ends:
  assumes clock: "host_clock h clk" and poll: "0 < mc_poll_interval_seconds c" and "q \<noteq> 0"
  shows "mode_main h c mode (Finite q) (Finite p) w \<noteq> None"
proof -
  note wait = mode_wait_ends [OF clock poll] and test = onward_tests [OF clock]
  have dt: "drain_timeout_of (Finite q) = Some (Finite q)" using assms(3) by (simp add: drain_timeout_of_def)
  note ends = obind_ends if_ends wait test option.distinct(2)
  have start: "start_worker h c (Finite p) v \<noteq> None" for v
    unfolding start_worker_def by (intro ends)
  have "to_development h c (Some (Finite q)) w \<noteq> None"
    unfolding to_development_def by (intro ends)
  moreover have "to_astrumweaver h c (Finite p) (Some (Finite q)) w \<noteq> None"
    unfolding to_astrumweaver_def by (intro ends start)
  ultimately show ?thesis by (cases mode) (simp_all add: mode_main_def dt)
qed

section \<open>Property\<close>

text \<open>
  C28. Handing GPUs over is safe. In every transition, whatever \<open>systemctl\<close>, \<open>nvidia-smi\<close> and the worker
  answer and whenever they do, the worker service is stopped only after the last look at it showed no
  worker or one that drains and holds no job, and it is started only after the exact GPU set was verified
  and then no process was seen on it. A report of a transition to development means that the GPUs were
  seen free while the service was inactive; a report of a transition back means that the worker said it
  was ready after any start. And with finite timeouts on a host where time passes every transition returns.
\<close>

theorem mode_transitions_safe:
  "(mode_main (traced h) c mode drain start (w, []) = Some (r, w', calls) \<longrightarrow>
     wt_ok (watched c calls) \<and>
     (mode = Development \<and> (\<exists>rep. r = Inr rep) \<longrightarrow> wt_handed (watched c calls)) \<and>
     (mode = Astrumweaver \<and> (\<exists>rep. r = Inr rep) \<longrightarrow> wt_ready (watched c calls))) \<and>
   (host_clock h clk \<and> 0 < mc_poll_interval_seconds c \<and> q \<noteq> 0 \<longrightarrow>
     (\<exists>out. mode_main h c mode (Finite q) (Finite p) w = Some out))"
proof -
  have "wt_ok (watched c [])" by (simp add: watched_def watch0_def)
  then have "wt_ok (watched c calls) \<and>
     (mode = Development \<and> (\<exists>rep. r = Inr rep) \<longrightarrow> wt_handed (watched c calls)) \<and>
     (mode = Astrumweaver \<and> (\<exists>rep. r = Inr rep) \<longrightarrow> wt_ready (watched c calls))"
    if "mode_main (traced h) c mode drain start (w, []) = Some (r, w', calls)"
    using that tripD [OF to_development_trip [of c h], of "[]" _ w r w' calls]
      tripD [OF to_astrumweaver_trip [of c h], of "[]" _ _ w r w' calls]
      tripD [OF report_trip [where a = False and b = False, of c h], of "[]" w r w' calls]
    by (cases mode) (simp_all add: mode_main_def)
  moreover have "\<exists>out. mode_main h c mode (Finite q) (Finite p) w = Some out"
    if "host_clock h clk" "0 < mc_poll_interval_seconds c" "q \<noteq> 0"
    using mode_main_ends [OF that] by blast
  ultimately show ?thesis by blast
qed

section \<open>Witness\<close>

text \<open>A worker that drains without a job; the world is whether it runs, and the time.\<close>

definition ex_mode_cfg :: mode_cfg where
  "ex_mode_cfg = \<lparr>mc_service_name = ''s'', mc_systemctl = ''systemctl'', mc_health_url = ''http://h'',
     mc_expected_gpu_uuids = [''GPU-a''], mc_nvidia_smi = ''nvidia-smi'', mc_poll_interval_seconds = 1\<rparr>"

definition ex_answer :: "int \<Rightarrow> string \<Rightarrow> completed_process option" where
  "ex_answer rc out = Some \<lparr>cp_returncode = rc, cp_stdout = out, cp_stderr = []\<rparr>"

definition ex_mode_host :: "(bool \<times> rat) mode_host" where
  "ex_mode_host = \<lparr>
     mh_run = (\<lambda>args (up, t).
       if args ! 1 = ''is-active'' then (ex_answer (if up then 0 else 3) [], (up, t))
       else if args ! 1 = ''stop'' then (ex_answer 0 [], (False, t))
       else if args ! 1 = ''--query-gpu=uuid'' then (ex_answer 0 ''GPU-a'', (up, t))
       else if args ! 1 = ''--query-gpu=index,uuid'' then (ex_answer 0 ''0, GPU-a'', (up, t))
       else if args ! 1 = ''pmon'' then (ex_answer 0 ''0 - - -'', (up, t))
       else (ex_answer 0 [], (up, t))),
     mh_get = (\<lambda>url w. (Some (200, Some (JObj [(''draining'', JBool True), (''active_job_id'', JNull)])), w)),
     mh_monotonic = (\<lambda>(up, t). (t, (up, t))),
     mh_sleep = (\<lambda>d (up, t). (up, t + d))\<rparr>"

definition ex_calls :: "host_call list" where
  "ex_calls = snd (snd (the (mode_main (traced ex_mode_host) ex_mode_cfg Development (Finite 0) (Finite 60) ((True, 5), []))))"

lemma ex_mode_run:
  "mode_main (traced ex_mode_host) ex_mode_cfg Development (Finite 0) (Finite 60) ((True, 5), []) =
   Some (Inr \<lparr>mr_mode = ''development'', mr_service_active = False, mr_worker_ready = False,
     mr_worker_draining = False, mr_active_job_id = None, mr_gpu_processes = []\<rparr>, (False, 5), ex_calls)"
  by code_simp

lemma ex_clock_host: "host_clock ex_mode_host snd"
  by (auto simp: host_clock_def ex_mode_host_def)

theorem mode_transitions_safe_witness:
  "wt_ok (watched ex_mode_cfg ex_calls) \<and> wt_handed (watched ex_mode_cfg ex_calls) \<and>
   Ran [''systemctl'', ''stop'', ''s''] (ex_answer 0 []) \<in> set ex_calls \<and>
   (\<exists>out. mode_main ex_mode_host ex_mode_cfg Development (Finite 3) (Finite 60) (True, 5) = Some out)"
proof -
  have "Ran [''systemctl'', ''stop'', ''s''] (ex_answer 0 []) \<in> set ex_calls" by code_simp
  moreover have "0 < mc_poll_interval_seconds ex_mode_cfg" by (simp add: ex_mode_cfg_def)
  ultimately show ?thesis
    using mode_transitions_safe [of ex_mode_host ex_mode_cfg Development "Finite 0" "Finite 60" "(True, 5)" _ "(False, 5)" ex_calls snd 3 60]
      ex_mode_run ex_clock_host by auto
qed

end
