(* ===== verification/Runtime_Planner.thy ===== *)
theory Runtime_Planner
  imports Runtime_Contracts Scheduling
begin

text \<open>
  \<open>src/src/astrumweaver/runtime/planner.py\<close>: deterministic planning over a catalogue of runtime
  providers. A provider is the record of its operations; whatever it raises is passed on. The
  lemmas give the contract of the planner: an explicit choice is kept or refused and never
  replaced, a recommendation never chooses, and the list of compatible providers is exactly the
  providers that accept a worker and host that meet the demand, in sorted order.
\<close>

section \<open>Errors and resolutions\<close>

datatype planner_error =
    Selection_Error string "string option" "compatibility_reason list"
  | Planner_Exc py_exc
  | Planner_Assertion

record runtime_resolution =
  rz_selection :: runtime_selection
  rz_selected_provider_id :: "string option"
  rz_compatible_provider_ids :: "string list"
  rz_reports :: "(string, runtime_compatibility) dict"

definition mk_runtime_resolution ::
  "runtime_selection \<Rightarrow> string option \<Rightarrow> string list \<Rightarrow> (string, runtime_compatibility) dict
    \<Rightarrow> planner_error + runtime_resolution" where
  "mk_runtime_resolution selection selected compatible_ids reports =
     (if rs_mode selection = EXPLICIT \<and> selected \<noteq> rs_provider_id selection
      then Inl (Planner_Exc (ValueError (Inconsistent ''provider_id'')))
      else if rs_mode selection \<noteq> EXPLICIT \<and> selected \<noteq> None
      then Inl (Planner_Exc (ValueError (Inconsistent ''selected_provider_id'')))
      else Inr \<lparr>rz_selection = selection, rz_selected_provider_id = selected,
                rz_compatible_provider_ids = compatible_ids, rz_reports = reports\<rparr>)"

section \<open>RuntimeCatalog\<close>

type_synonym runtime_catalog = "(string, runtime_provider) dict"

fun catalog_loop :: "runtime_catalog \<Rightarrow> runtime_provider list \<Rightarrow> runtime_catalog res" where
  "catalog_loop indexed [] = Inr indexed"
| "catalog_loop indexed (provider # rest) = (let provider_id = rp_provider_id provider in
     if dict_get indexed provider_id \<noteq> None
     then Inl (ValueError (Contains_duplicates provider_id))
     else catalog_loop (dict_set provider_id provider indexed) rest)"

definition mk_runtime_catalog :: "runtime_provider list \<Rightarrow> runtime_catalog res" where
  "mk_runtime_catalog providers = catalog_loop [] providers"

definition catalog_get :: "runtime_catalog \<Rightarrow> string \<Rightarrow> runtime_provider option" where
  "catalog_get catalog provider_id = dict_get catalog provider_id"

text \<open>\<open>sorted(d)\<close>: the keys in code-point order.\<close>

definition sorted_keys :: "(string, 'v) dict \<Rightarrow> string list" where
  "sorted_keys d = sort (map fst d)"

definition catalog_providers :: "runtime_catalog \<Rightarrow> runtime_provider list" where
  "catalog_providers catalog = map (\<lambda>k. the (dict_get catalog k)) (sorted_keys catalog)"

section \<open>Generic reasons\<close>

text \<open>The text of an integer in an f-string.\<close>

definition int_text :: "int \<Rightarrow> string" where
  "int_text n = (if n < 0 then CHR ''-'' # show_nat (nat (- n)) else show_nat (nat n))"

definition blocking_reason :: "string \<Rightarrow> string \<Rightarrow> compatibility_reason" where
  "blocking_reason code message = \<lparr>cr_code = code, cr_message = message, cr_blocking = True\<rparr>"

definition topology_reasons :: "gpu_topology \<Rightarrow> int \<Rightarrow> compatibility_reason list" where
  "topology_reasons topology gpus = (case topology of
     TOPO_NONE \<Rightarrow> if gpus \<noteq> 0
       then [blocking_reason ''gpu-topology-mismatch''
         ''execution demand requests no GPU but the selected Worker is a GPU-owned compute unit'']
       else []
   | SINGLE_GPU \<Rightarrow> if gpus \<noteq> 1
       then [blocking_reason ''gpu-topology-mismatch'' ''single_gpu execution requires a one-GPU Worker'']
       else []
   | MULTI_GPU \<Rightarrow> if gpus < 2
       then [blocking_reason ''gpu-topology-mismatch''
         ''multi_gpu execution requires a Worker with at least two GPUs'']
       else [])"

definition host_ram_reasons :: "runtime_host_facts \<Rightarrow> execution_demand \<Rightarrow> compatibility_reason list" where
  "host_ram_reasons host demand =
     (if hf_host_ram_mb host < ed_min_host_ram_mb demand
      then [blocking_reason ''insufficient-host-ram''
              (''Host RAM '' @ int_text (hf_host_ram_mb host) @ '' MiB is below required '' @
               int_text (ed_min_host_ram_mb demand) @ '' MiB'')]
      else if ed_preferred_host_ram_mb demand \<noteq> 0 \<and>
              hf_host_ram_mb host < ed_preferred_host_ram_mb demand
      then [\<lparr>cr_code = ''below-preferred-host-ram'',
             cr_message = ''Host RAM '' @ int_text (hf_host_ram_mb host) @
               '' MiB is below preferred '' @ int_text (ed_preferred_host_ram_mb demand) @ '' MiB'',
             cr_blocking = False\<rparr>]
      else [])"

definition generic_reasons :: "runtime_context \<Rightarrow> compatibility_reason list" where
  "generic_reasons context = (let
     resources = ws_resources (cx_worker context);
     host = cx_host context;
     demand = cx_demand context
     in
     topology_reasons (ed_gpu_topology demand) (gpu_count resources) @
     (if gpu_count resources < effective_min_gpu_count demand
      then [blocking_reason ''insufficient-gpu-count''
              (''Worker exposes '' @ int_text (gpu_count resources) @ '' GPUs but demand requires at least '' @
               int_text (effective_min_gpu_count demand))]
      else []) @
     (if total_vram_mb resources < ed_min_total_vram_mb demand
      then [blocking_reason ''insufficient-total-vram''
              (''Worker total VRAM '' @ int_text (total_vram_mb resources) @ '' MiB is below required '' @
               int_text (ed_min_total_vram_mb demand) @ '' MiB'')]
      else []) @
     (if max_single_gpu_vram_mb resources < ed_min_single_gpu_vram_mb demand
      then [blocking_reason ''insufficient-single-gpu-vram''
              (''Worker maximum single-device VRAM '' @ int_text (max_single_gpu_vram_mb resources) @
               '' MiB is below required '' @ int_text (ed_min_single_gpu_vram_mb demand) @ '' MiB'')]
      else []) @
     host_ram_reasons host demand)"

section \<open>Evaluation and resolution\<close>

definition evaluate_provider ::
  "runtime_provider \<Rightarrow> runtime_context \<Rightarrow> runtime_compatibility res" where
  "evaluate_provider provider context = (let generic = generic_reasons context in
     rbind (rp_compatibility provider context) (\<lambda>provider_report.
     if rc_provider_id provider_report \<noteq> rp_provider_id provider
     then Inl (ValueError (Inconsistent ''provider_id''))
     else mk_runtime_compatibility (rp_provider_id provider) (generic @ rc_reasons provider_report)))"

fun catalog_reports ::
  "runtime_context \<Rightarrow> (string, runtime_compatibility) dict \<Rightarrow> runtime_provider list
    \<Rightarrow> (string, runtime_compatibility) dict res" where
  "catalog_reports context reports [] = Inr reports"
| "catalog_reports context reports (provider # rest) =
     rbind (evaluate_provider provider context) (\<lambda>report.
       catalog_reports context (dict_set (rp_provider_id provider) report reports) rest)"

definition evaluate_catalog ::
  "runtime_catalog \<Rightarrow> runtime_context \<Rightarrow> (string, runtime_compatibility) dict res" where
  "evaluate_catalog catalog context = catalog_reports context [] (catalog_providers catalog)"

definition compatible_ids :: "(string, runtime_compatibility) dict \<Rightarrow> string list" where
  "compatible_ids reports =
     filter (\<lambda>provider_id. case dict_get reports provider_id of
         None \<Rightarrow> False | Some report \<Rightarrow> compatible report) (sorted_keys reports)"

definition resolve_runtime ::
  "runtime_catalog \<Rightarrow> runtime_context \<Rightarrow> runtime_selection \<Rightarrow> planner_error + runtime_resolution" where
  "resolve_runtime catalog context selection =
     (case evaluate_catalog catalog context of
        Inl e \<Rightarrow> Inl (Planner_Exc e)
      | Inr reports \<Rightarrow>
          if rs_mode selection = RECOMMEND
          then mk_runtime_resolution selection None (compatible_ids reports) reports
          else (case rs_provider_id selection of
            None \<Rightarrow> Inl Planner_Assertion
          | Some provider_id \<Rightarrow>
              (case catalog_get catalog provider_id of
                 None \<Rightarrow> Inl (Selection_Error
                   (''explicit runtime provider is not installed: '' @ provider_id) (Some provider_id)
                   [blocking_reason ''provider-not-found''
                      ''selected runtime provider is not present in the catalog''])
               | Some provider \<Rightarrow>
                   (case dict_get reports provider_id of
                      None \<Rightarrow> Inl (Planner_Exc (KeyError provider_id))
                    | Some report \<Rightarrow>
                        if \<not> compatible report
                        then Inl (Selection_Error
                          (''explicit runtime selection is incompatible: '' @ provider_id)
                          (Some provider_id) (rc_reasons report))
                        else mk_runtime_resolution selection (Some provider_id)
                          (compatible_ids reports) reports))))"

section \<open>The contract of a demand\<close>

text \<open>What the worker and its host must have to serve a demand, brand of runtime apart.\<close>

definition meets_demand :: "runtime_context \<Rightarrow> bool" where
  "meets_demand cx \<longleftrightarrow> (let r = ws_resources (cx_worker cx); d = cx_demand cx in
     (case ed_gpu_topology d of TOPO_NONE \<Rightarrow> gpu_count r = 0 | SINGLE_GPU \<Rightarrow> gpu_count r = 1
      | MULTI_GPU \<Rightarrow> 2 \<le> gpu_count r) \<and>
     ed_min_gpu_count d \<le> gpu_count r \<and> ed_min_total_vram_mb d \<le> total_vram_mb r \<and>
     ed_min_single_gpu_vram_mb d \<le> max_single_gpu_vram_mb r \<and>
     ed_min_host_ram_mb d \<le> hf_host_ram_mb (cx_host cx))"

lemma topology_reasons_Nil:
  "topology_reasons topo n = [] \<longleftrightarrow>
     (case topo of TOPO_NONE \<Rightarrow> n = 0 | SINGLE_GPU \<Rightarrow> n = 1 | MULTI_GPU \<Rightarrow> 2 \<le> n)"
  by (cases topo) (auto simp: topology_reasons_def)

lemma topology_reasons_block: "list_ex cr_blocking (topology_reasons topo n) \<longleftrightarrow> topology_reasons topo n \<noteq> []"
  by (cases topo) (auto simp: topology_reasons_def blocking_reason_def)

lemma host_ram_reasons_block:
  "list_ex cr_blocking (host_ram_reasons h d) \<longleftrightarrow> hf_host_ram_mb h < ed_min_host_ram_mb d"
  by (auto simp: host_ram_reasons_def blocking_reason_def)

lemma list_ex_if [simp]: "list_ex p (if b then [x] else []) \<longleftrightarrow> b \<and> p x"
  by simp

lemma generic_reasons_block:
  assumes "demand_ok (cx_demand cx)"
  shows "list_ex cr_blocking (generic_reasons cx) \<longleftrightarrow> \<not> meets_demand cx"
proof (cases "ed_gpu_topology (cx_demand cx)")
qed (use assms in \<open>auto simp: generic_reasons_def meets_demand_def Let_def topology_reasons_block
      topology_reasons_Nil host_ram_reasons_block effective_min_gpu_count_def demand_ok_def
      topology_ok_def blocking_reason_def\<close>)

section \<open>The catalogue\<close>

definition catalog_ok :: "runtime_catalog \<Rightarrow> bool" where
  "catalog_ok c \<longleftrightarrow> dict_ok c \<and> (\<forall>k p. dict_get c k = Some p \<longrightarrow> rp_provider_id p = k)"

lemma catalog_loop_ok:
  "catalog_loop acc ps = Inr c \<Longrightarrow> catalog_ok acc \<Longrightarrow>
     catalog_ok c \<and> map snd c = map snd acc @ ps"
proof (induction ps arbitrary: acc)
  case Nil
  then show ?case by simp
next
  case (Cons p ps)
  let ?acc = "dict_set (rp_provider_id p) p acc"
  from Cons.prems have new: "dict_get acc (rp_provider_id p) = None" and loop: "catalog_loop ?acc ps = Inr c"
    by (auto simp: Let_def split: if_splits)
  have "catalog_ok ?acc"
    using Cons.prems(2) by (auto simp: catalog_ok_def dict_get_set)
  moreover have "?acc = acc @ [(rp_provider_id p, p)]"
    using new by (simp add: dict_set_append_new map_of_eq_None_iff)
  ultimately show ?case using Cons.IH [OF loop] by simp
qed

lemma mk_runtime_catalog_ok:
  "mk_runtime_catalog ps = Inr c \<Longrightarrow> catalog_ok c \<and> map snd c = ps"
  unfolding mk_runtime_catalog_def
  by (drule catalog_loop_ok) (simp_all add: catalog_ok_def)

lemma set_sorted_keys [simp]: "set (sorted_keys d) = dom (dict_get d)"
  by (simp add: sorted_keys_def dom_map_of_conv_image_fst)

lemma sorted_sorted_keys [simp]: "sorted (sorted_keys d)"
  by (simp add: sorted_keys_def)

lemma distinct_sorted_keys [simp]: "dict_ok d \<Longrightarrow> distinct (sorted_keys d)"
  by (simp add: sorted_keys_def)

lemma catalog_providers_ids:
  "catalog_ok c \<Longrightarrow> map rp_provider_id (catalog_providers c) = sorted_keys c"
proof -
  assume ok: "catalog_ok c"
  then have "rp_provider_id (the (dict_get c k)) = k" if "k \<in> set (sorted_keys c)" for k
    using that by (auto simp: catalog_ok_def)
  then show ?thesis by (auto simp: catalog_providers_def comp_def intro!: map_idI)
qed

lemma set_catalog_providers: "catalog_ok c \<Longrightarrow> set (catalog_providers c) = ran (dict_get c)"
  by (force simp: catalog_providers_def ran_def dom_def image_iff)

section \<open>Evaluating the catalogue\<close>

lemma catalog_reports_Inr:
  "catalog_reports cx acc ps = Inr rs \<Longrightarrow> distinct (map rp_provider_id ps) \<Longrightarrow> dict_ok acc \<Longrightarrow>
     dict_ok rs \<and> (\<forall>k. dict_get rs k =
       (case find (\<lambda>p. rp_provider_id p = k) ps of
          None \<Rightarrow> dict_get acc k
        | Some p \<Rightarrow> (case evaluate_provider p cx of Inl _ \<Rightarrow> None | Inr r \<Rightarrow> Some r)))"
proof (induction ps arbitrary: acc)
  case Nil
  then show ?case by simp
next
  case (Cons p ps)
  from Cons.prems(1) obtain r where r: "evaluate_provider p cx = Inr r"
    and loop: "catalog_reports cx (dict_set (rp_provider_id p) r acc) ps = Inr rs"
    by (auto simp: rbind_eq_Inr)
  have "find (\<lambda>q. rp_provider_id q = rp_provider_id p) ps = None"
    using Cons.prems(2) by (auto simp: find_None_iff image_iff)
  then show ?case
    using Cons.IH [OF loop] Cons.prems r by (auto simp: dict_get_set split: option.splits)
qed

lemma find_catalog_providers:
  assumes "catalog_ok c"
  shows "find (\<lambda>p. rp_provider_id p = k) (catalog_providers c) = dict_get c k"
proof (cases "dict_get c k")
  case None
  then show ?thesis using assms
    by (auto simp: find_None_iff set_catalog_providers ran_def catalog_ok_def)
next
  case (Some p)
  let ?find = "find (\<lambda>p. rp_provider_id p = k) (catalog_providers c)"
  have "p \<in> set (catalog_providers c)" "rp_provider_id p = k"
    using assms Some by (auto simp: set_catalog_providers ran_def catalog_ok_def)
  then have "?find \<noteq> None" unfolding find_None_iff by blast
  then obtain q where q: "?find = Some q" by blast
  then have "q \<in> set (catalog_providers c)" "rp_provider_id q = k"
    unfolding find_Some_iff by auto
  with assms Some have "q = p" by (auto simp: set_catalog_providers ran_def catalog_ok_def)
  with q Some show ?thesis by simp
qed

lemma evaluate_catalog_Inr:
  assumes "evaluate_catalog c cx = Inr rs" "catalog_ok c"
  shows "dict_ok rs"
    and "dict_get rs k = (case dict_get c k of None \<Rightarrow> None
           | Some p \<Rightarrow> (case evaluate_provider p cx of Inl _ \<Rightarrow> None | Inr r \<Rightarrow> Some r))"
proof -
  have "distinct (map rp_provider_id (catalog_providers c))"
    using assms(2) by (simp add: catalog_providers_ids) (simp add: catalog_ok_def)
  then show "dict_ok rs"
    "dict_get rs k = (case dict_get c k of None \<Rightarrow> None
       | Some p \<Rightarrow> (case evaluate_provider p cx of Inl _ \<Rightarrow> None | Inr r \<Rightarrow> Some r))"
    using catalog_reports_Inr [of cx "[]" "catalog_providers c" rs] assms
    by (simp_all add: evaluate_catalog_def find_catalog_providers split: option.split)
qed

lemma catalog_reports_total:
  "(\<And>p. p \<in> set ps \<Longrightarrow> \<exists>r. evaluate_provider p cx = Inr r) \<Longrightarrow> \<exists>rs. catalog_reports cx acc ps = Inr rs"
proof (induction ps arbitrary: acc)
  case Nil
  then show ?case by simp
next
  case (Cons p ps)
  then obtain r where "evaluate_provider p cx = Inr r" by auto
  with Cons show ?case by simp
qed

lemma catalog_reports_evaluated:
  "catalog_reports cx acc ps = Inr rs \<Longrightarrow> p \<in> set ps \<Longrightarrow> \<exists>r. evaluate_provider p cx = Inr r"
  by (induction ps arbitrary: acc) (auto simp: rbind_eq_Inr)

text \<open>A provider accepts a context when the demand is met and it has no blocking reason itself.\<close>

definition accepts :: "runtime_provider \<Rightarrow> runtime_context \<Rightarrow> bool" where
  "accepts p cx \<longleftrightarrow> meets_demand cx \<and>
     (\<exists>r. rp_compatibility p cx = Inr r \<and> compatible r)"

lemma evaluate_provider_compatible:
  assumes "evaluate_provider p cx = Inr r" "demand_ok (cx_demand cx)"
  shows "compatible r \<longleftrightarrow> accepts p cx"
  using assms generic_reasons_block [OF assms(2)]
  by (auto simp: evaluate_provider_def accepts_def compatible_def mk_runtime_compatibility_def
      rbind_eq_Inr Let_def split: if_splits)

lemma compatible_ids_exact:
  assumes "evaluate_catalog c cx = Inr rs" "catalog_ok c" "demand_ok (cx_demand cx)"
  shows "set (compatible_ids rs) = {k. \<exists>p. dict_get c k = Some p \<and> accepts p cx}"
    and "sorted (compatible_ids rs)" and "distinct (compatible_ids rs)"
proof -
  have ev: "\<exists>r. evaluate_provider p cx = Inr r" if "dict_get c k = Some p" for k p
  proof -
    have "p \<in> set (catalog_providers c)"
      using that assms(2) by (auto simp: set_catalog_providers ran_def)
    with assms(1) show ?thesis unfolding evaluate_catalog_def by (rule catalog_reports_evaluated)
  qed
  show "set (compatible_ids rs) = {k. \<exists>p. dict_get c k = Some p \<and> accepts p cx}"
    using ev evaluate_provider_compatible [OF _ assms(3)]
    by (fastforce simp: compatible_ids_def evaluate_catalog_Inr(2) [OF assms(1,2)] dom_def
        split: option.splits sum.splits)
  show "sorted (compatible_ids rs)" by (simp add: compatible_ids_def sorted_wrt_filter)
  show "distinct (compatible_ids rs)"
    by (simp add: compatible_ids_def evaluate_catalog_Inr(1) [OF assms(1,2)])
qed

section \<open>Determinism\<close>

lemma catalog_get_unique:
  assumes "mk_runtime_catalog ps = Inr c"
  shows "dict_get c k = Some p \<longleftrightarrow> p \<in> set ps \<and> rp_provider_id p = k"
proof -
  from mk_runtime_catalog_ok [OF assms] have ok: "catalog_ok c" and ps: "map snd c = ps" by auto
  show ?thesis
  proof
    assume "dict_get c k = Some p"
    with ok ps show "p \<in> set ps \<and> rp_provider_id p = k"
      by (auto simp: catalog_ok_def dest: dict_get_value)
  next
    assume p: "p \<in> set ps \<and> rp_provider_id p = k"
    with ps have "p \<in> set (dict_values c)" by simp
    with ok obtain k' where "dict_get c k' = Some p"
      using dict_value_get [of c p] by (auto simp: catalog_ok_def)
    with ok p show "dict_get c k = Some p" by (auto simp: catalog_ok_def)
  qed
qed

lemma catalog_same:
  assumes "mk_runtime_catalog ps = Inr c" "mk_runtime_catalog qs = Inr d" "set ps = set qs"
  shows "dict_get c = dict_get d" and "sorted_keys c = sorted_keys d"
proof -
  show get: "dict_get c = dict_get d"
  proof
    fix k
    show "dict_get c k = dict_get d k"
      using catalog_get_unique [OF assms(1), of k] catalog_get_unique [OF assms(2), of k] assms(3)
      by (metis not_None_eq)
  qed
  have "dict_ok c" "dict_ok d"
    using mk_runtime_catalog_ok [OF assms(1)] mk_runtime_catalog_ok [OF assms(2)]
    by (auto simp: catalog_ok_def)
  then show "sorted_keys c = sorted_keys d"
    using get by (intro sorted_distinct_set_unique) simp_all
qed

section \<open>Properties\<close>

text \<open>A provider that answers for itself: the contract of the provider protocol.\<close>

definition answers_for_itself :: "runtime_provider \<Rightarrow> runtime_context \<Rightarrow> bool" where
  "answers_for_itself p cx \<longleftrightarrow> norm_text (rp_provider_id p) \<and>
     (case rp_compatibility p cx of Inl _ \<Rightarrow> False | Inr r \<Rightarrow> rc_provider_id r = rp_provider_id p)"

lemma evaluate_provider_total: "answers_for_itself p cx \<Longrightarrow> \<exists>r. evaluate_provider p cx = Inr r"
  by (auto simp: answers_for_itself_def evaluate_provider_def mk_runtime_compatibility_def Let_def
      split: sum.splits)

lemma evaluate_catalog_total:
  assumes "mk_runtime_catalog ps = Inr c" "\<forall>p \<in> set ps. answers_for_itself p cx"
  shows "\<exists>rs. evaluate_catalog c cx = Inr rs"
proof -
  from mk_runtime_catalog_ok [OF assms(1)] have "set (catalog_providers c) \<subseteq> set ps"
    by (auto simp: set_catalog_providers ran_def dest: dict_get_value)
  with assms(2) show ?thesis
    unfolding evaluate_catalog_def
    by (intro catalog_reports_total evaluate_provider_total) auto
qed

text \<open>
  C19. An explicit runtime choice is never replaced. Over a catalogue of providers that answer for
  themselves, resolving an explicit selection either gives back the chosen provider, which is then
  installed and accepts the context, or fails with a selection error that names the chosen provider
  and carries a blocking reason; it fails exactly when no installed provider of that name accepts.
\<close>

theorem explicit_selection_kept:
  assumes cat: "mk_runtime_catalog ps = Inr c"
    and sel: "rs_mode sel = EXPLICIT" "rs_provider_id sel = Some k"
    and dem: "demand_ok (cx_demand cx)"
    and ans: "\<forall>p \<in> set ps. answers_for_itself p cx"
  shows "case resolve_runtime c cx sel of
      Inr z \<Rightarrow> rz_selected_provider_id z = Some k \<and> rz_selection z = sel \<and>
        k \<in> set (rz_compatible_provider_ids z) \<and>
        (\<exists>p \<in> set ps. rp_provider_id p = k \<and> accepts p cx)
    | Inl e \<Rightarrow> (\<exists>msg rs. e = Selection_Error msg (Some k) rs \<and> list_ex cr_blocking rs) \<and>
        \<not> (\<exists>p \<in> set ps. rp_provider_id p = k \<and> accepts p cx)"
proof -
  have ok: "catalog_ok c" using mk_runtime_catalog_ok [OF cat] by simp
  obtain rs where rs: "evaluate_catalog c cx = Inr rs"
    using evaluate_catalog_total [OF cat ans] by blast
  note get = catalog_get_unique [OF cat]
  show ?thesis
  proof (cases "dict_get c k")
    case None
    then have "\<not> (\<exists>p \<in> set ps. rp_provider_id p = k \<and> accepts p cx)" by (metis get option.distinct(1))
    with None rs sel show ?thesis
      by (simp add: resolve_runtime_def catalog_get_def blocking_reason_def)
  next
    case (Some p)
    then have p: "p \<in> set ps" "rp_provider_id p = k" by (simp_all add: get)
    have "q = p" if "q \<in> set ps" "rp_provider_id q = k" for q
      using that Some get [of k q] by simp
    with p have only: "(\<exists>q \<in> set ps. rp_provider_id q = k \<and> accepts q cx) \<longleftrightarrow> accepts p cx"
      by blast
    from p ans obtain r where r: "evaluate_provider p cx = Inr r"
      using evaluate_provider_total by blast
    then have rk: "dict_get rs k = Some r" using evaluate_catalog_Inr(2) [OF rs ok] Some by simp
    have acc: "compatible r \<longleftrightarrow> accepts p cx" by (rule evaluate_provider_compatible [OF r dem])
    have ids: "accepts p cx \<longleftrightarrow> k \<in> set (compatible_ids rs)"
      using compatible_ids_exact(1) [OF rs ok dem] Some by auto
    show ?thesis
      using sel rs rk acc ids only Some
      by (cases "compatible r")
        (simp_all add: resolve_runtime_def catalog_get_def mk_runtime_resolution_def compatible_def)
  qed
qed

text \<open>
  A recommendation never chooses. It always succeeds over providers that answer for themselves,
  leaves the selection open, and lists in sorted order, each once, exactly the installed providers
  that accept the context: those for which worker and host meet the demand (topology, GPU count,
  both memory minima and host memory) and which state no blocking reason of their own.
\<close>

theorem recommendation_lists_compatible:
  assumes cat: "mk_runtime_catalog ps = Inr c"
    and sel: "rs_mode sel = RECOMMEND" "rs_provider_id sel = None"
    and dem: "demand_ok (cx_demand cx)"
    and ans: "\<forall>p \<in> set ps. answers_for_itself p cx"
  shows "\<exists>z. resolve_runtime c cx sel = Inr z \<and> rz_selected_provider_id z = None \<and>
    sorted (rz_compatible_provider_ids z) \<and> distinct (rz_compatible_provider_ids z) \<and>
    set (rz_compatible_provider_ids z) = rp_provider_id ` {p \<in> set ps. accepts p cx}"
proof -
  have ok: "catalog_ok c" using mk_runtime_catalog_ok [OF cat] by simp
  obtain rs where rs: "evaluate_catalog c cx = Inr rs"
    using evaluate_catalog_total [OF cat ans] by blast
  have "set (compatible_ids rs) = rp_provider_id ` {p \<in> set ps. accepts p cx}"
    using compatible_ids_exact(1) [OF rs ok dem] catalog_get_unique [OF cat] by auto
  with compatible_ids_exact(2,3) [OF rs ok dem] show ?thesis
    by (simp add: resolve_runtime_def rs sel mk_runtime_resolution_def)
qed

text \<open>
  Planning is deterministic: the order in which the providers of a catalogue are given changes
  neither the outcome of a resolution nor any report, error or list in it.
\<close>

theorem planner_order_independent:
  assumes "mk_runtime_catalog ps = Inr c" "mk_runtime_catalog qs = Inr d" "set ps = set qs"
  shows "resolve_runtime c cx sel = resolve_runtime d cx sel"
proof -
  note same = catalog_same [OF assms]
  have "evaluate_catalog c = evaluate_catalog d"
    by (simp add: evaluate_catalog_def catalog_providers_def same fun_eq_iff)
  moreover have "catalog_get c = catalog_get d"
    by (simp add: catalog_get_def same fun_eq_iff)
  ultimately show ?thesis by (simp only: resolve_runtime_def)
qed

section \<open>Witnesses\<close>

definition ex_provider :: "string \<Rightarrow> string list \<Rightarrow> runtime_provider" where
  "ex_provider k codes = \<lparr>rp_info = \<lparr>pi_provider_id = k, pi_display_name = k, pi_description = []\<rparr>,
     rp_config = None,
     rp_compatibility = (\<lambda>_. Inr \<lparr>rc_provider_id = k,
       rc_reasons = map (\<lambda>code. blocking_reason code code) codes\<rparr>),
     rp_setup_intent = (\<lambda>_. Inl AttributeError)\<rparr>"

definition ex_demand :: execution_demand where
  "ex_demand = \<lparr>ed_model = \<lparr>md_model_ref = ''m'', md_model_format = ''gguf'', md_topology = DENSE,
       md_estimated_size_mb = None, md_metadata = []\<rparr>,
     ed_residency_policy = VRAM_ONLY, ed_gpu_topology = SINGLE_GPU, ed_min_gpu_count = 1,
     ed_min_total_vram_mb = 16, ed_min_single_gpu_vram_mb = 16, ed_min_host_ram_mb = 8,
     ed_preferred_host_ram_mb = 64, ed_metadata = []\<rparr>"

definition ex_context :: runtime_context where
  "ex_context = \<lparr>cx_worker = ex_matched_worker,
     cx_host = \<lparr>hf_cpu_count = 8, hf_host_ram_mb = 32, hf_architecture = ''x86_64'', hf_labels = []\<rparr>,
     cx_demand = ex_demand\<rparr>"

definition ex_providers :: "runtime_provider list" where
  "ex_providers = [ex_provider ''vllm'' [], ex_provider ''ollama'' [],
     ex_provider ''exl'' [''no-kernel'']]"

definition ex_catalog :: runtime_catalog where
  "ex_catalog = map (\<lambda>p. (rp_provider_id p, p)) ex_providers"

lemmas ex_planner = ex_providers_def ex_provider_def ex_catalog_def ex_context_def ex_demand_def
  ex_matched_worker_def

lemma ex_catalog_made: "mk_runtime_catalog ex_providers = Inr ex_catalog"
  by (simp add: mk_runtime_catalog_def ex_planner Let_def)

lemma ex_answers: "\<forall>p \<in> set ex_providers. answers_for_itself p ex_context"
  by (simp add: ex_planner answers_for_itself_def norm_text_def py_strip_def is_space_def Let_def)

lemma ex_demand_ok: "demand_ok (cx_demand ex_context)"
  by (simp add: ex_planner demand_ok_def topology_ok_def)

lemma ex_accepts: "accepts (ex_provider k codes) ex_context \<longleftrightarrow> codes = []"
  by (cases codes) (auto simp: accepts_def meets_demand_def compatible_def ex_planner blocking_reason_def)

theorem explicit_selection_kept_witness:
  "(\<exists>e. resolve_runtime ex_catalog ex_context \<lparr>rs_mode = EXPLICIT, rs_provider_id = Some ''exl''\<rparr> = Inl e) \<and>
   (\<exists>z. resolve_runtime ex_catalog ex_context \<lparr>rs_mode = EXPLICIT, rs_provider_id = Some ''vllm''\<rparr> = Inr z
      \<and> rz_selected_provider_id z = Some ''vllm'')"
proof -
  have ids: "rp_provider_id (ex_provider k codes) = k" for k codes by (simp add: ex_provider_def)
  have "\<not> (\<exists>p \<in> set ex_providers. rp_provider_id p = ''exl'' \<and> accepts p ex_context)"
    "\<exists>p \<in> set ex_providers. rp_provider_id p = ''vllm'' \<and> accepts p ex_context"
    by (simp_all add: ex_providers_def ids ex_accepts)
  then show ?thesis
    using explicit_selection_kept [OF ex_catalog_made _ _ ex_demand_ok ex_answers,
        of "\<lparr>rs_mode = EXPLICIT, rs_provider_id = Some ''exl''\<rparr>" "''exl''"]
      explicit_selection_kept [OF ex_catalog_made _ _ ex_demand_ok ex_answers,
        of "\<lparr>rs_mode = EXPLICIT, rs_provider_id = Some ''vllm''\<rparr>" "''vllm''"]
    by (auto split: sum.splits)
qed

theorem recommendation_lists_compatible_witness:
  "\<exists>z. resolve_runtime ex_catalog ex_context \<lparr>rs_mode = RECOMMEND, rs_provider_id = None\<rparr> = Inr z \<and>
     rz_selected_provider_id z = None \<and> sorted (rz_compatible_provider_ids z) \<and>
     set (rz_compatible_provider_ids z) = {''ollama'', ''vllm''}"
proof -
  have "rp_provider_id ` {p \<in> set ex_providers. accepts p ex_context} = {''ollama'', ''vllm''}"
  proof -
    have "{p \<in> set ex_providers. accepts p ex_context} = {ex_provider ''vllm'' [], ex_provider ''ollama'' []}"
      unfolding ex_providers_def by (auto simp: ex_accepts)
    then show ?thesis by (simp add: ex_provider_def insert_commute)
  qed
  then show ?thesis
    using recommendation_lists_compatible [OF ex_catalog_made _ _ ex_demand_ok ex_answers,
        of "\<lparr>rs_mode = RECOMMEND, rs_provider_id = None\<rparr>"]
    by auto
qed

theorem planner_order_independent_witness:
  "resolve_runtime ex_catalog ex_context \<lparr>rs_mode = RECOMMEND, rs_provider_id = None\<rparr> =
   resolve_runtime (rev ex_catalog) ex_context \<lparr>rs_mode = RECOMMEND, rs_provider_id = None\<rparr>"
proof (rule planner_order_independent [OF ex_catalog_made])
  show "mk_runtime_catalog (rev ex_providers) = Inr (rev ex_catalog)"
    by (simp add: mk_runtime_catalog_def ex_planner Let_def)
  show "set ex_providers = set (rev ex_providers)" by simp
qed

end
