(* ===== verification/Runtime_Deployment.thy ===== *)
theory Runtime_Deployment
  imports Runtime_Contracts Transport
begin

text \<open>
  \<open>src/src/astrumweaver/runtime/deployment.py\<close>: the deployment a worker service persists (the
  chosen provider, its configuration, the execution demand and the reviewed setup intent), its
  JSON form, the host facts read from \<open>/proc/meminfo\<close>, and building the runtime from it. The
  free-form fields (configuration, metadata) hold JSON values, on which \<open>_json_value\<close> is the
  identity. The table of provider classes is an argument. The lemmas are the round trip of the
  persisted form and that a restored deployment keeps the provider that was chosen.
\<close>

section \<open>RuntimeDeploymentSpec\<close>

record runtime_deployment_spec =
  dp_provider_id :: string
  dp_provider_config :: obj
  dp_demand :: execution_demand
  dp_setup_intent :: "runtime_setup_intent option"
  dp_schema_version :: string

definition mk_runtime_deployment_spec ::
  "string \<Rightarrow> obj \<Rightarrow> execution_demand \<Rightarrow> runtime_setup_intent option \<Rightarrow> string
    \<Rightarrow> runtime_deployment_spec res" where
  "mk_runtime_deployment_spec raw_provider_id provider_config demand setup_intent raw_version =
     (let provider_id = py_strip raw_provider_id; schema_version = py_strip raw_version in
      if provider_id = [] then Inl (ValueError (Must_not_be_blank ''provider_id''))
      else if (case setup_intent of None \<Rightarrow> False | Some s \<Rightarrow> si_provider_id s \<noteq> provider_id)
      then Inl (ValueError (Inconsistent ''setup_intent''))
      else if schema_version \<noteq> ''v1'' then Inl (ValueError (Malformed ''schema_version''))
      else Inr \<lparr>dp_provider_id = provider_id, dp_provider_config = provider_config,
                dp_demand = demand, dp_setup_intent = setup_intent,
                dp_schema_version = schema_version\<rparr>)"

section \<open>The persisted form\<close>

definition json_int_opt :: "int option \<Rightarrow> json" where
  "json_int_opt x = (case x of None \<Rightarrow> JNull | Some n \<Rightarrow> JInt n)"

definition model_to_dict :: "model_demand \<Rightarrow> obj" where
  "model_to_dict model = [
     (''model_ref'', JStr (md_model_ref model)),
     (''model_format'', JStr (md_model_format model)),
     (''topology'', JStr (model_topology_value (md_topology model))),
     (''estimated_size_mb'', json_int_opt (md_estimated_size_mb model)),
     (''metadata'', JObj (md_metadata model))]"

definition demand_to_dict :: "execution_demand \<Rightarrow> obj" where
  "demand_to_dict demand = [
     (''model'', JObj (model_to_dict (ed_model demand))),
     (''residency_policy'', JStr (residency_policy_value (ed_residency_policy demand))),
     (''gpu_topology'', JStr (gpu_topology_value (ed_gpu_topology demand))),
     (''min_gpu_count'', JInt (ed_min_gpu_count demand)),
     (''min_total_vram_mb'', JInt (ed_min_total_vram_mb demand)),
     (''min_single_gpu_vram_mb'', JInt (ed_min_single_gpu_vram_mb demand)),
     (''min_host_ram_mb'', JInt (ed_min_host_ram_mb demand)),
     (''preferred_host_ram_mb'', JInt (ed_preferred_host_ram_mb demand)),
     (''metadata'', JObj (ed_metadata demand))]"

definition intent_to_dict :: "runtime_setup_intent \<Rightarrow> obj" where
  "intent_to_dict setup = [
     (''provider_id'', JStr (si_provider_id setup)),
     (''package_references'', JList (map JStr (si_package_references setup))),
     (''configuration'', JObj (si_configuration setup)),
     (''model_preparation'', JStr (model_preparation_value (si_model_preparation setup))),
     (''model_ref'', json_opt (si_model_ref setup)),
     (''requires_privilege'', JBool (si_requires_privilege setup)),
     (''metadata'', JObj (si_metadata setup))]"

definition deployment_to_dict :: "runtime_deployment_spec \<Rightarrow> obj" where
  "deployment_to_dict spec = [
     (''schema_version'', JStr (dp_schema_version spec)),
     (''provider_id'', JStr (dp_provider_id spec)),
     (''provider_config'', JObj (dp_provider_config spec)),
     (''demand'', JObj (demand_to_dict (dp_demand spec))),
     (''setup_intent'', (case dp_setup_intent spec of None \<Rightarrow> JNull
        | Some setup \<Rightarrow> JObj (intent_to_dict setup)))]"

text \<open>\<open>dict(x)\<close>, and iterating over a value.\<close>

fun py_dict :: "json \<Rightarrow> obj res" where
  "py_dict (JObj d) = Inr d"
| "py_dict (JList xs) = (if xs = [] then Inr [] else Inl Unmodelled)"
| "py_dict (JStr s) = (if s = [] then Inr [] else Inl (ValueError (Malformed ''dict'')))"
| "py_dict _ = Inl (TypeError (Wrong_type ''dict''))"

fun py_iter :: "json \<Rightarrow> json list res" where
  "py_iter (JList xs) = Inr xs"
| "py_iter (JStr s) = Inr (map (\<lambda>c. JStr [c]) s)"
| "py_iter (JObj d) = Inr (map (\<lambda>p. JStr (fst p)) d)"
| "py_iter _ = Inl (TypeError (Wrong_type ''iterable''))"

definition str_item :: "obj \<Rightarrow> string \<Rightarrow> string res" where
  "str_item d k = rbind (json_item d k) py_str"

definition model_from_dict :: "obj \<Rightarrow> model_demand res" where
  "model_from_dict data =
     rbind (str_item data ''model_ref'') (\<lambda>ref.
     rbind (str_item data ''model_format'') (\<lambda>fmt.
     rbind (rbind (str_item data ''topology'') model_topology_of) (\<lambda>topo.
     rbind (as_mapping (json_get data ''metadata'')) (\<lambda>md.
       mk_model_demand ref fmt (model_topology_value topo)
         (json_get data ''estimated_size_mb'') md))))"

definition demand_from_dict :: "obj \<Rightarrow> obj \<Rightarrow> execution_demand res" where
  "demand_from_dict data model_data =
     rbind (model_from_dict model_data) (\<lambda>model.
     rbind (rbind (str_item data ''residency_policy'') residency_policy_of) (\<lambda>pol.
     rbind (rbind (str_item data ''gpu_topology'') gpu_topology_of) (\<lambda>topo.
     rbind (int_or_zero (json_get data ''min_gpu_count'')) (\<lambda>c.
     rbind (int_or_zero (json_get data ''min_total_vram_mb'')) (\<lambda>t.
     rbind (int_or_zero (json_get data ''min_single_gpu_vram_mb'')) (\<lambda>s.
     rbind (int_or_zero (json_get data ''min_host_ram_mb'')) (\<lambda>r.
     rbind (int_or_zero (json_get data ''preferred_host_ram_mb'')) (\<lambda>p.
     rbind (as_mapping (json_get data ''metadata'')) (\<lambda>md.
       mk_execution_demand model (residency_policy_value pol) (gpu_topology_value topo)
         (JInt c) (JInt t) (JInt s) (JInt r) (JInt p) md)))))))))"

definition intent_from_dict :: "obj \<Rightarrow> runtime_setup_intent res" where
  "intent_from_dict data =
     rbind (str_item data ''provider_id'') (\<lambda>pid.
     rbind (rbind (py_iter (json_get_or data ''package_references'' (JList []))) (rmap py_str)) (\<lambda>pkgs.
     rbind (as_mapping (json_get data ''configuration'')) (\<lambda>conf.
     rbind (rbind (py_str (json_get_or data ''model_preparation'' (JStr ''reference_only'')))
              model_preparation_of) (\<lambda>prep.
     rbind (as_mapping (json_get data ''metadata'')) (\<lambda>md.
       mk_runtime_setup_intent pid pkgs conf (model_preparation_value prep)
         (json_get data ''model_ref'')
         (py_truthy (json_get_or data ''requires_privilege'' (JBool False))) md)))))"

definition deployment_from_dict :: "json \<Rightarrow> runtime_deployment_spec res" where
  "deployment_from_dict value =
     rbind (py_dict value) (\<lambda>data.
     rbind (rbind (json_item data ''demand'') py_dict) (\<lambda>demand_data.
     rbind (rbind (json_item demand_data ''model'') py_dict) (\<lambda>model_data.
     rbind (let raw = json_get data ''setup_intent'' in
            if raw = JNull then Inr None else rbind (py_dict raw) (\<lambda>d. Inr (Some d))) (\<lambda>intent_data.
     rbind (py_str (json_get_or data ''schema_version'' (JStr ''v1''))) (\<lambda>version.
     rbind (str_item data ''provider_id'') (\<lambda>pid.
     rbind (as_mapping (json_get data ''provider_config'')) (\<lambda>config.
     rbind (demand_from_dict demand_data model_data) (\<lambda>demand.
     rbind (case intent_data of None \<Rightarrow> Inr None
            | Some d \<Rightarrow> rbind (intent_from_dict d) (\<lambda>s. Inr (Some s))) (\<lambda>intent.
       mk_runtime_deployment_spec pid config demand intent version)))))))))"

section \<open>Host facts\<close>

text \<open>The scan of \<open>/proc/meminfo\<close>: the first \<open>MemTotal:\<close> line decides, in KiB.\<close>

fun meminfo_scan :: "string list \<Rightarrow> int option res" where
  "meminfo_scan [] = Inr None"
| "meminfo_scan (raw_line # rest) =
     (if take 9 raw_line \<noteq> ''MemTotal:'' then meminfo_scan rest
      else let fields = py_words raw_line in
        if length fields < 2 then Inr None
        else (case parse_int (fields ! 1) of
            None \<Rightarrow> Inl (RuntimeError (Malformed ''host RAM''))
          | Some kib \<Rightarrow> Inr (Some (kib div 1024))))"

text \<open>\<open>cpu_count\<close> is \<open>os.cpu_count()\<close>, \<open>meminfo\<close> the text of the file (\<open>None\<close> when it cannot be
  read) and \<open>machine\<close> is \<open>platform.machine()\<close>.\<close>

definition discover_runtime_host_facts ::
  "int option \<Rightarrow> string option \<Rightarrow> string \<Rightarrow> runtime_host_facts res" where
  "discover_runtime_host_facts cpu_count meminfo machine = (case cpu_count of
     None \<Rightarrow> Inl (RuntimeError (Required ''cpu_count''))
   | Some cpus \<Rightarrow>
       if cpus \<le> 0 then Inl (RuntimeError (Required ''cpu_count''))
       else (case meminfo of
         None \<Rightarrow> Inl (RuntimeError (Required ''host RAM''))
       | Some txt \<Rightarrow> rbind (meminfo_scan (py_splitlines txt)) (\<lambda>ram.
           case ram of
             None \<Rightarrow> Inl (RuntimeError (Malformed ''host RAM''))
           | Some host_ram_mb \<Rightarrow>
               if host_ram_mb \<le> 0 then Inl (RuntimeError (Malformed ''host RAM''))
               else let architecture = py_strip machine in
                 if architecture = [] then Inl (RuntimeError (Required ''architecture''))
                 else mk_runtime_host_facts (JInt cpus) (JInt host_ram_mb) architecture [])))"

section \<open>Building and restoring a deployment\<close>

type_synonym provider_types = "(string, obj \<Rightarrow> runtime_provider res) dict"

definition provider_from_deployment ::
  "provider_types \<Rightarrow> runtime_deployment_spec \<Rightarrow> runtime_provider res" where
  "provider_from_deployment types deployment = (case dict_get types (dp_provider_id deployment) of
     None \<Rightarrow> Inl (ValueError (Malformed (dp_provider_id deployment)))
   | Some make_provider \<Rightarrow> make_provider (dp_provider_config deployment))"

definition build_runtime_deployment_spec ::
  "runtime_provider \<Rightarrow> runtime_context \<Rightarrow> runtime_setup_intent option \<Rightarrow> runtime_deployment_spec res" where
  "build_runtime_deployment_spec provider context setup_intent =
     rbind (case setup_intent of Some s \<Rightarrow> Inr s | None \<Rightarrow> rp_setup_intent provider context) (\<lambda>setup.
     if si_provider_id setup \<noteq> rp_provider_id provider
     then Inl (ValueError (Inconsistent ''setup_intent''))
     else mk_runtime_deployment_spec (rp_provider_id provider)
       (case rp_config provider of None \<Rightarrow> [] | Some c \<Rightarrow> c) (cx_demand context) (Some setup) ''v1'')"

definition blocking_detail :: "compatibility_reason list \<Rightarrow> string" where
  "blocking_detail reasons = (let parts = map (\<lambda>r. cr_code r @ '': '' @ cr_message r)
       (filter cr_blocking reasons)
     in concat (map (\<lambda>(i, p). if i = 0 then p else ''; '' @ p) (enumerate 0 parts)))"

text \<open>The result is the provider with the arguments of its final \<open>create_runtime\<close> call.\<close>

definition managed_runtime_from_deployment ::
  "provider_types \<Rightarrow> runtime_deployment_spec \<Rightarrow> worker_spec \<Rightarrow> runtime_host_facts
    \<Rightarrow> (runtime_provider \<times> runtime_context \<times> runtime_setup_intent) res" where
  "managed_runtime_from_deployment types deployment worker host =
     rbind (provider_from_deployment types deployment) (\<lambda>provider.
     let context = \<lparr>cx_worker = worker, cx_host = host, cx_demand = dp_demand deployment\<rparr> in
     rbind (rp_compatibility provider context) (\<lambda>report.
     if \<not> compatible report
     then Inl (RuntimeError (Inconsistent (blocking_detail (rc_reasons report))))
     else rbind (case dp_setup_intent deployment of Some s \<Rightarrow> Inr s
                 | None \<Rightarrow> rp_setup_intent provider context) (\<lambda>setup.
       Inr (provider, context, setup))))"

section \<open>Type invariant\<close>

definition deployment_ok :: "runtime_deployment_spec \<Rightarrow> bool" where
  "deployment_ok s \<longleftrightarrow> norm_text (dp_provider_id s) \<and> dp_schema_version s = ''v1'' \<and>
     demand_ok (dp_demand s) \<and> model_demand_ok (ed_model (dp_demand s)) \<and>
     (\<forall>i. dp_setup_intent s = Some i \<longrightarrow> setup_intent_ok i \<and> si_provider_id i = dp_provider_id s)"

section \<open>Lemmas\<close>

lemma mk_runtime_deployment_spec_Inr:
  "mk_runtime_deployment_spec p c d i v = Inr s \<longleftrightarrow>
     py_strip p \<noteq> [] \<and> py_strip v = ''v1'' \<and>
     (\<forall>x. i = Some x \<longrightarrow> si_provider_id x = py_strip p) \<and>
     s = \<lparr>dp_provider_id = py_strip p, dp_provider_config = c, dp_demand = d, dp_setup_intent = i,
          dp_schema_version = ''v1''\<rparr>"
  by (cases i) (auto simp: mk_runtime_deployment_spec_def Let_def)

lemma mk_model_demand_again:
  "model_demand_ok m \<Longrightarrow> mk_model_demand (md_model_ref m) (md_model_format m)
     (model_topology_value (md_topology m)) (json_int_opt (md_estimated_size_mb m)) (md_metadata m) = Inr m"
  by (cases m, cases "md_estimated_size_mb m")
    (auto simp: mk_model_demand_def model_demand_ok_def json_int_opt_def)

lemma model_roundtrip: "model_demand_ok m \<Longrightarrow> model_from_dict (model_to_dict m) = Inr m"
  using mk_model_demand_again [of m]
  by (simp add: model_from_dict_def model_to_dict_def str_item_def json_item_def json_get_def)

lemma demand_roundtrip:
  assumes "demand_ok d" "model_demand_ok (ed_model d)"
  shows "demand_from_dict (demand_to_dict d) (model_to_dict (ed_model d)) = Inr d"
proof -
  have "mk_execution_demand (ed_model d) (residency_policy_value (ed_residency_policy d))
      (gpu_topology_value (ed_gpu_topology d)) (JInt (ed_min_gpu_count d))
      (JInt (ed_min_total_vram_mb d)) (JInt (ed_min_single_gpu_vram_mb d))
      (JInt (ed_min_host_ram_mb d)) (JInt (ed_preferred_host_ram_mb d)) (ed_metadata d) = Inr d"
    using assms(1) by (simp add: mk_execution_demand_Inr)
  then show ?thesis
    by (simp add: demand_from_dict_def model_roundtrip [OF assms(2)])
      (simp add: demand_to_dict_def str_item_def json_item_def json_get_def)
qed

lemma intent_roundtrip:
  assumes "setup_intent_ok i"
  shows "intent_from_dict (intent_to_dict i) = Inr i"
proof -
  have "map py_strip (si_package_references i) = si_package_references i"
    using assms by (auto simp: setup_intent_ok_def norm_text_def intro: map_idI)
  then have "rmap (\<lambda>v. runtime_nonblank v ''package reference'') (si_package_references i) =
      Inr (si_package_references i)"
    using assms by (simp add: rmap_nonblank setup_intent_ok_def)
  then have "mk_runtime_setup_intent (si_provider_id i) (si_package_references i) (si_configuration i)
      (model_preparation_value (si_model_preparation i)) (json_opt (si_model_ref i))
      (si_requires_privilege i) (si_metadata i) = Inr i"
    using assms
    by (cases "si_model_ref i")
      (simp_all add: mk_runtime_setup_intent_def setup_intent_ok_def json_opt_def)
  then show ?thesis
    by (simp add: intent_from_dict_def intent_to_dict_def str_item_def json_item_def json_get_def
        json_get_or_def)
qed

lemma strip_v1 [simp]: "py_strip ''v1'' = ''v1''"
  by (simp add: py_strip_def is_space_def Let_def)

lemma deployment_roundtrip_ok:
  assumes "deployment_ok s"
  shows "deployment_from_dict (JObj (deployment_to_dict s)) = Inr s"
proof -
  have demand: "demand_from_dict (demand_to_dict (dp_demand s)) (model_to_dict (ed_model (dp_demand s)))
      = Inr (dp_demand s)"
    using assms by (intro demand_roundtrip) (auto simp: deployment_ok_def)
  have model: "dict_get (demand_to_dict (dp_demand s)) ''model'' = Some (JObj (model_to_dict (ed_model (dp_demand s))))"
    by (simp add: demand_to_dict_def)
  have mk: "mk_runtime_deployment_spec (dp_provider_id s) (dp_provider_config s) (dp_demand s)
      (dp_setup_intent s) ''v1'' = Inr s"
    using assms by (cases s) (auto simp: mk_runtime_deployment_spec_Inr deployment_ok_def norm_text_def)
  show ?thesis
    using assms mk intent_roundtrip [of "the (dp_setup_intent s)"]
    by (cases "dp_setup_intent s")
      (auto simp: deployment_from_dict_def deployment_to_dict_def json_item_def
        json_get_def json_get_or_def str_item_def model demand deployment_ok_def Let_def)
qed

lemma model_from_dict_ok: "model_from_dict d = Inr m \<Longrightarrow> model_demand_ok m"
  by (auto simp: model_from_dict_def rbind_eq_Inr dest: mk_model_demand_ok)

lemma demand_from_dict_ok:
  assumes "demand_from_dict d md = Inr x"
  shows "demand_ok x \<and> model_demand_ok (ed_model x)"
proof -
  from assms obtain m q g c t s r p o' where "model_from_dict md = Inr m"
    and "mk_execution_demand m q g c t s r p o' = Inr x"
    unfolding demand_from_dict_def rbind_eq_Inr by blast
  then show ?thesis by (auto simp: mk_execution_demand_Inr dest: model_from_dict_ok)
qed

lemma intent_from_dict_ok: "intent_from_dict d = Inr i \<Longrightarrow> setup_intent_ok i"
  unfolding intent_from_dict_def rbind_eq_Inr by (blast dest: mk_runtime_setup_intent_ok)

lemma deployment_from_dict_ok:
  assumes "deployment_from_dict v = Inr s"
  shows "deployment_ok s"
proof -
  from assms obtain p c d i ver x dd md where dem: "demand_from_dict dd md = Inr d"
    and i: "(case x of None \<Rightarrow> Inr None | Some y \<Rightarrow> rbind (intent_from_dict y) (\<lambda>s. Inr (Some s))) =
      (Inr i :: runtime_setup_intent option res)"
    and mk: "mk_runtime_deployment_spec p c d i ver = Inr s"
    unfolding deployment_from_dict_def rbind_eq_Inr by blast
  have "setup_intent_ok y" if "i = Some y" for y
    using i that by (auto simp: rbind_eq_Inr split: option.splits dest: intent_from_dict_ok)
  with demand_from_dict_ok [OF dem] mk show ?thesis
    by (auto simp: mk_runtime_deployment_spec_Inr deployment_ok_def norm_text_def)
qed

section \<open>Properties\<close>

text \<open>
  C20. The persisted runtime deployment is faithful. Whatever JSON value is read back is either
  refused or satisfies the invariants of the deployment (supported schema, a demand consistent with
  its topology, a setup intent of the same provider), and writing it again and reading that gives
  the same deployment: no field, minimum, package or preference is lost or changed.
\<close>

theorem deployment_roundtrip:
  assumes "deployment_from_dict v = Inr s"
  shows "deployment_ok s \<and> deployment_from_dict (JObj (deployment_to_dict s)) = Inr s"
  using deployment_from_dict_ok [OF assms] deployment_roundtrip_ok by blast

text \<open>
  Restoring a deployment keeps its provider: if a runtime is built from a persisted deployment
  that was made from a provider's reviewed intent, and the table constructs each provider under its
  own name, then the provider called is the persisted one, it is called with the persisted demand
  and the reviewed intent, and it states no blocking reason for the current worker and host.
\<close>

theorem restored_deployment_keeps_provider:
  assumes built: "build_runtime_deployment_spec p cx intent = Inr s"
    and table: "\<forall>k make_provider conf q. dict_get types k = Some make_provider \<longrightarrow> make_provider conf = Inr q \<longrightarrow>
      rp_provider_id q = k"
    and restored: "managed_runtime_from_deployment types s w h = Inr (q, cy, setup)"
  shows "rp_provider_id q = dp_provider_id s \<and> dp_provider_id s = py_strip (rp_provider_id p) \<and>
    dp_setup_intent s = Some setup \<and> si_provider_id setup = rp_provider_id q \<and>
    cx_demand cy = cx_demand cx \<and> cx_worker cy = w \<and> cx_host cy = h \<and>
    (\<exists>r. rp_compatibility q cy = Inr r \<and> \<not> list_ex cr_blocking (rc_reasons r))"
proof -
  have s: "dp_demand s = cx_demand cx" "dp_provider_id s = py_strip (rp_provider_id p)"
    and i: "\<exists>i. dp_setup_intent s = Some i \<and> si_provider_id i = dp_provider_id s"
    using built
    by (auto simp: build_runtime_deployment_spec_def rbind_eq_Inr mk_runtime_deployment_spec_Inr
        split: if_splits)
  have "rp_provider_id q = dp_provider_id s"
    using restored table
    by (auto simp: managed_runtime_from_deployment_def provider_from_deployment_def rbind_eq_Inr Let_def
        split: option.splits if_splits)
  with s i restored show ?thesis
    by (auto simp: managed_runtime_from_deployment_def rbind_eq_Inr Let_def compatible_def
        split: if_splits)
qed

section \<open>Witnesses\<close>

text \<open>A hand-written file: optional fields are missing, texts carry white space and capitals.\<close>

definition ex_deployment_json :: json where
  "ex_deployment_json = JObj [
     (''provider_id'', JStr '' vllm ''),
     (''demand'', JObj [
        (''model'', JObj [(''model_ref'', JStr ''org/m''), (''model_format'', JStr ''GGUF''),
           (''topology'', JStr ''moe''), (''estimated_size_mb'', JInt 9000)]),
        (''residency_policy'', JStr ''vram_only''), (''gpu_topology'', JStr ''multi_gpu''),
        (''min_gpu_count'', JStr ''2''), (''min_host_ram_mb'', JInt 8), (''preferred_host_ram_mb'', JInt 16)])]"

definition ex_deployment :: runtime_deployment_spec where
  "ex_deployment = \<lparr>dp_provider_id = ''vllm'', dp_provider_config = [],
     dp_demand = \<lparr>ed_model = \<lparr>md_model_ref = ''org/m'', md_model_format = ''gguf'', md_topology = MOE,
         md_estimated_size_mb = Some 9000, md_metadata = []\<rparr>,
       ed_residency_policy = VRAM_ONLY, ed_gpu_topology = MULTI_GPU, ed_min_gpu_count = 2,
       ed_min_total_vram_mb = 0, ed_min_single_gpu_vram_mb = 0, ed_min_host_ram_mb = 8,
       ed_preferred_host_ram_mb = 16, ed_metadata = []\<rparr>,
     dp_setup_intent = None, dp_schema_version = ''v1''\<rparr>"

lemma ex_deployment_read: "deployment_from_dict ex_deployment_json = Inr ex_deployment"
  by code_simp

theorem deployment_roundtrip_witness:
  "deployment_ok ex_deployment \<and>
   deployment_from_dict (JObj (deployment_to_dict ex_deployment)) = Inr ex_deployment"
  by (rule deployment_roundtrip [OF ex_deployment_read])

definition ex_vllm :: "obj \<Rightarrow> runtime_provider" where
  "ex_vllm conf = \<lparr>rp_info = \<lparr>pi_provider_id = ''vllm'', pi_display_name = ''vLLM'', pi_description = []\<rparr>,
     rp_config = Some conf,
     rp_compatibility = (\<lambda>_. Inr \<lparr>rc_provider_id = ''vllm'', rc_reasons = []\<rparr>),
     rp_setup_intent = (\<lambda>_. mk_runtime_setup_intent ''vllm'' [''pkgs#vllm''] [] ''download'' (JStr ''org/m'') False [])\<rparr>"

definition ex_types :: provider_types where
  "ex_types = [(''vllm'', \<lambda>conf. Inr (ex_vllm conf))]"

definition ex_restore_context :: runtime_context where
  "ex_restore_context = \<lparr>cx_worker = \<lparr>ws_worker_id = ''w'', ws_worker_class = ''c'',
       ws_resources = \<lparr>gpu_count = 2, total_vram_mb = 48, max_single_gpu_vram_mb = 24\<rparr>,
       ws_gpu_uuids = [''A'', ''B''], ws_accelerators = [], ws_capabilities = {}, ws_labels = []\<rparr>,
     cx_host = \<lparr>hf_cpu_count = 8, hf_host_ram_mb = 32, hf_architecture = ''x86_64'', hf_labels = []\<rparr>,
     cx_demand = dp_demand ex_deployment\<rparr>"

definition ex_intent :: runtime_setup_intent where
  "ex_intent = \<lparr>si_provider_id = ''vllm'', si_package_references = [''pkgs#vllm''], si_configuration = [],
     si_model_preparation = DOWNLOAD, si_model_ref = Some ''org/m'', si_requires_privilege = False,
     si_metadata = []\<rparr>"

lemma ex_intent_made: "rp_setup_intent (ex_vllm conf) cx = Inr ex_intent"
  by (simp add: ex_vllm_def ex_intent_def) code_simp

theorem restored_deployment_keeps_provider_witness:
  "\<exists>s q cy. build_runtime_deployment_spec (ex_vllm []) ex_restore_context None = Inr s \<and>
     managed_runtime_from_deployment ex_types s (cx_worker ex_restore_context) (cx_host ex_restore_context)
       = Inr (q, cy, ex_intent) \<and>
     rp_provider_id q = dp_provider_id s \<and> cx_demand cy = cx_demand ex_restore_context"
proof -
  let ?s = "ex_deployment\<lparr>dp_setup_intent := Some ex_intent\<rparr>"
  have strip: "py_strip ''vllm'' = ''vllm''" by code_simp
  have built: "build_runtime_deployment_spec (ex_vllm []) ex_restore_context None = Inr ?s"
    by (simp add: build_runtime_deployment_spec_def ex_intent_made)
      (simp add: ex_intent_def ex_vllm_def ex_restore_context_def mk_runtime_deployment_spec_def strip
        ex_deployment_def Let_def)
  have restored: "managed_runtime_from_deployment ex_types ?s (cx_worker ex_restore_context)
      (cx_host ex_restore_context) = Inr (ex_vllm [], ex_restore_context, ex_intent)"
    by (simp add: managed_runtime_from_deployment_def provider_from_deployment_def ex_types_def
        ex_deployment_def ex_vllm_def compatible_def ex_restore_context_def)
  have table: "\<forall>k f conf q. dict_get ex_types k = Some f \<longrightarrow> f conf = Inr q \<longrightarrow> rp_provider_id q = k"
    by (auto simp: ex_types_def ex_vllm_def split: if_splits)
  show ?thesis
    using restored_deployment_keeps_provider [OF built table restored] built restored by blast
qed

end
