(* ===== verification/Setup_Contracts.thy ===== *)
theory Setup_Contracts
  imports Runtime_Planner Runtime_Deployment
begin

text \<open>
  \<open>src/src/astrumweaver/setup/contracts.py\<close>: the values of the setup plan, shared by the planner, the
  apply coordinator and the drivers. Payloads are JSON values; tuples and lists are the same here. The
  digest of a plan is the hash of its JSON text with sorted keys: an arbitrary function of the
  key-sorted value.
\<close>

section \<open>Frozen JSON\<close>

text \<open>A reference to secret material in a payload; the secret itself is never stored.\<close>

definition secret_reference :: "string \<Rightarrow> json res" where
  "secret_reference name = rbind (runtime_nonblank name ''name'') (\<lambda>n. Inr (JObj [(''$secret_ref'', JStr n)]))"

fun freeze_json :: "json \<Rightarrow> json" where
  "freeze_json (JObj d) = JObj (sort_key fst (map (\<lambda>p. (fst p, freeze_json (snd p))) d))"
| "freeze_json (JList xs) = JList (map freeze_json xs)"
| "freeze_json v = v"

definition freeze_obj :: "obj \<Rightarrow> obj" where
  "freeze_obj d = sort_key fst (map (\<lambda>p. (fst p, freeze_json (snd p))) d)"

fun thaw_json :: "json \<Rightarrow> json" where
  "thaw_json (JObj d) = JObj (map (\<lambda>p. (fst p, thaw_json (snd p))) d)"
| "thaw_json (JList xs) = JList (map thaw_json xs)"
| "thaw_json v = v"

definition thaw_obj :: "obj \<Rightarrow> obj" where
  "thaw_obj d = map (\<lambda>p. (fst p, thaw_json (snd p))) d"

section \<open>Enumerations\<close>

datatype deployment_path = NIXOS | SYSTEMD

fun deployment_path_value :: "deployment_path \<Rightarrow> string" where
  "deployment_path_value NIXOS = ''nixos''"
| "deployment_path_value SYSTEMD = ''systemd''"

definition deployment_path_of :: "string \<Rightarrow> deployment_path res" where
  "deployment_path_of = enum_of [(''nixos'', NIXOS), (''systemd'', SYSTEMD)] ''DeploymentPath''"

datatype privilege_mode = PRIV_ROOT | PRIV_SUDO | PRIV_UNAVAILABLE

fun privilege_mode_value :: "privilege_mode \<Rightarrow> string" where
  "privilege_mode_value PRIV_ROOT = ''root''"
| "privilege_mode_value PRIV_SUDO = ''sudo''"
| "privilege_mode_value PRIV_UNAVAILABLE = ''unavailable''"

definition privilege_mode_of :: "string \<Rightarrow> privilege_mode res" where
  "privilege_mode_of = enum_of [(''root'', PRIV_ROOT), (''sudo'', PRIV_SUDO), (''unavailable'', PRIV_UNAVAILABLE)]
     ''PrivilegeMode''"

datatype plan_goal = GOAL_ACTIVATE | GOAL_RELEASE

fun plan_goal_value :: "plan_goal \<Rightarrow> string" where
  "plan_goal_value GOAL_ACTIVATE = ''activate''"
| "plan_goal_value GOAL_RELEASE = ''release''"

definition plan_goal_of :: "string \<Rightarrow> plan_goal res" where
  "plan_goal_of = enum_of [(''activate'', GOAL_ACTIVATE), (''release'', GOAL_RELEASE)] ''SetupPlanGoal''"

datatype action_kind =
    ENSURE_DIRECTORY | ENSURE_PACKAGE | ENSURE_NVIDIA_DRIVER_BRIDGE | RENDER_CONFIG
  | VERIFY_MODEL_REFERENCE | DOWNLOAD_MODEL | CONVERT_MODEL | PREFLIGHT | WORKER_STOP
  | RECONCILE_WORKER_EXECUTION | RUNTIME_START | HEALTH_CHECK | RUNTIME_STOP | RUNTIME_RELEASE

fun action_kind_value :: "action_kind \<Rightarrow> string" where
  "action_kind_value ENSURE_DIRECTORY = ''ensure_directory''"
| "action_kind_value ENSURE_PACKAGE = ''ensure_package''"
| "action_kind_value ENSURE_NVIDIA_DRIVER_BRIDGE = ''ensure_nvidia_driver_bridge''"
| "action_kind_value RENDER_CONFIG = ''render_config''"
| "action_kind_value VERIFY_MODEL_REFERENCE = ''verify_model_reference''"
| "action_kind_value DOWNLOAD_MODEL = ''download_model''"
| "action_kind_value CONVERT_MODEL = ''convert_model''"
| "action_kind_value PREFLIGHT = ''preflight''"
| "action_kind_value WORKER_STOP = ''worker_stop''"
| "action_kind_value RECONCILE_WORKER_EXECUTION = ''reconcile_worker_execution''"
| "action_kind_value RUNTIME_START = ''runtime_start''"
| "action_kind_value HEALTH_CHECK = ''health_check''"
| "action_kind_value RUNTIME_STOP = ''runtime_stop''"
| "action_kind_value RUNTIME_RELEASE = ''runtime_release''"

definition action_kind_of :: "string \<Rightarrow> action_kind res" where
  "action_kind_of = enum_of (map (\<lambda>k. (action_kind_value k, k))
     [ENSURE_DIRECTORY, ENSURE_PACKAGE, ENSURE_NVIDIA_DRIVER_BRIDGE, RENDER_CONFIG, VERIFY_MODEL_REFERENCE,
      DOWNLOAD_MODEL, CONVERT_MODEL, PREFLIGHT, WORKER_STOP, RECONCILE_WORKER_EXECUTION, RUNTIME_START,
      HEALTH_CHECK, RUNTIME_STOP, RUNTIME_RELEASE]) ''SetupActionKind''"

datatype action_state = ACT_SATISFIED | ACT_NEEDS_APPLY | ACT_BLOCKED

datatype result_status =
    RES_SKIPPED | RES_APPLIED | RES_FAILED | RES_ROLLED_BACK | RES_ROLLBACK_FAILED | RES_BLOCKED

datatype apply_status = APPLY_SUCCEEDED | APPLY_FAILED

section \<open>The host snapshot\<close>

record host_snapshot =
  sn_runtime_host :: runtime_host_facts
  sn_deployment_path :: deployment_path
  sn_os_id :: string
  sn_os_version :: string
  sn_service_manager :: "string option"
  sn_package_manager :: "string option"
  sn_available_commands :: "string set"
  sn_privilege_mode :: privilege_mode
  sn_metadata :: obj

definition optional_text :: "string option \<Rightarrow> string \<Rightarrow> string option res" where
  "optional_text v field_name = (case v of None \<Rightarrow> Inr None
     | Some s \<Rightarrow> rbind (runtime_nonblank s field_name) (\<lambda>n. Inr (Some n)))"

definition mk_host_snapshot ::
  "runtime_host_facts \<Rightarrow> string \<Rightarrow> string \<Rightarrow> string \<Rightarrow> string option \<Rightarrow> string option \<Rightarrow> string list
    \<Rightarrow> string \<Rightarrow> obj \<Rightarrow> host_snapshot res" where
  "mk_host_snapshot facts path os_id os_version service_manager package_manager commands mode metadata =
     rbind (deployment_path_of path) (\<lambda>p.
     rbind (runtime_nonblank os_id ''os_id'') (\<lambda>os.
     rbind (optional_text service_manager ''service_manager'') (\<lambda>sm.
     rbind (optional_text package_manager ''package_manager'') (\<lambda>pm.
     rbind (rmap (\<lambda>c. runtime_nonblank c ''available command'') commands) (\<lambda>cs.
     rbind (privilege_mode_of mode) (\<lambda>pr.
       Inr \<lparr>sn_runtime_host = facts, sn_deployment_path = p, sn_os_id = py_lower os,
            sn_os_version = py_strip os_version, sn_service_manager = sm, sn_package_manager = pm,
            sn_available_commands = set cs, sn_privilege_mode = pr, sn_metadata = freeze_obj metadata\<rparr>))))))"

definition json_text_opt :: "string option \<Rightarrow> json" where
  "json_text_opt v = (case v of None \<Rightarrow> JNull | Some s \<Rightarrow> JStr s)"

definition snapshot_to_dict :: "host_snapshot \<Rightarrow> obj" where
  "snapshot_to_dict s = [
     (''runtime_host'', JObj [
        (''cpu_count'', JInt (hf_cpu_count (sn_runtime_host s))),
        (''host_ram_mb'', JInt (hf_host_ram_mb (sn_runtime_host s))),
        (''architecture'', JStr (hf_architecture (sn_runtime_host s))),
        (''labels'', JObj (map (\<lambda>p. (fst p, JStr (snd p))) (hf_labels (sn_runtime_host s))))]),
     (''deployment_path'', JStr (deployment_path_value (sn_deployment_path s))),
     (''os_id'', JStr (sn_os_id s)), (''os_version'', JStr (sn_os_version s)),
     (''service_manager'', json_text_opt (sn_service_manager s)),
     (''package_manager'', json_text_opt (sn_package_manager s)),
     (''available_commands'', JList (map JStr (sorted_list_of_set (sn_available_commands s)))),
     (''privilege_mode'', JStr (privilege_mode_value (sn_privilege_mode s))),
     (''metadata'', JObj (thaw_obj (sn_metadata s)))]"

section \<open>Actions\<close>

record setup_action =
  sa_action_id :: string
  sa_kind :: action_kind
  sa_description :: string
  sa_payload :: obj
  sa_requires_privilege :: bool
  sa_requires_network :: bool
  sa_requires_confirmation :: bool
  sa_reversible :: bool

text \<open>\<open>^[a-z0-9][a-z0-9._-]*$\<close>\<close>

definition lower_alnum :: "char \<Rightarrow> bool" where
  "lower_alnum c \<longleftrightarrow> is_digit c \<or> (let n = (of_char c :: nat) in 97 \<le> n \<and> n \<le> 122)"

definition action_id_re :: "string \<Rightarrow> bool" where
  "action_id_re s \<longleftrightarrow> s \<noteq> [] \<and> lower_alnum (hd s) \<and>
     list_all (\<lambda>c. lower_alnum c \<or> c \<in> {CHR ''.'', CHR ''_'', CHR ''-''}) (tl s)"

definition mk_setup_action ::
  "string \<Rightarrow> action_kind \<Rightarrow> string \<Rightarrow> obj \<Rightarrow> bool \<Rightarrow> bool \<Rightarrow> bool \<Rightarrow> bool \<Rightarrow> setup_action res" where
  "mk_setup_action action_id kind description payload privilege network confirmation reversible =
     rbind (runtime_nonblank action_id ''action_id'') (\<lambda>aid.
     if \<not> action_id_re aid then Inl (ValueError (Malformed ''action_id''))
     else rbind (runtime_nonblank description ''description'') (\<lambda>desc.
       Inr \<lparr>sa_action_id = aid, sa_kind = kind, sa_description = desc, sa_payload = freeze_obj payload,
            sa_requires_privilege = privilege, sa_requires_network = network,
            sa_requires_confirmation = confirmation, sa_reversible = reversible\<rparr>))"

definition action_to_dict :: "setup_action \<Rightarrow> obj" where
  "action_to_dict a = [
     (''action_id'', JStr (sa_action_id a)), (''kind'', JStr (action_kind_value (sa_kind a))),
     (''description'', JStr (sa_description a)), (''payload'', JObj (thaw_obj (sa_payload a))),
     (''requires_privilege'', JBool (sa_requires_privilege a)),
     (''requires_network'', JBool (sa_requires_network a)),
     (''requires_confirmation'', JBool (sa_requires_confirmation a)),
     (''reversible'', JBool (sa_reversible a))]"

definition flag_item :: "obj \<Rightarrow> string \<Rightarrow> bool" where
  "flag_item d key = py_truthy (json_get_or d key (JBool False))"

text \<open>Indexing with a text raises \<open>TypeError\<close> on everything that is no mapping.\<close>

definition action_from_dict :: "json \<Rightarrow> setup_action res" where
  "action_from_dict value = (case value of
     JObj d \<Rightarrow>
       rbind (str_item d ''action_id'') (\<lambda>aid.
       rbind (rbind (str_item d ''kind'') action_kind_of) (\<lambda>kind.
       rbind (str_item d ''description'') (\<lambda>desc.
       rbind (as_mapping (json_get d ''payload'')) (\<lambda>payload.
         mk_setup_action aid kind desc payload (flag_item d ''requires_privilege'')
           (flag_item d ''requires_network'') (flag_item d ''requires_confirmation'') (flag_item d ''reversible'')))))
   | _ \<Rightarrow> Inl (TypeError (Wrong_type ''action'')))"

section \<open>Plans\<close>

record setup_plan =
  pl_provider_id :: string
  pl_deployment_path :: deployment_path
  pl_goal :: plan_goal
  pl_actions :: "setup_action list"
  pl_metadata :: obj
  pl_schema_version :: string

definition mk_setup_plan ::
  "string \<Rightarrow> deployment_path \<Rightarrow> plan_goal \<Rightarrow> setup_action list \<Rightarrow> obj \<Rightarrow> string \<Rightarrow> setup_plan res" where
  "mk_setup_plan provider_id path goal actions metadata version =
     rbind (runtime_nonblank provider_id ''provider_id'') (\<lambda>pid.
     if actions = [] then Inl (ValueError (Required ''actions''))
     else if \<not> distinct (map sa_action_id actions) then Inl (ValueError (Contains_duplicates ''actions''))
     else rbind (runtime_nonblank version ''schema_version'') (\<lambda>v.
       Inr \<lparr>pl_provider_id = pid, pl_deployment_path = path, pl_goal = goal, pl_actions = actions,
            pl_metadata = freeze_obj metadata, pl_schema_version = v\<rparr>))"

definition plan_to_dict :: "setup_plan \<Rightarrow> obj" where
  "plan_to_dict p = [
     (''schema_version'', JStr (pl_schema_version p)), (''provider_id'', JStr (pl_provider_id p)),
     (''deployment_path'', JStr (deployment_path_value (pl_deployment_path p))),
     (''goal'', JStr (plan_goal_value (pl_goal p))),
     (''actions'', JList (map (\<lambda>a. JObj (action_to_dict a)) (pl_actions p))),
     (''metadata'', JObj (thaw_obj (pl_metadata p)))]"

definition plan_digest :: "(json \<Rightarrow> string) \<Rightarrow> setup_plan \<Rightarrow> string" where
  "plan_digest sha256 p = sha256 (freeze_json (JObj (plan_to_dict p)))"

definition plan_from_dict :: "(json \<Rightarrow> string) \<Rightarrow> obj \<Rightarrow> setup_plan res" where
  "plan_from_dict sha256 value =
     rbind (py_str (json_get_or value ''schema_version'' (JStr ''v1''))) (\<lambda>version.
     rbind (str_item value ''provider_id'') (\<lambda>pid.
     rbind (rbind (str_item value ''deployment_path'') deployment_path_of) (\<lambda>path.
     rbind (rbind (str_item value ''goal'') plan_goal_of) (\<lambda>goal.
     rbind (let raw = json_get value ''actions'' in if py_truthy raw then py_iter raw else Inr []) (\<lambda>raws.
     rbind (rmap action_from_dict raws) (\<lambda>actions.
     rbind (as_mapping (json_get value ''metadata'')) (\<lambda>metadata.
     rbind (mk_setup_plan pid path goal actions metadata version) (\<lambda>plan.
       let supplied = json_get value ''digest'' in
       if supplied = JNull then Inr plan
       else rbind (py_str supplied) (\<lambda>s.
         if s \<noteq> plan_digest sha256 plan then Inl (ValueError (Inconsistent ''digest'')) else Inr plan)))))))))"

text \<open>\<open>from_json\<close>, after \<open>json.loads\<close> (\<open>None\<close>: the text is no JSON, which raises \<open>ValueError\<close>).\<close>

definition plan_from_json :: "(json \<Rightarrow> string) \<Rightarrow> json option \<Rightarrow> setup_plan res" where
  "plan_from_json sha256 parsed = (case parsed of
     Some (JObj d) \<Rightarrow> plan_from_dict sha256 d
   | _ \<Rightarrow> Inl (ValueError (Malformed ''SetupPlan'')))"

definition plan_requires_privilege :: "setup_plan \<Rightarrow> bool" where
  "plan_requires_privilege p = list_ex sa_requires_privilege (pl_actions p)"

definition plan_requires_network :: "setup_plan \<Rightarrow> bool" where
  "plan_requires_network p = list_ex sa_requires_network (pl_actions p)"

definition plan_requires_confirmation :: "setup_plan \<Rightarrow> bool" where
  "plan_requires_confirmation p = list_ex sa_requires_confirmation (pl_actions p)"

section \<open>Inspections, receipts and results\<close>

record action_inspection =
  in_state :: action_state
  in_detail :: string

definition mk_inspection :: "action_state \<Rightarrow> string \<Rightarrow> action_inspection" where
  "mk_inspection state detail = \<lparr>in_state = state, in_detail = py_strip detail\<rparr>"

record action_receipt =
  ar_changed :: bool
  ar_detail :: string
  ar_evidence :: obj
  ar_rollback_data :: obj

definition mk_receipt :: "bool \<Rightarrow> string \<Rightarrow> obj \<Rightarrow> obj \<Rightarrow> action_receipt" where
  "mk_receipt changed detail evidence rollback_data =
     \<lparr>ar_changed = changed, ar_detail = py_strip detail, ar_evidence = freeze_obj evidence,
      ar_rollback_data = freeze_obj rollback_data\<rparr>"

record action_preview =
  pv_action_id :: string
  pv_kind :: action_kind
  pv_state :: action_state
  pv_description :: string
  pv_requires_privilege :: bool
  pv_requires_network :: bool
  pv_requires_confirmation :: bool
  pv_detail :: string

record setup_preview =
  sp_plan_digest :: string
  sp_actions :: "action_preview list"

definition preview_blocked :: "setup_preview \<Rightarrow> bool" where
  "preview_blocked p = list_ex (\<lambda>a. pv_state a = ACT_BLOCKED) (sp_actions p)"

definition preview_changes_required :: "setup_preview \<Rightarrow> bool" where
  "preview_changes_required p = list_ex (\<lambda>a. pv_state a = ACT_NEEDS_APPLY) (sp_actions p)"

record action_result =
  rs_action_id :: string
  rs_kind :: action_kind
  rs_status :: result_status
  rs_changed :: bool
  rs_detail :: string
  rs_evidence :: obj

definition mk_action_result :: "setup_action \<Rightarrow> result_status \<Rightarrow> bool \<Rightarrow> string \<Rightarrow> obj \<Rightarrow> action_result" where
  "mk_action_result a status changed detail evidence =
     \<lparr>rs_action_id = sa_action_id a, rs_kind = sa_kind a, rs_status = status, rs_changed = changed,
      rs_detail = py_strip detail, rs_evidence = freeze_obj evidence\<rparr>"

record apply_result =
  ap_plan_digest :: string
  ap_status :: apply_status
  ap_actions :: "action_result list"
  ap_rollback_actions :: "action_result list"

record setup_approval =
  al_plan_digest :: string
  al_privileged :: bool
  al_network :: bool
  al_model_download :: bool
  al_model_convert :: bool
  al_confirmation_actions :: bool

definition hex_digest_re :: "string \<Rightarrow> bool" where
  "hex_digest_re s \<longleftrightarrow> length s = 64 \<and>
     list_all (\<lambda>c. is_digit c \<or> (let n = (of_char c :: nat) in 97 \<le> n \<and> n \<le> 102)) s"

definition mk_setup_approval :: "string \<Rightarrow> bool \<Rightarrow> bool \<Rightarrow> bool \<Rightarrow> bool \<Rightarrow> bool \<Rightarrow> setup_approval res" where
  "mk_setup_approval digest privileged network download convert confirmation =
     rbind (runtime_nonblank digest ''plan_digest'') (\<lambda>d. let n = py_lower d in
       if \<not> hex_digest_re n then Inl (ValueError (Malformed ''plan_digest''))
       else Inr \<lparr>al_plan_digest = n, al_privileged = privileged, al_network = network,
              al_model_download = download, al_model_convert = convert,
              al_confirmation_actions = confirmation\<rparr>)"

section \<open>Lemmas\<close>

lemma thaw_json_id [simp]: "thaw_json v = v"
  by (induction v rule: thaw_json.induct) (auto intro!: map_idI)

lemma thaw_obj_id [simp]: "thaw_obj d = d"
  by (simp add: thaw_obj_def map_idI)

lemma freeze_obj_json: "freeze_json (JObj d) = JObj (freeze_obj d)"
  by (simp add: freeze_obj_def)

text \<open>Mapping over the values of a dictionary commutes with sorting it by its keys.\<close>

lemma map_insort_key:
  "(\<And>p. key (f p) = key p) \<Longrightarrow> map f (insort_key key x xs) = insort_key key (f x) (map f xs)"
  by (induction xs) simp_all

lemma map_sort_key: "(\<And>p. key (f p) = key p) \<Longrightarrow> map f (sort_key key xs) = sort_key key (map f xs)"
  by (induction xs) (simp_all add: map_insort_key)

lemma freeze_idem [simp]: "freeze_json (freeze_json v) = freeze_json v"
proof (induction v rule: freeze_json.induct)
  case (1 d)
  let ?f = "\<lambda>p. (fst p, freeze_json (snd p))"
  have "map ?f (map ?f d) = map ?f d" using 1 by auto
  moreover have "map ?f (sort_key fst (map ?f d)) = sort_key fst (map ?f (map ?f d))"
    by (rule map_sort_key) simp
  ultimately show ?case by (simp add: sort_key_id_if_sorted del: map_map)
qed simp_all

lemma freeze_obj_idem [simp]: "freeze_obj (freeze_obj d) = freeze_obj d"
  using freeze_idem [of "JObj d"] unfolding freeze_obj_json by simp

lemma enum_value_of [simp]:
  "deployment_path_of (deployment_path_value p) = Inr p" "privilege_mode_of (privilege_mode_value m) = Inr m"
  "plan_goal_of (plan_goal_value g) = Inr g" "action_kind_of (action_kind_value k) = Inr k"
  by (cases p, simp_all add: deployment_path_of_def enum_of_def)
    (cases m, simp_all add: privilege_mode_of_def enum_of_def, cases g, simp_all add: plan_goal_of_def enum_of_def,
     cases k, simp_all add: action_kind_of_def enum_of_def)

section \<open>Invariants and round trips\<close>

definition action_ok :: "setup_action \<Rightarrow> bool" where
  "action_ok a \<longleftrightarrow> norm_text (sa_action_id a) \<and> action_id_re (sa_action_id a) \<and> norm_text (sa_description a) \<and>
     freeze_obj (sa_payload a) = sa_payload a"

definition plan_ok :: "setup_plan \<Rightarrow> bool" where
  "plan_ok p \<longleftrightarrow> norm_text (pl_provider_id p) \<and> norm_text (pl_schema_version p) \<and> pl_actions p \<noteq> [] \<and>
     distinct (map sa_action_id (pl_actions p)) \<and> (\<forall>a \<in> set (pl_actions p). action_ok a) \<and>
     freeze_obj (pl_metadata p) = pl_metadata p"

lemma mk_setup_action_ok: "mk_setup_action aid k desc payload a b c d = Inr act \<Longrightarrow> action_ok act"
  by (auto simp: mk_setup_action_def action_ok_def rbind_eq_Inr runtime_nonblank_Inr split: if_splits)

lemma action_from_dict_ok: "action_from_dict v = Inr a \<Longrightarrow> action_ok a"
  by (auto simp: action_from_dict_def rbind_eq_Inr mk_setup_action_ok split: json.splits)

lemma action_roundtrip: "action_ok a \<Longrightarrow> action_from_dict (JObj (action_to_dict a)) = Inr a"
  by (cases a) (simp add: action_ok_def action_from_dict_def action_to_dict_def str_item_def json_item_def json_get_def
      json_get_or_def flag_item_def mk_setup_action_def runtime_nonblank_def norm_text_def Let_def)

lemma rmap_set: "rmap f xs = Inr ys \<Longrightarrow> \<forall>y \<in> set ys. \<exists>x \<in> set xs. f x = Inr y"
  by (induction xs arbitrary: ys) (auto split: sum.splits)

lemma mk_setup_plan_ok:
  "mk_setup_plan pid path goal actions md v = Inr p \<Longrightarrow> \<forall>a \<in> set actions. action_ok a \<Longrightarrow> plan_ok p"
  by (auto simp: mk_setup_plan_def plan_ok_def rbind_eq_Inr runtime_nonblank_Inr split: if_splits)

lemma plan_from_dict_ok:
  assumes "plan_from_dict sha256 d = Inr p"
  shows "plan_ok p"
proof -
  have actions: "\<forall>a \<in> set actions. action_ok a" if "rmap action_from_dict raws = Inr actions" for raws actions
    using rmap_set [OF that] action_from_dict_ok by blast
  from assms have "\<exists>pid path goal actions md v. mk_setup_plan pid path goal actions md v = Inr p \<and> (\<forall>a \<in> set actions. action_ok a)"
    by (auto simp: plan_from_dict_def rbind_eq_Inr Let_def dest!: actions split: if_splits) (metis empty_iff list.set(1))+
  then obtain pid path goal actions md v where mk: "mk_setup_plan pid path goal actions md v = Inr p"
    and "\<forall>a \<in> set actions. action_ok a" by blast
  then show ?thesis by (rule mk_setup_plan_ok)
qed

lemma plan_roundtrip_ok:
  assumes "plan_ok p" "extra = [] \<or> extra = [(''digest'', JStr (plan_digest sha256 p))]"
  shows "plan_from_dict sha256 (plan_to_dict p @ extra) = Inr p"
proof -
  have "rmap action_from_dict (map (\<lambda>a. JObj (action_to_dict a)) as) = Inr as" if "\<forall>a \<in> set as. action_ok a" for as
    using that by (induction as) (simp_all add: action_roundtrip)
  then show ?thesis using assms
    by (cases p) (auto simp: plan_ok_def plan_from_dict_def plan_to_dict_def str_item_def json_item_def json_get_def
      json_get_or_def mk_setup_plan_def runtime_nonblank_def norm_text_def Let_def)
qed

lemma plan_reread:
  assumes "plan_ok p"
  shows "plan_from_dict sha256 (plan_to_dict p @ [(''digest'', JStr s)]) =
    (if s = plan_digest sha256 p then Inr p else Inl (ValueError (Inconsistent ''digest'')))"
proof -
  let ?d = "plan_to_dict p @ [(''digest'', JStr s)]"
  have "dict_get ?d k = dict_get (plan_to_dict p) k" if "k \<noteq> ''digest''" for k
    using that by (simp add: map_add_def split: option.split)
  moreover have "dict_get ?d ''digest'' = Some (JStr s)" "dict_get (plan_to_dict p) ''digest'' = None"
    by (simp_all add: plan_to_dict_def)
  ultimately show ?thesis
    using plan_roundtrip_ok [OF assms, of "[]" sha256]
    by (auto simp: plan_from_dict_def json_get_def json_get_or_def str_item_def json_item_def rbind_eq_Inr Let_def)
qed

end
