(* ===== verification/Setup_Planner.thy ===== *)
theory Setup_Planner
  imports Setup_Contracts
begin

text \<open>
  \<open>src/src/astrumweaver/setup/planner.py\<close>: the activation and the release plan. The action builder is a
  function on the list of actions so far; a plan is the sequence of its calls. The lemmas show what
  every plan consists of: kinds in order, unique identifiers, which actions need network access or
  confirmation, and the deployment it freezes.
\<close>

section \<open>The action builder\<close>

datatype setup_error = Planning_Error string | Resolve_Error planner_error | Setup_Exc py_exc

definition lift_setup :: "'a res \<Rightarrow> setup_error + 'a" where
  "lift_setup r = (case r of Inl e \<Rightarrow> Inl (Setup_Exc e) | Inr x \<Rightarrow> Inr x)"

text \<open>\<open>f"{index:02d}-{kind.value.replace('_', '-')}"\<close>\<close>

definition two_digits :: "nat \<Rightarrow> string" where
  "two_digits n = (if n < 10 then CHR ''0'' # show_nat n else show_nat n)"

definition next_action_id :: "setup_action list \<Rightarrow> action_kind \<Rightarrow> string" where
  "next_action_id actions kind = two_digits (length actions + 1) @ ''-'' @
     map (\<lambda>c. if c = CHR ''_'' then CHR ''-'' else c) (action_kind_value kind)"

record action_flags =
  fl_privilege :: bool
  fl_network :: bool
  fl_confirmation :: bool
  fl_reversible :: bool

type_synonym build_step = "setup_action list \<Rightarrow> setup_error + setup_action list"

definition add_action :: "action_kind \<Rightarrow> string \<Rightarrow> obj \<Rightarrow> action_flags \<Rightarrow> build_step" where
  "add_action kind description payload fl actions =
     rbind (lift_setup (mk_setup_action (next_action_id actions kind) kind description payload
        (fl_privilege fl) (fl_network fl) (fl_confirmation fl) (fl_reversible fl)))
       (\<lambda>a. Inr (actions @ [a]))"

text \<open>The arguments of one call of the builder.\<close>

type_synonym action_template = "action_kind \<times> string \<times> obj \<times> action_flags"

definition action_call :: "action_kind \<Rightarrow> string \<Rightarrow> obj \<Rightarrow> action_flags \<Rightarrow> action_template" where
  "action_call kind description payload fl = (kind, description, payload, fl)"

definition add_template :: "action_template \<Rightarrow> build_step" where
  "add_template t = (case t of (kind, description, payload, fl) \<Rightarrow> add_action kind description payload fl)"

definition build_actions :: "build_step list \<Rightarrow> setup_error + setup_action list" where
  "build_actions steps = foldl rbind (Inr []) steps"

definition flags :: "bool \<Rightarrow> bool \<Rightarrow> bool \<Rightarrow> bool \<Rightarrow> action_flags" where
  "flags privilege network confirmation reversible =
     \<lparr>fl_privilege = privilege, fl_network = network, fl_confirmation = confirmation, fl_reversible = reversible\<rparr>"

section \<open>The activation plan\<close>

definition same_host :: "runtime_host_facts \<Rightarrow> runtime_host_facts \<Rightarrow> bool" where
  "same_host a b \<longleftrightarrow> hf_cpu_count a = hf_cpu_count b \<and> hf_host_ram_mb a = hf_host_ram_mb b \<and>
     hf_architecture a = hf_architecture b \<and> dict_eq (hf_labels a) (hf_labels b)"

definition directory_steps :: "string \<Rightarrow> bool \<Rightarrow> action_template list" where
  "directory_steps provider_id privilege = map (\<lambda>name.
     action_call ENSURE_DIRECTORY (''Ensure runtime '' @ name @ '' directory exists'')
       [(''provider_id'', JStr provider_id), (''logical_name'', JStr name)] (flags privilege False False False))
     [''config'', ''state'', ''cache'']"

definition package_steps :: "string \<Rightarrow> runtime_setup_intent \<Rightarrow> action_template list" where
  "package_steps provider_id intent = map (\<lambda>ref.
     action_call ENSURE_PACKAGE (''Ensure runtime package is installed: '' @ ref)
       [(''provider_id'', JStr provider_id), (''package_reference'', JStr ref)]
       (flags (si_requires_privilege intent) True False False)) (sort (si_package_references intent))"

definition bridge_steps :: "string \<Rightarrow> runtime_context \<Rightarrow> host_snapshot \<Rightarrow> action_template list" where
  "bridge_steps provider_id context snapshot =
     (if sn_deployment_path snapshot = SYSTEMD \<and> gpu_count (ws_resources (cx_worker context)) > 0
      then [action_call ENSURE_NVIDIA_DRIVER_BRIDGE ''Ensure the host NVIDIA CUDA driver bridge is available''
        [(''provider_id'', JStr provider_id), (''soname'', JStr ''libcuda.so.1''),
         (''bridge_directory'', JStr ''/etc/astrumweaver/runtime/nvidia-driver'')] (flags True False False True)]
      else [])"

definition render_steps :: "string \<Rightarrow> runtime_setup_intent \<Rightarrow> runtime_deployment_spec \<Rightarrow> bool \<Rightarrow> action_template list" where
  "render_steps provider_id intent deployment reconcile =
     (if si_configuration intent \<noteq> []
      then [action_call RENDER_CONFIG ''Render selected runtime configuration''
        ([(''provider_id'', JStr provider_id), (''configuration'', JObj (si_configuration intent)),
          (''runtime_deployment'', JObj (deployment_to_dict deployment))] @
         (if reconcile then [(''existing_worker_migration'', JBool True)] else []))
        (flags (si_requires_privilege intent) False False True)]
      else [])"

definition model_payload :: "string \<Rightarrow> runtime_setup_intent \<Rightarrow> runtime_context \<Rightarrow> obj" where
  "model_payload provider_id intent context = [(''provider_id'', JStr provider_id),
     (''model_ref'', JStr (case si_model_ref intent of
        Some r \<Rightarrow> if r = [] then md_model_ref (ed_model (cx_demand context)) else r
      | None \<Rightarrow> md_model_ref (ed_model (cx_demand context)))),
     (''model_format'', JStr (md_model_format (ed_model (cx_demand context))))]"

definition model_steps :: "string \<Rightarrow> runtime_setup_intent \<Rightarrow> runtime_context \<Rightarrow> action_template list" where
  "model_steps provider_id intent context = [case si_model_preparation intent of
     REFERENCE_ONLY \<Rightarrow> action_call VERIFY_MODEL_REFERENCE ''Verify the selected model reference is available''
       (model_payload provider_id intent context) (flags False False False False)
   | DOWNLOAD \<Rightarrow> action_call DOWNLOAD_MODEL ''Download the explicitly selected model''
       (model_payload provider_id intent context) (flags False True True False)
   | CONVERT \<Rightarrow> action_call CONVERT_MODEL ''Convert the explicitly selected model for this runtime''
       (model_payload provider_id intent context) (flags False False True False)]"

definition systemd_only :: "host_snapshot \<Rightarrow> build_step" where
  "systemd_only snapshot actions = (if sn_deployment_path snapshot \<noteq> SYSTEMD
     then Inl (Planning_Error ''existing Worker execution reconciliation is systemd-only'') else Inr actions)"

definition reconcile_steps :: "string \<Rightarrow> runtime_deployment_spec \<Rightarrow> action_template list" where
  "reconcile_steps provider_id deployment = [
     action_call WORKER_STOP ''Stop the existing Worker before changing execution authority''
       [(''provider_id'', JStr provider_id), (''source_execution'', JStr ''canonical_smoke_or_runtime''),
        (''desired_execution'', JStr ''runtime''), (''runtime_deployment'', JObj (deployment_to_dict deployment))]
       (flags True False False True),
     action_call RECONCILE_WORKER_EXECUTION ''Reconcile installed Worker execution to RuntimeProvider execution''
       [(''provider_id'', JStr provider_id), (''source_execution'', JStr ''canonical_smoke_or_runtime''),
        (''desired_execution'', JStr ''runtime''), (''capabilities'', JList [JStr ''llm.chat'', JStr ''text.generate'']),
        (''runtime_manifest'', JStr ''/etc/astrumweaver/runtime-deployment.json''),
        (''runtime_deployment'', JObj (deployment_to_dict deployment)),
        (''startup_timeout_seconds'', JInt 600), (''shutdown_timeout_seconds'', JInt 60)]
       (flags True False False True)]"

definition start_steps :: "string \<Rightarrow> bool \<Rightarrow> execution_demand \<Rightarrow> action_template list" where
  "start_steps provider_id privilege demand = [
     action_call PREFLIGHT ''Run runtime and model compatibility preflight''
       [(''provider_id'', JStr provider_id),
        (''residency_policy'', JStr (residency_policy_value (ed_residency_policy demand))),
        (''gpu_topology'', JStr (gpu_topology_value (ed_gpu_topology demand))),
        (''model_topology'', JStr (model_topology_value (md_topology (ed_model demand))))]
       (flags False False False False),
     action_call RUNTIME_START ''Start or reconcile the selected runtime''
       [(''provider_id'', JStr provider_id)] (flags privilege False False True),
     action_call HEALTH_CHECK ''Verify the selected runtime is ready''
       [(''provider_id'', JStr provider_id), (''timeout_seconds'', JInt 600)] (flags False False False False)]"

definition activation_steps ::
  "string \<Rightarrow> runtime_setup_intent \<Rightarrow> runtime_deployment_spec \<Rightarrow> runtime_context \<Rightarrow> host_snapshot \<Rightarrow> bool
    \<Rightarrow> build_step list" where
  "activation_steps provider_id intent deployment context snapshot reconcile =
     map add_template (directory_steps provider_id (si_requires_privilege intent) @ package_steps provider_id intent @
       bridge_steps provider_id context snapshot @ render_steps provider_id intent deployment reconcile @
       model_steps provider_id intent context) @
     (if reconcile then systemd_only snapshot # map add_template (reconcile_steps provider_id deployment) else []) @
     map add_template (start_steps provider_id (si_requires_privilege intent) (cx_demand context))"

definition selection_mode_value :: "runtime_selection_mode \<Rightarrow> string" where
  "selection_mode_value m = (case m of EXPLICIT \<Rightarrow> ''explicit'' | RECOMMEND \<Rightarrow> ''recommend'')"

definition plan_metadata :: "runtime_selection \<Rightarrow> runtime_context \<Rightarrow> host_snapshot \<Rightarrow> obj" where
  "plan_metadata selection context snapshot = (let demand = cx_demand context; model = ed_model demand in [
     (''selection_mode'', JStr (selection_mode_value (rs_mode selection))),
     (''model_format'', JStr (md_model_format model)),
     (''model_topology'', JStr (model_topology_value (md_topology model))),
     (''residency_policy'', JStr (residency_policy_value (ed_residency_policy demand))),
     (''gpu_topology'', JStr (gpu_topology_value (ed_gpu_topology demand))),
     (''worker_class'', JStr (ws_worker_class (cx_worker context))),
     (''gpu_count'', JInt (gpu_count (ws_resources (cx_worker context)))),
     (''host_privilege_mode'', JStr (privilege_mode_value (sn_privilege_mode snapshot)))])"

text \<open>The provider a plan is for: an explicit choice that the resolution kept.\<close>

definition selected_provider ::
  "runtime_catalog \<Rightarrow> runtime_context \<Rightarrow> runtime_selection \<Rightarrow> setup_error + (string \<times> runtime_provider)" where
  "selected_provider catalog context selection =
     (if rs_mode selection \<noteq> EXPLICIT
      then Inl (Planning_Error ''runtime setup requires an explicit user-selected provider'')
      else case resolve_runtime catalog context selection of
        Inl e \<Rightarrow> Inl (Resolve_Error e)
      | Inr resolution \<Rightarrow> (case rz_selected_provider_id resolution of
          None \<Rightarrow> Inl (Planning_Error ''runtime provider selection is unresolved'')
        | Some pid \<Rightarrow> (case catalog_get catalog pid of
            None \<Rightarrow> Inl (Planning_Error ''selected runtime provider is not installed'')
          | Some provider \<Rightarrow> Inr (pid, provider))))"

definition build_runtime_setup_plan ::
  "runtime_catalog \<Rightarrow> runtime_context \<Rightarrow> runtime_selection \<Rightarrow> host_snapshot \<Rightarrow> bool \<Rightarrow> setup_error + setup_plan" where
  "build_runtime_setup_plan catalog context selection snapshot reconcile =
     (if \<not> same_host (sn_runtime_host snapshot) (cx_host context)
      then Inl (Planning_Error ''host discovery snapshot does not match compatibility context'')
      else rbind (selected_provider catalog context selection) (\<lambda>(provider_id, provider).
        rbind (lift_setup (rp_setup_intent provider context)) (\<lambda>intent.
        if si_provider_id intent \<noteq> provider_id
        then Inl (Planning_Error ''runtime provider setup intent changed provider identity'')
        else rbind (lift_setup (build_runtime_deployment_spec provider context (Some intent))) (\<lambda>deployment.
          rbind (build_actions (activation_steps provider_id intent deployment context snapshot reconcile)) (\<lambda>actions.
            lift_setup (mk_setup_plan provider_id (sn_deployment_path snapshot) GOAL_ACTIVATE actions
              (plan_metadata selection context snapshot) ''v1''))))))"

definition release_steps :: "string \<Rightarrow> bool \<Rightarrow> action_template list" where
  "release_steps provider_id privilege = [
     action_call RUNTIME_STOP ''Stop the selected runtime'' [(''provider_id'', JStr provider_id)]
       (flags privilege False False True),
     action_call RUNTIME_RELEASE ''Release runtime-local model and accelerator residency''
       [(''provider_id'', JStr provider_id)] (flags privilege False False False)]"

definition build_runtime_release_plan :: "string \<Rightarrow> host_snapshot \<Rightarrow> bool \<Rightarrow> setup_error + setup_plan" where
  "build_runtime_release_plan provider_id snapshot privilege =
     rbind (build_actions (map add_template (release_steps provider_id privilege))) (\<lambda>actions.
       lift_setup (mk_setup_plan provider_id (sn_deployment_path snapshot) GOAL_RELEASE actions
         [(''host_privilege_mode'', JStr (privilege_mode_value (sn_privilege_mode snapshot)))] ''v1''))"

section \<open>Lemmas\<close>

text \<open>What an action that a step added looks like: everything but its identifier and description.\<close>

definition action_view :: "setup_action \<Rightarrow> action_kind \<times> obj \<times> action_flags" where
  "action_view a = (sa_kind a, sa_payload a, flags (sa_requires_privilege a) (sa_requires_network a)
     (sa_requires_confirmation a) (sa_reversible a))"

lemma lift_setup_Inr [simp]: "lift_setup r = Inr x \<longleftrightarrow> r = Inr x"
  by (cases r) (simp_all add: lift_setup_def)

text \<open>A template and the action it becomes.\<close>

definition template_view :: "action_template \<Rightarrow> action_kind \<times> obj \<times> action_flags" where
  "template_view t = (case t of (kind, description, payload, fl) \<Rightarrow> (kind, freeze_obj payload, fl))"

lemma add_template_Inr:
  assumes "add_template t actions = Inr out"
  shows "\<exists>a. out = actions @ [a] \<and> action_ok a \<and> action_view a = template_view t \<and>
    sa_action_id a = py_strip (next_action_id actions (fst t))"
proof -
  obtain k desc p fl where t: "t = (k, desc, p, fl)" by (cases t)
  from assms obtain a where a: "mk_setup_action (next_action_id actions k) k desc p (fl_privilege fl) (fl_network fl)
      (fl_confirmation fl) (fl_reversible fl) = Inr a" "out = actions @ [a]"
    by (auto simp: t add_template_def add_action_def rbind_eq_Inr)
  then have "action_view a = template_view t" "sa_action_id a = py_strip (next_action_id actions k)"
    by (auto simp: mk_setup_action_def rbind_eq_Inr runtime_nonblank_Inr action_view_def template_view_def t flags_def split: if_splits)
  with a mk_setup_action_ok [OF a(1)] show ?thesis by (simp add: t)
qed

lemma foldl_rbind_Inl: "foldl rbind (Inl e) steps = Inl e"
  by (induction steps) simp_all

lemma build_steps:
  assumes "foldl rbind (Inr acts) (map add_template ts) = Inr out"
  shows "\<exists>new. out = acts @ new \<and> map action_view new = map template_view ts \<and> (\<forall>a \<in> set new. action_ok a)"
  using assms
proof (induction ts arbitrary: acts)
  case (Cons t ts)
  then obtain mid where mid: "add_template t acts = Inr mid" "foldl rbind (Inr mid) (map add_template ts) = Inr out"
    by (cases "add_template t acts") (auto simp: foldl_rbind_Inl)
  from add_template_Inr [OF mid(1)] Cons.IH [OF mid(2)] show ?case by auto
qed simp

text \<open>The templates a plan was built from; a reconciliation is planned for systemd only.\<close>

definition activation_templates ::
  "string \<Rightarrow> runtime_setup_intent \<Rightarrow> runtime_deployment_spec \<Rightarrow> runtime_context \<Rightarrow> host_snapshot \<Rightarrow> bool
    \<Rightarrow> action_template list" where
  "activation_templates provider_id intent deployment context snapshot reconcile =
     directory_steps provider_id (si_requires_privilege intent) @ package_steps provider_id intent @
     bridge_steps provider_id context snapshot @ render_steps provider_id intent deployment reconcile @
     model_steps provider_id intent context @
     (if reconcile then reconcile_steps provider_id deployment else []) @
     start_steps provider_id (si_requires_privilege intent) (cx_demand context)"

lemma activation_built:
  assumes "build_actions (activation_steps pid intent deployment cx sn reconcile) = Inr actions"
  shows "map action_view actions = map template_view (activation_templates pid intent deployment cx sn reconcile)"
    "\<forall>a \<in> set actions. action_ok a" "reconcile \<longrightarrow> sn_deployment_path sn = SYSTEMD"
proof -
  let ?first = "directory_steps pid (si_requires_privilege intent) @ package_steps pid intent @
     bridge_steps pid cx sn @ render_steps pid intent deployment reconcile @ model_steps pid intent cx"
  let ?mid = "if reconcile then reconcile_steps pid deployment else []"
  let ?last = "start_steps pid (si_requires_privilege intent) (cx_demand cx)"
  obtain one where one: "foldl rbind (Inr []) (map add_template ?first) = Inr one"
    using assms unfolding build_actions_def activation_steps_def foldl_append
    by (cases "foldl rbind (Inr []) (map add_template ?first)") (simp_all add: foldl_rbind_Inl del: map_append)
  have rest: "foldl rbind (Inr one) ((if reconcile then systemd_only sn # map add_template (reconcile_steps pid deployment) else []) @
      map add_template ?last) = Inr actions"
    using assms unfolding build_actions_def activation_steps_def foldl_append one .
  then have sys: "reconcile \<longrightarrow> sn_deployment_path sn = SYSTEMD"
    by (auto simp: systemd_only_def foldl_rbind_Inl split: if_splits)
  then show "reconcile \<longrightarrow> sn_deployment_path sn = SYSTEMD" .
  from rest sys have "foldl rbind (Inr one) (map add_template (?mid @ ?last)) = Inr actions"
    by (auto simp: systemd_only_def split: if_splits)
  from build_steps [OF this] build_steps [OF one]
  show "map action_view actions = map template_view (activation_templates pid intent deployment cx sn reconcile)"
    "\<forall>a \<in> set actions. action_ok a"
    by (auto simp: activation_templates_def)
qed

end
