(* ===== verification/Setup_Apply.thy ===== *)
theory Setup_Apply
  imports Setup_Planner Gpu_Mapping "HOL-Library.Sublist"
begin

text \<open>
  \<open>src/src/astrumweaver/setup/apply.py\<close>: preview, approval, application and rollback of a plan over an
  arbitrary driver on an arbitrary world. A driver operation returns a value or raises; the names of
  the exception classes appear in the details. The progress callback is told every result as it is
  recorded and cannot influence anything, so the results themselves stand for it.

  A driver can be made to log its calls, so the theorems speak about the calls made: nothing is called
  without the approval, and a failed application undoes exactly the reversible changes, last first.
\<close>

section \<open>Drivers\<close>

type_synonym exc_name = string

record 'w setup_driver =
  dr_inspect :: "setup_action \<Rightarrow> 'w \<Rightarrow> (exc_name + action_inspection) \<times> 'w"
  dr_apply :: "setup_action \<Rightarrow> 'w \<Rightarrow> (exc_name + action_receipt) \<times> 'w"
  dr_rollback :: "setup_action \<Rightarrow> action_receipt \<Rightarrow> 'w \<Rightarrow> (exc_name + action_receipt) \<times> 'w"

section \<open>Preview\<close>

fun preview_actions :: "'w setup_driver \<Rightarrow> setup_action list \<Rightarrow> 'w \<Rightarrow> action_preview list \<times> 'w" where
  "preview_actions dr [] w = ([], w)"
| "preview_actions dr (a # actions) w = (case dr_inspect dr a w of (r, w1) \<Rightarrow>
     (let inspection = (case r of Inl e \<Rightarrow> mk_inspection ACT_BLOCKED (''inspection failed: '' @ e) | Inr i \<Rightarrow> i);
          (rest, w2) = preview_actions dr actions w1
      in (\<lparr>pv_action_id = sa_action_id a, pv_kind = sa_kind a, pv_state = in_state inspection,
           pv_description = sa_description a, pv_requires_privilege = sa_requires_privilege a,
           pv_requires_network = sa_requires_network a, pv_requires_confirmation = sa_requires_confirmation a,
           pv_detail = in_detail inspection\<rparr> # rest, w2)))"

definition preview_plan :: "(json \<Rightarrow> string) \<Rightarrow> 'w setup_driver \<Rightarrow> setup_plan \<Rightarrow> 'w \<Rightarrow> setup_preview \<times> 'w" where
  "preview_plan sha256 dr plan w = (case preview_actions dr (pl_actions plan) w of (ps, w') \<Rightarrow>
     (\<lparr>sp_plan_digest = plan_digest sha256 plan, sp_actions = ps\<rparr>, w'))"

definition dry_run_plan :: "(json \<Rightarrow> string) \<Rightarrow> 'w setup_driver \<Rightarrow> setup_plan \<Rightarrow> 'w \<Rightarrow> setup_preview \<times> 'w" where
  "dry_run_plan = preview_plan"

definition action_suffix :: "setup_action \<Rightarrow> string" where
  "action_suffix a = (let fs = (if sa_requires_privilege a then [''privileged''] else []) @
       (if sa_requires_network a then [''network''] else []) @
       (if sa_requires_confirmation a then [''confirmation''] else []) @
       (if sa_reversible a then [''reversible''] else [])
     in if fs = [] then [] else '' ['' @ py_join '' '' fs @ '']'')"

definition explain_plan :: "(json \<Rightarrow> string) \<Rightarrow> setup_plan \<Rightarrow> string" where
  "explain_plan sha256 plan = py_join [CHR 0x0A] (
     [''SetupPlan '' @ plan_digest sha256 plan, ''provider: '' @ pl_provider_id plan,
      ''deployment: '' @ deployment_path_value (pl_deployment_path plan),
      ''goal: '' @ plan_goal_value (pl_goal plan), ''actions:''] @
     map (\<lambda>a. ''  '' @ sa_action_id a @ '': '' @ action_kind_value (sa_kind a) @ '' - '' @ sa_description a @ action_suffix a)
       (pl_actions plan))"

section \<open>Approval\<close>

datatype approval_error =
    Digest_Mismatch | Privilege_Not_Approved | Network_Not_Approved | Confirmation_Not_Approved
  | Download_Not_Approved | Convert_Not_Approved

fun model_approval :: "setup_approval \<Rightarrow> setup_action list \<Rightarrow> approval_error + unit" where
  "model_approval approval [] = Inr ()"
| "model_approval approval (a # actions) =
     (if sa_kind a = DOWNLOAD_MODEL \<and> \<not> al_model_download approval then Inl Download_Not_Approved
      else if sa_kind a = CONVERT_MODEL \<and> \<not> al_model_convert approval then Inl Convert_Not_Approved
      else model_approval approval actions)"

definition validate_approval :: "(json \<Rightarrow> string) \<Rightarrow> setup_plan \<Rightarrow> setup_approval \<Rightarrow> approval_error + unit" where
  "validate_approval sha256 plan approval =
     (if al_plan_digest approval \<noteq> plan_digest sha256 plan then Inl Digest_Mismatch
      else if plan_requires_privilege plan \<and> \<not> al_privileged approval then Inl Privilege_Not_Approved
      else if plan_requires_network plan \<and> \<not> al_network approval then Inl Network_Not_Approved
      else if plan_requires_confirmation plan \<and> \<not> al_confirmation_actions approval then Inl Confirmation_Not_Approved
      else model_approval approval (pl_actions plan))"

section \<open>Application\<close>

text \<open>\<open>_rollback\<close> on the changes in the order in which they were made.\<close>

fun rollback_each :: "'w setup_driver \<Rightarrow> (setup_action \<times> action_receipt) list \<Rightarrow> 'w \<Rightarrow> action_result list \<times> 'w" where
  "rollback_each dr [] w = ([], w)"
| "rollback_each dr ((a, receipt) # rest) w =
     (if \<not> sa_reversible a \<or> \<not> ar_changed receipt then rollback_each dr rest w
      else case dr_rollback dr a receipt w of
        (Inl e, w1) \<Rightarrow> (case rollback_each dr rest w1 of (rs, w2) \<Rightarrow>
          (mk_action_result a RES_ROLLBACK_FAILED False (''rollback failed: '' @ e) [] # rs, w2))
      | (Inr r, w1) \<Rightarrow> (case rollback_each dr rest w1 of (rs, w2) \<Rightarrow>
          (mk_action_result a RES_ROLLED_BACK (ar_changed r) (ar_detail r) (ar_evidence r) # rs, w2)))"

definition rollback_applied ::
  "'w setup_driver \<Rightarrow> (setup_action \<times> action_receipt) list \<Rightarrow> 'w \<Rightarrow> action_result list \<times> 'w" where
  "rollback_applied dr applied w = rollback_each dr (rev applied) w"

definition apply_fails ::
  "string \<Rightarrow> 'w setup_driver \<Rightarrow> bool \<Rightarrow> action_result list \<Rightarrow> (setup_action \<times> action_receipt) list \<Rightarrow> 'w
    \<Rightarrow> apply_result \<times> 'w" where
  "apply_fails digest dr rollback_on_failure results applied w =
     (case (if rollback_on_failure then rollback_applied dr applied w else ([], w)) of (rs, w') \<Rightarrow>
       (\<lparr>ap_plan_digest = digest, ap_status = APPLY_FAILED, ap_actions = results, ap_rollback_actions = rs\<rparr>, w'))"

definition detail_or :: "string \<Rightarrow> string \<Rightarrow> string" where
  "detail_or detail dflt = (if detail = [] then dflt else detail)"

fun apply_actions ::
  "string \<Rightarrow> 'w setup_driver \<Rightarrow> bool \<Rightarrow> action_result list \<Rightarrow> (setup_action \<times> action_receipt) list
    \<Rightarrow> setup_action list \<Rightarrow> 'w \<Rightarrow> apply_result \<times> 'w" where
  "apply_actions digest dr undo results applied [] w =
     (\<lparr>ap_plan_digest = digest, ap_status = APPLY_SUCCEEDED, ap_actions = results, ap_rollback_actions = []\<rparr>, w)"
| "apply_actions digest dr undo results applied (a # actions) w = (case dr_inspect dr a w of
     (Inl e, w1) \<Rightarrow> apply_fails digest dr undo
       (results @ [mk_action_result a RES_FAILED False (''inspection failed: '' @ e) []]) applied w1
   | (Inr i, w1) \<Rightarrow> (case in_state i of
       ACT_SATISFIED \<Rightarrow> apply_actions digest dr undo
         (results @ [mk_action_result a RES_SKIPPED False (detail_or (in_detail i) ''already satisfied'') []]) applied actions w1
     | ACT_BLOCKED \<Rightarrow> apply_fails digest dr undo
         (results @ [mk_action_result a RES_BLOCKED False (detail_or (in_detail i) ''action is blocked'') []]) applied w1
     | ACT_NEEDS_APPLY \<Rightarrow> (case dr_apply dr a w1 of
         (Inl e, w2) \<Rightarrow> apply_fails digest dr undo
           (results @ [mk_action_result a RES_FAILED False (''apply failed: '' @ e) []]) applied w2
       | (Inr r, w2) \<Rightarrow> apply_actions digest dr undo
           (results @ [mk_action_result a (if ar_changed r then RES_APPLIED else RES_SKIPPED) (ar_changed r) (ar_detail r) (ar_evidence r)])
           (if ar_changed r then applied @ [(a, r)] else applied) actions w2)))"

definition apply_plan ::
  "(json \<Rightarrow> string) \<Rightarrow> 'w setup_driver \<Rightarrow> setup_plan \<Rightarrow> setup_approval \<Rightarrow> bool \<Rightarrow> 'w
    \<Rightarrow> (approval_error + apply_result) \<times> 'w" where
  "apply_plan sha256 dr plan approval rollback_on_failure w = (case validate_approval sha256 plan approval of
     Inl e \<Rightarrow> (Inl e, w)
   | Inr _ \<Rightarrow> (case apply_actions (plan_digest sha256 plan) dr rollback_on_failure [] [] (pl_actions plan) w of
       (r, w') \<Rightarrow> (Inr r, w')))"

section \<open>The calls an application makes\<close>

datatype driver_call =
    Inspect_Call setup_action | Apply_Call setup_action | Rollback_Call setup_action action_receipt

definition logging_driver :: "'w setup_driver \<Rightarrow> ('w \<times> driver_call list) setup_driver" where
  "logging_driver dr = \<lparr>
     dr_inspect = (\<lambda>a (w, tr). case dr_inspect dr a w of (r, w') \<Rightarrow> (r, w', tr @ [Inspect_Call a])),
     dr_apply = (\<lambda>a (w, tr). case dr_apply dr a w of (r, w') \<Rightarrow> (r, w', tr @ [Apply_Call a])),
     dr_rollback = (\<lambda>a r (w, tr). case dr_rollback dr a r w of (r', w') \<Rightarrow> (r', w', tr @ [Rollback_Call a r]))\<rparr>"

definition undo_calls :: "(setup_action \<times> action_receipt) list \<Rightarrow> driver_call list" where
  "undo_calls applied = map (\<lambda>(a, r). Rollback_Call a r)
     (filter (\<lambda>(a, r). sa_reversible a \<and> ar_changed r) (rev applied))"

text \<open>
  The forward calls for a sequence of actions with their results, and the changes they made: an
  inspection each, followed by the application unless the inspection settled the action.
\<close>

inductive forward :: "setup_action list \<Rightarrow> action_result list \<Rightarrow> (setup_action \<times> action_receipt) list
    \<Rightarrow> driver_call list \<Rightarrow> bool" where
  forward_Nil: "forward [] [] [] []"
| forward_skip: "forward as rs app calls \<Longrightarrow> rs_action_id r = sa_action_id a \<Longrightarrow> rs_status r = RES_SKIPPED \<Longrightarrow>
    tail \<in> {[], [Apply_Call a]} \<Longrightarrow> forward (as @ [a]) (rs @ [r]) app (calls @ [Inspect_Call a] @ tail)"
| forward_change: "forward as rs app calls \<Longrightarrow> rs_action_id r = sa_action_id a \<Longrightarrow> rs_status r = RES_APPLIED \<Longrightarrow>
    ar_changed receipt \<Longrightarrow> forward (as @ [a]) (rs @ [r]) (app @ [(a, receipt)]) (calls @ [Inspect_Call a, Apply_Call a])"

lemma logging_call:
  "dr_inspect (logging_driver dr) a (w, tr) = (case dr_inspect dr a w of (r, w') \<Rightarrow> (r, w', tr @ [Inspect_Call a]))"
  "dr_apply (logging_driver dr) a (w, tr) = (case dr_apply dr a w of (r, w') \<Rightarrow> (r, w', tr @ [Apply_Call a]))"
  "dr_rollback (logging_driver dr) a rc (w, tr) = (case dr_rollback dr a rc w of (r, w') \<Rightarrow> (r, w', tr @ [Rollback_Call a rc]))"
  by (simp_all add: logging_driver_def)

lemma rollback_each_calls:
  "snd (snd (rollback_each (logging_driver dr) app (w, tr))) =
     tr @ map (\<lambda>(a, r). Rollback_Call a r) (filter (\<lambda>(a, r). sa_reversible a \<and> ar_changed r) app)"
proof (induction app arbitrary: w tr)
  case (Cons p app)
  obtain a r where p: "p = (a, r)" by fastforce
  obtain q w1 where "dr_rollback dr a r w = (q, w1)" by fastforce
  then show ?case
    using Cons.IH [of w tr] Cons.IH [of w1 "tr @ [Rollback_Call a r]"]
    unfolding p by (cases q) (auto simp: logging_call split: prod.splits)
qed simp

lemma rollback_each_results:
  "map rs_action_id (fst (rollback_each dr app w)) =
     map (\<lambda>(a, r). sa_action_id a) (filter (\<lambda>(a, r). sa_reversible a \<and> ar_changed r) app)"
  by (induction dr app w rule: rollback_each.induct)
    (auto simp: mk_action_result_def split: sum.splits prod.splits)

text \<open>A whole application: forward calls for a prefix of the actions, then success or the failing action and the undoing.\<close>

definition application :: "bool \<Rightarrow> setup_action list \<Rightarrow> apply_result \<Rightarrow> driver_call list \<Rightarrow> bool" where
  "application undo actions res calls \<longleftrightarrow> (\<exists>as rs app fw. forward as rs app fw \<and>
     (case ap_status res of
        APPLY_SUCCEEDED \<Rightarrow> as = actions \<and> ap_actions res = rs \<and> ap_rollback_actions res = [] \<and> calls = fw
      | APPLY_FAILED \<Rightarrow> (\<exists>a r tail. prefix (as @ [a]) actions \<and> ap_actions res = rs @ [r] \<and>
          rs_action_id r = sa_action_id a \<and> rs_status r \<in> {RES_FAILED, RES_BLOCKED} \<and> tail \<in> {[], [Apply_Call a]} \<and>
          length (ap_rollback_actions res) = (if undo then length (undo_calls app) else 0) \<and>
          calls = fw @ [Inspect_Call a] @ tail @ (if undo then undo_calls app else []))))"

lemma apply_fails_application:
  assumes "forward as rs app fw" "prefix (as @ [a]) actions" "rs_action_id r = sa_action_id a"
    and "rs_status r \<in> {RES_FAILED, RES_BLOCKED}" "tail \<in> {[], [Apply_Call a]}"
    and "apply_fails digest (logging_driver dr) undo (rs @ [r]) app (w, fw @ [Inspect_Call a] @ tail) = (res, w', tr)"
  shows "application undo actions res tr"
proof -
  have "ap_status res = APPLY_FAILED" "ap_actions res = rs @ [r]"
    "length (ap_rollback_actions res) = (if undo then length (undo_calls app) else 0)"
    "tr = fw @ [Inspect_Call a] @ tail @ (if undo then undo_calls app else [])"
    using assms(6) arg_cong [OF rollback_each_results [of "logging_driver dr" "rev app" "(w, fw @ [Inspect_Call a] @ tail)"], of length]
      rollback_each_calls [of dr "rev app" w "fw @ [Inspect_Call a] @ tail"]
    by (auto simp: apply_fails_def rollback_applied_def undo_calls_def split: prod.splits if_splits)
  with assms(1-5) show ?thesis unfolding application_def by force
qed

lemma apply_actions_application:
  assumes "forward done rs app fw"
    and "apply_actions digest (logging_driver dr) undo rs app todo (w, fw) = (res, w', tr)"
  shows "application undo (done @ todo) res tr"
  using assms
proof (induction todo arbitrary: "done" rs app fw w)
  case Nil
  then show ?case by (auto simp: application_def)
next
  case (Cons a todo)
  obtain q w1 where i: "dr_inspect dr a w = (q, w1)" by fastforce
  have insp: "dr_inspect (logging_driver dr) a (w, fw) = (q, w1, fw @ [Inspect_Call a])" by (simp add: logging_call i)
  note fails = apply_fails_application [OF Cons.prems(1), of a "done @ a # todo" _ _ digest dr undo _ res w' tr]
  show ?case
  proof (cases q)
    case (Inl e)
    with Cons.prems(2) insp show ?thesis
      by (intro fails [of "mk_action_result a RES_FAILED False (''inspection failed: '' @ e) []" "[]"])
        (simp_all add: mk_action_result_def)
  next
    case (Inr i)
    show ?thesis
    proof (cases "in_state i")
      case ACT_SATISFIED
      let ?r = "mk_action_result a RES_SKIPPED False (detail_or (in_detail i) ''already satisfied'') []"
      have "forward (done @ [a]) (rs @ [?r]) app (fw @ [Inspect_Call a] @ [])"
        using Cons.prems(1) by (rule forward_skip) (simp_all add: mk_action_result_def)
      from Cons.IH [OF this] Cons.prems(2) insp Inr ACT_SATISFIED show ?thesis by simp
    next
      case ACT_BLOCKED
      with Cons.prems(2) insp Inr show ?thesis
        by (intro fails [of "mk_action_result a RES_BLOCKED False (detail_or (in_detail i) ''action is blocked'') []" "[]"])
          (simp_all add: mk_action_result_def)
    next
      case ACT_NEEDS_APPLY
      obtain q2 w2 where ap: "dr_apply dr a w1 = (q2, w2)" by fastforce
      have app2: "dr_apply (logging_driver dr) a (w1, fw @ [Inspect_Call a]) = (q2, w2, fw @ [Inspect_Call a, Apply_Call a])"
        by (simp add: logging_call ap)
      show ?thesis
      proof (cases q2)
        case (Inl e)
        with Cons.prems(2) insp Inr ACT_NEEDS_APPLY app2 show ?thesis
          by (intro fails [of "mk_action_result a RES_FAILED False (''apply failed: '' @ e) []" "[Apply_Call a]"])
            (simp_all add: mk_action_result_def)
      next
        case r: (Inr r)
        let ?r = "mk_action_result a (if ar_changed r then RES_APPLIED else RES_SKIPPED) (ar_changed r) (ar_detail r) (ar_evidence r)"
        have "forward (done @ [a]) (rs @ [?r]) (if ar_changed r then app @ [(a, r)] else app) (fw @ [Inspect_Call a, Apply_Call a])"
          using forward_skip [OF Cons.prems(1), of ?r a "[Apply_Call a]"] forward_change [OF Cons.prems(1), of ?r a r]
          by (auto simp: mk_action_result_def)
        from Cons.IH [OF this] Cons.prems(2) insp Inr ACT_NEEDS_APPLY app2 r show ?thesis by (simp split: if_splits)
      qed
    qed
  qed
qed

text \<open>Every action that is applied is one of the plan.\<close>

lemma forward_calls: "forward as rs app fw \<Longrightarrow> Apply_Call a \<in> set fw \<Longrightarrow> a \<in> set as"
  by (induction rule: forward.induct) auto

lemma undo_not_apply: "Apply_Call a \<notin> set (undo_calls app)"
  by (auto simp: undo_calls_def)

lemma application_calls:
  assumes "application undo actions res calls" "Apply_Call a \<in> set calls"
  shows "a \<in> set actions"
proof -
  from assms(1) obtain as rs app fw where fw: "forward as rs app fw"
    and rest: "case ap_status res of
        APPLY_SUCCEEDED \<Rightarrow> as = actions \<and> calls = fw
      | APPLY_FAILED \<Rightarrow> (\<exists>b tail. prefix (as @ [b]) actions \<and> tail \<in> {[], [Apply_Call b]} \<and>
          calls = fw @ [Inspect_Call b] @ tail @ (if undo then undo_calls app else []))"
    unfolding application_def by (cases "ap_status res") auto
  show ?thesis
  proof (cases "ap_status res")
    case APPLY_SUCCEEDED
    with rest assms(2) forward_calls [OF fw] show ?thesis by simp
  next
    case APPLY_FAILED
    with rest obtain b tail where b: "prefix (as @ [b]) actions" "tail \<in> {[], [Apply_Call b]}"
      "calls = fw @ [Inspect_Call b] @ tail @ (if undo then undo_calls app else [])" by auto
    with assms(2) undo_not_apply have "Apply_Call a \<in> set fw \<or> a = b" by (auto split: if_splits)
    with forward_calls [OF fw] set_mono_prefix [OF b(1)] show ?thesis by auto
  qed
qed

lemma model_approval_Inr:
  "model_approval approval as = Inr u \<Longrightarrow> a \<in> set as \<Longrightarrow>
     (sa_kind a = DOWNLOAD_MODEL \<longrightarrow> al_model_download approval) \<and> (sa_kind a = CONVERT_MODEL \<longrightarrow> al_model_convert approval)"
  by (induction as) (auto split: if_splits)

text \<open>What an approval has to grant for an action.\<close>

definition approved :: "setup_approval \<Rightarrow> setup_action \<Rightarrow> bool" where
  "approved approval a \<longleftrightarrow> (sa_requires_privilege a \<longrightarrow> al_privileged approval) \<and>
     (sa_requires_network a \<longrightarrow> al_network approval) \<and> (sa_requires_confirmation a \<longrightarrow> al_confirmation_actions approval) \<and>
     (sa_kind a = DOWNLOAD_MODEL \<longrightarrow> al_model_download approval) \<and> (sa_kind a = CONVERT_MODEL \<longrightarrow> al_model_convert approval)"

lemma validate_approval_Inr:
  assumes "validate_approval sha256 plan approval = Inr u"
  shows "al_plan_digest approval = plan_digest sha256 plan" "a \<in> set (pl_actions plan) \<Longrightarrow> approved approval a"
  using assms model_approval_Inr [of approval "pl_actions plan" u a]
  by (auto simp: validate_approval_def approved_def plan_requires_privilege_def plan_requires_network_def
      plan_requires_confirmation_def list_ex_iff split: if_splits)

lemma validate_approval_complete:
  assumes "al_plan_digest approval = plan_digest sha256 plan" "\<forall>a \<in> set (pl_actions plan). approved approval a"
  shows "validate_approval sha256 plan approval = Inr ()"
proof -
  have "model_approval approval as = Inr ()" if "\<forall>a \<in> set as. approved approval a" for as
    using that by (induction as) (auto simp: approved_def)
  with assms show ?thesis
    by (auto simp: validate_approval_def approved_def plan_requires_privilege_def plan_requires_network_def
      plan_requires_confirmation_def list_ex_iff)
qed

lemma apply_actions_digest: "apply_actions digest dr undo rs app todo w = (res, w') \<Longrightarrow> ap_plan_digest res = digest"
  by (induction digest dr undo rs app todo w rule: apply_actions.induct)
    (auto simp: apply_fails_def split: prod.splits sum.splits action_state.splits if_splits)

end
