(* ===== verification/Provider_Common.thy ===== *)
theory Provider_Common
  imports Runtime_Planner Runtime_Lifecycle
begin

text \<open>
  What the runtime providers under \<open>src/src/astrumweaver/runtime/providers/\<close> share. Awaited calls are
  state transformers with exceptions: a value or an exception, and the world moved on. The operating
  system, the HTTP client and the event loop's clock are a record of operations on a world of
  unspecified type; the state of a managed runtime is the child process it holds, its \<open>_closed\<close> flag
  and that world. The five modules repeat the subprocess controller, the start-up, the health report
  and the OpenAI-style HTTP API line by line but for names and messages, so each is one definition
  here, with what differs as arguments.
\<close>

section \<open>Awaited calls\<close>

text \<open>Exceptions of the HTTP client and of the operating system besides Python's own.\<close>

datatype call_error = Py py_exc | Http_Error | Os_Error | Other_Error

type_synonym ('w, 'a) act = "'w \<Rightarrow> (call_error + 'a) \<times> 'w"

definition abind :: "('w, 'a) act \<Rightarrow> ('a \<Rightarrow> ('w, 'b) act) \<Rightarrow> ('w, 'b) act" where
  "abind p k w = (case p w of (Inl e, w') \<Rightarrow> (Inl e, w') | (Inr x, w') \<Rightarrow> k x w')"

definition areturn :: "'a \<Rightarrow> ('w, 'a) act" where
  "areturn x w = (Inr x, w)"

definition araise :: "call_error \<Rightarrow> ('w, 'a) act" where
  "araise e w = (Inl e, w)"

text \<open>A pure computation that may raise.\<close>

definition apure :: "'a res \<Rightarrow> ('w, 'a) act" where
  "apure r = (case r of Inl e \<Rightarrow> araise (Py e) | Inr x \<Rightarrow> areturn x)"

text \<open>\<open>with contextlib.suppress(Exception)\<close>\<close>

definition suppressed :: "('w, 'a) act \<Rightarrow> 'w \<Rightarrow> 'w" where
  "suppressed p w = snd (p w)"

section \<open>The environment and the state of a managed runtime\<close>

text \<open>
  A command word is a text or the comma-separated texts of floats, which are kept symbolic. A reply
  is a status with its JSON body, \<open>None\<close> when the body is no JSON. \<open>ev_alive\<close> is
  \<open>returncode is None\<close>; \<open>ev_wait\<close> says whether the process ended within the time (\<open>None\<close>: no limit).
\<close>

datatype cmd_arg = Word string | Floats "py_float list"

record http_reply =
  hr_status :: int
  hr_json :: "json option"

record 'e env_ops =
  ev_environ :: "(string, string) dict"
  ev_spawn :: "cmd_arg list \<Rightarrow> (string, string) dict option \<Rightarrow> ('e, nat) act"
  ev_alive :: "nat \<Rightarrow> 'e \<Rightarrow> bool"
  ev_terminate :: "nat \<Rightarrow> ('e, unit) act"
  ev_kill :: "nat \<Rightarrow> ('e, unit) act"
  ev_wait :: "nat \<Rightarrow> rat option \<Rightarrow> ('e, bool) act"
  ev_http :: "string \<Rightarrow> string \<Rightarrow> obj option \<Rightarrow> ('e, http_reply) act"
  ev_close :: "('e, unit) act"
  ev_now :: "'e \<Rightarrow> rat"
  ev_sleep :: "rat \<Rightarrow> 'e \<Rightarrow> 'e"

record 'e rt_state =
  st_process :: "nat option"
  st_closed :: bool
  st_env :: 'e

definition on_env :: "('e, 'a) act \<Rightarrow> ('e rt_state, 'a) act" where
  "on_env p s = (case p (st_env s) of (r, e) \<Rightarrow> (r, s\<lparr>st_env := e\<rparr>))"

section \<open>The subprocess controller\<close>

definition process_running :: "'e env_ops \<Rightarrow> 'e rt_state \<Rightarrow> bool" where
  "process_running ops s = (case st_process s of None \<Rightarrow> False | Some p \<Rightarrow> ev_alive ops p (st_env s))"

text \<open>
  \<open>start\<close>: nothing when a process runs; otherwise the new process replaces the old one. All
  controllers but Ollama's turn an operating-system error into a \<open>RuntimeError\<close>.
\<close>

definition process_spawn ::
  "'e env_ops \<Rightarrow> cmd_arg list res \<Rightarrow> (string, string) dict option \<Rightarrow> ('e rt_state, unit) act" where
  "process_spawn ops command env s =
     (if process_running ops s then (Inr (), s)
      else abind (apure command) (\<lambda>cmd. abind (on_env (ev_spawn ops cmd env)) (\<lambda>p s'.
        (Inr (), s'\<lparr>st_process := Some p\<rparr>))) s)"

definition process_start ::
  "'e env_ops \<Rightarrow> cmd_arg list res \<Rightarrow> (string, string) dict option \<Rightarrow> ('e rt_state, unit) act" where
  "process_start ops command env s = (case process_spawn ops command env s of
     (Inl Os_Error, s') \<Rightarrow> (Inl (Py (RuntimeError (Malformed ''process''))), s')
   | r \<Rightarrow> r)"

definition process_stop :: "'e env_ops \<Rightarrow> rat \<Rightarrow> ('e rt_state, unit) act" where
  "process_stop ops grace s = (case st_process s of
     None \<Rightarrow> (Inr (), s)
   | Some p \<Rightarrow>
       abind (if ev_alive ops p (st_env s)
         then abind (on_env (ev_terminate ops p)) (\<lambda>_.
           abind (on_env (ev_wait ops p (Some grace))) (\<lambda>ended.
             if ended then areturn ()
             else abind (on_env (ev_kill ops p)) (\<lambda>_.
               abind (on_env (ev_wait ops p None)) (\<lambda>_. areturn ()))))
         else areturn ()) (\<lambda>_ s'. (Inr (), s'\<lparr>st_process := None\<rparr>)) s)"

section \<open>The managed runtime\<close>

text \<open>
  What a provider's runtime consists of: the reachability probe, the start of the process, whether
  the configured model is in the inventory, what is checked after that on start-up, what is done
  before a failed start stops the process, the timing, and its texts.
\<close>

record 'e server =
  sr_reachable :: "('e rt_state, bool) act"
  sr_process_start :: "('e rt_state, unit) act"
  sr_available :: "('e rt_state, bool) act"
  sr_load :: "('e rt_state, unit) act"
  sr_abandon :: "'e rt_state \<Rightarrow> 'e rt_state"
  sr_timeout :: py_float
  sr_poll :: rat
  sr_grace :: rat
  sr_external :: string
  sr_no_inventory :: string
  sr_unavailable :: string
  sr_provider_id :: string
  sr_ready_metadata :: obj

definition runtime_error :: "string \<Rightarrow> call_error" where
  "runtime_error what = Py (RuntimeError (Malformed what))"

text \<open>The loop of \<open>start\<close> that waits for the owned server.\<close>

partial_function (option) await_server ::
  "'e env_ops \<Rightarrow> 'e server \<Rightarrow> py_float \<Rightarrow> 'e rt_state \<Rightarrow> ((call_error + unit) \<times> 'e rt_state) option" where
  "await_server ops srv deadline s =
     (if \<not> process_running ops s then Some (Inl (runtime_error ''owned process exited''), s)
      else case sr_reachable srv s of
        (Inl e, s') \<Rightarrow> Some (Inl e, s')
      | (Inr reachable, s') \<Rightarrow>
          if reachable then Some (Inr (), s')
          else if reached (ev_now ops (st_env s')) deadline
          then Some (Inl (runtime_error ''server did not become ready''), s')
          else await_server ops srv deadline (s'\<lparr>st_env := ev_sleep ops (sr_poll srv) (st_env s')\<rparr>))"

definition abandon_start :: "'e env_ops \<Rightarrow> 'e server \<Rightarrow> bool \<Rightarrow> 'e rt_state \<Rightarrow> 'e rt_state" where
  "abandon_start ops srv started_here s = (let s' = sr_abandon srv s in
     if started_here then suppressed (process_stop ops (sr_grace srv)) s' else s')"

definition admit_model :: "'e server \<Rightarrow> ('e rt_state, unit) act" where
  "admit_model srv = abind (sr_available srv) (\<lambda>available.
     if available then sr_load srv else araise (runtime_error ''model is not available''))"

definition start_guarded :: "'e env_ops \<Rightarrow> 'e server \<Rightarrow> bool \<Rightarrow> 'e rt_state
    \<Rightarrow> ((call_error + unit) \<times> 'e rt_state) option" where
  "start_guarded ops srv started_here s =
     (case await_server ops srv (deadline_after (ev_now ops (st_env s)) (sr_timeout srv)) s of
        None \<Rightarrow> None
      | Some (Inl e, s') \<Rightarrow> Some (Inl e, abandon_start ops srv started_here s')
      | Some (Inr _, s') \<Rightarrow>
          (case admit_model srv s' of
             (Inl e, s'') \<Rightarrow> Some (Inl e, abandon_start ops srv started_here s'')
           | (Inr _, s'') \<Rightarrow> Some (Inr (), s'')))"

definition runtime_start :: "'e env_ops \<Rightarrow> 'e server \<Rightarrow> 'e rt_state
    \<Rightarrow> ((call_error + unit) \<times> 'e rt_state) option" where
  "runtime_start ops srv s =
     (if st_closed s then Some (Inl (runtime_error ''already released''), s)
      else case sr_reachable srv s of
        (Inl e, s1) \<Rightarrow> Some (Inl e, s1)
      | (Inr reachable, s1) \<Rightarrow>
          if reachable \<and> \<not> process_running ops s1
          then Some (Inl (runtime_error ''external server at the endpoint''), s1)
          else if process_running ops s1 then start_guarded ops srv False s1
          else (case sr_process_start srv s1 of
              (Inl e, s2) \<Rightarrow> Some (Inl e, s2)
            | (Inr _, s2) \<Rightarrow> start_guarded ops srv True s2))"

definition runtime_stop :: "'e env_ops \<Rightarrow> 'e server \<Rightarrow> ('e rt_state, unit) act" where
  "runtime_stop ops srv = process_stop ops (sr_grace srv)"

definition unready_report :: "'e server \<Rightarrow> runtime_health_state \<Rightarrow> string option \<Rightarrow> runtime_health" where
  "unready_report srv state detail = \<lparr>rh_state = state, rh_ready = False, rh_detail = detail,
     rh_metadata = [(''runtime_provider'', JStr (sr_provider_id srv))]\<rparr>"

definition serving_report :: "'e server \<Rightarrow> runtime_health" where
  "serving_report srv = \<lparr>rh_state = RT_READY, rh_ready = True, rh_detail = None,
     rh_metadata = (''runtime_provider'', JStr (sr_provider_id srv)) # sr_ready_metadata srv\<rparr>"

definition runtime_health_probe :: "'e env_ops \<Rightarrow> 'e server \<Rightarrow> ('e rt_state, runtime_health) act" where
  "runtime_health_probe ops srv s = (case sr_reachable srv s of
     (Inl e, s1) \<Rightarrow> (Inl e, s1)
   | (Inr reachable, s1) \<Rightarrow>
       if \<not> reachable
       then (Inr (unready_report srv (if process_running ops s1 then RT_STARTING else RT_STOPPED) None), s1)
       else if \<not> process_running ops s1
       then (Inr (unready_report srv RT_FAILED (Some (sr_external srv))), s1)
       else (case sr_available srv s1 of
           (Inl _, s2) \<Rightarrow> (Inr (unready_report srv RT_DEGRADED (Some (sr_no_inventory srv))), s2)
         | (Inr available, s2) \<Rightarrow>
             if \<not> available then (Inr (unready_report srv RT_FAILED (Some (sr_unavailable srv))), s2)
             else if \<not> process_running ops s2 then (Inr (unready_report srv RT_STOPPED None), s2)
             else (Inr (serving_report srv), s2)))"

definition runtime_release :: "'e env_ops \<Rightarrow> ('e rt_state, unit) act" where
  "runtime_release ops s =
     (if st_closed s then (Inr (), s)
      else abind (on_env (ev_close ops)) (\<lambda>_ s'. (Inr (), s'\<lparr>st_closed := True\<rparr>)) s)"

end
