(* ===== verification/Provider_Server.thy ===== *)
theory Provider_Server
  imports Provider_Common
begin

text \<open>
  What the managed runtimes of all providers promise, proved once from the contract their parts keep:
  the probes and the clean-up talk to the server and leave the controller alone, and only the start
  of the process replaces the process held. Each provider interprets the locale with its own parts.
\<close>

section \<open>Awaited calls\<close>

lemma act_simps [simp]: "areturn x w = (Inr x, w)" "araise e w = (Inl e, w)"
  by (simp_all add: areturn_def araise_def)

lemma apure_simps [simp]: "apure (Inl e) = araise (Py e)" "apure (Inr x) = areturn x"
  by (simp_all add: apure_def)

lemma apure_eq: "apure r w = (Inr x, w') \<longleftrightarrow> r = Inr x \<and> w' = w"
  by (cases r) auto

lemma abind_eq: "abind p k w = (r, w') \<longleftrightarrow>
    (\<exists>e. p w = (Inl e, w') \<and> r = Inl e) \<or> (\<exists>x v. p w = (Inr x, v) \<and> k x v = (r, w'))"
  by (auto simp: abind_def split: prod.splits sum.splits)

lemma on_env_eq: "on_env p s = (r, s') \<longleftrightarrow> (\<exists>e. p (st_env s) = (r, e) \<and> s' = s\<lparr>st_env := e\<rparr>)"
  by (auto simp: on_env_def split: prod.splits)

text \<open>A call that leaves the process held and the \<open>_closed\<close> flag alone.\<close>

definition outward :: "('e rt_state, 'a) act \<Rightarrow> bool" where
  "outward f \<longleftrightarrow> (\<forall>s r s'. f s = (r, s') \<longrightarrow> st_process s' = st_process s \<and> st_closed s' = st_closed s)"

named_theorems outward_intros \<open>calls that leave the controller alone\<close>

lemma outwardD: "outward f \<Longrightarrow> f s = (r, s') \<Longrightarrow> st_process s' = st_process s \<and> st_closed s' = st_closed s"
  by (auto simp: outward_def)

lemma outward_on_env [outward_intros]: "outward (on_env p)"
  by (auto simp: outward_def on_env_eq)

lemma outward_return [outward_intros]: "outward (areturn x)" "outward (araise e)"
  by (simp_all add: outward_def)

lemma outward_pure [outward_intros]: "outward (apure r)"
  by (cases r) (simp_all add: outward_def)

lemma outward_bind [outward_intros]:
  assumes "outward p" "\<And>x. outward (k x)"
  shows "outward (abind p k)"
  unfolding outward_def abind_eq using outwardD [OF assms(1)] outwardD [OF assms(2)] by metis

lemma outward_if [outward_intros]: "outward p \<Longrightarrow> outward q \<Longrightarrow> outward (if b then p else q)"
  by simp

section \<open>The subprocess controller\<close>

text \<open>
  What the controllers rely on: a wait without limit returns only when the process has ended, and a
  process whose wait reported its end is not alive.
\<close>

definition waits_reap :: "'e env_ops \<Rightarrow> bool" where
  "waits_reap ops \<longleftrightarrow> (\<forall>p t e b e'. ev_wait ops p t e = (Inr b, e') \<longrightarrow>
     (t = None \<longrightarrow> b) \<and> (b \<longrightarrow> \<not> ev_alive ops p e'))"

lemma process_spawn_Inl:
  "process_spawn ops cmd env s = (Inl x, s') \<Longrightarrow> st_process s' = st_process s \<and> st_closed s' = st_closed s"
  by (cases cmd) (auto simp: process_spawn_def abind_eq on_env_eq split: if_splits)

lemma process_spawn_Inr:
  "process_spawn ops cmd env s = (Inr u, s') \<Longrightarrow> \<not> process_running ops s \<Longrightarrow>
    (\<exists>p words e. cmd = Inr words \<and> ev_spawn ops words env (st_env s) = (Inr p, e) \<and>
       s' = s\<lparr>st_env := e, st_process := Some p\<rparr>)"
  by (cases cmd) (auto simp: process_spawn_def abind_eq on_env_eq)

lemma process_start_Inl:
  "process_start ops cmd env s = (Inl x, s') \<Longrightarrow> st_process s' = st_process s \<and> st_closed s' = st_closed s"
  by (auto simp: process_start_def dest: process_spawn_Inl split: prod.splits sum.splits call_error.splits)

lemma process_start_Inr:
  "process_start ops cmd env s = (Inr u, s') \<Longrightarrow> \<not> process_running ops s \<Longrightarrow>
    (\<exists>p words e. cmd = Inr words \<and> ev_spawn ops words env (st_env s) = (Inr p, e) \<and>
       s' = s\<lparr>st_env := e, st_process := Some p\<rparr>)"
  by (rule process_spawn_Inr) (auto simp: process_start_def split: prod.splits sum.splits call_error.splits)

lemma process_stop_Inr:
  assumes "process_stop ops grace s = (Inr u, s')"
  shows "st_process s' = None \<and> st_closed s' = st_closed s \<and>
    (\<forall>p. waits_reap ops \<and> st_process s = Some p \<longrightarrow> \<not> ev_alive ops p (st_env s'))"
proof (cases "st_process s")
  case None
  with assms show ?thesis by (simp add: process_stop_def)
next
  case (Some p)
  show ?thesis
  proof (cases "ev_alive ops p (st_env s)")
    case False
    with assms Some show ?thesis by (auto simp: process_stop_def abind_eq)
  next
    case True
    with assms Some show ?thesis
      unfolding process_stop_def waits_reap_def by (auto simp: abind_eq on_env_eq split: if_splits) blast+
  qed
qed

lemma process_stop_Inl:
  "process_stop ops grace s = (Inl x, s') \<Longrightarrow> st_process s' = st_process s \<and> st_closed s' = st_closed s"
  by (auto simp: process_stop_def abind_eq on_env_eq split: option.splits if_splits)

section \<open>The start-up loop ends\<close>

text \<open>The event loop's clock never goes back over a request, and sleeping takes its time.\<close>

definition env_clock :: "'e env_ops \<Rightarrow> bool" where
  "env_clock ops \<longleftrightarrow> (\<forall>m p b e. ev_now ops e \<le> ev_now ops (snd (ev_http ops m p b e))) \<and>
     (\<forall>d e. ev_now ops e + d \<le> ev_now ops (ev_sleep ops d e))"

definition keeps_time :: "'e env_ops \<Rightarrow> ('e rt_state, 'a) act \<Rightarrow> bool" where
  "keeps_time ops f \<longleftrightarrow> (\<forall>s. ev_now ops (st_env s) \<le> ev_now ops (st_env (snd (f s))))"

definition probes_left :: "'e env_ops \<Rightarrow> rat \<Rightarrow> rat \<Rightarrow> 'e rt_state \<Rightarrow> nat" where
  "probes_left ops poll deadline s = nat \<lceil>(deadline - ev_now ops (st_env s)) / poll\<rceil>"

lemma ceiling_steps:
  fixes d now now' later poll :: rat
  assumes "0 < poll" "now \<le> now'" "now' < d" "now' + poll \<le> later"
  shows "nat \<lceil>(d - later) / poll\<rceil> < nat \<lceil>(d - now) / poll\<rceil>"
proof -
  have "(d - later) / poll \<le> (d - now' - poll) / poll"
    using assms by (intro divide_right_mono) auto
  then have "(d - later) / poll \<le> (d - now') / poll - 1" using assms(1) by (simp add: diff_divide_distrib)
  then have "\<lceil>(d - later) / poll\<rceil> \<le> \<lceil>(d - now') / poll\<rceil> - 1" by (metis ceiling_diff_one ceiling_mono)
  moreover have "0 < \<lceil>(d - now') / poll\<rceil>" using assms by simp
  moreover have "\<lceil>(d - now') / poll\<rceil> \<le> \<lceil>(d - now) / poll\<rceil>"
    using assms by (intro ceiling_mono divide_right_mono) auto
  ultimately show ?thesis by linarith
qed

lemma await_server_returns:
  assumes "keeps_time ops (sr_reachable srv)" "env_clock ops" "0 < sr_poll srv"
  shows "\<exists>out. await_server ops srv (Finite d) s = Some out"
proof (induction "probes_left ops (sr_poll srv) d s" arbitrary: s rule: less_induct)
  case less
  obtain r s1 where probe: "sr_reachable srv s = (r, s1)" by fastforce
  have mono: "ev_now ops (st_env s) \<le> ev_now ops (st_env s1)"
    using assms(1) probe unfolding keeps_time_def by (metis snd_conv)
  let ?s = "s1\<lparr>st_env := ev_sleep ops (sr_poll srv) (st_env s1)\<rparr>"
  show ?case
  proof (cases "r = Inr False \<and> ev_now ops (st_env s1) < d \<and> process_running ops s")
    case False
    then show ?thesis
      using probe by (subst await_server.simps) (auto simp: reached_def split: sum.splits)
  next
    case True
    have "probes_left ops (sr_poll srv) d ?s < probes_left ops (sr_poll srv) d s"
      unfolding probes_left_def using assms(2,3) mono True
      by (intro ceiling_steps) (auto simp: env_clock_def)
    with less True probe show ?thesis by (subst await_server.simps) (auto simp: reached_def)
  qed
qed

text \<open>The loop ends with the owned process seen running and its server then answering.\<close>

definition await_post :: "'e env_ops \<Rightarrow> 'e server \<Rightarrow> 'e rt_state \<Rightarrow> (call_error + unit) \<times> 'e rt_state \<Rightarrow> bool" where
  "await_post ops srv s out \<longleftrightarrow> st_process (snd out) = st_process s \<and> st_closed (snd out) = st_closed s \<and>
     (fst out = Inr () \<longrightarrow> (\<exists>s1. process_running ops s1 \<and> sr_reachable srv s1 = (Inr True, snd out)))"

lemma await_server_post:
  assumes "await_server ops srv d s = Some out" "outward (sr_reachable srv)"
  shows "await_post ops srv s out"
proof -
  have "outward (sr_reachable srv) \<longrightarrow> await_post ops srv s out"
  proof (rule await_server.raw_induct [OF _ assms(1), where P = "\<lambda>ops srv d s out. outward (sr_reachable srv) \<longrightarrow> await_post ops srv s out"],
      intro impI)
    fix aw :: "'e env_ops \<Rightarrow> 'e server \<Rightarrow> py_float \<Rightarrow> 'e rt_state \<Rightarrow> ((call_error + unit) \<times> 'e rt_state) option"
      and ops srv d s out
    assume IH: "\<And>ops srv d s out. aw ops srv d s = Some out \<Longrightarrow>
        outward (sr_reachable srv) \<longrightarrow> await_post ops srv s out"
      and step: "(if \<not> process_running ops s then Some (Inl (runtime_error ''owned process exited''), s)
        else case sr_reachable srv s of (Inl e, s') \<Rightarrow> Some (Inl e, s') | (Inr reachable, s') \<Rightarrow>
          if reachable then Some (Inr (), s')
          else if reached (ev_now ops (st_env s')) d
          then Some (Inl (runtime_error ''server did not become ready''), s')
          else aw ops srv d (s'\<lparr>st_env := ev_sleep ops (sr_poll srv) (st_env s')\<rparr>)) = Some out"
      and ow: "outward (sr_reachable srv)"
    obtain q s1 where q: "sr_reachable srv s = (q, s1)" by fastforce
    from outwardD [OF ow q] step q ow show "await_post ops srv s out"
      by (auto simp: await_post_def split: if_splits sum.splits dest!: IH)
  qed
  with assms(2) show ?thesis by blast
qed

section \<open>Outcomes\<close>

text \<open>
  What a start-up promises. Success: the owned process was seen running, its server then answered,
  the model was in the inventory and passed what is checked after loading. Failure: the process held
  is the one held before, or this call started a process and its last act was to stop it.
\<close>

definition start_post :: "'e env_ops \<Rightarrow> 'e server \<Rightarrow> 'e rt_state \<Rightarrow> (call_error + unit) \<times> 'e rt_state \<Rightarrow> bool" where
  "start_post ops srv s out = (case out of (r, s') \<Rightarrow> st_closed s' = st_closed s \<and> (case r of
     Inr _ \<Rightarrow> \<not> st_closed s \<and> st_process s' \<noteq> None \<and>
       (\<exists>s1 s2. process_running ops s1 \<and> sr_reachable srv s1 = (Inr True, s2) \<and> admit_model srv s2 = (Inr (), s'))
   | Inl _ \<Rightarrow> st_process s' = st_process s \<or>
       (\<exists>p s1 words env e0 e1. ev_spawn ops words env e0 = (Inr p, e1) \<and> st_process s1 = Some p \<and>
          s' = snd (process_stop ops (sr_grace srv) s1))))"

text \<open>What a health report promises about the world it was made in.\<close>

definition health_post :: "'e env_ops \<Rightarrow> 'e server \<Rightarrow> runtime_health \<Rightarrow> 'e rt_state \<Rightarrow> bool" where
  "health_post ops srv h s \<longleftrightarrow> (rh_ready h \<longleftrightarrow> rh_state h = RT_READY) \<and>
     (rh_state h = RT_READY \<longrightarrow> process_running ops s \<and> (\<exists>s1. sr_available srv s1 = (Inr True, s))) \<and>
     (rh_state h = RT_STARTING \<longrightarrow> process_running ops s) \<and>
     (rh_state h = RT_STOPPED \<longrightarrow> \<not> process_running ops s)"

lemma health_probe_post:
  "runtime_health_probe ops srv s = (Inr h, s') \<Longrightarrow> health_post ops srv h s'"
  by (auto simp: runtime_health_probe_def health_post_def unready_report_def serving_report_def
      split: prod.splits sum.splits if_splits)

text \<open>The health call as the lifecycle coordinator sees it.\<close>

definition raised_by :: "(call_error + 'a) \<times> 'w \<Rightarrow> (call_exc + 'a) \<times> 'w" where
  "raised_by out = (case out of
     (Inl (Py e), w) \<Rightarrow> (Inl (Provider_Raised e), w)
   | (Inl _, w) \<Rightarrow> (Inl (Provider_Raised Unmodelled), w)
   | (Inr x, w) \<Rightarrow> (Inr x, w))"

lemma raised_by_Inr [simp]: "raised_by out = (Inr x, w) \<longleftrightarrow> out = (Inr x, w)"
  by (cases out) (auto simp: raised_by_def split: sum.splits call_error.splits)

lemma wait_ready_health:
  assumes "wait_ready rt poll d w = Some out"
  shows "\<forall>h w'. out = (Inr h, w') \<longrightarrow> rh_ready h \<and> (\<exists>v. mr_health rt v = (Inr h, w'))"
  by (rule wait_ready.raw_induct [OF _ assms, where P = "\<lambda>rt poll d w out. \<forall>h w'. out = (Inr h, w') \<longrightarrow>
      rh_ready h \<and> (\<exists>v. mr_health rt v = (Inr h, w'))"])
    (auto split: prod.splits sum.splits if_splits)

lemma wait_stopped_health:
  assumes "wait_stopped rt poll d w = Some out"
  shows "\<forall>h w'. out = (Inr h, w') \<longrightarrow> rh_state h = RT_STOPPED \<and> (\<exists>v. mr_health rt v = (Inr h, w'))"
  by (rule wait_stopped.raw_induct [OF _ assms, where P = "\<lambda>rt poll d w out. \<forall>h w'. out = (Inr h, w') \<longrightarrow>
      rh_state h = RT_STOPPED \<and> (\<exists>v. mr_health rt v = (Inr h, w'))"])
    (auto split: prod.splits sum.splits if_splits)

lemma with_ready_Inr: "with_ready m out = (Inr h, m', w') \<longleftrightarrow> out = (Inr h, w') \<and> m' = m\<lparr>lm_released := False\<rparr>"
  by (cases out; cases "fst out") (auto simp: with_ready_def)

lemma release_none_Inr: "release_once rt False m out = (Inr h, m', w') \<longleftrightarrow> out = (Inr h, w') \<and> m' = m"
  by (cases out; cases "fst out") (auto simp: release_once_def)

lemma ensure_ready_health:
  "ensure_ready rt t m w = Some (Inr h, m', w') \<Longrightarrow> rh_ready h \<and> (\<exists>v. mr_health rt v = (Inr h, w'))"
  by (auto simp: ensure_ready_def with_ready_Inr dest: wait_ready_health
      split: if_splits prod.splits sum.splits)

lemma ensure_stopped_health:
  "ensure_stopped rt t False m w = Some (Inr h, m', w') \<Longrightarrow>
    rh_state h = RT_STOPPED \<and> (\<exists>v. mr_health rt v = (Inr h, w'))"
  by (auto simp: ensure_stopped_def release_none_Inr dest: wait_stopped_health
      split: if_splits prod.splits sum.splits)

lemma ensure_ready_running:
  assumes "mr_health rt = raised_by \<circ> runtime_health_probe ops srv"
    and "ensure_ready rt t m s = Some (Inr h, m', s')"
  shows "process_running ops s' \<and> (\<exists>v. sr_available srv v = (Inr True, s'))"
  using ensure_ready_health [OF assms(2)] health_probe_post [of ops srv _ h s'] assms(1)
  by (auto simp: health_post_def)

lemma ensure_stopped_not_running:
  assumes "mr_health rt = raised_by \<circ> runtime_health_probe ops srv"
    and "ensure_stopped rt t False m s = Some (Inr h, m', s')"
  shows "\<not> process_running ops s'"
  using ensure_stopped_health [OF assms(2)] health_probe_post [of ops srv _ h s'] assms(1)
  by (auto simp: health_post_def)

section \<open>The contract of a managed runtime\<close>

locale owned_server =
  fixes ops :: "'e env_ops" and srv :: "'e server"
  assumes reachable_outward: "outward (sr_reachable srv)"
    and available_outward: "outward (sr_available srv)"
    and load_outward: "outward (sr_load srv)"
    and abandon_outward: "st_process (sr_abandon srv s) = st_process s \<and> st_closed (sr_abandon srv s) = st_closed s"
    and start_fails: "sr_process_start srv s = (Inl e, s') \<Longrightarrow>
      st_process s' = st_process s \<and> st_closed s' = st_closed s"
    and start_spawns: "sr_process_start srv s = (Inr u, s') \<Longrightarrow> \<not> process_running ops s \<Longrightarrow>
      (\<exists>p e words env. ev_spawn ops words env (st_env s) = (Inr p, e) \<and> s' = s\<lparr>st_env := e, st_process := Some p\<rparr>)"
    and reachable_time: "env_clock ops \<Longrightarrow> keeps_time ops (sr_reachable srv)"
    and poll_positive: "0 < sr_poll srv"
begin

lemma admit_outward: "outward (admit_model srv)"
  unfolding admit_model_def by (intro outward_intros available_outward load_outward)

lemma abandon_here:
  "abandon_start ops srv True s = snd (process_stop ops (sr_grace srv) (sr_abandon srv s)) \<and>
   st_process (sr_abandon srv s) = st_process s \<and> st_closed (abandon_start ops srv True s) = st_closed s"
proof -
  obtain q s1 where q: "process_stop ops (sr_grace srv) (sr_abandon srv s) = (q, s1)" by fastforce
  then have "st_closed s1 = st_closed (sr_abandon srv s)"
    by (cases q) (simp_all add: process_stop_Inl process_stop_Inr)
  with q abandon_outward [of s] show ?thesis by (simp add: abandon_start_def suppressed_def Let_def)
qed

lemma abandon_other:
  "st_process (abandon_start ops srv False s) = st_process s \<and> st_closed (abandon_start ops srv False s) = st_closed s"
  using abandon_outward [of s] by (simp add: abandon_start_def)

text \<open>Either the start-up succeeded, or it was given up in a state that holds the same process.\<close>

lemma start_guarded_cases:
  assumes "start_guarded ops srv here s = Some (r, s')"
  obtains (ok) s1 s2 where "r = Inr ()" "process_running ops s1" "sr_reachable srv s1 = (Inr True, s2)"
      "admit_model srv s2 = (Inr (), s')" "st_process s' = st_process s" "st_closed s' = st_closed s"
  | (failed) e s1 where "r = Inl e" "s' = abandon_start ops srv here s1"
      "st_process s1 = st_process s" "st_closed s1 = st_closed s"
proof -
  from assms obtain q s1 where aw: "await_server ops srv (deadline_after (ev_now ops (st_env s)) (sr_timeout srv)) s = Some (q, s1)"
    by (auto simp: start_guarded_def split: option.splits)
  note post = await_server_post [OF aw reachable_outward, unfolded await_post_def, simplified]
  obtain a s2 where ad: "admit_model srv s1 = (a, s2)" by fastforce
  note ad_keep = outwardD [OF admit_outward ad]
  show thesis
  proof (cases q)
    case (Inl e)
    with assms aw post show thesis by (intro failed [of e s1]) (auto simp: start_guarded_def)
  next
    case (Inr u)
    with post obtain s0 where s0: "process_running ops s0" "sr_reachable srv s0 = (Inr True, s1)" by auto
    show thesis
    proof (cases a)
      case (Inl e)
      with assms aw Inr ad ad_keep post show thesis by (intro failed [of e s2]) (auto simp: start_guarded_def)
    next
      case (Inr v)
      with assms aw \<open>q = Inr u\<close> ad ad_keep post s0 show thesis
        by (intro ok [of s0 s1]) (auto simp: start_guarded_def)
    qed
  qed
qed

lemma start_cases:
  assumes "runtime_start ops srv s = Some (r, s')" "sr_reachable srv s = (q, s1)"
  obtains (early) e where "r = Inl e" "st_process s' = st_process s" "st_closed s' = st_closed s"
  | (other) "\<not> st_closed s" "process_running ops s1" "start_guarded ops srv False s1 = Some (r, s')"
  | (here) s2 where "\<not> st_closed s" "\<not> process_running ops s1" "sr_process_start srv s1 = (Inr (), s2)"
      "start_guarded ops srv True s2 = Some (r, s')"
proof -
  note keep = outwardD [OF reachable_outward assms(2)]
  obtain x s2 where spawn: "sr_process_start srv s1 = (x, s2)" by fastforce
  show thesis
  proof (cases "st_closed s \<or> (\<exists>e. q = Inl e) \<or> (q = Inr True \<and> \<not> process_running ops s1)")
    case True
    then have "r \<noteq> Inr () \<and> (s' = s \<or> s' = s1)"
      using assms by (auto simp: runtime_start_def split: if_splits)
    with keep show thesis by (cases r) (auto intro: early)
  next
    case False
    then obtain b where q: "q = Inr b" "\<not> st_closed s" "process_running ops s1 \<or> \<not> b" by (cases q) auto
    show thesis
    proof (cases "process_running ops s1")
      case True
      with q assms show thesis by (intro other) (simp_all add: runtime_start_def)
    next
      case dead: False
      show thesis
      proof (cases x)
        case (Inl e)
        with dead q assms spawn have "r = Inl e" "s' = s2" by (simp_all add: runtime_start_def)
        with start_fails [of s1 e s2] Inl spawn keep show thesis by (intro early) auto
      next
        case (Inr u)
        with dead q assms spawn show thesis by (intro here [of s2]) (simp_all add: runtime_start_def)
      qed
    qed
  qed
qed

lemma start_sound:
  assumes "runtime_start ops srv s = Some out"
  shows "start_post ops srv s out"
proof -
  obtain r s' where out: "out = (r, s')" by fastforce
  obtain q s1 where probe: "sr_reachable srv s = (q, s1)" by fastforce
  note keep = outwardD [OF reachable_outward probe]
  show ?thesis
    using assms [unfolded out] probe
  proof (cases rule: start_cases)
    case early
    then show ?thesis using out by (auto simp: start_post_def)
  next
    case other
    from other(3) show ?thesis
    proof (cases rule: start_guarded_cases)
      case (ok a b)
      moreover from other(2) have "st_process s1 \<noteq> None" by (auto simp: process_running_def split: option.splits)
      ultimately show ?thesis using out other(1) keep by (auto simp: start_post_def)
    next
      case (failed e a)
      then show ?thesis using out keep abandon_other [of a] by (auto simp: start_post_def)
    qed
  next
    case (here s2)
    from start_spawns [OF here(3,2)] obtain p e1 words env where
      sp: "ev_spawn ops words env (st_env s1) = (Inr p, e1)" "s2 = s1\<lparr>st_env := e1, st_process := Some p\<rparr>" by blast
    from here(4) show ?thesis
    proof (cases rule: start_guarded_cases)
      case (ok a b)
      then show ?thesis using out here(1) keep sp by (auto simp: start_post_def)
    next
      case (failed e a)
      moreover have "st_process (sr_abandon srv a) = Some p" using failed(3) sp(2) abandon_outward [of a] by simp
      ultimately show ?thesis
        using out keep sp abandon_here [of a] unfolding start_post_def by (auto intro!: exI [of _ p] exI [of _ "sr_abandon srv a"])
    qed
  qed
qed

lemma start_returns:
  assumes "env_clock ops" "sr_timeout srv = Finite t"
  shows "\<exists>out. runtime_start ops srv s = Some out"
proof -
  have "\<exists>out. start_guarded ops srv here v = Some out" for here v
    using await_server_returns [OF reachable_time [OF assms(1)] assms(1) poll_positive,
        of "ev_now ops (st_env v) + t" v] assms(2)
    by (auto simp: start_guarded_def deadline_after_def split: sum.split prod.split)
  then show ?thesis by (auto simp: runtime_start_def split: sum.split prod.split)
qed

end

end
