(* ===== verification/Provider_Api.thy ===== *)
theory Provider_Api
  imports Provider_Server Gpu_Mapping Runtime_Deployment
begin

text \<open>
  The HTTP side of the providers and what they read: the parts of \<open>urllib.parse.urlsplit\<close> in use, JSON
  requests through the HTTP client, the OpenAI-style API and executor that the llama.cpp, vLLM,
  FreeToken and ExLlamaV3 modules repeat, and the readers of a setup intent's configuration.
  Cancelling a request in flight is not modelled.
\<close>

section \<open>\<open>urlsplit\<close>\<close>

text \<open>
  Leading spaces and controls are dropped, line breaks and tabs removed. The scheme is what precedes
  the first colon, when it is a letter followed by letters, digits, plus, minus and dot; the network
  location follows two slashes. Of a location with brackets or non-ASCII text nothing is claimed.
\<close>

definition is_alpha :: "char \<Rightarrow> bool" where
  "is_alpha c \<longleftrightarrow> (let n = (of_char c :: nat) in (65 \<le> n \<and> n \<le> 90) \<or> (97 \<le> n \<and> n \<le> 122))"

definition scheme_char :: "char \<Rightarrow> bool" where
  "scheme_char c \<longleftrightarrow> is_alpha c \<or> is_digit c \<or> c \<in> {CHR ''+'', CHR ''-'', CHR ''.''}"

record split_url =
  su_scheme :: string
  su_netloc :: string

definition urlsplit :: "string \<Rightarrow> split_url res" where
  "urlsplit url = (let u = filter (\<lambda>c. c \<notin> {CHR 0x09, CHR 0x0A, CHR 0x0D}) (dropWhile (\<lambda>c. of_char c \<le> (32::nat)) url);
     (pre, sep, post) = py_partition (CHR '':'') u;
     schemed = (sep \<and> pre \<noteq> [] \<and> is_alpha (hd pre) \<and> list_all scheme_char pre);
     rest = (if schemed then post else u);
     netloc = (if take 2 rest = ''//'' then takeWhile (\<lambda>c. c \<notin> {CHR ''/'', CHR ''?'', CHR ''#''}) (drop 2 rest) else [])
     in if list_all (\<lambda>c. of_char c < (128::nat) \<and> c \<noteq> CHR ''['' \<and> c \<noteq> CHR '']'') netloc
        then Inr \<lparr>su_scheme = (if schemed then py_lower pre else []), su_netloc = netloc\<rparr>
        else Inl Unmodelled)"

text \<open>What follows the last at sign: host and port.\<close>

definition host_info :: "string \<Rightarrow> string \<times> string" where
  "host_info netloc = (let h = last (py_split (CHR ''@'') netloc) in
     case py_partition (CHR '':'') h of (a, _, b) \<Rightarrow> (a, b))"

definition url_hostname :: "split_url \<Rightarrow> string option" where
  "url_hostname u = (let h = fst (host_info (su_netloc u)) in if h = [] then None else Some (py_lower h))"

definition url_port :: "split_url \<Rightarrow> int option res" where
  "url_port u = (let p = snd (host_info (su_netloc u)) in
     if p = [] then Inr None
     else if \<not> list_all is_digit p then Inl (ValueError (Malformed ''port''))
     else let n = int (read_nat p) in if n \<le> 65535 then Inr (Some n) else Inl (ValueError (Malformed ''port'')))"

definition loopback :: "split_url \<Rightarrow> bool" where
  "loopback u \<longleftrightarrow> su_scheme u = ''http'' \<and> url_hostname u \<in> {Some ''127.0.0.1'', Some ''localhost''}"

definition rstrip_slashes :: "string \<Rightarrow> string" where
  "rstrip_slashes s = rev (dropWhile (\<lambda>c. c = CHR ''/'') (rev s))"

text \<open>
  The endpoint check of the four providers with a port: the port is read only for a loopback host.
\<close>

definition loopback_endpoint :: "string \<Rightarrow> string res" where
  "loopback_endpoint url = rbind (runtime_nonblank url ''base_url'') (\<lambda>b. let base = rstrip_slashes b in
     rbind (urlsplit base) (\<lambda>u.
     if \<not> loopback u then Inl (ValueError (Malformed ''base_url''))
     else rbind (url_port u) (\<lambda>port.
       if port = None then Inl (ValueError (Malformed ''base_url'')) else Inr base)))"

text \<open>The host and port a command line is given; the code asserts that both are there.\<close>

definition endpoint_args :: "string \<Rightarrow> (string \<times> int) res" where
  "endpoint_args base_url = rbind (urlsplit base_url) (\<lambda>u. case url_hostname u of
     None \<Rightarrow> Inl Unmodelled
   | Some host \<Rightarrow> rbind (url_port u) (\<lambda>port. case port of None \<Rightarrow> Inl Unmodelled | Some n \<Rightarrow> Inr (host, n)))"

section \<open>Texts and numbers\<close>

definition note_reason :: "string \<Rightarrow> string \<Rightarrow> compatibility_reason" where
  "note_reason code message = \<lparr>cr_code = code, cr_message = message, cr_blocking = False\<rparr>"

text \<open>A reason that is added under a condition.\<close>

definition only_if :: "bool \<Rightarrow> 'a \<Rightarrow> 'a list" where
  "only_if b x = (if b then [x] else [])"

text \<open>
  \<open>float(x)\<close>: integers up to \<open>2\<^sup>5\<^sup>3\<close> are exact; larger ones and texts are not modelled.
\<close>

fun py_float_of :: "json \<Rightarrow> py_float res" where
  "py_float_of (JFloat f) = Inr f"
| "py_float_of (JInt n) = (if \<bar>n\<bar> \<le> 2 ^ 53 then Inr (Finite (of_int n)) else Inl Unmodelled)"
| "py_float_of (JBool b) = Inr (Finite (if b then 1 else 0))"
| "py_float_of (JStr s) = Inl Unmodelled"
| "py_float_of _ = Inl (TypeError (Wrong_type ''float''))"

text \<open>The readers of a configuration: \<open>str(cfg.get(k) or d)\<close>, \<open>cfg.get(k, d)\<close>.\<close>

definition cfg_text :: "obj \<Rightarrow> string \<Rightarrow> string \<Rightarrow> string res" where
  "cfg_text cfg key dflt = (let v = json_get cfg key in if py_truthy v then py_str v else Inr dflt)"

definition cfg_get :: "obj \<Rightarrow> string \<Rightarrow> json \<Rightarrow> json" where
  "cfg_get cfg key dflt = (case dict_get cfg key of Some v \<Rightarrow> v | None \<Rightarrow> dflt)"

text \<open>\<open>f(cfg[k]) if cfg.get(k) is not None else None\<close>\<close>

definition cfg_opt :: "(json \<Rightarrow> 'a res) \<Rightarrow> obj \<Rightarrow> string \<Rightarrow> 'a option res" where
  "cfg_opt f cfg key = (case json_get cfg key of JNull \<Rightarrow> Inr None
     | v \<Rightarrow> rbind (f v) (\<lambda>x. Inr (Some x)))"

text \<open>\<open>tuple(f(v) for v in raw) if isinstance(raw, (list, tuple)) else None\<close>\<close>

definition cfg_list :: "(json \<Rightarrow> 'a res) \<Rightarrow> obj \<Rightarrow> string \<Rightarrow> 'a list option res" where
  "cfg_list f cfg key = (case json_get cfg key of JList xs \<Rightarrow> rbind (rmap f xs) (\<lambda>ys. Inr (Some ys))
     | _ \<Rightarrow> Inr None)"

definition json_option :: "('a \<Rightarrow> json) \<Rightarrow> 'a option \<Rightarrow> json" where
  "json_option f v = (case v of None \<Rightarrow> JNull | Some x \<Rightarrow> f x)"

abbreviation jstrs :: "string list \<Rightarrow> json" where
  "jstrs xs \<equiv> JList (map JStr xs)"

text \<open>
  \<open>Config(**fields)\<close>: an unknown name raises, a missing one has its default. The fields of a
  configuration that the code checks but does not convert, or does not check at all, keep the value
  they were given.
\<close>

definition dataclass_args :: "obj \<Rightarrow> obj \<Rightarrow> obj res" where
  "dataclass_args defaults given =
     (if list_all (\<lambda>p. fst p \<in> fst ` set defaults) given then Inr (dict_merge defaults given)
      else Inl (TypeError (Malformed ''keyword argument'')))"

definition text_arg :: "obj \<Rightarrow> string \<Rightarrow> string res" where
  "text_arg d key = rbind (py_str (json_get d key)) (\<lambda>s. runtime_nonblank s key)"

text \<open>\<open>x <= 0\<close>, \<open>x < 0\<close> and \<open>0 < x <= 1\<close> on a value of any type.\<close>

fun number_value :: "json \<Rightarrow> py_float res" where
  "number_value (JInt n) = Inr (Finite (of_int n))"
| "number_value (JBool b) = Inr (Finite (if b then 1 else 0))"
| "number_value (JFloat f) = Inr f"
| "number_value _ = Inl (TypeError (Wrong_type ''<''))"

definition positive_arg :: "obj \<Rightarrow> string \<Rightarrow> json res" where
  "positive_arg d key = rbind (number_value (json_get d key)) (\<lambda>x.
     if not_above_zero x then Inl (ValueError (Must_be_positive key)) else Inr (json_get d key))"

definition nonnegative_arg :: "obj \<Rightarrow> string \<Rightarrow> json res" where
  "nonnegative_arg d key = rbind (py_negative (json_get d key)) (\<lambda>neg.
     if neg then Inl (ValueError (Must_not_be_negative key)) else Inr (json_get d key))"

text \<open>\<open>x is not None and not check(x)\<close>\<close>

definition optional_arg :: "(obj \<Rightarrow> string \<Rightarrow> json res) \<Rightarrow> obj \<Rightarrow> string \<Rightarrow> json res" where
  "optional_arg check d key = (if json_get d key = JNull then Inr JNull else check d key)"

definition fraction_arg :: "obj \<Rightarrow> string \<Rightarrow> json res" where
  "fraction_arg d key = rbind (number_value (json_get d key)) (\<lambda>x.
     if (case x of Finite q \<Rightarrow> 0 < q \<and> q \<le> 1 | _ \<Rightarrow> False) then Inr (json_get d key)
     else Inl (ValueError (Inconsistent key)))"

text \<open>\<open>tuple(f(v) for v in x)\<close>, refused when empty or when an element fails the test.\<close>

definition tuple_arg :: "(json \<Rightarrow> 'a res) \<Rightarrow> ('a \<Rightarrow> bool) \<Rightarrow> obj \<Rightarrow> string \<Rightarrow> 'a list option res" where
  "tuple_arg f bad d key = (if json_get d key = JNull then Inr None
     else rbind (py_iter (json_get d key)) (\<lambda>raw. rbind (rmap f raw) (\<lambda>xs.
       if xs = [] \<or> list_ex bad xs then Inl (ValueError (Inconsistent key)) else Inr (Some xs))))"

text \<open>\<open>x >= n\<close> for a number, \<open>x in (None, 0)\<close>\<close>

definition num_at_least :: "json \<Rightarrow> int \<Rightarrow> bool" where
  "num_at_least v n = (case number_value v of
     Inr (Finite q) \<Rightarrow> of_int n \<le> q | Inr Pos_Inf \<Rightarrow> True | _ \<Rightarrow> False)"

definition none_or_zero :: "json \<Rightarrow> bool" where
  "none_or_zero v \<longleftrightarrow> v = JNull \<or> py_eq v (JInt 0)"

text \<open>\<open>str(x)\<close> as a command word; the text of a float stays symbolic.\<close>

definition json_word :: "json \<Rightarrow> cmd_arg res" where
  "json_word v = (case v of JFloat f \<Rightarrow> Inr (Floats [f]) | _ \<Rightarrow> rbind (py_str v) (\<lambda>s. Inr (Word s)))"

definition optional_option :: "string \<Rightarrow> json \<Rightarrow> cmd_arg list res" where
  "optional_option name v = (if v = JNull then Inr [] else rbind (json_word v) (\<lambda>w. Inr [Word name, w]))"

text \<open>\<open>Path(ref).is_absolute()\<close> or a text that starts with a relative directory.\<close>

definition local_model_reference :: "string \<Rightarrow> bool" where
  "local_model_reference ref \<longleftrightarrow> take 1 ref = ''/'' \<or> take 2 ref = ''./'' \<or> take 3 ref = ''../''"

definition model_preparation :: "string \<Rightarrow> string" where
  "model_preparation ref = (if local_model_reference ref then ''reference_only'' else ''download'')"

text \<open>Configuration values of an annotated type that the code does not check.\<close>

definition int_or_none :: "json \<Rightarrow> bool" where
  "int_or_none v \<longleftrightarrow> v = JNull \<or> (\<exists>n. v = JInt n)"

definition float_or_none :: "json \<Rightarrow> bool" where
  "float_or_none v \<longleftrightarrow> v = JNull \<or> (\<exists>f. v = JFloat f)"

definition json_floats :: "py_float list option \<Rightarrow> json" where
  "json_floats = json_option (\<lambda>xs. JList (map JFloat xs))"

definition json_ints :: "int list option \<Rightarrow> json" where
  "json_ints = json_option (\<lambda>xs. JList (map JInt xs))"

section \<open>JSON over HTTP\<close>

text \<open>
  \<open>raise_for_status\<close> accepts the success codes only; a body that is no JSON raises \<open>ValueError\<close>.
\<close>

definition api_json :: "'e env_ops \<Rightarrow> string \<Rightarrow> string \<Rightarrow> obj option \<Rightarrow> ('e, obj) act" where
  "api_json ops meth path body = abind (ev_http ops meth path body) (\<lambda>r.
     if \<not> (200 \<le> hr_status r \<and> hr_status r \<le> 299) then araise Http_Error
     else case hr_json r of
       None \<Rightarrow> araise (Py (ValueError (Malformed ''json'')))
     | Some (JObj d) \<Rightarrow> areturn d
     | Some _ \<Rightarrow> araise (runtime_error ''non-object response''))"

text \<open>\<open>GET /health\<close> of llama.cpp and vLLM: an HTTP error is no, otherwise whether the status is 200.\<close>

definition status_health :: "'e env_ops \<Rightarrow> ('e, bool) act" where
  "status_health ops e = (case ev_http ops ''GET'' ''/health'' None e of
     (Inl Http_Error, e') \<Rightarrow> (Inr False, e')
   | (Inl x, e') \<Rightarrow> (Inl x, e')
   | (Inr r, e') \<Rightarrow> (Inr (hr_status r = 200), e'))"

text \<open>\<open>GET /health\<close> of FreeToken and TabbyAPI: the status text of the JSON body.\<close>

fun health_caught :: "call_error \<Rightarrow> bool" where
  "health_caught Http_Error = True"
| "health_caught (Py (RuntimeError _)) = True"
| "health_caught (Py (ValueError _)) = True"
| "health_caught _ = False"

definition body_health :: "'e env_ops \<Rightarrow> string \<Rightarrow> ('e, bool) act" where
  "body_health ops healthy e = (case api_json ops ''GET'' ''/health'' None e of
     (Inl x, e') \<Rightarrow> (if health_caught x then Inr False else Inl x, e')
   | (Inr body, e') \<Rightarrow> (Inr (py_eq (json_get body ''status'') (JStr healthy)), e'))"

fun model_id :: "json \<Rightarrow> string option" where
  "model_id (JObj item) = (case json_get item ''id'' of
     JStr s \<Rightarrow> if py_strip s \<noteq> [] then Some (py_strip s) else None | _ \<Rightarrow> None)"
| "model_id _ = None"

definition oai_models :: "'e env_ops \<Rightarrow> ('e, string list) act" where
  "oai_models ops = abind (api_json ops ''GET'' ''/v1/models'' None) (\<lambda>body.
     case dict_get body ''data'' of
       Some (JList items) \<Rightarrow> areturn (List.map_filter model_id items)
     | _ \<Rightarrow> araise (runtime_error ''invalid model data''))"

definition alias_available :: "'e env_ops \<Rightarrow> string \<Rightarrow> ('e, bool) act" where
  "alias_available ops alias = abind (oai_models ops) (\<lambda>models. areturn (alias \<in> set models))"

definition oai_chat :: "'e env_ops \<Rightarrow> obj \<Rightarrow> ('e, obj) act" where
  "oai_chat ops payload = api_json ops ''POST'' ''/v1/chat/completions'' (Some payload)"

definition oai_completion :: "'e env_ops \<Rightarrow> obj \<Rightarrow> ('e, obj) act" where
  "oai_completion ops payload = api_json ops ''POST'' ''/v1/completions'' (Some payload)"

section \<open>The OpenAI-style executor\<close>

definition served_capabilities :: "string list" where
  "served_capabilities = [''llm.chat'', ''text.generate'']"

text \<open>\<open>payload.pop(k)\<close>\<close>

definition dict_pop :: "string \<Rightarrow> obj \<Rightarrow> obj" where
  "dict_pop k d = filter (\<lambda>p. fst p \<noteq> k) d"

text \<open>
  The payload that is sent: a job that names a model must name the bound one; the alias replaces it
  and streaming is off.
\<close>

definition bound_model :: "(string \<Rightarrow> bool) \<Rightarrow> obj \<Rightarrow> unit res" where
  "bound_model accepts_name payload = (case json_get payload ''model'' of
     JNull \<Rightarrow> Inr ()
   | v \<Rightarrow> rbind (py_str v) (\<lambda>s. if accepts_name s then Inr () else Inl (ValueError (Inconsistent ''job model''))))"

definition bind_payload :: "string \<Rightarrow> obj \<Rightarrow> obj" where
  "bind_payload alias payload =
     dict_set ''stream'' (JBool False) (dict_set ''model'' (JStr alias) (dict_pop ''model'' payload))"

definition oai_payload :: "string \<Rightarrow> string \<Rightarrow> job_request \<Rightarrow> obj res" where
  "oai_payload model_ref alias job =
     rbind (bound_model (\<lambda>s. s \<in> {model_ref, alias}) (rq_payload job)) (\<lambda>_. Inr (bind_payload alias (rq_payload job)))"

datatype model_call = Chat_Call obj | Text_Call obj

text \<open>The checks of \<open>execute\<close> before the call: the capability, the payload, and what it must hold.\<close>

definition checked_call :: "(job_request \<Rightarrow> obj res) \<Rightarrow> job_request \<Rightarrow> model_call res" where
  "checked_call payload_of job =
     (if rq_capability job \<notin> set served_capabilities then Inl (ValueError (Inconsistent ''capability''))
      else rbind (payload_of job) (\<lambda>payload.
        if rq_capability job = ''llm.chat''
        then (case json_get payload ''messages'' of JList _ \<Rightarrow> Inr (Chat_Call payload)
              | _ \<Rightarrow> Inl (ValueError (Required ''messages'')))
        else (case json_get payload ''prompt'' of JStr _ \<Rightarrow> Inr (Text_Call payload)
              | _ \<Rightarrow> Inl (ValueError (Required ''prompt'')))))"

definition oai_text :: "string \<Rightarrow> obj \<Rightarrow> json" where
  "oai_text capability response = (case json_get response ''choices'' of
     JList (JObj first # _) \<Rightarrow>
       if capability = ''llm.chat''
       then (case json_get first ''message'' of
               JObj message \<Rightarrow> (case json_get message ''content'' of JStr s \<Rightarrow> JStr s | _ \<Rightarrow> JNull)
             | _ \<Rightarrow> JNull)
       else (case json_get first ''text'' of JStr s \<Rightarrow> JStr s | _ \<Rightarrow> JNull)
   | _ \<Rightarrow> JNull)"

definition number_fields :: "string list \<Rightarrow> obj \<Rightarrow> obj" where
  "number_fields keys d = List.map_filter (\<lambda>k. case json_get d k of
     JInt n \<Rightarrow> Some (k, JInt n) | JFloat f \<Rightarrow> Some (k, JFloat f) | _ \<Rightarrow> None) keys"

definition oai_metrics :: "obj \<Rightarrow> obj" where
  "oai_metrics response = (case json_get response ''usage'' of
     JObj usage \<Rightarrow> number_fields [''prompt_tokens'', ''completion_tokens'', ''total_tokens''] usage
   | _ \<Rightarrow> [])"

definition oai_result :: "obj \<Rightarrow> job_request \<Rightarrow> obj \<Rightarrow> job_result res" where
  "oai_result metadata job response = mk_job_result (JObj response) [] (JObj (oai_metrics response))
     (oai_text (rq_capability job) response) (JObj metadata)"

definition oai_metadata :: "string \<Rightarrow> string \<Rightarrow> string \<Rightarrow> string \<Rightarrow> obj" where
  "oai_metadata provider_id model_ref alias_key alias =
     [(''runtime_provider'', JStr provider_id), (''model'', JStr model_ref), (alias_key, JStr alias)]"

definition oai_execute ::
  "'e env_ops \<Rightarrow> string \<Rightarrow> string \<Rightarrow> string \<Rightarrow> string \<Rightarrow> job_request \<Rightarrow> ('e, job_result) act" where
  "oai_execute ops provider_id model_ref alias_key alias job =
     abind (apure (checked_call (oai_payload model_ref alias) job)) (\<lambda>call.
     abind (case call of Chat_Call p \<Rightarrow> oai_chat ops p | Text_Call p \<Rightarrow> oai_completion ops p) (\<lambda>response.
       apure (oai_result (oai_metadata provider_id model_ref alias_key alias) job response)))"

text \<open>The residency report of the runtimes whose servers report none: the bound model.\<close>

definition static_residency ::
  "string \<Rightarrow> string \<Rightarrow> string \<Rightarrow> int option \<Rightarrow> obj \<Rightarrow> py_datetime \<Rightarrow> residency_report res" where
  "static_residency provider_id model_ref kind memory metadata now =
     rbind (mk_residency_item model_ref kind memory metadata) (\<lambda>item.
       mk_residency_report [item] now [(''runtime_provider'', JStr provider_id)])"

section \<open>Lemmas\<close>

lemma compatible_only_if [simp]:
  "list_ex P (only_if b x) \<longleftrightarrow> b \<and> P x"
  by (simp add: only_if_def)

lemma reason_blocking [simp]:
  "cr_blocking (note_reason c m) = False" "cr_blocking (blocking_reason c m) = True"
  by (simp_all add: note_reason_def blocking_reason_def)

lemma json_get_pop: "json_get (dict_pop k d) j = (if j = k then JNull else json_get d j)"
  by (induction d) (auto simp: dict_pop_def json_get_def)

text \<open>What every request to a model server carries.\<close>

lemma bind_payload_get:
  "json_get (bind_payload alias d) k =
     (if k = ''stream'' then JBool False else if k = ''model'' then JStr alias else json_get d k)"
  by (simp add: bind_payload_def json_get_def dict_get_set json_get_pop [unfolded json_get_def])

text \<open>The fields read as metrics are numbers, so a result is always accepted.\<close>

lemma number_fields_numbers: "(k, v) \<in> set (number_fields keys d) \<Longrightarrow> k \<in> set keys \<and> is_number v"
  by (induction keys) (auto simp: number_fields_def map_filter_simps split: option.splits json.splits)

lemma number_fields_checked:
  "\<forall>k \<in> set keys. py_strip k \<noteq> [] \<Longrightarrow> check_metrics (number_fields keys d) = Inr ()"
  by (auto simp: check_metrics_Inr dest: number_fields_numbers)

lemma mk_job_result_accepts:
  assumes "check_metrics mets = Inr ()" "txt = JNull \<or> (\<exists>s. txt = JStr s)"
  shows "\<exists>r. mk_job_result (JObj outs) arts (JObj mets) txt (JObj md) = Inr r \<and> re_outputs r = outs \<and>
    re_metrics r = mets \<and> re_metadata r = md"
  using assms by (auto simp: mk_job_result_def)

lemma oai_text_cases: "oai_text c r = JNull \<or> (\<exists>s. oai_text c r = JStr s)"
  by (auto simp: oai_text_def split: json.splits list.splits)

lemma oai_result_accepted: "\<exists>r. oai_result md job response = Inr r \<and> re_outputs r = response \<and> re_metadata r = md"
proof -
  have "check_metrics (oai_metrics response) = Inr ()"
    unfolding oai_metrics_def
    by (auto split: json.splits intro!: number_fields_checked simp: py_strip_def is_space_def)
  from mk_job_result_accepts [OF this oai_text_cases] show ?thesis unfolding oai_result_def by blast
qed

lemma keeps_time_on_env:
  "(\<And>e. ev_now ops e \<le> ev_now ops (snd (p e))) \<Longrightarrow> keeps_time ops (on_env p)"
  by (auto simp: keeps_time_def on_env_def split: prod.splits) (metis snd_conv)

lemma http_time: "env_clock ops \<Longrightarrow> ev_http ops m p b e = (r, e') \<Longrightarrow> ev_now ops e \<le> ev_now ops e'"
  unfolding env_clock_def by (metis snd_conv)

lemma api_json_time: "env_clock ops \<Longrightarrow> ev_now ops e \<le> ev_now ops (snd (api_json ops m p b e))"
  using http_time [of ops m p b e]
  by (auto simp: api_json_def abind_def split: prod.split sum.split option.split json.split)

lemma status_health_time: "env_clock ops \<Longrightarrow> ev_now ops e \<le> ev_now ops (snd (status_health ops e))"
  using http_time [of ops "''GET''" "''/health''" None e]
  by (auto simp: status_health_def split: prod.split sum.split call_error.split)

lemma body_health_time: "env_clock ops \<Longrightarrow> ev_now ops e \<le> ev_now ops (snd (body_health ops ok e))"
  using api_json_time [of ops e "''GET''" "''/health''" None]
  by (auto simp: body_health_def split: prod.split sum.split)

text \<open>Reading back the values an intent was given.\<close>

lemma rmap_map_Inr: "(\<And>x. f (g x) = Inr x) \<Longrightarrow> rmap f (map g xs) = Inr xs"
  by (induction xs) simp_all

lemma text_arg_Inr: "text_arg d k = Inr s \<Longrightarrow> norm_text s"
  by (auto simp: text_arg_def rbind_eq_Inr runtime_nonblank_Inr)

lemma positive_arg_Inr: "positive_arg d k = Inr v \<Longrightarrow> \<exists>t. number_value v = Inr t"
  by (auto simp: positive_arg_def rbind_eq_Inr split: if_splits)

lemma loopback_endpoint_nonempty: "loopback_endpoint url = Inr base \<Longrightarrow> base \<noteq> []"
  by (auto simp: loopback_endpoint_def rbind_eq_Inr Let_def urlsplit_def py_partition_def loopback_def
      split: if_splits)

lemma mk_setup_intent_Inr:
  "mk_runtime_setup_intent pid pkgs cfg prep ref priv md = Inr s \<Longrightarrow> norm_text pid \<Longrightarrow>
     si_provider_id s = pid \<and> si_configuration s = cfg"
  by (auto simp: mk_runtime_setup_intent_def rbind_eq_Inr runtime_nonblank_Inr norm_text_def split: if_splits)

lemma json_floats_read: "dict_get cfg k = Some (json_floats xs) \<Longrightarrow> cfg_list py_float_of cfg k = Inr xs"
  by (cases xs) (simp_all add: cfg_list_def json_get_def json_floats_def json_option_def rmap_map_Inr)

lemma json_ints_read: "dict_get cfg k = Some (json_ints xs) \<Longrightarrow> cfg_list py_int cfg k = Inr xs"
  by (cases xs) (simp_all add: cfg_list_def json_get_def json_ints_def json_option_def rmap_map_Inr)

lemma cfg_opt_int:
  assumes "dict_get cfg k = Some v" "int_or_none v"
  obtains x where "cfg_opt py_int cfg k = Inr x" "json_option JInt x = v"
  using assms by (cases v) (auto simp: int_or_none_def cfg_opt_def json_get_def json_option_def)

lemma cfg_opt_float:
  assumes "dict_get cfg k = Some v" "float_or_none v"
  obtains x where "cfg_opt py_float_of cfg k = Inr x" "json_option JFloat x = v"
  using assms by (cases v) (auto simp: float_or_none_def cfg_opt_def json_get_def json_option_def)

text \<open>The contract of a managed runtime, for the four providers that load the model with the process.\<close>

lemma oai_owned_server:
  assumes "sr_process_start srv = process_start ops cmd env" "sr_reachable srv = on_env p"
    and "sr_available srv = on_env q" "sr_load srv = areturn ()" "sr_abandon srv = (\<lambda>s. s)"
    and "env_clock ops \<Longrightarrow> (\<And>e. ev_now ops e \<le> ev_now ops (snd (p e)))" "0 < sr_poll srv"
  shows "owned_server ops srv"
proof unfold_locales
  fix s e s' u
  show "sr_process_start srv s = (Inl e, s') \<Longrightarrow> st_process s' = st_process s \<and> st_closed s' = st_closed s"
    by (simp add: assms(1) process_start_Inl)
  show "\<exists>p e words env. ev_spawn ops words env (st_env s) = (Inr p, e) \<and> s' = s\<lparr>st_env := e, st_process := Some p\<rparr>"
    if "sr_process_start srv s = (Inr u, s')" "\<not> process_running ops s"
    using process_start_Inr [OF that(1) [unfolded assms(1)] that(2)] by blast
qed (simp_all add: assms outward_intros keeps_time_on_env)

end
