(* ===== verification/Setup_Migration.thy ===== *)
theory Setup_Migration
  imports Setup_Planner Provider_Api
begin

text \<open>
  \<open>src/src/astrumweaver/setup/migration.py\<close>: recognising the installed worker's TOML file and systemd
  unit, and rendering their runtime form. The TOML reader is an argument (\<open>None\<close>: the text is not
  TOML). The lemmas show that a canonical unit is recognised as what it was written from, that
  rendering a smoke unit gives the runtime unit of the same user and program, and that rendering is
  idempotent for both files.
\<close>

section \<open>Text\<close>

definition unlines :: "string list \<Rightarrow> string" where
  "unlines ls = concat (map (\<lambda>l. l @ [CHR 0x0A]) ls)"

fun starts_with :: "string \<Rightarrow> string \<Rightarrow> bool" where
  "starts_with [] s = True"
| "starts_with (p # ps) [] = False"
| "starts_with (p # ps) (c # s) = (p = c \<and> starts_with ps s)"

definition ends_with :: "string \<Rightarrow> string \<Rightarrow> bool" where
  "ends_with p s = starts_with (rev p) (rev s)"

text \<open>\<open>s.count(p)\<close> and \<open>s.replace(p, q, 1)\<close> for a non-empty \<open>p\<close>.\<close>

function count_text :: "string \<Rightarrow> string \<Rightarrow> nat" where
  "count_text p [] = 0"
| "count_text p (c # s) = (if starts_with p (c # s) then 1 + count_text p (drop (length p - 1) s) else count_text p s)"
  by pat_completeness auto
termination by (relation "measure (\<lambda>(p, s). length s)") auto

fun replace_once :: "string \<Rightarrow> string \<Rightarrow> string \<Rightarrow> string" where
  "replace_once p q [] = []"
| "replace_once p q (c # s) = (if starts_with p (c # s) then q @ drop (length p) (c # s) else c # replace_once p q s)"

section \<open>Canonical texts\<close>

definition smoke_executor_factory :: string where
  "smoke_executor_factory = ''astrumweaver.executors.structured_echo:create_executor''"

definition default_runtime_manifest :: string where
  "default_runtime_manifest = ''/etc/astrumweaver/runtime-deployment.json''"

definition runtime_driver_env_line :: string where
  "runtime_driver_env_line = ''Environment=LD_LIBRARY_PATH=/etc/astrumweaver/runtime/nvidia-driver''"

definition smoke_suffix :: string where
  "smoke_suffix = unlines ['''', ''[executor]'',
     ''factory = \"astrumweaver.executors.structured_echo:create_executor\"'', '''', ''[executor.settings]'']"

definition runtime_suffix :: "string \<Rightarrow> string" where
  "runtime_suffix manifest = unlines ['''', ''[runtime]'', ''manifest = \"'' @ manifest @ ''\"'',
     ''startup_timeout_seconds = 600'', ''shutdown_timeout_seconds = 60'']"

definition smoke_capabilities_line :: string where
  "smoke_capabilities_line = ''capabilities = [\"debug.echo\"]''"

definition runtime_capabilities_line :: string where
  "runtime_capabilities_line = ''capabilities = [\"llm.chat\", \"text.generate\"]''"

definition unit_prefix :: "string list" where
  "unit_prefix = [''[Unit]'', ''Description=AstrumWeaver GPU Worker'', ''Wants=network-online.target'',
     ''After=network-online.target'', '''', ''[Service]'', ''Type=simple'']"

definition unit_suffix :: "string list" where
  "unit_suffix = [''Restart=on-failure'', ''RestartSec=5s'', ''RuntimeDirectory=astrumweaver-worker'',
     ''RuntimeDirectoryMode=0750'', ''StateDirectory=astrumweaver'', ''StateDirectoryMode=0750'',
     ''NoNewPrivileges=yes'', ''PrivateTmp=yes'', ''ProtectSystem=strict'', ''ProtectHome=yes'',
     ''ProtectKernelTunables=yes'', ''ProtectKernelModules=yes'', ''ProtectControlGroups=yes'',
     ''RestrictAddressFamilies=AF_UNIX AF_INET AF_INET6'', '''', ''[Install]'', ''WantedBy=multi-user.target'']"

definition config_option :: string where
  "config_option = '' --config /etc/astrumweaver/worker.toml''"

definition manifest_option :: string where
  "manifest_option = '' --runtime-manifest /etc/astrumweaver/runtime-deployment.json''"

definition preflight_line :: string where
  "preflight_line = ''ExecStartPre=+/usr/local/libexec/astrumweaver/gpu-preflight /etc/astrumweaver/gpu-uuids''"

definition environment_line :: string where
  "environment_line = ''EnvironmentFile=-/etc/astrumweaver/worker.env''"

section \<open>The worker's TOML file\<close>

datatype execution_mode = SMOKE | RUNTIME_MODE

record installed_contract =
  ic_spec :: worker_spec
  ic_control_url :: string
  ic_max_concurrency :: int
  ic_gpu_preflight :: bool
  ic_health_host :: string
  ic_health_port :: int
  ic_execution_mode :: execution_mode
  ic_runtime_manifest :: "string option"

definition required_worker_keys :: "string list" where
  "required_worker_keys = [''id'', ''class'', ''control_url'', ''capabilities'', ''gpu_uuids'', ''gpu_count'',
     ''total_vram_mb'', ''max_single_gpu_vram_mb'']"

definition optional_worker_keys :: "string list" where
  "optional_worker_keys = [''labels'', ''accelerators'', ''max_concurrency'', ''gpu_preflight'', ''nvidia_smi_command'',
     ''request_timeout_seconds'', ''poll_interval_seconds'', ''heartbeat_interval_seconds'', ''health_host'',
     ''health_port'', ''shutdown_grace_seconds'']"

definition accelerator_keys :: "string list" where
  "accelerator_keys = [''uuid'', ''memory_mb'', ''compute_capability'', ''device_class'']"

fun is_text :: "json \<Rightarrow> bool" where "is_text (JStr _) = True" | "is_text _ = False"
fun is_int :: "json \<Rightarrow> bool" where "is_int (JInt _) = True" | "is_int _ = False"
fun is_bool :: "json \<Rightarrow> bool" where "is_bool (JBool _) = True" | "is_bool _ = False"
fun is_numeric :: "json \<Rightarrow> bool" where "is_numeric (JInt _) = True" | "is_numeric (JFloat _) = True" | "is_numeric _ = False"
fun is_text_list :: "json \<Rightarrow> bool" where "is_text_list (JList xs) = list_all is_text xs" | "is_text_list _ = False"
fun is_text_table :: "json \<Rightarrow> bool" where "is_text_table (JObj d) = list_all (\<lambda>p. is_text (snd p)) d" | "is_text_table _ = False"

definition optionally :: "(json \<Rightarrow> bool) \<Rightarrow> json \<Rightarrow> bool" where
  "optionally check v \<longleftrightarrow> v = JNull \<or> check v"

fun accelerator_shape :: "json \<Rightarrow> bool" where
  "accelerator_shape (JObj d) \<longleftrightarrow> {''uuid'', ''memory_mb''} \<subseteq> fst ` set d \<and> fst ` set d \<subseteq> set accelerator_keys \<and>
     is_text (json_get d ''uuid'') \<and> is_int (json_get d ''memory_mb'') \<and>
     optionally is_text (json_get d ''compute_capability'') \<and> optionally is_text (json_get d ''device_class'')"
| "accelerator_shape _ \<longleftrightarrow> False"

fun accelerators_shape :: "json \<Rightarrow> bool" where
  "accelerators_shape (JList xs) = list_all accelerator_shape xs"
| "accelerators_shape _ = False"

text \<open>\<open>_validate_worker_shape\<close>: every violation raises \<open>RuntimeError\<close>; the messages differ by field.\<close>

definition installed_error :: "string \<Rightarrow> 'a res" where
  "installed_error what = Inl (RuntimeError (Malformed what))"

definition require_all :: "(json \<Rightarrow> bool) \<Rightarrow> obj \<Rightarrow> string list \<Rightarrow> unit res" where
  "require_all check d keys = (case find (\<lambda>k. \<not> check (json_get d k)) keys of
     None \<Rightarrow> Inr () | Some k \<Rightarrow> installed_error (''worker.'' @ k))"

definition validate_worker_shape :: "obj \<Rightarrow> unit res" where
  "validate_worker_shape worker =
     (if \<not> set required_worker_keys \<subseteq> fst ` set worker then installed_error ''missing fields''
      else if \<not> fst ` set worker \<subseteq> set required_worker_keys \<union> set optional_worker_keys then installed_error ''unrecognized fields''
      else rbind (require_all is_text worker [''id'', ''class'', ''control_url'']) (\<lambda>_.
        rbind (require_all (optionally is_text) worker [''health_host'', ''nvidia_smi_command'']) (\<lambda>_.
        rbind (require_all is_int worker [''gpu_count'', ''total_vram_mb'', ''max_single_gpu_vram_mb'']) (\<lambda>_.
        rbind (require_all (optionally is_int) worker [''max_concurrency'', ''health_port'']) (\<lambda>_.
        rbind (require_all (optionally is_bool) worker [''gpu_preflight'']) (\<lambda>_.
        rbind (require_all (optionally is_numeric) worker [''request_timeout_seconds'', ''poll_interval_seconds'',
          ''heartbeat_interval_seconds'', ''shutdown_grace_seconds'']) (\<lambda>_.
        rbind (require_all is_text_list worker [''capabilities'', ''gpu_uuids'']) (\<lambda>_.
        rbind (require_all (optionally is_text_table) worker [''labels'']) (\<lambda>_.
          require_all (optionally accelerators_shape) worker [''accelerators''])))))))))"

fun text_opt :: "json \<Rightarrow> string option" where
  "text_opt (JStr s) = Some s"
| "text_opt _ = None"

fun installed_accelerator :: "json \<Rightarrow> accelerator_device res" where
  "installed_accelerator (JObj d) =
     rbind (str_item d ''uuid'') (\<lambda>uuid.
     rbind (rbind (json_item d ''memory_mb'') py_int) (\<lambda>memory.
       mk_accelerator_device uuid (JInt memory) (text_opt (json_get d ''compute_capability''))
         (text_opt (json_get d ''device_class''))))"
| "installed_accelerator _ = Inl (TypeError (Wrong_type ''accelerator''))"

text \<open>A table whose shape was checked: the fields are there and have their types.\<close>

definition installed_worker_spec :: "obj \<Rightarrow> worker_spec res" where
  "installed_worker_spec worker =
     rbind (rbind (py_iter (json_get_or worker ''gpu_uuids'' (JList []))) (rmap py_str)) (\<lambda>gpus.
     rbind (rbind (py_iter (json_get_or worker ''accelerators'' (JList []))) (rmap installed_accelerator)) (\<lambda>accelerators.
     rbind (str_item worker ''id'') (\<lambda>wid.
     rbind (str_item worker ''class'') (\<lambda>wclass.
     rbind (py_int (json_get_or worker ''gpu_count'' (JInt (int (length gpus))))) (\<lambda>count.
     rbind (py_int (json_get_or worker ''total_vram_mb'' (JInt 0))) (\<lambda>tot.
     rbind (py_int (json_get_or worker ''max_single_gpu_vram_mb'' (JInt 0))) (\<lambda>single.
     rbind (mk_resource_shape count tot single) (\<lambda>shape.
     rbind (rbind (py_iter (json_get_or worker ''capabilities'' (JList []))) (rmap py_str)) (\<lambda>caps.
     rbind (rbind (as_mapping (json_get worker ''labels'')) str_items) (\<lambda>labels.
       mk_worker_spec wid wclass shape (Many gpus) accelerators (Many caps) labels))))))))))"

text \<open>\<open>except (KeyError, TypeError, ValueError)\<close>\<close>

definition as_installed_error :: "'a res \<Rightarrow> 'a res" where
  "as_installed_error r = (case r of
     Inl (KeyError _) \<Rightarrow> installed_error ''resource contract'' | Inl (TypeError _) \<Rightarrow> installed_error ''resource contract''
   | Inl (ValueError _) \<Rightarrow> installed_error ''resource contract'' | _ \<Rightarrow> r)"

definition smoke_section :: "obj \<Rightarrow> obj \<Rightarrow> worker_spec \<Rightarrow> string \<Rightarrow> unit res" where
  "smoke_section parsed executor spec txt =
     (if fst ` set parsed \<noteq> {''worker'', ''executor''} then installed_error ''top level''
      else if fst ` set executor \<noteq> {''factory'', ''settings''} then installed_error ''executor''
      else if json_get executor ''factory'' \<noteq> JStr smoke_executor_factory then installed_error ''executor factory''
      else rbind (as_mapping (json_get executor ''settings'')) (\<lambda>settings.
        if settings \<noteq> [] then installed_error ''executor settings''
        else if ws_capabilities spec \<noteq> {''debug.echo''} then installed_error ''capabilities''
        else if \<not> ends_with smoke_suffix txt then installed_error ''rendered form''
        else if count_text smoke_capabilities_line txt \<noteq> 1 then installed_error ''capability line''
        else Inr ()))"

definition runtime_section :: "obj \<Rightarrow> obj \<Rightarrow> worker_spec \<Rightarrow> string \<Rightarrow> string res" where
  "runtime_section parsed runtime spec txt =
     (if fst ` set parsed \<noteq> {''worker'', ''runtime''} then installed_error ''top level''
      else if fst ` set runtime \<noteq> {''manifest'', ''startup_timeout_seconds'', ''shutdown_timeout_seconds''}
      then installed_error ''runtime''
      else rbind (cfg_text runtime ''manifest'' []) (\<lambda>raw. let manifest = py_strip raw in
        if manifest \<noteq> default_runtime_manifest then installed_error ''runtime manifest''
        else rbind (py_int (json_get_or runtime ''startup_timeout_seconds'' (JInt 0))) (\<lambda>startup.
          if startup \<noteq> 600 then installed_error ''startup timeout''
          else rbind (py_int (json_get_or runtime ''shutdown_timeout_seconds'' (JInt 0))) (\<lambda>shutdown.
            if shutdown \<noteq> 60 then installed_error ''shutdown timeout''
            else if ws_capabilities spec \<noteq> {''llm.chat'', ''text.generate''} then installed_error ''capabilities''
            else if \<not> ends_with (runtime_suffix manifest) txt then installed_error ''rendered form''
            else if count_text runtime_capabilities_line txt \<noteq> 1 then installed_error ''capability line''
            else Inr manifest))))"

definition parse_installed_worker_toml :: "(string \<Rightarrow> obj option) \<Rightarrow> string \<Rightarrow> installed_contract res" where
  "parse_installed_worker_toml toml txt = (case toml txt of
     None \<Rightarrow> installed_error ''TOML''
   | Some parsed \<Rightarrow> (case json_get parsed ''worker'' of
       JObj worker \<Rightarrow>
         rbind (validate_worker_shape worker) (\<lambda>_.
         rbind (require_all (\<lambda>v. case v of JStr s \<Rightarrow> py_strip s \<noteq> [] | _ \<Rightarrow> False) worker [''id'', ''class'', ''control_url'']) (\<lambda>_.
         rbind (as_installed_error (installed_worker_spec worker)) (\<lambda>spec.
         rbind (py_int (json_get_or worker ''max_concurrency'' (JInt 1))) (\<lambda>concurrency.
         if concurrency \<le> 0 then installed_error ''max_concurrency''
         else rbind (py_str (json_get_or worker ''health_host'' (JStr ''127.0.0.1''))) (\<lambda>host.
         if py_strip host = [] then installed_error ''health_host''
         else rbind (py_int (json_get_or worker ''health_port'' (JInt 9100))) (\<lambda>port.
         if \<not> (1 \<le> port \<and> port \<le> 65535) then installed_error ''health_port''
         else rbind (as_mapping (json_get parsed ''executor'')) (\<lambda>executor.
         rbind (as_mapping (json_get parsed ''runtime'')) (\<lambda>runtime.
         rbind (str_item worker ''control_url'') (\<lambda>url.
         let contract = \<lparr>ic_spec = spec, ic_control_url = url, ic_max_concurrency = concurrency,
           ic_gpu_preflight = py_truthy (json_get_or worker ''gpu_preflight'' (JBool True)),
           ic_health_host = py_strip host, ic_health_port = port, ic_execution_mode = SMOKE,
           ic_runtime_manifest = None\<rparr> in
         if executor \<noteq> [] \<and> runtime \<noteq> [] then installed_error ''mixed execution authority''
         else if executor \<noteq> [] then rbind (smoke_section parsed executor spec txt) (\<lambda>_. Inr contract)
         else if runtime \<noteq> [] then rbind (runtime_section parsed runtime spec txt) (\<lambda>manifest.
           Inr (contract\<lparr>ic_execution_mode := RUNTIME_MODE, ic_runtime_manifest := Some manifest\<rparr>))
         else installed_error ''no execution authority'')))))))))
     | _ \<Rightarrow> installed_error ''worker table''))"

definition render_runtime_worker_toml :: "(string \<Rightarrow> obj option) \<Rightarrow> string \<Rightarrow> string res" where
  "render_runtime_worker_toml toml txt = rbind (parse_installed_worker_toml toml txt) (\<lambda>contract.
     if ic_execution_mode contract = RUNTIME_MODE
     then (if ic_runtime_manifest contract \<noteq> Some default_runtime_manifest then installed_error ''runtime manifest'' else Inr txt)
     else let pre = take (length txt - length smoke_suffix) txt in
       if count_text smoke_capabilities_line pre \<noteq> 1 then installed_error ''capability line''
       else let rendered = replace_once smoke_capabilities_line runtime_capabilities_line pre @
              runtime_suffix default_runtime_manifest in
         rbind (parse_installed_worker_toml toml rendered) (\<lambda>migrated.
           if ic_execution_mode migrated \<noteq> RUNTIME_MODE then installed_error ''rendered contract'' else Inr rendered))"

section \<open>The worker's unit\<close>

record installed_unit =
  iu_service_user :: string
  iu_executable :: string
  iu_execution_mode :: execution_mode
  iu_nvidia_driver_bridge :: bool

text \<open>The lines of a unit that are not fixed, and the whole unit.\<close>

definition unit_lines :: "installed_unit \<Rightarrow> string list" where
  "unit_lines u = [''User='' @ iu_service_user u, ''Group='' @ iu_service_user u,
     ''SupplementaryGroups=astrumweaver-config'', environment_line] @
     (if iu_nvidia_driver_bridge u then [runtime_driver_env_line] else []) @
     [preflight_line, ''ExecStart='' @ iu_executable u @ config_option @
       (if iu_execution_mode u = RUNTIME_MODE then manifest_option else [])]"

definition unit_text :: "installed_unit \<Rightarrow> string" where
  "unit_text u = unlines (unit_prefix @ unit_lines u @ unit_suffix)"

text \<open>
  \<open>^ExecStart=(?P<executable>/[^\s]+) --config ...(?P<runtime_arg> --runtime-manifest ...)?$\<close>: the program
  is the longest run without white space, as a blank must follow it.
\<close>

definition exec_start_re :: "string \<Rightarrow> (string \<times> execution_mode) option" where
  "exec_start_re line = (if \<not> starts_with ''ExecStart='' line then None else
     let rest = drop 10 line; exe = takeWhile (\<lambda>c. \<not> is_space c) rest; args = dropWhile (\<lambda>c. \<not> is_space c) rest in
     if take 1 exe \<noteq> ''/'' \<or> length exe < 2 then None
     else if args = config_option then Some (exe, SMOKE)
     else if args = config_option @ manifest_option then Some (exe, RUNTIME_MODE) else None)"

definition lines_with :: "string \<Rightarrow> string list \<Rightarrow> string list" where
  "lines_with p ls = filter (starts_with p) ls"

definition unit_error :: "string \<Rightarrow> 'a res" where
  "unit_error what = Inl (RuntimeError (Inconsistent what))"

definition after_equals :: "string \<Rightarrow> string" where
  "after_equals line = (case py_partition (CHR ''='') line of (_, _, value) \<Rightarrow> py_strip value)"

definition parse_installed_worker_unit :: "string \<Rightarrow> installed_unit res" where
  "parse_installed_worker_unit txt =
     (if \<not> starts_with (unlines unit_prefix) txt \<or> \<not> ends_with (unlines unit_suffix) txt then unit_error ''template''
      else let lines = py_splitlines txt in
      case (lines_with ''User='' lines, lines_with ''Group='' lines, lines_with ''SupplementaryGroups='' lines,
            lines_with ''EnvironmentFile='' lines, lines_with ''ExecStartPre='' lines, lines_with ''ExecStart='' lines) of
        ([user], [grp], [supp], [envf], [pre], [exec]) \<Rightarrow>
          let service_user = after_equals user; env = lines_with ''Environment='' lines in
          if service_user = [] \<or> after_equals grp \<noteq> service_user then unit_error ''user/group''
          else if supp \<noteq> ''SupplementaryGroups=astrumweaver-config'' then unit_error ''supplementary group''
          else if envf \<noteq> environment_line then unit_error ''environment reference''
          else if pre \<noteq> preflight_line then unit_error ''GPU preflight''
          else (case exec_start_re exec of
            None \<Rightarrow> unit_error ''ExecStart''
          | Some (executable, mode) \<Rightarrow>
              if starts_with ''/nix/store/'' executable then unit_error ''store-pinned''
              else if mode = RUNTIME_MODE \<and> env \<notin> {[], [runtime_driver_env_line]} then unit_error ''runtime driver environment''
              else if mode = SMOKE \<and> env \<noteq> [] then unit_error ''smoke driver environment''
              else let u = \<lparr>iu_service_user = service_user, iu_executable = executable, iu_execution_mode = mode,
                     iu_nvidia_driver_bridge = (mode = RUNTIME_MODE \<and> env \<noteq> [])\<rparr> in
                if txt \<noteq> unit_text u then unit_error ''unrelated modifications'' else Inr u)
      | _ \<Rightarrow> unit_error ''directives'')"

definition render_runtime_worker_unit :: "string \<Rightarrow> string res" where
  "render_runtime_worker_unit txt = rbind (parse_installed_worker_unit txt) (\<lambda>u.
     if iu_execution_mode u = RUNTIME_MODE \<and> iu_nvidia_driver_bridge u then Inr txt
     else let old = ''ExecStart='' @ iu_executable u @ config_option; new = old @ manifest_option;
       anchor = environment_line @ [CHR 0x0A] in
       if iu_execution_mode u = SMOKE \<and> count_text old txt \<noteq> 1 then unit_error ''ExecStart is ambiguous''
       else if count_text anchor txt \<noteq> 1 then unit_error ''EnvironmentFile is ambiguous''
       else let rendered1 = replace_once anchor (anchor @ runtime_driver_env_line @ [CHR 0x0A]) txt;
         rendered = (if iu_execution_mode u = SMOKE then replace_once old new rendered1 else rendered1) in
         rbind (parse_installed_worker_unit rendered) (\<lambda>migrated.
           if iu_execution_mode migrated \<noteq> RUNTIME_MODE \<or> \<not> iu_nvidia_driver_bridge migrated then unit_error ''rendered unit''
           else if iu_executable migrated \<noteq> iu_executable u then unit_error ''executable changed''
           else Inr rendered))"

section \<open>Lemmas on text\<close>

lemma starts_with_iff: "starts_with p s \<longleftrightarrow> (\<exists>t. s = p @ t)"
  by (induction p s rule: starts_with.induct) auto

lemma starts_with_append [simp]: "starts_with p (p @ t)"
  by (auto simp: starts_with_iff)

lemma ends_with_iff: "ends_with p s \<longleftrightarrow> (\<exists>t. s = t @ p)"
  by (auto simp: ends_with_def starts_with_iff) (metis rev_append rev_rev_ident)

lemma ends_with_append [simp]: "ends_with p (t @ p)"
  by (auto simp: ends_with_iff)

lemma unlines_append: "unlines (a @ b) = unlines a @ unlines b"
  by (simp add: unlines_def)

lemma unlines_Cons: "unlines (l # ls) = l @ CHR 0x0A # unlines ls"
  by (simp add: unlines_def)

lemma py_in_iff: "py_in n s \<longleftrightarrow> (\<exists>a b. s = a @ n @ b)"
proof (induction s)
  case (Cons c s)
  have "take (length n) (c # s) = n \<longleftrightarrow> (\<exists>b. c # s = n @ b)"
    by (metis append_eq_conv_conj append_take_drop_id)
  with Cons show ?case by (auto simp: Cons_eq_append_conv)
qed simp

text \<open>A text without a line feed is found within a line or not at all.\<close>

lemma starts_with_line:
  assumes "CHR 0x0A \<notin> set n" "n \<noteq> []"
  shows "starts_with n (l @ CHR 0x0A # t) \<Longrightarrow> CHR 0x0A \<notin> set l \<Longrightarrow> \<exists>b. l = n @ b"
  using assms
proof (induction n l rule: starts_with.induct)
  case (2 p ps)
  then show ?case by (cases ps) auto
next
  case (3 p ps c s)
  then show ?case by (cases ps) auto
qed auto

lemma quiet_line:
  assumes "CHR 0x0A \<notin> set n" "n \<noteq> []" "CHR 0x0A \<notin> set l" "\<not> py_in n l" "nl \<in> {[], [CHR 0x0A]}"
  shows "count_text (n @ nl) (l @ CHR 0x0A # t) = count_text (n @ nl) t"
    "replace_once (n @ nl) q (l @ CHR 0x0A # t) = l @ CHR 0x0A # replace_once (n @ nl) q t"
proof -
  have none: "\<not> starts_with (n @ nl) (k @ CHR 0x0A # t)" if "\<exists>a. l = a @ k" for k
  proof
    assume "starts_with (n @ nl) (k @ CHR 0x0A # t)"
    then have "starts_with n (k @ CHR 0x0A # t)" by (auto simp: starts_with_iff)
    with starts_with_line [OF assms(1,2), of k t] that assms(3) obtain a b where "l = a @ n @ b" by auto
    with assms(4) show False unfolding py_in_iff by blast
  qed
  have feed: "\<not> starts_with (n @ nl) (CHR 0x0A # t)" using none [of "[]"] by simp
  have "count_text (n @ nl) (k @ CHR 0x0A # t) = count_text (n @ nl) t \<and>
      replace_once (n @ nl) q (k @ CHR 0x0A # t) = k @ CHR 0x0A # replace_once (n @ nl) q t" if "\<exists>a. l = a @ k" for k
    using that
  proof (induction k)
    case Nil
    with feed show ?case by simp
  next
    case (Cons c k)
    then have "\<exists>a. l = a @ k" by (metis append.assoc append_Cons append_Nil)
    with Cons.IH none [OF Cons.prems] show ?case by simp
  qed
  from this [of l] show "count_text (n @ nl) (l @ CHR 0x0A # t) = count_text (n @ nl) t"
    "replace_once (n @ nl) q (l @ CHR 0x0A # t) = l @ CHR 0x0A # replace_once (n @ nl) q t" by auto
qed

definition quiet_text :: "string \<Rightarrow> string list \<Rightarrow> bool" where
  "quiet_text n ls \<longleftrightarrow> list_all (\<lambda>l. CHR 0x0A \<notin> set l \<and> \<not> py_in n l) ls"

lemma quiet_lines:
  assumes "CHR 0x0A \<notin> set n" "n \<noteq> []" "quiet_text n ls" "nl \<in> {[], [CHR 0x0A]}"
  shows "count_text (n @ nl) (unlines ls @ t) = count_text (n @ nl) t"
    "replace_once (n @ nl) q (unlines ls @ t) = unlines ls @ replace_once (n @ nl) q t"
  using assms(3)
  by (induction ls) (simp_all add: quiet_text_def unlines_Cons unlines_def [of "[]"] quiet_line [OF assms(1,2) _ _ assms(4)])

text \<open>Where a text with an equals sign can occur: what precedes the sign must precede one.\<close>

fun equal_heads :: "string \<Rightarrow> string \<Rightarrow> string list" where
  "equal_heads acc [] = []"
| "equal_heads acc (c # s) = (if c = CHR ''='' then [acc] else []) @ equal_heads (acc @ [c]) s"

lemma equal_heads_here: "acc @ a \<in> set (equal_heads acc (a @ CHR ''='' # b))"
  by (induction a arbitrary: acc) (auto, metis append.assoc append_Cons append_Nil)

lemma equal_heads_plain: "CHR ''='' \<notin> set s \<Longrightarrow> equal_heads acc s = []"
  by (induction s arbitrary: acc) auto

lemma equal_heads_append: "equal_heads acc (a @ b) = equal_heads acc a @ equal_heads (acc @ a) b"
  by (induction a arbitrary: acc) auto

lemma not_in_line:
  assumes "\<forall>h \<in> set (equal_heads [] l). \<not> ends_with p h"
  shows "\<not> py_in (p @ CHR ''='' # q) l"
proof
  assume "py_in (p @ CHR ''='' # q) l"
  then obtain a b where "l = (a @ p) @ CHR ''='' # q @ b" by (auto simp: py_in_iff)
  with equal_heads_here [of "[]" "a @ p" "q @ b"] assms show False by fastforce
qed

section \<open>Units\<close>

text \<open>
  A unit as the installer writes it: a user and a program without equals signs and white space, the
  program an absolute path outside the Nix store; only a runtime unit has the driver bridge.
\<close>

definition plain_text :: "string \<Rightarrow> bool" where
  "plain_text s \<longleftrightarrow> s \<noteq> [] \<and> list_all (\<lambda>c. \<not> is_space c \<and> c \<noteq> CHR ''='') s"

definition unit_ok :: "installed_unit \<Rightarrow> bool" where
  "unit_ok u \<longleftrightarrow> plain_text (iu_service_user u) \<and> plain_text (iu_executable u) \<and> take 1 (iu_executable u) = ''/'' \<and>
     2 \<le> length (iu_executable u) \<and> \<not> starts_with ''/nix/store/'' (iu_executable u) \<and>
     (iu_nvidia_driver_bridge u \<longrightarrow> iu_execution_mode u = RUNTIME_MODE)"

lemma plain_line: "plain_text s \<Longrightarrow> list_all (\<lambda>c. \<not> is_line_end c) s \<and> CHR 0x0A \<notin> set s \<and> CHR ''='' \<notin> set s \<and> py_strip s = s"
proof -
  assume p: "plain_text s"
  have "is_space (CHR 0x0A)" by (simp add: is_space_def)
  moreover have "list_all (\<lambda>c. \<not> is_space c) s" "CHR ''='' \<notin> set s" using p by (auto simp: plain_text_def list_all_iff)
  ultimately show ?thesis using py_strip_no_space by (auto simp: list_all_iff dest: line_end_space)
qed

lemma fixed_lines: "list_all (list_all (\<lambda>c. \<not> is_line_end c)) (unit_prefix @ unit_suffix @
    [''SupplementaryGroups=astrumweaver-config'', environment_line, runtime_driver_env_line, preflight_line,
     ''User='', ''Group='', ''ExecStart='', config_option, manifest_option])"
  by code_simp

lemma unit_splitlines:
  assumes "unit_ok u"
  shows "py_splitlines (unit_text u) = unit_prefix @ unit_lines u @ unit_suffix"
proof -
  have "list_all (list_all (\<lambda>c. \<not> is_line_end c)) (unit_prefix @ unit_lines u @ unit_suffix)"
    using assms fixed_lines plain_line [of "iu_service_user u"] plain_line [of "iu_executable u"]
    by (auto simp: unit_ok_def unit_lines_def)
  then show ?thesis unfolding unit_text_def unlines_def by (rule py_splitlines_lines)
qed

lemma fixed_directives:
  "lines_with ''User='' (unit_prefix @ unit_suffix) = []" "lines_with ''Group='' (unit_prefix @ unit_suffix) = []"
  "lines_with ''SupplementaryGroups='' (unit_prefix @ unit_suffix) = []" "lines_with ''EnvironmentFile='' (unit_prefix @ unit_suffix) = []"
  "lines_with ''ExecStartPre='' (unit_prefix @ unit_suffix) = []" "lines_with ''ExecStart='' (unit_prefix @ unit_suffix) = []"
  "lines_with ''Environment='' (unit_prefix @ unit_suffix) = []"
  by code_simp+

lemma directive_lines:
  "lines_with p (unit_prefix @ unit_suffix) = [] \<Longrightarrow> lines_with p (unit_prefix @ ls @ unit_suffix) = lines_with p ls"
  by (simp add: lines_with_def)

lemma unit_directives:
  "lines_with ''User='' (unit_lines u) = [''User='' @ iu_service_user u]"
  "lines_with ''Group='' (unit_lines u) = [''Group='' @ iu_service_user u]"
  "lines_with ''SupplementaryGroups='' (unit_lines u) = [''SupplementaryGroups=astrumweaver-config'']"
  "lines_with ''EnvironmentFile='' (unit_lines u) = [environment_line]"
  "lines_with ''ExecStartPre='' (unit_lines u) = [preflight_line]"
  "lines_with ''ExecStart='' (unit_lines u) = [''ExecStart='' @ iu_executable u @ config_option @
     (if iu_execution_mode u = RUNTIME_MODE then manifest_option else [])]"
  "lines_with ''Environment='' (unit_lines u) = (if iu_nvidia_driver_bridge u then [runtime_driver_env_line] else [])"
  by (simp_all add: lines_with_def unit_lines_def environment_line_def runtime_driver_env_line_def preflight_line_def)

lemma exec_start_unit:
  assumes "unit_ok u"
  shows "exec_start_re (''ExecStart='' @ iu_executable u @ config_option @
    (if iu_execution_mode u = RUNTIME_MODE then manifest_option else [])) = Some (iu_executable u, iu_execution_mode u)"
proof -
  let ?e = "iu_executable u"
  have run: "takeWhile (\<lambda>c. \<not> is_space c) (?e @ config_option @ t) = ?e"
    "dropWhile (\<lambda>c. \<not> is_space c) (?e @ config_option @ t) = config_option @ t" for t
    using assms by (auto simp: unit_ok_def plain_text_def list_all_iff takeWhile_append dropWhile_append config_option_def is_space_def)
  have "manifest_option \<noteq> []" by (simp add: manifest_option_def)
  moreover have "\<not> length ?e < 2" "take 1 ?e = ''/''" using assms by (auto simp: unit_ok_def)
  moreover have "drop 10 (''ExecStart='' @ x) = x" "starts_with ''ExecStart='' (''ExecStart='' @ x)" for x by simp_all
  ultimately show ?thesis
    by (cases "iu_execution_mode u") (simp_all only: exec_start_re_def Let_def run run [of "[]", simplified] append_Nil2
      not_True_eq_False if_False if_True execution_mode.distinct append_self_conv simp_thms)
qed

text \<open>Reading the unit that was written.\<close>

lemma unit_roundtrip:
  assumes "unit_ok u"
  shows "parse_installed_worker_unit (unit_text u) = Inr u"
proof -
  have user: "after_equals (''User='' @ iu_service_user u) = iu_service_user u" "after_equals (''Group='' @ iu_service_user u) = iu_service_user u"
    "iu_service_user u \<noteq> []"
    using assms plain_line [of "iu_service_user u"] by (auto simp: unit_ok_def after_equals_def py_partition_def plain_text_def)
  have ends: "starts_with (unlines unit_prefix) (unit_text u)" "ends_with (unlines unit_suffix) (unit_text u)"
    by (simp_all add: unit_text_def unlines_append) (metis append.assoc ends_with_append)
  have same: "\<lparr>iu_service_user = iu_service_user u, iu_executable = iu_executable u, iu_execution_mode = iu_execution_mode u,
      iu_nvidia_driver_bridge = b\<rparr> = u" if "b = iu_nvidia_driver_bridge u" for b
    using that by simp
  have bridge: "(iu_execution_mode u = RUNTIME_MODE \<and> (if iu_nvidia_driver_bridge u then [runtime_driver_env_line] else []) \<noteq> [])
      = iu_nvidia_driver_bridge u"
    using assms by (auto simp: unit_ok_def)
  have rest: "\<not> starts_with ''/nix/store/'' (iu_executable u)" "iu_execution_mode u = SMOKE \<Longrightarrow> \<not> iu_nvidia_driver_bridge u"
    using assms by (auto simp: unit_ok_def)
  show ?thesis
    unfolding parse_installed_worker_unit_def unit_splitlines [OF assms] Let_def
      directive_lines [OF fixed_directives(1)] directive_lines [OF fixed_directives(2)] directive_lines [OF fixed_directives(3)]
      directive_lines [OF fixed_directives(4)] directive_lines [OF fixed_directives(5)] directive_lines [OF fixed_directives(6)]
      directive_lines [OF fixed_directives(7)] unit_directives list.case prod.case user exec_start_unit [OF assms] option.case
      bridge same [OF refl]
    using ends user rest by auto
qed

section \<open>Rendering a unit\<close>

text \<open>Lines in which no directive of the given name can be found.\<close>

definition no_directive :: "string \<Rightarrow> string list \<Rightarrow> bool" where
  "no_directive p ls \<longleftrightarrow>
     list_all (\<lambda>l. CHR 0x0A \<notin> set l \<and> list_all (\<lambda>h. \<not> ends_with p h) (equal_heads [] l)) ls"

lemma no_directive_quiet: "no_directive p ls \<Longrightarrow> quiet_text (p @ CHR ''='' # q) ls"
  unfolding no_directive_def quiet_text_def list_all_iff using not_in_line by blast

lemma no_directive_append [simp]: "no_directive p (a @ b) \<longleftrightarrow> no_directive p a \<and> no_directive p b"
  by (simp add: no_directive_def)

lemma no_directive_Cons: "no_directive p (l # ls) \<longleftrightarrow> no_directive p [l] \<and> no_directive p ls"
  by (simp add: no_directive_def)

lemma no_directive_plain:
  assumes "list_all (\<lambda>c. c \<noteq> CHR ''='' \<and> c \<noteq> CHR 0x0A) p" "list_all (\<lambda>c. c \<noteq> CHR ''='' \<and> c \<noteq> CHR 0x0A) v" "\<not> ends_with d p"
  shows "no_directive d [p @ CHR ''='' # v]"
proof -
  have no: "CHR ''='' \<notin> set p" "CHR ''='' \<notin> set v" "CHR 0x0A \<notin> set p" "CHR 0x0A \<notin> set v"
    using assms(1,2) by (auto simp: list_all_iff)
  then have "equal_heads [] (p @ CHR ''='' # v) = [p]"
    by (simp add: equal_heads_append equal_heads_plain)
  with no assms(3) show ?thesis by (simp add: no_directive_def)
qed

lemma first_occurrence:
  assumes "p \<noteq> []"
  shows "count_text p (p @ t) = Suc (count_text p t)" "replace_once p q (p @ t) = q @ t"
proof -
  from assms obtain c p' where p: "p = c # p'" by (cases p) auto
  have "starts_with (c # p') (c # p' @ t)" using starts_with_append [of "c # p'" t] by simp
  then show "count_text p (p @ t) = Suc (count_text p t)" "replace_once p q (p @ t) = q @ t"
    by (simp_all add: p)
qed

lemma single_occurrence:
  assumes "CHR 0x0A \<notin> set n" "n \<noteq> []" "quiet_text n a" "quiet_text n b" "nl \<in> {[], [CHR 0x0A]}"
  shows "count_text (n @ nl) (unlines a @ (n @ nl) @ unlines b) = 1"
    "replace_once (n @ nl) q (unlines a @ (n @ nl) @ unlines b) = unlines a @ q @ unlines b"
  using quiet_lines [OF assms(1,2,4,5), where t = "[]"] assms(2)
  by (simp_all only: quiet_lines [OF assms(1,2,3,5)] first_occurrence append_is_Nil_conv simp_thms) simp

definition fixed_heads :: "string list" where
  "fixed_heads = unit_prefix @ [''SupplementaryGroups=astrumweaver-config'', runtime_driver_env_line, preflight_line] @ [] # unit_suffix"

lemma fixed_quiet: "no_directive ''EnvironmentFile'' fixed_heads" "no_directive ''ExecStart'' (environment_line # fixed_heads)"
  by code_simp+

lemma option_text: "list_all (\<lambda>c. c \<noteq> CHR ''='' \<and> c \<noteq> CHR 0x0A) (config_option @ manifest_option)"
  by code_simp


lemma plain_no_directive:
  assumes "plain_text v" "list_all (\<lambda>c. c \<noteq> CHR ''='' \<and> c \<noteq> CHR 0x0A) (p @ w)" "\<not> ends_with d p"
  shows "no_directive d [p @ CHR ''='' # v @ w]"
  using no_directive_plain [OF _ _ assms(3), of "v @ w"] assms(2) plain_line [OF assms(1)]
  by (auto simp: list_all_iff)

definition unit_head :: "installed_unit \<Rightarrow> string list" where
  "unit_head u = unit_prefix @ [''User='' @ iu_service_user u, ''Group='' @ iu_service_user u,
     ''SupplementaryGroups=astrumweaver-config'']"

lemma unit_head_quiet:
  assumes "unit_ok u"
  shows "no_directive ''EnvironmentFile'' (unit_head u)" "no_directive ''ExecStart'' (unit_head u)"
proof -
  have "plain_text (iu_service_user u)" using assms by (simp add: unit_ok_def)
  then have "no_directive d [''User='' @ iu_service_user u] \<and> no_directive d [''Group='' @ iu_service_user u]"
    if "d \<in> {''EnvironmentFile'', ''ExecStart''}" for d
    using plain_no_directive [of "iu_service_user u" "''User''" "[]" d] plain_no_directive [of "iu_service_user u" "''Group''" "[]" d] that
    by (auto simp: ends_with_def)
  then show "no_directive ''EnvironmentFile'' (unit_head u)" "no_directive ''ExecStart'' (unit_head u)"
    using fixed_quiet
    by (simp_all add: unit_head_def fixed_heads_def no_directive_Cons [of _ _ "_ # _"]) (simp_all add: no_directive_def)
qed

definition unit_tail :: "installed_unit \<Rightarrow> string list" where
  "unit_tail u = (if iu_nvidia_driver_bridge u then [runtime_driver_env_line] else []) @
     [preflight_line, ''ExecStart='' @ iu_executable u @ config_option @
       (if iu_execution_mode u = RUNTIME_MODE then manifest_option else [])] @ unit_suffix"

lemma unit_tail_quiet:
  assumes "unit_ok u"
  shows "no_directive ''EnvironmentFile'' (unit_tail u)"
proof -
  have "plain_text (iu_executable u)" using assms by (simp add: unit_ok_def)
  moreover have "list_all (\<lambda>c. c \<noteq> CHR ''='' \<and> c \<noteq> CHR 0x0A) (''ExecStart'' @ config_option @
      (if iu_execution_mode u = RUNTIME_MODE then manifest_option else []))" using option_text by (simp split: if_splits)
  ultimately have "no_directive ''EnvironmentFile'' [''ExecStart='' @ iu_executable u @ config_option @
      (if iu_execution_mode u = RUNTIME_MODE then manifest_option else [])]"
    using plain_no_directive [of "iu_executable u" "''ExecStart''" _ "''EnvironmentFile''"] by (simp add: ends_with_def)
  with fixed_quiet(1) show ?thesis
    unfolding unit_tail_def fixed_heads_def no_directive_append by (auto simp: no_directive_def)
qed

lemma unit_text_parts: "unit_text u = unlines (unit_head u) @ (environment_line @ [CHR 0x0A]) @ unlines (unit_tail u)"
  by (simp add: unit_text_def unit_lines_def unit_head_def unit_tail_def unlines_append unlines_Cons unlines_def [of "[]"])

lemma anchor_once:
  assumes "unit_ok u"
  shows "count_text (environment_line @ [CHR 0x0A]) (unit_text u) = 1"
    "replace_once (environment_line @ [CHR 0x0A]) q (unit_text u) = unlines (unit_head u) @ q @ unlines (unit_tail u)"
proof -
  have "CHR 0x0A \<notin> set environment_line" "environment_line \<noteq> []"
    "environment_line = ''EnvironmentFile'' @ CHR ''='' # ''-/etc/astrumweaver/worker.env''"
    by (simp_all add: environment_line_def)
  with unit_head_quiet(1) [OF assms] unit_tail_quiet [OF assms] no_directive_quiet
  have "CHR 0x0A \<notin> set environment_line" "environment_line \<noteq> []" "quiet_text environment_line (unit_head u)"
    "quiet_text environment_line (unit_tail u)" by metis+
  from single_occurrence [OF this, of "[CHR 0x0A]"]
  show "count_text (environment_line @ [CHR 0x0A]) (unit_text u) = 1"
    "replace_once (environment_line @ [CHR 0x0A]) q (unit_text u) = unlines (unit_head u) @ q @ unlines (unit_tail u)"
    unfolding unit_text_parts by blast+
qed

text \<open>The start line of a smoke unit, with \<open>d\<close> between the environment file and the preflight.\<close>

lemma start_once:
  assumes "unit_ok u" "d \<in> {[], [runtime_driver_env_line]}"
  defines "old \<equiv> ''ExecStart='' @ iu_executable u @ config_option"
  defines "before \<equiv> unit_head u @ environment_line # d @ [preflight_line]"
  shows "count_text old (unlines before @ old @ unlines ([] # unit_suffix)) = 1"
    "replace_once old q (unlines before @ old @ unlines ([] # unit_suffix)) = unlines before @ q @ unlines ([] # unit_suffix)"
proof -
  have "no_directive ''ExecStart'' before" "no_directive ''ExecStart'' ([] # unit_suffix)"
    using unit_head_quiet(2) [OF assms(1)] fixed_quiet(2) assms(2)
    unfolding before_def fixed_heads_def no_directive_append by (auto simp: no_directive_def)
  moreover have "old = ''ExecStart'' @ CHR ''='' # iu_executable u @ config_option" by (simp add: old_def)
  ultimately have "quiet_text old before" "quiet_text old ([] # unit_suffix)" using no_directive_quiet by metis+
  moreover have "CHR 0x0A \<notin> set old" "old \<noteq> []"
    using assms(1) plain_line [of "iu_executable u"] option_text by (auto simp: old_def unit_ok_def list_all_iff)
  ultimately show "count_text old (unlines before @ old @ unlines ([] # unit_suffix)) = 1"
    "replace_once old q (unlines before @ old @ unlines ([] # unit_suffix)) = unlines before @ q @ unlines ([] # unit_suffix)"
    using single_occurrence [of old before "[] # unit_suffix" "[]"] by simp_all
qed

text \<open>Migrating a unit keeps its user and its program and adds the manifest and the driver bridge.\<close>

definition migrated_unit :: "installed_unit \<Rightarrow> installed_unit" where
  "migrated_unit u = u\<lparr>iu_execution_mode := RUNTIME_MODE, iu_nvidia_driver_bridge := True\<rparr>"

lemma migrated_unit_ok: "unit_ok u \<Longrightarrow> unit_ok (migrated_unit u)"
  by (simp add: unit_ok_def migrated_unit_def)

lemma migrated_text:
  assumes "unit_ok u" "\<not> (iu_execution_mode u = RUNTIME_MODE \<and> iu_nvidia_driver_bridge u)"
  defines "old \<equiv> ''ExecStart='' @ iu_executable u @ config_option"
  defines "rendered1 \<equiv> replace_once (environment_line @ [CHR 0x0A])
    ((environment_line @ [CHR 0x0A]) @ runtime_driver_env_line @ [CHR 0x0A]) (unit_text u)"
  shows "iu_execution_mode u = SMOKE \<Longrightarrow> count_text old (unit_text u) = 1"
    "(if iu_execution_mode u = SMOKE then replace_once old (old @ manifest_option) rendered1 else rendered1) = unit_text (migrated_unit u)"
proof -
  note parts = unit_text_parts unit_tail_def unlines_append unlines_Cons unlines_def [of "[]"] migrated_unit_def unit_head_def old_def
  note rendered1 = rendered1_def anchor_once(2) [OF assms(1)]
  have bare: "\<not> iu_nvidia_driver_bridge u" using assms(1,2) by (cases "iu_execution_mode u") (auto simp: unit_ok_def)
  show "count_text old (unit_text u) = 1" if "iu_execution_mode u = SMOKE"
    using start_once(1) [OF assms(1), of "[]"] that bare by (simp add: parts)
  show "(if iu_execution_mode u = SMOKE then replace_once old (old @ manifest_option) rendered1 else rendered1) = unit_text (migrated_unit u)"
  proof (cases "iu_execution_mode u")
    case SMOKE
    with start_once(2) [OF assms(1), of "[runtime_driver_env_line]" "old @ manifest_option"] bare
    show ?thesis unfolding rendered1 by (simp add: parts)
  next
    case RUNTIME_MODE
    with bare show ?thesis unfolding rendered1 by (simp add: parts)
  qed
qed

lemma render_unit:
  assumes "unit_ok u"
  shows "render_runtime_worker_unit (unit_text u) = Inr (unit_text (migrated_unit u))"
proof (cases "iu_execution_mode u = RUNTIME_MODE \<and> iu_nvidia_driver_bridge u")
  case True
  then have "migrated_unit u = u" by (simp add: migrated_unit_def)
  with True unit_roundtrip [OF assms] show ?thesis by (simp add: render_runtime_worker_unit_def)
next
  case False
  have "iu_execution_mode (migrated_unit u) = RUNTIME_MODE" "iu_nvidia_driver_bridge (migrated_unit u)"
    "iu_executable (migrated_unit u) = iu_executable u" by (simp_all add: migrated_unit_def)
  with False migrated_text [OF assms False] anchor_once(1) [OF assms] unit_roundtrip [OF assms] unit_roundtrip [OF migrated_unit_ok [OF assms]]
  show ?thesis unfolding render_runtime_worker_unit_def Let_def by (cases "iu_execution_mode u") simp_all
qed

text \<open>What is accepted is a canonical unit, so a file with any other line is refused.\<close>

lemma parsed_unit_text: "parse_installed_worker_unit txt = Inr u \<Longrightarrow> txt = unit_text u"
  by (auto simp: parse_installed_worker_unit_def Let_def unit_error_def split: if_splits list.splits option.splits prod.splits)

section \<open>Rendering is idempotent\<close>

lemma refused [simp]: "unit_error w \<noteq> Inr x" "installed_error w \<noteq> Inr x"
  by (simp_all add: unit_error_def installed_error_def)

lemma render_unit_idem:
  assumes "render_runtime_worker_unit txt = Inr rendered"
  shows "render_runtime_worker_unit rendered = Inr rendered"
proof -
  obtain u where "parse_installed_worker_unit rendered = Inr u" "iu_execution_mode u = RUNTIME_MODE" "iu_nvidia_driver_bridge u"
    using assms unfolding render_runtime_worker_unit_def Let_def by (auto simp: rbind_eq_Inr split: if_splits)
  then show ?thesis by (simp add: render_runtime_worker_unit_def)
qed

lemma runtime_section_manifest: "runtime_section parsed runtime spec txt = Inr manifest \<Longrightarrow> manifest = default_runtime_manifest"
  unfolding runtime_section_def Let_def by (auto simp: rbind_eq_Inr split: if_splits)

lemma runtime_contract_manifest:
  assumes "parse_installed_worker_toml toml txt = Inr c" "ic_execution_mode c = RUNTIME_MODE"
  shows "ic_runtime_manifest c = Some default_runtime_manifest"
proof -
  obtain parsed runtime spec manifest where "runtime_section parsed runtime spec txt = Inr manifest" "ic_runtime_manifest c = Some manifest"
    using assms unfolding parse_installed_worker_toml_def Let_def
    by (auto simp: rbind_eq_Inr split: if_splits option.splits json.splits)
  with runtime_section_manifest show ?thesis by simp
qed

lemma render_toml_idem:
  assumes "render_runtime_worker_toml toml txt = Inr rendered"
  shows "render_runtime_worker_toml toml rendered = Inr rendered"
proof -
  obtain c where c: "parse_installed_worker_toml toml rendered = Inr c" "ic_execution_mode c = RUNTIME_MODE"
    using assms unfolding render_runtime_worker_toml_def Let_def by (auto simp: rbind_eq_Inr split: if_splits)
  with runtime_contract_manifest [OF c] show ?thesis by (simp add: render_runtime_worker_toml_def)
qed

end
