(* ===== verification/Provider_Ollama.thy ===== *)
theory Provider_Ollama
  imports Provider_Api
begin

text \<open>
  \<open>src/src/astrumweaver/runtime/providers/ollama.py\<close>: configuration, HTTP API, environment of the
  child process, executor, managed runtime, compatibility report, setup intent and the runtime built
  from an intent. The lemmas discharge the contract of a managed runtime for it, say what a successful
  start-up has verified, and that an intent of the provider gives the runtime it describes.
\<close>

section \<open>Configuration\<close>

definition ollama_provider_id :: string where
  "ollama_provider_id = ''ollama''"

definition model_matches :: "string \<Rightarrow> string \<Rightarrow> bool" where
  "model_matches configured observed = (let c = py_strip configured; b = py_strip observed in
     c = b \<or> CHR '':'' \<notin> set c \<and> b = c @ '':latest'')"

record ollama_config =
  oc_base_url :: string
  oc_executable :: string
  oc_package_reference :: string
  oc_keep_alive :: string
  oc_startup_timeout_seconds :: json
  oc_no_cloud :: json

definition ollama_defaults :: obj where
  "ollama_defaults = [(''base_url'', JStr ''http://127.0.0.1:11434''), (''executable'', JStr ''ollama''),
     (''package_reference'', JStr ''ollama''), (''keep_alive'', JStr ''5m''),
     (''startup_timeout_seconds'', JFloat (Finite 30)), (''no_cloud'', JBool True)]"

definition mk_ollama_config :: "obj \<Rightarrow> ollama_config res" where
  "mk_ollama_config given = rbind (dataclass_args ollama_defaults given) (\<lambda>d.
     rbind (text_arg d ''base_url'') (\<lambda>b. let base = rstrip_slashes b in
     rbind (urlsplit base) (\<lambda>u.
     if \<not> loopback u then Inl (ValueError (Malformed ''base_url''))
     else rbind (text_arg d ''executable'') (\<lambda>ex.
       rbind (text_arg d ''package_reference'') (\<lambda>pkg.
       rbind (text_arg d ''keep_alive'') (\<lambda>ka.
       rbind (positive_arg d ''startup_timeout_seconds'') (\<lambda>timeout.
         Inr \<lparr>oc_base_url = base, oc_executable = ex, oc_package_reference = pkg, oc_keep_alive = ka,
              oc_startup_timeout_seconds = timeout, oc_no_cloud = json_get d ''no_cloud''\<rparr>)))))))"

section \<open>The HTTP API\<close>

fun mappings :: "json list \<Rightarrow> obj list" where
  "mappings [] = []"
| "mappings (JObj d # rest) = d # mappings rest"
| "mappings (_ # rest) = mappings rest"

definition ollama_models :: "'e env_ops \<Rightarrow> string \<Rightarrow> ('e, obj list) act" where
  "ollama_models ops path = abind (api_json ops ''GET'' path None) (\<lambda>body.
     case dict_get body ''models'' of
       Some (JList xs) \<Rightarrow> areturn (mappings xs)
     | _ \<Rightarrow> araise (runtime_error ''invalid models''))"

definition ollama_list_models :: "'e env_ops \<Rightarrow> ('e, obj list) act" where
  "ollama_list_models ops = ollama_models ops ''/api/tags''"

definition ollama_running_models :: "'e env_ops \<Rightarrow> ('e, obj list) act" where
  "ollama_running_models ops = ollama_models ops ''/api/ps''"

definition ollama_chat :: "'e env_ops \<Rightarrow> obj \<Rightarrow> ('e, obj) act" where
  "ollama_chat ops payload = api_json ops ''POST'' ''/api/chat'' (Some payload)"

definition ollama_generate :: "'e env_ops \<Rightarrow> obj \<Rightarrow> ('e, obj) act" where
  "ollama_generate ops payload = api_json ops ''POST'' ''/api/generate'' (Some payload)"

definition ollama_unload :: "'e env_ops \<Rightarrow> string \<Rightarrow> ('e, unit) act" where
  "ollama_unload ops model = abind (ollama_generate ops [(''model'', JStr model), (''prompt'', JStr []),
     (''stream'', JBool False), (''keep_alive'', JInt 0)]) (\<lambda>_. areturn ())"

section \<open>The child process\<close>

text \<open>\<open>s.removeprefix(p)\<close>\<close>

definition removeprefix :: "string \<Rightarrow> string \<Rightarrow> string" where
  "removeprefix p s = (if take (length p) s = p then drop (length p) s else s)"

record ollama_runtime =
  or_context :: runtime_context
  or_model :: string
  or_base_url :: string
  or_executable :: string
  or_keep_alive :: string
  or_timeout :: py_float
  or_no_cloud :: bool
  or_sched_spread :: bool

definition ollama_environment :: "(string, string) dict \<Rightarrow> ollama_runtime \<Rightarrow> (string, string) dict" where
  "ollama_environment environ rt = (let gpu_uuids = ws_gpu_uuids (cx_worker (or_context rt)) in
     dict_merge environ ([
       (''OLLAMA_HOST'', removeprefix ''https://'' (removeprefix ''http://'' (or_base_url rt))),
       (''OLLAMA_NUM_PARALLEL'', ''1''), (''OLLAMA_MAX_LOADED_MODELS'', ''1''),
       (''OLLAMA_KEEP_ALIVE'', or_keep_alive rt),
       (''OLLAMA_NO_CLOUD'', if or_no_cloud rt then ''true'' else ''false'')] @
       (if gpu_uuids = [] then [] else [(''CUDA_VISIBLE_DEVICES'', py_join '','' gpu_uuids)]) @
       (if or_sched_spread rt then [(''OLLAMA_SCHED_SPREAD'', ''true'')] else [])))"

definition ollama_process_start :: "'e env_ops \<Rightarrow> ollama_runtime \<Rightarrow> ('e rt_state, unit) act" where
  "ollama_process_start ops rt = process_spawn ops (Inr [Word (or_executable rt), Word ''serve''])
     (Some (ollama_environment (ev_environ ops) rt))"

section \<open>The executor\<close>

text \<open>\<open>payload.setdefault(k, v)\<close>\<close>

definition set_default :: "string \<Rightarrow> json \<Rightarrow> obj \<Rightarrow> obj" where
  "set_default k v d = (if dict_get d k = None then dict_set k v d else d)"

definition ollama_payload :: "string \<Rightarrow> string \<Rightarrow> job_request \<Rightarrow> obj res" where
  "ollama_payload model keep_alive job = rbind (bound_model (model_matches model) (rq_payload job)) (\<lambda>_.
     Inr (set_default ''keep_alive'' (JStr keep_alive) (bind_payload model (rq_payload job))))"

definition ollama_text :: "string \<Rightarrow> obj \<Rightarrow> json" where
  "ollama_text capability response =
     (if capability = ''llm.chat''
      then (case json_get response ''message'' of
              JObj m \<Rightarrow> (case json_get m ''content'' of JStr s \<Rightarrow> JStr s | _ \<Rightarrow> JNull) | _ \<Rightarrow> JNull)
      else (case json_get response ''response'' of JStr s \<Rightarrow> JStr s | _ \<Rightarrow> JNull))"

definition ollama_metric_keys :: "string list" where
  "ollama_metric_keys = [''total_duration'', ''load_duration'', ''prompt_eval_count'', ''prompt_eval_cached_count'',
     ''prompt_eval_duration'', ''eval_count'', ''eval_duration'']"

definition ollama_result :: "string \<Rightarrow> job_request \<Rightarrow> obj \<Rightarrow> job_result res" where
  "ollama_result model job response =
     mk_job_result (JObj response) [] (JObj (number_fields ollama_metric_keys response))
       (ollama_text (rq_capability job) response)
       (JObj [(''runtime_provider'', JStr ollama_provider_id), (''model'', JStr model)])"

definition ollama_execute :: "'e env_ops \<Rightarrow> string \<Rightarrow> string \<Rightarrow> job_request \<Rightarrow> ('e, job_result) act" where
  "ollama_execute ops model keep_alive job =
     abind (apure (checked_call (ollama_payload model keep_alive) job)) (\<lambda>call.
     abind (case call of Chat_Call p \<Rightarrow> ollama_chat ops p | Text_Call p \<Rightarrow> ollama_generate ops p) (\<lambda>response.
       apure (ollama_result model job response)))"

text \<open>\<open>entry.get("model") or entry.get("name")\<close>, when it is a text that names the model.\<close>

definition names_model :: "string \<Rightarrow> obj \<Rightarrow> bool" where
  "names_model model entry =
     (case (if py_truthy (json_get entry ''model'') then json_get entry ''model'' else json_get entry ''name'') of
        JStr s \<Rightarrow> model_matches model s | _ \<Rightarrow> False)"

definition ollama_residency_item :: "string \<Rightarrow> obj \<Rightarrow> residency_item res" where
  "ollama_residency_item model entry = mk_residency_item model ''ollama-model''
     (case json_get entry ''size_vram'' of JInt n \<Rightarrow> Some n | _ \<Rightarrow> None)
     ((case json_get entry ''size'' of JInt n \<Rightarrow> [(''size_bytes'', JInt n)] | _ \<Rightarrow> []) @
      (case json_get entry ''context_length'' of JInt n \<Rightarrow> [(''context_length'', JInt n)] | _ \<Rightarrow> []))"

definition ollama_residency :: "'e env_ops \<Rightarrow> string \<Rightarrow> py_datetime \<Rightarrow> ('e, residency_report) act" where
  "ollama_residency ops model now = abind (ollama_running_models ops) (\<lambda>entries.
     apure (rbind (rmap (ollama_residency_item model) (filter (names_model model) entries)) (\<lambda>items.
       mk_residency_report items now [(''runtime_provider'', JStr ollama_provider_id)])))"

section \<open>The managed runtime\<close>

definition ollama_reachable :: "'e env_ops \<Rightarrow> ('e, bool) act" where
  "ollama_reachable ops e = (case ollama_list_models ops e of
     (Inl _, e') \<Rightarrow> (Inr False, e') | (Inr _, e') \<Rightarrow> (Inr True, e'))"

definition text_values :: "obj \<Rightarrow> string list \<Rightarrow> string list" where
  "text_values d keys = List.map_filter (\<lambda>k. case json_get d k of JStr s \<Rightarrow> Some s | _ \<Rightarrow> None) keys"

definition ollama_available_models :: "'e env_ops \<Rightarrow> ('e, string list) act" where
  "ollama_available_models ops = abind (ollama_list_models ops) (\<lambda>models.
     areturn (concat (map (\<lambda>m. text_values m [''model'', ''name'']) models)))"

definition ollama_available :: "'e env_ops \<Rightarrow> string \<Rightarrow> ('e, bool) act" where
  "ollama_available ops model = abind (ollama_available_models ops) (\<lambda>names.
     areturn (list_ex (model_matches model) names))"

definition ollama_load_model :: "'e env_ops \<Rightarrow> ollama_runtime \<Rightarrow> ('e, unit) act" where
  "ollama_load_model ops rt = abind (ollama_generate ops [(''model'', JStr (or_model rt)), (''prompt'', JStr []),
     (''stream'', JBool False), (''keep_alive'', JStr (or_keep_alive rt))]) (\<lambda>_. areturn ())"

definition ollama_resident_entry :: "'e env_ops \<Rightarrow> string \<Rightarrow> ('e, obj option) act" where
  "ollama_resident_entry ops model = abind (ollama_running_models ops) (\<lambda>entries.
     areturn (find (names_model model) entries))"

definition loaded_topology :: "residency_policy \<Rightarrow> obj option \<Rightarrow> unit res" where
  "loaded_topology policy resident = (case resident of
     None \<Rightarrow> Inl (RuntimeError (Malformed ''model is not resident''))
   | Some entry \<Rightarrow> (case json_get entry ''size_vram'' of
       JInt size_vram \<Rightarrow>
         if policy = VRAM_ONLY
         then (case json_get entry ''size'' of
             JInt whole \<Rightarrow> if size_vram < whole then Inl (RuntimeError (Malformed ''model outside VRAM'')) else Inr ()
           | _ \<Rightarrow> Inl (RuntimeError (Malformed ''no model size'')))
         else Inr ()
     | _ \<Rightarrow> Inl (RuntimeError (Malformed ''no VRAM residency''))))"

definition ollama_verify_loaded :: "'e env_ops \<Rightarrow> ollama_runtime \<Rightarrow> ('e, unit) act" where
  "ollama_verify_loaded ops rt = abind (ollama_resident_entry ops (or_model rt)) (\<lambda>entry.
     apure (loaded_topology (ed_residency_policy (cx_demand (or_context rt))) entry))"

definition ollama_abandon :: "'e env_ops \<Rightarrow> ollama_runtime \<Rightarrow> 'e rt_state \<Rightarrow> 'e rt_state" where
  "ollama_abandon ops rt s = (case on_env (ollama_reachable ops) s of
     (Inr True, s') \<Rightarrow> suppressed (on_env (ollama_unload ops (or_model rt))) s'
   | (_, s') \<Rightarrow> s')"

definition ollama_server :: "'e env_ops \<Rightarrow> ollama_runtime \<Rightarrow> 'e server" where
  "ollama_server ops rt = \<lparr>
     sr_reachable = on_env (ollama_reachable ops),
     sr_process_start = ollama_process_start ops rt,
     sr_available = on_env (ollama_available ops (or_model rt)),
     sr_load = abind (on_env (ollama_load_model ops rt)) (\<lambda>_. on_env (ollama_verify_loaded ops rt)),
     sr_abandon = ollama_abandon ops rt,
     sr_timeout = or_timeout rt, sr_poll = 1 / 10, sr_grace = 10,
     sr_external = ''external Ollama process detected at managed endpoint'',
     sr_no_inventory = ''Ollama model inventory is unavailable'',
     sr_unavailable = ''configured Ollama model is unavailable'',
     sr_provider_id = ollama_provider_id,
     sr_ready_metadata = [(''model'', JStr (or_model rt))]\<rparr>"

definition ollama_release :: "'e env_ops \<Rightarrow> ollama_runtime \<Rightarrow> ('e rt_state, unit) act" where
  "ollama_release ops rt s =
     (if st_closed s then (Inr (), s)
      else let s1 =
        (if process_running ops s
         then (case on_env (ollama_reachable ops) s of
             (Inr True, s') \<Rightarrow> if process_running ops s'
               then suppressed (on_env (ollama_unload ops (or_model rt))) s' else s'
           | (_, s') \<Rightarrow> s')
         else s)
        in abind (on_env (ev_close ops)) (\<lambda>_ s'. (Inr (), s'\<lparr>st_closed := True\<rparr>)) s1)"

section \<open>The provider\<close>

definition ollama_vram_reasons :: "model_demand \<Rightarrow> resource_shape \<Rightarrow> compatibility_reason list" where
  "ollama_vram_reasons model resources = (case md_estimated_size_mb model of
     None \<Rightarrow> [blocking_reason ''model-size-required-for-vram-only''
       ''Ollama vram_only planning requires estimated model size; runtime residency is verified again after load'']
   | Some estimated \<Rightarrow>
       if estimated > total_vram_mb resources
       then [blocking_reason ''model-exceeds-total-vram''
         ''estimated model size exceeds Worker total VRAM under vram_only policy'']
       else [note_reason ''vram-residency-runtime-verified''
         ''Ollama full-VRAM residency will be verified from /api/ps after the model is loaded''])"

definition ollama_compatibility :: "runtime_context \<Rightarrow> runtime_compatibility res" where
  "ollama_compatibility context = (let demand = cx_demand context; model = ed_model demand;
     resources = ws_resources (cx_worker context) in
     mk_runtime_compatibility ollama_provider_id (
       only_if (md_model_format model \<noteq> ''ollama'') (blocking_reason ''model-format-unsupported''
         ''Ollama provider currently requires an Ollama model reference (model_format=ollama)'') @
       only_if (ed_residency_policy demand = CPU_GPU_HYBRID) (note_reason ''ollama-offload-automatic''
         ''Ollama controls CPU/GPU offload automatically; use llama.cpp when explicit layer/offload control is required'') @
       (if ed_residency_policy demand = VRAM_ONLY then ollama_vram_reasons model resources else []) @
       only_if (ed_gpu_topology demand = MULTI_GPU) (note_reason ''ollama-multi-gpu-spread''
         ''Ollama will be restricted to the Worker GPU UUID set and OLLAMA_SCHED_SPREAD will request distribution across all selected GPUs'')))"

definition ollama_configuration :: "ollama_config \<Rightarrow> runtime_context \<Rightarrow> obj" where
  "ollama_configuration config context = [
     (''base_url'', JStr (oc_base_url config)), (''executable'', JStr (oc_executable config)),
     (''model'', JStr (md_model_ref (ed_model (cx_demand context)))),
     (''keep_alive'', JStr (oc_keep_alive config)),
     (''startup_timeout_seconds'', oc_startup_timeout_seconds config),
     (''gpu_uuids'', jstrs (ws_gpu_uuids (cx_worker context))),
     (''capabilities'', jstrs served_capabilities),
     (''num_parallel'', JInt 1), (''max_loaded_models'', JInt 1),
     (''no_cloud'', oc_no_cloud config),
     (''sched_spread'', JBool (ed_gpu_topology (cx_demand context) = MULTI_GPU))]"

definition ollama_setup_intent :: "ollama_config \<Rightarrow> runtime_context \<Rightarrow> runtime_setup_intent res" where
  "ollama_setup_intent config context = rbind (ollama_compatibility context) (\<lambda>report.
     if \<not> compatible report then Inl (RuntimeError (Inconsistent ''execution demand''))
     else mk_runtime_setup_intent ollama_provider_id [oc_package_reference config]
       (ollama_configuration config context) ''download''
       (JStr (md_model_ref (ed_model (cx_demand context)))) True
       [(''runtime_provider'', JStr ollama_provider_id)])"

text \<open>The executor is built with the runtime; it refuses a blank model or keep-alive.\<close>

definition ollama_create_runtime ::
  "ollama_config \<Rightarrow> runtime_context \<Rightarrow> runtime_setup_intent \<Rightarrow> ollama_runtime res" where
  "ollama_create_runtime config context setup =
     (if si_provider_id setup \<noteq> ollama_provider_id then Inl (ValueError (Inconsistent ''provider_id''))
      else rbind (ollama_compatibility context) (\<lambda>report.
        if \<not> compatible report then Inl (RuntimeError (Inconsistent ''execution demand''))
        else let cfg = si_configuration setup in
          rbind (cfg_text cfg ''model'' (md_model_ref (ed_model (cx_demand context)))) (\<lambda>model.
          rbind (cfg_text cfg ''base_url'' (oc_base_url config)) (\<lambda>base_url.
          rbind (cfg_text cfg ''executable'' (oc_executable config)) (\<lambda>executable.
          rbind (cfg_text cfg ''keep_alive'' (oc_keep_alive config)) (\<lambda>keep_alive.
          rbind (py_float_of (cfg_get cfg ''startup_timeout_seconds'' (oc_startup_timeout_seconds config))) (\<lambda>timeout.
          rbind (runtime_nonblank model ''model'') (\<lambda>_.
          rbind (runtime_nonblank keep_alive ''keep_alive'') (\<lambda>_.
            Inr \<lparr>or_context = context, or_model = model, or_base_url = base_url, or_executable = executable,
                 or_keep_alive = keep_alive, or_timeout = timeout,
                 or_no_cloud = py_truthy (cfg_get cfg ''no_cloud'' (oc_no_cloud config)),
                 or_sched_spread = py_truthy (cfg_get cfg ''sched_spread'' (JBool False))\<rparr>)))))))))"

section \<open>Lemmas\<close>

lemma ollama_models_time: "env_clock ops \<Longrightarrow> ev_now ops e \<le> ev_now ops (snd (ollama_models ops path e))"
  using api_json_time [of ops e "''GET''" path None]
  by (auto simp: ollama_models_def abind_def split: prod.split sum.split option.split json.split)

lemma ollama_reachable_time: "env_clock ops \<Longrightarrow> keeps_time ops (on_env (ollama_reachable ops))"
  using ollama_models_time [of ops _ "''/api/tags''"]
  by (intro keeps_time_on_env)
    (auto simp: ollama_reachable_def ollama_list_models_def split: prod.split sum.split, metis snd_conv, metis snd_conv)

lemma suppressed_on_env [simp]:
  "st_process (suppressed (on_env p) s) = st_process s" "st_closed (suppressed (on_env p) s) = st_closed s"
  by (simp_all add: suppressed_def on_env_def split: prod.split)

lemma ollama_abandon_keeps:
  "st_process (ollama_abandon ops rt s) = st_process s \<and> st_closed (ollama_abandon ops rt s) = st_closed s"
  by (auto simp: ollama_abandon_def on_env_eq split: prod.split sum.split bool.split)

interpretation ollama: owned_server ops "ollama_server ops rt" for ops rt
proof unfold_locales
  fix s e s' u
  show "sr_process_start (ollama_server ops rt) s = (Inl e, s') \<Longrightarrow> st_process s' = st_process s \<and> st_closed s' = st_closed s"
    by (simp add: ollama_server_def ollama_process_start_def process_spawn_Inl)
  show "\<exists>p e words env. ev_spawn ops words env (st_env s) = (Inr p, e) \<and> s' = s\<lparr>st_env := e, st_process := Some p\<rparr>"
    if "sr_process_start (ollama_server ops rt) s = (Inr u, s')" "\<not> process_running ops s"
    using process_spawn_Inr [OF that(1) [unfolded ollama_server_def ollama_process_start_def, simplified] that(2)] by blast
qed (simp_all add: ollama_server_def outward_intros ollama_abandon_keeps ollama_reachable_time)

text \<open>What the load step has seen when it succeeds.\<close>

definition resident_as_demanded :: "residency_policy \<Rightarrow> string \<Rightarrow> obj list \<Rightarrow> bool" where
  "resident_as_demanded policy model entries \<longleftrightarrow> (\<exists>entry vram.
     entry \<in> set entries \<and> names_model model entry \<and> json_get entry ''size_vram'' = JInt vram \<and>
     (policy = VRAM_ONLY \<longrightarrow> (\<exists>whole. json_get entry ''size'' = JInt whole \<and> whole \<le> vram)))"

lemma loaded_topology_Inr:
  "loaded_topology policy (find (names_model model) entries) = Inr () \<Longrightarrow> resident_as_demanded policy model entries"
  by (auto simp: loaded_topology_def resident_as_demanded_def find_Some_iff
      split: option.splits json.splits if_splits; metis nth_mem not_less)

lemma ollama_load_verified:
  assumes "sr_load (ollama_server ops rt) s = (Inr (), s')"
  shows "\<exists>e entries. ollama_running_models ops e = (Inr entries, st_env s') \<and>
    resident_as_demanded (ed_residency_policy (cx_demand (or_context rt))) (or_model rt) entries"
  using assms
  by (auto simp: ollama_server_def abind_eq on_env_eq ollama_verify_loaded_def ollama_resident_entry_def
      apure_eq dest!: loaded_topology_Inr) blast

lemma ollama_result_accepted:
  "\<exists>r. ollama_result model job response = Inr r \<and> re_outputs r = response \<and>
     re_metadata r = [(''runtime_provider'', JStr ollama_provider_id), (''model'', JStr model)]"
proof -
  have "check_metrics (number_fields ollama_metric_keys response) = Inr ()"
    by (rule number_fields_checked) (simp add: ollama_metric_keys_def py_strip_def is_space_def)
  moreover have "ollama_text (rq_capability job) response = JNull \<or>
      (\<exists>s. ollama_text (rq_capability job) response = JStr s)"
    by (auto simp: ollama_text_def split: json.splits)
  ultimately show ?thesis unfolding ollama_result_def by (rule exE [OF mk_job_result_accepts]) blast
qed

lemma mk_ollama_config_texts:
  assumes "mk_ollama_config given = Inr config"
  shows "oc_base_url config \<noteq> []" "norm_text (oc_executable config)" "norm_text (oc_keep_alive config)"
    "norm_text (oc_package_reference config)"
proof -
  have "\<not> loopback u" if "urlsplit [] = Inr u" for u
    using that by (auto simp: urlsplit_def py_partition_def loopback_def Let_def)
  then show "oc_base_url config \<noteq> []" "norm_text (oc_executable config)" "norm_text (oc_keep_alive config)"
    "norm_text (oc_package_reference config)"
    using assms by (auto simp: mk_ollama_config_def rbind_eq_Inr text_arg_def runtime_nonblank_Inr Let_def split: if_splits)
qed

text \<open>The configuration of an intent, read back by \<open>create_runtime\<close>.\<close>

lemma ollama_intent_runtime:
  assumes "mk_ollama_config given = Inr config" "ollama_setup_intent config context = Inr setup"
    and "norm_text (md_model_ref (ed_model (cx_demand context)))"
    and "py_float_of (oc_startup_timeout_seconds config) = Inr t"
  shows "ollama_create_runtime config context setup = Inr \<lparr>or_context = context,
     or_model = md_model_ref (ed_model (cx_demand context)), or_base_url = oc_base_url config,
     or_executable = oc_executable config, or_keep_alive = oc_keep_alive config, or_timeout = t,
     or_no_cloud = py_truthy (oc_no_cloud config),
     or_sched_spread = (ed_gpu_topology (cx_demand context) = MULTI_GPU)\<rparr>"
proof -
  from assms(2) obtain report where r: "ollama_compatibility context = Inr report" "compatible report"
    and s: "si_provider_id setup = ollama_provider_id" "si_configuration setup = ollama_configuration config context"
    by (auto simp: ollama_setup_intent_def mk_runtime_setup_intent_def rbind_eq_Inr runtime_nonblank_Inr
        ollama_provider_id_def py_strip_def is_space_def split: if_splits)
  note t = mk_ollama_config_texts [OF assms(1)]
  have ne: "oc_executable config \<noteq> []" "oc_keep_alive config \<noteq> []" "md_model_ref (ed_model (cx_demand context)) \<noteq> []"
    using t assms(3) by (auto simp: norm_text_def)
  show ?thesis
    using r s t(1) ne assms(3,4) t(3)
    by (simp add: ollama_create_runtime_def ollama_configuration_def cfg_text_def cfg_get_def json_get_def)
qed

end
