(* ===== verification/Provider_Llama.thy ===== *)
theory Provider_Llama
  imports Provider_Api
begin

text \<open>
  \<open>src/src/astrumweaver/runtime/providers/llama_cpp.py\<close>: configuration, launch policy, command line,
  executor, managed runtime, compatibility report, setup intent and the runtime built from an intent.
  The lemmas discharge the contract of a managed runtime, and show that a runtime built from the
  provider's own intent is launched with the policy that was reviewed, without any CPU offload when
  the demand is VRAM only.
\<close>

section \<open>Configuration\<close>

definition llama_provider_id :: string where
  "llama_provider_id = ''llama-cpp''"

datatype split_mode = SPLIT_NONE | SPLIT_LAYER | SPLIT_ROW | SPLIT_TENSOR

fun split_mode_value :: "split_mode \<Rightarrow> string" where
  "split_mode_value SPLIT_NONE = ''none''"
| "split_mode_value SPLIT_LAYER = ''layer''"
| "split_mode_value SPLIT_ROW = ''row''"
| "split_mode_value SPLIT_TENSOR = ''tensor''"

definition split_mode_of :: "string \<Rightarrow> split_mode res" where
  "split_mode_of = enum_of [(''none'', SPLIT_NONE), (''layer'', SPLIT_LAYER), (''row'', SPLIT_ROW),
     (''tensor'', SPLIT_TENSOR)] ''LlamaCppSplitMode''"

record llama_config =
  lc_base_url :: string
  lc_executable :: string
  lc_package_reference :: string
  lc_startup_timeout_seconds :: json
  lc_request_timeout_seconds :: json
  lc_context_size :: json
  lc_gpu_layers :: json
  lc_split_mode :: "split_mode option"
  lc_tensor_split :: "py_float list option"
  lc_main_gpu :: json
  lc_fit :: json
  lc_fit_target_mb :: "int list option"
  lc_cpu_moe :: json
  lc_n_cpu_moe :: json
  lc_n_cpu_ffn :: json
  lc_offline :: json
  lc_no_webui :: json

definition llama_defaults :: obj where
  "llama_defaults = [(''base_url'', JStr ''http://127.0.0.1:8080''), (''executable'', JStr ''llama-server''),
     (''package_reference'', JStr ''llama-cpp''), (''startup_timeout_seconds'', JFloat (Finite 120)),
     (''request_timeout_seconds'', JFloat (Finite 300)), (''context_size'', JInt 4096),
     (''gpu_layers'', JNull), (''split_mode'', JNull), (''tensor_split'', JNull), (''main_gpu'', JInt 0),
     (''fit'', JNull), (''fit_target_mb'', JNull), (''cpu_moe'', JBool False), (''n_cpu_moe'', JNull),
     (''n_cpu_ffn'', JNull), (''offline'', JBool True), (''no_webui'', JBool True)]"

definition gpu_layers_arg :: "json \<Rightarrow> json res" where
  "gpu_layers_arg v = (case v of
     JNull \<Rightarrow> Inr v
   | JBool _ \<Rightarrow> Inl (TypeError (Wrong_type ''gpu_layers''))
   | JInt n \<Rightarrow> if n < 0 then Inl (ValueError (Must_not_be_negative ''gpu_layers'')) else Inr v
   | _ \<Rightarrow> rbind (py_str v) (\<lambda>s. if s \<in> {''auto'', ''all''} then Inr v
       else Inl (ValueError (Inconsistent ''gpu_layers''))))"

definition split_mode_arg :: "json \<Rightarrow> split_mode option res" where
  "split_mode_arg v = (case v of
     JNull \<Rightarrow> Inr None
   | JStr s \<Rightarrow> rbind (split_mode_of s) (\<lambda>m. Inr (Some m))
   | _ \<Rightarrow> Inl (ValueError (Malformed ''LlamaCppSplitMode'')))"

definition mk_llama_config :: "obj \<Rightarrow> llama_config res" where
  "mk_llama_config given = rbind (dataclass_args llama_defaults given) (\<lambda>d.
     rbind (rbind (py_str (json_get d ''base_url'')) loopback_endpoint) (\<lambda>base.
     rbind (text_arg d ''executable'') (\<lambda>ex.
     rbind (text_arg d ''package_reference'') (\<lambda>pkg.
     rbind (positive_arg d ''startup_timeout_seconds'') (\<lambda>startup.
     rbind (positive_arg d ''request_timeout_seconds'') (\<lambda>request.
     rbind (nonnegative_arg d ''context_size'') (\<lambda>ctx.
     rbind (nonnegative_arg d ''main_gpu'') (\<lambda>main.
     rbind (gpu_layers_arg (json_get d ''gpu_layers'')) (\<lambda>layers.
     rbind (split_mode_arg (json_get d ''split_mode'')) (\<lambda>mode.
     rbind (tuple_arg py_float_of not_above_zero d ''tensor_split'') (\<lambda>tensor.
     rbind (tuple_arg py_int (\<lambda>n. n < 0) d ''fit_target_mb'') (\<lambda>targets.
     rbind (optional_arg nonnegative_arg d ''n_cpu_moe'') (\<lambda>moe.
     rbind (optional_arg nonnegative_arg d ''n_cpu_ffn'') (\<lambda>ffn.
       Inr \<lparr>lc_base_url = base, lc_executable = ex, lc_package_reference = pkg,
            lc_startup_timeout_seconds = startup, lc_request_timeout_seconds = request,
            lc_context_size = ctx, lc_gpu_layers = layers, lc_split_mode = mode, lc_tensor_split = tensor,
            lc_main_gpu = main, lc_fit = json_get d ''fit'', lc_fit_target_mb = targets,
            lc_cpu_moe = json_get d ''cpu_moe'', lc_n_cpu_moe = moe, lc_n_cpu_ffn = ffn,
            lc_offline = json_get d ''offline'', lc_no_webui = json_get d ''no_webui''\<rparr>))))))))))))))"

section \<open>Launch policy\<close>

record llama_policy =
  lp_gpu_layers :: json
  lp_split_mode :: split_mode
  lp_fit :: json
  lp_tensor_split :: "py_float list option"
  lp_fit_target_mb :: "int list option"
  lp_main_gpu :: json
  lp_cpu_moe :: json
  lp_n_cpu_moe :: json
  lp_n_cpu_ffn :: json

definition llama_launch_policy :: "runtime_context \<Rightarrow> llama_config \<Rightarrow> llama_policy" where
  "llama_launch_policy context config = (let demand = cx_demand context;
     gpus = gpu_count (ws_resources (cx_worker context));
     layers = (if lc_gpu_layers config \<noteq> JNull then lc_gpu_layers config
               else if ed_residency_policy demand = VRAM_ONLY then JStr ''all'' else JStr ''auto'');
     mode = (case lc_split_mode config of Some m \<Rightarrow> m
             | None \<Rightarrow> if ed_gpu_topology demand = MULTI_GPU then SPLIT_LAYER else SPLIT_NONE);
     fit = (if lc_fit config \<noteq> JNull then lc_fit config else JBool (ed_residency_policy demand \<noteq> VRAM_ONLY))
     in \<lparr>lp_gpu_layers = (if gpus = 0 then JInt 0 else layers),
         lp_split_mode = (if gpus = 0 then SPLIT_NONE else mode),
         lp_fit = (if gpus = 0 then JBool False else fit),
         lp_tensor_split = lc_tensor_split config, lp_fit_target_mb = lc_fit_target_mb config,
         lp_main_gpu = lc_main_gpu config, lp_cpu_moe = lc_cpu_moe config,
         lp_n_cpu_moe = lc_n_cpu_moe config, lp_n_cpu_ffn = lc_n_cpu_ffn config\<rparr>)"

section \<open>The child process\<close>

record llama_runtime =
  lr_context :: runtime_context
  lr_model_ref :: string
  lr_model_alias :: string
  lr_base_url :: string
  lr_executable :: string
  lr_context_size :: int
  lr_policy :: llama_policy
  lr_offline :: bool
  lr_no_webui :: bool
  lr_timeout :: py_float

text \<open>The options that depend on the worker's GPUs.\<close>

definition llama_gpu_args :: "string list \<Rightarrow> llama_policy \<Rightarrow> cmd_arg \<Rightarrow> cmd_arg list" where
  "llama_gpu_args gpu_uuids policy main_gpu = (if gpu_uuids = [] then [] else
     [Word ''--device'', Word (py_join '','' (map (\<lambda>i. ''CUDA'' @ show_nat i) [0..<length gpu_uuids])),
      Word ''--split-mode'', Word (split_mode_value (lp_split_mode policy))] @
     (if lp_split_mode policy \<in> {SPLIT_NONE, SPLIT_ROW} then [Word ''--main-gpu'', main_gpu] else []) @
     (case lp_tensor_split policy of None \<Rightarrow> [] | Some xs \<Rightarrow> [Word ''--tensor-split'', Floats xs]) @
     (case lp_fit_target_mb policy of None \<Rightarrow> []
      | Some xs \<Rightarrow> [Word ''--fit-target'', Word (py_join '','' (map int_text xs))]))"

definition llama_command :: "llama_runtime \<Rightarrow> cmd_arg list res" where
  "llama_command rt = (let policy = lr_policy rt in
     rbind (endpoint_args (lr_base_url rt)) (\<lambda>(host, port).
     rbind (json_word (lp_gpu_layers policy)) (\<lambda>layers.
     rbind (json_word (lp_main_gpu policy)) (\<lambda>main_gpu.
     rbind (optional_option ''--n-cpu-moe'' (lp_n_cpu_moe policy)) (\<lambda>moe.
     rbind (optional_option ''--n-cpu-ffn'' (lp_n_cpu_ffn policy)) (\<lambda>ffn.
       Inr ([Word (lr_executable rt), Word ''--host'', Word host, Word ''--port'', Word (int_text port),
         Word ''--model'', Word (lr_model_ref rt), Word ''--alias'', Word (lr_model_alias rt),
         Word ''--parallel'', Word ''1'', Word ''--ctx-size'', Word (int_text (lr_context_size rt)),
         Word ''--n-gpu-layers'', layers,
         Word ''--fit'', Word (if py_truthy (lp_fit policy) then ''on'' else ''off'')] @
         only_if (lr_no_webui rt) (Word ''--no-webui'') @
         only_if (lr_offline rt) (Word ''--offline'') @
         llama_gpu_args (ws_gpu_uuids (cx_worker (lr_context rt))) policy main_gpu @
         only_if (py_truthy (lp_cpu_moe policy)) (Word ''--cpu-moe'') @ moe @ ffn)))))))"

definition visible_devices :: "(string, string) dict \<Rightarrow> string list \<Rightarrow> (string, string) dict" where
  "visible_devices environ gpu_uuids =
     (if gpu_uuids = [] then environ else dict_set ''CUDA_VISIBLE_DEVICES'' (py_join '','' gpu_uuids) environ)"

definition llama_process_start :: "'e env_ops \<Rightarrow> llama_runtime \<Rightarrow> ('e rt_state, unit) act" where
  "llama_process_start ops rt = process_start ops (llama_command rt)
     (Some (visible_devices (ev_environ ops) (ws_gpu_uuids (cx_worker (lr_context rt)))))"

section \<open>Executor and managed runtime\<close>

definition llama_execute :: "'e env_ops \<Rightarrow> llama_runtime \<Rightarrow> job_request \<Rightarrow> ('e, job_result) act" where
  "llama_execute ops rt = oai_execute ops llama_provider_id (py_strip (lr_model_ref rt)) ''model_alias''
     (py_strip (lr_model_alias rt))"

definition llama_residency :: "llama_runtime \<Rightarrow> py_datetime \<Rightarrow> residency_report res" where
  "llama_residency rt now = (let context = lr_context rt; policy = lr_policy rt in
     static_residency llama_provider_id (py_strip (lr_model_ref rt)) ''gguf-model'' None [
       (''residency_policy'', JStr (residency_policy_value (ed_residency_policy (cx_demand context)))),
       (''gpu_topology'', JStr (gpu_topology_value (ed_gpu_topology (cx_demand context)))),
       (''gpu_count'', JInt (gpu_count (ws_resources (cx_worker context)))),
       (''gpu_layers'', lp_gpu_layers policy),
       (''split_mode'', JStr (split_mode_value (lp_split_mode policy))),
       (''fit'', lp_fit policy), (''tensor_split'', json_floats (lp_tensor_split policy)),
       (''cpu_moe'', lp_cpu_moe policy), (''n_cpu_moe'', lp_n_cpu_moe policy),
       (''n_cpu_ffn'', lp_n_cpu_ffn policy)] now)"

definition llama_server :: "'e env_ops \<Rightarrow> llama_runtime \<Rightarrow> 'e server" where
  "llama_server ops rt = \<lparr>
     sr_reachable = on_env (status_health ops),
     sr_process_start = llama_process_start ops rt,
     sr_available = on_env (alias_available ops (lr_model_alias rt)),
     sr_load = areturn (), sr_abandon = (\<lambda>s. s),
     sr_timeout = lr_timeout rt, sr_poll = 1 / 10, sr_grace = 10,
     sr_external = ''external llama.cpp process detected at managed endpoint'',
     sr_no_inventory = ''llama.cpp model inventory is unavailable'',
     sr_unavailable = ''configured llama.cpp model alias is unavailable'',
     sr_provider_id = llama_provider_id,
     sr_ready_metadata = [(''model'', JStr (lr_model_ref rt)), (''model_alias'', JStr (lr_model_alias rt))]\<rparr>"

section \<open>Compatibility\<close>

definition llama_vram_reasons :: "execution_demand \<Rightarrow> resource_shape \<Rightarrow> llama_policy \<Rightarrow> compatibility_reason list" where
  "llama_vram_reasons demand resources policy =
     (case md_estimated_size_mb (ed_model demand) of
        None \<Rightarrow> [blocking_reason ''model-size-required-for-vram-only''
          ''llama.cpp vram_only planning requires an estimated GGUF size'']
      | Some estimated \<Rightarrow>
          if ed_gpu_topology demand = SINGLE_GPU
          then only_if (estimated > max_single_gpu_vram_mb resources) (blocking_reason ''model-exceeds-single-gpu-vram''
            ''estimated GGUF size exceeds the selected single GPU VRAM'')
          else only_if (estimated > total_vram_mb resources) (blocking_reason ''model-exceeds-total-vram''
            ''estimated GGUF size exceeds Worker total VRAM'')) @
     only_if (lp_gpu_layers policy \<noteq> JStr ''all'' \<or> py_truthy (lp_fit policy))
       (blocking_reason ''vram-only-policy-overridden'' ''vram_only requires gpu_layers=all and fit=off'') @
     only_if (py_truthy (lp_cpu_moe policy) \<or> \<not> none_or_zero (lp_n_cpu_moe policy) \<or> \<not> none_or_zero (lp_n_cpu_ffn policy))
       (blocking_reason ''cpu-offload-conflicts-with-vram-only'' ''CPU FFN/MoE offload options conflict with vram_only'')"

definition llama_multi_reasons :: "resource_shape \<Rightarrow> llama_policy \<Rightarrow> compatibility_reason list" where
  "llama_multi_reasons resources policy =
     only_if (lp_split_mode policy = SPLIT_NONE) (blocking_reason ''multi-gpu-split-mode-invalid''
       ''multi_gpu requires a split mode other than none'') @
     only_if (case lp_tensor_split policy of None \<Rightarrow> False | Some xs \<Rightarrow> int (length xs) \<noteq> gpu_count resources)
       (blocking_reason ''tensor-split-length-mismatch'' ''tensor_split must contain one proportion per Worker GPU'') @
     only_if (case lp_fit_target_mb policy of None \<Rightarrow> False | Some xs \<Rightarrow> int (length xs) \<notin> {1, gpu_count resources})
       (blocking_reason ''fit-target-length-mismatch'' ''fit_target_mb must contain one value or one value per Worker GPU'') @
     (if lp_split_mode policy = SPLIT_TENSOR
      then [note_reason ''tensor-split-experimental'' ''llama.cpp split_mode=tensor is upstream experimental'']
      else only_if (lp_tensor_split policy = None) (note_reason ''heterogeneous-auto-fit''
        ''llama.cpp will fit/split across visible GPUs using its own device-memory information''))"

definition llama_topology_reasons :: "model_topology \<Rightarrow> llama_policy \<Rightarrow> compatibility_reason list" where
  "llama_topology_reasons topology policy = (case topology of
     DENSE \<Rightarrow> only_if (py_truthy (lp_cpu_moe policy) \<or> \<not> none_or_zero (lp_n_cpu_moe policy))
       (blocking_reason ''moe-offload-on-dense-model'' ''cpu_moe/n_cpu_moe are only valid for MoE models'')
   | MOE \<Rightarrow> only_if (\<not> none_or_zero (lp_n_cpu_ffn policy)) (blocking_reason ''dense-ffn-offload-on-moe-model''
       ''n_cpu_ffn is reserved for dense FFN offload; use cpu_moe/n_cpu_moe for MoE expert weights''))"

definition llama_hybrid_reasons :: "llama_config \<Rightarrow> runtime_context \<Rightarrow> llama_policy \<Rightarrow> compatibility_reason list" where
  "llama_hybrid_reasons config context policy =
     only_if (case md_estimated_size_mb (ed_model (cx_demand context)) of None \<Rightarrow> False
        | Some estimated \<Rightarrow> estimated > total_vram_mb (ws_resources (cx_worker context)) + hf_host_ram_mb (cx_host context))
       (blocking_reason ''model-exceeds-combined-memory''
         ''estimated GGUF size exceeds combined Worker VRAM and host RAM'') @
     only_if (lc_gpu_layers config = JNull \<and> \<not> py_truthy (lp_cpu_moe policy) \<and>
         lp_n_cpu_moe policy = JNull \<and> lp_n_cpu_ffn policy = JNull)
       (note_reason ''hybrid-offload-auto''
         ''llama.cpp will choose GPU layer placement automatically; set provider offload options for an explicit partition'')"

definition llama_compatibility :: "llama_config \<Rightarrow> runtime_context \<Rightarrow> runtime_compatibility res" where
  "llama_compatibility config context = (let demand = cx_demand context; model = ed_model demand;
     resources = ws_resources (cx_worker context); topology = ed_gpu_topology demand;
     policy = llama_launch_policy context config in
     mk_runtime_compatibility llama_provider_id (
       only_if (md_model_format model \<noteq> ''gguf'') (blocking_reason ''model-format-unsupported''
         ''llama.cpp provider requires model_format=gguf'') @
       (if ed_residency_policy demand = VRAM_ONLY then llama_vram_reasons demand resources policy else []) @
       only_if (topology \<noteq> MULTI_GPU \<and> lp_tensor_split policy \<noteq> None)
         (blocking_reason ''tensor-split-requires-multi-gpu'' ''tensor_split is only valid for multi_gpu execution'') @
       only_if (gpu_count resources > 0 \<and> lp_split_mode policy \<in> {SPLIT_NONE, SPLIT_ROW} \<and>
           num_at_least (lp_main_gpu policy) (gpu_count resources))
         (blocking_reason ''main-gpu-outside-visible-set'' ''main_gpu must refer to a GPU inside the Worker-visible set'') @
       only_if (topology = SINGLE_GPU \<and> lp_split_mode policy \<noteq> SPLIT_NONE)
         (blocking_reason ''single-gpu-split-mode-invalid'' ''single_gpu requires split_mode=none'') @
       (if topology = MULTI_GPU then llama_multi_reasons resources policy else []) @
       only_if (topology = TOPO_NONE \<and> lc_tensor_split config \<noteq> None)
         (blocking_reason ''cpu-only-tensor-split-invalid'' ''CPU-only execution cannot use tensor_split'') @
       llama_topology_reasons (md_topology model) policy @
       (if ed_residency_policy demand = CPU_GPU_HYBRID then llama_hybrid_reasons config context policy else [])))"

section \<open>Setup intent and runtime\<close>

definition llama_configuration :: "llama_config \<Rightarrow> runtime_context \<Rightarrow> obj" where
  "llama_configuration config context = (let policy = llama_launch_policy context config in [
     (''base_url'', JStr (lc_base_url config)), (''executable'', JStr (lc_executable config)),
     (''model_ref'', JStr (md_model_ref (ed_model (cx_demand context)))),
     (''model_alias'', JStr ''astrumweaver''), (''context_size'', lc_context_size config),
     (''gpu_uuids'', jstrs (ws_gpu_uuids (cx_worker context))),
     (''gpu_layers'', lp_gpu_layers policy), (''split_mode'', JStr (split_mode_value (lp_split_mode policy))),
     (''tensor_split'', json_floats (lp_tensor_split policy)), (''main_gpu'', lp_main_gpu policy),
     (''fit'', lp_fit policy), (''fit_target_mb'', json_ints (lp_fit_target_mb policy)),
     (''cpu_moe'', lp_cpu_moe policy), (''n_cpu_moe'', lp_n_cpu_moe policy), (''n_cpu_ffn'', lp_n_cpu_ffn policy),
     (''offline'', lc_offline config), (''no_webui'', lc_no_webui config),
     (''capabilities'', jstrs served_capabilities)])"

definition llama_setup_intent :: "llama_config \<Rightarrow> runtime_context \<Rightarrow> runtime_setup_intent res" where
  "llama_setup_intent config context = rbind (llama_compatibility config context) (\<lambda>report.
     if \<not> compatible report then Inl (RuntimeError (Inconsistent ''execution demand''))
     else mk_runtime_setup_intent llama_provider_id [lc_package_reference config]
       (llama_configuration config context) ''reference_only''
       (JStr (md_model_ref (ed_model (cx_demand context)))) True
       [(''runtime_provider'', JStr llama_provider_id)])"

text \<open>The launch policy read from the configuration of an intent.\<close>

definition llama_configured_policy :: "llama_config \<Rightarrow> runtime_context \<Rightarrow> obj \<Rightarrow> llama_policy res" where
  "llama_configured_policy config context cfg = (let planned = llama_launch_policy context config in
     rbind (rbind (cfg_text cfg ''split_mode'' (split_mode_value (lp_split_mode planned))) split_mode_of) (\<lambda>mode.
     rbind (cfg_list py_float_of cfg ''tensor_split'') (\<lambda>tensor.
     rbind (cfg_list py_int cfg ''fit_target_mb'') (\<lambda>targets.
     rbind (py_int (cfg_get cfg ''main_gpu'' (lc_main_gpu config))) (\<lambda>main.
     rbind (cfg_opt py_int cfg ''n_cpu_moe'') (\<lambda>moe.
     rbind (cfg_opt py_int cfg ''n_cpu_ffn'') (\<lambda>ffn.
       Inr \<lparr>lp_gpu_layers = cfg_get cfg ''gpu_layers'' (lp_gpu_layers planned), lp_split_mode = mode,
            lp_fit = JBool (py_truthy (cfg_get cfg ''fit'' (lp_fit planned))),
            lp_tensor_split = tensor, lp_fit_target_mb = targets, lp_main_gpu = JInt main,
            lp_cpu_moe = JBool (py_truthy (cfg_get cfg ''cpu_moe'' (lc_cpu_moe config))),
            lp_n_cpu_moe = json_option JInt moe, lp_n_cpu_ffn = json_option JInt ffn\<rparr>)))))))"

definition llama_create_runtime ::
  "llama_config \<Rightarrow> runtime_context \<Rightarrow> runtime_setup_intent \<Rightarrow> llama_runtime res" where
  "llama_create_runtime config context setup =
     (if si_provider_id setup \<noteq> llama_provider_id then Inl (ValueError (Inconsistent ''provider_id''))
      else rbind (llama_compatibility config context) (\<lambda>report.
        if \<not> compatible report then Inl (RuntimeError (Inconsistent ''execution demand''))
        else let cfg = si_configuration setup in
          rbind (cfg_text cfg ''base_url'' (lc_base_url config)) (\<lambda>base_url.
          rbind (cfg_text cfg ''model_ref'' (md_model_ref (ed_model (cx_demand context)))) (\<lambda>model_ref.
          rbind (cfg_text cfg ''model_alias'' ''astrumweaver'') (\<lambda>model_alias.
          rbind (cfg_text cfg ''executable'' (lc_executable config)) (\<lambda>executable.
          rbind (llama_configured_policy config context cfg) (\<lambda>policy.
          rbind (py_int (cfg_get cfg ''context_size'' (lc_context_size config))) (\<lambda>context_size.
          rbind (number_value (lc_startup_timeout_seconds config)) (\<lambda>timeout.
          rbind (runtime_nonblank model_ref ''model_ref'') (\<lambda>_.
          rbind (runtime_nonblank model_alias ''model_alias'') (\<lambda>_.
            Inr \<lparr>lr_context = context, lr_model_ref = model_ref, lr_model_alias = model_alias,
                 lr_base_url = base_url, lr_executable = executable, lr_context_size = context_size,
                 lr_policy = policy, lr_offline = py_truthy (cfg_get cfg ''offline'' (lc_offline config)),
                 lr_no_webui = py_truthy (cfg_get cfg ''no_webui'' (lc_no_webui config)),
                 lr_timeout = timeout\<rparr>)))))))))))"

section \<open>Lemmas\<close>

interpretation llama: owned_server ops "llama_server ops rt" for ops rt
  by (rule oai_owned_server [where p = "status_health ops"])
    (simp_all add: llama_server_def llama_process_start_def status_health_time)

lemma split_mode_of_value [simp]: "split_mode_of (split_mode_value m) = Inr m"
  by (cases m) (simp_all add: split_mode_of_def enum_of_def)

lemma split_mode_value_nonempty [simp]: "split_mode_value m \<noteq> []"
  by (cases m) simp_all

text \<open>Configuration values of the annotated types; the code does not check all of them.\<close>

definition llama_typed :: "llama_config \<Rightarrow> bool" where
  "llama_typed c \<longleftrightarrow> (lc_fit c = JNull \<or> (\<exists>b. lc_fit c = JBool b)) \<and> (\<exists>n. lc_main_gpu c = JInt n) \<and>
     (\<exists>b. lc_cpu_moe c = JBool b) \<and> int_or_none (lc_n_cpu_moe c) \<and> int_or_none (lc_n_cpu_ffn c) \<and>
     (\<exists>n. lc_context_size c = JInt n)"

lemma llama_configured_policy_own:
  assumes "llama_typed config"
  shows "llama_configured_policy config context (llama_configuration config context) =
    Inr (llama_launch_policy context config)"
proof -
  let ?p = "llama_launch_policy context config" and ?cfg = "llama_configuration config context"
  have keys: "dict_get ?cfg ''tensor_split'' = Some (json_floats (lp_tensor_split ?p))"
    "dict_get ?cfg ''fit_target_mb'' = Some (json_ints (lp_fit_target_mb ?p))"
    "dict_get ?cfg ''n_cpu_moe'' = Some (lp_n_cpu_moe ?p)" "dict_get ?cfg ''n_cpu_ffn'' = Some (lp_n_cpu_ffn ?p)"
    "dict_get ?cfg ''split_mode'' = Some (JStr (split_mode_value (lp_split_mode ?p)))"
    "dict_get ?cfg ''main_gpu'' = Some (lp_main_gpu ?p)" "dict_get ?cfg ''fit'' = Some (lp_fit ?p)"
    "dict_get ?cfg ''cpu_moe'' = Some (lp_cpu_moe ?p)" "dict_get ?cfg ''gpu_layers'' = Some (lp_gpu_layers ?p)"
    by (simp_all add: llama_configuration_def Let_def)
  have typed: "int_or_none (lp_n_cpu_moe ?p)" "int_or_none (lp_n_cpu_ffn ?p)"
    using assms by (auto simp: llama_typed_def llama_launch_policy_def Let_def)
  have "\<exists>n. lp_main_gpu ?p = JInt n" "\<exists>c. lp_cpu_moe ?p = JBool c" "\<exists>f. lp_fit ?p = JBool f"
    using assms by (auto simp: llama_typed_def llama_launch_policy_def Let_def)
  then obtain n c f where ncf: "lp_main_gpu ?p = JInt n" "lp_cpu_moe ?p = JBool c" "lp_fit ?p = JBool f" by blast
  obtain a where a: "cfg_opt py_int ?cfg ''n_cpu_moe'' = Inr a" "json_option JInt a = lp_n_cpu_moe ?p"
    using cfg_opt_int [OF keys(3) typed(1)] .
  obtain b where b: "cfg_opt py_int ?cfg ''n_cpu_ffn'' = Inr b" "json_option JInt b = lp_n_cpu_ffn ?p"
    using cfg_opt_int [OF keys(4) typed(2)] .
  show ?thesis
    unfolding llama_configured_policy_def cfg_text_def json_get_def cfg_get_def keys Let_def
      json_floats_read [OF keys(1)] json_ints_read [OF keys(2)]
    by (simp add: a b ncf)
qed

lemma llama_provider_norm: "norm_text llama_provider_id"
  by (simp add: llama_provider_id_def norm_text_def py_strip_def is_space_def)

lemma mk_llama_config_texts:
  assumes "mk_llama_config given = Inr config"
  shows "lc_base_url config \<noteq> [] \<and> norm_text (lc_executable config) \<and>
    (\<exists>t. number_value (lc_startup_timeout_seconds config) = Inr t)"
  using assms unfolding mk_llama_config_def rbind_eq_Inr
  by (auto dest: loopback_endpoint_nonempty text_arg_Inr positive_arg_Inr)

lemma llama_intent_runtime:
  assumes "mk_llama_config given = Inr config" "llama_setup_intent config context = Inr setup"
    and "norm_text (md_model_ref (ed_model (cx_demand context)))" "llama_typed config"
  shows "\<exists>rt. llama_create_runtime config context setup = Inr rt \<and> lr_context rt = context \<and>
    lr_policy rt = llama_launch_policy context config \<and> lr_model_ref rt = md_model_ref (ed_model (cx_demand context)) \<and>
    lr_base_url rt = lc_base_url config \<and> lr_executable rt = lc_executable config"
proof -
  from assms(2) obtain report where r: "llama_compatibility config context = Inr report" "compatible report"
    and s: "si_provider_id setup = llama_provider_id" "si_configuration setup = llama_configuration config context"
    using mk_setup_intent_Inr [OF _ llama_provider_norm]
    by (auto simp: llama_setup_intent_def rbind_eq_Inr split: if_splits)
  from mk_llama_config_texts [OF assms(1)] obtain t where c: "lc_base_url config \<noteq> []" "lc_executable config \<noteq> []"
    "number_value (lc_startup_timeout_seconds config) = Inr t" by (auto simp: norm_text_def)
  have ref: "md_model_ref (ed_model (cx_demand context)) \<noteq> []" using assms(3) by (auto simp: norm_text_def)
  obtain n where n: "lc_context_size config = JInt n" using assms(4) by (auto simp: llama_typed_def)
  let ?cfg = "llama_configuration config context"
  have keys: "json_get ?cfg ''base_url'' = JStr (lc_base_url config)" "json_get ?cfg ''executable'' = JStr (lc_executable config)"
    "json_get ?cfg ''model_ref'' = JStr (md_model_ref (ed_model (cx_demand context)))"
    "json_get ?cfg ''model_alias'' = JStr ''astrumweaver''" "dict_get ?cfg ''context_size'' = Some (JInt n)"
    using n by (simp_all add: llama_configuration_def json_get_def Let_def)
  have nick: "runtime_nonblank ''astrumweaver'' f = Inr ''astrumweaver''" for f
    by (simp add: runtime_nonblank_def py_strip_def is_space_def)
  show ?thesis
    using r s c ref keys assms(3) nick
      llama_configured_policy_own [OF assms(4)]
    by (simp add: llama_create_runtime_def cfg_text_def cfg_get_def Let_def)
qed

text \<open>What an accepted VRAM-only demand means for the policy and the memory.\<close>

lemma llama_vram_only:
  assumes "llama_compatibility config context = Inr report" "compatible report"
    and "ed_residency_policy (cx_demand context) = VRAM_ONLY"
  shows "let p = llama_launch_policy context config; resources = ws_resources (cx_worker context) in
    lp_gpu_layers p = JStr ''all'' \<and> \<not> py_truthy (lp_fit p) \<and> \<not> py_truthy (lp_cpu_moe p) \<and>
    none_or_zero (lp_n_cpu_moe p) \<and> none_or_zero (lp_n_cpu_ffn p) \<and>
    (\<exists>n. md_estimated_size_mb (ed_model (cx_demand context)) = Some n \<and>
      n \<le> (if ed_gpu_topology (cx_demand context) = SINGLE_GPU then max_single_gpu_vram_mb resources
           else total_vram_mb resources))"
proof -
  let ?r = "llama_vram_reasons (cx_demand context) (ws_resources (cx_worker context)) (llama_launch_policy context config)"
  have "\<not> list_ex cr_blocking ?r"
    using assms by (auto simp: llama_compatibility_def mk_runtime_compatibility_def compatible_def rbind_eq_Inr Let_def)
  then show ?thesis
    by (auto simp: llama_vram_reasons_def Let_def split: option.splits if_splits)
qed

end
