(* ===== verification/Provider_Vllm.thy ===== *)
theory Provider_Vllm
  imports Provider_Api "HOL-Library.Log_Nat"
begin

text \<open>
  \<open>src/src/astrumweaver/runtime/providers/vllm.py\<close>: configuration, launch policy, command line,
  executor, managed runtime, compatibility report with its memory budget in double precision, setup
  intent and the runtime built from an intent.
\<close>

section \<open>Products in double precision\<close>

text \<open>
  Rounding to the nearest double, ties to even, of a non-negative number: the number is scaled by a
  power of two to 53 bits. Only the integer part of a product is used, so neither numbers too small
  for that precision nor overflow matter here: operands above \<open>2\<^sup>5\<^sup>3\<close> are not modelled.
\<close>

definition round_even :: "rat \<Rightarrow> int" where
  "round_even x = (let f = \<lfloor>x\<rfloor>; d = x - of_int f in
     if d < 1 / 2 then f else if 1 / 2 < d then f + 1 else if even f then f else f + 1)"

definition ulp_exponent :: "rat \<Rightarrow> int" where
  "ulp_exponent q = (if 1 \<le> q then int (floorlog 2 (nat \<lfloor>q\<rfloor>)) - 53
     else - int (floorlog 2 (nat \<lceil>1 / q\<rceil> - 1)) - 52)"

definition scale2 :: "int \<Rightarrow> rat \<Rightarrow> rat" where
  "scale2 e q = (if 0 \<le> e then q * 2 ^ nat e else q / 2 ^ nat (- e))"

definition round_double :: "rat \<Rightarrow> rat" where
  "round_double q = (if q \<le> 0 then 0 else
     let e = ulp_exponent q in scale2 e (of_int (round_even (scale2 (- e) q))))"

text \<open>\<open>int(n * x)\<close> for an integer and a number between 0 and 1.\<close>

definition int_product :: "int \<Rightarrow> json \<Rightarrow> int res" where
  "int_product n x = (case x of
     JInt m \<Rightarrow> Inr (n * m)
   | JBool b \<Rightarrow> Inr (if b then n else 0)
   | JFloat (Finite q) \<Rightarrow> if 0 \<le> n \<and> n < 2 ^ 53 then Inr \<lfloor>round_double (of_int n * q)\<rfloor> else Inl Unmodelled
   | _ \<Rightarrow> Inl Unmodelled)"

text \<open>\<open>int(x * 1024)\<close>: a power of two does not round.\<close>

definition int_of_gib :: "json \<Rightarrow> int res" where
  "int_of_gib x = (case x of
     JInt m \<Rightarrow> Inr (m * 1024)
   | JBool b \<Rightarrow> Inr (if b then 1024 else 0)
   | JFloat (Finite q) \<Rightarrow> py_int (JFloat (Finite (q * 1024)))
   | JFloat f \<Rightarrow> py_int (JFloat f)
   | _ \<Rightarrow> Inl Unmodelled)"

text \<open>\<open>x > n\<close> for a number.\<close>

definition num_above :: "json \<Rightarrow> int \<Rightarrow> bool" where
  "num_above v n = (case number_value v of Inr (Finite q) \<Rightarrow> of_int n < q | Inr Pos_Inf \<Rightarrow> True | _ \<Rightarrow> False)"

section \<open>Configuration\<close>

definition vllm_provider_id :: string where
  "vllm_provider_id = ''vllm''"

definition vllm_model_formats :: "string list" where
  "vllm_model_formats = [''huggingface'', ''hf'', ''safetensors'', ''vllm'']"

record vllm_config =
  vc_base_url :: string
  vc_executable :: string
  vc_package_reference :: string
  vc_startup_timeout_seconds :: json
  vc_request_timeout_seconds :: json
  vc_served_model_name :: string
  vc_gpu_memory_utilization :: json
  vc_tensor_parallel_size :: json
  vc_enable_expert_parallel :: json
  vc_cpu_offload_gb :: json
  vc_generation_config :: string
  vc_trust_remote_code :: json
  vc_enforce_eager :: json

definition vllm_defaults :: obj where
  "vllm_defaults = [(''base_url'', JStr ''http://127.0.0.1:8000''), (''executable'', JStr ''vllm''),
     (''package_reference'', JStr ''vllm''), (''startup_timeout_seconds'', JFloat (Finite 180)),
     (''request_timeout_seconds'', JFloat (Finite 300)), (''served_model_name'', JStr ''astrumweaver''),
     (''gpu_memory_utilization'', JFloat (Finite (8286623314361713 / 9007199254740992))),
     (''tensor_parallel_size'', JNull), (''enable_expert_parallel'', JNull),
     (''cpu_offload_gb'', JFloat (Finite 0)), (''generation_config'', JStr ''vllm''),
     (''trust_remote_code'', JBool False), (''enforce_eager'', JBool False)]"

definition mk_vllm_config :: "obj \<Rightarrow> vllm_config res" where
  "mk_vllm_config given = rbind (dataclass_args vllm_defaults given) (\<lambda>d.
     rbind (rbind (py_str (json_get d ''base_url'')) loopback_endpoint) (\<lambda>base.
     rbind (text_arg d ''executable'') (\<lambda>ex.
     rbind (text_arg d ''package_reference'') (\<lambda>pkg.
     rbind (text_arg d ''served_model_name'') (\<lambda>served.
     rbind (text_arg d ''generation_config'') (\<lambda>generation.
     rbind (positive_arg d ''startup_timeout_seconds'') (\<lambda>startup.
     rbind (positive_arg d ''request_timeout_seconds'') (\<lambda>request.
     rbind (fraction_arg d ''gpu_memory_utilization'') (\<lambda>utilization.
     rbind (optional_arg positive_arg d ''tensor_parallel_size'') (\<lambda>tp.
     rbind (nonnegative_arg d ''cpu_offload_gb'') (\<lambda>offload.
       Inr \<lparr>vc_base_url = base, vc_executable = ex, vc_package_reference = pkg,
            vc_startup_timeout_seconds = startup, vc_request_timeout_seconds = request,
            vc_served_model_name = served, vc_gpu_memory_utilization = utilization,
            vc_tensor_parallel_size = tp, vc_enable_expert_parallel = json_get d ''enable_expert_parallel'',
            vc_cpu_offload_gb = offload, vc_generation_config = generation,
            vc_trust_remote_code = json_get d ''trust_remote_code'',
            vc_enforce_eager = json_get d ''enforce_eager''\<rparr>)))))))))))"

section \<open>Launch policy and command\<close>

record vllm_policy =
  vp_tensor_parallel_size :: json
  vp_enable_expert_parallel :: json
  vp_gpu_memory_utilization :: json
  vp_cpu_offload_gb :: json
  vp_device_ids :: "string list"

definition vllm_launch_policy :: "runtime_context \<Rightarrow> vllm_config \<Rightarrow> vllm_policy" where
  "vllm_launch_policy context config = (let demand = cx_demand context in
     \<lparr>vp_tensor_parallel_size =
        (if vc_tensor_parallel_size config \<noteq> JNull then vc_tensor_parallel_size config
         else if ed_gpu_topology demand = MULTI_GPU then JInt (gpu_count (ws_resources (cx_worker context))) else JInt 1),
      vp_enable_expert_parallel =
        (if vc_enable_expert_parallel config = JNull
         then JBool (md_topology (ed_model demand) = MOE \<and> ed_gpu_topology demand = MULTI_GPU)
         else vc_enable_expert_parallel config),
      vp_gpu_memory_utilization = vc_gpu_memory_utilization config,
      vp_cpu_offload_gb = vc_cpu_offload_gb config,
      vp_device_ids = ws_gpu_uuids (cx_worker context)\<rparr>)"

record vllm_runtime =
  vr_context :: runtime_context
  vr_model_ref :: string
  vr_served_model_name :: string
  vr_base_url :: string
  vr_executable :: string
  vr_policy :: vllm_policy
  vr_generation_config :: string
  vr_trust_remote_code :: bool
  vr_enforce_eager :: bool
  vr_timeout :: py_float

definition vllm_command :: "vllm_runtime \<Rightarrow> cmd_arg list res" where
  "vllm_command rt = (let policy = vr_policy rt in
     rbind (endpoint_args (vr_base_url rt)) (\<lambda>(host, port).
     rbind (json_word (vp_gpu_memory_utilization policy)) (\<lambda>utilization.
     rbind (json_word (vp_tensor_parallel_size policy)) (\<lambda>tp.
     rbind (json_word (vp_cpu_offload_gb policy)) (\<lambda>offload.
       Inr ([Word (vr_executable rt), Word ''serve'', Word (vr_model_ref rt), Word ''--host'', Word host,
         Word ''--port'', Word (int_text port), Word ''--served-model-name'', Word (vr_served_model_name rt),
         Word ''--generation-config'', Word (vr_generation_config rt),
         Word ''--gpu-memory-utilization'', utilization] @
         (if vp_device_ids policy = [] then []
          else [Word ''--device-ids'', Word (py_join '','' (vp_device_ids policy))]) @
         (if num_above (vp_tensor_parallel_size policy) 1
          then [Word ''--tensor-parallel-size'', tp, Word ''--distributed-executor-backend'', Word ''mp''] else []) @
         only_if (py_truthy (vp_enable_expert_parallel policy)) (Word ''--enable-expert-parallel'') @
         (if num_above (vp_cpu_offload_gb policy) 0 then [Word ''--cpu-offload-gb'', offload] else []) @
         only_if (vr_trust_remote_code rt) (Word ''--trust-remote-code'') @
         only_if (vr_enforce_eager rt) (Word ''--enforce-eager'')))))))"

section \<open>Executor and managed runtime\<close>

definition vllm_execute :: "'e env_ops \<Rightarrow> vllm_runtime \<Rightarrow> job_request \<Rightarrow> ('e, job_result) act" where
  "vllm_execute ops rt = oai_execute ops vllm_provider_id (py_strip (vr_model_ref rt)) ''served_model_name''
     (py_strip (vr_served_model_name rt))"

definition vllm_residency :: "vllm_runtime \<Rightarrow> py_datetime \<Rightarrow> residency_report res" where
  "vllm_residency rt now = (let context = vr_context rt; policy = vr_policy rt in
     static_residency vllm_provider_id (py_strip (vr_model_ref rt)) ''vllm-model'' None [
       (''residency_policy'', JStr (residency_policy_value (ed_residency_policy (cx_demand context)))),
       (''gpu_topology'', JStr (gpu_topology_value (ed_gpu_topology (cx_demand context)))),
       (''gpu_count'', JInt (gpu_count (ws_resources (cx_worker context)))),
       (''tensor_parallel_size'', vp_tensor_parallel_size policy),
       (''expert_parallel'', vp_enable_expert_parallel policy),
       (''gpu_memory_utilization'', vp_gpu_memory_utilization policy),
       (''cpu_offload_gb_per_gpu'', vp_cpu_offload_gb policy),
       (''device_ids'', jstrs (vp_device_ids policy))] now)"

definition vllm_server :: "'e env_ops \<Rightarrow> vllm_runtime \<Rightarrow> 'e server" where
  "vllm_server ops rt = \<lparr>
     sr_reachable = on_env (status_health ops),
     sr_process_start = process_start ops (vllm_command rt) None,
     sr_available = on_env (alias_available ops (vr_served_model_name rt)),
     sr_load = areturn (), sr_abandon = (\<lambda>s. s),
     sr_timeout = vr_timeout rt, sr_poll = 1 / 5, sr_grace = 15,
     sr_external = ''external vLLM process detected at managed endpoint'',
     sr_no_inventory = ''vLLM model inventory is unavailable'',
     sr_unavailable = ''configured vLLM model alias is unavailable'',
     sr_provider_id = vllm_provider_id,
     sr_ready_metadata = [(''model'', JStr (vr_model_ref rt)), (''served_model_name'', JStr (vr_served_model_name rt))]\<rparr>"

section \<open>Compatibility\<close>

text \<open>The devices of a multi-GPU worker must be known and alike.\<close>

definition all_alike :: "'a list \<Rightarrow> bool" where
  "all_alike xs \<longleftrightarrow> length (remdups xs) = 1"

definition vllm_device_reasons :: "accelerator_device list \<Rightarrow> compatibility_reason list" where
  "vllm_device_reasons devices =
     only_if (\<not> all_alike (map ad_memory_mb devices)) (blocking_reason ''heterogeneous-vram-unsupported''
       ''vLLM multi-GPU v0.x requires equal per-device VRAM capacity'') @
     only_if (None \<in> set (map ad_compute_capability devices) \<or> \<not> all_alike (map ad_compute_capability devices))
       (blocking_reason ''heterogeneous-compute-capability-unsupported''
         ''vLLM homogeneous multi-GPU validation requires the same known compute capability on every GPU'') @
     only_if (None \<in> set (map ad_device_class devices) \<or> \<not> all_alike (map ad_device_class devices))
       (blocking_reason ''heterogeneous-device-class-unsupported''
         ''vLLM homogeneous multi-GPU validation requires the same known device class on every GPU'')"

definition vllm_topology_reasons :: "worker_spec \<Rightarrow> gpu_topology \<Rightarrow> vllm_policy \<Rightarrow> compatibility_reason list" where
  "vllm_topology_reasons worker topology policy = (case topology of
     TOPO_NONE \<Rightarrow> [blocking_reason ''gpu-required'' ''first-class vLLM provider currently targets GPU Workers'']
   | SINGLE_GPU \<Rightarrow> only_if (\<not> py_eq (vp_tensor_parallel_size policy) (JInt 1))
       (blocking_reason ''tensor-parallel-size-mismatch'' ''single_gpu execution requires tensor_parallel_size=1'')
   | MULTI_GPU \<Rightarrow>
       only_if (\<not> py_eq (vp_tensor_parallel_size policy) (JInt (gpu_count (ws_resources worker))))
         (blocking_reason ''tensor-parallel-size-mismatch'' ''multi_gpu vLLM must use every GPU owned by the Worker'') @
       (if int (length (ws_accelerators worker)) \<noteq> gpu_count (ws_resources worker)
        then [blocking_reason ''accelerator-facts-required''
          ''vLLM homogeneous multi-GPU validation requires per-device accelerator facts for every Worker GPU'']
        else vllm_device_reasons (ws_accelerators worker)))"

definition vllm_expert_reasons :: "execution_demand \<Rightarrow> resource_shape \<Rightarrow> vllm_policy \<Rightarrow> compatibility_reason list" where
  "vllm_expert_reasons demand resources policy = (if \<not> py_truthy (vp_enable_expert_parallel policy) then [] else
     only_if (md_topology (ed_model demand) \<noteq> MOE) (blocking_reason ''expert-parallel-requires-moe''
       ''expert parallelism is only valid for MoE models'') @
     only_if (gpu_count resources < 2) (blocking_reason ''expert-parallel-requires-multi-gpu''
       ''expert parallelism requires a multi-GPU Worker'') @
     only_if (md_topology (ed_model demand) = MOE \<and> ed_gpu_topology demand = MULTI_GPU)
       (note_reason ''expert-parallel-enabled'' ''vLLM expert parallelism will be enabled for MoE layers''))"

definition vllm_offload_reasons :: "execution_demand \<Rightarrow> vllm_policy \<Rightarrow> compatibility_reason list" where
  "vllm_offload_reasons demand policy = (let offload = vp_cpu_offload_gb policy in
     case ed_residency_policy demand of
       VRAM_ONLY \<Rightarrow>
         only_if (num_above offload 0) (blocking_reason ''cpu-offload-conflicts-with-vram-only''
           ''vram_only cannot use vLLM CPU weight offload'') @
         only_if (md_estimated_size_mb (ed_model demand) = None) (blocking_reason ''model-size-required-for-vram-only''
           ''vLLM vram_only planning requires estimated model size'')
     | CPU_GPU_HYBRID \<Rightarrow>
         (if (case number_value offload of Inr x \<Rightarrow> not_above_zero x | Inl _ \<Rightarrow> False)
          then [blocking_reason ''cpu-offload-not-configured'' ''vLLM cpu_gpu_hybrid requires explicit cpu_offload_gb'']
          else [note_reason ''cpu-offload-interconnect-sensitive''
            ''vLLM CPU weight offload transfers model data on forward passes and benefits from a fast CPU-GPU interconnect''])
     | PREFER_VRAM \<Rightarrow> [])"

text \<open>The memory the estimated size must fit in: VRAM times utilisation, and the offload.\<close>

definition vllm_budget :: "resource_shape \<Rightarrow> vllm_policy \<Rightarrow> int \<Rightarrow> int res" where
  "vllm_budget resources policy offload_total_mb =
     rbind (int_product (total_vram_mb resources) (vp_gpu_memory_utilization policy)) (\<lambda>vram. Inr (vram + offload_total_mb))"

definition vllm_budget_reasons :: "execution_demand \<Rightarrow> resource_shape \<Rightarrow> vllm_policy \<Rightarrow> int \<Rightarrow> compatibility_reason list res" where
  "vllm_budget_reasons demand resources policy offload_total_mb =
     (case md_estimated_size_mb (ed_model demand) of
        None \<Rightarrow> Inr []
      | Some estimated \<Rightarrow>
          if gpu_count resources > 0
          then rbind (vllm_budget resources policy offload_total_mb) (\<lambda>budget.
            Inr (only_if (estimated > budget) (blocking_reason ''model-exceeds-effective-memory-budget''
              ''estimated model size exceeds configured vLLM VRAM plus CPU-offload budget'')))
          else Inr [])"

definition vllm_compatibility :: "vllm_config \<Rightarrow> runtime_context \<Rightarrow> runtime_compatibility res" where
  "vllm_compatibility config context = (let demand = cx_demand context; worker = cx_worker context;
     resources = ws_resources worker; policy = vllm_launch_policy context config in
     rbind (int_of_gib (vp_cpu_offload_gb policy)) (\<lambda>per_gpu. let offload_total_mb = per_gpu * max (gpu_count resources) 1 in
     rbind (vllm_budget_reasons demand resources policy offload_total_mb) (\<lambda>budget_reasons.
     mk_runtime_compatibility vllm_provider_id (
       only_if (md_model_format (ed_model demand) \<notin> set vllm_model_formats) (blocking_reason ''model-format-unsupported''
         ''vLLM provider requires a Hugging Face/safetensors compatible model reference'') @
       vllm_topology_reasons worker (ed_gpu_topology demand) policy @
       vllm_expert_reasons demand resources policy @
       only_if (num_above (vp_cpu_offload_gb policy) 0 \<and> offload_total_mb > hf_host_ram_mb (cx_host context))
         (blocking_reason ''cpu-offload-exceeds-host-ram'' ''configured vLLM CPU offload exceeds available host RAM'') @
       vllm_offload_reasons demand policy @
       budget_reasons))))"

section \<open>Setup intent and runtime\<close>

definition vllm_configuration :: "vllm_config \<Rightarrow> runtime_context \<Rightarrow> obj" where
  "vllm_configuration config context = (let policy = vllm_launch_policy context config in [
     (''base_url'', JStr (vc_base_url config)), (''executable'', JStr (vc_executable config)),
     (''model_ref'', JStr (md_model_ref (ed_model (cx_demand context)))),
     (''served_model_name'', JStr (vc_served_model_name config)),
     (''gpu_uuids'', jstrs (ws_gpu_uuids (cx_worker context))),
     (''tensor_parallel_size'', vp_tensor_parallel_size policy),
     (''enable_expert_parallel'', vp_enable_expert_parallel policy),
     (''gpu_memory_utilization'', vp_gpu_memory_utilization policy), (''cpu_offload_gb'', vp_cpu_offload_gb policy),
     (''generation_config'', JStr (vc_generation_config config)),
     (''trust_remote_code'', vc_trust_remote_code config), (''enforce_eager'', vc_enforce_eager config),
     (''capabilities'', jstrs served_capabilities)])"

definition vllm_setup_intent :: "vllm_config \<Rightarrow> runtime_context \<Rightarrow> runtime_setup_intent res" where
  "vllm_setup_intent config context = rbind (vllm_compatibility config context) (\<lambda>report.
     if \<not> compatible report then Inl (RuntimeError (Inconsistent ''execution demand''))
     else mk_runtime_setup_intent vllm_provider_id [vc_package_reference config]
       (vllm_configuration config context) (model_preparation (md_model_ref (ed_model (cx_demand context))))
       (JStr (md_model_ref (ed_model (cx_demand context)))) True
       [(''runtime_provider'', JStr vllm_provider_id)])"

definition vllm_configured_policy :: "vllm_config \<Rightarrow> runtime_context \<Rightarrow> obj \<Rightarrow> vllm_policy res" where
  "vllm_configured_policy config context cfg = (let planned = vllm_launch_policy context config in
     rbind (py_int (cfg_get cfg ''tensor_parallel_size'' (vp_tensor_parallel_size planned))) (\<lambda>tp.
     rbind (py_float_of (cfg_get cfg ''gpu_memory_utilization'' (vc_gpu_memory_utilization config))) (\<lambda>utilization.
     rbind (py_float_of (cfg_get cfg ''cpu_offload_gb'' (vc_cpu_offload_gb config))) (\<lambda>offload.
       Inr \<lparr>vp_tensor_parallel_size = JInt tp,
            vp_enable_expert_parallel =
              JBool (py_truthy (cfg_get cfg ''enable_expert_parallel'' (vp_enable_expert_parallel planned))),
            vp_gpu_memory_utilization = JFloat utilization, vp_cpu_offload_gb = JFloat offload,
            vp_device_ids = ws_gpu_uuids (cx_worker context)\<rparr>))))"

definition vllm_create_runtime ::
  "vllm_config \<Rightarrow> runtime_context \<Rightarrow> runtime_setup_intent \<Rightarrow> vllm_runtime res" where
  "vllm_create_runtime config context setup =
     (if si_provider_id setup \<noteq> vllm_provider_id then Inl (ValueError (Inconsistent ''provider_id''))
      else rbind (vllm_compatibility config context) (\<lambda>report.
        if \<not> compatible report then Inl (RuntimeError (Inconsistent ''execution demand''))
        else let cfg = si_configuration setup in
          rbind (cfg_text cfg ''base_url'' (vc_base_url config)) (\<lambda>base_url.
          rbind (cfg_text cfg ''model_ref'' (md_model_ref (ed_model (cx_demand context)))) (\<lambda>model_ref.
          rbind (cfg_text cfg ''served_model_name'' (vc_served_model_name config)) (\<lambda>served.
          rbind (cfg_text cfg ''executable'' (vc_executable config)) (\<lambda>executable.
          rbind (vllm_configured_policy config context cfg) (\<lambda>policy.
          rbind (py_str (cfg_get cfg ''generation_config'' (JStr (vc_generation_config config)))) (\<lambda>generation.
          rbind (number_value (vc_startup_timeout_seconds config)) (\<lambda>timeout.
          rbind (runtime_nonblank model_ref ''model_ref'') (\<lambda>_.
          rbind (runtime_nonblank served ''served_model_name'') (\<lambda>_.
            Inr \<lparr>vr_context = context, vr_model_ref = model_ref, vr_served_model_name = served,
                 vr_base_url = base_url, vr_executable = executable, vr_policy = policy,
                 vr_generation_config = generation,
                 vr_trust_remote_code = py_truthy (cfg_get cfg ''trust_remote_code'' (vc_trust_remote_code config)),
                 vr_enforce_eager = py_truthy (cfg_get cfg ''enforce_eager'' (vc_enforce_eager config)),
                 vr_timeout = timeout\<rparr>)))))))))))"

section \<open>Lemmas\<close>

interpretation vllm: owned_server ops "vllm_server ops rt" for ops rt
  by (rule oai_owned_server [where p = "status_health ops"]) (simp_all add: vllm_server_def status_health_time)

text \<open>Rounding never passes an integer that is itself a double.\<close>

lemma round_even_le: "x \<le> of_int m \<Longrightarrow> round_even x \<le> m"
proof -
  assume x: "x \<le> of_int m"
  show ?thesis
  proof (cases "\<lfloor>x\<rfloor> = m")
    case True
    then have "x = of_int m" using x of_int_floor_le [of x] by linarith
    then show ?thesis by (simp add: round_even_def)
  next
    case False
    then have "\<lfloor>x\<rfloor> + 1 \<le> m" using x by linarith
    then show ?thesis by (auto simp: round_even_def Let_def)
  qed
qed

lemma ulp_exponent_le: "q \<le> of_int n \<Longrightarrow> n < 2 ^ 53 \<Longrightarrow> ulp_exponent q \<le> 0"
proof (cases "1 \<le> q")
  case True
  assume q: "q \<le> of_int n" and n: "n < 2 ^ 53"
  have "\<lfloor>q\<rfloor> \<le> n" using q by linarith
  then have "\<lfloor>q\<rfloor> < 2 ^ 53" using n by (rule le_less_trans)
  then have "nat \<lfloor>q\<rfloor> < 2 ^ 53" using nat_less_iff [of "\<lfloor>q\<rfloor>" "2 ^ 53"] True by (simp del: floor_less_numeral)
  then have "floorlog 2 (nat \<lfloor>q\<rfloor>) \<le> 53" by (simp add: floorlog_le_iff)
  with True show ?thesis by (simp add: ulp_exponent_def)
qed (simp add: ulp_exponent_def)

lemma round_double_le:
  assumes "q \<le> of_int n" "0 \<le> n" "n < 2 ^ 53"
  shows "round_double q \<le> of_int n"
proof (cases "q \<le> 0")
  case True
  with assms show ?thesis by (simp add: round_double_def)
next
  case False
  define k where "k = nat (- ulp_exponent q)"
  have e: "ulp_exponent q = - int k" using ulp_exponent_le [OF assms(1,3)] by (simp add: k_def)
  have up: "scale2 (int k) q = q * 2 ^ k" and down: "scale2 (- int k) y = y / 2 ^ k" for y
    by (cases "k = 0"; simp add: scale2_def)+
  have "q * 2 ^ k \<le> of_int (n * 2 ^ k)" using assms(1) by simp
  then have "round_even (q * 2 ^ k) \<le> n * 2 ^ k" by (rule round_even_le)
  then have "(of_int (round_even (q * 2 ^ k)) :: rat) \<le> of_int (n * 2 ^ k)" by (simp only: of_int_le_iff)
  then have "of_int (round_even (q * 2 ^ k)) / 2 ^ k \<le> (of_int n :: rat)" by (simp add: divide_le_eq)
  with False show ?thesis by (simp add: round_double_def e up down Let_def)
qed

lemma fraction_product_le:
  assumes "fraction_arg d key = Inr x" "int_product n x = Inr m" "0 \<le> n"
  shows "m \<le> n"
proof (cases x)
  case (JFloat f)
  with assms obtain q where q: "f = Finite q" "0 < q" "q \<le> 1" "n < 2 ^ 53" "m = \<lfloor>round_double (of_int n * q)\<rfloor>"
    by (auto simp: fraction_arg_def int_product_def rbind_eq_Inr split: if_splits py_float.splits)
  have "of_int n * q \<le> of_int n" using q(3) assms(3) by (simp add: mult_left_le)
  from round_double_le [OF this assms(3) q(4)] q(5) show ?thesis by linarith
qed (use assms in \<open>auto simp: fraction_arg_def int_product_def rbind_eq_Inr mult_left_le split: if_splits\<close>)

lemma all_alike_nth: "all_alike xs \<Longrightarrow> i < length xs \<Longrightarrow> j < length xs \<Longrightarrow> xs ! i = xs ! j"
  unfolding all_alike_def by (metis One_nat_def card_1_singletonE length_remdups_card_conv nth_mem singletonD)

text \<open>What an accepted demand means: the devices are alike and the model fits.\<close>

lemma vllm_accepted:
  assumes "mk_vllm_config given = Inr config" "vllm_compatibility config context = Inr report" "compatible report"
    and "0 \<le> total_vram_mb (ws_resources (cx_worker context))"
  obtains per_gpu where "int_of_gib (vc_cpu_offload_gb config) = Inr per_gpu"
    "\<not> list_ex cr_blocking (vllm_topology_reasons (cx_worker context) (ed_gpu_topology (cx_demand context)) (vllm_launch_policy context config))"
    "\<not> list_ex cr_blocking (vllm_expert_reasons (cx_demand context) (ws_resources (cx_worker context)) (vllm_launch_policy context config))"
    "\<not> list_ex cr_blocking (vllm_offload_reasons (cx_demand context) (vllm_launch_policy context config))"
    "num_above (vc_cpu_offload_gb config) 0 \<Longrightarrow>
       per_gpu * max (gpu_count (ws_resources (cx_worker context))) 1 \<le> hf_host_ram_mb (cx_host context)"
    "\<And>n. md_estimated_size_mb (ed_model (cx_demand context)) = Some n \<Longrightarrow> 0 < gpu_count (ws_resources (cx_worker context)) \<Longrightarrow>
       n \<le> total_vram_mb (ws_resources (cx_worker context)) + per_gpu * max (gpu_count (ws_resources (cx_worker context))) 1"
proof -
  let ?p = "vllm_launch_policy context config" and ?r = "ws_resources (cx_worker context)" and ?d = "cx_demand context"
  have pol: "vp_cpu_offload_gb ?p = vc_cpu_offload_gb config" "vp_gpu_memory_utilization ?p = vc_gpu_memory_utilization config"
    by (simp_all add: vllm_launch_policy_def Let_def)
  from assms(2) obtain g b where g: "int_of_gib (vc_cpu_offload_gb config) = Inr g"
    and b: "vllm_budget_reasons ?d ?r ?p (g * max (gpu_count ?r) 1) = Inr b"
    and no: "\<not> list_ex cr_blocking (vllm_topology_reasons (cx_worker context) (ed_gpu_topology ?d) ?p)"
      "\<not> list_ex cr_blocking (vllm_expert_reasons ?d ?r ?p)" "\<not> list_ex cr_blocking (vllm_offload_reasons ?d ?p)"
      "\<not> list_ex cr_blocking b"
      "\<not> (num_above (vc_cpu_offload_gb config) 0 \<and> g * max (gpu_count ?r) 1 > hf_host_ram_mb (cx_host context))"
    using assms(3) pol
    by (auto simp: vllm_compatibility_def mk_runtime_compatibility_def compatible_def rbind_eq_Inr Let_def)
  obtain d key where frac: "fraction_arg d key = Inr (vc_gpu_memory_utilization config)"
    using assms(1) by (auto simp: mk_vllm_config_def rbind_eq_Inr)
  show thesis
  proof (rule that [OF g no(1,2,3)])
    show "num_above (vc_cpu_offload_gb config) 0 \<Longrightarrow> g * max (gpu_count ?r) 1 \<le> hf_host_ram_mb (cx_host context)"
      using no(5) by linarith
    fix n assume n: "md_estimated_size_mb (ed_model ?d) = Some n" "0 < gpu_count ?r"
    with b no(4) obtain v where v: "int_product (total_vram_mb ?r) (vc_gpu_memory_utilization config) = Inr v"
      "n \<le> v + g * max (gpu_count ?r) 1"
      by (auto simp: vllm_budget_reasons_def vllm_budget_def pol rbind_eq_Inr not_less)
    with fraction_product_le [OF frac v(1) assms(4)]
    show "n \<le> total_vram_mb ?r + g * max (gpu_count ?r) 1" by linarith
  qed
qed

lemma mk_vllm_config_texts:
  assumes "mk_vllm_config given = Inr config"
  shows "vc_base_url config \<noteq> [] \<and> norm_text (vc_executable config) \<and> norm_text (vc_served_model_name config) \<and>
    (\<exists>t. number_value (vc_startup_timeout_seconds config) = Inr t)"
  using assms unfolding mk_vllm_config_def rbind_eq_Inr
  by (auto dest: loopback_endpoint_nonempty text_arg_Inr positive_arg_Inr)

definition vllm_typed :: "vllm_config \<Rightarrow> bool" where
  "vllm_typed c \<longleftrightarrow> (\<exists>f. vc_gpu_memory_utilization c = JFloat f) \<and> (\<exists>f. vc_cpu_offload_gb c = JFloat f) \<and>
     int_or_none (vc_tensor_parallel_size c) \<and>
     (vc_enable_expert_parallel c = JNull \<or> (\<exists>b. vc_enable_expert_parallel c = JBool b))"

lemma vllm_configured_policy_own:
  assumes "vllm_typed config"
  shows "vllm_configured_policy config context (vllm_configuration config context) = Inr (vllm_launch_policy context config)"
proof -
  let ?p = "vllm_launch_policy context config" and ?cfg = "vllm_configuration config context"
  have keys: "dict_get ?cfg ''tensor_parallel_size'' = Some (vp_tensor_parallel_size ?p)"
    "dict_get ?cfg ''enable_expert_parallel'' = Some (vp_enable_expert_parallel ?p)"
    "dict_get ?cfg ''gpu_memory_utilization'' = Some (vp_gpu_memory_utilization ?p)"
    "dict_get ?cfg ''cpu_offload_gb'' = Some (vp_cpu_offload_gb ?p)"
    by (simp_all add: vllm_configuration_def Let_def)
  have "\<exists>n. vp_tensor_parallel_size ?p = JInt n" "\<exists>b. vp_enable_expert_parallel ?p = JBool b"
    "\<exists>u. vp_gpu_memory_utilization ?p = JFloat u" "\<exists>f. vp_cpu_offload_gb ?p = JFloat f"
    "vp_device_ids ?p = ws_gpu_uuids (cx_worker context)"
    using assms by (auto simp: vllm_typed_def int_or_none_def vllm_launch_policy_def Let_def)
  then obtain n b u f where t: "vp_tensor_parallel_size ?p = JInt n" "vp_enable_expert_parallel ?p = JBool b"
    "vp_gpu_memory_utilization ?p = JFloat u" "vp_cpu_offload_gb ?p = JFloat f"
    "vp_device_ids ?p = ws_gpu_uuids (cx_worker context)" by blast
  have "?p = \<lparr>vp_tensor_parallel_size = JInt n, vp_enable_expert_parallel = JBool b,
      vp_gpu_memory_utilization = JFloat u, vp_cpu_offload_gb = JFloat f, vp_device_ids = ws_gpu_uuids (cx_worker context)\<rparr>"
    using t by (cases ?p) simp
  then show ?thesis
    unfolding vllm_configured_policy_def cfg_get_def keys Let_def by (simp add: t)
qed

lemma vllm_provider_norm: "norm_text vllm_provider_id"
  by (simp add: vllm_provider_id_def norm_text_def py_strip_def is_space_def)

lemma vllm_intent_runtime:
  assumes "mk_vllm_config given = Inr config" "vllm_setup_intent config context = Inr setup"
    and "norm_text (md_model_ref (ed_model (cx_demand context)))" "vllm_typed config"
  shows "\<exists>rt. vllm_create_runtime config context setup = Inr rt \<and> vr_context rt = context \<and>
    vr_policy rt = vllm_launch_policy context config \<and> vr_model_ref rt = md_model_ref (ed_model (cx_demand context)) \<and>
    vr_base_url rt = vc_base_url config \<and> vr_executable rt = vc_executable config"
proof -
  from assms(2) obtain report where r: "vllm_compatibility config context = Inr report" "compatible report"
    and s: "si_provider_id setup = vllm_provider_id" "si_configuration setup = vllm_configuration config context"
    using mk_setup_intent_Inr [OF _ vllm_provider_norm]
    by (auto simp: vllm_setup_intent_def rbind_eq_Inr split: if_splits)
  from mk_vllm_config_texts [OF assms(1)] obtain t where c: "vc_base_url config \<noteq> []" "vc_executable config \<noteq> []"
    "vc_served_model_name config \<noteq> []" "norm_text (vc_served_model_name config)"
    "number_value (vc_startup_timeout_seconds config) = Inr t" by (auto simp: norm_text_def)
  have ref: "md_model_ref (ed_model (cx_demand context)) \<noteq> []" using assms(3) by (auto simp: norm_text_def)
  let ?cfg = "vllm_configuration config context"
  have keys: "json_get ?cfg ''base_url'' = JStr (vc_base_url config)" "json_get ?cfg ''executable'' = JStr (vc_executable config)"
    "json_get ?cfg ''model_ref'' = JStr (md_model_ref (ed_model (cx_demand context)))"
    "json_get ?cfg ''served_model_name'' = JStr (vc_served_model_name config)"
    "dict_get ?cfg ''generation_config'' = Some (JStr (vc_generation_config config))"
    by (simp_all add: vllm_configuration_def json_get_def Let_def)
  show ?thesis
    using r s c ref keys assms(3) vllm_configured_policy_own [OF assms(4)]
    by (simp add: vllm_create_runtime_def cfg_text_def cfg_get_def [of _ "''generation_config''"] Let_def)
qed

end
