(* ===== verification/Provider_Freetoken.thy ===== *)
theory Provider_Freetoken
  imports Provider_Api
begin

text \<open>
  \<open>src/src/astrumweaver/runtime/providers/freetoken.py\<close>: configuration, launch policy, command line,
  executor, residency, managed runtime, compatibility report, setup intent and the runtime built from
  an intent.
\<close>

section \<open>Configuration\<close>

definition freetoken_provider_id :: string where
  "freetoken_provider_id = ''freetoken''"

definition freetoken_model_formats :: "string list" where
  "freetoken_model_formats = [''huggingface'', ''hf'', ''safetensors'', ''ftw'']"

datatype moe_strategy = MOE_AUTO | MOE_OFFLOAD | MOE_CPU | MOE_HYBRID

fun moe_strategy_value :: "moe_strategy \<Rightarrow> string" where
  "moe_strategy_value MOE_AUTO = ''auto''"
| "moe_strategy_value MOE_OFFLOAD = ''offload''"
| "moe_strategy_value MOE_CPU = ''cpu''"
| "moe_strategy_value MOE_HYBRID = ''hybrid''"

definition moe_strategy_of :: "json \<Rightarrow> moe_strategy res" where
  "moe_strategy_of v = (case v of
     JStr s \<Rightarrow> enum_of [(''auto'', MOE_AUTO), (''offload'', MOE_OFFLOAD), (''cpu'', MOE_CPU),
       (''hybrid'', MOE_HYBRID)] ''FreeTokenMoeStrategy'' s
   | _ \<Rightarrow> Inl (ValueError (Malformed ''FreeTokenMoeStrategy'')))"

record freetoken_config =
  fc_base_url :: string
  fc_executable :: string
  fc_package_reference :: string
  fc_startup_timeout_seconds :: json
  fc_request_timeout_seconds :: json
  fc_served_model_name :: string
  fc_moe_strategy :: moe_strategy
  fc_memory_ratio :: json
  fc_moe_cache_size :: json
  fc_moe_cache_rate :: json
  fc_moe_cpu_threads :: json
  fc_moe_cpu_layers :: json
  fc_moe_hybrid_max_fetch :: json
  fc_max_running_requests :: json

definition freetoken_defaults :: obj where
  "freetoken_defaults = [(''base_url'', JStr ''http://127.0.0.1:1919''), (''executable'', JStr ''ft''),
     (''package_reference'', JStr ''freetoken[accel]''), (''startup_timeout_seconds'', JFloat (Finite 300)),
     (''request_timeout_seconds'', JFloat (Finite 300)), (''served_model_name'', JStr ''astrumweaver''),
     (''moe_strategy'', JStr ''auto''), (''memory_ratio'', JFloat (Finite (8106479329266893 / 9007199254740992))),
     (''moe_cache_size'', JNull), (''moe_cache_rate'', JNull), (''moe_cpu_threads'', JNull),
     (''moe_cpu_layers'', JNull), (''moe_hybrid_max_fetch'', JNull), (''max_running_requests'', JInt 1)]"

definition max_fetch_arg :: "obj \<Rightarrow> string \<Rightarrow> json res" where
  "max_fetch_arg d key = rbind (number_value (json_get d key)) (\<lambda>x.
     if (case x of Finite q \<Rightarrow> q < -1 | Neg_Inf \<Rightarrow> True | _ \<Rightarrow> False)
     then Inl (ValueError (Inconsistent key)) else Inr (json_get d key))"

definition not_bool_arg :: "obj \<Rightarrow> string \<Rightarrow> json res" where
  "not_bool_arg d key = (case json_get d key of JBool _ \<Rightarrow> Inl (TypeError (Wrong_type key)) | v \<Rightarrow> Inr v)"

definition exclusive_args :: "json \<Rightarrow> json \<Rightarrow> unit res" where
  "exclusive_args cache_size cache_rate = (if cache_size \<noteq> JNull \<and> cache_rate \<noteq> JNull
     then Inl (ValueError (Inconsistent ''moe_cache_size'')) else Inr ())"

definition mk_freetoken_config :: "obj \<Rightarrow> freetoken_config res" where
  "mk_freetoken_config given = rbind (dataclass_args freetoken_defaults given) (\<lambda>d.
     rbind (rbind (py_str (json_get d ''base_url'')) loopback_endpoint) (\<lambda>base.
     rbind (text_arg d ''executable'') (\<lambda>ex.
     rbind (text_arg d ''package_reference'') (\<lambda>pkg.
     rbind (text_arg d ''served_model_name'') (\<lambda>served.
     rbind (moe_strategy_of (json_get d ''moe_strategy'')) (\<lambda>strategy.
     rbind (positive_arg d ''startup_timeout_seconds'') (\<lambda>startup.
     rbind (positive_arg d ''request_timeout_seconds'') (\<lambda>request.
     rbind (fraction_arg d ''memory_ratio'') (\<lambda>ratio.
     rbind (positive_arg d ''max_running_requests'') (\<lambda>running.
     rbind (optional_arg positive_arg d ''moe_cache_size'') (\<lambda>cache_size.
     rbind (optional_arg fraction_arg d ''moe_cache_rate'') (\<lambda>cache_rate.
     rbind (exclusive_args cache_size cache_rate) (\<lambda>_.
     rbind (optional_arg positive_arg d ''moe_cpu_threads'') (\<lambda>threads.
     rbind (optional_arg max_fetch_arg d ''moe_hybrid_max_fetch'') (\<lambda>fetch.
     rbind (not_bool_arg d ''moe_cpu_layers'') (\<lambda>layers.
         Inr \<lparr>fc_base_url = base, fc_executable = ex, fc_package_reference = pkg,
              fc_startup_timeout_seconds = startup, fc_request_timeout_seconds = request,
              fc_served_model_name = served, fc_moe_strategy = strategy, fc_memory_ratio = ratio,
              fc_moe_cache_size = cache_size, fc_moe_cache_rate = cache_rate, fc_moe_cpu_threads = threads,
              fc_moe_cpu_layers = layers, fc_moe_hybrid_max_fetch = fetch,
              fc_max_running_requests = running\<rparr>))))))))))))))))"

section \<open>Launch policy and command\<close>

record freetoken_policy =
  fp_gpu_uuid :: string
  fp_moe_strategy :: moe_strategy
  fp_memory_ratio :: json
  fp_moe_cache_size :: json
  fp_moe_cache_rate :: json
  fp_moe_cpu_threads :: json
  fp_moe_cpu_layers :: json
  fp_moe_hybrid_max_fetch :: json
  fp_max_running_requests :: json

definition freetoken_launch_policy :: "runtime_context \<Rightarrow> freetoken_config \<Rightarrow> freetoken_policy" where
  "freetoken_launch_policy context config = \<lparr>
     fp_gpu_uuid = (case ws_gpu_uuids (cx_worker context) of [g] \<Rightarrow> g | _ \<Rightarrow> []),
     fp_moe_strategy = fc_moe_strategy config, fp_memory_ratio = fc_memory_ratio config,
     fp_moe_cache_size = fc_moe_cache_size config, fp_moe_cache_rate = fc_moe_cache_rate config,
     fp_moe_cpu_threads = fc_moe_cpu_threads config, fp_moe_cpu_layers = fc_moe_cpu_layers config,
     fp_moe_hybrid_max_fetch = fc_moe_hybrid_max_fetch config,
     fp_max_running_requests = fc_max_running_requests config\<rparr>"

record freetoken_runtime =
  fr_context :: runtime_context
  fr_model_ref :: string
  fr_served_model_name :: string
  fr_base_url :: string
  fr_executable :: string
  fr_policy :: freetoken_policy
  fr_timeout :: py_float

definition freetoken_command :: "freetoken_runtime \<Rightarrow> cmd_arg list res" where
  "freetoken_command rt = (let policy = fr_policy rt in
     rbind (endpoint_args (fr_base_url rt)) (\<lambda>(host, port).
     rbind (json_word (fp_memory_ratio policy)) (\<lambda>ratio.
     rbind (json_word (fp_max_running_requests policy)) (\<lambda>running.
     rbind (optional_option ''--moe-cache-size'' (fp_moe_cache_size policy)) (\<lambda>cache_size.
     rbind (optional_option ''--moe-cache-rate'' (fp_moe_cache_rate policy)) (\<lambda>cache_rate.
     rbind (optional_option ''--moe-cpu-threads'' (fp_moe_cpu_threads policy)) (\<lambda>threads.
     rbind (optional_option ''--moe-cpu-layers'' (fp_moe_cpu_layers policy)) (\<lambda>layers.
     rbind (optional_option ''--moe-hybrid-max-fetch'' (fp_moe_hybrid_max_fetch policy)) (\<lambda>fetch.
       Inr ([Word (fr_executable rt), Word ''serve'', Word ''--model'', Word (fr_model_ref rt),
         Word ''--host'', Word host, Word ''--port'', Word (int_text port),
         Word ''--gpu'', Word (fp_gpu_uuid policy), Word ''--served-model-name'', Word (fr_served_model_name rt),
         Word ''--moe-strategy'', Word (moe_strategy_value (fp_moe_strategy policy)),
         Word ''--memory-ratio'', ratio, Word ''--max-running-requests'', running] @
         cache_size @ cache_rate @ threads @ layers @ fetch))))))))))"

section \<open>Executor, residency and managed runtime\<close>

definition freetoken_execute :: "'e env_ops \<Rightarrow> freetoken_runtime \<Rightarrow> job_request \<Rightarrow> ('e, job_result) act" where
  "freetoken_execute ops rt = oai_execute ops freetoken_provider_id (py_strip (fr_model_ref rt)) ''served_model_name''
     (py_strip (fr_served_model_name rt))"

definition freetoken_stats :: "'e env_ops \<Rightarrow> ('e, obj) act" where
  "freetoken_stats ops = api_json ops ''GET'' ''/v1/stats'' None"

definition freetoken_residency_metadata :: "freetoken_runtime \<Rightarrow> obj" where
  "freetoken_residency_metadata rt = (let context = fr_context rt; policy = fr_policy rt in [
     (''residency_policy'', JStr (residency_policy_value (ed_residency_policy (cx_demand context)))),
     (''gpu_topology'', JStr (gpu_topology_value (ed_gpu_topology (cx_demand context)))),
     (''gpu_uuid'', JStr (fp_gpu_uuid policy)), (''host_ram_mb'', JInt (hf_host_ram_mb (cx_host context))),
     (''moe_strategy'', JStr (moe_strategy_value (fp_moe_strategy policy))),
     (''memory_ratio'', fp_memory_ratio policy), (''moe_cache_size'', fp_moe_cache_size policy),
     (''moe_cache_rate'', fp_moe_cache_rate policy), (''moe_cpu_threads'', fp_moe_cpu_threads policy),
     (''moe_cpu_layers'', fp_moe_cpu_layers policy), (''moe_hybrid_max_fetch'', fp_moe_hybrid_max_fetch policy)])"

definition observed_model :: "obj \<Rightarrow> obj" where
  "observed_model stats = (case json_get stats ''model'' of
     JObj m \<Rightarrow> (case json_get m ''id'' of JStr s \<Rightarrow> [(''observed_model'', JStr s)] | _ \<Rightarrow> []) @
       (case json_get m ''moe'' of JBool b \<Rightarrow> [(''observed_moe'', JBool b)] | _ \<Rightarrow> [])
   | _ \<Rightarrow> [])"

text \<open>A failed statistics request counts as no statistics; zero bytes mean not observed yet.\<close>

definition freetoken_residency ::
  "'e env_ops \<Rightarrow> freetoken_runtime \<Rightarrow> py_datetime \<Rightarrow> ('e, residency_report) act" where
  "freetoken_residency ops rt now e =
     (let (answer, e') = freetoken_stats ops e; stats = (case answer of Inl _ \<Rightarrow> [] | Inr d \<Rightarrow> d) in
      apure (static_residency freetoken_provider_id (py_strip (fr_model_ref rt)) ''freetoken-model''
        (case json_get stats ''vram_bytes'' of JInt n \<Rightarrow> if n > 0 then Some n else None | _ \<Rightarrow> None)
        (dict_merge (freetoken_residency_metadata rt) (observed_model stats)) now) e')"

definition freetoken_server :: "'e env_ops \<Rightarrow> freetoken_runtime \<Rightarrow> 'e server" where
  "freetoken_server ops rt = \<lparr>
     sr_reachable = on_env (body_health ops ''ok''),
     sr_process_start = process_start ops (freetoken_command rt) None,
     sr_available = on_env (alias_available ops (fr_served_model_name rt)),
     sr_load = areturn (), sr_abandon = (\<lambda>s. s),
     sr_timeout = fr_timeout rt, sr_poll = 1 / 5, sr_grace = 15,
     sr_external = ''external FreeToken process detected at managed endpoint'',
     sr_no_inventory = ''FreeToken model inventory is unavailable'',
     sr_unavailable = ''configured FreeToken model alias is unavailable'',
     sr_provider_id = freetoken_provider_id,
     sr_ready_metadata = [(''model'', JStr (fr_model_ref rt)), (''served_model_name'', JStr (fr_served_model_name rt))]\<rparr>"

section \<open>The provider\<close>

definition freetoken_residency_reason :: "residency_policy \<Rightarrow> freetoken_policy \<Rightarrow> compatibility_reason" where
  "freetoken_residency_reason demanded policy = (case demanded of
     VRAM_ONLY \<Rightarrow> blocking_reason ''vram-only-unsupported''
       ''AstrumWeaver v0.x FreeToken provider targets MoE offload and does not claim a vram_only execution path''
   | CPU_GPU_HYBRID \<Rightarrow> note_reason ''cpu-gpu-hybrid-supported''
       (''FreeToken MoE execution will use the selected '' @ moe_strategy_value (fp_moe_strategy policy) @
        '' strategy with host RAM available for expert offload/CPU execution'')
   | PREFER_VRAM \<Rightarrow> note_reason ''prefer-vram-moe-cache''
       ''FreeToken will prefer GPU residency within its memory budget while retaining its MoE offload/cache policy'')"

definition freetoken_compatibility :: "freetoken_config \<Rightarrow> runtime_context \<Rightarrow> runtime_compatibility res" where
  "freetoken_compatibility config context = (let demand = cx_demand context; model = ed_model demand;
     worker = cx_worker context; policy = freetoken_launch_policy context config in
     mk_runtime_compatibility freetoken_provider_id (
       only_if (py_lower (hf_architecture (cx_host context)) \<notin> {''x86_64'', ''amd64''})
         (blocking_reason ''architecture-unsupported''
           (''current upstream FreeToken packages require Linux x86_64; host architecture is '' @
            hf_architecture (cx_host context))) @
       only_if (md_model_format model \<notin> set freetoken_model_formats) (blocking_reason ''model-format-unsupported''
         ''AstrumWeaver FreeToken provider requires a Hugging Face/safetensors or local FTW model reference'') @
       only_if (md_model_format model = ''ftw'' \<and> \<not> local_model_reference (md_model_ref model))
         (blocking_reason ''ftw-reference-must-be-local''
           ''FTW is a local FreeToken checkpoint format; the v0.x provider requires an explicit local FTW path'') @
       only_if (md_topology model \<noteq> MOE) (blocking_reason ''model-topology-outside-provider-scope''
         ''AstrumWeaver v0.x intentionally scopes the FreeToken provider to MoE/offload workloads; this is not a claim that upstream FreeToken cannot serve dense models'') @
       only_if (ed_gpu_topology demand \<noteq> SINGLE_GPU \<or> gpu_count (ws_resources worker) \<noteq> 1 \<or> length (ws_gpu_uuids worker) \<noteq> 1)
         (blocking_reason ''single-gpu-required''
           ''AstrumWeaver v0.x FreeToken provider requires a single-GPU Worker and will not partially consume a multi-GPU Worker'') @
       [freetoken_residency_reason (ed_residency_policy demand) policy] @
       only_if (fp_moe_strategy policy \<in> {MOE_OFFLOAD, MOE_CPU, MOE_HYBRID, MOE_AUTO})
         (note_reason ''host-ram-interconnect-sensitive''
           ''FreeToken MoE offload performance and feasible model size depend on host RAM capacity/bandwidth and the CPU-GPU interconnect; AstrumWeaver does not invent an exact RAM requirement beyond declared demand'')))"

definition freetoken_configuration :: "freetoken_config \<Rightarrow> runtime_context \<Rightarrow> obj" where
  "freetoken_configuration config context = (let policy = freetoken_launch_policy context config in [
     (''base_url'', JStr (fc_base_url config)), (''executable'', JStr (fc_executable config)),
     (''model_ref'', JStr (md_model_ref (ed_model (cx_demand context)))),
     (''served_model_name'', JStr (fc_served_model_name config)), (''gpu_uuid'', JStr (fp_gpu_uuid policy)),
     (''moe_strategy'', JStr (moe_strategy_value (fp_moe_strategy policy))),
     (''memory_ratio'', fp_memory_ratio policy), (''moe_cache_size'', fp_moe_cache_size policy),
     (''moe_cache_rate'', fp_moe_cache_rate policy), (''moe_cpu_threads'', fp_moe_cpu_threads policy),
     (''moe_cpu_layers'', fp_moe_cpu_layers policy), (''moe_hybrid_max_fetch'', fp_moe_hybrid_max_fetch policy),
     (''max_running_requests'', fp_max_running_requests policy), (''capabilities'', jstrs served_capabilities)])"

definition freetoken_setup_intent :: "freetoken_config \<Rightarrow> runtime_context \<Rightarrow> runtime_setup_intent res" where
  "freetoken_setup_intent config context = rbind (freetoken_compatibility config context) (\<lambda>report.
     if \<not> compatible report then Inl (RuntimeError (Inconsistent ''execution demand''))
     else mk_runtime_setup_intent freetoken_provider_id [fc_package_reference config]
       (freetoken_configuration config context) (model_preparation (md_model_ref (ed_model (cx_demand context))))
       (JStr (md_model_ref (ed_model (cx_demand context)))) True
       [(''runtime_provider'', JStr freetoken_provider_id)])"

definition freetoken_configured_policy :: "freetoken_config \<Rightarrow> string \<Rightarrow> obj \<Rightarrow> freetoken_policy res" where
  "freetoken_configured_policy config gpu_uuid cfg =
     rbind (moe_strategy_of (cfg_get cfg ''moe_strategy'' (JStr (moe_strategy_value (fc_moe_strategy config))))) (\<lambda>strategy.
     rbind (py_float_of (cfg_get cfg ''memory_ratio'' (fc_memory_ratio config))) (\<lambda>ratio.
     rbind (cfg_opt py_int cfg ''moe_cache_size'') (\<lambda>cache_size.
     rbind (cfg_opt py_float_of cfg ''moe_cache_rate'') (\<lambda>cache_rate.
     rbind (cfg_opt py_int cfg ''moe_cpu_threads'') (\<lambda>threads.
     rbind (cfg_opt py_int cfg ''moe_hybrid_max_fetch'') (\<lambda>fetch.
     rbind (py_int (cfg_get cfg ''max_running_requests'' (fc_max_running_requests config))) (\<lambda>running.
       Inr \<lparr>fp_gpu_uuid = gpu_uuid, fp_moe_strategy = strategy, fp_memory_ratio = JFloat ratio,
            fp_moe_cache_size = json_option JInt cache_size, fp_moe_cache_rate = json_option JFloat cache_rate,
            fp_moe_cpu_threads = json_option JInt threads,
            fp_moe_cpu_layers = cfg_get cfg ''moe_cpu_layers'' (fc_moe_cpu_layers config),
            fp_moe_hybrid_max_fetch = json_option JInt fetch, fp_max_running_requests = JInt running\<rparr>)))))))"

text \<open>The GPU of the intent, when it names one, must be the GPU the worker owns.\<close>

definition freetoken_create_runtime ::
  "freetoken_config \<Rightarrow> runtime_context \<Rightarrow> runtime_setup_intent \<Rightarrow> freetoken_runtime res" where
  "freetoken_create_runtime config context setup =
     (if si_provider_id setup \<noteq> freetoken_provider_id then Inl (ValueError (Inconsistent ''provider_id''))
      else rbind (freetoken_compatibility config context) (\<lambda>report.
        if \<not> compatible report then Inl (RuntimeError (Inconsistent ''execution demand''))
        else let cfg = si_configuration setup; expected = hd (ws_gpu_uuids (cx_worker context)) in
          rbind (case json_get cfg ''gpu_uuid'' of JNull \<Rightarrow> Inr ()
            | v \<Rightarrow> rbind (py_str v) (\<lambda>g. if g \<noteq> expected then Inl (ValueError (Inconsistent ''gpu_uuid'')) else Inr ())) (\<lambda>_.
          rbind (cfg_text cfg ''base_url'' (fc_base_url config)) (\<lambda>base_url.
          rbind (cfg_text cfg ''model_ref'' (md_model_ref (ed_model (cx_demand context)))) (\<lambda>model_ref.
          rbind (cfg_text cfg ''served_model_name'' (fc_served_model_name config)) (\<lambda>served.
          rbind (cfg_text cfg ''executable'' (fc_executable config)) (\<lambda>executable.
          rbind (freetoken_configured_policy config expected cfg) (\<lambda>policy.
          rbind (number_value (fc_startup_timeout_seconds config)) (\<lambda>timeout.
          rbind (runtime_nonblank model_ref ''model_ref'') (\<lambda>_.
          rbind (runtime_nonblank served ''served_model_name'') (\<lambda>_.
            Inr \<lparr>fr_context = context, fr_model_ref = model_ref, fr_served_model_name = served,
                 fr_base_url = base_url, fr_executable = executable, fr_policy = policy,
                 fr_timeout = timeout\<rparr>)))))))))))"

section \<open>Lemmas\<close>

interpretation freetoken: owned_server ops "freetoken_server ops rt" for ops rt
  by (rule oai_owned_server [where p = "body_health ops ''ok''"])
    (simp_all add: freetoken_server_def body_health_time)

lemma moe_strategy_of_value [simp]: "moe_strategy_of (JStr (moe_strategy_value m)) = Inr m"
  by (cases m) (simp_all add: moe_strategy_of_def enum_of_def)

definition freetoken_typed :: "freetoken_config \<Rightarrow> bool" where
  "freetoken_typed c \<longleftrightarrow> (\<exists>f. fc_memory_ratio c = JFloat f) \<and> int_or_none (fc_moe_cache_size c) \<and>
     float_or_none (fc_moe_cache_rate c) \<and> int_or_none (fc_moe_cpu_threads c) \<and>
     int_or_none (fc_moe_hybrid_max_fetch c) \<and> (\<exists>n. fc_max_running_requests c = JInt n)"

lemma freetoken_configured_policy_own:
  assumes typed: "freetoken_typed config" and gpu: "ws_gpu_uuids (cx_worker context) = [g]"
  shows "freetoken_configured_policy config g (freetoken_configuration config context) =
    Inr (freetoken_launch_policy context config)"
proof -
  let ?cfg = "freetoken_configuration config context"
  have keys: "dict_get ?cfg ''moe_strategy'' = Some (JStr (moe_strategy_value (fc_moe_strategy config)))"
    "dict_get ?cfg ''memory_ratio'' = Some (fc_memory_ratio config)"
    "dict_get ?cfg ''moe_cache_size'' = Some (fc_moe_cache_size config)"
    "dict_get ?cfg ''moe_cache_rate'' = Some (fc_moe_cache_rate config)"
    "dict_get ?cfg ''moe_cpu_threads'' = Some (fc_moe_cpu_threads config)"
    "dict_get ?cfg ''moe_cpu_layers'' = Some (fc_moe_cpu_layers config)"
    "dict_get ?cfg ''moe_hybrid_max_fetch'' = Some (fc_moe_hybrid_max_fetch config)"
    "dict_get ?cfg ''max_running_requests'' = Some (fc_max_running_requests config)"
    by (simp_all add: freetoken_configuration_def freetoken_launch_policy_def Let_def)
  note types = typed [unfolded freetoken_typed_def]
  obtain f n where fn: "fc_memory_ratio config = JFloat f" "fc_max_running_requests config = JInt n"
    using types by blast
  obtain a where a: "cfg_opt py_int ?cfg ''moe_cache_size'' = Inr a" "json_option JInt a = fc_moe_cache_size config"
    using cfg_opt_int [OF keys(3)] types by blast
  obtain b where b: "cfg_opt py_float_of ?cfg ''moe_cache_rate'' = Inr b" "json_option JFloat b = fc_moe_cache_rate config"
    using cfg_opt_float [OF keys(4)] types by blast
  obtain c where c: "cfg_opt py_int ?cfg ''moe_cpu_threads'' = Inr c" "json_option JInt c = fc_moe_cpu_threads config"
    using cfg_opt_int [OF keys(5)] types by blast
  obtain d where d: "cfg_opt py_int ?cfg ''moe_hybrid_max_fetch'' = Inr d" "json_option JInt d = fc_moe_hybrid_max_fetch config"
    using cfg_opt_int [OF keys(7)] types by blast
  show ?thesis
    unfolding freetoken_configured_policy_def cfg_get_def keys fn
    by (simp add: a b c d fn gpu freetoken_launch_policy_def)
qed

lemma freetoken_single_gpu:
  assumes "freetoken_compatibility config context = Inr report" "compatible report"
  shows "\<exists>g. ws_gpu_uuids (cx_worker context) = [g]" "ed_gpu_topology (cx_demand context) = SINGLE_GPU"
    "md_topology (ed_model (cx_demand context)) = MOE" "ed_residency_policy (cx_demand context) \<noteq> VRAM_ONLY"
  using assms
  by (auto simp: freetoken_compatibility_def mk_runtime_compatibility_def compatible_def rbind_eq_Inr Let_def
      freetoken_residency_reason_def length_Suc_conv numeral_eq_Suc)

lemma mk_freetoken_config_texts:
  assumes "mk_freetoken_config given = Inr config"
  shows "fc_base_url config \<noteq> [] \<and> norm_text (fc_executable config) \<and> norm_text (fc_served_model_name config) \<and>
    (\<exists>t. number_value (fc_startup_timeout_seconds config) = Inr t)"
  using assms unfolding mk_freetoken_config_def rbind_eq_Inr
  by (auto dest: loopback_endpoint_nonempty text_arg_Inr positive_arg_Inr)

lemma freetoken_provider_norm: "norm_text freetoken_provider_id"
  by (simp add: freetoken_provider_id_def norm_text_def py_strip_def is_space_def)

lemma freetoken_intent_runtime:
  assumes "mk_freetoken_config given = Inr config" "freetoken_setup_intent config context = Inr setup"
    and "norm_text (md_model_ref (ed_model (cx_demand context)))" "freetoken_typed config"
  shows "\<exists>rt. freetoken_create_runtime config context setup = Inr rt \<and> fr_context rt = context \<and>
    fr_policy rt = freetoken_launch_policy context config \<and> fr_model_ref rt = md_model_ref (ed_model (cx_demand context)) \<and>
    fr_base_url rt = fc_base_url config \<and> fr_executable rt = fc_executable config \<and>
    ws_gpu_uuids (cx_worker context) = [fp_gpu_uuid (fr_policy rt)]"
proof -
  from assms(2) obtain report where r: "freetoken_compatibility config context = Inr report" "compatible report"
    and s: "si_provider_id setup = freetoken_provider_id" "si_configuration setup = freetoken_configuration config context"
    using mk_setup_intent_Inr [OF _ freetoken_provider_norm]
    by (auto simp: freetoken_setup_intent_def rbind_eq_Inr split: if_splits)
  from freetoken_single_gpu [OF r] obtain g where g: "ws_gpu_uuids (cx_worker context) = [g]" by blast
  from mk_freetoken_config_texts [OF assms(1)] obtain t where c: "fc_base_url config \<noteq> []" "fc_executable config \<noteq> []"
    "fc_served_model_name config \<noteq> []" "norm_text (fc_served_model_name config)"
    "number_value (fc_startup_timeout_seconds config) = Inr t" by (auto simp: norm_text_def)
  have ref: "md_model_ref (ed_model (cx_demand context)) \<noteq> []" using assms(3) by (auto simp: norm_text_def)
  let ?cfg = "freetoken_configuration config context"
  have keys: "json_get ?cfg ''base_url'' = JStr (fc_base_url config)" "json_get ?cfg ''executable'' = JStr (fc_executable config)"
    "json_get ?cfg ''model_ref'' = JStr (md_model_ref (ed_model (cx_demand context)))"
    "json_get ?cfg ''served_model_name'' = JStr (fc_served_model_name config)" "json_get ?cfg ''gpu_uuid'' = JStr g"
    using g by (simp_all add: freetoken_configuration_def freetoken_launch_policy_def json_get_def Let_def)
  have "fp_gpu_uuid (freetoken_launch_policy context config) = g" using g by (simp add: freetoken_launch_policy_def)
  then show ?thesis
    using r s c ref keys g assms(3) freetoken_configured_policy_own [OF assms(4) g]
    by (simp add: freetoken_create_runtime_def cfg_text_def Let_def)
qed

end
