(* ===== verification/Provider_Exllama.thy ===== *)
theory Provider_Exllama
  imports Provider_Api
begin

text \<open>
  \<open>src/src/astrumweaver/runtime/providers/exllamav3.py\<close>: configuration, launch policy, the TabbyAPI
  configuration, command line, executor, managed runtime, compatibility report, setup intent and the
  runtime built from an intent.
\<close>

section \<open>Model location\<close>

definition exllama_provider_id :: string where
  "exllama_provider_id = ''exllamav3''"

text \<open>
  \<open>pathlib\<close>: the components of a path are its non-empty parts other than a single dot; two leading
  slashes, and no more, are kept as such.
\<close>

definition path_root :: "string \<Rightarrow> string" where
  "path_root p = (let n = length (takeWhile (\<lambda>c. c = CHR ''/'') p) in
     if n = 0 then [] else if n = 2 then ''//'' else ''/'')"

definition path_parts :: "string \<Rightarrow> string list" where
  "path_parts p = filter (\<lambda>s. s \<noteq> [] \<and> s \<noteq> ''.'') (py_split (CHR ''/'') p)"

definition path_text :: "string \<Rightarrow> string list \<Rightarrow> string" where
  "path_text anchor parts = (if anchor = [] \<and> parts = [] then ''.'' else anchor @ py_join ''/'' parts)"

definition path_parent :: "string \<Rightarrow> string" where
  "path_parent p = path_text (path_root p) (butlast (path_parts p))"

definition path_last :: "string \<Rightarrow> string" where
  "path_last p = (if path_parts p = [] then [] else last (path_parts p))"

definition model_location :: "string \<Rightarrow> string \<Rightarrow> string \<times> string" where
  "model_location model_ref default_model_dir =
     (if local_model_reference model_ref then (path_parent model_ref, path_last model_ref)
      else (default_model_dir, last (py_split (CHR ''/'') (rstrip_slashes model_ref))))"

section \<open>Configuration\<close>

datatype multi_gpu_mode = AUTOSPLIT | TENSOR_PARALLEL

fun multi_gpu_mode_value :: "multi_gpu_mode \<Rightarrow> string" where
  "multi_gpu_mode_value AUTOSPLIT = ''autosplit''"
| "multi_gpu_mode_value TENSOR_PARALLEL = ''tensor_parallel''"

definition multi_gpu_mode_of :: "json \<Rightarrow> multi_gpu_mode res" where
  "multi_gpu_mode_of v = (case v of
     JStr s \<Rightarrow> enum_of [(''autosplit'', AUTOSPLIT), (''tensor_parallel'', TENSOR_PARALLEL)] ''ExLlamaMultiGpuMode'' s
   | _ \<Rightarrow> Inl (ValueError (Malformed ''ExLlamaMultiGpuMode'')))"

record exllama_config =
  xc_base_url :: string
  xc_executable :: string
  xc_entrypoint :: string
  xc_config_path :: string
  xc_package_references :: "string list"
  xc_startup_timeout_seconds :: json
  xc_request_timeout_seconds :: json
  xc_model_dir :: string
  xc_multi_gpu_mode :: multi_gpu_mode
  xc_tensor_parallel_backend :: string
  xc_gpu_split :: "py_float list option"
  xc_cache_mode :: string
  xc_max_seq_len :: json
  xc_max_batch_size :: json
  xc_autosplit_reserve_mb :: "int list option"

definition exllama_defaults :: obj where
  "exllama_defaults = [(''base_url'', JStr ''http://127.0.0.1:5000''), (''executable'', JStr ''python''),
     (''entrypoint'', JStr ''/opt/tabbyAPI/main.py''),
     (''config_path'', JStr ''/etc/astrumweaver/runtime/exllamav3/config.yml''),
     (''package_references'', JList [JStr ''tabbyAPI[cu12]'', JStr ''exllamav3'']),
     (''startup_timeout_seconds'', JFloat (Finite 300)), (''request_timeout_seconds'', JFloat (Finite 300)),
     (''model_dir'', JStr ''/var/lib/astrumweaver/models/exllamav3''),
     (''multi_gpu_mode'', JStr ''autosplit''), (''tensor_parallel_backend'', JStr ''native''),
     (''gpu_split'', JNull), (''cache_mode'', JStr ''FP16''), (''max_seq_len'', JNull),
     (''max_batch_size'', JNull), (''autosplit_reserve_mb'', JNull)]"

definition package_args :: "obj \<Rightarrow> string list res" where
  "package_args d = rbind (py_iter (json_get d ''package_references'')) (\<lambda>raw.
     rmap (\<lambda>v. rbind (py_str v) (\<lambda>s. runtime_nonblank s ''package reference'')) raw)"

definition backend_arg :: "obj \<Rightarrow> string res" where
  "backend_arg d = rbind (text_arg d ''tensor_parallel_backend'') (\<lambda>backend.
     if backend \<in> {''native'', ''nccl''} then Inr backend
     else Inl (ValueError (Inconsistent ''tensor_parallel_backend'')))"

definition mk_exllama_config :: "obj \<Rightarrow> exllama_config res" where
  "mk_exllama_config given = rbind (dataclass_args exllama_defaults given) (\<lambda>d.
     rbind (rbind (py_str (json_get d ''base_url'')) loopback_endpoint) (\<lambda>base.
     rbind (text_arg d ''executable'') (\<lambda>ex.
     rbind (text_arg d ''entrypoint'') (\<lambda>entry.
     rbind (text_arg d ''config_path'') (\<lambda>path.
     rbind (text_arg d ''model_dir'') (\<lambda>dir.
     rbind (package_args d) (\<lambda>pkgs.
     rbind (multi_gpu_mode_of (json_get d ''multi_gpu_mode'')) (\<lambda>mode.
     rbind (backend_arg d) (\<lambda>backend.
     rbind (text_arg d ''cache_mode'') (\<lambda>cache.
     rbind (positive_arg d ''startup_timeout_seconds'') (\<lambda>startup.
     rbind (positive_arg d ''request_timeout_seconds'') (\<lambda>request.
     rbind (optional_arg positive_arg d ''max_seq_len'') (\<lambda>seq_len.
     rbind (optional_arg positive_arg d ''max_batch_size'') (\<lambda>batch.
     rbind (tuple_arg py_float_of not_above_zero d ''gpu_split'') (\<lambda>split.
     rbind (tuple_arg py_int (\<lambda>n. n < 0) d ''autosplit_reserve_mb'') (\<lambda>reserve.
       Inr \<lparr>xc_base_url = base, xc_executable = ex, xc_entrypoint = entry, xc_config_path = path,
            xc_package_references = pkgs, xc_startup_timeout_seconds = startup,
            xc_request_timeout_seconds = request, xc_model_dir = dir, xc_multi_gpu_mode = mode,
            xc_tensor_parallel_backend = backend, xc_gpu_split = split, xc_cache_mode = cache,
            xc_max_seq_len = seq_len, xc_max_batch_size = batch,
            xc_autosplit_reserve_mb = reserve\<rparr>))))))))))))))))"

section \<open>Launch policy and server configuration\<close>

record exllama_policy =
  xp_gpu_uuids :: "string list"
  xp_multi_gpu_mode :: multi_gpu_mode
  xp_tensor_parallel :: bool
  xp_tensor_parallel_backend :: string
  xp_gpu_split_auto :: bool
  xp_gpu_split :: "py_float list option"
  xp_autosplit_reserve_mb :: "int list option"
  xp_cache_mode :: string
  xp_max_seq_len :: json
  xp_max_batch_size :: json

definition exllama_launch_policy :: "runtime_context \<Rightarrow> exllama_config \<Rightarrow> exllama_policy" where
  "exllama_launch_policy context config = (let multi = (ed_gpu_topology (cx_demand context) = MULTI_GPU) in
     \<lparr>xp_gpu_uuids = ws_gpu_uuids (cx_worker context), xp_multi_gpu_mode = xc_multi_gpu_mode config,
      xp_tensor_parallel = (multi \<and> xc_multi_gpu_mode config = TENSOR_PARALLEL),
      xp_tensor_parallel_backend = xc_tensor_parallel_backend config,
      xp_gpu_split_auto = (multi \<and> xc_gpu_split config = None),
      xp_gpu_split = xc_gpu_split config, xp_autosplit_reserve_mb = xc_autosplit_reserve_mb config,
      xp_cache_mode = xc_cache_mode config, xp_max_seq_len = xc_max_seq_len config,
      xp_max_batch_size = xc_max_batch_size config\<rparr>)"

definition tabby_model :: "string \<Rightarrow> string \<Rightarrow> exllama_policy \<Rightarrow> obj" where
  "tabby_model model_dir model_name policy = [
     (''model_dir'', JStr model_dir), (''model_name'', JStr model_name), (''backend'', JStr ''exllamav3''),
     (''inline_model_loading'', JBool False), (''tensor_parallel'', JBool (xp_tensor_parallel policy)),
     (''tensor_parallel_backend'', JStr (xp_tensor_parallel_backend policy)),
     (''gpu_split_auto'', JBool (xp_gpu_split_auto policy)),
     (''gpu_split'', JList (map JFloat (case xp_gpu_split policy of None \<Rightarrow> [] | Some xs \<Rightarrow> xs))),
     (''cache_mode'', JStr (xp_cache_mode policy))] @
     (case xp_autosplit_reserve_mb policy of None \<Rightarrow> [] | Some xs \<Rightarrow> [(''autosplit_reserve'', JList (map JInt xs))]) @
     only_if (xp_max_seq_len policy \<noteq> JNull) (''max_seq_len'', xp_max_seq_len policy) @
     only_if (xp_max_batch_size policy \<noteq> JNull) (''max_batch_size'', xp_max_batch_size policy)"

definition tabby_config :: "string \<Rightarrow> string \<Rightarrow> string \<Rightarrow> exllama_policy \<Rightarrow> obj res" where
  "tabby_config base_url model_dir model_name policy = rbind (endpoint_args base_url) (\<lambda>(host, port). Inr [
     (''network'', JObj [(''host'', JStr host), (''port'', JInt port), (''disable_auth'', JBool True),
        (''allowed_origins'', JList []), (''api_servers'', JList [JStr ''OAI'']), (''access_log'', JBool False)]),
     (''logging'', JObj [(''log_prompt'', JBool False), (''log_generation_params'', JBool False),
        (''log_requests'', JBool False), (''log_chat_completion_requests'', JBool False)]),
     (''model'', JObj (tabby_model model_dir model_name policy)),
     (''sampling'', JObj [(''override_preset'', JStr ''safe_defaults'')])])"

section \<open>Process, executor and managed runtime\<close>

record exllama_runtime =
  xr_context :: runtime_context
  xr_model_ref :: string
  xr_served_model_name :: string
  xr_executable :: string
  xr_entrypoint :: string
  xr_config_path :: string
  xr_base_url :: string
  xr_policy :: exllama_policy
  xr_timeout :: py_float

definition exllama_command :: "exllama_runtime \<Rightarrow> cmd_arg list" where
  "exllama_command rt = [Word (xr_executable rt), Word (xr_entrypoint rt), Word ''--config'', Word (xr_config_path rt)]"

definition exllama_process_start :: "'e env_ops \<Rightarrow> exllama_runtime \<Rightarrow> ('e rt_state, unit) act" where
  "exllama_process_start ops rt = process_start ops (Inr (exllama_command rt))
     (Some (dict_set ''CUDA_VISIBLE_DEVICES'' (py_join '','' (ws_gpu_uuids (cx_worker (xr_context rt)))) (ev_environ ops)))"

definition exllama_execute :: "'e env_ops \<Rightarrow> exllama_runtime \<Rightarrow> job_request \<Rightarrow> ('e, job_result) act" where
  "exllama_execute ops rt = oai_execute ops exllama_provider_id (py_strip (xr_model_ref rt)) ''served_model_name''
     (py_strip (xr_served_model_name rt))"

definition exllama_residency :: "exllama_runtime \<Rightarrow> py_datetime \<Rightarrow> residency_report res" where
  "exllama_residency rt now = (let context = xr_context rt; policy = xr_policy rt in
     static_residency exllama_provider_id (py_strip (xr_model_ref rt)) ''exl3-model'' None [
       (''residency_policy'', JStr (residency_policy_value (ed_residency_policy (cx_demand context)))),
       (''gpu_topology'', JStr (gpu_topology_value (ed_gpu_topology (cx_demand context)))),
       (''gpu_count'', JInt (gpu_count (ws_resources (cx_worker context)))),
       (''gpu_uuids'', jstrs (xp_gpu_uuids policy)),
       (''multi_gpu_mode'', JStr (multi_gpu_mode_value (xp_multi_gpu_mode policy))),
       (''tensor_parallel'', JBool (xp_tensor_parallel policy)),
       (''tensor_parallel_backend'', JStr (xp_tensor_parallel_backend policy)),
       (''gpu_split_auto'', JBool (xp_gpu_split_auto policy)),
       (''gpu_split'', json_floats (xp_gpu_split policy)), (''cache_mode'', JStr (xp_cache_mode policy))] now)"

definition exllama_server :: "'e env_ops \<Rightarrow> exllama_runtime \<Rightarrow> 'e server" where
  "exllama_server ops rt = \<lparr>
     sr_reachable = on_env (body_health ops ''healthy''),
     sr_process_start = exllama_process_start ops rt,
     sr_available = on_env (alias_available ops (xr_served_model_name rt)),
     sr_load = areturn (), sr_abandon = (\<lambda>s. s),
     sr_timeout = xr_timeout rt, sr_poll = 1 / 5, sr_grace = 15,
     sr_external = ''external TabbyAPI process detected at managed endpoint'',
     sr_no_inventory = ''TabbyAPI model inventory is unavailable'',
     sr_unavailable = ''configured ExLlamaV3 model is unavailable'',
     sr_provider_id = exllama_provider_id,
     sr_ready_metadata = [(''model'', JStr (xr_model_ref rt)), (''served_model_name'', JStr (xr_served_model_name rt))]\<rparr>"

section \<open>Compatibility\<close>

text \<open>The smallest known compute capability of the devices, or the label of the worker.\<close>

definition capability_key :: "string \<Rightarrow> nat \<times> nat" where
  "capability_key c = (case compute_capability_key c of Inr k \<Rightarrow> k | Inl _ \<Rightarrow> (0, 0))"

definition worker_compute_capability :: "worker_spec \<Rightarrow> string option res" where
  "worker_compute_capability worker =
     (let known = List.map_filter ad_compute_capability (ws_accelerators worker) in
      if ws_accelerators worker \<noteq> [] \<and> length known = length (ws_accelerators worker)
      then rbind (rmap compute_capability_key known) (\<lambda>_. Inr (first_by capability_key known))
      else Inr (dict_get (ws_labels worker) ''gpu.compute_capability.min''))"

definition capability_reasons :: "string option \<Rightarrow> compatibility_reason list" where
  "capability_reasons capability = (case capability of
     None \<Rightarrow> [note_reason ''compute-capability-unverified''
       ''ExLlamaV3 requires NVIDIA compute capability 8.0 or newer; Worker metadata does not currently prove the minimum capability'']
   | Some c \<Rightarrow> (case compute_capability_key c of
       Inl _ \<Rightarrow> [blocking_reason ''compute-capability-invalid''
         ''gpu.compute_capability.min must use a numeric value such as 8.6'']
     | Inr key \<Rightarrow> only_if (key < (8, 0)) (blocking_reason ''compute-capability-unsupported''
         ''ExLlamaV3 requires NVIDIA compute capability 8.0 or newer'')))"

definition exllama_single_reasons :: "resource_shape \<Rightarrow> exllama_policy \<Rightarrow> compatibility_reason list" where
  "exllama_single_reasons resources policy =
     only_if (gpu_count resources \<noteq> 1) (blocking_reason ''single-gpu-required''
       ''single_gpu ExLlamaV3 demand requires exactly one Worker GPU'') @
     only_if (xp_gpu_split policy \<noteq> None) (blocking_reason ''gpu-split-requires-multi-gpu''
       ''explicit ExLlamaV3 gpu_split requires multi_gpu demand'')"

definition exllama_multi_reasons :: "resource_shape \<Rightarrow> exllama_policy \<Rightarrow> compatibility_reason list" where
  "exllama_multi_reasons resources policy =
     only_if (gpu_count resources < 2) (blocking_reason ''multi-gpu-required''
       ''multi_gpu ExLlamaV3 demand requires at least two Worker GPUs'') @
     only_if (case xp_gpu_split policy of None \<Rightarrow> False | Some xs \<Rightarrow> int (length xs) \<noteq> gpu_count resources)
       (blocking_reason ''gpu-split-length-mismatch''
         ''ExLlamaV3 gpu_split must provide one value for every Worker-owned GPU'') @
     [note_reason (if xp_tensor_parallel policy then ''tensor-parallel-enabled'' else ''multi-gpu-autosplit-enabled'')
        (''ExLlamaV3 will use all Worker-owned GPUs with '' @
         (if xp_tensor_parallel policy then xp_tensor_parallel_backend policy @ '' tensor parallelism''
          else ''TabbyAPI/ExLlamaV3 autosplit''))]"

definition exllama_memory_reasons :: "execution_demand \<Rightarrow> resource_shape \<Rightarrow> compatibility_reason list" where
  "exllama_memory_reasons demand resources =
     only_if (ed_residency_policy demand = CPU_GPU_HYBRID) (blocking_reason ''cpu-gpu-hybrid-outside-provider-scope''
       ''AstrumWeaver v0.x ExLlamaV3 provider is scoped to VRAM-resident/prefer-VRAM execution; use FreeToken or llama.cpp for RAM-heavy offload'') @
     only_if (ed_residency_policy demand = VRAM_ONLY \<and> md_estimated_size_mb (ed_model demand) = None)
       (blocking_reason ''model-size-required-for-vram-only''
         ''ExLlamaV3 vram_only planning requires estimated model size'') @
     (if (case md_estimated_size_mb (ed_model demand) of None \<Rightarrow> False | Some n \<Rightarrow> n > total_vram_mb resources)
      then [blocking_reason ''model-exceeds-total-vram''
        ''estimated EXL3 model size exceeds Worker total VRAM before KV cache and runtime overhead'']
      else only_if (ed_residency_policy demand = VRAM_ONLY) (note_reason ''vram-overhead-not-proven-by-model-size''
        ''model-size fit does not include KV cache/runtime overhead; declare explicit VRAM minima for a hard deployment floor''))"

definition exllama_compatibility :: "exllama_config \<Rightarrow> runtime_context \<Rightarrow> runtime_compatibility res" where
  "exllama_compatibility config context = (let demand = cx_demand context; worker = cx_worker context;
     resources = ws_resources worker; topology = ed_gpu_topology demand;
     policy = exllama_launch_policy context config in
     rbind (worker_compute_capability worker) (\<lambda>capability.
     mk_runtime_compatibility exllama_provider_id (
       only_if (py_lower (hf_architecture (cx_host context)) \<notin> {''x86_64'', ''amd64''})
         (blocking_reason ''architecture-unsupported'' ''current ExLlamaV3/TabbyAPI Linux wheel path targets x86_64'') @
       only_if (md_model_format (ed_model demand) \<notin> {''exl3'', ''exllamav3''}) (blocking_reason ''model-format-unsupported''
         ''AstrumWeaver ExLlamaV3 provider requires an EXL3 model'') @
       capability_reasons capability @
       only_if (topology = TOPO_NONE \<or> gpu_count resources = 0) (blocking_reason ''gpu-required''
         ''ExLlamaV3 requires an NVIDIA GPU Worker'') @
       only_if (int (length (ws_gpu_uuids worker)) \<noteq> gpu_count resources) (blocking_reason ''gpu-identity-count-mismatch''
         ''Worker GPU UUID ownership does not match GPU resource count'') @
       (if topology = SINGLE_GPU then exllama_single_reasons resources policy else []) @
       only_if (case xp_autosplit_reserve_mb policy of None \<Rightarrow> False | Some xs \<Rightarrow> int (length xs) \<noteq> gpu_count resources)
         (blocking_reason ''autosplit-reserve-length-mismatch''
           ''ExLlamaV3 autosplit_reserve_mb must provide one value for every Worker-owned GPU'') @
       (if topology = MULTI_GPU then exllama_multi_reasons resources policy else []) @
       exllama_memory_reasons demand resources)))"

section \<open>Setup intent and runtime\<close>

definition exllama_configuration :: "exllama_config \<Rightarrow> runtime_context \<Rightarrow> obj \<Rightarrow> obj" where
  "exllama_configuration config context tabby = (let policy = exllama_launch_policy context config;
     model_ref = md_model_ref (ed_model (cx_demand context));
     (model_dir, model_name) = model_location model_ref (xc_model_dir config) in [
     (''base_url'', JStr (xc_base_url config)), (''executable'', JStr (xc_executable config)),
     (''entrypoint'', JStr (xc_entrypoint config)), (''config_path'', JStr (xc_config_path config)),
     (''model_ref'', JStr model_ref), (''model_dir'', JStr model_dir), (''served_model_name'', JStr model_name),
     (''gpu_uuids'', jstrs (xp_gpu_uuids policy)),
     (''multi_gpu_mode'', JStr (multi_gpu_mode_value (xp_multi_gpu_mode policy))),
     (''tensor_parallel'', JBool (xp_tensor_parallel policy)),
     (''tensor_parallel_backend'', JStr (xp_tensor_parallel_backend policy)),
     (''gpu_split_auto'', JBool (xp_gpu_split_auto policy)), (''gpu_split'', json_floats (xp_gpu_split policy)),
     (''autosplit_reserve_mb'', json_ints (xp_autosplit_reserve_mb policy)),
     (''cache_mode'', JStr (xp_cache_mode policy)), (''max_seq_len'', xp_max_seq_len policy),
     (''max_batch_size'', xp_max_batch_size policy), (''tabby_config'', JObj tabby),
     (''capabilities'', jstrs served_capabilities)])"

definition exllama_setup_intent :: "exllama_config \<Rightarrow> runtime_context \<Rightarrow> runtime_setup_intent res" where
  "exllama_setup_intent config context = rbind (exllama_compatibility config context) (\<lambda>report.
     if \<not> compatible report then Inl (RuntimeError (Inconsistent ''execution demand''))
     else let model_ref = md_model_ref (ed_model (cx_demand context));
       (model_dir, model_name) = model_location model_ref (xc_model_dir config) in
       rbind (tabby_config (xc_base_url config) model_dir model_name (exllama_launch_policy context config)) (\<lambda>tabby.
       mk_runtime_setup_intent exllama_provider_id (xc_package_references config)
         (exllama_configuration config context tabby) (model_preparation model_ref) (JStr model_ref) True
         [(''runtime_provider'', JStr exllama_provider_id), (''serving_backend'', JStr ''tabbyapi'')]))"

text \<open>GPUs and mode of the intent, when it names them, must be those of the worker and the policy.\<close>

definition exllama_check_ownership :: "exllama_policy \<Rightarrow> obj \<Rightarrow> unit res" where
  "exllama_check_ownership policy cfg =
     rbind (rbind (py_iter (cfg_get cfg ''gpu_uuids'' (JList []))) (rmap py_str)) (\<lambda>configured.
     if configured \<noteq> [] \<and> configured \<noteq> xp_gpu_uuids policy then Inl (ValueError (Inconsistent ''gpu_uuids''))
     else rbind (multi_gpu_mode_of (cfg_get cfg ''multi_gpu_mode''
         (JStr (multi_gpu_mode_value (xp_multi_gpu_mode policy))))) (\<lambda>mode.
       if mode \<noteq> xp_multi_gpu_mode policy then Inl (ValueError (Inconsistent ''multi_gpu_mode'')) else Inr ()))"

definition exllama_create_runtime ::
  "exllama_config \<Rightarrow> runtime_context \<Rightarrow> runtime_setup_intent \<Rightarrow> exllama_runtime res" where
  "exllama_create_runtime config context setup =
     (if si_provider_id setup \<noteq> exllama_provider_id then Inl (ValueError (Inconsistent ''provider_id''))
      else rbind (exllama_compatibility config context) (\<lambda>report.
        if \<not> compatible report then Inl (RuntimeError (Inconsistent ''execution demand''))
        else let cfg = si_configuration setup; policy = exllama_launch_policy context config in
          rbind (exllama_check_ownership policy cfg) (\<lambda>_.
          rbind (cfg_text cfg ''base_url'' (xc_base_url config)) (\<lambda>base_url.
          rbind (cfg_text cfg ''model_ref'' (md_model_ref (ed_model (cx_demand context)))) (\<lambda>model_ref.
          rbind (cfg_text cfg ''served_model_name'' (snd (model_location model_ref (xc_model_dir config)))) (\<lambda>served.
          rbind (cfg_text cfg ''executable'' (xc_executable config)) (\<lambda>executable.
          rbind (cfg_text cfg ''entrypoint'' (xc_entrypoint config)) (\<lambda>entrypoint.
          rbind (cfg_text cfg ''config_path'' (xc_config_path config)) (\<lambda>config_path.
          rbind (number_value (xc_startup_timeout_seconds config)) (\<lambda>timeout.
          rbind (runtime_nonblank model_ref ''model_ref'') (\<lambda>_.
          rbind (runtime_nonblank served ''served_model_name'') (\<lambda>_.
            Inr \<lparr>xr_context = context, xr_model_ref = model_ref, xr_served_model_name = served,
                 xr_executable = executable, xr_entrypoint = entrypoint, xr_config_path = config_path,
                 xr_base_url = base_url, xr_policy = policy, xr_timeout = timeout\<rparr>))))))))))))"

section \<open>Lemmas\<close>

interpretation exllama: owned_server ops "exllama_server ops rt" for ops rt
  by (rule oai_owned_server [where p = "body_health ops ''healthy''"])
    (simp_all add: exllama_server_def exllama_process_start_def body_health_time)

lemma multi_gpu_mode_of_value [simp]: "multi_gpu_mode_of (JStr (multi_gpu_mode_value m)) = Inr m"
  by (cases m) (simp_all add: multi_gpu_mode_of_def enum_of_def)

lemma mk_exllama_config_texts:
  assumes "mk_exllama_config given = Inr config"
  shows "xc_base_url config \<noteq> [] \<and> norm_text (xc_executable config) \<and> norm_text (xc_entrypoint config) \<and>
    norm_text (xc_config_path config) \<and> (\<exists>t. number_value (xc_startup_timeout_seconds config) = Inr t)"
  using assms unfolding mk_exllama_config_def rbind_eq_Inr
  by (auto dest: loopback_endpoint_nonempty text_arg_Inr positive_arg_Inr)

lemma exllama_provider_norm: "norm_text exllama_provider_id"
  by (simp add: exllama_provider_id_def norm_text_def py_strip_def is_space_def)

lemma exllama_intent_runtime:
  assumes "mk_exllama_config given = Inr config" "exllama_setup_intent config context = Inr setup"
    and "norm_text (md_model_ref (ed_model (cx_demand context)))"
    and "py_strip (snd (model_location (md_model_ref (ed_model (cx_demand context))) (xc_model_dir config))) \<noteq> []"
  shows "\<exists>rt. exllama_create_runtime config context setup = Inr rt \<and> xr_context rt = context \<and>
    xr_policy rt = exllama_launch_policy context config \<and> xr_model_ref rt = md_model_ref (ed_model (cx_demand context)) \<and>
    xr_base_url rt = xc_base_url config \<and> xr_executable rt = xc_executable config"
proof -
  let ?ref = "md_model_ref (ed_model (cx_demand context))" and ?p = "exllama_launch_policy context config"
  obtain dir nm where loc: "model_location ?ref (xc_model_dir config) = (dir, nm)" by fastforce
  from assms(2) loc obtain report tabby where r: "exllama_compatibility config context = Inr report" "compatible report"
    and s: "si_provider_id setup = exllama_provider_id" "si_configuration setup = exllama_configuration config context tabby"
    using mk_setup_intent_Inr [OF _ exllama_provider_norm]
    by (auto simp: exllama_setup_intent_def rbind_eq_Inr Let_def split: if_splits)
  from mk_exllama_config_texts [OF assms(1)] obtain t where c: "xc_base_url config \<noteq> []" "xc_executable config \<noteq> []"
    "xc_entrypoint config \<noteq> []" "xc_config_path config \<noteq> []"
    "number_value (xc_startup_timeout_seconds config) = Inr t" by (auto simp: norm_text_def)
  have ref: "?ref \<noteq> []" using assms(3) by (auto simp: norm_text_def)
  have nm: "nm \<noteq> []" "runtime_nonblank nm ''served_model_name'' = Inr (py_strip nm)"
    using assms(4) loc by (auto simp: runtime_nonblank_def Let_def py_strip_def)
  let ?cfg = "exllama_configuration config context tabby"
  have keys: "json_get ?cfg ''base_url'' = JStr (xc_base_url config)" "json_get ?cfg ''executable'' = JStr (xc_executable config)"
    "json_get ?cfg ''entrypoint'' = JStr (xc_entrypoint config)" "json_get ?cfg ''config_path'' = JStr (xc_config_path config)"
    "json_get ?cfg ''model_ref'' = JStr ?ref" "json_get ?cfg ''served_model_name'' = JStr nm"
    and own: "dict_get ?cfg ''gpu_uuids'' = Some (jstrs (xp_gpu_uuids ?p))"
    "dict_get ?cfg ''multi_gpu_mode'' = Some (JStr (multi_gpu_mode_value (xp_multi_gpu_mode ?p)))"
    using loc by (simp_all add: exllama_configuration_def json_get_def Let_def)
  have "exllama_check_ownership ?p ?cfg = Inr ()"
    unfolding exllama_check_ownership_def cfg_get_def own by (simp add: rmap_map_Inr)
  then show ?thesis
    using r s c ref keys nm assms(3) by (simp add: exllama_create_runtime_def cfg_text_def Let_def)
qed

text \<open>An accepted demand runs on GPUs only, and its model fits into their memory.\<close>

lemma exllama_fits:
  assumes "exllama_compatibility config context = Inr report" "compatible report"
  shows "ed_residency_policy (cx_demand context) \<noteq> CPU_GPU_HYBRID \<and>
    (\<forall>n. md_estimated_size_mb (ed_model (cx_demand context)) = Some n \<longrightarrow> n \<le> total_vram_mb (ws_resources (cx_worker context))) \<and>
    (ed_residency_policy (cx_demand context) = VRAM_ONLY \<longrightarrow> md_estimated_size_mb (ed_model (cx_demand context)) \<noteq> None)"
proof -
  have "\<not> list_ex cr_blocking (exllama_memory_reasons (cx_demand context) (ws_resources (cx_worker context)))"
    using assms by (auto simp: exllama_compatibility_def mk_runtime_compatibility_def compatible_def rbind_eq_Inr Let_def)
  then show ?thesis
    by (auto simp: exllama_memory_reasons_def split: if_splits)
qed

end
