(* ===== verification/Provider_Config.thy ===== *)
theory Provider_Config
  imports Provider_Ollama Provider_Llama Provider_Vllm Provider_Freetoken Provider_Exllama
begin

text \<open>
  The provider configurations as a deployment stores them: \<open>_json_value(config)\<close> of
  \<open>src/src/astrumweaver/runtime/deployment.py\<close> writes the fields of the dataclass, and
  \<open>Config(**fields)\<close> reads them back. The lemmas show that a configuration which was accepted is read
  back as it was, provided that its endpoint does not end in white space; the only field a second
  reading can change is an endpoint whose last slash was preceded by white space.
\<close>

section \<open>Reading an argument again\<close>

lemma dict_merge_same_keys:
  "map fst a = map fst b \<Longrightarrow> distinct (map fst (xs @ a)) \<Longrightarrow> dict_merge (xs @ a) b = xs @ b"
proof (induction a arbitrary: b xs)
  case Nil
  then show ?case by simp
next
  case (Cons p a)
  obtain k v v' b' where p: "p = (k, v)" and b: "b = (k, v') # b'"
    using Cons.prems(1) by (cases p; cases b) auto
  have fresh: "k \<notin> fst ` set xs" using Cons.prems(2) p by auto
  have "dict_set k v' (ys @ (k, v) # a) = ys @ (k, v') # a" if "k \<notin> fst ` set ys" for ys
    using that by (induction ys) auto
  with fresh have "dict_set k v' (xs @ p # a) = (xs @ [(k, v')]) @ a" by (simp add: p)
  with Cons.IH [of b' "xs @ [(k, v')]"] Cons.prems show ?case by (simp add: p b)
qed

lemma dataclass_args_full:
  assumes "map fst defaults = map fst given" "distinct (map fst defaults)"
  shows "dataclass_args defaults given = Inr given"
proof -
  have "fst ` set defaults = fst ` set given" using assms(1) by (metis list.set_map)
  then show ?thesis
    using dict_merge_same_keys [of defaults given "[]"] assms by (auto simp: dataclass_args_def list_all_iff)
qed

named_theorems read_again \<open>an argument that was accepted is accepted again\<close>

lemma text_arg_again: "norm_text s \<Longrightarrow> json_get d k = JStr s \<Longrightarrow> text_arg d k = Inr s"
  by (simp add: text_arg_def)

text \<open>An argument is checked through its value only, and returned as it is.\<close>

lemma checked_again:
  assumes "\<And>d d'. json_get d k = json_get d' k \<Longrightarrow> f d k = f d' k" "\<And>d v. f d k = Inr v \<Longrightarrow> json_get d k = v"
    and "f d k = Inr v" "json_get d' k = v"
  shows "f d' k = Inr v"
  using assms by metis

lemma positive_arg_again [read_again]:
  "positive_arg d k = Inr v \<Longrightarrow> json_get d' k = v \<Longrightarrow> positive_arg d' k = Inr v"
  by (rule checked_again [of k positive_arg]) (simp_all add: positive_arg_def rbind_def split: if_splits sum.splits)

lemma nonnegative_arg_again [read_again]:
  "nonnegative_arg d k = Inr v \<Longrightarrow> json_get d' k = v \<Longrightarrow> nonnegative_arg d' k = Inr v"
  by (rule checked_again [of k nonnegative_arg]) (simp_all add: nonnegative_arg_def rbind_def split: if_splits sum.splits)

lemma fraction_arg_again [read_again]:
  "fraction_arg d k = Inr v \<Longrightarrow> json_get d' k = v \<Longrightarrow> fraction_arg d' k = Inr v"
  by (rule checked_again [of k fraction_arg]) (simp_all add: fraction_arg_def rbind_def split: if_splits sum.splits)

lemma max_fetch_arg_again [read_again]:
  "max_fetch_arg d k = Inr v \<Longrightarrow> json_get d' k = v \<Longrightarrow> max_fetch_arg d' k = Inr v"
  by (rule checked_again [of k max_fetch_arg]) (simp_all add: max_fetch_arg_def rbind_def split: if_splits sum.splits)

lemma not_bool_arg_again [read_again]:
  "not_bool_arg d k = Inr v \<Longrightarrow> json_get d' k = v \<Longrightarrow> not_bool_arg d' k = Inr v"
  by (rule checked_again [of k not_bool_arg]) (simp_all add: not_bool_arg_def split: json.splits)

lemma optional_arg_again:
  assumes "optional_arg f d k = Inr v" "json_get d' k = v"
    and "\<And>x. f d k = Inr x \<Longrightarrow> json_get d' k = x \<Longrightarrow> f d' k = Inr x"
  shows "optional_arg f d' k = Inr v"
  using assms by (auto simp: optional_arg_def split: if_splits)

lemmas optional_again [read_again] =
  optional_arg_again [of positive_arg, OF _ _ positive_arg_again]
  optional_arg_again [of nonnegative_arg, OF _ _ nonnegative_arg_again]
  optional_arg_again [of fraction_arg, OF _ _ fraction_arg_again]
  optional_arg_again [of max_fetch_arg, OF _ _ max_fetch_arg_again]

lemma tuple_arg_again:
  assumes "tuple_arg f bad d k = Inr xs" "json_get d' k = json_option (\<lambda>ys. JList (map g ys)) xs"
    and "\<And>x. f (g x) = Inr x"
  shows "tuple_arg f bad d' k = Inr xs"
  using assms by (cases xs) (auto simp: tuple_arg_def json_option_def rbind_eq_Inr rmap_map_Inr split: if_splits)

lemma floats_again [read_again]:
  "tuple_arg py_float_of bad d k = Inr xs \<Longrightarrow> json_get d' k = json_floats xs \<Longrightarrow> tuple_arg py_float_of bad d' k = Inr xs"
  by (rule tuple_arg_again [where g = JFloat]) (simp_all add: json_floats_def)

lemma ints_again [read_again]:
  "tuple_arg py_int bad d k = Inr xs \<Longrightarrow> json_get d' k = json_ints xs \<Longrightarrow> tuple_arg py_int bad d' k = Inr xs"
  by (rule tuple_arg_again [where g = JInt]) (simp_all add: json_ints_def)

lemma rstrip_slashes_idem [simp]: "rstrip_slashes (rstrip_slashes s) = rstrip_slashes s"
  by (simp add: rstrip_slashes_def dropWhile_idem)

lemma loopback_endpoint_again:
  assumes "loopback_endpoint url = Inr base" "py_strip base = base"
  shows "loopback_endpoint base = Inr base"
proof -
  have "base \<noteq> []" "rstrip_slashes base = base"
    using assms(1) loopback_endpoint_nonempty
    by (auto simp: loopback_endpoint_def rbind_eq_Inr Let_def split: if_splits)
  then have "runtime_nonblank base ''base_url'' = Inr base" using assms(2) by (simp add: runtime_nonblank_def)
  with assms(1) \<open>rstrip_slashes base = base\<close> show ?thesis
    by (auto simp: loopback_endpoint_def rbind_eq_Inr Let_def split: if_splits)
qed

section \<open>Ollama\<close>

definition ollama_config_json :: "ollama_config \<Rightarrow> obj" where
  "ollama_config_json c = [(''base_url'', JStr (oc_base_url c)), (''executable'', JStr (oc_executable c)),
     (''package_reference'', JStr (oc_package_reference c)), (''keep_alive'', JStr (oc_keep_alive c)),
     (''startup_timeout_seconds'', oc_startup_timeout_seconds c), (''no_cloud'', oc_no_cloud c)]"

lemma ollama_config_roundtrip:
  assumes made: "mk_ollama_config given = Inr c" and base: "py_strip (oc_base_url c) = oc_base_url c"
  shows "mk_ollama_config (ollama_config_json c) = Inr c"
proof -
  let ?j = "ollama_config_json c"
  have args: "dataclass_args ollama_defaults ?j = Inr ?j"
    by (rule dataclass_args_full) (simp_all add: ollama_defaults_def ollama_config_json_def)
  have get: "json_get ?j ''base_url'' = JStr (oc_base_url c)" "json_get ?j ''executable'' = JStr (oc_executable c)"
    "json_get ?j ''package_reference'' = JStr (oc_package_reference c)" "json_get ?j ''keep_alive'' = JStr (oc_keep_alive c)"
    "json_get ?j ''startup_timeout_seconds'' = oc_startup_timeout_seconds c" "json_get ?j ''no_cloud'' = oc_no_cloud c"
    by (simp_all add: ollama_config_json_def json_get_def)
  from made obtain d u where d: "positive_arg d ''startup_timeout_seconds'' = Inr (oc_startup_timeout_seconds c)"
    and u: "urlsplit (oc_base_url c) = Inr u" "loopback u" "rstrip_slashes (oc_base_url c) = oc_base_url c"
    by (auto simp: mk_ollama_config_def rbind_eq_Inr Let_def split: if_splits)
  note t = mk_ollama_config_texts [OF made]
  have "text_arg ?j ''base_url'' = Inr (oc_base_url c)"
    by (rule text_arg_again) (simp_all add: get norm_text_def t base)
  moreover have "text_arg ?j ''executable'' = Inr (oc_executable c)" "text_arg ?j ''package_reference'' = Inr (oc_package_reference c)"
    "text_arg ?j ''keep_alive'' = Inr (oc_keep_alive c)"
    by (simp_all add: text_arg_again get t)
  ultimately show ?thesis
    unfolding mk_ollama_config_def args
    by (simp add: u positive_arg_again [OF d get(5)] get(6))
qed

lemma gpu_layers_again: "gpu_layers_arg v = Inr w \<Longrightarrow> gpu_layers_arg w = Inr w"
  by (auto simp: gpu_layers_arg_def rbind_eq_Inr split: json.splits if_splits)

lemma split_mode_again [simp]: "split_mode_arg (json_option (\<lambda>m. JStr (split_mode_value m)) x) = Inr x"
  by (cases x) (simp_all add: split_mode_arg_def json_option_def)

section \<open>llama.cpp\<close>

definition llama_config_json :: "llama_config \<Rightarrow> obj" where
  "llama_config_json c = [
     (''base_url'', JStr (lc_base_url c)),
     (''executable'', JStr (lc_executable c)),
     (''package_reference'', JStr (lc_package_reference c)),
     (''startup_timeout_seconds'', lc_startup_timeout_seconds c),
     (''request_timeout_seconds'', lc_request_timeout_seconds c),
     (''context_size'', lc_context_size c),
     (''gpu_layers'', lc_gpu_layers c),
     (''split_mode'', json_option (\<lambda>m. JStr (split_mode_value m)) (lc_split_mode c)),
     (''tensor_split'', json_floats (lc_tensor_split c)),
     (''main_gpu'', lc_main_gpu c),
     (''fit'', lc_fit c),
     (''fit_target_mb'', json_ints (lc_fit_target_mb c)),
     (''cpu_moe'', lc_cpu_moe c),
     (''n_cpu_moe'', lc_n_cpu_moe c),
     (''n_cpu_ffn'', lc_n_cpu_ffn c),
     (''offline'', lc_offline c),
     (''no_webui'', lc_no_webui c)]"

lemma llama_config_roundtrip:
  assumes made: "mk_llama_config given = Inr c" and base: "py_strip (lc_base_url c) = lc_base_url c"
  shows "mk_llama_config (llama_config_json c) = Inr c"
proof -
  let ?j = "llama_config_json c"
  have args: "dataclass_args llama_defaults ?j = Inr ?j"
    by (rule dataclass_args_full) (simp_all add: llama_defaults_def llama_config_json_def)
  have get: "json_get ?j ''base_url'' = JStr (lc_base_url c)"
    "json_get ?j ''executable'' = JStr (lc_executable c)"
    "json_get ?j ''package_reference'' = JStr (lc_package_reference c)"
    "json_get ?j ''startup_timeout_seconds'' = lc_startup_timeout_seconds c"
    "json_get ?j ''request_timeout_seconds'' = lc_request_timeout_seconds c"
    "json_get ?j ''context_size'' = lc_context_size c"
    "json_get ?j ''gpu_layers'' = lc_gpu_layers c"
    "json_get ?j ''split_mode'' = json_option (\<lambda>m. JStr (split_mode_value m)) (lc_split_mode c)"
    "json_get ?j ''tensor_split'' = json_floats (lc_tensor_split c)"
    "json_get ?j ''main_gpu'' = lc_main_gpu c"
    "json_get ?j ''fit'' = lc_fit c"
    "json_get ?j ''fit_target_mb'' = json_ints (lc_fit_target_mb c)"
    "json_get ?j ''cpu_moe'' = lc_cpu_moe c"
    "json_get ?j ''n_cpu_moe'' = lc_n_cpu_moe c"
    "json_get ?j ''n_cpu_ffn'' = lc_n_cpu_ffn c"
    "json_get ?j ''offline'' = lc_offline c"
    "json_get ?j ''no_webui'' = lc_no_webui c"
    by (simp_all add: llama_config_json_def json_get_def)
  from made obtain d url where f: "loopback_endpoint url = Inr (lc_base_url c)"
      "text_arg d ''executable'' = Inr (lc_executable c)"
      "text_arg d ''package_reference'' = Inr (lc_package_reference c)"
      "positive_arg d ''startup_timeout_seconds'' = Inr (lc_startup_timeout_seconds c)"
      "positive_arg d ''request_timeout_seconds'' = Inr (lc_request_timeout_seconds c)"
      "nonnegative_arg d ''context_size'' = Inr (lc_context_size c)"
      "gpu_layers_arg (lc_gpu_layers c) = Inr (lc_gpu_layers c)"
      "tuple_arg py_float_of not_above_zero d ''tensor_split'' = Inr (lc_tensor_split c)"
      "nonnegative_arg d ''main_gpu'' = Inr (lc_main_gpu c)"
      "tuple_arg py_int (\<lambda>n. n < 0) d ''fit_target_mb'' = Inr (lc_fit_target_mb c)"
      "optional_arg nonnegative_arg d ''n_cpu_moe'' = Inr (lc_n_cpu_moe c)"
      "optional_arg nonnegative_arg d ''n_cpu_ffn'' = Inr (lc_n_cpu_ffn c)"
    unfolding mk_llama_config_def rbind_eq_Inr by (auto dest: gpu_layers_again)
  note again = loopback_endpoint_again [OF f(1) base]
    text_arg_again [OF text_arg_Inr [OF f(2)] get(2)]
    text_arg_again [OF text_arg_Inr [OF f(3)] get(3)]
    positive_arg_again [OF f(4) get(4)]
    positive_arg_again [OF f(5) get(5)]
    nonnegative_arg_again [OF f(6) get(6)]
    floats_again [OF f(8) get(9)]
    nonnegative_arg_again [OF f(9) get(10)]
    ints_again [OF f(10) get(12)]
    optional_again(2) [OF f(11) get(14)]
    optional_again(2) [OF f(12) get(15)]
  show ?thesis
    unfolding mk_llama_config_def args rbind_Inr again get
    by (simp add: again f(7) )
qed

section \<open>vLLM\<close>

definition vllm_config_json :: "vllm_config \<Rightarrow> obj" where
  "vllm_config_json c = [
     (''base_url'', JStr (vc_base_url c)),
     (''executable'', JStr (vc_executable c)),
     (''package_reference'', JStr (vc_package_reference c)),
     (''startup_timeout_seconds'', vc_startup_timeout_seconds c),
     (''request_timeout_seconds'', vc_request_timeout_seconds c),
     (''served_model_name'', JStr (vc_served_model_name c)),
     (''gpu_memory_utilization'', vc_gpu_memory_utilization c),
     (''tensor_parallel_size'', vc_tensor_parallel_size c),
     (''enable_expert_parallel'', vc_enable_expert_parallel c),
     (''cpu_offload_gb'', vc_cpu_offload_gb c),
     (''generation_config'', JStr (vc_generation_config c)),
     (''trust_remote_code'', vc_trust_remote_code c),
     (''enforce_eager'', vc_enforce_eager c)]"

lemma vllm_config_roundtrip:
  assumes made: "mk_vllm_config given = Inr c" and base: "py_strip (vc_base_url c) = vc_base_url c"
  shows "mk_vllm_config (vllm_config_json c) = Inr c"
proof -
  let ?j = "vllm_config_json c"
  have args: "dataclass_args vllm_defaults ?j = Inr ?j"
    by (rule dataclass_args_full) (simp_all add: vllm_defaults_def vllm_config_json_def)
  have get: "json_get ?j ''base_url'' = JStr (vc_base_url c)"
    "json_get ?j ''executable'' = JStr (vc_executable c)"
    "json_get ?j ''package_reference'' = JStr (vc_package_reference c)"
    "json_get ?j ''startup_timeout_seconds'' = vc_startup_timeout_seconds c"
    "json_get ?j ''request_timeout_seconds'' = vc_request_timeout_seconds c"
    "json_get ?j ''served_model_name'' = JStr (vc_served_model_name c)"
    "json_get ?j ''gpu_memory_utilization'' = vc_gpu_memory_utilization c"
    "json_get ?j ''tensor_parallel_size'' = vc_tensor_parallel_size c"
    "json_get ?j ''enable_expert_parallel'' = vc_enable_expert_parallel c"
    "json_get ?j ''cpu_offload_gb'' = vc_cpu_offload_gb c"
    "json_get ?j ''generation_config'' = JStr (vc_generation_config c)"
    "json_get ?j ''trust_remote_code'' = vc_trust_remote_code c"
    "json_get ?j ''enforce_eager'' = vc_enforce_eager c"
    by (simp_all add: vllm_config_json_def json_get_def)
  from made obtain d url where f: "loopback_endpoint url = Inr (vc_base_url c)"
      "text_arg d ''executable'' = Inr (vc_executable c)"
      "text_arg d ''package_reference'' = Inr (vc_package_reference c)"
      "positive_arg d ''startup_timeout_seconds'' = Inr (vc_startup_timeout_seconds c)"
      "positive_arg d ''request_timeout_seconds'' = Inr (vc_request_timeout_seconds c)"
      "text_arg d ''served_model_name'' = Inr (vc_served_model_name c)"
      "fraction_arg d ''gpu_memory_utilization'' = Inr (vc_gpu_memory_utilization c)"
      "optional_arg positive_arg d ''tensor_parallel_size'' = Inr (vc_tensor_parallel_size c)"
      "nonnegative_arg d ''cpu_offload_gb'' = Inr (vc_cpu_offload_gb c)"
      "text_arg d ''generation_config'' = Inr (vc_generation_config c)"
    unfolding mk_vllm_config_def rbind_eq_Inr by (auto)
  note again = loopback_endpoint_again [OF f(1) base]
    text_arg_again [OF text_arg_Inr [OF f(2)] get(2)]
    text_arg_again [OF text_arg_Inr [OF f(3)] get(3)]
    positive_arg_again [OF f(4) get(4)]
    positive_arg_again [OF f(5) get(5)]
    text_arg_again [OF text_arg_Inr [OF f(6)] get(6)]
    fraction_arg_again [OF f(7) get(7)]
    optional_again(1) [OF f(8) get(8)]
    nonnegative_arg_again [OF f(9) get(10)]
    text_arg_again [OF text_arg_Inr [OF f(10)] get(11)]
  show ?thesis
    unfolding mk_vllm_config_def args rbind_Inr again get
    by (simp add: again  )
qed

section \<open>FreeToken\<close>

definition freetoken_config_json :: "freetoken_config \<Rightarrow> obj" where
  "freetoken_config_json c = [
     (''base_url'', JStr (fc_base_url c)),
     (''executable'', JStr (fc_executable c)),
     (''package_reference'', JStr (fc_package_reference c)),
     (''startup_timeout_seconds'', fc_startup_timeout_seconds c),
     (''request_timeout_seconds'', fc_request_timeout_seconds c),
     (''served_model_name'', JStr (fc_served_model_name c)),
     (''moe_strategy'', JStr (moe_strategy_value (fc_moe_strategy c))),
     (''memory_ratio'', fc_memory_ratio c),
     (''moe_cache_size'', fc_moe_cache_size c),
     (''moe_cache_rate'', fc_moe_cache_rate c),
     (''moe_cpu_threads'', fc_moe_cpu_threads c),
     (''moe_cpu_layers'', fc_moe_cpu_layers c),
     (''moe_hybrid_max_fetch'', fc_moe_hybrid_max_fetch c),
     (''max_running_requests'', fc_max_running_requests c)]"

lemma freetoken_config_roundtrip:
  assumes made: "mk_freetoken_config given = Inr c" and base: "py_strip (fc_base_url c) = fc_base_url c"
  shows "mk_freetoken_config (freetoken_config_json c) = Inr c"
proof -
  let ?j = "freetoken_config_json c"
  have args: "dataclass_args freetoken_defaults ?j = Inr ?j"
    by (rule dataclass_args_full) (simp_all add: freetoken_defaults_def freetoken_config_json_def)
  have get: "json_get ?j ''base_url'' = JStr (fc_base_url c)"
    "json_get ?j ''executable'' = JStr (fc_executable c)"
    "json_get ?j ''package_reference'' = JStr (fc_package_reference c)"
    "json_get ?j ''startup_timeout_seconds'' = fc_startup_timeout_seconds c"
    "json_get ?j ''request_timeout_seconds'' = fc_request_timeout_seconds c"
    "json_get ?j ''served_model_name'' = JStr (fc_served_model_name c)"
    "json_get ?j ''moe_strategy'' = JStr (moe_strategy_value (fc_moe_strategy c))"
    "json_get ?j ''memory_ratio'' = fc_memory_ratio c"
    "json_get ?j ''moe_cache_size'' = fc_moe_cache_size c"
    "json_get ?j ''moe_cache_rate'' = fc_moe_cache_rate c"
    "json_get ?j ''moe_cpu_threads'' = fc_moe_cpu_threads c"
    "json_get ?j ''moe_cpu_layers'' = fc_moe_cpu_layers c"
    "json_get ?j ''moe_hybrid_max_fetch'' = fc_moe_hybrid_max_fetch c"
    "json_get ?j ''max_running_requests'' = fc_max_running_requests c"
    by (simp_all add: freetoken_config_json_def json_get_def)
  from made obtain d url where f: "loopback_endpoint url = Inr (fc_base_url c)"
      "text_arg d ''executable'' = Inr (fc_executable c)"
      "text_arg d ''package_reference'' = Inr (fc_package_reference c)"
      "positive_arg d ''startup_timeout_seconds'' = Inr (fc_startup_timeout_seconds c)"
      "positive_arg d ''request_timeout_seconds'' = Inr (fc_request_timeout_seconds c)"
      "text_arg d ''served_model_name'' = Inr (fc_served_model_name c)"
      "fraction_arg d ''memory_ratio'' = Inr (fc_memory_ratio c)"
      "optional_arg positive_arg d ''moe_cache_size'' = Inr (fc_moe_cache_size c)"
      "optional_arg fraction_arg d ''moe_cache_rate'' = Inr (fc_moe_cache_rate c)"
      "optional_arg positive_arg d ''moe_cpu_threads'' = Inr (fc_moe_cpu_threads c)"
      "not_bool_arg d ''moe_cpu_layers'' = Inr (fc_moe_cpu_layers c)"
      "optional_arg max_fetch_arg d ''moe_hybrid_max_fetch'' = Inr (fc_moe_hybrid_max_fetch c)"
      "positive_arg d ''max_running_requests'' = Inr (fc_max_running_requests c)"
      "exclusive_args (fc_moe_cache_size c) (fc_moe_cache_rate c) = Inr ()"
    unfolding mk_freetoken_config_def rbind_eq_Inr by (auto)
  note again = loopback_endpoint_again [OF f(1) base]
    text_arg_again [OF text_arg_Inr [OF f(2)] get(2)]
    text_arg_again [OF text_arg_Inr [OF f(3)] get(3)]
    positive_arg_again [OF f(4) get(4)]
    positive_arg_again [OF f(5) get(5)]
    text_arg_again [OF text_arg_Inr [OF f(6)] get(6)]
    fraction_arg_again [OF f(7) get(8)]
    optional_again(1) [OF f(8) get(9)]
    optional_again(3) [OF f(9) get(10)]
    optional_again(1) [OF f(10) get(11)]
    not_bool_arg_again [OF f(11) get(12)]
    optional_again(4) [OF f(12) get(13)]
    positive_arg_again [OF f(13) get(14)]
  show ?thesis
    unfolding mk_freetoken_config_def args rbind_Inr again get
    by (simp add: again  f(14))
qed

lemma package_args_again:
  assumes "package_args d = Inr xs" "json_get d' ''package_references'' = jstrs xs"
  shows "package_args d' = Inr xs"
proof -
  have "norm_text x" if "x \<in> set xs" for x
    using assms(1) that
    by (auto simp: package_args_def rbind_eq_Inr rmap_Inr runtime_nonblank_Inr in_set_conv_nth list_all2_conv_all_nth)
  then have "rmap (\<lambda>v. rbind (py_str v) (\<lambda>s. runtime_nonblank s ''package reference'')) (map JStr xs) = Inr xs"
    by (induction xs) auto
  then show ?thesis by (simp add: package_args_def assms(2))
qed

lemma backend_arg_again:
  "backend_arg d = Inr x \<Longrightarrow> json_get d' ''tensor_parallel_backend'' = JStr x \<Longrightarrow> backend_arg d' = Inr x"
proof -
  assume a: "backend_arg d = Inr x" and j: "json_get d' ''tensor_parallel_backend'' = JStr x"
  then have x: "text_arg d ''tensor_parallel_backend'' = Inr x" "x \<in> {''native'', ''nccl''}"
    by (simp_all add: backend_arg_def rbind_def split: sum.splits if_splits)
  with text_arg_again [OF text_arg_Inr [OF x(1)] j] show ?thesis by (auto simp: backend_arg_def)
qed

section \<open>ExLlamaV3\<close>

definition exllama_config_json :: "exllama_config \<Rightarrow> obj" where
  "exllama_config_json c = [
     (''base_url'', JStr (xc_base_url c)),
     (''executable'', JStr (xc_executable c)),
     (''entrypoint'', JStr (xc_entrypoint c)),
     (''config_path'', JStr (xc_config_path c)),
     (''package_references'', jstrs (xc_package_references c)),
     (''startup_timeout_seconds'', xc_startup_timeout_seconds c),
     (''request_timeout_seconds'', xc_request_timeout_seconds c),
     (''model_dir'', JStr (xc_model_dir c)),
     (''multi_gpu_mode'', JStr (multi_gpu_mode_value (xc_multi_gpu_mode c))),
     (''tensor_parallel_backend'', JStr (xc_tensor_parallel_backend c)),
     (''gpu_split'', json_floats (xc_gpu_split c)),
     (''cache_mode'', JStr (xc_cache_mode c)),
     (''max_seq_len'', xc_max_seq_len c),
     (''max_batch_size'', xc_max_batch_size c),
     (''autosplit_reserve_mb'', json_ints (xc_autosplit_reserve_mb c))]"

lemma exllama_config_roundtrip:
  assumes made: "mk_exllama_config given = Inr c" and base: "py_strip (xc_base_url c) = xc_base_url c"
  shows "mk_exllama_config (exllama_config_json c) = Inr c"
proof -
  let ?j = "exllama_config_json c"
  have args: "dataclass_args exllama_defaults ?j = Inr ?j"
    by (rule dataclass_args_full) (simp_all add: exllama_defaults_def exllama_config_json_def)
  have get: "json_get ?j ''base_url'' = JStr (xc_base_url c)"
    "json_get ?j ''executable'' = JStr (xc_executable c)"
    "json_get ?j ''entrypoint'' = JStr (xc_entrypoint c)"
    "json_get ?j ''config_path'' = JStr (xc_config_path c)"
    "json_get ?j ''package_references'' = jstrs (xc_package_references c)"
    "json_get ?j ''startup_timeout_seconds'' = xc_startup_timeout_seconds c"
    "json_get ?j ''request_timeout_seconds'' = xc_request_timeout_seconds c"
    "json_get ?j ''model_dir'' = JStr (xc_model_dir c)"
    "json_get ?j ''multi_gpu_mode'' = JStr (multi_gpu_mode_value (xc_multi_gpu_mode c))"
    "json_get ?j ''tensor_parallel_backend'' = JStr (xc_tensor_parallel_backend c)"
    "json_get ?j ''gpu_split'' = json_floats (xc_gpu_split c)"
    "json_get ?j ''cache_mode'' = JStr (xc_cache_mode c)"
    "json_get ?j ''max_seq_len'' = xc_max_seq_len c"
    "json_get ?j ''max_batch_size'' = xc_max_batch_size c"
    "json_get ?j ''autosplit_reserve_mb'' = json_ints (xc_autosplit_reserve_mb c)"
    by (simp_all add: exllama_config_json_def json_get_def)
  from made obtain d url where f: "loopback_endpoint url = Inr (xc_base_url c)"
      "text_arg d ''executable'' = Inr (xc_executable c)"
      "text_arg d ''entrypoint'' = Inr (xc_entrypoint c)"
      "text_arg d ''config_path'' = Inr (xc_config_path c)"
      "package_args d = Inr (xc_package_references c)"
      "positive_arg d ''startup_timeout_seconds'' = Inr (xc_startup_timeout_seconds c)"
      "positive_arg d ''request_timeout_seconds'' = Inr (xc_request_timeout_seconds c)"
      "text_arg d ''model_dir'' = Inr (xc_model_dir c)"
      "backend_arg d = Inr (xc_tensor_parallel_backend c)"
      "tuple_arg py_float_of not_above_zero d ''gpu_split'' = Inr (xc_gpu_split c)"
      "text_arg d ''cache_mode'' = Inr (xc_cache_mode c)"
      "optional_arg positive_arg d ''max_seq_len'' = Inr (xc_max_seq_len c)"
      "optional_arg positive_arg d ''max_batch_size'' = Inr (xc_max_batch_size c)"
      "tuple_arg py_int (\<lambda>n. n < 0) d ''autosplit_reserve_mb'' = Inr (xc_autosplit_reserve_mb c)"
    unfolding mk_exllama_config_def rbind_eq_Inr by (auto)
  note again = loopback_endpoint_again [OF f(1) base]
    text_arg_again [OF text_arg_Inr [OF f(2)] get(2)]
    text_arg_again [OF text_arg_Inr [OF f(3)] get(3)]
    text_arg_again [OF text_arg_Inr [OF f(4)] get(4)]
    package_args_again [OF f(5) get(5)]
    positive_arg_again [OF f(6) get(6)]
    positive_arg_again [OF f(7) get(7)]
    text_arg_again [OF text_arg_Inr [OF f(8)] get(8)]
    backend_arg_again [OF f(9) get(10)]
    floats_again [OF f(10) get(11)]
    text_arg_again [OF text_arg_Inr [OF f(11)] get(12)]
    optional_again(1) [OF f(12) get(13)]
    optional_again(1) [OF f(13) get(14)]
    ints_again [OF f(14) get(15)]
  show ?thesis
    unfolding mk_exllama_config_def args rbind_Inr again get
    by (simp add: again  )
qed

end
