(* ===== verification/Providers.thy ===== *)
theory Providers
  imports Provider_Config
begin

text \<open>
  The five first-class providers together: the table of provider classes that
  \<open>src/src/astrumweaver/runtime/deployment.py\<close> restores a deployment from, the runtimes they build,
  and what holds of all of them. The properties compose the providers with deployment and lifecycle.
\<close>

section \<open>The provider table\<close>

datatype builtin_config =
    Ollama ollama_config | Llama llama_config | Vllm vllm_config
  | Freetoken freetoken_config | Exllama exllama_config

fun builtin_provider :: "builtin_config \<Rightarrow> runtime_provider" where
  "builtin_provider (Ollama c) = \<lparr>rp_info = \<lparr>pi_provider_id = ollama_provider_id, pi_display_name = ''Ollama'',
       pi_description = ''General-purpose local model serving through Ollama.''\<rparr>,
     rp_config = Some (ollama_config_json c), rp_compatibility = ollama_compatibility,
     rp_setup_intent = ollama_setup_intent c\<rparr>"
| "builtin_provider (Llama c) = \<lparr>rp_info = \<lparr>pi_provider_id = llama_provider_id, pi_display_name = ''llama.cpp'',
       pi_description = ''GGUF runtime for GPU-resident, CPU/GPU hybrid, and heterogeneous multi-GPU inference.''\<rparr>,
     rp_config = Some (llama_config_json c), rp_compatibility = llama_compatibility c,
     rp_setup_intent = llama_setup_intent c\<rparr>"
| "builtin_provider (Vllm c) = \<lparr>rp_info = \<lparr>pi_provider_id = vllm_provider_id, pi_display_name = ''vLLM'',
       pi_description = ''GPU-resident high-throughput serving with tensor and expert parallelism.''\<rparr>,
     rp_config = Some (vllm_config_json c), rp_compatibility = vllm_compatibility c,
     rp_setup_intent = vllm_setup_intent c\<rparr>"
| "builtin_provider (Freetoken c) = \<lparr>rp_info = \<lparr>pi_provider_id = freetoken_provider_id, pi_display_name = ''FreeToken'',
       pi_description = ''RAM-heavy, VRAM-constrained MoE serving with explicit single-GPU ownership.''\<rparr>,
     rp_config = Some (freetoken_config_json c), rp_compatibility = freetoken_compatibility c,
     rp_setup_intent = freetoken_setup_intent c\<rparr>"
| "builtin_provider (Exllama c) = \<lparr>rp_info = \<lparr>pi_provider_id = exllama_provider_id, pi_display_name = ''ExLlamaV3'',
       pi_description = ''EXL3 consumer-NVIDIA VRAM-resident serving through the official TabbyAPI backend.''\<rparr>,
     rp_config = Some (exllama_config_json c), rp_compatibility = exllama_compatibility c,
     rp_setup_intent = exllama_setup_intent c\<rparr>"

definition configured :: "(obj \<Rightarrow> 'c res) \<Rightarrow> ('c \<Rightarrow> builtin_config) \<Rightarrow> obj \<Rightarrow> runtime_provider res" where
  "configured mk wrap fs = rbind (mk fs) (\<lambda>c. Inr (builtin_provider (wrap c)))"

definition builtin_types :: provider_types where
  "builtin_types = [
     (ollama_provider_id, configured mk_ollama_config Ollama),
     (llama_provider_id, configured mk_llama_config Llama),
     (vllm_provider_id, configured mk_vllm_config Vllm),
     (freetoken_provider_id, configured mk_freetoken_config Freetoken),
     (exllama_provider_id, configured mk_exllama_config Exllama)]"

text \<open>A configuration that some fields gave, and its endpoint.\<close>

fun builtin_made :: "builtin_config \<Rightarrow> bool" where
  "builtin_made (Ollama c) = (\<exists>fs. mk_ollama_config fs = Inr c)"
| "builtin_made (Llama c) = (\<exists>fs. mk_llama_config fs = Inr c)"
| "builtin_made (Vllm c) = (\<exists>fs. mk_vllm_config fs = Inr c)"
| "builtin_made (Freetoken c) = (\<exists>fs. mk_freetoken_config fs = Inr c)"
| "builtin_made (Exllama c) = (\<exists>fs. mk_exllama_config fs = Inr c)"

fun builtin_base_url :: "builtin_config \<Rightarrow> string" where
  "builtin_base_url (Ollama c) = oc_base_url c"
| "builtin_base_url (Llama c) = lc_base_url c"
| "builtin_base_url (Vllm c) = vc_base_url c"
| "builtin_base_url (Freetoken c) = fc_base_url c"
| "builtin_base_url (Exllama c) = xc_base_url c"

fun builtin_startup_timeout :: "builtin_config \<Rightarrow> json" where
  "builtin_startup_timeout (Ollama c) = oc_startup_timeout_seconds c"
| "builtin_startup_timeout (Llama c) = lc_startup_timeout_seconds c"
| "builtin_startup_timeout (Vllm c) = vc_startup_timeout_seconds c"
| "builtin_startup_timeout (Freetoken c) = fc_startup_timeout_seconds c"
| "builtin_startup_timeout (Exllama c) = xc_startup_timeout_seconds c"

section \<open>The runtimes\<close>

datatype builtin_runtime =
    Ollama_Runtime ollama_runtime | Llama_Runtime llama_runtime | Vllm_Runtime vllm_runtime
  | Freetoken_Runtime freetoken_runtime | Exllama_Runtime exllama_runtime

fun builtin_create_runtime :: "builtin_config \<Rightarrow> runtime_context \<Rightarrow> runtime_setup_intent \<Rightarrow> builtin_runtime res" where
  "builtin_create_runtime (Ollama c) cx s = rbind (ollama_create_runtime c cx s) (\<lambda>rt. Inr (Ollama_Runtime rt))"
| "builtin_create_runtime (Llama c) cx s = rbind (llama_create_runtime c cx s) (\<lambda>rt. Inr (Llama_Runtime rt))"
| "builtin_create_runtime (Vllm c) cx s = rbind (vllm_create_runtime c cx s) (\<lambda>rt. Inr (Vllm_Runtime rt))"
| "builtin_create_runtime (Freetoken c) cx s = rbind (freetoken_create_runtime c cx s) (\<lambda>rt. Inr (Freetoken_Runtime rt))"
| "builtin_create_runtime (Exllama c) cx s = rbind (exllama_create_runtime c cx s) (\<lambda>rt. Inr (Exllama_Runtime rt))"

fun builtin_server :: "'e env_ops \<Rightarrow> builtin_runtime \<Rightarrow> 'e server" where
  "builtin_server ops (Ollama_Runtime rt) = ollama_server ops rt"
| "builtin_server ops (Llama_Runtime rt) = llama_server ops rt"
| "builtin_server ops (Vllm_Runtime rt) = vllm_server ops rt"
| "builtin_server ops (Freetoken_Runtime rt) = freetoken_server ops rt"
| "builtin_server ops (Exllama_Runtime rt) = exllama_server ops rt"

text \<open>The executor of Ollama is built with the stripped model and keep-alive.\<close>

fun builtin_execute :: "'e env_ops \<Rightarrow> builtin_runtime \<Rightarrow> job_request \<Rightarrow> ('e, job_result) act" where
  "builtin_execute ops (Ollama_Runtime rt) = ollama_execute ops (py_strip (or_model rt)) (py_strip (or_keep_alive rt))"
| "builtin_execute ops (Llama_Runtime rt) = llama_execute ops rt"
| "builtin_execute ops (Vllm_Runtime rt) = vllm_execute ops rt"
| "builtin_execute ops (Freetoken_Runtime rt) = freetoken_execute ops rt"
| "builtin_execute ops (Exllama_Runtime rt) = exllama_execute ops rt"

text \<open>The name under which the server knows the bound model.\<close>

fun bound_name :: "builtin_runtime \<Rightarrow> string" where
  "bound_name (Ollama_Runtime rt) = py_strip (or_model rt)"
| "bound_name (Llama_Runtime rt) = py_strip (lr_model_alias rt)"
| "bound_name (Vllm_Runtime rt) = py_strip (vr_served_model_name rt)"
| "bound_name (Freetoken_Runtime rt) = py_strip (fr_served_model_name rt)"
| "bound_name (Exllama_Runtime rt) = py_strip (xr_served_model_name rt)"

text \<open>A runtime that serves the demanded model as the reviewed configuration says.\<close>

fun as_reviewed :: "builtin_config \<Rightarrow> runtime_context \<Rightarrow> builtin_runtime \<Rightarrow> bool" where
  "as_reviewed (Ollama c) cx (Ollama_Runtime rt) \<longleftrightarrow> or_context rt = cx \<and>
     or_model rt = md_model_ref (ed_model (cx_demand cx)) \<and> or_base_url rt = oc_base_url c \<and>
     or_executable rt = oc_executable c \<and> or_keep_alive rt = oc_keep_alive c \<and>
     or_no_cloud rt = py_truthy (oc_no_cloud c) \<and>
     or_sched_spread rt = (ed_gpu_topology (cx_demand cx) = MULTI_GPU)"
| "as_reviewed (Llama c) cx (Llama_Runtime rt) \<longleftrightarrow> lr_context rt = cx \<and>
     lr_policy rt = llama_launch_policy cx c \<and> lr_model_ref rt = md_model_ref (ed_model (cx_demand cx)) \<and>
     lr_base_url rt = lc_base_url c \<and> lr_executable rt = lc_executable c"
| "as_reviewed (Vllm c) cx (Vllm_Runtime rt) \<longleftrightarrow> vr_context rt = cx \<and>
     vr_policy rt = vllm_launch_policy cx c \<and> vr_model_ref rt = md_model_ref (ed_model (cx_demand cx)) \<and>
     vr_base_url rt = vc_base_url c \<and> vr_executable rt = vc_executable c"
| "as_reviewed (Freetoken c) cx (Freetoken_Runtime rt) \<longleftrightarrow> fr_context rt = cx \<and>
     fr_policy rt = freetoken_launch_policy cx c \<and> fr_model_ref rt = md_model_ref (ed_model (cx_demand cx)) \<and>
     fr_base_url rt = fc_base_url c \<and> fr_executable rt = fc_executable c \<and>
     ws_gpu_uuids (cx_worker cx) = [fp_gpu_uuid (fr_policy rt)]"
| "as_reviewed (Exllama c) cx (Exllama_Runtime rt) \<longleftrightarrow> xr_context rt = cx \<and>
     xr_policy rt = exllama_launch_policy cx c \<and> xr_model_ref rt = md_model_ref (ed_model (cx_demand cx)) \<and>
     xr_base_url rt = xc_base_url c \<and> xr_executable rt = xc_executable c"
| "as_reviewed _ _ _ \<longleftrightarrow> False"

text \<open>
  What \<open>create_runtime\<close> relies on beyond the checks of the configuration: values of the annotated
  types, and for ExLlamaV3 a model reference that names a directory.
\<close>

fun well_typed :: "builtin_config \<Rightarrow> runtime_context \<Rightarrow> bool" where
  "well_typed (Ollama c) cx = (\<exists>t. py_float_of (oc_startup_timeout_seconds c) = Inr t)"
| "well_typed (Llama c) cx = llama_typed c"
| "well_typed (Vllm c) cx = vllm_typed c"
| "well_typed (Freetoken c) cx = freetoken_typed c"
| "well_typed (Exllama c) cx =
     (py_strip (snd (model_location (md_model_ref (ed_model (cx_demand cx))) (xc_model_dir c))) \<noteq> [])"

section \<open>Lemmas\<close>

lemma builtin_owned: "owned_server ops (builtin_server ops rt)"
  by (cases rt) (simp_all add: ollama.owned_server_axioms llama.owned_server_axioms vllm.owned_server_axioms
      freetoken.owned_server_axioms exllama.owned_server_axioms)

lemmas builtin_ids = ollama_provider_id_def llama_provider_id_def vllm_provider_id_def
  freetoken_provider_id_def exllama_provider_id_def

lemma builtin_id_norm: "norm_text (rp_provider_id (builtin_provider c))"
  by (cases c) (simp_all add: builtin_ids norm_text_def py_strip_def is_space_def)

text \<open>The table rebuilds a provider from the configuration it was stored with.\<close>

lemma builtin_restored:
  assumes "builtin_made c" "py_strip (builtin_base_url c) = builtin_base_url c"
  shows "\<exists>make. dict_get builtin_types (rp_provider_id (builtin_provider c)) = Some make \<and>
    make (the (rp_config (builtin_provider c))) = Inr (builtin_provider c)"
  using assms
  by (cases c) (auto simp: builtin_types_def builtin_ids configured_def ollama_config_roundtrip llama_config_roundtrip
      vllm_config_roundtrip freetoken_config_roundtrip exllama_config_roundtrip)

text \<open>The intent of a provider gives the runtime that was reviewed.\<close>

lemma builtin_intent_runtime:
  assumes "builtin_made c" "rp_setup_intent (builtin_provider c) cx = Inr setup"
    and "norm_text (md_model_ref (ed_model (cx_demand cx)))" "well_typed c cx"
  shows "\<exists>rt. builtin_create_runtime c cx setup = Inr rt \<and> as_reviewed c cx rt"
proof (cases c)
  case (Ollama x)
  with assms obtain fs t where "mk_ollama_config fs = Inr x" "ollama_setup_intent x cx = Inr setup"
    "py_float_of (oc_startup_timeout_seconds x) = Inr t" by auto
  from ollama_intent_runtime [OF this(1,2) assms(3) this(3)] Ollama show ?thesis by simp
next
  case (Llama x)
  with assms obtain fs where "mk_llama_config fs = Inr x" "llama_setup_intent x cx = Inr setup" "llama_typed x" by auto
  from llama_intent_runtime [OF this(1,2) assms(3) this(3)] Llama show ?thesis by auto
next
  case (Vllm x)
  with assms obtain fs where "mk_vllm_config fs = Inr x" "vllm_setup_intent x cx = Inr setup" "vllm_typed x" by auto
  from vllm_intent_runtime [OF this(1,2) assms(3) this(3)] Vllm show ?thesis by auto
next
  case (Freetoken x)
  with assms obtain fs where "mk_freetoken_config fs = Inr x" "freetoken_setup_intent x cx = Inr setup" "freetoken_typed x" by auto
  from freetoken_intent_runtime [OF this(1,2) assms(3) this(3)] Freetoken show ?thesis by auto
next
  case (Exllama x)
  with assms obtain fs where "mk_exllama_config fs = Inr x" "exllama_setup_intent x cx = Inr setup"
    "py_strip (snd (model_location (md_model_ref (ed_model (cx_demand cx))) (xc_model_dir x))) \<noteq> []" by auto
  from exllama_intent_runtime [OF this(1,2) assms(3) this(3)] Exllama show ?thesis by auto
qed

text \<open>A provider gives an intent only for a demand it has no blocking reason against.\<close>

lemma builtin_intent_compatible:
  "rp_setup_intent (builtin_provider c) cx = Inr setup \<Longrightarrow>
    setup_intent_ok setup \<and> si_provider_id setup = rp_provider_id (builtin_provider c) \<and>
    (\<exists>report. rp_compatibility (builtin_provider c) cx = Inr report \<and> compatible report)"
  using builtin_id_norm [of c]
  by (cases c) (auto simp: ollama_setup_intent_def llama_setup_intent_def vllm_setup_intent_def freetoken_setup_intent_def
      exllama_setup_intent_def rbind_eq_Inr Let_def split: if_splits prod.splits
      dest: mk_runtime_setup_intent_ok mk_setup_intent_Inr)

end
