(* ===== verification/Provider_Props.thy ===== *)
theory Provider_Props
  imports Providers
begin

text \<open>
  The properties of the runtime providers: start-up, health, restoring a frozen deployment, VRAM-only
  demands, local endpoints and the requests an executor sends, for all five, with witnesses on a small
  scripted host.
\<close>

section \<open>Lemmas\<close>

fun builtin_executable :: "builtin_config \<Rightarrow> string" where
  "builtin_executable (Ollama c) = oc_executable c"
| "builtin_executable (Llama c) = lc_executable c"
| "builtin_executable (Vllm c) = vc_executable c"
| "builtin_executable (Freetoken c) = fc_executable c"
| "builtin_executable (Exllama c) = xc_executable c"

lemma int_of_gib_none: "int_of_gib v = Inr g \<Longrightarrow> \<not> num_above v 0 \<Longrightarrow> g \<le> 0"
  by (cases v) (auto simp: int_of_gib_def num_above_def not_less split: py_float.splits if_splits)

lemma loopback_endpoint_Inr:
  assumes "loopback_endpoint url = Inr base"
  shows "\<exists>u port. urlsplit base = Inr u \<and> loopback u \<and> url_port u = Inr (Some port) \<and> 0 \<le> port \<and> port \<le> 65535"
  using assms
  by (auto simp: loopback_endpoint_def rbind_eq_Inr Let_def url_port_def split: if_splits)

lemma positive_arg_above: "positive_arg d k = Inr v \<Longrightarrow> \<exists>t. number_value v = Inr t \<and> \<not> not_above_zero t"
  by (auto simp: positive_arg_def rbind_eq_Inr split: if_splits)

lemma abind_areturn: "abind (areturn x) k w = k x w"
  by (simp add: abind_def areturn_def)

text \<open>One request: what the reply makes of the call.\<close>

lemma api_call_outcome:
  assumes "\<And>d. \<exists>r. result d = Inr r \<and> re_outputs r = d"
  shows "case ev_http ops meth path body w of
      (Inl x, w') \<Rightarrow> abind (api_json ops meth path body) (\<lambda>d. apure (result d)) w = (Inl x, w')
    | (Inr reply, w') \<Rightarrow>
        if 200 \<le> hr_status reply \<and> hr_status reply \<le> 299 \<and> (\<exists>d. hr_json reply = Some (JObj d))
        then \<exists>r. abind (api_json ops meth path body) (\<lambda>d. apure (result d)) w = (Inr r, w') \<and> hr_json reply = Some (JObj (re_outputs r))
        else \<exists>x. abind (api_json ops meth path body) (\<lambda>d. apure (result d)) w = (Inl x, w')"
proof (cases "ev_http ops meth path body w")
  case (Pair q w')
  show ?thesis
  proof (cases q)
    case (Inr reply)
    show ?thesis
    proof (cases "200 \<le> hr_status reply \<and> hr_status reply \<le> 299 \<and> (\<exists>d. hr_json reply = Some (JObj d))")
      case True
      then obtain d where d: "hr_json reply = Some (JObj d)" by blast
      from assms obtain r where "result d = Inr r" "re_outputs r = d" by blast
      with Pair Inr True d show ?thesis
        by (simp add: api_json_def abind_def apure_def areturn_def)
    next
      case False
      with Pair Inr show ?thesis
        by (auto simp: api_json_def abind_def araise_def split: option.split json.split)
    qed
  qed (simp add: Pair api_json_def abind_def)
qed

lemma checked_call_cases:
  assumes "\<And>p k. payload_of job = Inr p \<Longrightarrow> k \<in> {''messages'', ''prompt''} \<Longrightarrow> json_get p k = json_get (rq_payload job) k"
    and "\<And>x. payload_of job = Inl x \<Longrightarrow> json_get (rq_payload job) ''model'' \<noteq> JNull"
  obtains (refused) x where "checked_call payload_of job = Inl x"
      "rq_capability job \<notin> {''llm.chat'', ''text.generate''} \<or> json_get (rq_payload job) ''model'' \<noteq> JNull \<or>
       rq_capability job = ''llm.chat'' \<and> (\<nexists>ms. json_get (rq_payload job) ''messages'' = JList ms) \<or>
       rq_capability job = ''text.generate'' \<and> (\<nexists>p. json_get (rq_payload job) ''prompt'' = JStr p)"
  | (chat) p where "checked_call payload_of job = Inr (Chat_Call p)" "payload_of job = Inr p" "rq_capability job = ''llm.chat''"
  | (completion) p where "checked_call payload_of job = Inr (Text_Call p)" "payload_of job = Inr p" "rq_capability job = ''text.generate''"
proof (cases "payload_of job")
  case (Inl x)
  then have "\<exists>y. checked_call payload_of job = Inl y" by (simp add: checked_call_def)
  then obtain y where "checked_call payload_of job = Inl y" ..
  with assms(2) [OF Inl] show thesis by (intro that(1)) simp_all
next
  case (Inr p)
  note same = assms(1) [OF Inr]
  consider "rq_capability job \<notin> set served_capabilities" | "rq_capability job = ''llm.chat''" | "rq_capability job = ''text.generate''"
    by (auto simp: served_capabilities_def)
  then show thesis
  proof cases
    case 1
    then show thesis by (intro that(1)) (auto simp: checked_call_def served_capabilities_def)
  next
    case 2
    show thesis
    proof (cases "\<exists>ms. json_get p ''messages'' = JList ms")
      case True
      with 2 Inr show thesis by (intro that(2) [of p]) (auto simp: checked_call_def served_capabilities_def)
    next
      case False
      with 2 Inr have "checked_call payload_of job = Inl (ValueError (Required ''messages''))"
        by (auto simp: checked_call_def served_capabilities_def split: json.split)
      with 2 False same [of "''messages''"] show thesis by (intro that(1)) auto
    qed
  next
    case 3
    show thesis
    proof (cases "\<exists>t. json_get p ''prompt'' = JStr t")
      case True
      with 3 Inr show thesis by (intro that(3) [of p]) (auto simp: checked_call_def served_capabilities_def)
    next
      case False
      with 3 Inr have "checked_call payload_of job = Inl (ValueError (Required ''prompt''))"
        by (auto simp: checked_call_def served_capabilities_def split: json.split)
      with 3 False same [of "''prompt''"] show thesis by (intro that(1)) auto
    qed
  qed
qed

lemma rbind_eq_Inl: "rbind r f = Inl x \<longleftrightarrow> r = Inl x \<or> (\<exists>y. r = Inr y \<and> f y = Inl x)"
  by (cases r) simp_all

lemma oai_outputs: "\<exists>r. oai_result md job d = Inr r \<and> re_outputs r = d"
  using oai_result_accepted by blast

lemma ollama_outputs: "\<exists>r. ollama_result model job d = Inr r \<and> re_outputs r = d"
  using ollama_result_accepted by blast

lemma bound_model_Inl: "bound_model ok d = Inl x \<Longrightarrow> json_get d ''model'' \<noteq> JNull"
  by (auto simp: bound_model_def)

lemma ollama_payload_get:
  "ollama_payload model keep_alive job = Inr p \<Longrightarrow> k \<noteq> ''keep_alive'' \<Longrightarrow>
    json_get p k = json_get (bind_payload model (rq_payload job)) k"
  by (auto simp: ollama_payload_def rbind_eq_Inr set_default_def json_get_def dict_get_set)

section \<open>Properties\<close>


text \<open>
  C30. A health report tells the truth about the owned process, and the lifecycle coordinator passes it
  on: the ready flag is set exactly in state READY, and then the owned process is running at that
  moment and the configured model was in the inventory just read; STARTING means that the process
  runs, STOPPED that it does not. So whatever else the runtime's operations do, a coordinator that
  reports a runtime ready leaves its process running with the model served, and one that reports it
  stopped leaves no owned process running.
\<close>

theorem runtime_health_truthful:
  shows "(runtime_health_probe ops (builtin_server ops rt) s = (Inr h, s') \<longrightarrow>
      (rh_ready h \<longleftrightarrow> rh_state h = RT_READY) \<and>
      (rh_state h = RT_READY \<longrightarrow> process_running ops s' \<and> (\<exists>v. sr_available (builtin_server ops rt) v = (Inr True, s'))) \<and>
      (rh_state h = RT_STARTING \<longrightarrow> process_running ops s') \<and>
      (rh_state h = RT_STOPPED \<longrightarrow> \<not> process_running ops s')) \<and>
    (mr_health m = raised_by \<circ> runtime_health_probe ops (builtin_server ops rt) \<longrightarrow>
      (\<forall>t lm s h lm' s'. ensure_ready m t lm s = Some (Inr h, lm', s') \<longrightarrow>
         process_running ops s' \<and> (\<exists>v. sr_available (builtin_server ops rt) v = (Inr True, s'))) \<and>
      (\<forall>t lm s h lm' s'. ensure_stopped m t False lm s = Some (Inr h, lm', s') \<longrightarrow> \<not> process_running ops s'))"
  using health_probe_post [of ops "builtin_server ops rt" s h s']
    ensure_ready_running [of m ops "builtin_server ops rt"] ensure_stopped_not_running [of m ops "builtin_server ops rt"]
  unfolding health_post_def by blast

text \<open>
  C31. What was reviewed is what is started. A deployment frozen from a provider for a context, written
  to JSON and read back on the worker, restores exactly that provider with its configuration, the
  demand and the reviewed setup intent; the provider accepts it, and the runtime it builds serves the
  demanded model from the configured endpoint and program with the launch policy that was reviewed.
\<close>

theorem frozen_deployment_restored:
  assumes made: "builtin_made c" and base: "py_strip (builtin_base_url c) = builtin_base_url c"
    and typed: "well_typed c cx" and demand: "demand_ok (cx_demand cx)" "model_demand_ok (ed_model (cx_demand cx))"
    and built: "build_runtime_deployment_spec (builtin_provider c) cx None = Inr spec"
  shows "\<exists>plan rt. deployment_from_dict (JObj (deployment_to_dict spec)) = Inr spec \<and>
    managed_runtime_from_deployment builtin_types spec (cx_worker cx) (cx_host cx) = Inr (builtin_provider c, cx, plan) \<and>
    rp_setup_intent (builtin_provider c) cx = Inr plan \<and>
    builtin_create_runtime c cx plan = Inr rt \<and> as_reviewed c cx rt"
proof -
  let ?p = "builtin_provider c"
  have strip: "py_strip (rp_provider_id ?p) = rp_provider_id ?p" using builtin_id_norm [of c] by (simp add: norm_text_def)
  have conf: "rp_config ?p = Some (the (rp_config ?p))" by (cases c) simp_all
  from built obtain plan where intent: "rp_setup_intent ?p cx = Inr plan"
    and spec: "spec = \<lparr>dp_provider_id = rp_provider_id ?p, dp_provider_config = the (rp_config ?p),
      dp_demand = cx_demand cx, dp_setup_intent = Some plan, dp_schema_version = ''v1''\<rparr>"
    by (auto simp: build_runtime_deployment_spec_def rbind_eq_Inr mk_runtime_deployment_spec_Inr strip
        split: if_splits) (metis conf option.simps(5))
  from builtin_intent_compatible [OF intent] obtain report where ok: "setup_intent_ok plan"
    "si_provider_id plan = rp_provider_id ?p" "rp_compatibility ?p cx = Inr report" "compatible report" by blast
  have "deployment_ok spec" using ok demand builtin_id_norm [of c] by (simp add: deployment_ok_def spec)
  then have json: "deployment_from_dict (JObj (deployment_to_dict spec)) = Inr spec" by (rule deployment_roundtrip_ok)
  from builtin_restored [OF made base] have "provider_from_deployment builtin_types spec = Inr ?p"
    by (auto simp: provider_from_deployment_def spec)
  then have restored: "managed_runtime_from_deployment builtin_types spec (cx_worker cx) (cx_host cx) = Inr (?p, cx, plan)"
    using ok by (cases cx) (simp add: managed_runtime_from_deployment_def spec Let_def)
  have "norm_text (md_model_ref (ed_model (cx_demand cx)))" using demand(2) by (simp add: model_demand_ok_def)
  from builtin_intent_runtime [OF made intent this typed] json restored intent show ?thesis by blast
qed

text \<open>
  A demand to keep a model in VRAM only is accepted only when it can be kept there: the size of the
  model is known and within the VRAM of the worker -- of one device, for llama.cpp on a single GPU --
  the launch policy moves no layer, expert or weight to the host, and FreeToken, which pages experts
  from host memory, never accepts one.
\<close>

theorem accepted_vram_only:
  assumes made: "builtin_made c" and report: "rp_compatibility (builtin_provider c) cx = Inr report" "compatible report"
    and demand: "ed_residency_policy (cx_demand cx) = VRAM_ONLY"
    and shape: "resource_shape_ok (ws_resources (cx_worker cx))" "0 < gpu_count (ws_resources (cx_worker cx))"
  shows "(\<exists>n. md_estimated_size_mb (ed_model (cx_demand cx)) = Some n \<and>
      n \<le> total_vram_mb (ws_resources (cx_worker cx))) \<and>
    (case c of
       Ollama _ \<Rightarrow> True
     | Llama x \<Rightarrow> let p = llama_launch_policy cx x in
         lp_gpu_layers p = JStr ''all'' \<and> \<not> py_truthy (lp_fit p) \<and> \<not> py_truthy (lp_cpu_moe p) \<and>
         none_or_zero (lp_n_cpu_moe p) \<and> none_or_zero (lp_n_cpu_ffn p) \<and>
         (ed_gpu_topology (cx_demand cx) = SINGLE_GPU \<longrightarrow> the (md_estimated_size_mb (ed_model (cx_demand cx)))
            \<le> max_single_gpu_vram_mb (ws_resources (cx_worker cx)))
     | Vllm x \<Rightarrow> \<not> num_above (vp_cpu_offload_gb (vllm_launch_policy cx x)) 0
     | Freetoken _ \<Rightarrow> False
     | Exllama _ \<Rightarrow> True)"
proof (cases c)
  case (Ollama x)
  with report have "\<not> list_ex cr_blocking (ollama_vram_reasons (ed_model (cx_demand cx)) (ws_resources (cx_worker cx)))"
    using demand by (auto simp: ollama_compatibility_def mk_runtime_compatibility_def compatible_def rbind_eq_Inr Let_def)
  with Ollama show ?thesis by (auto simp: ollama_vram_reasons_def split: option.splits if_splits)
next
  case (Llama x)
  from report Llama have "llama_compatibility x cx = Inr report" by simp
  from llama_vram_only [OF this report(2) demand] Llama shape show ?thesis
    by (auto simp: resource_shape_ok_def Let_def split: if_splits)
next
  case (Vllm x)
  from made report(1) Vllm obtain fs where mk: "mk_vllm_config fs = Inr x" and rep: "vllm_compatibility x cx = Inr report" by auto
  have tot: "0 \<le> total_vram_mb (ws_resources (cx_worker cx))" using shape(1) by (auto simp: resource_shape_ok_def)
  obtain g where g: "int_of_gib (vc_cpu_offload_gb x) = Inr g"
    and off: "\<not> list_ex cr_blocking (vllm_offload_reasons (cx_demand cx) (vllm_launch_policy cx x))"
    and fits: "\<And>n. md_estimated_size_mb (ed_model (cx_demand cx)) = Some n \<Longrightarrow>
       n \<le> total_vram_mb (ws_resources (cx_worker cx)) + g * max (gpu_count (ws_resources (cx_worker cx))) 1"
    using vllm_accepted [OF mk rep report(2) tot] shape(2) by metis
  have pol: "vp_cpu_offload_gb (vllm_launch_policy cx x) = vc_cpu_offload_gb x" by (simp add: vllm_launch_policy_def Let_def)
  from off demand have none: "\<not> num_above (vc_cpu_offload_gb x) 0" and known: "md_estimated_size_mb (ed_model (cx_demand cx)) \<noteq> None"
    by (simp_all add: vllm_offload_reasons_def pol)
  from int_of_gib_none [OF g none] have "g * max (gpu_count (ws_resources (cx_worker cx))) 1 \<le> 0"
    by (intro mult_nonpos_nonneg) simp_all
  with fits known Vllm none show ?thesis by (force simp: pol)
next
  case (Freetoken x)
  with freetoken_single_gpu(4) [of x cx report] report demand show ?thesis by simp
next
  case (Exllama x)
  with exllama_fits [of x cx report] report demand show ?thesis by auto
qed


text \<open>
  What an executor does with a job. Either it refuses the job before any request, in which case the
  capability is not served, the job names a model or the messages or prompt are missing; or it sends
  exactly one POST, to a path fixed by the capability, whose payload is the job's with the bound model
  and streaming off, and nothing the server answers breaks it: a success with a JSON object becomes a
  result with that object as its outputs, everything else an exception.
\<close>

theorem executor_sends_bound_model:
  "(\<exists>x. builtin_execute ops rt job = araise (Py x)) \<and>
     (rq_capability job \<notin> {''llm.chat'', ''text.generate''} \<or> json_get (rq_payload job) ''model'' \<noteq> JNull \<or>
      rq_capability job = ''llm.chat'' \<and> (\<nexists>ms. json_get (rq_payload job) ''messages'' = JList ms) \<or>
      rq_capability job = ''text.generate'' \<and> (\<nexists>p. json_get (rq_payload job) ''prompt'' = JStr p)) \<or>
   (\<exists>path payload. rq_capability job \<in> {''llm.chat'', ''text.generate''} \<and>
     json_get payload ''model'' = JStr (bound_name rt) \<and> json_get payload ''stream'' = JBool False \<and>
     (\<forall>k. k \<in> {''model'', ''stream'', ''keep_alive''} \<or> json_get payload k = json_get (rq_payload job) k) \<and>
     (\<forall>w. case ev_http ops ''POST'' path (Some payload) w of
        (Inl x, w') \<Rightarrow> builtin_execute ops rt job w = (Inl x, w')
      | (Inr reply, w') \<Rightarrow>
          if 200 \<le> hr_status reply \<and> hr_status reply \<le> 299 \<and> (\<exists>d. hr_json reply = Some (JObj d))
          then \<exists>r. builtin_execute ops rt job w = (Inr r, w') \<and> hr_json reply = Some (JObj (re_outputs r))
          else \<exists>x. builtin_execute ops rt job w = (Inl x, w')))"
proof -
  have sends: ?thesis
    if exec: "\<And>w. builtin_execute ops rt job w = abind (apure (checked_call payload_of job)) (\<lambda>call.
        abind (api_json ops ''POST'' (path call) (Some (case call of Chat_Call p \<Rightarrow> p | Text_Call p \<Rightarrow> p))) (\<lambda>d. apure (result d))) w"
      and good: "\<And>d. \<exists>r. result d = Inr r \<and> re_outputs r = d"
      and kept: "\<And>p k. payload_of job = Inr p \<Longrightarrow> k \<noteq> ''keep_alive'' \<Longrightarrow>
        json_get p k = json_get (bind_payload (bound_name rt) (rq_payload job)) k"
      and unbound: "\<And>x. payload_of job = Inl x \<Longrightarrow> json_get (rq_payload job) ''model'' \<noteq> JNull"
    for payload_of :: "job_request \<Rightarrow> obj res" and path and result
  proof (cases rule: checked_call_cases [of payload_of job, case_names same unbound refused chat completion])
    case (refused x)
    then have "builtin_execute ops rt job = araise (Py x)" by (auto simp: exec apure_def abind_def araise_def)
    with refused(2) show ?thesis by blast
  next
    case (chat p)
    then have run: "builtin_execute ops rt job = abind (api_json ops ''POST'' (path (Chat_Call p)) (Some p)) (\<lambda>d. apure (result d))"
      by (intro ext) (simp add: exec abind_areturn)
    note out = api_call_outcome [OF good, of ops "''POST''" "path (Chat_Call p)" "Some p", folded run]
    have "json_get p k = json_get (bind_payload (bound_name rt) (rq_payload job)) k" if "k \<noteq> ''keep_alive''" for k
      using kept chat(2) that by blast
    note keys = this chat(3)
    have other: "k \<in> {''model'', ''stream'', ''keep_alive''} \<or> json_get p k = json_get (rq_payload job) k" for k
      by (cases "k = ''keep_alive''") (simp_all add: keys bind_payload_get)
    show ?thesis
      by (rule disjI2, rule exI [of _ "path (Chat_Call p)"], rule exI [of _ p], intro conjI allI out other) (simp_all add: keys bind_payload_get)
  next
    case (completion p)
    then have run: "builtin_execute ops rt job = abind (api_json ops ''POST'' (path (Text_Call p)) (Some p)) (\<lambda>d. apure (result d))"
      by (intro ext) (simp add: exec abind_areturn)
    note out = api_call_outcome [OF good, of ops "''POST''" "path (Text_Call p)" "Some p", folded run]
    have "json_get p k = json_get (bind_payload (bound_name rt) (rq_payload job)) k" if "k \<noteq> ''keep_alive''" for k
      using kept completion(2) that by blast
    note keys = this completion(3)
    have other: "k \<in> {''model'', ''stream'', ''keep_alive''} \<or> json_get p k = json_get (rq_payload job) k" for k
      by (cases "k = ''keep_alive''") (simp_all add: keys bind_payload_get)
    show ?thesis
      by (rule disjI2, rule exI [of _ "path (Text_Call p)"], rule exI [of _ p], intro conjI allI out other) (simp_all add: keys bind_payload_get)
  qed (use kept unbound in \<open>auto simp: bind_payload_get\<close>)
  have oai: ?thesis
    if "\<And>w. builtin_execute ops rt job w = oai_execute ops pid ref key (bound_name rt) job w" for pid ref key
    by (rule sends [where payload_of = "oai_payload ref (bound_name rt)"
          and path = "\<lambda>call. case call of Chat_Call _ \<Rightarrow> ''/v1/chat/completions'' | Text_Call _ \<Rightarrow> ''/v1/completions''"
          and result = "oai_result (oai_metadata pid ref key (bound_name rt)) job"])
      (use oai_outputs in \<open>auto simp: that oai_execute_def oai_chat_def oai_completion_def abind_def oai_payload_def rbind_eq_Inr rbind_eq_Inl bound_model_Inl
        split: prod.split sum.split model_call.split\<close>)
  show ?thesis
  proof (cases rt)
    case (Ollama_Runtime r)
    show ?thesis
      by (rule sends [where payload_of = "ollama_payload (py_strip (or_model r)) (py_strip (or_keep_alive r))"
            and path = "\<lambda>call. case call of Chat_Call _ \<Rightarrow> ''/api/chat'' | Text_Call _ \<Rightarrow> ''/api/generate''"
            and result = "ollama_result (py_strip (or_model r)) job"])
        (use ollama_outputs Ollama_Runtime in \<open>auto simp: ollama_execute_def ollama_chat_def ollama_generate_def abind_def ollama_payload_get
          ollama_payload_def rbind_eq_Inl bound_model_Inl split: prod.split sum.split model_call.split\<close>)
  qed (rule oai, simp add: llama_execute_def vllm_execute_def freetoken_execute_def exllama_execute_def)+
qed

section \<open>Witnesses\<close>

text \<open>A host with one GPU: a clock and whether the one child process runs.\<close>

definition ex_http :: "string \<Rightarrow> string \<Rightarrow> obj option \<Rightarrow> (rat \<times> bool, http_reply) act" where
  "ex_http meth path body w =
     (if \<not> snd w then (Inl Http_Error, w)
      else (Inr \<lparr>hr_status = 200, hr_json = Some (JObj
        (if path = ''/v1/models'' then [(''data'', JList [JObj [(''id'', JStr ''astrumweaver'')]])]
         else [(''text'', JStr ''hello'')]))\<rparr>, w))"

definition ex_env :: "(rat \<times> bool) env_ops" where
  "ex_env = \<lparr>ev_environ = [], ev_spawn = (\<lambda>_ _ w. (Inr 7, (fst w, True))), ev_alive = (\<lambda>_ w. snd w),
     ev_terminate = (\<lambda>_ w. (Inr (), (fst w, False))), ev_kill = (\<lambda>_ w. (Inr (), (fst w, False))),
     ev_wait = (\<lambda>_ _ w. (Inr True, (fst w, False))), ev_http = ex_http, ev_close = areturn (),
     ev_now = fst, ev_sleep = (\<lambda>d w. (fst w + d, snd w))\<rparr>"

definition ex_llama_config :: llama_config where
  "ex_llama_config = \<lparr>lc_base_url = ''http://127.0.0.1:8080'', lc_executable = ''llama-server'',
     lc_package_reference = ''llama-cpp'', lc_startup_timeout_seconds = JFloat (Finite 120),
     lc_request_timeout_seconds = JFloat (Finite 300), lc_context_size = JInt 4096, lc_gpu_layers = JNull,
     lc_split_mode = None, lc_tensor_split = None, lc_main_gpu = JInt 0, lc_fit = JNull, lc_fit_target_mb = None,
     lc_cpu_moe = JBool False, lc_n_cpu_moe = JNull, lc_n_cpu_ffn = JNull, lc_offline = JBool True,
     lc_no_webui = JBool True\<rparr>"

definition ex_llama_context :: runtime_context where
  "ex_llama_context = \<lparr>cx_worker = \<lparr>ws_worker_id = ''w'', ws_worker_class = ''c'',
       ws_resources = \<lparr>gpu_count = 1, total_vram_mb = 24000, max_single_gpu_vram_mb = 24000\<rparr>,
       ws_gpu_uuids = [''GPU-A''], ws_accelerators = [], ws_capabilities = {}, ws_labels = []\<rparr>,
     cx_host = \<lparr>hf_cpu_count = 8, hf_host_ram_mb = 32000, hf_architecture = ''x86_64'', hf_labels = []\<rparr>,
     cx_demand = \<lparr>ed_model = \<lparr>md_model_ref = ''/m.gguf'', md_model_format = ''gguf'', md_topology = DENSE,
         md_estimated_size_mb = Some 9000, md_metadata = []\<rparr>,
       ed_residency_policy = VRAM_ONLY, ed_gpu_topology = SINGLE_GPU, ed_min_gpu_count = 1,
       ed_min_total_vram_mb = 0, ed_min_single_gpu_vram_mb = 0, ed_min_host_ram_mb = 8,
       ed_preferred_host_ram_mb = 16, ed_metadata = []\<rparr>\<rparr>"

lemma ex_config_made: "mk_llama_config [] = Inr ex_llama_config"
  by code_simp

definition ex_llama_runtime :: llama_runtime where
  "ex_llama_runtime = \<lparr>lr_context = ex_llama_context, lr_model_ref = ''/m.gguf'', lr_model_alias = ''astrumweaver'',
     lr_base_url = ''http://127.0.0.1:8080'', lr_executable = ''llama-server'', lr_context_size = 4096,
     lr_policy = llama_launch_policy ex_llama_context ex_llama_config, lr_offline = True, lr_no_webui = True,
     lr_timeout = Finite 120\<rparr>"

lemma ex_endpoint: "endpoint_args ''http://127.0.0.1:8080'' = Inr (''127.0.0.1'', 8080)"
  by code_simp

lemma ex_command: "\<exists>words. llama_command ex_llama_runtime = Inr words"
  by (simp add: llama_command_def ex_llama_runtime_def llama_launch_policy_def ex_llama_config_def ex_llama_context_def
      ex_endpoint json_word_def optional_option_def Let_def)

definition ex_start_state :: "(rat \<times> bool) rt_state" where
  "ex_start_state = \<lparr>st_process = None, st_closed = False, st_env = (0, False)\<rparr>"

definition ex_serving :: "(rat \<times> bool) rt_state" where
  "ex_serving = \<lparr>st_process = Some 7, st_closed = False, st_env = (0, True)\<rparr>"

lemma ex_env_ok: "env_clock ex_env" "waits_reap ex_env"
  by (auto simp: env_clock_def waits_reap_def ex_env_def ex_http_def)

lemmas ex_host = ex_env_def ex_http_def ex_start_state_def ex_serving_def on_env_def process_running_def
  status_health_def llama_server_def abind_def

lemma ex_alive: "ev_alive ex_env p w = snd w"
  by (simp add: ex_env_def)

lemma ex_available: "alias_available ex_env ''astrumweaver'' (0, True) = (Inr True, (0, True))"
  by code_simp

lemma ex_health_answers: "status_health ex_env (0, True) = (Inr True, (0, True))"
  by code_simp

lemma ex_started:
  "runtime_start ex_env (llama_server ex_env ex_llama_runtime) ex_start_state = Some (Inr (), ex_serving)"
proof -
  have "await_server ex_env (llama_server ex_env ex_llama_runtime) d ex_serving = Some (Inr (), ex_serving)" for d
    by (subst await_server.simps) (simp add: ex_host)
  moreover have "admit_model (llama_server ex_env ex_llama_runtime) ex_serving = (Inr (), ex_serving)"
    by (simp add: admit_model_def llama_server_def abind_def on_env_def ex_serving_def ex_llama_runtime_def ex_available areturn_def)
  ultimately have "start_guarded ex_env (llama_server ex_env ex_llama_runtime) True ex_serving = Some (Inr (), ex_serving)"
    by (simp add: start_guarded_def)
  moreover have "llama_process_start ex_env ex_llama_runtime ex_start_state = (Inr (), ex_serving)"
    using ex_command by (auto simp: llama_process_start_def process_start_def process_spawn_def ex_host areturn_def)
  ultimately show ?thesis
    by (simp add: runtime_start_def) (simp add: ex_host)
qed


theorem runtime_health_truthful_witness:
  "runtime_health_probe ex_env (builtin_server ex_env (Llama_Runtime ex_llama_runtime)) ex_serving =
     (Inr (serving_report (llama_server ex_env ex_llama_runtime)), ex_serving) \<and>
   (\<exists>v. sr_available (builtin_server ex_env (Llama_Runtime ex_llama_runtime)) v = (Inr True, ex_serving))"
proof -
  have "runtime_health_probe ex_env (builtin_server ex_env (Llama_Runtime ex_llama_runtime)) ex_serving =
      (Inr (serving_report (llama_server ex_env ex_llama_runtime)), ex_serving)"
    by (simp add: runtime_health_probe_def on_env_def llama_server_def ex_serving_def ex_llama_runtime_def ex_available
        ex_health_answers process_running_def ex_alive)
  with runtime_health_truthful [of ex_env "Llama_Runtime ex_llama_runtime" ex_serving
      "serving_report (llama_server ex_env ex_llama_runtime)" ex_serving]
  show ?thesis by (auto simp: serving_report_def)
qed

theorem frozen_deployment_restored_witness:
  "\<exists>spec plan rt. build_runtime_deployment_spec (builtin_provider (Llama ex_llama_config)) ex_llama_context None = Inr spec \<and>
     managed_runtime_from_deployment builtin_types spec (cx_worker ex_llama_context) (cx_host ex_llama_context) =
       Inr (builtin_provider (Llama ex_llama_config), ex_llama_context, plan) \<and>
     builtin_create_runtime (Llama ex_llama_config) ex_llama_context plan = Inr rt \<and>
     as_reviewed (Llama ex_llama_config) ex_llama_context rt"
proof -
  let ?c = "Llama ex_llama_config"
  have made: "builtin_made ?c" using ex_config_made by auto
  have base: "py_strip (builtin_base_url ?c) = builtin_base_url ?c" by code_simp
  have typed: "well_typed ?c ex_llama_context"
    by (simp add: llama_typed_def ex_llama_config_def int_or_none_def) (rule exI [of _ False], simp)
  have demand: "demand_ok (cx_demand ex_llama_context)" "model_demand_ok (ed_model (cx_demand ex_llama_context))"
    by (simp_all add: demand_ok_def topology_ok_def model_demand_ok_def ex_llama_context_def) code_simp
  have "\<not> isl (build_runtime_deployment_spec (builtin_provider ?c) ex_llama_context None)" by code_simp
  then obtain spec where "build_runtime_deployment_spec (builtin_provider ?c) ex_llama_context None = Inr spec"
    by (metis isl_def obj_sumE)
  with frozen_deployment_restored [OF made base typed demand this] show ?thesis by blast
qed

theorem accepted_vram_only_witness:
  "\<exists>n. md_estimated_size_mb (ed_model (cx_demand ex_llama_context)) = Some n \<and> n \<le> 24000 \<and>
     lp_gpu_layers (llama_launch_policy ex_llama_context ex_llama_config) = JStr ''all''"
proof -
  have made: "builtin_made (Llama ex_llama_config)" using ex_config_made by auto
  have "(case rp_compatibility (builtin_provider (Llama ex_llama_config)) ex_llama_context of
      Inl _ \<Rightarrow> False | Inr r \<Rightarrow> compatible r)" by code_simp
  then obtain report where report: "rp_compatibility (builtin_provider (Llama ex_llama_config)) ex_llama_context = Inr report"
    "compatible report" by (auto split: sum.splits)
  have "resource_shape_ok (ws_resources (cx_worker ex_llama_context))" by code_simp
  from accepted_vram_only [OF made report _ this] show ?thesis by (auto simp: ex_llama_context_def Let_def)
qed


definition ex_text_job :: job_request where
  "ex_text_job = \<lparr>rq_job_id = ''j'', rq_capability = ''text.generate'', rq_payload = [(''prompt'', JStr ''hi'')], rq_metadata = []\<rparr>"

theorem executor_sends_bound_model_witness:
  "\<exists>payload r. json_get payload ''model'' = JStr ''astrumweaver'' \<and> json_get payload ''stream'' = JBool False \<and>
     builtin_execute ex_env (Llama_Runtime ex_llama_runtime) ex_text_job (0, True) = (Inr r, (0, True))"
proof -
  let ?rt = "Llama_Runtime ex_llama_runtime"
  have name: "bound_name ?rt = ''astrumweaver''" by code_simp
  have asks: "rq_capability ex_text_job = ''text.generate''" "json_get (rq_payload ex_text_job) ''model'' = JNull"
    "json_get (rq_payload ex_text_job) ''prompt'' = JStr ''hi''" by code_simp+
  have reply: "\<exists>d. ev_http ex_env ''POST'' path body (0, True) = (Inr \<lparr>hr_status = 200, hr_json = Some (JObj d)\<rparr>, (0, True))"
    for path body by (simp add: ex_env_def ex_http_def)
  from executor_sends_bound_model [of ex_env ?rt ex_text_job] asks
  obtain path payload where sent: "json_get payload ''model'' = JStr (bound_name ?rt)" "json_get payload ''stream'' = JBool False"
    and out: "\<forall>w. case ev_http ex_env ''POST'' path (Some payload) w of
        (Inl x, w') \<Rightarrow> builtin_execute ex_env ?rt ex_text_job w = (Inl x, w')
      | (Inr reply, w') \<Rightarrow>
          if 200 \<le> hr_status reply \<and> hr_status reply \<le> 299 \<and> (\<exists>d. hr_json reply = Some (JObj d))
          then \<exists>r. builtin_execute ex_env ?rt ex_text_job w = (Inr r, w') \<and> hr_json reply = Some (JObj (re_outputs r))
          else \<exists>x. builtin_execute ex_env ?rt ex_text_job w = (Inl x, w')" by auto
  obtain d where "ev_http ex_env ''POST'' path (Some payload) (0, True) = (Inr \<lparr>hr_status = 200, hr_json = Some (JObj d)\<rparr>, (0, True))"
    using reply by blast
  with spec [OF out, of "(0, True)"] have "\<exists>r. builtin_execute ex_env ?rt ex_text_job (0, True) = (Inr r, (0, True))" by auto
  with sent name show ?thesis by auto
qed

end
