(* ===== verification/Setup_Props.thy ===== *)
theory Setup_Props
  imports Setup_Apply Setup_Migration Provider_Props
begin

text \<open>
  Properties of the setup: what a plan consists of and in which order, that it survives being written
  and read with its digest, that nothing is called without the approval, what a failed application
  undoes, and what migrating the installed worker changes. The witnesses plan, write and apply a setup
  of the llama.cpp provider on the host of the provider examples.
\<close>

section \<open>Lemmas\<close>

lemma template_kinds:
  "map (\<lambda>t. fst (template_view t)) ts = map fst ts"
  by (induction ts) (auto simp: template_view_def)

lemma action_kinds: "map action_view as = map template_view ts \<Longrightarrow> map sa_kind as = map fst ts"
  using template_kinds [of ts] by (metis (no_types, lifting) action_view_def fst_conv list.map_comp list.map_cong0 comp_apply)

definition preparation :: "runtime_setup_intent \<Rightarrow> bool \<Rightarrow> action_kind list" where
  "preparation intent bridged = replicate 3 ENSURE_DIRECTORY @
     replicate (length (si_package_references intent)) ENSURE_PACKAGE @
     (if bridged then [ENSURE_NVIDIA_DRIVER_BRIDGE] else []) @
     (if si_configuration intent \<noteq> [] then [RENDER_CONFIG] else []) @
     [case si_model_preparation intent of REFERENCE_ONLY \<Rightarrow> VERIFY_MODEL_REFERENCE | DOWNLOAD \<Rightarrow> DOWNLOAD_MODEL
       | CONVERT \<Rightarrow> CONVERT_MODEL]"

lemma activation_kinds:
  "map fst (activation_templates pid intent deployment cx sn reconcile) =
     preparation intent (sn_deployment_path sn = SYSTEMD \<and> gpu_count (ws_resources (cx_worker cx)) > 0) @
     (if reconcile then [WORKER_STOP, RECONCILE_WORKER_EXECUTION] else []) @ [PREFLIGHT, RUNTIME_START, HEALTH_CHECK]"
proof -
  have "map fst (package_steps pid intent) = replicate (length (si_package_references intent)) ENSURE_PACKAGE"
    by (simp add: package_steps_def action_call_def map_replicate_const comp_def)
  moreover have "map fst (directory_steps pid b) = replicate 3 ENSURE_DIRECTORY" for b
    by (simp add: directory_steps_def action_call_def eval_nat_numeral)
  ultimately show ?thesis
    by (simp add: activation_templates_def preparation_def bridge_steps_def render_steps_def model_steps_def
        reconcile_steps_def start_steps_def action_call_def split: model_preparation_policy.splits)
qed

lemma map_of_sort: "distinct (map fst d) \<Longrightarrow> map_of (sort_key fst d) = map_of d"
  by (rule map_of_inject_set [THEN iffD2]) (simp_all add: distinct_map inj_on_def)

lemma json_get_frozen:
  assumes "distinct (map fst d)"
  shows "json_get (freeze_obj d) k = freeze_json (json_get d k)"
proof -
  have "dict_get (map (\<lambda>p. (fst p, freeze_json (snd p))) d) k = map_option freeze_json (dict_get d k)"
    by (induction d) (auto simp:)
  with assms show ?thesis
    by (simp add: json_get_def freeze_obj_def map_of_sort comp_def split: option.split)
qed

text \<open>
  What an action of an activation plan is like: it names the provider, model files are downloaded or
  converted under confirmation only, and network access is asked for where something is fetched.
\<close>

definition planned_for :: "string \<Rightarrow> action_kind \<times> obj \<times> action_flags \<Rightarrow> bool" where
  "planned_for pid v = (case v of (kind, payload, fl) \<Rightarrow> json_get payload ''provider_id'' = JStr pid \<and>
     (kind \<in> {DOWNLOAD_MODEL, CONVERT_MODEL} \<longleftrightarrow> fl_confirmation fl) \<and>
     (kind \<in> {DOWNLOAD_MODEL, ENSURE_PACKAGE} \<longleftrightarrow> fl_network fl) \<and>
     (kind \<in> {ENSURE_NVIDIA_DRIVER_BRIDGE, WORKER_STOP, RECONCILE_WORKER_EXECUTION} \<longrightarrow> fl_privilege fl) \<and>
     (kind \<in> {ENSURE_NVIDIA_DRIVER_BRIDGE, RENDER_CONFIG, WORKER_STOP, RECONCILE_WORKER_EXECUTION, RUNTIME_START}
       \<longleftrightarrow> fl_reversible fl))"

lemma planned_template:
  "distinct (map fst payload) \<Longrightarrow>
     planned_for pid (template_view (action_call kind desc payload fl)) = planned_for pid (kind, payload, fl)"
  by (cases "json_get payload ''provider_id''") (simp_all add: planned_for_def template_view_def action_call_def json_get_frozen)

lemmas planned = planned_template planned_for_def [of _ "(k, p, f)" for k p f] json_get_def flags_def model_payload_def

lemma steps_planned:
  "t \<in> set (directory_steps pid b) \<Longrightarrow> planned_for pid (template_view t)"
  "t \<in> set (package_steps pid intent) \<Longrightarrow> planned_for pid (template_view t)"
  "t \<in> set (bridge_steps pid cx sn) \<Longrightarrow> planned_for pid (template_view t)"
  "t \<in> set (render_steps pid intent deployment reconcile) \<Longrightarrow> planned_for pid (template_view t)"
  "t \<in> set (model_steps pid intent cx) \<Longrightarrow> planned_for pid (template_view t)"
  "t \<in> set (reconcile_steps pid deployment) \<Longrightarrow> planned_for pid (template_view t)"
  "t \<in> set (start_steps pid b demand) \<Longrightarrow> planned_for pid (template_view t)"
  subgoal by (simp add: directory_steps_def) (elim disjE; simp add: planned)
  subgoal by (simp add: package_steps_def) (elim imageE; simp add: planned)
  subgoal by (simp add: bridge_steps_def planned split: if_splits)
  subgoal by (simp add: render_steps_def planned split: if_splits)
  subgoal by (simp add: model_steps_def planned split: model_preparation_policy.splits)
  subgoal by (simp add: reconcile_steps_def) (elim disjE; simp add: planned)
  subgoal by (simp add: start_steps_def) (elim disjE; simp add: planned)
  done

lemma activation_planned: "t \<in> set (activation_templates pid intent deployment cx sn reconcile) \<Longrightarrow> planned_for pid (template_view t)"
  unfolding activation_templates_def set_append Un_iff by (elim disjE) (auto simp: steps_planned split: if_splits)

section \<open>Plans\<close>


text \<open>
  C34. A plan accepted from JSON satisfies the invariants of plans, and any such plan, written with its
  digest, is read back as the same plan; with another digest it is refused.
\<close>

theorem plan_roundtrip:
  assumes "plan_from_dict sha256 d = Inr plan"
  shows "plan_ok plan \<and>
    (\<forall>s. plan_from_dict sha256 (plan_to_dict plan @ [(''digest'', JStr s)]) =
      (if s = plan_digest sha256 plan then Inr plan else Inl (ValueError (Inconsistent ''digest''))))"
  using plan_from_dict_ok [OF assms] plan_reread by blast

section \<open>Application\<close>

text \<open>
  C35. The driver is called only for a plan whose digest the approval names and every action of which the
  approval grants (privilege, network, confirmation, model download, model conversion); otherwise the
  application is refused and neither a call is made nor the host changed. An approval that grants all
  this is never refused, and every action applied is one of the plan.
\<close>

theorem apply_needs_approval:
  assumes "apply_plan sha256 (logging_driver dr) plan approval undo (w, []) = (out, w', calls)"
  shows "(\<not> isl out \<longleftrightarrow> al_plan_digest approval = plan_digest sha256 plan \<and> (\<forall>a \<in> set (pl_actions plan). approved approval a)) \<and>
    (isl out \<longrightarrow> calls = [] \<and> w' = w) \<and>
    (\<forall>a. Apply_Call a \<in> set calls \<longrightarrow> a \<in> set (pl_actions plan) \<and> approved approval a)"
proof (cases "validate_approval sha256 plan approval")
  case (Inl e)
  then have "\<not> (al_plan_digest approval = plan_digest sha256 plan \<and> (\<forall>a \<in> set (pl_actions plan). approved approval a))"
    using validate_approval_complete by (metis Inl_Inr_False)
  with Inl assms show ?thesis by (auto simp: apply_plan_def)
next
  case (Inr u)
  note ok = validate_approval_Inr [OF Inr]
  obtain res where res: "out = Inr res"
    "apply_actions (plan_digest sha256 plan) (logging_driver dr) undo [] [] (pl_actions plan) (w, []) = (res, w', calls)"
    using assms Inr by (auto simp: apply_plan_def split: prod.splits)
  have "application undo (pl_actions plan) res calls"
    using apply_actions_application [OF forward_Nil res(2)] by simp
  with ok res(1) application_calls show ?thesis by auto
qed


section \<open>Migration\<close>

text \<open>
  C37. A unit as the installer writes it is recognised as what it was written from, and migrating it gives the
  unit of the same user and program that starts with the runtime manifest and the driver bridge.
\<close>

theorem worker_unit_migrated:
  assumes "unit_ok u"
  shows "parse_installed_worker_unit (unit_text u) = Inr u \<and>
    render_runtime_worker_unit (unit_text u) = Inr (unit_text (migrated_unit u)) \<and>
    parse_installed_worker_unit (unit_text (migrated_unit u)) = Inr (migrated_unit u)"
  using unit_roundtrip [OF assms] render_unit [OF assms] unit_roundtrip [OF migrated_unit_ok [OF assms]] by blast

text \<open>
  Migrating the worker's configuration and its unit is idempotent: what a migration has rendered, a
  second one leaves as it is. Only a canonical unit is accepted, never one with another line.
\<close>

theorem migration_idempotent:
  "(render_runtime_worker_unit src = Inr unit1 \<longrightarrow> render_runtime_worker_unit unit1 = Inr unit1 \<and> (\<exists>u. src = unit_text u)) \<and>
   (render_runtime_worker_toml toml cfg = Inr cfg1 \<longrightarrow> render_runtime_worker_toml toml cfg1 = Inr cfg1)"
proof -
  have "\<exists>u. src = unit_text u" if "render_runtime_worker_unit src = Inr unit1"
    using that parsed_unit_text by (auto simp: render_runtime_worker_unit_def rbind_eq_Inr)
  then show ?thesis using render_unit_idem render_toml_idem by blast
qed

section \<open>Witnesses\<close>

definition ex_snapshot :: host_snapshot where
  "ex_snapshot = \<lparr>sn_runtime_host = cx_host ex_llama_context, sn_deployment_path = SYSTEMD, sn_os_id = ''ubuntu'',
     sn_os_version = ''24.04'', sn_service_manager = Some ''systemd'', sn_package_manager = None,
     sn_available_commands = {}, sn_privilege_mode = PRIV_ROOT, sn_metadata = []\<rparr>"

definition ex_setup_catalog :: runtime_catalog where
  "ex_setup_catalog = [(''llama-cpp'', builtin_provider (Llama ex_llama_config))]"

definition ex_setup_plan :: "setup_error + setup_plan" where
  "ex_setup_plan = build_runtime_setup_plan ex_setup_catalog ex_llama_context
     \<lparr>rs_mode = EXPLICIT, rs_provider_id = Some ''llama-cpp''\<rparr> ex_snapshot True"

lemma ex_planned: "\<exists>plan. ex_setup_plan = Inr plan"
proof -
  have "\<not> isl ex_setup_plan" by code_simp
  then show ?thesis by (metis isl_def obj_sumE)
qed


definition ex_release :: setup_plan where
  "ex_release = \<lparr>pl_provider_id = ''llama-cpp'', pl_deployment_path = SYSTEMD, pl_goal = GOAL_RELEASE,
     pl_actions = [
       \<lparr>sa_action_id = ''01-runtime-stop'', sa_kind = RUNTIME_STOP, sa_description = ''Stop the selected runtime'',
        sa_payload = [(''provider_id'', JStr ''llama-cpp'')], sa_requires_privilege = True, sa_requires_network = False,
        sa_requires_confirmation = False, sa_reversible = True\<rparr>,
       \<lparr>sa_action_id = ''02-runtime-release'', sa_kind = RUNTIME_RELEASE,
        sa_description = ''Release runtime-local model and accelerator residency'',
        sa_payload = [(''provider_id'', JStr ''llama-cpp'')], sa_requires_privilege = True, sa_requires_network = False,
        sa_requires_confirmation = False, sa_reversible = False\<rparr>],
     pl_metadata = [(''host_privilege_mode'', JStr ''root'')], pl_schema_version = ''v1''\<rparr>"

lemma ex_release_built: "build_runtime_release_plan ''llama-cpp'' ex_snapshot True = Inr ex_release"
  by code_simp

definition ex_sha :: "json \<Rightarrow> string" where
  "ex_sha v = replicate 64 (CHR ''0'')"

theorem plan_roundtrip_witness:
  "plan_from_dict ex_sha (plan_to_dict ex_release @ [(''digest'', JStr (replicate 64 (CHR ''0'')))]) = Inr ex_release \<and>
   plan_from_dict ex_sha (plan_to_dict ex_release @ [(''digest'', JStr ''other'')]) = Inl (ValueError (Inconsistent ''digest''))"
proof -
  have "plan_from_dict ex_sha (plan_to_dict ex_release) = Inr ex_release" by code_simp
  from plan_roundtrip [OF this] show ?thesis by (simp add: plan_digest_def ex_sha_def numeral_eq_Suc)
qed

text \<open>A driver that stops the runtime and cannot release it; undoing starts it again.\<close>

definition ex_driver :: "bool setup_driver" where
  "ex_driver = \<lparr>
     dr_inspect = (\<lambda>a running. (Inr (mk_inspection ACT_NEEDS_APPLY []), running)),
     dr_apply = (\<lambda>a running. if sa_kind a = RUNTIME_STOP then (Inr (mk_receipt True ''stopped'' [] []), False)
       else (Inl ''RuntimeError'', running)),
     dr_rollback = (\<lambda>a r running. (Inr (mk_receipt True ''started'' [] []), True))\<rparr>"

definition ex_approval :: "bool \<Rightarrow> setup_approval" where
  "ex_approval privileged = \<lparr>al_plan_digest = replicate 64 (CHR ''0''), al_privileged = privileged, al_network = False,
     al_model_download = False, al_model_convert = False, al_confirmation_actions = False\<rparr>"

definition ex_failed :: "(approval_error + apply_result) \<times> bool \<times> driver_call list" where
  "ex_failed = apply_plan ex_sha (logging_driver ex_driver) ex_release (ex_approval True) True (True, [])"

lemma ex_failed_run:
  "(case ex_failed of (Inr res, w, calls) \<Rightarrow> ap_status res = APPLY_FAILED \<and> w \<and>
     map (\<lambda>c. case c of Rollback_Call a r \<Rightarrow> sa_action_id a | _ \<Rightarrow> []) calls = [[], [], [], [], ''01-runtime-stop'']
   | _ \<Rightarrow> False)"
  by code_simp

theorem apply_needs_approval_witness:
  "isl (fst (apply_plan ex_sha (logging_driver ex_driver) ex_release (ex_approval False) True (True, []))) \<and>
   snd (snd (apply_plan ex_sha (logging_driver ex_driver) ex_release (ex_approval False) True (True, []))) = []"
proof -
  obtain out w' calls where run: "apply_plan ex_sha (logging_driver ex_driver) ex_release (ex_approval False) True (True, []) = (out, w', calls)"
    by (cases "apply_plan ex_sha (logging_driver ex_driver) ex_release (ex_approval False) True (True, [])")
  have "\<not> (\<forall>a \<in> set (pl_actions ex_release). approved (ex_approval False) a)" by code_simp
  with apply_needs_approval [OF run] run show ?thesis by auto
qed


definition ex_unit :: installed_unit where
  "ex_unit = \<lparr>iu_service_user = ''astrumweaver'', iu_executable = ''/opt/astrumweaver/bin/worker'',
     iu_execution_mode = SMOKE, iu_nvidia_driver_bridge = False\<rparr>"

lemma ex_unit_ok: "unit_ok ex_unit"
  by code_simp

theorem worker_unit_migrated_witness:
  "unit_ok ex_unit \<and> render_runtime_worker_unit (unit_text ex_unit) = Inr (unit_text (migrated_unit ex_unit)) \<and>
     iu_service_user (migrated_unit ex_unit) = ''astrumweaver'' \<and> iu_execution_mode (migrated_unit ex_unit) = RUNTIME_MODE"
  using worker_unit_migrated [OF ex_unit_ok] ex_unit_ok by (simp add: migrated_unit_def ex_unit_def)

theorem migration_idempotent_witness:
  "render_runtime_worker_unit (unit_text (migrated_unit ex_unit)) = Inr (unit_text (migrated_unit ex_unit))"
  using migration_idempotent render_unit [OF ex_unit_ok] by blast

end
