(* ===== verification/Setup_Files.thy ===== *)
theory Setup_Files
  imports Setup_Apply "HOL-Library.Word"
begin

unbundle bit_operations_syntax

text \<open>
  \<open>src/src/astrumweaver/setup/filesystem.py\<close>: the file operations of a privileged setup, on a model of the
  POSIX calls they use. The file system maps the components of an absolute path to a node with its
  metadata; a descriptor is the path it was opened at, as the program renames no directory. Every call
  advances a clock, which stamps the nodes it changes, and may be refused with \<open>OSError\<close> by an
  arbitrary oracle. Other processes do not interfere, so that the checks for objects that were replaced
  while in use are present but succeed. The exceptions of the setup keep the messages of the source in a
  shortened form.

  Shown are: reading returns the text of a safely owned file below safely owned directories and changes
  nothing; writing is atomic, whichever call fails: afterwards every file but the operation's own
  temporary one has its old text, or the target has the new one; the tree stays well formed.
\<close>

section \<open>Paths\<close>

text \<open>\<open>pathlib.PurePosixPath\<close>: the anchor is empty, one slash or exactly two; parts are neither empty nor dots.\<close>

record pure_path =
  pp_anchor :: string
  pp_parts :: "string list"

definition path_anchor :: "string \<Rightarrow> string" where
  "path_anchor s = (case s of
     CHR ''/'' # CHR ''/'' # CHR ''/'' # _ \<Rightarrow> ''/'' | CHR ''/'' # CHR ''/'' # _ \<Rightarrow> ''//''
   | CHR ''/'' # _ \<Rightarrow> ''/'' | _ \<Rightarrow> [])"

definition path_of :: "string \<Rightarrow> pure_path" where
  "path_of s = \<lparr>pp_anchor = path_anchor s, pp_parts = filter (\<lambda>c. c \<noteq> [] \<and> c \<noteq> ''.'') (py_split (CHR ''/'') s)\<rparr>"

definition path_text :: "pure_path \<Rightarrow> string" where
  "path_text p = (if pp_anchor p = [] \<and> pp_parts p = [] then ''.'' else pp_anchor p @ py_join ''/'' (pp_parts p))"

definition path_absolute :: "pure_path \<Rightarrow> bool" where
  "path_absolute p \<longleftrightarrow> pp_anchor p \<noteq> []"

definition path_parent :: "pure_path \<Rightarrow> pure_path" where
  "path_parent p = p\<lparr>pp_parts := butlast (pp_parts p)\<rparr>"

definition pure_name :: "pure_path \<Rightarrow> string" where
  "pure_name p = (if pp_parts p = [] then [] else last (pp_parts p))"

definition path_child :: "pure_path \<Rightarrow> string list \<Rightarrow> pure_path" where
  "path_child p parts = p\<lparr>pp_parts := pp_parts p @ parts\<rparr>"

text \<open>\<open>path.relative_to(base).parts\<close>; \<open>None\<close> is \<open>ValueError\<close>.\<close>

definition relative_parts :: "pure_path \<Rightarrow> pure_path \<Rightarrow> string list option" where
  "relative_parts base p = (if pp_anchor p = pp_anchor base \<and> take (length (pp_parts base)) (pp_parts p) = pp_parts base
     then Some (drop (length (pp_parts base)) (pp_parts p)) else None)"

definition slash :: pure_path where
  "slash = \<lparr>pp_anchor = ''/'', pp_parts = []\<rparr>"

section \<open>Exceptions\<close>

datatype setup_exc =
    Unsafe_Setup_Path string | Runtime_Error string | File_Not_Found | File_Exists | Dir_Not_Empty | Os_Error
  | Called_Process_Error | Timeout_Expired | Acceptance_Error string | Setup_Raised py_exc

type_synonym ('s, 'a) sio = "'s \<Rightarrow> (setup_exc + 'a) \<times> 's"

definition sret :: "'a \<Rightarrow> ('s, 'a) sio" where
  "sret x s = (Inr x, s)"

definition sraise :: "setup_exc \<Rightarrow> ('s, 'a) sio" where
  "sraise e s = (Inl e, s)"

definition sbind :: "('s, 'a) sio \<Rightarrow> ('a \<Rightarrow> ('s, 'b) sio) \<Rightarrow> ('s, 'b) sio" where
  "sbind p k s = (case p s of (Inl e, s') \<Rightarrow> (Inl e, s') | (Inr x, s') \<Rightarrow> k x s')"

definition scatch :: "('s, 'a) sio \<Rightarrow> (setup_exc \<Rightarrow> ('s, 'a) sio) \<Rightarrow> ('s, 'a) sio" where
  "scatch p h s = (case p s of (Inl e, s') \<Rightarrow> h e s' | (Inr x, s') \<Rightarrow> (Inr x, s'))"

text \<open>\<open>try: p finally: q\<close>: an exception of \<open>q\<close> replaces the outcome of \<open>p\<close>.\<close>

definition sfinally :: "('s, 'a) sio \<Rightarrow> ('s, unit) sio \<Rightarrow> ('s, 'a) sio" where
  "sfinally p q s = (case p s of (r, s1) \<Rightarrow> (case q s1 of (Inl e, s2) \<Rightarrow> (Inl e, s2) | (Inr _, s2) \<Rightarrow> (r, s2)))"

definition swhen :: "bool \<Rightarrow> ('s, unit) sio \<Rightarrow> ('s, unit) sio" where
  "swhen c p = (if c then p else sret ())"

text \<open>The classes caught by \<open>except OSError\<close>.\<close>

definition os_error :: "setup_exc \<Rightarrow> bool" where
  "os_error e \<longleftrightarrow> e \<in> {File_Not_Found, File_Exists, Dir_Not_Empty, Os_Error}"

section \<open>The file system\<close>

datatype node_kind = Directory | Regular string | Symlink string | Special

record fs_node =
  nd_kind :: node_kind
  nd_uid :: int
  nd_gid :: int
  nd_mode :: "12 word"
  nd_nlink :: nat
  nd_dev :: nat
  nd_ino :: nat
  nd_mtime :: nat
  nd_ctime :: nat

type_synonym fpath = "string list"

datatype sys_op =
    SYS_OPEN | SYS_STAT | SYS_MKDIR | SYS_CHOWN | SYS_CHMOD | SYS_LIST | SYS_CREATE | SYS_WRITE | SYS_READ
  | SYS_SYNC | SYS_REPLACE | SYS_UNLINK | SYS_RMDIR | SYS_SYMLINK | SYS_READLINK

record file_system =
  fs_nodes :: "(fpath \<times> fs_node) list"
  fs_now :: nat
  fs_next :: nat
  fs_euid :: int
  fs_egid :: int
  fs_token :: "nat \<Rightarrow> string"
  fs_fault :: "nat \<Rightarrow> sys_op \<Rightarrow> fpath \<Rightarrow> bool"

type_synonym 'a fio = "(file_system, 'a) sio"

definition fs_get :: "file_system \<Rightarrow> fpath \<Rightarrow> fs_node option" where
  "fs_get s p = map_of (fs_nodes s) p"

definition fs_put :: "fpath \<Rightarrow> fs_node \<Rightarrow> file_system \<Rightarrow> file_system" where
  "fs_put p n s = s\<lparr>fs_nodes := (p, n) # filter (\<lambda>e. fst e \<noteq> p) (fs_nodes s)\<rparr>"

definition fs_del :: "fpath \<Rightarrow> file_system \<Rightarrow> file_system" where
  "fs_del p s = s\<lparr>fs_nodes := filter (\<lambda>e. fst e \<noteq> p) (fs_nodes s)\<rparr>"

definition fs_entries :: "file_system \<Rightarrow> fpath \<Rightarrow> string list" where
  "fs_entries s d = map (\<lambda>e. last (fst e)) (filter (\<lambda>e. fst e \<noteq> [] \<and> butlast (fst e) = d) (fs_nodes s))"

text \<open>One call: the clock advances, and the call may be refused.\<close>

definition sys :: "sys_op \<Rightarrow> fpath \<Rightarrow> 'a fio \<Rightarrow> 'a fio" where
  "sys op p f s = (let s1 = s\<lparr>fs_now := fs_now s + 1\<rparr> in if fs_fault s (fs_now s) op p then (Inl Os_Error, s1) else f s1)"

definition need_node :: "fpath \<Rightarrow> (fs_node \<Rightarrow> 'a fio) \<Rightarrow> 'a fio" where
  "need_node p f s = (case fs_get s p of None \<Rightarrow> (Inl File_Not_Found, s) | Some n \<Rightarrow> f n s)"

text \<open>\<open>os.open(name, O_DIRECTORY | O_NOFOLLOW, dir_fd=fd)\<close>, and for reading without \<open>O_DIRECTORY\<close>.\<close>

definition sys_open_dir :: "fpath \<Rightarrow> string \<Rightarrow> fpath fio" where
  "sys_open_dir fd name = (let p = fd @ [name] in sys SYS_OPEN p (need_node p (\<lambda>n.
     if nd_kind n = Directory then sret p else sraise Os_Error)))"

definition sys_open_file :: "fpath \<Rightarrow> string \<Rightarrow> fpath fio" where
  "sys_open_file fd name = (let p = fd @ [name] in sys SYS_OPEN p (need_node p (\<lambda>n.
     case nd_kind n of Symlink _ \<Rightarrow> sraise Os_Error | _ \<Rightarrow> sret p)))"

definition sys_fstat :: "fpath \<Rightarrow> fs_node fio" where
  "sys_fstat fd = need_node fd sret"

definition sys_stat :: "fpath \<Rightarrow> string \<Rightarrow> fs_node fio" where
  "sys_stat fd name = sys SYS_STAT (fd @ [name]) (sys_fstat (fd @ [name]))"

definition is_directory :: "file_system \<Rightarrow> fpath \<Rightarrow> bool" where
  "is_directory s d = (case fs_get s d of Some n \<Rightarrow> nd_kind n = Directory | None \<Rightarrow> False)"

text \<open>A new node; a directory with the set-group-id bit hands its group on, and the bit to directories.\<close>

definition new_node :: "fpath \<Rightarrow> node_kind \<Rightarrow> 12 word \<Rightarrow> file_system \<Rightarrow> fs_node" where
  "new_node fd kind mode s = (let inherits = (case fs_get s fd of Some d \<Rightarrow> nd_mode d AND 0x400 \<noteq> 0 | None \<Rightarrow> False) in
     \<lparr>nd_kind = kind, nd_uid = fs_euid s,
      nd_gid = (if inherits then (case fs_get s fd of Some d \<Rightarrow> nd_gid d | None \<Rightarrow> fs_egid s) else fs_egid s),
      nd_mode = (if inherits \<and> kind = Directory then mode OR 0x400 else mode), nd_nlink = 1, nd_dev = 0,
      nd_ino = fs_next s, nd_mtime = fs_now s, nd_ctime = fs_now s\<rparr>)"

definition sys_create :: "sys_op \<Rightarrow> fpath \<Rightarrow> string \<Rightarrow> node_kind \<Rightarrow> 12 word \<Rightarrow> fpath fio" where
  "sys_create op fd name kind mode = (let p = fd @ [name] in sys op p (\<lambda>s.
     if \<not> is_directory s fd then (Inl File_Not_Found, s)
     else if fs_get s p \<noteq> None then (Inl File_Exists, s)
     else (Inr p, (fs_put p (new_node fd kind mode s) s)\<lparr>fs_next := fs_next s + 1\<rparr>)))"

definition sys_mkdir :: "fpath \<Rightarrow> string \<Rightarrow> fpath fio" where
  "sys_mkdir fd name = sys_create SYS_MKDIR fd name Directory 0x1C0"

text \<open>A change of a node through its descriptor.\<close>

definition sys_change :: "sys_op \<Rightarrow> fpath \<Rightarrow> (fs_node \<Rightarrow> nat \<Rightarrow> fs_node) \<Rightarrow> unit fio" where
  "sys_change op fd f = sys op fd (need_node fd (\<lambda>n s. (Inr (), fs_put fd (f n (fs_now s)) s)))"

definition sys_fchown :: "fpath \<Rightarrow> int \<Rightarrow> int option \<Rightarrow> unit fio" where
  "sys_fchown fd uid gid = sys_change SYS_CHOWN fd (\<lambda>n now. n\<lparr>nd_uid := uid,
     nd_gid := (case gid of None \<Rightarrow> nd_gid n | Some g \<Rightarrow> g), nd_ctime := now\<rparr>)"

definition sys_fchmod :: "fpath \<Rightarrow> 12 word \<Rightarrow> unit fio" where
  "sys_fchmod fd mode = sys_change SYS_CHMOD fd (\<lambda>n now. n\<lparr>nd_mode := mode, nd_ctime := now\<rparr>)"

definition sys_write :: "fpath \<Rightarrow> string \<Rightarrow> unit fio" where
  "sys_write fd content = sys SYS_WRITE fd (need_node fd (\<lambda>n s. case nd_kind n of
     Regular _ \<Rightarrow> (Inr (), fs_put fd (n\<lparr>nd_kind := Regular content, nd_mtime := fs_now s, nd_ctime := fs_now s\<rparr>) s)
   | _ \<Rightarrow> (Inl Os_Error, s)))"

definition sys_read :: "fpath \<Rightarrow> string fio" where
  "sys_read fd = sys SYS_READ fd (need_node fd (\<lambda>n. case nd_kind n of Regular t \<Rightarrow> sret t | _ \<Rightarrow> sraise Os_Error))"

definition sys_listdir :: "fpath \<Rightarrow> string list fio" where
  "sys_listdir fd = sys SYS_LIST fd (\<lambda>s. (Inr (fs_entries s fd), s))"

definition sys_fsync :: "fpath \<Rightarrow> unit fio" where
  "sys_fsync fd = sys SYS_SYNC fd (sret ())"

text \<open>\<open>os.replace\<close> within one directory, of an object that is no directory.\<close>

definition sys_replace :: "fpath \<Rightarrow> string \<Rightarrow> string \<Rightarrow> unit fio" where
  "sys_replace fd source dest = sys SYS_REPLACE (fd @ [dest]) (need_node (fd @ [source]) (\<lambda>n s.
     if nd_kind n = Directory \<or> is_directory s (fd @ [dest]) then (Inl Os_Error, s)
     else (Inr (), fs_put (fd @ [dest]) (n\<lparr>nd_ctime := fs_now s\<rparr>) (fs_del (fd @ [source]) s))))"

definition sys_unlink :: "fpath \<Rightarrow> string \<Rightarrow> unit fio" where
  "sys_unlink fd name = sys SYS_UNLINK (fd @ [name]) (need_node (fd @ [name]) (\<lambda>n s.
     if nd_kind n = Directory then (Inl Os_Error, s) else (Inr (), fs_del (fd @ [name]) s)))"

definition sys_rmdir :: "fpath \<Rightarrow> string \<Rightarrow> unit fio" where
  "sys_rmdir fd name = sys SYS_RMDIR (fd @ [name]) (need_node (fd @ [name]) (\<lambda>n s.
     if nd_kind n \<noteq> Directory then (Inl Os_Error, s)
     else if fs_entries s (fd @ [name]) \<noteq> [] then (Inl Dir_Not_Empty, s) else (Inr (), fs_del (fd @ [name]) s)))"

definition sys_symlink :: "fpath \<Rightarrow> string \<Rightarrow> string \<Rightarrow> fpath fio" where
  "sys_symlink fd target name = sys_create SYS_SYMLINK fd name (Symlink target) 0x1FF"

definition sys_readlink :: "fpath \<Rightarrow> string \<Rightarrow> string fio" where
  "sys_readlink fd name = sys SYS_READLINK (fd @ [name]) (need_node (fd @ [name]) (\<lambda>n.
     case nd_kind n of Symlink t \<Rightarrow> sret t | _ \<Rightarrow> sraise Os_Error))"

text \<open>\<open>secrets.token_hex\<close>: arbitrary texts, one per draw.\<close>

definition sys_token :: "string fio" where
  "sys_token s = (Inr (fs_token s (fs_now s)), s)"

section \<open>The setup's file operations\<close>

record setup_fs =
  sf_root :: pure_path
  sf_owner :: int

definition mk_setup_fs :: "pure_path \<Rightarrow> setup_fs fio" where
  "mk_setup_fs r s = (if \<not> path_absolute r \<or> ''..'' \<in> set (pp_parts r)
     then (Inl (Unsafe_Setup_Path ''setup root must be absolute''), s)
     else (Inr \<lparr>sf_root = r, sf_owner = (if r = slash then 0 else fs_euid s)\<rparr>, s))"

definition sf_parts :: "setup_fs \<Rightarrow> pure_path \<Rightarrow> string list fio" where
  "sf_parts f p = (if \<not> path_absolute p \<or> ''..'' \<in> set (pp_parts p)
     then sraise (Unsafe_Setup_Path ''setup path must be absolute'')
     else case relative_parts (sf_root f) p of
       None \<Rightarrow> sraise (Unsafe_Setup_Path ''setup path is outside the selected root'') | Some parts \<Rightarrow> sret parts)"

definition untrusted_write :: "12 word \<Rightarrow> bool" where
  "untrusted_write m \<longleftrightarrow> m AND 0x12 \<noteq> 0"

definition directory_safe :: "int set \<Rightarrow> bool \<Rightarrow> fs_node \<Rightarrow> bool" where
  "directory_safe owners ancestor n \<longleftrightarrow> nd_kind n = Directory \<and> nd_uid n \<in> owners \<and>
     (untrusted_write (nd_mode n) \<longrightarrow> ancestor \<and> nd_uid n = 0 \<and> nd_mode n AND 0x200 \<noteq> 0)"

definition validate_directory :: "fpath \<Rightarrow> int set \<Rightarrow> bool \<Rightarrow> fs_node fio" where
  "validate_directory fd owners ancestor = sbind (sys_fstat fd) (\<lambda>n.
     if nd_kind n \<noteq> Directory \<or> nd_uid n \<notin> owners then sraise (Unsafe_Setup_Path ''setup directory has unsafe type or ownership'')
     else if untrusted_write (nd_mode n) \<and> \<not> (ancestor \<and> nd_uid n = 0 \<and> nd_mode n AND 0x200 \<noteq> 0)
     then sraise (Unsafe_Setup_Path ''setup directory is writable by an untrusted group/user'')
     else sret n)"

text \<open>\<open>os.mkdir\<close> where an existing object is left alone: whether it was created.\<close>

definition try_mkdir :: "fpath \<Rightarrow> string \<Rightarrow> bool fio" where
  "try_mkdir fd part = scatch (sbind (sys_mkdir fd part) (\<lambda>_. sret True))
     (\<lambda>e. if e = File_Exists then sret False else sraise e)"

definition open_child :: "string \<Rightarrow> fpath \<Rightarrow> string \<Rightarrow> fpath fio" where
  "open_child message fd part = scatch (sys_open_dir fd part)
     (\<lambda>e. if e \<noteq> File_Not_Found \<and> os_error e then sraise (Unsafe_Setup_Path message) else sraise e)"

definition current_euid :: "int fio" where
  "current_euid s = (Inr (fs_euid s), s)"

fun root_walk :: "int \<Rightarrow> bool \<Rightarrow> fpath \<Rightarrow> string list \<Rightarrow> fpath fio" where
  "root_walk owner create fd [] = sret fd"
| "root_walk owner create fd (part # parts) =
     sbind (validate_directory fd {0, owner} True) (\<lambda>_.
     sbind (if parts = [] \<and> create then try_mkdir fd part else sret False) (\<lambda>created.
     sbind (open_child ''setup root has linked or non-directory ancestry'' fd part) (\<lambda>child.
     sbind (swhen created (sbind current_euid (\<lambda>euid. sbind (validate_directory child {euid} False) (\<lambda>_.
       sys_fchmod child 0x1ED)))) (\<lambda>_.
     root_walk owner create child parts))))"

definition open_root :: "setup_fs \<Rightarrow> bool \<Rightarrow> fpath fio" where
  "open_root f create = sbind (root_walk (sf_owner f) create [] (pp_parts (sf_root f))) (\<lambda>fd.
     sbind (validate_directory fd {sf_owner f} False) (\<lambda>_. sret fd))"

record dir_policy =
  dp_create :: bool
  dp_mode :: "12 word option"
  dp_uid :: "int option"
  dp_gid :: "int option"
  dp_data_owner :: "int option"

definition plain_policy :: dir_policy where
  "plain_policy = \<lparr>dp_create = False, dp_mode = None, dp_uid = None, dp_gid = None, dp_data_owner = None\<rparr>"

definition dir_owners :: "setup_fs \<Rightarrow> dir_policy \<Rightarrow> int set" where
  "dir_owners f po = {0, sf_owner f} \<union> set_option (dp_data_owner po)"

text \<open>What a directory that was just created gets, and the checks on the last component.\<close>

definition settle_created :: "dir_policy \<Rightarrow> bool \<Rightarrow> fpath \<Rightarrow> unit fio" where
  "settle_created po final child = sbind current_euid (\<lambda>euid.
     sbind (validate_directory child {euid} False) (\<lambda>n.
     sbind (if nd_mode n \<noteq> 0x1C0 then sret False else sbind (sys_listdir child) (\<lambda>entries. sret (entries = []))) (\<lambda>fresh.
     if \<not> fresh then sraise (Unsafe_Setup_Path ''new setup directory was replaced'')
     else sbind (case dp_uid po of Some uid \<Rightarrow> swhen (final \<and> euid = 0) (sys_fchown child uid (dp_gid po)) | None \<Rightarrow> sret ()) (\<lambda>_.
       sys_fchmod child (case dp_mode po of Some mode \<Rightarrow> if final then mode else 0x1ED | None \<Rightarrow> 0x1ED)))))"

definition check_final :: "dir_policy \<Rightarrow> fs_node \<Rightarrow> unit fio" where
  "check_final po n =
     (if \<exists>uid \<in> set_option (dp_uid po). nd_uid n \<noteq> uid then sraise (Unsafe_Setup_Path ''setup directory owner is not canonical'')
      else if \<exists>gid \<in> set_option (dp_gid po). nd_gid n \<noteq> gid then sraise (Unsafe_Setup_Path ''setup directory group is not canonical'')
      else if \<exists>mode \<in> set_option (dp_mode po). nd_mode n \<noteq> mode then sraise (Unsafe_Setup_Path ''setup directory mode is not canonical'')
      else sret ())"

fun dir_walk :: "setup_fs \<Rightarrow> dir_policy \<Rightarrow> fpath \<Rightarrow> string list \<Rightarrow> fpath fio" where
  "dir_walk f po fd [] = sret fd"
| "dir_walk f po fd (part # parts) =
     sbind (if dp_create po then try_mkdir fd part else sret False) (\<lambda>created.
     sbind (open_child ''setup refuses linked or non-directory ancestry'' fd part) (\<lambda>child.
     sbind (swhen created (settle_created po (parts = []) child)) (\<lambda>_.
     sbind (validate_directory child (dir_owners f po) (parts \<noteq> [])) (\<lambda>n.
     sbind (if parts = [] then check_final po n else sret ()) (\<lambda>_.
     dir_walk f po child parts)))))"

text \<open>\<open>with directory(path, ...) as fd\<close>: the descriptor is handed to what follows; closing it has no effect here.\<close>

definition directory :: "setup_fs \<Rightarrow> dir_policy \<Rightarrow> pure_path \<Rightarrow> fpath fio" where
  "directory f po p = sbind (sf_parts f p) (\<lambda>parts. sbind (open_root f (dp_create po)) (\<lambda>fd. dir_walk f po fd parts))"

subsection \<open>Files\<close>

definition file_safe :: "setup_fs \<Rightarrow> fs_node \<Rightarrow> bool" where
  "file_safe f n \<longleftrightarrow> (\<exists>t. nd_kind n = Regular t) \<and> nd_uid n = sf_owner f \<and> \<not> untrusted_write (nd_mode n) \<and> nd_nlink n = 1"

definition validate_file :: "setup_fs \<Rightarrow> fs_node \<Rightarrow> unit fio" where
  "validate_file f n = (case nd_kind n of
     Regular _ \<Rightarrow>
       if nd_uid n \<noteq> sf_owner f \<or> untrusted_write (nd_mode n)
       then sraise (Unsafe_Setup_Path ''setup file has unsafe ownership or permissions'')
       else if nd_nlink n \<noteq> 1 then sraise (Unsafe_Setup_Path ''setup refuses multiply linked authoritative files'')
       else sret ()
   | _ \<Rightarrow> sraise (Unsafe_Setup_Path ''setup target is not a regular non-symlink file''))"

text \<open>\<open>None\<close> where \<open>FileNotFoundError\<close> is caught.\<close>

definition unless_missing :: "'a option fio \<Rightarrow> 'a option fio" where
  "unless_missing p = scatch p (\<lambda>e. if e = File_Not_Found then sret None else sraise e)"

definition file_state :: "setup_fs \<Rightarrow> fpath \<Rightarrow> string \<Rightarrow> fs_node option fio" where
  "file_state f fd name = sbind (unless_missing (sbind (sys_stat fd name) (\<lambda>n. sret (Some n)))) (\<lambda>r.
     case r of None \<Rightarrow> sret None | Some n \<Rightarrow> sbind (validate_file f n) (\<lambda>_. sret (Some n)))"

definition identity :: "fs_node option \<Rightarrow> (nat \<times> nat \<times> nat \<times> nat) option" where
  "identity r = map_option (\<lambda>n. (nd_dev n, nd_ino n, nd_mtime n, nd_ctime n)) r"

definition read_opened :: "setup_fs \<Rightarrow> fpath \<Rightarrow> string \<Rightarrow> fs_node \<Rightarrow> string option fio" where
  "read_opened f fd name before =
     sbind (scatch (sys_open_file fd name)
       (\<lambda>e. if os_error e then sraise (Unsafe_Setup_Path ''setup file changed while being opened'') else sraise e)) (\<lambda>h.
     sbind (sys_fstat h) (\<lambda>n. sbind (validate_file f n) (\<lambda>_.
     if identity (Some before) \<noteq> identity (Some n) then sraise (Unsafe_Setup_Path ''setup file changed while being opened'')
     else sbind (sys_read h) (\<lambda>content. sbind (file_state f fd name) (\<lambda>after.
       if identity (Some before) \<noteq> identity after then sraise (Unsafe_Setup_Path ''setup file changed while being read'')
       else sret (Some content))))))"

definition read_text :: "setup_fs \<Rightarrow> pure_path \<Rightarrow> string option fio" where
  "read_text f p = sbind (sf_parts f p) (\<lambda>_. unless_missing (
     sbind (directory f plain_policy (path_parent p)) (\<lambda>fd. sbind (file_state f fd (pure_name p)) (\<lambda>before.
       case before of None \<Rightarrow> sret None | Some b \<Rightarrow> read_opened f fd (pure_name p) b))))"

definition check_directory_current :: "setup_fs \<Rightarrow> pure_path \<Rightarrow> fpath \<Rightarrow> unit fio" where
  "check_directory_current f p fd = sbind (directory f plain_policy p) (\<lambda>current.
     sbind (sys_fstat fd) (\<lambda>l. sbind (sys_fstat current) (\<lambda>r.
       if (nd_dev l, nd_ino l) \<noteq> (nd_dev r, nd_ino r) then sraise (Unsafe_Setup_Path ''setup directory changed during the operation'')
       else sret ())))"

record write_options =
  wo_mode :: "12 word"
  wo_gid :: "int option"
  wo_preserve :: bool

definition selected_gid :: "write_options \<Rightarrow> fs_node option \<Rightarrow> int option" where
  "selected_gid wo before = (case before of Some b \<Rightarrow> if wo_preserve wo then Some (nd_gid b) else wo_gid wo | None \<Rightarrow> wo_gid wo)"

definition selected_mode :: "write_options \<Rightarrow> fs_node option \<Rightarrow> 12 word" where
  "selected_mode wo before = (case before of Some b \<Rightarrow> if wo_preserve wo then nd_mode b else wo_mode wo | None \<Rightarrow> wo_mode wo)"

definition temporary_name :: "string \<Rightarrow> string \<Rightarrow> string" where
  "temporary_name name token = ''.'' @ name @ ''.'' @ token @ ''.tmp''"

definition remove_temporary :: "fpath \<Rightarrow> string \<Rightarrow> unit fio" where
  "remove_temporary fd temp = scatch (sys_unlink fd temp) (\<lambda>e. if e = File_Not_Found then sret () else sraise e)"

definition fill_temporary :: "setup_fs \<Rightarrow> write_options \<Rightarrow> fs_node option \<Rightarrow> string \<Rightarrow> fpath \<Rightarrow> unit fio" where
  "fill_temporary f wo before content h = sbind current_euid (\<lambda>euid.
     sbind (swhen (euid = 0) (sys_fchown h (sf_owner f) (selected_gid wo before))) (\<lambda>_.
     sbind (sys_fchmod h (selected_mode wo before)) (\<lambda>_.
     sbind (sys_write h content) (\<lambda>_. sys_fsync h))))"

definition write_text :: "setup_fs \<Rightarrow> write_options \<Rightarrow> pure_path \<Rightarrow> string \<Rightarrow> unit fio" where
  "write_text f wo p content = sbind (sf_parts f p) (\<lambda>_.
     sbind (directory f (plain_policy\<lparr>dp_create := True\<rparr>) (path_parent p)) (\<lambda>fd.
     sbind (file_state f fd (pure_name p)) (\<lambda>before. sbind sys_token (\<lambda>token.
     let temp = temporary_name (pure_name p) token in
     sbind (sys_create SYS_CREATE fd temp (Regular []) 0x180) (\<lambda>h. sfinally
       (sbind (fill_temporary f wo before content h) (\<lambda>_. sbind (file_state f fd (pure_name p)) (\<lambda>now.
         if identity before \<noteq> identity now then sraise (Unsafe_Setup_Path ''setup file changed before atomic replacement'')
         else sbind (check_directory_current f (path_parent p) fd) (\<lambda>_. sbind (sys_replace fd temp (pure_name p)) (\<lambda>_.
           sbind (sys_fsync fd) (\<lambda>_. check_directory_current f (path_parent p) fd))))))
       (remove_temporary fd temp))))))"

text \<open>\<open>expected=None\<close> stands for the unset default.\<close>

definition remove_file :: "setup_fs \<Rightarrow> pure_path \<Rightarrow> string option \<Rightarrow> unit fio" where
  "remove_file f p expected = sbind (sf_parts f p) (\<lambda>_. sbind (read_text f p) (\<lambda>current. case current of
     None \<Rightarrow> sret ()
   | Some t \<Rightarrow> if expected \<noteq> None \<and> expected \<noteq> Some t then sraise (Unsafe_Setup_Path ''setup refuses to remove a changed file'')
       else sbind (directory f plain_policy (path_parent p)) (\<lambda>fd. sbind (file_state f fd (pure_name p)) (\<lambda>_.
         sbind (sys_unlink fd (pure_name p)) (\<lambda>_. sys_fsync fd)))))"

definition remove_directory :: "setup_fs \<Rightarrow> pure_path \<Rightarrow> int option \<Rightarrow> bool fio" where
  "remove_directory f p data_owner = sbind (sf_parts f p) (\<lambda>_. scatch
     (sbind (directory f (plain_policy\<lparr>dp_data_owner := data_owner\<rparr>) (path_parent p)) (\<lambda>fd.
       sbind (sys_open_dir fd (pure_name p)) (\<lambda>child.
       sbind (validate_directory child ({0, sf_owner f} \<union> set_option data_owner) False) (\<lambda>_.
         scatch (sbind (sys_rmdir fd (pure_name p)) (\<lambda>_. sret True))
           (\<lambda>e. if e = Dir_Not_Empty then sret False else sraise e)))))
     (\<lambda>e. if e = File_Not_Found then sret False else sraise e))"

subsection \<open>Links\<close>

definition link_state :: "setup_fs \<Rightarrow> fpath \<Rightarrow> string \<Rightarrow> (string \<times> fs_node) option fio" where
  "link_state f fd name = sbind (unless_missing (sbind (sys_stat fd name) (\<lambda>n. sret (Some n)))) (\<lambda>r. case r of
     None \<Rightarrow> sret None
   | Some n \<Rightarrow> (case nd_kind n of
       Symlink _ \<Rightarrow> if nd_uid n \<noteq> sf_owner f then sraise (Unsafe_Setup_Path ''NVIDIA driver bridge target is not a managed symlink'')
         else sbind (sys_readlink fd name) (\<lambda>t. sret (Some (t, n)))
     | _ \<Rightarrow> sraise (Unsafe_Setup_Path ''NVIDIA driver bridge target is not a managed symlink'')))"

definition read_link :: "setup_fs \<Rightarrow> pure_path \<Rightarrow> string option fio" where
  "read_link f p = sbind (sf_parts f p) (\<lambda>_. unless_missing (
     sbind (directory f plain_policy (path_parent p)) (\<lambda>fd. sbind (link_state f fd (pure_name p)) (\<lambda>r. sret (map_option fst r)))))"

definition replace_link :: "setup_fs \<Rightarrow> pure_path \<Rightarrow> string \<Rightarrow> string option \<Rightarrow> unit fio" where
  "replace_link f p target expected = sbind (sf_parts f p) (\<lambda>_.
     sbind (directory f plain_policy (path_parent p)) (\<lambda>fd.
     sbind (link_state f fd (pure_name p)) (\<lambda>previous.
     if map_option fst previous \<noteq> expected then sraise (Unsafe_Setup_Path ''driver bridge changed before replacement'')
     else sbind sys_token (\<lambda>token. let temp = temporary_name (pure_name p) token in
       sbind (sys_symlink fd target temp) (\<lambda>_. sfinally
         (sbind (link_state f fd (pure_name p)) (\<lambda>now.
           if identity (map_option snd previous) \<noteq> identity (map_option snd now)
           then sraise (Unsafe_Setup_Path ''driver bridge changed before replacement'')
           else sbind (check_directory_current f (path_parent p) fd) (\<lambda>_. sbind (sys_replace fd temp (pure_name p)) (\<lambda>_.
             sbind (sys_fsync fd) (\<lambda>_. check_directory_current f (path_parent p) fd)))))
         (remove_temporary fd temp))))))"

definition remove_link :: "setup_fs \<Rightarrow> pure_path \<Rightarrow> string \<Rightarrow> unit fio" where
  "remove_link f p expected = sbind (sf_parts f p) (\<lambda>_.
     sbind (directory f plain_policy (path_parent p)) (\<lambda>fd. sbind (link_state f fd (pure_name p)) (\<lambda>r.
     if map_option fst r \<noteq> Some expected then sraise (Unsafe_Setup_Path ''driver bridge changed before removal'')
     else sbind (sys_unlink fd (pure_name p)) (\<lambda>_. sys_fsync fd))))"

section \<open>What an operation keeps\<close>

definition keeps :: "('s \<Rightarrow> 's \<Rightarrow> bool) \<Rightarrow> ('s, 'a) sio \<Rightarrow> bool" where
  "keeps R p \<longleftrightarrow> (\<forall>s. R s (snd (p s)))"

lemma keepsD: "keeps R p \<Longrightarrow> p s = (r, s') \<Longrightarrow> R s s'"
  unfolding keeps_def by (metis snd_conv)

lemma keepsI: "(\<And>s r s'. p s = (r, s') \<Longrightarrow> R s s') \<Longrightarrow> keeps R p"
  unfolding keeps_def by (metis prod.collapse)

lemma sbind_Inr: "sbind p k s = (Inr y, s') \<longleftrightarrow> (\<exists>x s1. p s = (Inr x, s1) \<and> k x s1 = (Inr y, s'))"
  by (auto simp: sbind_def split: prod.splits sum.splits)

lemma sbind_Inl: "sbind p k s = (Inl e, s') \<longleftrightarrow> p s = (Inl e, s') \<or> (\<exists>x s1. p s = (Inr x, s1) \<and> k x s1 = (Inl e, s'))"
  by (auto simp: sbind_def split: prod.splits sum.splits)

lemma sbind_sret [simp]: "sbind (sret x) k = k x"
  by (simp add: sbind_def sret_def fun_eq_iff)

lemma sret_iff [simp]: "sret x s = (r, s') \<longleftrightarrow> r = Inr x \<and> s' = s"
  by (auto simp: sret_def)

lemma sraise_iff [simp]: "sraise e s = (r, s') \<longleftrightarrow> r = Inl e \<and> s' = s"
  by (auto simp: sraise_def)

lemma scatch_Inr: "scatch p h s = (Inr y, s') \<longleftrightarrow> p s = (Inr y, s') \<or> (\<exists>e s1. p s = (Inl e, s1) \<and> h e s1 = (Inr y, s'))"
  by (auto simp: scatch_def split: prod.splits sum.splits)

lemma scatch_Inl: "scatch p h s = (Inl x, s') \<longleftrightarrow> (\<exists>e s1. p s = (Inl e, s1) \<and> h e s1 = (Inl x, s'))"
  by (auto simp: scatch_def split: prod.splits sum.splits)

text \<open>A reflexive and transitive relation is kept by a composition when its parts keep it.\<close>

locale kept =
  fixes R :: "'s \<Rightarrow> 's \<Rightarrow> bool"
  assumes keep_refl: "R s s" and keep_trans: "R s t \<Longrightarrow> R t u \<Longrightarrow> R s u"
begin

lemma keeps_ret: "keeps R (sret x)" "keeps R (sraise e)"
  by (simp_all add: keeps_def sret_def sraise_def keep_refl)

lemma keeps_bind: "keeps R p \<Longrightarrow> (\<And>x. keeps R (k x)) \<Longrightarrow> keeps R (sbind p k)"
  unfolding keeps_def sbind_def by (auto split: prod.splits sum.splits) (metis keep_trans snd_conv)+

lemma keeps_catch: "keeps R p \<Longrightarrow> (\<And>e. keeps R (h e)) \<Longrightarrow> keeps R (scatch p h)"
  unfolding keeps_def scatch_def by (auto split: prod.splits sum.splits) (metis keep_trans snd_conv)+

lemma keeps_finally: "keeps R p \<Longrightarrow> keeps R q \<Longrightarrow> keeps R (sfinally p q)"
  unfolding keeps_def sfinally_def by (auto split: prod.splits sum.splits) (metis keep_trans snd_conv)+

lemma keeps_when: "(c \<Longrightarrow> keeps R p) \<Longrightarrow> keeps R (swhen c p)"
  by (simp add: swhen_def keeps_ret)

lemma keeps_if: "(c \<Longrightarrow> keeps R p) \<Longrightarrow> (\<not> c \<Longrightarrow> keeps R q) \<Longrightarrow> keeps R (if c then p else q)"
  by simp

lemma keeps_option: "(v = None \<Longrightarrow> keeps R p) \<Longrightarrow> (\<And>x. v = Some x \<Longrightarrow> keeps R (q x)) \<Longrightarrow> keeps R (case v of None \<Rightarrow> p | Some x \<Rightarrow> q x)"
  by (cases v) simp_all

lemma keeps_kind: "keeps R d \<Longrightarrow> (\<And>t. keeps R (g t)) \<Longrightarrow> (\<And>t. keeps R (l t)) \<Longrightarrow> keeps R b \<Longrightarrow>
    keeps R (case k of Directory \<Rightarrow> d | Regular t \<Rightarrow> g t | Symlink t \<Rightarrow> l t | Special \<Rightarrow> b)"
  by (cases k) simp_all

lemmas keeps_parts = keeps_ret keeps_bind keeps_catch keeps_finally keeps_when keeps_if keeps_option keeps_kind

end

text \<open>
  Relations on the file system that the passing of time does not break. Where the calls that change
  nodes keep such a relation, so do the operations of the setup.
\<close>

locale fs_kept = kept R for R :: "file_system \<Rightarrow> file_system \<Rightarrow> bool" +
  assumes keep_clock: "fs_nodes s' = fs_nodes s \<Longrightarrow> R s s'"
begin

lemma keeps_sys:
  assumes "keeps R p"
  shows "keeps R (sys op q p)"
proof (rule keepsI)
  fix s :: file_system and r s'
  let ?s = "s\<lparr>fs_now := fs_now s + 1\<rparr>"
  assume "sys op q p s = (r, s')"
  then have "s' = ?s \<or> p ?s = (r, s')" by (auto simp: sys_def Let_def split: if_splits)
  with keepsD [OF assms] keep_refl have "R ?s s'" by metis
  moreover have "R s ?s" by (rule keep_clock) simp
  ultimately show "R s s'" by (metis keep_trans)
qed

lemma keeps_need: "(\<And>n. keeps R (p n)) \<Longrightarrow> keeps R (need_node q p)"
  unfolding keeps_def need_node_def by (auto simp: keep_refl split: option.splits)

lemma keeps_reading:
  "keeps R (sys_open_dir fd name)" "keeps R (sys_open_file fd name)" "keeps R (sys_fstat fd)" "keeps R (sys_stat fd name)"
  "keeps R (sys_read fd)" "keeps R (sys_listdir fd)" "keeps R (sys_fsync fd)" "keeps R (sys_readlink fd name)"
  "keeps R sys_token" "keeps R current_euid"
  subgoal unfolding sys_open_dir_def Let_def by (intro keeps_sys keeps_need keeps_parts)
  subgoal unfolding sys_open_file_def Let_def by (intro keeps_sys keeps_need keeps_parts)
  subgoal unfolding sys_fstat_def by (intro keeps_need keeps_parts)
  subgoal unfolding sys_stat_def sys_fstat_def by (intro keeps_sys keeps_need keeps_parts)
  subgoal unfolding sys_read_def by (intro keeps_sys keeps_need keeps_parts)
  subgoal unfolding sys_listdir_def by (intro keeps_sys) (simp add: keeps_def keep_refl)
  subgoal unfolding sys_fsync_def by (intro keeps_sys keeps_parts)
  subgoal unfolding sys_readlink_def by (intro keeps_sys keeps_need keeps_parts)
  subgoal by (simp add: keeps_def sys_token_def keep_refl)
  subgoal by (simp add: keeps_def current_euid_def keep_refl)
  done

lemma keeps_checking:
  "keeps R (sf_parts f p)" "keeps R (validate_directory fd owners a)" "keeps R (open_child m fd part)" "keeps R (check_final po n)"
  "keeps R (validate_file f n)" "keeps R (file_state f fd name)" "keeps R (read_opened f fd name b)" "keeps R (link_state f fd name)"
  subgoal unfolding sf_parts_def by (intro keeps_parts)
  subgoal unfolding validate_directory_def by (intro keeps_parts keeps_reading)
  subgoal unfolding open_child_def by (intro keeps_parts keeps_reading)
  subgoal unfolding check_final_def by (intro keeps_parts)
  subgoal unfolding validate_file_def by (intro keeps_parts)
  subgoal unfolding file_state_def unless_missing_def validate_file_def by (intro keeps_parts keeps_reading)
  subgoal unfolding read_opened_def file_state_def unless_missing_def validate_file_def by (intro keeps_parts keeps_reading)
  subgoal unfolding link_state_def unless_missing_def case_prod_unfold by (intro keeps_parts keeps_reading)
  done

text \<open>Walking down without creating anything changes nothing.\<close>

lemma keeps_walks:
  "keeps R (root_walk owner False fd parts)" "\<not> dp_create po \<Longrightarrow> keeps R (dir_walk f po fd parts)"
  by (induction parts arbitrary: fd) (auto intro!: keeps_parts keeps_reading keeps_checking simp: swhen_def)

lemma keeps_directory_plain: "\<not> dp_create po \<Longrightarrow> keeps R (directory f po p)"
  unfolding directory_def open_root_def by (simp, intro keeps_parts keeps_checking keeps_walks)

lemma keeps_read:
  "keeps R (read_text f p)" "keeps R (check_directory_current f p fd)" "keeps R (read_link f p)"
  subgoal unfolding read_text_def unless_missing_def
    by (intro keeps_parts keeps_reading keeps_checking keeps_directory_plain) (simp add: plain_policy_def)
  subgoal unfolding check_directory_current_def
    by (intro keeps_parts keeps_reading keeps_checking keeps_directory_plain) (simp add: plain_policy_def)
  subgoal unfolding read_link_def unless_missing_def
    by (intro keeps_parts keeps_reading keeps_checking keeps_directory_plain) (simp add: plain_policy_def)
  done

end

text \<open>Relations that survive creating directories and setting their metadata.\<close>

locale dir_kept = fs_kept +
  assumes keep_mkdir: "keeps R (sys_mkdir fd name)"
    and keep_chmod: "keeps R (sys_fchmod fd mode)"
    and keep_chown: "keeps R (sys_fchown fd uid gid)"
begin

lemma keeps_settle: "keeps R (try_mkdir fd part)" "keeps R (settle_created po final child)"
  unfolding try_mkdir_def settle_created_def
  by (intro keeps_parts keeps_reading keeps_checking keep_mkdir keep_chmod keep_chown)+

lemma keeps_walks_create:
  "keeps R (root_walk owner create fd parts)" "keeps R (dir_walk f po fd parts)"
  by (induction parts arbitrary: fd)
    (auto intro!: keeps_parts keeps_reading keeps_checking keeps_settle keep_chmod)

lemma keeps_directory: "keeps R (directory f po p)"
  unfolding directory_def open_root_def by (intro keeps_parts keeps_checking keeps_walks_create)

end

section \<open>The tree\<close>

lemma fs_get_put [simp]: "fs_get (fs_put p n s) q = (if q = p then Some n else fs_get s q)"
proof -
  have "map_of (filter (\<lambda>e. fst e \<noteq> p) xs) q = (if q = p then None else map_of xs q)" for xs :: "(fpath \<times> fs_node) list"
    by (induction xs) auto
  then show ?thesis by (simp add: fs_get_def fs_put_def)
qed

lemma fs_get_del [simp]: "fs_get (fs_del p s) q = (if q = p then None else fs_get s q)"
proof -
  have "map_of (filter (\<lambda>e. fst e \<noteq> p) xs) q = (if q = p then None else map_of xs q)" for xs :: "(fpath \<times> fs_node) list"
    by (induction xs) auto
  then show ?thesis by (simp add: fs_get_def fs_del_def)
qed

lemma fs_get_other [simp]: "fs_get (s\<lparr>fs_now := n\<rparr>) p = fs_get s p" "fs_get (s\<lparr>fs_next := n\<rparr>) p = fs_get s p"
  by (simp_all add: fs_get_def)

definition text_at :: "file_system \<Rightarrow> fpath \<Rightarrow> string option" where
  "text_at s p = (case fs_get s p of Some n \<Rightarrow> (case nd_kind n of Regular t \<Rightarrow> Some t | _ \<Rightarrow> None) | None \<Rightarrow> None)"

text \<open>Every node but the root lies in a directory.\<close>

definition tree_ok :: "file_system \<Rightarrow> bool" where
  "tree_ok s \<longleftrightarrow> is_directory s [] \<and> (\<forall>p n. p \<noteq> [] \<longrightarrow> fs_get s p = Some n \<longrightarrow> is_directory s (butlast p))"

definition same_nodes :: "file_system \<Rightarrow> file_system \<Rightarrow> bool" where
  "same_nodes s s' \<longleftrightarrow> fs_nodes s' = fs_nodes s"

definition same_texts :: "file_system \<Rightarrow> file_system \<Rightarrow> bool" where
  "same_texts s s' \<longleftrightarrow> (\<forall>p. text_at s' p = text_at s p)"

definition same_but :: "fpath set \<Rightarrow> file_system \<Rightarrow> file_system \<Rightarrow> bool" where
  "same_but q s s' \<longleftrightarrow> (\<forall>p. p \<notin> q \<longrightarrow> text_at s' p = text_at s p)"

definition tree_kept :: "file_system \<Rightarrow> file_system \<Rightarrow> bool" where
  "tree_kept s s' \<longleftrightarrow> (tree_ok s \<longrightarrow> tree_ok s')"

lemma nodes_views:
  assumes "fs_nodes s' = fs_nodes s"
  shows "text_at s' = text_at s" "tree_ok s' = tree_ok s" "fs_get s' = fs_get s" "is_directory s' = is_directory s"
  using assms by (simp_all add: text_at_def tree_ok_def is_directory_def fs_get_def fun_eq_iff)

lemma butlast_self [simp]: "butlast p = p \<longleftrightarrow> p = []"
  by (cases p rule: rev_cases) simp_all

interpretation nodes: fs_kept same_nodes
  by unfold_locales (auto simp: same_nodes_def)

lemma new_node_kind [simp]: "nd_kind (new_node fd kind mode s) = kind"
  by (simp add: new_node_def Let_def)

lemmas call_defs = sys_def need_node_def Let_def sys_create_def sys_mkdir_def sys_change_def sys_fchmod_def sys_fchown_def

interpretation texts: dir_kept same_texts
proof unfold_locales
  show "keeps same_texts (sys_mkdir fd name)" "keeps same_texts (sys_fchmod fd mode)" "keeps same_texts (sys_fchown fd uid gid)"
    for fd name mode uid gid
    by (auto simp: keeps_def call_defs same_texts_def text_at_def split: option.splits if_splits)
  show "same_texts s s'" if "fs_nodes s' = fs_nodes s" for s s'
    using nodes_views(1) [OF that] by (simp add: same_texts_def)
qed (simp_all add: same_texts_def)

interpretation others: dir_kept "same_but q" for q
proof unfold_locales
  show "keeps (same_but q) (sys_mkdir fd name)" "keeps (same_but q) (sys_fchmod fd mode)" "keeps (same_but q) (sys_fchown fd uid gid)"
    for fd name mode uid gid
    by (auto simp: keeps_def call_defs same_but_def text_at_def split: option.splits if_splits)
  show "same_but q s s'" if "fs_nodes s' = fs_nodes s" for s s'
    using nodes_views(1) [OF that] by (simp add: same_but_def)
qed (simp_all add: same_but_def)

interpretation tree: dir_kept tree_kept
proof unfold_locales
  show "keeps tree_kept (sys_mkdir fd name)" "keeps tree_kept (sys_fchmod fd mode)" "keeps tree_kept (sys_fchown fd uid gid)"
    for fd name mode uid gid
    by (auto simp: keeps_def call_defs tree_kept_def tree_ok_def is_directory_def split: option.splits if_splits)
  show "tree_kept s s'" if "fs_nodes s' = fs_nodes s" for s s'
    using nodes_views(2) [OF that] by (simp add: tree_kept_def)
qed (simp_all add: tree_kept_def)

section \<open>Reading\<close>

lemma sys_iff: "sys op p f s = (r, s') \<longleftrightarrow>
    (if fs_fault s (fs_now s) op p then r = Inl Os_Error \<and> s' = s\<lparr>fs_now := fs_now s + 1\<rparr> else f (s\<lparr>fs_now := fs_now s + 1\<rparr>) = (r, s'))"
  by (auto simp: sys_def Let_def)

lemma need_node_iff: "need_node p f s = (r, s') \<longleftrightarrow>
    (case fs_get s p of None \<Rightarrow> r = Inl File_Not_Found \<and> s' = s | Some n \<Rightarrow> f n s = (r, s'))"
  by (auto simp: need_node_def split: option.splits)

lemma sys_fstat_iff: "sys_fstat fd s = (r, s') \<longleftrightarrow> s' = s \<and> r = (case fs_get s fd of None \<Rightarrow> Inl File_Not_Found | Some n \<Rightarrow> Inr n)"
  by (auto simp: sys_fstat_def need_node_iff split: option.splits)

lemma validate_directory_Inr:
  "validate_directory fd owners a s = (Inr n, s') \<Longrightarrow> fs_get s fd = Some n \<and> directory_safe owners a n \<and> s' = s"
  by (auto simp: validate_directory_def sbind_Inr sys_fstat_iff directory_safe_def split: if_splits option.splits)

lemma validate_directory_missing: "validate_directory fd owners a s = (Inl File_Not_Found, s') \<Longrightarrow> fs_get s fd = None"
  by (auto simp: validate_directory_def sbind_Inl sys_fstat_iff split: if_splits option.splits)

lemma open_child_Inr: "open_child m fd part s = (Inr c, s') \<Longrightarrow> c = fd @ [part]"
  by (auto simp: open_child_def scatch_Inr sys_open_dir_def sys_iff need_node_iff Let_def split: if_splits option.splits)

lemma open_child_missing: "open_child m fd part s = (Inl File_Not_Found, s') \<Longrightarrow> fs_get s (fd @ [part]) = None"
  by (auto simp: open_child_def scatch_Inl sys_open_dir_def sys_iff need_node_iff Let_def os_error_def split: if_splits option.splits)

lemma walks_fd:
  "root_walk owner c fd parts s = (Inr fd', s') \<Longrightarrow> fd' = fd @ parts"
  "dir_walk f po fd parts s = (Inr fd', s') \<Longrightarrow> fd' = fd @ parts"
  by (induction parts arbitrary: fd s) (fastforce simp: sbind_Inr dest: open_child_Inr)+

lemma sf_parts_Inr:
  "sf_parts f p s = (Inr parts, s') \<Longrightarrow> pp_parts p = pp_parts (sf_root f) @ parts \<and> s' = s \<and> path_absolute p \<and> ''..'' \<notin> set (pp_parts p)"
  by (auto simp: sf_parts_def relative_parts_def split: if_splits option.splits) (metis append_take_drop_id)

lemma sf_parts_present [simp]: "sf_parts f p s \<noteq> (Inl File_Not_Found, s')"
  by (auto simp: sf_parts_def split: option.splits)

lemma directory_fd: "directory f po p s = (Inr fd, s') \<Longrightarrow> fd = pp_parts p"
  by (auto simp: directory_def open_root_def sbind_Inr dest!: walks_fd sf_parts_Inr)

text \<open>The directories from the root to a path, each with a trusted owner and not writable by others.\<close>

definition safe_path :: "setup_fs \<Rightarrow> file_system \<Rightarrow> fpath \<Rightarrow> bool" where
  "safe_path f s p \<longleftrightarrow> (\<forall>k \<le> length p. \<exists>n. fs_get s (take k p) = Some n \<and> directory_safe {0, sf_owner f} True n)"

lemma directory_safe_mono: "directory_safe o1 a n \<Longrightarrow> o1 \<subseteq> o2 \<Longrightarrow> directory_safe o2 True n"
  by (auto simp: directory_safe_def)

lemma nodes_get: "keeps same_nodes p \<Longrightarrow> p s = (r, s') \<Longrightarrow> fs_get s' = fs_get s"
  using keepsD [of same_nodes p s r s'] unfolding same_nodes_def by (intro nodes_views(3))

lemmas get_kept = nodes.keeps_checking(3) [THEN nodes_get] nodes.keeps_walks(1) [THEN nodes_get] nodes.keeps_walks(2) [THEN nodes_get]

lemma safe_path_snoc: "safe_path f s (p @ [x]) \<longleftrightarrow>
    safe_path f s p \<and> (\<exists>n. fs_get s (p @ [x]) = Some n \<and> directory_safe {0, sf_owner f} True n)"
proof -
  have split: "(\<forall>k \<le> length (p @ [x]). Q k) \<longleftrightarrow> (\<forall>k \<le> length p. Q k) \<and> Q (Suc (length p))" for Q
    by (auto simp: le_Suc_eq)
  show ?thesis unfolding safe_path_def split by simp
qed

lemma root_walk_safe:
  assumes "root_walk (sf_owner f) False fd parts s = (Inr fd', s')" "\<forall>k < length fd. \<exists>n. fs_get s (take k fd) = Some n \<and> directory_safe {0, sf_owner f} True n"
  shows "\<forall>k < length fd'. \<exists>n. fs_get s (take k fd') = Some n \<and> directory_safe {0, sf_owner f} True n"
  using assms
proof (induction parts arbitrary: fd s)
  case (Cons part parts)
  obtain n s1 where n: "fs_get s fd = Some n" "directory_safe {0, sf_owner f} True n" "open_child ''setup root has linked or non-directory ancestry'' fd part s = (Inr (fd @ [part]), s1)"
    "root_walk (sf_owner f) False (fd @ [part]) parts s1 = (Inr fd', s')"
    using Cons.prems(1) by (auto simp: sbind_Inr swhen_def dest!: validate_directory_Inr dest: open_child_Inr)
  have "fs_get s1 = fs_get s" using get_kept(1) [OF n(3)] .
  with Cons.IH [OF n(4)] Cons.prems(2) n(1,2) show ?case by (auto simp: less_Suc_eq)
qed simp

lemma plain_policy_simps [simp]:
  "dp_create plain_policy = False" "dp_mode plain_policy = None" "dp_uid plain_policy = None" "dp_gid plain_policy = None"
  "dp_data_owner plain_policy = None"
  by (simp_all add: plain_policy_def)

lemma dir_walk_safe:
  assumes "dir_walk f plain_policy fd parts s = (Inr fd', s')" "safe_path f s fd"
  shows "safe_path f s fd'"
  using assms
proof (induction parts arbitrary: fd s)
  case (Cons part parts)
  have owners: "dir_owners f plain_policy = {0, sf_owner f}" by (simp add: dir_owners_def)
  obtain s1 n where n: "open_child ''setup refuses linked or non-directory ancestry'' fd part s = (Inr (fd @ [part]), s1)"
    "fs_get s1 (fd @ [part]) = Some n" "directory_safe {0, sf_owner f} (parts \<noteq> []) n"
    "dir_walk f plain_policy (fd @ [part]) parts s1 = (Inr fd', s')"
    using Cons.prems(1) by (auto simp: sbind_Inr swhen_def owners check_final_def
        dest!: validate_directory_Inr dest: open_child_Inr split: if_splits)
  have get: "fs_get s1 = fs_get s" using get_kept(1) [OF n(1)] .
  have "safe_path f s (fd @ [part])"
    using Cons.prems(2) n(2,3) get directory_safe_mono [OF n(3)] by (auto simp: safe_path_snoc)
  with get have "safe_path f s1 (fd @ [part])" by (simp add: safe_path_def)
  from Cons.IH [OF n(4) this] get show ?case by (simp add: safe_path_def)
qed simp

lemma directory_plain_safe:
  assumes "directory f plain_policy p s = (Inr fd, s')"
  shows "safe_path f s (pp_parts p)"
proof -
  from assms obtain parts fd0 s1 n where w: "root_walk (sf_owner f) False [] (pp_parts (sf_root f)) s = (Inr fd0, s1)"
    "fs_get s1 fd0 = Some n" "directory_safe {sf_owner f} False n" "dir_walk f plain_policy fd0 parts s1 = (Inr fd, s')"
    by (auto simp: directory_def open_root_def sbind_Inr dest!: validate_directory_Inr sf_parts_Inr)
  have get: "fs_get s1 = fs_get s" using get_kept(2) [OF w(1)] .
  have "directory_safe {0, sf_owner f} True n" using w(3) by (rule directory_safe_mono) simp
  with root_walk_safe [OF w(1)] w(2) get have "safe_path f s fd0"
    by (auto simp: safe_path_def le_less)
  with get have "safe_path f s1 fd0" by (simp add: safe_path_def)
  from dir_walk_safe [OF w(4) this] get directory_fd [OF assms] show ?thesis by (simp add: safe_path_def)
qed

text \<open>A missing ancestor leaves nothing below it.\<close>

lemma tree_missing:
  assumes "tree_ok s" "fs_get s p = None"
  shows "fs_get s (p @ q) = None"
proof (induction q rule: rev_induct)
  case (snoc x q)
  show ?case
  proof (rule ccontr)
    assume "fs_get s (p @ q @ [x]) \<noteq> None"
    then have "is_directory s (butlast (p @ q @ [x]))" using assms(1) unfolding tree_ok_def by (metis append_is_Nil_conv list.distinct(1) option.exhaust)
    with snoc show False by (simp add: is_directory_def butlast_append)
  qed
qed (simp add: assms(2))

lemma root_walk_missing:
  assumes "root_walk owner False fd parts s = (Inl File_Not_Found, s')"
  shows "\<exists>a b. fd @ parts = a @ b \<and> fs_get s a = None"
  using assms
proof (induction parts arbitrary: fd s)
  case (Cons part parts)
  consider "fs_get s fd = None" | "fs_get s (fd @ [part]) = None"
    | s1 where "open_child ''setup root has linked or non-directory ancestry'' fd part s = (Inr (fd @ [part]), s1)"
      "root_walk owner False (fd @ [part]) parts s1 = (Inl File_Not_Found, s')"
    using Cons.prems by (auto simp: sbind_Inl swhen_def dest!: validate_directory_missing validate_directory_Inr open_child_missing dest: open_child_Inr)
  then show ?case
  proof cases
    case 3
    from Cons.IH [OF 3(2)] get_kept(1) [OF 3(1)] show ?thesis by simp
  qed (metis append.assoc append_Cons append_Nil)+
qed simp

lemma dir_walk_missing:
  assumes "dir_walk f plain_policy fd parts s = (Inl File_Not_Found, s')"
  shows "\<exists>a b. fd @ parts = a @ b \<and> fs_get s a = None"
  using assms
proof (induction parts arbitrary: fd s)
  case (Cons part parts)
  consider "fs_get s (fd @ [part]) = None"
    | s1 where "open_child ''setup refuses linked or non-directory ancestry'' fd part s = (Inr (fd @ [part]), s1)"
      "fs_get s1 (fd @ [part]) = None \<or> dir_walk f plain_policy (fd @ [part]) parts s1 = (Inl File_Not_Found, s')"
    using Cons.prems by (auto simp: sbind_Inl swhen_def check_final_def dest!: validate_directory_missing validate_directory_Inr open_child_missing
        dest: open_child_Inr split: if_splits)
  then show ?case
  proof cases
    case 1
    then show ?thesis by (metis append.assoc append_Cons append_Nil)
  next
    case 2
    note get = get_kept(1) [OF 2(1)]
    from 2(2) show ?thesis
    proof
      assume "fs_get s1 (fd @ [part]) = None"
      with get show ?thesis by (metis append.assoc append_Cons append_Nil)
    next
      assume "dir_walk f plain_policy (fd @ [part]) parts s1 = (Inl File_Not_Found, s')"
      from Cons.IH [OF this] get show ?thesis by simp
    qed
  qed
qed simp

lemma directory_missing:
  assumes "directory f plain_policy p s = (Inl File_Not_Found, s')" "tree_ok s"
  shows "fs_get s (pp_parts p @ q) = None"
proof -
  have below: "fs_get s (pp_parts p @ q) = None" if "pp_parts p = a @ b" "fs_get s a = None" for a b
    using tree_missing [OF assms(2) that(2), of "b @ q"] that(1) by simp
  from assms(1) obtain parts where parts: "pp_parts p = pp_parts (sf_root f) @ parts"
    and run: "sbind (open_root f False) (\<lambda>fd. dir_walk f plain_policy fd parts) s = (Inl File_Not_Found, s')"
    by (auto simp: directory_def sbind_Inl [of "sf_parts f p"] dest!: sf_parts_Inr)
  from run consider "root_walk (sf_owner f) False [] (pp_parts (sf_root f)) s = (Inl File_Not_Found, s')"
    | fd s1 where "root_walk (sf_owner f) False [] (pp_parts (sf_root f)) s = (Inr fd, s1)"
      "fs_get s1 fd = None \<or> dir_walk f plain_policy fd parts s1 = (Inl File_Not_Found, s')"
    by (auto simp: open_root_def sbind_Inl sbind_Inr dest!: validate_directory_missing validate_directory_Inr)
  then show ?thesis
  proof cases
    case 1
    from root_walk_missing [OF this] below parts show ?thesis by (metis append.assoc append_Nil)
  next
    case 2
    have get: "fs_get s1 = fs_get s" using get_kept(2) [OF 2(1)] .
    have fd: "fd = pp_parts (sf_root f)" using walks_fd(1) [OF 2(1)] by simp
    from 2(2) show ?thesis
    proof
      assume "fs_get s1 fd = None"
      with get fd below [OF parts] show ?thesis by simp
    next
      assume "dir_walk f plain_policy fd parts s1 = (Inl File_Not_Found, s')"
      from dir_walk_missing [OF this] get fd below parts show ?thesis by metis
    qed
  qed
qed

lemma file_state_iff_Inr:
  "file_state f fd name s = (Inr r, s') \<Longrightarrow> r = fs_get s (fd @ [name]) \<and> (\<forall>n. r = Some n \<longrightarrow> file_safe f n) \<and> fs_nodes s' = fs_nodes s"
  by (auto simp: file_state_def unless_missing_def sbind_Inr scatch_Inr sbind_Inl sys_stat_def sys_iff sys_fstat_iff
      validate_file_def file_safe_def split: if_splits option.splits node_kind.splits)

lemma file_state_not_missing: "file_state f fd name s \<noteq> (Inl File_Not_Found, s')"
  by (auto simp: file_state_def unless_missing_def sbind_Inl sbind_Inr scatch_Inl scatch_Inr validate_file_def
      split: if_splits option.splits node_kind.splits)

lemma read_opened_Inr:
  assumes "read_opened f fd name b s = (Inr v, s')" "fs_get s (fd @ [name]) = Some b"
  shows "v = text_at s (fd @ [name]) \<and> v \<noteq> None"
  using assms
  by (auto simp: read_opened_def sbind_Inr scatch_Inr sys_open_file_def sys_read_def sys_iff need_node_iff sys_fstat_iff Let_def text_at_def
      validate_file_def split: if_splits option.splits node_kind.splits)

lemma read_opened_not_missing:
  assumes "fs_get s (fd @ [name]) = Some b"
  shows "read_opened f fd name b s \<noteq> (Inl File_Not_Found, s')"
  using assms file_state_not_missing
  by (auto simp: read_opened_def sbind_Inl sbind_Inr scatch_Inr scatch_Inl sys_open_file_def sys_read_def sys_iff need_node_iff sys_fstat_iff
      Let_def validate_file_def os_error_def split: if_splits option.splits node_kind.splits)

text \<open>
  What is read is what the file has, from an unshared file of the owner that nobody else can write, below
  directories of the same kind.
\<close>

lemma read_text_Inr:
  assumes "read_text f p s = (Inr v, s')" "tree_ok s" "pp_parts p \<noteq> []"
  shows "v = text_at s (pp_parts p)" "fs_nodes s' = fs_nodes s"
    "v \<noteq> None \<Longrightarrow> safe_path f s (butlast (pp_parts p)) \<and> (\<exists>n. fs_get s (pp_parts p) = Some n \<and> file_safe f n)"
    "v = None \<Longrightarrow> fs_get s (pp_parts p) = None"
proof -
  let ?d = "butlast (pp_parts p)"
  have parts: "?d @ [pure_name p] = pp_parts p" "pp_parts (path_parent p) = ?d"
    using assms(3) by (simp_all add: pure_name_def path_parent_def)
  show "fs_nodes s' = fs_nodes s" using keepsD [OF nodes.keeps_read(1) assms(1)] by (simp add: same_nodes_def)
  let ?body = "sbind (directory f plain_policy (path_parent p)) (\<lambda>fd. sbind (file_state f fd (pure_name p)) (\<lambda>before.
       case before of None \<Rightarrow> sret None | Some b \<Rightarrow> read_opened f fd (pure_name p) b))"
  from assms(1) have body: "?body s = (Inr v, s') \<or> (\<exists>s1. ?body s = (Inl File_Not_Found, s1)) \<and> v = None"
    by (auto simp: read_text_def sbind_Inr [of "sf_parts f p"] unless_missing_def scatch_Inr dest!: sf_parts_Inr split: if_splits)
  consider (missing) s1 where "directory f plain_policy (path_parent p) s = (Inl File_Not_Found, s1)" "v = None"
    | (found) s1 r s2 where "directory f plain_policy (path_parent p) s = (Inr ?d, s1)"
      "file_state f ?d (pure_name p) s1 = (Inr r, s2)"
      "(case r of None \<Rightarrow> v = None | Some b \<Rightarrow> \<exists>s3. read_opened f ?d (pure_name p) b s2 = (Inr v, s3) \<or> read_opened f ?d (pure_name p) b s2 = (Inl File_Not_Found, s3))"
  proof (cases "directory f plain_policy (path_parent p) s")
    case (Pair d s1)
    show thesis
    proof (cases d)
      case (Inl e)
      with Pair body missing show thesis by (auto simp: sbind_def)
    next
      case (Inr fd)
      have "fd = ?d" using directory_fd [OF Pair [unfolded Inr]] parts(2) by simp
      obtain q s2 where q: "file_state f ?d (pure_name p) s1 = (q, s2)" by fastforce
      with file_state_not_missing Pair Inr body \<open>fd = ?d\<close> obtain r where "q = Inr r"
        by (cases q) (auto simp: sbind_def)
      with found [of s1 r s2] Pair Inr \<open>fd = ?d\<close> q body show thesis
        by (auto simp: sbind_def split: option.splits)
    qed
  qed
  note outcome = this
  have all: "v = text_at s (pp_parts p) \<and> (v \<noteq> None \<longrightarrow> safe_path f s ?d \<and> (\<exists>n. fs_get s (pp_parts p) = Some n \<and> file_safe f n)) \<and>
      (v = None \<longrightarrow> fs_get s (pp_parts p) = None)"
    using outcome
  proof cases
    case missing
    with directory_missing [OF missing(1) assms(2), of "[pure_name p]"] parts show ?thesis by (simp add: text_at_def)
  next
    case found
    note st = file_state_iff_Inr [OF found(2)]
    have get1: "fs_get s1 = fs_get s"
      using nodes_get [OF nodes.keeps_directory_plain found(1)] by simp
    have get2: "fs_get s2 = fs_get s" "text_at s2 = text_at s"
      using st get1 by (simp_all add: fs_get_def text_at_def fun_eq_iff)
    show ?thesis
    proof (cases r)
      case None
      with found(3) st get1 parts show ?thesis by (simp add: text_at_def)
    next
      case (Some b)
      then have b: "fs_get s2 (?d @ [pure_name p]) = Some b" "file_safe f b" using st get1 get2 by auto
      from found(3) Some obtain s3 where "read_opened f ?d (pure_name p) b s2 = (Inr v, s3)"
        using read_opened_not_missing [OF b(1)] by auto
      from read_opened_Inr [OF this b(1)] directory_plain_safe [OF found(1)] b get2 parts show ?thesis by auto
    qed
  qed
  then show "v = text_at s (pp_parts p)"
    "v \<noteq> None \<Longrightarrow> safe_path f s ?d \<and> (\<exists>n. fs_get s (pp_parts p) = Some n \<and> file_safe f n)"
    "v = None \<Longrightarrow> fs_get s (pp_parts p) = None" by blast+
qed

section \<open>Writing\<close>

text \<open>Calls that change one node at most.\<close>

lemma temp_calls:
  "fd @ [name] \<in> Q \<Longrightarrow> keeps (same_but Q) (sys_create op fd name kind mode)"
  "fd \<in> Q \<Longrightarrow> keeps (same_but Q) (sys_write fd content)"
  "fd @ [name] \<in> Q \<Longrightarrow> keeps (same_but Q) (sys_unlink fd name)"
  "fd @ [name] \<in> Q \<Longrightarrow> fd @ [temp] \<in> Q \<Longrightarrow> keeps (same_but Q) (sys_replace fd temp name)"
  "keeps (same_but Q) (sys_rmdir fd name)"
  by (auto simp: keeps_def sys_create_def sys_write_def sys_unlink_def sys_replace_def sys_rmdir_def call_defs same_but_def text_at_def
      split: option.splits if_splits node_kind.splits)

lemma remove_temporary_keeps: "fd @ [name] \<in> Q \<Longrightarrow> keeps (same_but Q) (remove_temporary fd name)"
  unfolding remove_temporary_def by (intro others.keeps_parts temp_calls)

lemma fill_keeps: "h \<in> Q \<Longrightarrow> keeps (same_but Q) (fill_temporary f wo before content h)"
  unfolding fill_temporary_def
  by (intro others.keeps_parts others.keeps_reading others.keep_chmod others.keep_chown temp_calls)

lemma same_but_D: "same_but Q s s' \<Longrightarrow> p \<notin> Q \<Longrightarrow> text_at s' p = text_at s p"
  by (simp add: same_but_def)

lemma same_texts_D: "same_texts s s' \<Longrightarrow> text_at s' p = text_at s p"
  by (simp add: same_texts_def)

lemma sys_write_Inr: "sys_write h content s = (Inr (), s') \<Longrightarrow> text_at s' h = Some content"
  by (auto simp: sys_write_def sys_iff need_node_iff text_at_def split: if_splits option.splits node_kind.splits)

lemma fill_temporary_Inr:
  assumes "fill_temporary f wo before content h s = (Inr (), s')"
  shows "text_at s' h = Some content"
proof -
  from assms obtain s1 s2 where "sys_write h content s1 = (Inr (), s2)" "sys_fsync h s2 = (Inr (), s')"
    by (auto simp: fill_temporary_def sbind_Inr)
  with sys_write_Inr nodes_views(1) keepsD [OF nodes.keeps_reading(7)] show ?thesis by (metis same_nodes_def)
qed

lemma sys_create_Inr: "sys_create op fd name kind mode s = (Inr h, s') \<Longrightarrow> h = fd @ [name] \<and> text_at s h = None"
  by (auto simp: sys_create_def sys_iff Let_def text_at_def split: if_splits)

lemma sys_replace_cases:
  assumes "sys_replace fd temp name s = (r, s')"
  shows "fs_nodes s' = fs_nodes s \<and> r \<noteq> Inr () \<or>
    r = Inr () \<and> (temp \<noteq> name \<longrightarrow> text_at s' (fd @ [name]) = text_at s (fd @ [temp]) \<and> text_at s' (fd @ [temp]) = None) \<and>
    (\<forall>p. p \<noteq> fd @ [name] \<longrightarrow> p \<noteq> fd @ [temp] \<longrightarrow> text_at s' p = text_at s p)"
  using assms by (auto simp: sys_replace_def sys_iff need_node_iff text_at_def split: if_splits option.splits)

lemma temporary_differs: "temporary_name name token \<noteq> name"
proof
  assume "temporary_name name token = name"
  then have "length (temporary_name name token) = length name" by simp
  then show False by (simp add: temporary_name_def)
qed

text \<open>The replacement of a target by a filled temporary file.\<close>

definition swap_in :: "setup_fs \<Rightarrow> pure_path \<Rightarrow> fpath \<Rightarrow> string \<Rightarrow> fs_node option \<Rightarrow> unit fio" where
  "swap_in f p fd temp before = sbind (file_state f fd (pure_name p)) (\<lambda>now.
     if identity before \<noteq> identity now then sraise (Unsafe_Setup_Path ''setup file changed before atomic replacement'')
     else sbind (check_directory_current f (path_parent p) fd) (\<lambda>_. sbind (sys_replace fd temp (pure_name p)) (\<lambda>_.
       sbind (sys_fsync fd) (\<lambda>_. check_directory_current f (path_parent p) fd))))"

lemma write_text_swap: "write_text f wo p content = sbind (sf_parts f p) (\<lambda>_.
     sbind (directory f (plain_policy\<lparr>dp_create := True\<rparr>) (path_parent p)) (\<lambda>fd.
     sbind (file_state f fd (pure_name p)) (\<lambda>before. sbind sys_token (\<lambda>token.
     let temp = temporary_name (pure_name p) token in
     sbind (sys_create SYS_CREATE fd temp (Regular []) 0x180) (\<lambda>h. sfinally
       (sbind (fill_temporary f wo before content h) (\<lambda>_. swap_in f p fd temp before)) (remove_temporary fd temp))))))"
  by (simp add: write_text_def swap_in_def)

lemma text_kept: "keeps same_nodes p \<Longrightarrow> p s = (r, s') \<Longrightarrow> text_at s' = text_at s"
  using keepsD [of same_nodes p s r s'] unfolding same_nodes_def by (intro nodes_views(1))

lemma swap_in_cases:
  assumes "swap_in f p fd temp before s = (r, s')" "temp \<noteq> pure_name p"
  shows "text_at s' = text_at s \<and> r \<noteq> Inr () \<or>
    text_at s' = (text_at s)(fd @ [pure_name p] := text_at s (fd @ [temp]), fd @ [temp] := None)"
proof -
  let ?q = "fd @ [pure_name p]"
  have replaced: "text_at s2 = text_at s1 \<and> x \<noteq> Inr () \<or> x = Inr () \<and> text_at s2 = (text_at s1)(?q := text_at s1 (fd @ [temp]), fd @ [temp] := None)"
    if "sys_replace fd temp (pure_name p) s1 = (x, s2)" for s1 x s2
    using sys_replace_cases [OF that] assms(2) nodes_views(1) [of s2 s1] by (auto simp: fun_eq_iff)
  obtain x s1 where a: "file_state f fd (pure_name p) s = (x, s1)" by fastforce
  obtain y s2 where b: "check_directory_current f (path_parent p) fd s1 = (y, s2)" by fastforce
  obtain z s3 where c: "sys_replace fd temp (pure_name p) s2 = (z, s3)" by fastforce
  obtain u s4 where d: "sys_fsync fd s3 = (u, s4)" by fastforce
  obtain v s5 where e: "check_directory_current f (path_parent p) fd s4 = (v, s5)" by fastforce
  have "text_at s1 = text_at s" "text_at s2 = text_at s1" "text_at s4 = text_at s3" "text_at s5 = text_at s4"
    using text_kept [OF nodes.keeps_checking(6) a] text_kept [OF nodes.keeps_read(2) b] text_kept [OF nodes.keeps_reading(7) d]
      text_kept [OF nodes.keeps_read(2) e] by simp_all
  with replaced [OF c] assms(1) a b c d e show ?thesis
    unfolding swap_in_def by (auto simp: sbind_def split: sum.splits if_splits)
qed

text \<open>Whatever fails, a write leaves the old or the new text, and every other file but its own temporary one alone.\<close>

lemma guarded_swap:
  assumes "sfinally (sbind (fill_temporary f wo before content h) (\<lambda>_. swap_in f p fd temp before)) (remove_temporary fd temp) s = (r, s')"
    and h: "h = fd @ [temp]" and temp: "temp \<noteq> pure_name p"
  shows "(\<forall>q. q \<noteq> h \<longrightarrow> text_at s' q = text_at s q \<or> q = fd @ [pure_name p] \<and> text_at s' q = Some content) \<and>
    (r = Inr () \<longrightarrow> text_at s' = (text_at s)(fd @ [pure_name p] \<mapsto> content, h := None))"
proof -
  let ?q = "fd @ [pure_name p]"
  obtain x s1 where x: "sbind (fill_temporary f wo before content h) (\<lambda>_. swap_in f p fd temp before) s = (x, s1)" by fastforce
  obtain y s2 where y: "remove_temporary fd temp s1 = (y, s2)" by fastforce
  have r: "s' = s2" "r = Inr () \<Longrightarrow> x = Inr () \<and> y = Inr ()" using assms(1) x y by (auto simp: sfinally_def split: sum.splits)
  have after: "text_at s2 q = text_at s1 q" if "q \<noteq> h" for q
    using same_but_D [OF keepsD [OF remove_temporary_keeps y], of "{h}"] that h by simp
  have gone: "text_at s2 h = None" if "y = Inr ()"
    using y that h by (auto simp: remove_temporary_def sys_unlink_def scatch_Inr sys_iff need_node_iff text_at_def split: if_splits option.splits)
  obtain z s0 where z: "fill_temporary f wo before content h s = (z, s0)" by fastforce
  have fill: "text_at s0 q = text_at s q" if "q \<noteq> h" for q using same_but_D [OF keepsD [OF fill_keeps z], of "{h}"] that by simp
  show ?thesis
  proof (cases z)
    case (Inl e)
    with x z have "s1 = s0" "x = Inl e" by (auto simp: sbind_def)
    with r after fill show ?thesis by auto
  next
    case (Inr u)
    with z have full: "text_at s0 h = Some content" using fill_temporary_Inr by auto
    from x z Inr have "swap_in f p fd temp before s0 = (x, s1)" by (simp add: sbind_def)
    from swap_in_cases [OF this temp] consider "text_at s1 = text_at s0" "x \<noteq> Inr ()"
      | "text_at s1 = (text_at s0)(?q \<mapsto> content, h := None)" using full h by auto
    then show ?thesis
    proof cases
      case 1
      with r after fill show ?thesis by auto
    next
      case 2
      with r after fill gone temp h show ?thesis by (auto simp: fun_eq_iff)
    qed
  qed
qed

lemma write_text_atomic:
  assumes "write_text f wo p content s = (r, s')" "pp_parts p \<noteq> []"
  shows "\<exists>token. let t = butlast (pp_parts p) @ [temporary_name (pure_name p) token] in
    (\<forall>q. q \<noteq> t \<longrightarrow> text_at s' q = text_at s q \<or> q = pp_parts p \<and> text_at s' q = Some content) \<and>
    (r = Inr () \<longrightarrow> text_at s' = (text_at s)(pp_parts p \<mapsto> content))"
proof -
  let ?d = "butlast (pp_parts p)"
  have parts: "?d @ [pure_name p] = pp_parts p" "pp_parts (path_parent p) = ?d"
    using assms(2) by (simp_all add: pure_name_def path_parent_def)
  note run = assms(1) [unfolded write_text_swap]
  obtain x s1 where a: "directory f (plain_policy\<lparr>dp_create := True\<rparr>) (path_parent p) s = (x, s1)" by fastforce
  have t1: "text_at s1 q = text_at s q" for q using same_texts_D [OF keepsD [OF texts.keeps_directory a]] .
  obtain y s2 where b: "file_state f ?d (pure_name p) s1 = (y, s2)" by fastforce
  have t2: "text_at s2 q = text_at s q" for q using text_kept [OF nodes.keeps_checking(6) b] t1 by simp
  define token where "token = fs_token s2 (fs_now s2)"
  let ?temp = "temporary_name (pure_name p) token" and ?t = "?d @ [temporary_name (pure_name p) token]"
  obtain z s3 where c: "sys_create SYS_CREATE ?d ?temp (Regular []) 0x180 s2 = (z, s3)" by fastforce
  have t3: "text_at s3 q = text_at s q" if "q \<noteq> ?t" for q using same_but_D [OF keepsD [OF temp_calls(1) c], of "{?t}"] that t2 by simp
  have tok: "sys_token s2 = (Inr token, s2)" by (simp add: sys_token_def token_def)
  from run parts directory_fd have cases: "(\<exists>e. r = Inl e) \<and> s' \<in> {s, s1, s2, s3} \<or>
      (\<exists>h y'. z = Inr h \<and> y = Inr y' \<and> sfinally (sbind (fill_temporary f wo y' content h) (\<lambda>_. swap_in f p ?d ?temp y'))
         (remove_temporary ?d ?temp) s3 = (r, s'))"
    using a b c tok by (cases x; cases y; cases z)
      (fastforce simp: sbind_def Let_def sf_parts_def sret_def sraise_def split: if_splits option.splits)+
  show ?thesis
  proof (cases "\<exists>h y'. z = Inr h \<and> y = Inr y' \<and> sfinally (sbind (fill_temporary f wo y' content h) (\<lambda>_. swap_in f p ?d ?temp y'))
         (remove_temporary ?d ?temp) s3 = (r, s')")
    case False
    with cases t1 t2 t3 show ?thesis by (intro exI [of _ token]) auto
  next
    case True
    then obtain h y' where h: "z = Inr h" and g: "sfinally (sbind (fill_temporary f wo y' content h) (\<lambda>_. swap_in f p ?d ?temp y'))
         (remove_temporary ?d ?temp) s3 = (r, s')" by blast
    have h': "h = ?t" "text_at s h = None" using sys_create_Inr [OF c [unfolded h]] t2 by auto
    have ne: "?t \<noteq> pp_parts p" using temporary_differs parts by (metis append1_eq_conv)
    from guarded_swap [OF g h'(1) temporary_differs] parts(1) t3 h' ne
    show ?thesis by (intro exI [of _ token]) (auto simp: fun_eq_iff)
  qed
qed

section \<open>Every operation keeps the tree\<close>

lemma entries_empty: "fs_entries s d = [] \<Longrightarrow> fs_get s (d @ [x]) = None"
  by (auto simp: fs_entries_def fs_get_def filter_empty_conv dest!: map_of_SomeD split: option.splits)
    (metis append_is_Nil_conv butlast_snoc fst_conv map_of_SomeD not_Cons_self2 option.exhaust)

lemma fs_entries_clock [simp]: "fs_entries (s\<lparr>fs_now := n\<rparr>) d = fs_entries s d"
  by (simp add: fs_entries_def)

lemma in_empty_dir:
  assumes "fs_entries s d = []" "p \<noteq> []" "butlast p = d"
  shows "fs_get s p = None"
  using entries_empty [OF assms(1), of "last p"] assms(2,3) by (metis append_butlast_last_id)

lemma tree_del: "tree_ok s \<Longrightarrow> \<not> is_directory s p \<Longrightarrow> tree_ok (fs_del p s)"
  unfolding tree_ok_def is_directory_def by (auto split: option.splits) (metis not_None_eq)+

lemma tree_put:
  assumes "tree_ok s" "p \<noteq> []" "is_directory s (butlast p)" "\<not> is_directory s p"
  shows "tree_ok (fs_put p n s)"
proof -
  have "fs_get s q = None" if "q \<noteq> []" "butlast q = p" for q
    using assms(1,4) that unfolding tree_ok_def by (metis not_None_eq)
  with assms show ?thesis by (auto simp: tree_ok_def is_directory_def split: option.splits)
qed

lemma tree_calls:
  "keeps tree_kept (sys_create op fd name kind mode)" "keeps tree_kept (sys_write fd content)"
  "keeps tree_kept (sys_unlink fd name)" "keeps tree_kept (sys_rmdir fd name)" "keeps tree_kept (sys_replace fd temp name)"
proof -
  show "keeps tree_kept (sys_create op fd name kind mode)" "keeps tree_kept (sys_write fd content)"
    by (auto simp: keeps_def sys_write_def call_defs tree_kept_def tree_ok_def is_directory_def split: option.splits if_splits node_kind.splits)
      (metis node_kind.distinct(1) not_None_eq)
  show "keeps tree_kept (sys_unlink fd name)"
    by (auto simp: keeps_def sys_unlink_def call_defs tree_kept_def tree_ok_def is_directory_def split: option.splits if_splits)
      (metis not_None_eq)
  show "keeps tree_kept (sys_rmdir fd name)"
    by (auto simp: keeps_def sys_rmdir_def call_defs tree_kept_def tree_ok_def is_directory_def
        dest: in_empty_dir split: option.splits if_splits)
  show "keeps tree_kept (sys_replace fd temp name)"
  proof (rule keepsI)
    fix s :: file_system and r s'
    let ?s = "s\<lparr>fs_now := fs_now s + 1\<rparr>"
    assume "sys_replace fd temp name s = (r, s')"
    then consider "fs_nodes s' = fs_nodes s" | n where "fs_get s (fd @ [temp]) = Some n" "nd_kind n \<noteq> Directory"
        "\<not> is_directory s (fd @ [name])" "s' = fs_put (fd @ [name]) (n\<lparr>nd_ctime := fs_now s + 1\<rparr>) (fs_del (fd @ [temp]) ?s)"
      by (auto simp: sys_replace_def sys_iff need_node_iff is_directory_def split: if_splits option.splits)
    then show "tree_kept s s'"
    proof cases
      case 1
      then show ?thesis by (rule tree.keep_clock)
    next
      case 2
      show ?thesis unfolding tree_kept_def
      proof
        assume "tree_ok s"
        then have s: "tree_ok ?s" by (simp add: tree_ok_def is_directory_def)
        have "is_directory ?s fd" using s 2(1) unfolding tree_ok_def by (metis butlast_snoc fs_get_other(1) snoc_eq_iff_butlast)
        moreover have "\<not> is_directory ?s (fd @ [temp])" using 2(1,2) by (simp add: is_directory_def)
        moreover have "\<not> is_directory ?s (fd @ [name])" using 2(3) by (simp add: is_directory_def)
        ultimately show "tree_ok s'" unfolding 2(4) using s
          by (intro tree_put tree_del) (auto simp: is_directory_def)
      qed
    qed
  qed
qed

lemmas tree_rules = tree.keeps_parts tree.keeps_reading tree.keeps_checking tree.keeps_directory tree.keeps_read tree.keep_chmod tree.keep_chown tree_calls

lemma tree_operations:
  "keeps tree_kept (write_text f wo p content)" "keeps tree_kept (remove_file f p expected)"
  "keeps tree_kept (remove_directory f p data_owner)" "keeps tree_kept (replace_link f p target ex)" "keeps tree_kept (remove_link f p l)"
  unfolding write_text_def remove_file_def remove_directory_def replace_link_def remove_link_def remove_temporary_def fill_temporary_def
    sys_symlink_def Let_def
  by (intro tree_rules)+

section \<open>Removing\<close>

lemma sys_unlink_cases:
  assumes "sys_unlink fd name s = (r, s')"
  shows "text_at s' = text_at s \<and> r \<noteq> Inr () \<or> text_at s' = (text_at s)(fd @ [name] := None) \<and> r = Inr ()"
  using assms by (auto simp: sys_unlink_def sys_iff need_node_iff text_at_def fun_eq_iff split: if_splits option.splits)

lemma remove_file_atomic:
  assumes "remove_file f p expected s = (r, s')" "tree_ok s" "pp_parts p \<noteq> []"
  shows "text_at s' = text_at s \<or> text_at s' = (text_at s)(pp_parts p := None) \<and> (expected \<noteq> None \<longrightarrow> text_at s (pp_parts p) = expected)"
    "r = Inr () \<Longrightarrow> text_at s' (pp_parts p) = None"
proof -
  let ?d = "butlast (pp_parts p)" and ?q = "pp_parts p"
  have parts: "?d @ [pure_name p] = ?q" "pp_parts (path_parent p) = ?d"
    using assms(3) by (simp_all add: pure_name_def path_parent_def)
  obtain x s1 where a: "read_text f p s = (x, s1)" by fastforce
  obtain y s2 where b: "directory f plain_policy (path_parent p) s1 = (y, s2)" by fastforce
  obtain z s3 where c: "file_state f ?d (pure_name p) s2 = (z, s3)" by fastforce
  obtain u s4 where d: "sys_unlink ?d (pure_name p) s3 = (u, s4)" by fastforce
  obtain v s5 where e: "sys_fsync ?d s4 = (v, s5)" by fastforce
  have t: "text_at s1 = text_at s" "text_at s2 = text_at s" "text_at s3 = text_at s" "text_at s5 = text_at s4"
    using text_kept [OF nodes.keeps_read(1) a] text_kept [OF nodes.keeps_directory_plain b] text_kept [OF nodes.keeps_checking(6) c]
      text_kept [OF nodes.keeps_reading(7) e] by simp_all
  have un: "text_at s4 = text_at s \<and> u \<noteq> Inr () \<or> text_at s4 = (text_at s)(?q := None) \<and> u = Inr ()"
    using sys_unlink_cases [OF d] t(3) parts(1) by simp
  have fd: "y = Inr fd \<Longrightarrow> fd = ?d" for fd using directory_fd b parts(2) by fastforce
  have rest: "\<exists>e. r' = Inl e \<and> text_at s'' = text_at s \<or> text_at s'' = text_at s4 \<and> (r' = Inr () \<longrightarrow> u = Inr ())"
    if "sbind (directory f plain_policy (path_parent p)) (\<lambda>fd. sbind (file_state f fd (pure_name p)) (\<lambda>_.
         sbind (sys_unlink fd (pure_name p)) (\<lambda>_. sys_fsync fd))) s1 = (r', s'')" for r' s''
    using that b c d e t fd by (cases y; cases z; cases u) (auto simp: sbind_def)
  have "(r \<noteq> Inr () \<and> text_at s' = text_at s) \<or> (x = Inr None \<and> text_at s' = text_at s) \<or>
      (\<exists>t. x = Inr (Some t) \<and> (expected \<noteq> None \<longrightarrow> expected = Some t)) \<and>
        (text_at s' = text_at s4 \<and> (r = Inr () \<longrightarrow> u = Inr ()))"
  proof (cases "sf_parts f p s")
    case (Pair q s0)
    show ?thesis
    proof (cases q)
      case (Inl err)
      with Pair assms(1) have "s' = s0" "r = Inl err" by (auto simp: remove_file_def sbind_def)
      with text_kept [OF nodes.keeps_checking(1) Pair] show ?thesis by simp
    next
      case (Inr ps)
      with Pair have "s0 = s" using sf_parts_Inr by blast
      with Pair Inr assms(1) a have run: "(case x of Inl er \<Rightarrow> (Inl er, s1) | Inr current \<Rightarrow> (case current of
          None \<Rightarrow> sret () | Some t \<Rightarrow> if expected \<noteq> None \<and> expected \<noteq> Some t then sraise (Unsafe_Setup_Path ''setup refuses to remove a changed file'')
       else sbind (directory f plain_policy (path_parent p)) (\<lambda>fd. sbind (file_state f fd (pure_name p)) (\<lambda>_.
         sbind (sys_unlink fd (pure_name p)) (\<lambda>_. sys_fsync fd)))) s1) = (r, s')"
        unfolding remove_file_def by (simp add: sbind_def [of "sf_parts f p"] sbind_def [of "read_text f p"] del: not_None_eq split: sum.splits)
      then show ?thesis
        using t(1) rest by (fastforce split: sum.splits option.splits if_splits)
    qed
  qed
  moreover have "text_at s ?q = v" if "x = Inr v" for v
    using read_text_Inr(1) [OF a [unfolded that] assms(2,3)] by simp
  ultimately show "text_at s' = text_at s \<or> text_at s' = (text_at s)(?q := None) \<and> (expected \<noteq> None \<longrightarrow> text_at s ?q = expected)"
    "r = Inr () \<Longrightarrow> text_at s' ?q = None" using un by (auto simp: fun_upd_same)
qed

end
