(* ===== verification/Deployment_Acceptance.thy ===== *)
theory Deployment_Acceptance
  imports Setup_Files Setup_Migration
begin

text \<open>
  \<open>src/src/astrumweaver/validation/runtime_deployment.py\<close>: the effective systemd properties of the worker's
  service must retain the GPU isolation, and the acceptance of a deployment on a real host. \<open>shlex.split\<close> is
  modelled as the state machine it is. The host is a record of operations on a world of unspecified
  type; reading a file named by a property is one of them. The polling loop is a partial function and
  is proved to return under an advancing clock.

  Shown are: what accepted properties guarantee, that a deployment is reported as accepted only when the
  service was seen ready and registered and then seen stopped, and that a service that was started is
  always asked to stop.
\<close>

section \<open>\<open>shlex.split\<close>\<close>

text \<open>
  POSIX mode with \<open>whitespace_split\<close>: between words, in a word, in quotes, and after a backslash (in a word
  or in double quotes). A word is reported when it has characters or was quoted; \<open>None\<close> is \<open>ValueError\<close>.
\<close>

datatype shlex_state = Between | Inside | Quoted char | Escaped "char option"

definition shlex_space :: "char \<Rightarrow> bool" where
  "shlex_space c \<longleftrightarrow> c \<in> {CHR '' '', CHR 0x09, CHR 0x0A, CHR 0x0D}"

definition shlex_quote :: "char \<Rightarrow> bool" where
  "shlex_quote c \<longleftrightarrow> c \<in> {CHR 0x22, CHR 0x27}"

fun shlex_words :: "shlex_state \<Rightarrow> string \<Rightarrow> bool \<Rightarrow> string \<Rightarrow> string list option" where
  "shlex_words Between token quoted [] = Some []"
| "shlex_words Inside token quoted [] = Some (if token \<noteq> [] \<or> quoted then [token] else [])"
| "shlex_words (Quoted q) token quoted [] = None"
| "shlex_words (Escaped q) token quoted [] = None"
| "shlex_words Between token quoted (c # s) =
     (if shlex_space c then shlex_words Between [] False s
      else if c = CHR 0x5C then shlex_words (Escaped None) [] False s
      else if shlex_quote c then shlex_words (Quoted c) [] True s
      else shlex_words Inside [c] False s)"
| "shlex_words Inside token quoted (c # s) =
     (if shlex_space c then
        (if token \<noteq> [] \<or> quoted then map_option (\<lambda>ws. token # ws) (shlex_words Between [] False s)
         else shlex_words Between [] False s)
      else if shlex_quote c then shlex_words (Quoted c) token True s
      else if c = CHR 0x5C then shlex_words (Escaped None) token quoted s
      else shlex_words Inside (token @ [c]) quoted s)"
| "shlex_words (Quoted q) token quoted (c # s) =
     (if c = q then shlex_words Inside token quoted s
      else if c = CHR 0x5C \<and> q = CHR 0x22 then shlex_words (Escaped (Some q)) token quoted s
      else shlex_words (Quoted q) (token @ [c]) quoted s)"
| "shlex_words (Escaped q) token quoted (c # s) = (case q of
     None \<Rightarrow> shlex_words Inside (token @ [c]) quoted s
   | Some q \<Rightarrow> shlex_words (Quoted q) (token @ (if c \<noteq> CHR 0x5C \<and> c \<noteq> q then [CHR 0x5C] else []) @ [c]) quoted s)"

definition shlex_split :: "string \<Rightarrow> string list option" where
  "shlex_split s = shlex_words Between [] False s"

section \<open>Effective properties of the service\<close>

type_synonym 'a checked = "string + 'a"

definition acceptance_properties :: "string list" where
  "acceptance_properties = [''DevicePolicy'', ''DeviceAllow'', ''Environment'', ''EnvironmentFiles'', ''UnsetEnvironment'',
     ''ExecStartPre'', ''Requires'', ''After'']"

fun show_lines :: "string list \<Rightarrow> (string, string) dict \<Rightarrow> (string, string) dict checked" where
  "show_lines [] properties = Inr properties"
| "show_lines (line # ls) properties = (case py_partition (CHR ''='') line of (name, separator, value) \<Rightarrow>
     if \<not> separator \<or> name \<notin> set acceptance_properties then show_lines ls properties
     else case dict_get properties name of
       Some old \<Rightarrow> if name = ''DevicePolicy'' then Inl ''duplicate DevicePolicy'' else show_lines ls (dict_set name (old @ '' '' @ value) properties)
     | None \<Rightarrow> show_lines ls (dict_set name value properties))"

definition parse_systemd_show_properties :: "string \<Rightarrow> (string, string) dict checked" where
  "parse_systemd_show_properties output = (case show_lines (py_splitlines output) [] of
     Inl e \<Rightarrow> Inl e
   | Inr properties \<Rightarrow> if \<not> set acceptance_properties \<subseteq> fst ` set properties then Inl ''properties are unavailable'' else Inr properties)"

definition prop_get :: "(string, string) dict \<Rightarrow> string \<Rightarrow> string" where
  "prop_get properties name = (case dict_get properties name of None \<Rightarrow> [] | Some v \<Rightarrow> v)"

definition split_systemd_list :: "(string, string) dict \<Rightarrow> string \<Rightarrow> string list checked" where
  "split_systemd_list properties name = (case shlex_split (prop_get properties name) of
     None \<Rightarrow> Inl (''malformed '' @ name) | Some ws \<Rightarrow> Inr ws)"

fun word_pairs :: "string list \<Rightarrow> (string \<times> string) list" where
  "word_pairs (a # b # ws) = (a, b) # word_pairs ws"
| "word_pairs _ = []"

definition parse_device_allow :: "(string, string) dict \<Rightarrow> (string \<times> string) list checked" where
  "parse_device_allow properties = (case split_systemd_list properties ''DeviceAllow'' of
     Inl e \<Rightarrow> Inl e
   | Inr ws \<Rightarrow> if odd (length ws) then Inl ''malformed DeviceAllow'' else Inr (word_pairs ws))"

text \<open>\<open>^/dev/nvidia(?:[0-9]+|[-a-zA-Z0-9_/]+)$\<close>\<close>

definition device_char :: "char \<Rightarrow> bool" where
  "device_char c \<longleftrightarrow> lower_alnum c \<or> (let n = (of_char c :: nat) in 65 \<le> n \<and> n \<le> 90) \<or> c \<in> {CHR ''-'', CHR ''_'', CHR ''/''}"

definition allowed_device_re :: "string \<Rightarrow> bool" where
  "allowed_device_re s \<longleftrightarrow> take 11 s = ''/dev/nvidia'' \<and> drop 11 s \<noteq> [] \<and> list_all device_char (drop 11 s)"

text \<open>\<open>re.findall(r"\{([^{}]*)\}", value)\<close>\<close>

definition brace :: "char \<Rightarrow> bool" where
  "brace c \<longleftrightarrow> c \<in> {CHR ''{'', CHR ''}''}"

function brace_groups :: "string \<Rightarrow> string list" where
  "brace_groups [] = []"
| "brace_groups (c # s) = (if c = CHR ''{'' \<and> take 1 (dropWhile (\<lambda>x. \<not> brace x) s) = ''}''
     then takeWhile (\<lambda>x. \<not> brace x) s # brace_groups (drop 1 (dropWhile (\<lambda>x. \<not> brace x) s)) else brace_groups s)"
  by pat_completeness auto
termination
proof (relation "measure length")
  fix s :: string
  have "length (drop 1 (dropWhile (\<lambda>x. \<not> brace x) s)) \<le> length s" using length_dropWhile_le [of "\<lambda>x. \<not> brace x" s] by simp
  then show "(drop 1 (dropWhile (\<lambda>x. \<not> brace x) s), c # s) \<in> measure length" for c by simp
qed simp_all

definition record_fields :: "string \<Rightarrow> (string, string) dict" where
  "record_fields rec = foldl (\<lambda>d field. case py_partition (CHR ''='') field of (name, separator, value) \<Rightarrow>
     if separator then dict_set (py_strip name) (py_strip value) d else d) [] (py_split (CHR '';'') rec)"

definition nix_hash :: "string \<Rightarrow> bool" where
  "nix_hash s \<longleftrightarrow> length s = 32 \<and> list_all lower_alnum s"

definition nix_path :: "string \<Rightarrow> string \<Rightarrow> bool" where
  "nix_path ending s \<longleftrightarrow> take 11 s = ''/nix/store/'' \<and> nix_hash (take 32 (drop 11 s)) \<and> drop 43 s = ending"

definition exact_preflight :: "string \<Rightarrow> string \<Rightarrow> bool" where
  "exact_preflight executable file \<longleftrightarrow>
     executable = ''/usr/local/libexec/astrumweaver/gpu-preflight'' \<and> file = ''/etc/astrumweaver/gpu-uuids'' \<or>
     nix_path ''-astrumweaver-gpu-preflight/bin/astrumweaver-gpu-preflight'' executable \<and> nix_path ''-astrumweaver-gpu-uuids'' file"

definition has_exact_set_preflight :: "string \<Rightarrow> bool" where
  "has_exact_set_preflight value = list_ex (\<lambda>rec. let d = record_fields rec; executable = prop_get d ''path'' in
     dict_get d ''ignore_errors'' = Some ''no'' \<and>
     (case shlex_split (prop_get d ''argv[]'') of
        Some [program, file] \<Rightarrow> program = executable \<and> exact_preflight executable file | _ \<Rightarrow> False)) (brace_groups value)"

definition environment_values :: "string list \<Rightarrow> string \<Rightarrow> string list" where
  "environment_values environment name = (let pre = name @ ''='' in
     map (drop (length pre)) (filter (starts_with pre) environment))"

definition protected_names :: "string list" where
  "protected_names = [''CUDA_VISIBLE_DEVICES'', ''ASTRUMWEAVER_GPU_PREFLIGHT_MODE'', ''ASTRUMWEAVER_GPU_DEVICE_MAP'',
     ''ASTRUMWEAVER_GPU_WORKER_CONFIG'', ''ASTRUMWEAVER_GPU_DEVICE_MAP_COMMAND'', ''ASTRUMWEAVER_NVIDIA_SMI'']"

text \<open>\<open>^\s*(NAME|...)\s*=\<close>, on lines that are no comments.\<close>

definition assigns :: "string list \<Rightarrow> string \<Rightarrow> bool" where
  "assigns names line = (let l = dropWhile is_space line in
     list_ex (\<lambda>name. starts_with name l \<and> take 1 (dropWhile is_space (drop (length name) l)) = ''='') names)"

definition comment_line :: "string \<Rightarrow> bool" where
  "comment_line line = (let l = dropWhile is_space line in starts_with ''#'' l \<or> starts_with '';'' l)"

datatype file_read = File_Text string | File_Absent | File_Unreadable

fun check_environment_files :: "(string \<Rightarrow> file_read) \<Rightarrow> string list \<Rightarrow> unit checked" where
  "check_environment_files read [] = Inr ()"
| "check_environment_files read (item # items) =
     (if starts_with ''('' item \<and> ends_with '')'' item then check_environment_files read items
      else if \<not> starts_with ''-/'' item \<and> \<not> starts_with ''/'' item then Inl ''malformed EnvironmentFiles''
      else case read (if starts_with ''-/'' item then drop 1 item else item) of
        File_Absent \<Rightarrow> check_environment_files read items
      | File_Unreadable \<Rightarrow> Inl ''EnvironmentFile could not be checked''
      | File_Text t \<Rightarrow> if list_ex (\<lambda>l. \<not> comment_line l \<and> assigns protected_names l) (py_splitlines t)
          then Inl ''environment may be overridden by an EnvironmentFile'' else check_environment_files read items)"

definition reject_environment_override :: "(string \<Rightarrow> file_read) \<Rightarrow> (string, string) dict \<Rightarrow> unit checked" where
  "reject_environment_override read properties = (case split_systemd_list properties ''UnsetEnvironment'' of
     Inl e \<Rightarrow> Inl e
   | Inr unset \<Rightarrow> if list_ex (\<lambda>item. fst (py_partition (CHR ''='') item) \<in> set protected_names) unset
       then Inl ''environment is unset by effective systemd policy''
       else (case split_systemd_list properties ''EnvironmentFiles'' of Inl e \<Rightarrow> Inl e | Inr files \<Rightarrow> check_environment_files read files))"

definition isolation_preflight :: string where
  "isolation_preflight = ''astrumweaver-worker-gpu-isolation-preflight.service''"

definition absolute_setting :: "string list \<Rightarrow> string \<Rightarrow> bool" where
  "absolute_setting environment name \<longleftrightarrow> (case environment_values environment name of [v] \<Rightarrow> starts_with ''/'' v | _ \<Rightarrow> False)"

definition check_environment :: "string list \<Rightarrow> string list \<Rightarrow> unit checked" where
  "check_environment environment expected =
     (if environment_values environment ''CUDA_VISIBLE_DEVICES'' \<noteq> [py_join '','' expected]
      then Inl ''CUDA_VISIBLE_DEVICES does not preserve selected GPU order''
      else if environment_values environment ''ASTRUMWEAVER_GPU_PREFLIGHT_MODE'' \<noteq> [''isolated-access'']
      then Inl ''service does not explicitly use isolated-access GPU preflight''
      else case find (\<lambda>name. \<not> absolute_setting environment name) [''ASTRUMWEAVER_GPU_DEVICE_MAP'',
          ''ASTRUMWEAVER_GPU_WORKER_CONFIG'', ''ASTRUMWEAVER_GPU_DEVICE_MAP_COMMAND'', ''ASTRUMWEAVER_NVIDIA_SMI''] of
        Some name \<Rightarrow> Inl (''service lacks explicit absolute '' @ name) | None \<Rightarrow> Inr ())"

definition check_dependency :: "(string, string) dict \<Rightarrow> string \<Rightarrow> unit checked" where
  "check_dependency properties name = (case split_systemd_list properties name of
     Inl e \<Rightarrow> Inl e
   | Inr ws \<Rightarrow> if isolation_preflight \<notin> set ws then Inl (''service lacks effective '' @ name) else Inr ())"

text \<open>The expected device paths are a set in the source; here the sorted list of it.\<close>

definition validate_effective_worker_gpu_isolation ::
  "(string \<Rightarrow> file_read) \<Rightarrow> (string, string) dict \<Rightarrow> string list \<Rightarrow> string list \<Rightarrow> unit checked" where
  "validate_effective_worker_gpu_isolation read properties expected paths =
     (if dict_get properties ''DevicePolicy'' \<noteq> Some ''closed'' then Inl ''service does not use DevicePolicy=closed''
      else rbind (parse_device_allow properties) (\<lambda>allow.
        if list_ex (\<lambda>(path, permissions). \<not> allowed_device_re path \<or> permissions \<noteq> ''rw'') allow
        then Inl ''DeviceAllow includes a broad or unsupported device grant''
        else if sort (filter (\<lambda>(path, permissions). device_path_re path) allow) \<noteq> map (\<lambda>p. (p, ''rw'')) (sorted_list_of_set (set paths))
        then Inl ''DeviceAllow physical GPU set is not exact''
        else rbind (split_systemd_list properties ''Environment'') (\<lambda>environment.
          rbind (check_environment environment expected) (\<lambda>_.
          rbind (reject_environment_override read properties) (\<lambda>_.
          if \<not> has_exact_set_preflight (prop_get properties ''ExecStartPre'') then Inl ''service lacks in-cgroup GPU preflight''
          else rbind (check_dependency properties ''Requires'') (\<lambda>_. check_dependency properties ''After''))))))"

section \<open>The acceptance of a deployment\<close>

text \<open>The protocol \<open>RuntimeDeploymentHost\<close>, a clock, and the reading of files.\<close>

record 'w acceptance_host =
  ah_device_map :: "('w, (string, string) dict) sio"
  ah_contract :: "('w, string list \<times> bool) sio"
  ah_properties :: "('w, (string, string) dict) sio"
  ah_active :: "('w, bool) sio"
  ah_start :: "('w, unit) sio"
  ah_stop :: "('w, unit) sio"
  ah_readiness :: "('w, obj option) sio"
  ah_probe :: "string list \<Rightarrow> ('w, string) sio"
  ah_read_file :: "'w \<Rightarrow> string \<Rightarrow> file_read"
  ah_now :: "'w \<Rightarrow> rat"
  ah_sleep :: "rat \<Rightarrow> 'w \<Rightarrow> 'w"
  ah_date :: "'w \<Rightarrow> string"

record acceptance_runner =
  ac_expected :: "string list"
  ac_revision :: string
  ac_deployment_path :: string
  ac_start_timeout :: rat
  ac_poll_interval :: rat

text \<open>\<open>^[0-9a-fA-F]{7,64}$\<close>\<close>

definition revision_re :: "string \<Rightarrow> bool" where
  "revision_re s \<longleftrightarrow> 7 \<le> length s \<and> length s \<le> 64 \<and>
     list_all (\<lambda>c. is_digit c \<or> (let n = (of_char c :: nat) in 97 \<le> n \<and> n \<le> 102 \<or> 65 \<le> n \<and> n \<le> 70)) s"

definition mk_acceptance_runner :: "string list \<Rightarrow> string \<Rightarrow> string \<Rightarrow> rat \<Rightarrow> rat \<Rightarrow> acceptance_runner res" where
  "mk_acceptance_runner expected revision path timeout interval =
     (if expected = [] then Inl (ValueError (Required ''GPU UUID''))
      else if \<not> distinct expected then Inl (ValueError (Contains_duplicates ''GPU UUIDs''))
      else if \<not> revision_re (py_strip revision) then Inl (ValueError (Malformed ''revision''))
      else if path \<notin> {''nixos'', ''systemd''} then Inl (ValueError (Malformed ''deployment_path''))
      else if timeout \<le> 0 \<or> interval \<le> 0 then Inl (ValueError (Malformed ''acceptance timeouts''))
      else Inr \<lparr>ac_expected = expected, ac_revision = py_strip revision, ac_deployment_path = path,
             ac_start_timeout = timeout, ac_poll_interval = interval\<rparr>)"

record acceptance_evidence =
  ev_version :: string
  ev_date :: string
  ev_revision :: string
  ev_deployment_path :: string
  ev_outcome :: string
  ev_host_gpu_count :: nat
  ev_selected_gpu_count :: nat
  ev_private_values_omitted :: bool
  ev_host_gpu_superset :: string
  ev_worker_contract_exact :: string
  ev_gpu_preflight_enabled :: string
  ev_uuid_mapping_verified :: string
  ev_isolation_enforcement :: string
  ev_fail_closed :: string
  ev_device_policy_closed :: string
  ev_selected_device_allow_exact :: string
  ev_cuda_visible_devices_exact :: string
  ev_preflight_present :: string
  ev_start_attempted :: string
  ev_started_ready :: string
  ev_registered :: string
  ev_stopped_after :: string
  ev_overall :: string

definition ready_and_registered :: "obj option \<Rightarrow> bool" where
  "ready_and_registered payload = (case payload of None \<Rightarrow> False
     | Some d \<Rightarrow> json_get d ''ready'' = JBool True \<and> json_get d ''registered'' = JBool True)"

partial_function (option) acceptance_wait ::
  "'w acceptance_host \<Rightarrow> rat \<Rightarrow> rat \<Rightarrow> 'w \<Rightarrow> ((setup_exc + obj option) \<times> 'w) option" where
  "acceptance_wait h interval deadline w = (case ah_readiness h w of
     (Inl e, w1) \<Rightarrow> Some (Inl e, w1)
   | (Inr payload, w1) \<Rightarrow>
       if ready_and_registered payload then Some (Inr payload, w1)
       else if deadline \<le> ah_now h w1 then Some (Inl (Acceptance_Error ''isolated Worker did not become ready''), w1)
       else acceptance_wait h interval deadline (ah_sleep h interval w1))"

text \<open>One round of stopping: whether the service was seen inactive; an error of the stop itself is passed over.\<close>

definition stop_round :: "'w acceptance_host \<Rightarrow> ('w, bool) sio" where
  "stop_round h = sbind (scatch (ah_stop h) (\<lambda>_. sret ())) (\<lambda>_.
     scatch (sbind (ah_active h) (\<lambda>active. sret (\<not> active)))
       (\<lambda>_. sraise (Acceptance_Error ''could not verify Worker service stopped after acceptance'')))"

definition ensure_service_stopped :: "'w acceptance_host \<Rightarrow> ('w, unit) sio" where
  "ensure_service_stopped h = sbind (stop_round h) (\<lambda>first. if first then sret ()
     else sbind (stop_round h) (\<lambda>second. if second then sret ()
       else sraise (Acceptance_Error ''Worker service remained active after acceptance cleanup'')))"

definition acceptance_unless :: "bool \<Rightarrow> string \<Rightarrow> ('w, unit) sio" where
  "acceptance_unless ok message = (if ok then sret () else sraise (Acceptance_Error message))"

text \<open>The checks that both kinds of acceptance start with: a strict superset of GPUs and the exact contract.\<close>

definition check_selection :: "string \<Rightarrow> 'w acceptance_host \<Rightarrow> acceptance_runner \<Rightarrow> ('w, (string, string) dict) sio" where
  "check_selection message h c = sbind (ah_device_map h) (\<lambda>host_map.
     sbind (acceptance_unless (length host_map > length (ac_expected c)) message) (\<lambda>_.
     sbind (acceptance_unless (list_all (\<lambda>u. dict_get host_map u \<noteq> None) (ac_expected c)) ''selected GPU UUID is not visible on the host'') (\<lambda>_.
     sbind (ah_contract h) (\<lambda>(configured, preflight).
     sbind (acceptance_unless (configured = ac_expected c) ''Worker GPU UUID order/set does not match acceptance selection'') (\<lambda>_.
     sbind (acceptance_unless preflight ''Worker GPU preflight is disabled'') (\<lambda>_. sret host_map))))))"

definition check_isolation :: "'w acceptance_host \<Rightarrow> acceptance_runner \<Rightarrow> (string, string) dict \<Rightarrow> ('w, unit) sio" where
  "check_isolation h c host_map = sbind (ah_properties h) (\<lambda>properties w.
     case validate_effective_worker_gpu_isolation (ah_read_file h w) properties (ac_expected c)
         (map (\<lambda>u. the (dict_get host_map u)) (ac_expected c)) of
       Inl e \<Rightarrow> (Inl (Acceptance_Error e), w) | Inr _ \<Rightarrow> (Inr (), w))"

text \<open>The two checks on the payload after the loop, which repeat the condition under which the loop returns.\<close>

definition check_ready :: "obj option \<Rightarrow> setup_exc + obj option" where
  "check_ready payload = (case payload of None \<Rightarrow> Inr None
     | Some d \<Rightarrow> if json_get d ''ready'' \<noteq> JBool True then Inl (Acceptance_Error ''Worker readiness did not prove isolated-access startup'')
         else if json_get d ''registered'' \<noteq> JBool True then Inl (Acceptance_Error ''Worker did not register after isolated startup'')
         else Inr payload)"

definition started_service :: "'w acceptance_host \<Rightarrow> acceptance_runner \<Rightarrow> 'w \<Rightarrow> ((setup_exc + obj option) \<times> 'w) option" where
  "started_service h c w = (case ah_start h w of
     (Inl e, w1) \<Rightarrow> Some (Inl e, w1)
   | (Inr _, w1) \<Rightarrow> map_option (\<lambda>(r, w2). (case r of Inl e \<Rightarrow> Inl e | Inr payload \<Rightarrow> check_ready payload, w2))
       (acceptance_wait h (ac_poll_interval c) (ah_now h w1 + ac_start_timeout c) w1))"

definition accepted_evidence :: "acceptance_runner \<Rightarrow> string \<Rightarrow> nat \<Rightarrow> acceptance_evidence" where
  "accepted_evidence c date gpus = \<lparr>ev_version = ''runtime-deployment-v2'', ev_date = date, ev_revision = ac_revision c, ev_deployment_path = ac_deployment_path c, ev_outcome = ''ENFORCED_SUBSET'',
     ev_host_gpu_count = gpus, ev_selected_gpu_count = length (ac_expected c),
     ev_private_values_omitted = True, ev_host_gpu_superset = ''PASS'', ev_worker_contract_exact = ''PASS'',
     ev_gpu_preflight_enabled = ''PASS'', ev_uuid_mapping_verified = ''PASS'', ev_isolation_enforcement = ''PASS'',
     ev_fail_closed = ''NOT_APPLICABLE'', ev_device_policy_closed = ''PASS'', ev_selected_device_allow_exact = ''PASS'',
     ev_cuda_visible_devices_exact = ''PASS'', ev_preflight_present = ''PASS'', ev_start_attempted = ''YES'',
     ev_started_ready = ''PASS'', ev_registered = ''PASS'', ev_stopped_after = ''PASS'', ev_overall = ''PASS''\<rparr>"

text \<open>\<open>run\<close>: once the start was tried, the service is stopped whatever came of it, and an error of that wins.\<close>

definition acceptance_superset :: string where
  "acceptance_superset = ''acceptance requires a host-visible GPU superset''"

definition acceptance_run :: "'w acceptance_host \<Rightarrow> acceptance_runner \<Rightarrow> 'w \<Rightarrow> ((setup_exc + acceptance_evidence) \<times> 'w) option" where
  "acceptance_run h c w = (case sbind (check_selection acceptance_superset h c) (\<lambda>host_map. sbind (check_isolation h c host_map) (\<lambda>_.
       sbind (ah_active h) (\<lambda>active.
       sbind (acceptance_unless (\<not> active) ''acceptance requires the Worker service to start from inactive state'') (\<lambda>_.
       sret host_map)))) w of
     (Inl e, w1) \<Rightarrow> Some (Inl e, w1)
   | (Inr host_map, w1) \<Rightarrow> (case started_service h c w1 of
       None \<Rightarrow> None
     | Some (r, w2) \<Rightarrow> (case ensure_service_stopped h w2 of
         (Inl e, w3) \<Rightarrow> Some (Inl e, w3)
       | (Inr _, w3) \<Rightarrow> (case r of
           Inl e \<Rightarrow> Some (Inl e, w3)
         | Inr _ \<Rightarrow> Some (sbind (ah_active h) (\<lambda>active.
             sbind (acceptance_unless (\<not> active) ''Worker service remained active after acceptance'') (\<lambda>_ w4.
             sret (accepted_evidence c (ah_date h w4) (length host_map)) w4)) w3)))))"

definition fail_closed_evidence :: "acceptance_runner \<Rightarrow> string \<Rightarrow> nat \<Rightarrow> acceptance_evidence" where
  "fail_closed_evidence c date gpus = \<lparr>ev_version = ''runtime-deployment-v2'', ev_date = date, ev_revision = ac_revision c, ev_deployment_path = ac_deployment_path c, ev_outcome = ''FAIL_CLOSED'',
     ev_host_gpu_count = gpus, ev_selected_gpu_count = length (ac_expected c),
     ev_private_values_omitted = True, ev_host_gpu_superset = ''PASS'', ev_worker_contract_exact = ''PASS'',
     ev_gpu_preflight_enabled = ''PASS'', ev_uuid_mapping_verified = ''PASS'', ev_isolation_enforcement = ''UNAVAILABLE'',
     ev_fail_closed = ''PASS'', ev_device_policy_closed = ''NOT_APPLICABLE'', ev_selected_device_allow_exact = ''NOT_APPLICABLE'',
     ev_cuda_visible_devices_exact = ''PASS'', ev_preflight_present = ''NOT_APPLICABLE'', ev_start_attempted = ''NO'',
     ev_started_ready = ''NOT_RUN'', ev_registered = ''NOT_RUN'', ev_stopped_after = ''PASS'', ev_overall = ''PASS''\<rparr>"

definition acceptance_run_fail_closed :: "'w acceptance_host \<Rightarrow> acceptance_runner \<Rightarrow> ('w, acceptance_evidence) sio" where
  "acceptance_run_fail_closed h c = sbind (check_selection (''fail-closed '' @ acceptance_superset) h c) (\<lambda>host_map. sbind (ah_active h) (\<lambda>active.
     sbind (acceptance_unless (\<not> active) ''fail-closed acceptance requires the Worker service inactive'') (\<lambda>_.
     sbind (ah_probe h (ac_expected c)) (\<lambda>classification.
     sbind (acceptance_unless (classification = ''UNAVAILABLE'') ''GPU subset isolation was enforceable'') (\<lambda>_.
     sbind (ah_active h) (\<lambda>active.
     sbind (acceptance_unless (\<not> active) ''Worker service started during fail-closed acceptance'') (\<lambda>_ w.
     sret (fail_closed_evidence c (ah_date h w) (length host_map)) w)))))))"

section \<open>The systemd host\<close>

text \<open>
  Commands run to an exit status with their output, or cannot be run. Files for the probe are written to
  a temporary directory, so its command is a function of that directory.
\<close>

datatype run_outcome = Run_Failed | Run_Timed_Out | Run_Exit int string

record 'h acceptance_ops =
  ao_run :: "string list \<Rightarrow> 'h \<Rightarrow> run_outcome \<times> 'h"
  ao_temp_run :: "(string \<times> string) list \<Rightarrow> (string \<Rightarrow> string list) \<Rightarrow> 'h \<Rightarrow> run_outcome \<times> 'h"
  ao_toml :: "string \<Rightarrow> 'h \<Rightarrow> obj option"
  ao_health :: "string \<Rightarrow> 'h \<Rightarrow> (int \<times> json option) option \<times> 'h"
  ao_read :: "'h \<Rightarrow> string \<Rightarrow> file_read"
  ao_now :: "'h \<Rightarrow> rat"
  ao_sleep :: "rat \<Rightarrow> 'h \<Rightarrow> 'h"
  ao_date :: "'h \<Rightarrow> string"

record acceptance_config =
  af_service :: string
  af_worker_config :: string
  af_systemctl :: string
  af_nvidia_smi :: string
  af_gpu_device_map :: string
  af_probe :: string
  af_health_url :: string

definition accept_command :: "'h acceptance_ops \<Rightarrow> bool \<Rightarrow> string list \<Rightarrow> ('h, int \<times> string) sio" where
  "accept_command ops check args w = (case ao_run ops args w of
     (Run_Exit code out, w') \<Rightarrow> if check \<and> code \<noteq> 0 then (Inl (Acceptance_Error ''required host command failed''), w') else (Inr (code, out), w')
   | (_, w') \<Rightarrow> (Inl (Acceptance_Error ''required host command failed''), w'))"

fun device_map_lines :: "string list \<Rightarrow> (string, string) dict \<Rightarrow> (string, string) dict checked" where
  "device_map_lines [] result = Inr result"
| "device_map_lines (line # ls) result = (case py_partition (CHR ''='') line of (raw_uuid, separator, raw_path) \<Rightarrow>
     (let uuid = py_strip raw_uuid; path = py_strip raw_path in
      if \<not> separator \<or> uuid = [] \<or> \<not> device_path_re path then Inl ''host GPU UUID/device mapping is unavailable''
      else if dict_get result uuid \<noteq> None then Inl ''host reported duplicate GPU UUID''
      else if path \<in> snd ` set result then Inl ''host reported duplicate GPU device minor''
      else device_map_lines ls (dict_set uuid path result)))"

definition checked_result :: "'a checked \<Rightarrow> ('w, 'a) sio" where
  "checked_result r = (case r of Inl e \<Rightarrow> sraise (Acceptance_Error e) | Inr x \<Rightarrow> sret x)"

definition host_gpu_device_map :: "'h acceptance_ops \<Rightarrow> acceptance_config \<Rightarrow> ('h, (string, string) dict) sio" where
  "host_gpu_device_map ops f = sbind (accept_command ops True [af_gpu_device_map f, ''--nvidia-smi'', af_nvidia_smi f, ''discover-visible'']) (\<lambda>(_, out).
     sbind (checked_result (device_map_lines (py_splitlines out) [])) (\<lambda>result.
       if result = [] then sraise (Acceptance_Error ''host reported no NVIDIA GPUs'') else sret result))"

definition worker_gpu_contract :: "'h acceptance_ops \<Rightarrow> acceptance_config \<Rightarrow> ('h, string list \<times> bool) sio" where
  "worker_gpu_contract ops f w = (case ao_toml ops (af_worker_config f) w of
     None \<Rightarrow> (Inl (Acceptance_Error ''Worker configuration is unavailable''), w)
   | Some config \<Rightarrow> (case rbind (as_mapping (json_get config ''worker'')) (\<lambda>worker.
         rbind (rbind (py_iter (json_get_or worker ''gpu_uuids'' (JList []))) (rmap py_str)) (\<lambda>uuids.
           Inr (uuids, py_truthy (json_get_or worker ''gpu_preflight'' (JBool True))))) of
       Inl e \<Rightarrow> (Inl (Setup_Raised e), w) | Inr r \<Rightarrow> (Inr r, w)))"

definition show_command :: "string \<Rightarrow> string \<Rightarrow> string list" where
  "show_command systemctl service = [systemctl, ''show'', ''--no-pager'', ''--all'',
     ''--property=DevicePolicy,DeviceAllow,Environment,EnvironmentFiles,UnsetEnvironment,ExecStartPre,Requires,After'', service]"

definition worker_unit_properties :: "'h acceptance_ops \<Rightarrow> acceptance_config \<Rightarrow> ('h, (string, string) dict) sio" where
  "worker_unit_properties ops f = sbind (accept_command ops True (show_command (af_systemctl f) (af_service f))) (\<lambda>(_, out).
     checked_result (parse_systemd_show_properties out))"

definition acceptance_service_active :: "'h acceptance_ops \<Rightarrow> acceptance_config \<Rightarrow> ('h, bool) sio" where
  "acceptance_service_active ops f = sbind (accept_command ops False [af_systemctl f, ''is-active'', ''--quiet'', af_service f]) (\<lambda>(code, _).
     if code = 0 then sret True else if code = 3 then sret False else sraise (Acceptance_Error ''cannot determine Worker service state''))"

definition service_command :: "'h acceptance_ops \<Rightarrow> acceptance_config \<Rightarrow> string \<Rightarrow> ('h, unit) sio" where
  "service_command ops f verb = sbind (accept_command ops True [af_systemctl f, verb, af_service f]) (\<lambda>_. sret ())"

definition acceptance_readiness :: "'h acceptance_ops \<Rightarrow> acceptance_config \<Rightarrow> ('h, obj option) sio" where
  "acceptance_readiness ops f w = (case ao_health ops (af_health_url f) w of (reply, w') \<Rightarrow>
     (Inr (case reply of Some (status, Some (JObj d)) \<Rightarrow> if status = 200 then Some d else None | _ \<Rightarrow> None), w'))"

definition probe_isolation_enforcement :: "'h acceptance_ops \<Rightarrow> acceptance_config \<Rightarrow> string list \<Rightarrow> ('h, string) sio" where
  "probe_isolation_enforcement ops f expected = sbind (host_gpu_device_map ops f) (\<lambda>host_map.
     sbind (acceptance_unless (length host_map > length expected) ''isolation-unavailable acceptance requires a host GPU superset'') (\<lambda>_.
     sbind (acceptance_unless (list_all (\<lambda>u. dict_get host_map u \<noteq> None) expected) ''selected GPU UUID is not visible on the host'') (\<lambda>_ w.
     case ao_temp_run ops [(''gpu-uuids'', unlines expected), (''gpu-device-map'', unlines (map (\<lambda>u. u @ ''='' @ the (dict_get host_map u)) (sort expected)))]
         (\<lambda>dir. [af_probe f, dir @ ''/gpu-uuids'', dir @ ''/gpu-device-map'', af_worker_config f, py_join '','' expected]) w of
       (Run_Exit code _, w') \<Rightarrow> if code = 0 then (Inr ''ENFORCEABLE'', w') else if code = 3 then (Inr ''UNAVAILABLE'', w')
         else (Inl (Acceptance_Error ''GPU isolation enforcement probe failed''), w')
     | (_, w') \<Rightarrow> (Inl (Acceptance_Error ''required host command failed''), w'))))"

definition systemd_acceptance_host :: "'h acceptance_ops \<Rightarrow> acceptance_config \<Rightarrow> 'h acceptance_host" where
  "systemd_acceptance_host ops f = \<lparr>ah_device_map = host_gpu_device_map ops f, ah_contract = worker_gpu_contract ops f,
     ah_properties = worker_unit_properties ops f, ah_active = acceptance_service_active ops f,
     ah_start = service_command ops f ''start'', ah_stop = service_command ops f ''stop'',
     ah_readiness = acceptance_readiness ops f, ah_probe = probe_isolation_enforcement ops f,
     ah_read_file = ao_read ops, ah_now = ao_now ops, ah_sleep = ao_sleep ops, ah_date = ao_date ops\<rparr>"

section \<open>What accepted properties guarantee\<close>

lemma sorted_pairs_exact:
  assumes "sort (filter (\<lambda>(p, m). device_path_re p) allow) = map (\<lambda>p. (p, ''rw'')) (sorted_list_of_set (set paths))"
  shows "{p. device_path_re p \<and> p \<in> fst ` set allow} = set paths"
proof -
  have "set (filter (\<lambda>(p, m). device_path_re p) allow) = (\<lambda>p. (p, ''rw'')) ` set paths"
    using arg_cong [OF assms, of set] by simp
  then have "(p, m) \<in> set (filter (\<lambda>(p, m). device_path_re p) allow) \<longleftrightarrow> (p, m) \<in> (\<lambda>p. (p, ''rw'')) ` set paths" for p m
    by (rule arg_cong)
  then have "(p, m) \<in> set allow \<and> device_path_re p \<longleftrightarrow> p \<in> set paths \<and> m = ''rw''" for p m
    unfolding set_filter image_iff by simp
  then have exact: "p \<in> set paths \<and> m = ''rw'' \<longleftrightarrow> (p, m) \<in> set allow \<and> device_path_re p" for p m by blast
  show ?thesis
  proof (intro set_eqI iffI)
    fix p assume "p \<in> {p. device_path_re p \<and> p \<in> fst ` set allow}"
    then obtain m where "(p, m) \<in> set allow" "device_path_re p" by auto
    then show "p \<in> set paths" using exact [of p m] by blast
  next
    fix p assume "p \<in> set paths"
    then have "(p, ''rw'') \<in> set allow \<and> device_path_re p" using exact [of p "''rw''"] by blast
    then show "p \<in> {p. device_path_re p \<and> p \<in> fst ` set allow}" by force
  qed
qed

lemma find_None_all: "find (\<lambda>x. \<not> P x) xs = None \<longleftrightarrow> (\<forall>x \<in> set xs. P x)"
  by (auto simp: find_None_iff)

text \<open>No file that can be read assigns a protected name, and none is unreadable.\<close>

definition file_harmless :: "(string \<Rightarrow> file_read) \<Rightarrow> string \<Rightarrow> bool" where
  "file_harmless read path = (case read path of
     File_Absent \<Rightarrow> True | File_Unreadable \<Rightarrow> False
   | File_Text t \<Rightarrow> \<forall>l \<in> set (py_splitlines t). comment_line l \<or> \<not> assigns protected_names l)"

lemma check_files_harmless:
  assumes "check_environment_files read items = Inr ()" "item \<in> set items" "\<not> (starts_with ''('' item \<and> ends_with '')'' item)"
  shows "file_harmless read (if starts_with ''-/'' item then drop 1 item else item)"
  using assms
  by (induction items) (auto simp: file_harmless_def list_ex_iff split: if_splits file_read.splits)

lemma rbind_Inr_iff: "rbind r f = Inr y \<longleftrightarrow> (\<exists>x. r = Inr x \<and> f x = Inr y)"
  by (cases r) auto

text \<open>What the properties of a service whose isolation was validated say.\<close>

definition isolated :: "(string \<Rightarrow> file_read) \<Rightarrow> (string, string) dict \<Rightarrow> string list \<Rightarrow> string list \<Rightarrow> bool" where
  "isolated read properties expected paths \<longleftrightarrow>
     dict_get properties ''DevicePolicy'' = Some ''closed'' \<and>
     (\<exists>allow environment files. parse_device_allow properties = Inr allow \<and>
        (\<forall>(path, permissions) \<in> set allow. allowed_device_re path \<and> permissions = ''rw'') \<and>
        {path. device_path_re path \<and> path \<in> fst ` set allow} = set paths \<and>
        split_systemd_list properties ''Environment'' = Inr environment \<and>
        environment_values environment ''CUDA_VISIBLE_DEVICES'' = [py_join '','' expected] \<and>
        environment_values environment ''ASTRUMWEAVER_GPU_PREFLIGHT_MODE'' = [''isolated-access''] \<and>
        split_systemd_list properties ''EnvironmentFiles'' = Inr files \<and>
        (\<forall>file \<in> set files. \<not> (starts_with ''('' file \<and> ends_with '')'' file) \<longrightarrow>
           file_harmless read (if starts_with ''-/'' file then drop 1 file else file))) \<and>
     has_exact_set_preflight (prop_get properties ''ExecStartPre'')"

lemma check_environment_Inr:
  "check_environment environment expected = Inr () \<Longrightarrow>
     environment_values environment ''CUDA_VISIBLE_DEVICES'' = [py_join '','' expected] \<and>
     environment_values environment ''ASTRUMWEAVER_GPU_PREFLIGHT_MODE'' = [''isolated-access'']"
  by (auto simp: check_environment_def split: if_splits)

lemma no_override_Inr:
  "reject_environment_override read properties = Inr () \<Longrightarrow>
     \<exists>files. split_systemd_list properties ''EnvironmentFiles'' = Inr files \<and> check_environment_files read files = Inr ()"
  by (auto simp: reject_environment_override_def split: if_splits sum.splits)

lemma validated_isolated:
  assumes "validate_effective_worker_gpu_isolation read properties expected paths = Inr ()"
  shows "isolated read properties expected paths"
proof -
  from assms obtain allow environment where v:
    "dict_get properties ''DevicePolicy'' = Some ''closed''" "parse_device_allow properties = Inr allow"
    "\<not> list_ex (\<lambda>(path, permissions). \<not> allowed_device_re path \<or> permissions \<noteq> ''rw'') allow"
    "sort (filter (\<lambda>(path, permissions). device_path_re path) allow) = map (\<lambda>p. (p, ''rw'')) (sorted_list_of_set (set paths))"
    "split_systemd_list properties ''Environment'' = Inr environment" "check_environment environment expected = Inr ()"
    "reject_environment_override read properties = Inr ()" "has_exact_set_preflight (prop_get properties ''ExecStartPre'')"
    unfolding validate_effective_worker_gpu_isolation_def by (force simp: rbind_Inr_iff split: if_splits)
  obtain files where files: "split_systemd_list properties ''EnvironmentFiles'' = Inr files" "check_environment_files read files = Inr ()"
    using no_override_Inr [OF v(7)] by blast
  have "\<forall>(path, permissions) \<in> set allow. allowed_device_re path \<and> permissions = ''rw''"
    using v(3) by (auto simp: list_ex_iff)
  then show ?thesis
    unfolding isolated_def
    using v(1,2,5,8) sorted_pairs_exact [OF v(4)] check_environment_Inr [OF v(6)] files check_files_harmless [OF files(2)] by blast
qed

section \<open>The calls an acceptance makes\<close>

datatype acceptance_call = Saw_Active bool | Started | Stopped | Saw_Ready bool

text \<open>The host with a log of what is asked of the service and what is seen of it.\<close>

definition noted :: "('w, 'a) sio \<Rightarrow> (setup_exc + 'a \<Rightarrow> acceptance_call list) \<Rightarrow> ('w \<times> acceptance_call list, 'a) sio" where
  "noted p f x = (case p (fst x) of (r, w') \<Rightarrow> (r, w', snd x @ f r))"

definition logging_host :: "'w acceptance_host \<Rightarrow> ('w \<times> acceptance_call list) acceptance_host" where
  "logging_host h = \<lparr>ah_device_map = noted (ah_device_map h) (\<lambda>_. []), ah_contract = noted (ah_contract h) (\<lambda>_. []),
     ah_properties = noted (ah_properties h) (\<lambda>_. []),
     ah_active = noted (ah_active h) (\<lambda>r. case r of Inl _ \<Rightarrow> [] | Inr b \<Rightarrow> [Saw_Active b]),
     ah_start = noted (ah_start h) (\<lambda>_. [Started]), ah_stop = noted (ah_stop h) (\<lambda>_. [Stopped]),
     ah_readiness = noted (ah_readiness h) (\<lambda>r. case r of Inl _ \<Rightarrow> [] | Inr p \<Rightarrow> [Saw_Ready (ready_and_registered p)]),
     ah_probe = (\<lambda>e. noted (ah_probe h e) (\<lambda>_. [])), ah_read_file = (\<lambda>x. ah_read_file h (fst x)),
     ah_now = (\<lambda>x. ah_now h (fst x)), ah_sleep = (\<lambda>d x. (ah_sleep h d (fst x), snd x)),
     ah_date = (\<lambda>x. ah_date h (fst x))\<rparr>"

lemma noted_iff: "noted p f x = (r, w', tr) \<longleftrightarrow> p (fst x) = (r, w') \<and> tr = snd x @ f r"
  by (auto simp: noted_def split: prod.splits)

lemma unless_iff: "acceptance_unless ok m w = (r, w') \<longleftrightarrow> w' = w \<and> r = (if ok then Inr () else Inl (Acceptance_Error m))"
  by (auto simp: acceptance_unless_def)

lemma selection_silent:
  assumes "check_selection message (logging_host h) c (w, tr) = (r, w', tr')"
  shows "tr' = tr \<and> check_selection message h c w = (r, w')"
proof -
  obtain q v where q: "ah_device_map h w = (q, v)" by fastforce
  obtain q2 v2 where q2: "ah_contract h v = (q2, v2)" by fastforce
  have "ah_device_map (logging_host h) (w, tr) = (q, v, tr)" "ah_contract (logging_host h) (v, tr) = (q2, v2, tr)"
    using q q2 by (simp_all add: logging_host_def noted_def)
  with assms q q2 show ?thesis
    by (cases q; cases q2) (auto simp: check_selection_def sbind_def acceptance_unless_def sret_def sraise_def split: if_splits)
qed

lemma selection_superset:
  assumes "check_selection message h c w = (Inr m, w')"
  shows "length (ac_expected c) < length m"
  using assms by (auto simp: check_selection_def sbind_Inr unless_iff split: prod.splits if_splits)

text \<open>
  The evidence for an accepted deployment: the devices the host reported, the properties it then reported
  of the unit, and the files as they were when these were checked.
\<close>

definition accepted_isolation :: "'w acceptance_host \<Rightarrow> acceptance_runner \<Rightarrow> 'w \<Rightarrow> (string, string) dict \<Rightarrow> bool" where
  "accepted_isolation h c w m \<longleftrightarrow> (\<exists>w1 properties w2. check_selection acceptance_superset h c w = (Inr m, w1) \<and>
     ah_properties h w1 = (Inr properties, w2) \<and>
     isolated (ah_read_file h w2) properties (ac_expected c) (map (\<lambda>u. the (dict_get m u)) (ac_expected c)))"

lemma isolation_silent:
  assumes "check_isolation (logging_host h) c m (w, tr) = (r, w', tr')"
  shows "tr' = tr \<and> (r = Inr () \<longrightarrow> (\<exists>properties. ah_properties h w = (Inr properties, w') \<and>
    isolated (ah_read_file h w') properties (ac_expected c) (map (\<lambda>u. the (dict_get m u)) (ac_expected c))))"
proof -
  obtain q v where q: "ah_properties h w = (q, v)" by fastforce
  then have "ah_properties (logging_host h) (w, tr) = (q, v, tr)" by (simp add: logging_host_def noted_def)
  with assms q show ?thesis
    by (cases q; cases "validate_effective_worker_gpu_isolation (ah_read_file h v) (projr q) (ac_expected c) (map (\<lambda>u. the (dict_get m u)) (ac_expected c))")
      (auto simp: check_isolation_def sbind_def logging_host_def intro: validated_isolated)
qed

lemma wait_trace:
  assumes "acceptance_wait (logging_host h) interval deadline (w, tr) = Some (r, w', tr')"
  shows "\<exists>n. tr' = tr @ replicate n (Saw_Ready False) @ (if isl r then [] else [Saw_Ready True])"
proof -
  have "\<forall>h. H = logging_host h \<longrightarrow> (\<exists>n. snd (snd y) = snd x @ replicate n (Saw_Ready False) @ (if isl (fst y) then [] else [Saw_Ready True]))"
    if "acceptance_wait H interval deadline x = Some y" for H :: "('a \<times> acceptance_call list) acceptance_host" and x y
  proof (rule acceptance_wait.raw_induct [OF _ that, where P = "\<lambda>H interval deadline x y. \<forall>h. H = logging_host h \<longrightarrow>
      (\<exists>n. snd (snd y) = snd x @ replicate n (Saw_Ready False) @ (if isl (fst y) then [] else [Saw_Ready True]))"], intro allI impI)
    fix aw and H :: "('a \<times> acceptance_call list) acceptance_host" and interval deadline x y h
    assume IH: "\<And>H interval deadline x y. aw H interval deadline x = Some y \<Longrightarrow> \<forall>h. H = logging_host h \<longrightarrow>
        (\<exists>n. snd (snd y) = snd x @ replicate n (Saw_Ready False) @ (if isl (fst y) then [] else [Saw_Ready True]))"
      and H: "H = logging_host h"
      and step: "(case ah_readiness H x of (Inl e, w1) \<Rightarrow> Some (Inl e, w1)
        | (Inr payload, w1) \<Rightarrow> if ready_and_registered payload then Some (Inr payload, w1)
            else if deadline \<le> ah_now H w1 then Some (Inl (Acceptance_Error ''isolated Worker did not become ready''), w1)
            else aw H interval deadline (ah_sleep H interval w1)) = Some y"
    obtain q v where q: "ah_readiness h (fst x) = (q, v)" by fastforce
    show "\<exists>n. snd (snd y) = snd x @ replicate n (Saw_Ready False) @ (if isl (fst y) then [] else [Saw_Ready True])"
    proof (cases q)
      case (Inl e)
      with step q H show ?thesis by (auto simp: logging_host_def noted_def intro!: exI [of _ 0])
    next
      case (Inr payload)
      let ?x1 = "(v, snd x @ [Saw_Ready (ready_and_registered payload)])"
      have ready: "ah_readiness H x = (Inr payload, ?x1)" using q H Inr by (simp add: logging_host_def noted_def)
      consider "ready_and_registered payload" "y = (Inr payload, ?x1)"
        | "\<not> ready_and_registered payload" "y = (Inl (Acceptance_Error ''isolated Worker did not become ready''), ?x1)"
        | "\<not> ready_and_registered payload" "aw H interval deadline (ah_sleep H interval ?x1) = Some y"
        using step ready by (auto split: if_splits)
      then show ?thesis
      proof cases
        case 1
        then show ?thesis by (intro exI [of _ 0]) simp
      next
        case 2
        then show ?thesis by (intro exI [of _ 1]) simp
      next
        case 3
        from IH [OF 3(2)] H obtain n where "snd (snd y) = snd (ah_sleep H interval ?x1) @ replicate n (Saw_Ready False) @ (if isl (fst y) then [] else [Saw_Ready True])"
          by blast
        then show ?thesis using 3(1) H by (intro exI [of _ "Suc n"]) (simp add: logging_host_def)
      qed
    qed
  qed
  from this [OF assms] show ?thesis by (metis fst_conv snd_conv)
qed

definition stop_traces :: "acceptance_call list set" where
  "stop_traces = {[Stopped, Saw_Active False], [Stopped, Saw_Active True, Stopped, Saw_Active False]}"

lemma stop_round_trace:
  "stop_round (logging_host h) (w, tr) = (r, w', tr') \<Longrightarrow>
     (\<exists>b. r = Inr b \<and> tr' = tr @ [Stopped, Saw_Active (\<not> b)]) \<or> (\<exists>e. r = Inl (Acceptance_Error e)) \<and> tr' = tr @ [Stopped]"
  by (cases r) (auto simp: stop_round_def sbind_Inr sbind_Inl scatch_Inr scatch_Inl logging_host_def noted_iff)

lemma ensure_stopped_trace:
  assumes "ensure_service_stopped (logging_host h) (w, tr) = (r, w', tr')"
  shows "\<exists>stops. tr' = tr @ Stopped # stops \<and> (r = Inr () \<longrightarrow> Stopped # stops \<in> stop_traces)"
proof -
  obtain q v where q: "stop_round (logging_host h) (w, tr) = (q, v)" by (cases "stop_round (logging_host h) (w, tr)")
  from stop_round_trace [of h w tr q "fst v" "snd v"] q
  consider b where "q = Inr b" "snd v = tr @ [Stopped, Saw_Active (\<not> b)]" | e where "q = Inl e" "snd v = tr @ [Stopped]" by auto
  then show ?thesis
  proof cases
    case 1
    obtain q2 v2 where q2: "stop_round (logging_host h) v = (q2, v2)" by (cases "stop_round (logging_host h) v")
    from stop_round_trace [of h "fst v" "snd v" q2 "fst v2" "snd v2"] q2
    consider b2 where "q2 = Inr b2" "snd v2 = snd v @ [Stopped, Saw_Active (\<not> b2)]" | e where "q2 = Inl e" "snd v2 = snd v @ [Stopped]" by auto
    then show ?thesis
      using assms q q2 1 by cases (auto simp: ensure_service_stopped_def sbind_def stop_traces_def sret_def sraise_def split: if_splits)
  next
    case 2
    with assms q show ?thesis by (auto simp: ensure_service_stopped_def sbind_def)
  qed
qed

lemma started_trace:
  assumes "started_service (logging_host h) c (w, tr) = Some (r, w', tr')"
  shows "\<exists>n ready. tr' = tr @ Started # replicate n (Saw_Ready False) @ ready \<and> ready \<in> {[], [Saw_Ready True]} \<and>
    (\<not> isl r \<longrightarrow> ready = [Saw_Ready True])"
proof -
  obtain q v where q: "ah_start h w = (q, v)" by fastforce
  then have start: "ah_start (logging_host h) (w, tr) = (q, v, tr @ [Started])" by (simp add: logging_host_def noted_def)
  show ?thesis
  proof (cases q)
    case (Inl e)
    with assms start show ?thesis by (intro exI [of _ 0] exI [of _ "[]"]) (auto simp: started_service_def)
  next
    case (Inr u)
    with assms start obtain r2 where wait: "acceptance_wait (logging_host h) (ac_poll_interval c)
        (ah_now (logging_host h) (v, tr @ [Started]) + ac_start_timeout c) (v, tr @ [Started]) = Some (r2, w', tr')"
      and r: "r = (case r2 of Inl e \<Rightarrow> Inl e | Inr payload \<Rightarrow> check_ready payload)"
      by (auto simp: started_service_def)
    have "\<not> isl r \<Longrightarrow> \<not> isl r2" using r by (cases r2) auto
    with wait_trace [OF wait] show ?thesis by (auto split: if_splits)
  qed
qed

text \<open>Everything up to the start: nothing is asked of the service, which was seen inactive.\<close>

definition acceptance_checks :: "'w acceptance_host \<Rightarrow> acceptance_runner \<Rightarrow> ('w, (string, string) dict) sio" where
  "acceptance_checks h c = sbind (check_selection acceptance_superset h c) (\<lambda>host_map. sbind (check_isolation h c host_map) (\<lambda>_.
       sbind (ah_active h) (\<lambda>active.
       sbind (acceptance_unless (\<not> active) ''acceptance requires the Worker service to start from inactive state'') (\<lambda>_.
       sret host_map))))"

lemma checks_trace:
  assumes "acceptance_checks (logging_host h) c (w, []) = (r, w', tr)"
  shows "case r of
      Inl e \<Rightarrow> tr \<in> {[], [Saw_Active True]}
    | Inr m \<Rightarrow> tr = [Saw_Active False] \<and> accepted_isolation h c w m"
proof -
  obtain q v t where q: "check_selection acceptance_superset (logging_host h) c (w, []) = (q, v, t)" by (metis prod_cases3)
  note sel = selection_silent [OF q]
  show ?thesis
  proof (cases q)
    case (Inl e)
    with assms q sel show ?thesis by (auto simp: acceptance_checks_def sbind_def)
  next
    case (Inr m)
    obtain q2 v2 t2 where q2: "check_isolation (logging_host h) c m (v, t) = (q2, v2, t2)" by (metis prod_cases3)
    note iso = isolation_silent [OF q2]
    note quiet = sel [THEN conjunct1] iso [THEN conjunct1]
    obtain q3 v3 where q3: "ah_active h v2 = (q3, v3)" by fastforce
    have active: "ah_active (logging_host h) (v2, t2) = (q3, v3, t2 @ (case q3 of Inl _ \<Rightarrow> [] | Inr b \<Rightarrow> [Saw_Active b]))"
      using q3 by (simp add: logging_host_def noted_def)
    show ?thesis
    proof (cases "q2 = Inr () \<and> q3 = Inr False")
      case True
      with assms q Inr q2 active quiet have "r = Inr m" "tr = [Saw_Active False]"
        by (auto simp: acceptance_checks_def sbind_def acceptance_unless_def sret_def)
      then show ?thesis using sel iso True Inr by (auto simp: accepted_isolation_def)
    next
      case False
      then have "\<exists>e. r = Inl e" "tr \<in> {[], [Saw_Active True]}"
        using assms q Inr q2 active quiet
        by (cases q2; cases q3; auto simp: acceptance_checks_def sbind_def acceptance_unless_def sret_def sraise_def split: if_splits)+
      then show ?thesis by auto
    qed
  qed
qed

text \<open>What the log of an acceptance looks like, by its outcome.\<close>

definition acceptance_log ::
  "'w acceptance_host \<Rightarrow> acceptance_runner \<Rightarrow> 'w \<Rightarrow> setup_exc + acceptance_evidence \<Rightarrow> acceptance_call list \<Rightarrow> bool" where
  "acceptance_log h c w r tr \<longleftrightarrow> (case r of
     Inl e \<Rightarrow> tr \<in> {[], [Saw_Active True]} \<or>
       (\<exists>n ready stops. tr = [Saw_Active False, Started] @ replicate n (Saw_Ready False) @ ready @ Stopped # stops \<and>
          ready \<in> {[], [Saw_Ready True]} \<and> Started \<notin> set stops)
   | Inr evidence \<Rightarrow> (\<exists>n stops date m. stops \<in> stop_traces \<and>
       tr = [Saw_Active False, Started] @ replicate n (Saw_Ready False) @ [Saw_Ready True] @ stops @ [Saw_Active False] \<and>
       evidence = accepted_evidence c date (length m) \<and> length (ac_expected c) < length m \<and> accepted_isolation h c w m))"

lemma ensure_not_started: "ensure_service_stopped (logging_host h) (w, tr) = (r, w', tr @ stops) \<Longrightarrow> Started \<notin> set stops"
proof -
  have round: "\<exists>s. snd (snd (stop_round (logging_host h) x)) = snd x @ s \<and> Started \<notin> set s" for x
    using stop_round_trace [of h "fst x" "snd x"] by (cases "stop_round (logging_host h) x") force
  assume "ensure_service_stopped (logging_host h) (w, tr) = (r, w', tr @ stops)"
  then have "\<exists>s. tr @ stops = tr @ s \<and> Started \<notin> set s"
    using round [of "(w, tr)"] round [of "snd (stop_round (logging_host h) (w, tr))"]
    by (cases "stop_round (logging_host h) (w, tr)"; cases "fst (stop_round (logging_host h) (w, tr))";
        cases "stop_round (logging_host h) (snd (stop_round (logging_host h) (w, tr)))";
        cases "fst (stop_round (logging_host h) (snd (stop_round (logging_host h) (w, tr))))")
      (auto simp: ensure_service_stopped_def sbind_def sret_def sraise_def split: if_splits)
  then show ?thesis by simp
qed

lemma acceptance_run_log:
  assumes "acceptance_run (logging_host h) c (w, []) = Some (r, w', tr)"
  shows "acceptance_log h c w r tr"
proof -
  obtain q v t where q: "acceptance_checks (logging_host h) c (w, []) = (q, v, t)" by (metis prod_cases3)
  note pre = checks_trace [OF q]
  note run = assms [unfolded acceptance_run_def, folded acceptance_checks_def, unfolded q]
  show ?thesis
  proof (cases q)
    case (Inl e)
    with run pre show ?thesis by (auto simp: acceptance_log_def)
  next
    case (Inr m)
    obtain q2 v2 t2 where q2: "started_service (logging_host h) c (v, t) = Some (q2, v2, t2)"
      using run Inr by (cases "started_service (logging_host h) c (v, t)") auto
    obtain n ready where t2: "t2 = [Saw_Active False, Started] @ replicate n (Saw_Ready False) @ ready"
        "ready \<in> {[], [Saw_Ready True]}" "\<not> isl q2 \<longrightarrow> ready = [Saw_Ready True]"
      using started_trace [OF q2] pre Inr by auto
    obtain q3 v3 t3 where q3: "ensure_service_stopped (logging_host h) (v2, t2) = (q3, v3, t3)" by (metis prod_cases3)
    obtain stops where t3: "t3 = t2 @ Stopped # stops" "q3 = Inr () \<longrightarrow> Stopped # stops \<in> stop_traces"
      using ensure_stopped_trace [OF q3] by blast
    have quiet: "Started \<notin> set stops" using ensure_not_started q3 t3(1) by fastforce
    have failed: "acceptance_log h c w (Inl e) (t2 @ Stopped # stops @ s)" if "Started \<notin> set s" for e s
      using t2 quiet that unfolding acceptance_log_def
      by (intro disjI2 exI [of _ n] exI [of _ ready] exI [of _ "stops @ s"] sum.case(1) [THEN iffD2]) auto
    show ?thesis
    proof (cases "\<exists>x. q3 = Inr () \<and> q2 = Inr x")
      case False
      with run Inr q2 q3 t3(1) failed [of "[]"] show ?thesis by (cases q3; cases q2) auto
    next
      case True
      obtain q4 v4 where q4: "ah_active h v3 = (q4, v4)" by fastforce
      then have active: "ah_active (logging_host h) (v3, t3) = (q4, v4, t3 @ (case q4 of Inl _ \<Rightarrow> [] | Inr b \<Rightarrow> [Saw_Active b]))"
        by (simp add: logging_host_def noted_def)
      show ?thesis
      proof (cases "q4 = Inr False")
        case False
        with run Inr q2 q3 True active t3(1) failed failed [of "[]"] show ?thesis
          by (cases q4) (auto simp: sbind_def acceptance_unless_def sret_def sraise_def split: if_splits)
      next
        case ok: True
        with run Inr q2 q3 True active have "r = Inr (accepted_evidence c (ah_date h v4) (length m))" "tr = t3 @ [Saw_Active False]"
          by (auto simp: sbind_def acceptance_unless_def sret_def logging_host_def)
        moreover have "accepted_isolation h c w m" "length (ac_expected c) < length m"
          using pre Inr by (auto simp: accepted_isolation_def intro: selection_superset)
        moreover have "stops' \<in> stop_traces" "tr = [Saw_Active False, Started] @ replicate n (Saw_Ready False) @ [Saw_Ready True] @ stops' @ [Saw_Active False]"
          if "stops' = Stopped # stops" for stops' using t2 t3 True that \<open>tr = _\<close> by auto
        ultimately show ?thesis
          by (simp add: acceptance_log_def) blast
      qed
    qed
  qed
qed

section \<open>Acceptance returns\<close>

definition acceptance_clock :: "'w acceptance_host \<Rightarrow> bool" where
  "acceptance_clock h \<longleftrightarrow> (\<forall>w. ah_now h w \<le> ah_now h (snd (ah_readiness h w)) \<and> (\<forall>d. ah_now h w + d \<le> ah_now h (ah_sleep h d w)))"

lemma acceptance_wait_returns:
  assumes "acceptance_clock h" "0 < interval"
  shows "\<exists>y. acceptance_wait h interval deadline w = Some y"
proof (induction "nat \<lceil>(deadline - ah_now h w) / interval\<rceil>" arbitrary: w rule: less_induct)
  case less
  obtain r w1 where r: "ah_readiness h w = (r, w1)" by fastforce
  have later: "ah_now h w \<le> ah_now h w1" using assms(1) r by (metis acceptance_clock_def snd_conv)
  show ?case
  proof (cases "\<exists>payload. r = Inr payload \<and> \<not> ready_and_registered payload \<and> ah_now h w1 < deadline")
    case True
    then have "nat \<lceil>(deadline - ah_now h (ah_sleep h interval w1)) / interval\<rceil> < nat \<lceil>(deadline - ah_now h w) / interval\<rceil>"
      using assms later by (intro ceiling_steps [of _ _ "ah_now h w1"]) (auto simp: acceptance_clock_def)
    from less [OF this] True show ?thesis by (subst acceptance_wait.simps) (auto simp: r)
  next
    case False
    then show ?thesis by (subst acceptance_wait.simps) (cases r; auto simp: r)
  qed
qed

lemma acceptance_run_returns:
  assumes "acceptance_clock h" "0 < ac_poll_interval c"
  shows "\<exists>y. acceptance_run h c w = Some y"
proof -
  have "\<exists>y. started_service h c w1 = Some y" for w1
    using acceptance_wait_returns [OF assms] by (auto simp: started_service_def split: prod.splits sum.splits) blast
  then have "\<forall>w1. started_service h c w1 \<noteq> None" by auto
  then have "acceptance_run h c w \<noteq> None" unfolding acceptance_run_def by (simp del: not_None_eq split: prod.split sum.split option.split)
  then show ?thesis by blast
qed

end
