(* ===== verification/Host_Props.thy ===== *)
theory Host_Props
  imports Deployment_Acceptance
begin

text \<open>
  Properties of what the setup and the validation do on a host: writing and reading the files the setup
  owns, and accepting a deployment. The witnesses write a file to a small tree and accept a worker with
  one of two GPUs on a host whose service becomes ready at the second poll.
\<close>

section \<open>Files\<close>

lemma tree_ok_listed:
  assumes "is_directory s []" "list_all (\<lambda>(p, n). p \<noteq> [] \<longrightarrow> is_directory s (butlast p)) (fs_nodes s)"
  shows "tree_ok s"
  using assms by (auto simp: tree_ok_def fs_get_def list_all_iff dest!: map_of_SomeD)

definition sample_node :: "node_kind \<Rightarrow> fs_node" where
  "sample_node k = \<lparr>nd_kind = k, nd_uid = 0, nd_gid = 0, nd_mode = (if k = Directory then 0x1ED else 0x1A4), nd_nlink = 1,
     nd_dev = 1, nd_ino = 2, nd_mtime = 0, nd_ctime = 0\<rparr>"

definition sample_fs :: file_system where
  "sample_fs = \<lparr>fs_nodes = [([], sample_node Directory), ([''etc''], sample_node Directory), ([''etc'', ''a''], sample_node (Regular ''old''))],
     fs_now = 0, fs_next = 10, fs_euid = 0, fs_egid = 0, fs_token = (\<lambda>n. ''00''), fs_fault = (\<lambda>n op p. False)\<rparr>"

definition sample_setup :: setup_fs where
  "sample_setup = \<lparr>sf_root = slash, sf_owner = 0\<rparr>"


definition sample_write :: "unit fio" where
  "sample_write = write_text sample_setup \<lparr>wo_mode = 0x180, wo_gid = None, wo_preserve = True\<rparr> (path_of ''/etc/a'') ''new''"

lemma sample_tree: "tree_ok sample_fs"
  by (rule tree_ok_listed) (simp_all add: sample_fs_def sample_node_def is_directory_def fs_get_def)

lemma sample_writes: "fst (sample_write sample_fs) = Inr ()"
  by code_simp





section \<open>Accepting a deployment\<close>


text \<open>The example: two GPUs, the first selected; the service is ready at the second poll and stops at once.\<close>

definition sample_properties :: "(string, string) dict" where
  "sample_properties = [(''DevicePolicy'', ''closed''), (''DeviceAllow'', ''/dev/nvidia0 rw /dev/nvidiactl rw''),
     (''Environment'', ''CUDA_VISIBLE_DEVICES=GPU-a ASTRUMWEAVER_GPU_PREFLIGHT_MODE=isolated-access ASTRUMWEAVER_GPU_DEVICE_MAP=/m ASTRUMWEAVER_GPU_WORKER_CONFIG=/w ASTRUMWEAVER_GPU_DEVICE_MAP_COMMAND=/c ASTRUMWEAVER_NVIDIA_SMI=/n''),
     (''EnvironmentFiles'', ''/etc/worker.env (ignore_errors=no)''), (''UnsetEnvironment'', ''''),
     (''ExecStartPre'', ''{ path=/usr/local/libexec/astrumweaver/gpu-preflight ; argv[]=/usr/local/libexec/astrumweaver/gpu-preflight /etc/astrumweaver/gpu-uuids ; ignore_errors=no }''),
     (''Requires'', isolation_preflight), (''After'', isolation_preflight)]"

definition sample_acceptance_host :: "(rat \<times> bool) acceptance_host" where
  "sample_acceptance_host = \<lparr>ah_device_map = sret [(''GPU-a'', ''/dev/nvidia0''), (''GPU-b'', ''/dev/nvidia1'')],
     ah_contract = sret ([''GPU-a''], True), ah_properties = sret sample_properties,
     ah_active = (\<lambda>w. (Inr (snd w), w)), ah_start = (\<lambda>w. (Inr (), fst w, True)), ah_stop = (\<lambda>w. (Inr (), fst w, False)),
     ah_readiness = (\<lambda>w. (Inr (if fst w = 0 then None else Some [(''ready'', JBool True), (''registered'', JBool True)]), w)),
     ah_probe = (\<lambda>e. sret ''ENFORCEABLE''), ah_read_file = (\<lambda>w p. File_Text ''TOKEN=x''), ah_now = fst,
     ah_sleep = (\<lambda>d w. (fst w + d, snd w)), ah_date = (\<lambda>w. ''2026-01-01'')\<rparr>"

definition sample_acceptance :: acceptance_runner where
  "sample_acceptance = \<lparr>ac_expected = [''GPU-a''], ac_revision = ''0123456'', ac_deployment_path = ''systemd'',
     ac_start_timeout = 60, ac_poll_interval = 1\<rparr>"

lemma sample_clock: "acceptance_clock (logging_host sample_acceptance_host)"
  by (auto simp: acceptance_clock_def logging_host_def noted_def sample_acceptance_host_def)

lemma sample_checks:
  "acceptance_checks (logging_host sample_acceptance_host) sample_acceptance ((0, False), []) =
     (Inr [(''GPU-a'', ''/dev/nvidia0''), (''GPU-b'', ''/dev/nvidia1'')], (0, False), [Saw_Active False])"
  by code_simp

lemma sample_accepted:
  "acceptance_run (logging_host sample_acceptance_host) sample_acceptance ((0, False), []) =
     Some (Inr (accepted_evidence sample_acceptance ''2026-01-01'' 2), (1, False),
       [Saw_Active False, Started, Saw_Ready False, Saw_Ready True, Stopped, Saw_Active False, Saw_Active False])"
  unfolding acceptance_run_def acceptance_checks_def [symmetric] sample_checks
  by (simp add: started_service_def acceptance_wait.simps logging_host_def noted_def sample_acceptance_host_def sample_acceptance_def
      ready_and_registered_def check_ready_def json_get_def ensure_service_stopped_def stop_round_def sbind_def scatch_def sret_def
      acceptance_unless_def eval_nat_numeral)


text \<open>
  The fail-closed acceptance never looks at the unit: its evidence, which reports the visible devices of
  the service as exact, is the same whatever the effective properties are.
\<close>

lemma fail_closed_unit_unread:
  "acceptance_run_fail_closed (h\<lparr>ah_properties := any\<rparr>) c w = acceptance_run_fail_closed h c w \<and>
     (\<forall>e w'. acceptance_run_fail_closed h c w = (Inr e, w') \<longrightarrow> ev_cuda_visible_devices_exact e = ''PASS'')"
  by (auto simp: acceptance_run_fail_closed_def check_selection_def sbind_Inr fail_closed_evidence_def)

end
