(* ===== verification/Spec2Isabelle.thy ===== *)
theory Spec2Isabelle
  imports Worker_Stop Worker_Mode Setup_Props Host_Props
begin

text \<open>
  A verification library for AstrumWeaver (\<open>src/src/astrumweaver/\<close>), a scheduler for GPU jobs. A control
  plane keeps workers and jobs and serves them over HTTP; a worker owns a set of GPUs, claims jobs under
  a lease, runs them through a runtime (a model server it owns) and reports the outcome; a planner chooses
  the runtime; a command hands the GPUs of a borrowable worker to development and back.

  \<^bold>\<open>Conventions.\<close> Classes are records, enumerations datatypes, dictionaries association lists in insertion
  order. Checks of constructors are functions \<open>mk_...\<close> into a sum with the exceptions on the left, in the
  order in which the source raises them. Stateful classes are explicit state passing; a component with
  several callers is a step function with events, and \<open>run\<close> performs a list of them. Coroutines are cut at
  their awaits, so that every interleaving of the event loop is a list of events. Times are rationals
  (monotonic clock) or integer microseconds (dates); both are arguments. Code outside the repository (the
  HTTP library, PostgreSQL, SHA-256, the executor, \<open>systemctl\<close>, \<open>nvidia-smi\<close>, device nodes, providers as
  plug-ins) is an argument of the definitions that use it.

  \<^bold>\<open>Foundations.\<close>
  \<^item> \<open>Prelude\<close>: dictionaries, least elements, text, and the locales \<open>transition_system\<close> and
    \<open>monotone_system\<close>, in which invariants and step relations of every component are lifted to runs.
  \<^item> \<open>Py_Values\<close>: exceptions, decimal text, \<open>splitlines\<close> and \<open>split\<close>, JSON values with Python's
    equality, truth and conversions. Text is limited to code points below 256; \<open>Unmodelled\<close> marks the
    conversions about which nothing is claimed (the text of floats and containers).

  \<^bold>\<open>Control plane.\<close>
  \<^item> \<open>Contracts\<close> (\<open>contracts.py\<close>), \<open>Execution\<close> (\<open>execution.py\<close>), \<open>Models\<close> (\<open>control/models.py\<close>): value
    classes with their validators; normalised values pass their own constructor unchanged.
  \<^item> \<open>Scheduling\<close> (\<open>scheduling.py\<close>): the matcher is the conjunction of its conditions.
  \<^item> \<open>Repository\<close> (\<open>control/repository.py\<close>), with \<open>Repository_Inv\<close>, \<open>Repository_Life\<close>,
    \<open>Repository_Props\<close>, \<open>Repository_Ends\<close>: all operations as \<open>repo_step\<close>; the invariant \<open>repo_inv\<close>
    (well-formed records, exclusive GPU ownership, exact slot accounting, unique sequence numbers); the
    history of a job as a step relation; fencing of stale leases, the choice of a claim, retry budget,
    idempotent submission, and the exact effect of completion, failure and the two sweeps.
  \<^item> \<open>Serde\<close> (\<open>control/serde.py\<close>), \<open>Transport\<close> (\<open>transport.py\<close>): messages and their round trips.
  \<^item> \<open>Api\<close>, \<open>Api_Props\<close> (\<open>control/api.py\<close>, \<open>control/auth.py\<close>, \<open>control/daemon.py\<close>): routing, bearer
    authorities, handlers and the maintenance round over any repository that satisfies the locale
    \<open>control_repository\<close>, interpreted for the in-memory repository and for PostgreSQL.
  \<^item> \<open>Postgres\<close>, \<open>Postgres_Refine\<close>, \<open>Postgres_Props\<close> (\<open>control/postgres.py\<close> with the tables of
    \<open>migrations/001_control_plane.sql\<close>): rows, transactions, queries and advisory locks; each operation
    refines the one of the in-memory repository, whole runs too; the ownership locks cannot deadlock.

  \<^bold>\<open>Runtimes.\<close>
  \<^item> \<open>Runtime_Contracts\<close>, \<open>Runtime_Planner\<close>, \<open>Runtime_Deployment\<close> (\<open>runtime/contracts.py\<close>,
    \<open>runtime/planner.py\<close>, \<open>runtime/deployment.py\<close>): demands, compatibility reports, the resolution of a
    runtime and deployment files. A provider is a record of its answers. An explicit selection is never
    replaced, a recommendation lists exactly the compatible providers, the order of the catalogue does
    not matter, deployment files are read back as written.
  \<^item> \<open>Runtime_Lifecycle\<close> (\<open>runtime/lifecycle.py\<close>): start, stop, restart and shutdown of a managed
    runtime in an arbitrary world with a clock. The polling loops are partial functions; they are proved
    to return on every clock that advances while sleeping.
  \<^item> \<open>Supervision\<close> (\<open>worker/supervision.py\<close>): the health authority of an owned runtime; failures are
    latched and availability rests on a recent successful probe.

  \<^bold>\<open>Providers\<close> (\<open>runtime/providers/\<close>). The five modules repeat the process controller, the start-up,
  the health report and the OpenAI-style API up to names and texts, so each of these is one definition.
  \<^item> \<open>Provider_Common\<close>, \<open>Provider_Server\<close>: awaited calls as state transformers with exceptions over an
    arbitrary host; the subprocess controller and start, stop, health and release of a managed runtime.
    The locale \<open>owned_server\<close> states what the parts of a provider must keep and proves the start-up
    once; every provider interprets it.
  \<^item> \<open>Provider_Api\<close>: the parts of \<open>urlsplit\<close> in use, JSON over HTTP, the executor of four providers, the
    readers of stored configurations.
  \<^item> \<open>Provider_Ollama\<close>, \<open>Provider_Llama\<close>, \<open>Provider_Vllm\<close>, \<open>Provider_Freetoken\<close>, \<open>Provider_Exllama\<close>:
    configuration, launch policy, command line or environment, executor, server, compatibility report,
    setup intent and the runtime built from an intent. vLLM's memory budget is computed in double
    precision.
  \<^item> \<open>Provider_Config\<close>, \<open>Providers\<close>: configurations as stored in a deployment and read back; the table
    deployments are restored from.
  \<^item> \<open>Provider_Props\<close>: a start returns and cleans up, health reports are truthful, a frozen deployment
    starts what was reviewed, VRAM-only demands fit, endpoints are local, executors send the bound model.

  \<^bold>\<open>Setup\<close> (\<open>setup/\<close>).
  \<^item> \<open>Setup_Contracts\<close> (\<open>setup/contracts.py\<close>): snapshots, actions, plans and their JSON form, approvals and
    results. Payloads are key-sorted JSON; the digest is an arbitrary function of that value.
  \<^item> \<open>Setup_Planner\<close> (\<open>setup/planner.py\<close>): the action builder as a fold over templates; every plan is the
    sequence of its templates.
  \<^item> \<open>Setup_Apply\<close> (\<open>setup/apply.py\<close>): preview, approval, application and rollback over any driver; a
    driver that logs its calls makes their order a statement about lists.
  \<^item> \<open>Setup_Migration\<close> (\<open>setup/migration.py\<close>): recognising and rendering the installed worker's TOML file
    and unit, over the text itself; the TOML reader is an argument.
  \<^item> \<open>Setup_Files\<close> (\<open>setup/filesystem.py\<close>): a POSIX tree with owners, modes, inodes and times, in which any
    system call may fail, and every operation of the setup's file system on it. The locales \<open>kept\<close>,
    \<open>fs_kept\<close> and \<open>dir_kept\<close> say which relations between states all composite operations keep when the
    calls do; they are interpreted for what reading, preparing a directory and writing leave alone, and
    for the tree invariant.
  \<^item> \<open>Setup_Props\<close>: the order of a plan, its round trip, that nothing is called without approval, what a
    failed application undoes, and what a migration changes.

  \<^bold>\<open>Validation\<close> (\<open>validation/\<close>).
  \<^item> \<open>Deployment_Acceptance\<close> (\<open>validation/runtime_deployment.py\<close>): \<open>shlex.split\<close>, the reading of effective
    unit properties and what they must say, the acceptance of a deployment on a host that logs what is
    asked of the service, and the systemd host. The waiting loop is a partial function and returns on
    every clock that advances while sleeping.
  \<^item> \<open>Host_Props\<close>: files are written all or nothing and read only where they can be trusted; acceptance
    returns, stops what it started, and accepts only an isolated unit seen ready and stopped again.

  \<^bold>\<open>Worker.\<close>
  \<^item> \<open>Worker_Client\<close> (\<open>worker/client.py\<close>): requests and the reading of answers; joined with \<open>Api\<close>, each
    call is the repository operation it names.
  \<^item> \<open>Worker_Runtime\<close> (\<open>worker/runtime.py\<close>, \<open>worker/health.py\<close>): the execution loop as 11 waiting places
    and 18 events, interleaved with drains, signals, the executor and the supervisor.
    \<open>Worker_Protocol\<close> proves that the requests are accepted by a protocol monitor, \<open>Worker_Props\<close> that
    claims are sent only with fresh entitlement and never after a drain, \<open>Worker_Stop\<close> that a stop comes
    to its end: a rank of the waiting places bounds the remaining moves by 21.
  \<^item> \<open>Gpu_Mapping\<close> (\<open>gpu_mapping.py\<close> and the GPU checks of \<open>worker/runtime.py\<close>): GPU identity, reviewed
    maps and the proof of isolated access.
  \<^item> \<open>Worker_Mode\<close> (\<open>worker/mode.py\<close>): handing GPUs over; the calls of a transition are read by a
    monitor, and transitions with finite timeouts return.

  \<^bold>\<open>Not modelled.\<close> The rest of \<open>setup/\<close> (first run, terminal interface, discovery, the systemd driver)
  and of \<open>validation/\<close> (reports on real hardware, rendering of evidence), the example executors, the start-up of the worker daemon
  and the migration command: they are mostly process and file handling. Of the modelled files, argument
  parsing, log lines, HTTP connection handling, the cancellation of requests in flight and of the
  worker's main task are left out, and so is the loading of executors by name. The text of a float in a
  command line is kept symbolic.

  \<^bold>\<open>Plan.\<close> Next come the systemd driver of \<open>setup/\<close>, then the executors and
  the worker daemon's start-up checks.
\<close>

end
